(* ===== verification/Prelude.thy ===== *)
theory Prelude
  imports Main "HOL-Library.Word" "HOL-Library.Signed_Division" "HOL-Library.Monad_Syntax"
begin

unbundle bit_operations_syntax

text \<open>
  The shared base of the development: the machine integer types of the driver,
  little-endian access to byte buffers, C bit-fields inside a 16-bit word, the
  socket buffer with its slack memory, Ethernet addresses, kernel timers, and
  the generic list lemmas that the component theories use.
\<close>

section \<open>Machine integers\<close>

type_synonym u8 = "8 word"
type_synonym u16 = "16 word"
type_synonym u32 = "32 word"
type_synonym u64 = "64 word"
type_synonym mac = "u8 list"

named_theorems word_eval \<open>rules that evaluate ground terms over words and bit-fields\<close>
named_theorems frame \<open>fields that an operation leaves alone\<close>

text \<open>C division and remainder of the signed type int round towards zero.\<close>

abbreviation c_div :: "int \<Rightarrow> int \<Rightarrow> int" where
  "c_div a b \<equiv> a sdiv b"

abbreviation c_mod :: "int \<Rightarrow> int \<Rightarrow> int" where
  "c_mod a b \<equiv> a smod b"

lemma c_mod_nonneg: "0 \<le> a \<Longrightarrow> 0 < b \<Longrightarrow> c_mod a b = a mod b"
  by (cases "a = 0") (simp_all add: signed_modulo_int_def signed_divide_int_def minus_div_mult_eq_mod)

lemma c_div_nonneg: "0 \<le> a \<Longrightarrow> 0 < b \<Longrightarrow> c_div a b = a div b"
  by (cases "a = 0") (simp_all add: signed_divide_int_def)

section \<open>Bit-fields\<close>

text \<open>
  A C bit-field of \<open>len\<close> bits at offset \<open>off\<close> of its storage unit, as the
  little-endian ABI lays it out.
\<close>

definition bf_get :: "nat \<Rightarrow> nat \<Rightarrow> 'a::len word \<Rightarrow> 'a word" where
  "bf_get off len w = take_bit len (drop_bit off w)"

definition bf_put :: "nat \<Rightarrow> nat \<Rightarrow> 'a::len word \<Rightarrow> 'a word \<Rightarrow> 'a word" where
  "bf_put off len v w =
     (w AND NOT (push_bit off (mask len))) OR push_bit off (take_bit len v)"

lemma bit_bf_get:
  "bit (bf_get off len (w :: 'a::len word)) n \<longleftrightarrow> n < len \<and> bit w (off + n)"
  by (auto simp: bf_get_def bit_simps)

lemma bit_bf_put:
  "bit (bf_put off len v (w :: 'a::len word)) n \<longleftrightarrow>
     n < LENGTH('a) \<and>
     (if off \<le> n \<and> n < off + len then bit v (n - off) else bit w n)"
  by (auto simp: bf_put_def bit_simps dest: bit_imp_le_length)

lemma bf_get_put_same:
  assumes "off + len \<le> LENGTH('a::len)"
  shows "bf_get off len (bf_put off len v (w :: 'a word)) = take_bit len v"
  using assms by (intro bit_word_eqI) (auto simp: bit_bf_get bit_bf_put bit_simps)

lemma bf_get_put_disjoint:
  assumes "off + len \<le> off' \<or> off' + len' \<le> off"
  shows "bf_get off len (bf_put off' len' v (w :: 'a::len word)) = bf_get off len w"
  using assms
  by (intro bit_word_eqI) (auto simp: bit_bf_get bit_bf_put dest: bit_imp_le_length)

section \<open>Byte buffers\<close>

definition le16 :: "u8 \<Rightarrow> u8 \<Rightarrow> u16" where
  "le16 lo hi = ucast lo OR push_bit 8 (ucast hi)"

definition put16 :: "u16 \<Rightarrow> u8 list" where
  "put16 w = [ucast w, ucast (drop_bit 8 w)]"

lemma length_put16 [simp]: "length (put16 w) = 2"
  by (simp add: put16_def)

lemma le16_put16: "le16 (put16 w ! 0) (put16 w ! 1) = w"
  by (intro bit_word_eqI) (auto simp: le16_def put16_def bit_simps)

lemma put16_le16: "put16 (le16 lo hi) = [lo, hi]"
proof -
  have "ucast (le16 lo hi) = lo"
    by (intro bit_word_eqI) (auto simp: le16_def bit_simps dest: bit_imp_le_length)
  moreover have "ucast (drop_bit 8 (le16 lo hi)) = hi"
    by (intro bit_word_eqI) (auto simp: le16_def bit_simps dest: bit_imp_le_length)
  ultimately show ?thesis
    by (simp add: put16_def)
qed

text \<open>
  A socket buffer: \<open>sk_mem\<close> is the memory from the data pointer to the end of the
  allocation, and \<open>sk_len\<close> the number of bytes of it that are the frame. A read
  beyond \<open>sk_len\<close> but inside \<open>sk_mem\<close> returns stale bytes, as it does in the
  driver; a read beyond the allocation is a fault, the value \<open>None\<close>.
\<close>

record skb =
  sk_mem :: "u8 list"
  sk_len :: nat

definition skb_wf :: "'a skb_scheme \<Rightarrow> bool" where
  "skb_wf s \<longleftrightarrow> sk_len s \<le> length (sk_mem s)"

definition skb_frame :: "'a skb_scheme \<Rightarrow> u8 list" where
  "skb_frame s = take (sk_len s) (sk_mem s)"

definition rd8 :: "'a skb_scheme \<Rightarrow> nat \<Rightarrow> u8 option" where
  "rd8 s i = (if i < length (sk_mem s) then Some (sk_mem s ! i) else None)"

definition rd16 :: "'a skb_scheme \<Rightarrow> nat \<Rightarrow> u16 option" where
  "rd16 s i = do { lo \<leftarrow> rd8 s i; hi \<leftarrow> rd8 s (Suc i); Some (le16 lo hi) }"

definition rdn :: "'a skb_scheme \<Rightarrow> nat \<Rightarrow> nat \<Rightarrow> u8 list option" where
  "rdn s i n = (if i + n \<le> length (sk_mem s) then Some (take n (drop i (sk_mem s))) else None)"

lemma rd8_Some [simp]: "rd8 s i = Some x \<longleftrightarrow> i < length (sk_mem s) \<and> x = sk_mem s ! i"
  by (auto simp: rd8_def)

lemma rd8_None [simp]: "rd8 s i = None \<longleftrightarrow> length (sk_mem s) \<le> i"
  by (auto simp: rd8_def)

lemma rd16_inside:
  "Suc i < length (sk_mem s) \<Longrightarrow> rd16 s i = Some (le16 (sk_mem s ! i) (sk_mem s ! Suc i))"
  by (simp add: rd16_def rd8_def)

lemma rd16_None [simp]: "rd16 s i = None \<longleftrightarrow> length (sk_mem s) \<le> Suc i"
  by (auto simp: rd16_def rd8_def)

lemma rdn_inside: "i + n \<le> length (sk_mem s) \<Longrightarrow> rdn s i n = Some (take n (drop i (sk_mem s)))"
  by (simp add: rdn_def)

section \<open>Ethernet addresses\<close>

text \<open>The kernel's \<open>is_multicast_ether_addr\<close> and \<open>is_broadcast_ether_addr\<close>.\<close>

definition is_multicast_ether_addr :: "mac \<Rightarrow> bool" where
  "is_multicast_ether_addr a \<longleftrightarrow> bit (a ! 0) 0"

definition is_broadcast_ether_addr :: "mac \<Rightarrow> bool" where
  "is_broadcast_ether_addr a \<longleftrightarrow> take 6 a = replicate 6 0xff"

section \<open>Lists\<close>

lemma nth_list_update_if:
  "j < length xs \<Longrightarrow> (xs[i := v]) ! j = (if i = j then v else xs ! j)"
  by auto

text \<open>Writing one value to a range of consecutive indices, as a counted loop does.\<close>

fun fill :: "nat \<Rightarrow> nat \<Rightarrow> 'a \<Rightarrow> 'a list \<Rightarrow> 'a list" where
  "fill first 0 v xs = xs"
| "fill first (Suc n) v xs = fill (Suc first) n v (xs[first := v])"

lemma length_fill [simp]: "length (fill first n v xs) = length xs"
  by (induction n arbitrary: first xs) auto

lemma nth_fill:
  "i < length xs \<Longrightarrow>
     fill first n v xs ! i = (if first \<le> i \<and> i < first + n then v else xs ! i)"
  by (induction n arbitrary: first xs) (auto simp: nth_list_update_if)

section \<open>Simulation\<close>

text \<open>Runs of a step relation labelled by events.\<close>

inductive lrun :: "('e \<Rightarrow> 's \<Rightarrow> 's \<Rightarrow> bool) \<Rightarrow> 'e list \<Rightarrow> 's \<Rightarrow> 's \<Rightarrow> bool" for step where
  lrun_Nil: "lrun step [] a a"
| lrun_Cons: "step e a b \<Longrightarrow> lrun step es b c \<Longrightarrow> lrun step (e # es) a c"

inductive_simps lrun_Nil_iff [simp]: "lrun step [] a b"
inductive_simps lrun_Cons_iff: "lrun step (e # es) a c"

text \<open>
  The interface between a component that processes events, where None is a fault, and
  the abstract specification it implements.
\<close>

fun crun :: "('e \<Rightarrow> 'c \<Rightarrow> 'c option) \<Rightarrow> 'e list \<Rightarrow> 'c \<Rightarrow> 'c option" where
  "crun cstep [] c = Some c"
| "crun cstep (e # es) c = (case cstep e c of None \<Rightarrow> None | Some c' \<Rightarrow> crun cstep es c')"

locale forward_sim =
  fixes cstep :: "'e \<Rightarrow> 'c \<Rightarrow> 'c option"
    and astep :: "'e \<Rightarrow> 'a \<Rightarrow> 'a \<Rightarrow> bool"
    and R :: "'c \<Rightarrow> 'a \<Rightarrow> bool"
    and ok :: "'e \<Rightarrow> bool"
  assumes step_sim: "R c a \<Longrightarrow> ok e \<Longrightarrow> \<exists>c' a'. cstep e c = Some c' \<and> astep e a a' \<and> R c' a'"
begin

lemma run_sim:
  "R c a \<Longrightarrow> \<forall>e \<in> set es. ok e \<Longrightarrow> \<exists>c' a'. crun cstep es c = Some c' \<and> lrun astep es a a' \<and> R c' a'"
proof (induction es arbitrary: c a)
  case (Cons e es)
  then obtain c1 a1 where 1: "cstep e c = Some c1" "astep e a a1" "R c1 a1"
    using step_sim by fastforce
  from Cons.IH[OF 1(3)] Cons.prems(2) obtain c' a' where
    "crun cstep es c1 = Some c'" "lrun astep es a1 a'" "R c' a'" by auto
  with 1 show ?case by (auto simp: lrun_Cons_iff)
qed simp

lemma run_no_fault: "R c a \<Longrightarrow> \<forall>e \<in> set es. ok e \<Longrightarrow> crun cstep es c \<noteq> None"
  using run_sim by fastforce

end

end
