(* ===== verification/Dot11d.thy ===== *)
theory Dot11d
  imports Prelude
begin

text \<open>
  The 802.11d regulatory domain component, src/src/dot11d.c with the types of
  src/src/dot11d.h, and its only caller on the receive side,
  \<open>rtllib_extract_country_ie\<close> of src/src/rtllib_rx.c. The state is the
  \<open>RT_DOT11D_INFO\<close> of the device plus the three device fields that
  \<open>Dot11d_Channelmap\<close> sets. A read or write outside an array is a fault, the value
  \<open>None\<close>. The console messages are not modelled.
\<close>

section \<open>State\<close>

abbreviation (input) MAX_CHANNEL_NUMBER :: nat where "MAX_CHANNEL_NUMBER \<equiv> 161"
abbreviation (input) MAX_IE_LEN :: nat where "MAX_IE_LEN \<equiv> 255"

datatype DOT11D_STATE = DOT11D_STATE_NONE | DOT11D_STATE_LEARNED | DOT11D_STATE_DONE

record RT_DOT11D_INFO =
  bEnabled :: bool
  CountryIeLen :: u16
  CountryIeBuf :: "u8 list"
  CountryIeSrcAddr :: mac
  CountryIeWatchdog :: u8
  channel_map :: "u8 list"
  MaxTxPwrDbmList :: "u8 list"
  dot11d_State :: DOT11D_STATE

record dot11d_dev =
  pDot11dInfo :: RT_DOT11D_INFO
  bGlobalDomain :: bool
  IbssStartChnl :: u8
  ibss_maxjoin_chal :: u8

definition IS_COUNTRY_IE_CHANGED :: "RT_DOT11D_INFO \<Rightarrow> u8 list \<Rightarrow> bool" where
  "IS_COUNTRY_IE_CHANGED i ie =
     (if length ie = 0 \<or> length ie \<noteq> unat (CountryIeLen i) then False
      else take (length ie) (CountryIeBuf i) = ie)"

section \<open>Operations\<close>

definition ChannelPlan :: "u8 list list" where
  "ChannelPlan =
    [[1, 2, 3, 4, 5, 6, 7, 8, 9, 10, 11, 36, 40, 44, 48, 52, 56, 60, 64, 149, 153, 157, 161, 165],
     [1, 2, 3, 4, 5, 6, 7, 8, 9, 10, 11],
     [1, 2, 3, 4, 5, 6, 7, 8, 9, 10, 11, 12, 13, 36, 40, 44, 48, 52, 56, 60, 64],
     [1, 2, 3, 4, 5, 6, 7, 8, 9, 10, 11, 12, 13],
     [1, 2, 3, 4, 5, 6, 7, 8, 9, 10, 11, 12, 13],
     [1, 2, 3, 4, 5, 6, 7, 8, 9, 10, 11, 12, 13, 14, 36, 40, 44, 48, 52, 56, 60, 64],
     [1, 2, 3, 4, 5, 6, 7, 8, 9, 10, 11, 12, 13, 14, 36, 40, 44, 48, 52, 56, 60, 64],
     [1, 2, 3, 4, 5, 6, 7, 8, 9, 10, 11, 12, 13],
     [1, 2, 3, 4, 5, 6, 7, 8, 9, 10, 11, 12, 13, 14, 36, 40, 44, 48, 52, 56, 60, 64],
     [1, 2, 3, 4, 5, 6, 7, 8, 9, 10, 11, 12, 13, 14, 36, 40, 44, 48, 52, 56, 60, 64],
     [1, 2, 3, 4, 5, 6, 7, 8, 9, 10, 11, 12, 13, 14],
     [1, 2, 3, 4, 5, 6, 7, 8, 9, 10, 11, 12, 13],
     [1, 2, 3, 4, 5, 6, 7, 8, 9, 10, 11, 12, 13, 36, 40, 44, 48, 52, 56, 60, 64]]"

definition Dot11d_Init :: "dot11d_dev \<Rightarrow> dot11d_dev" where
  "Dot11d_Init d = d\<lparr>pDot11dInfo := (pDot11dInfo d)\<lparr>
     bEnabled := False, dot11d_State := DOT11D_STATE_NONE, CountryIeLen := 0,
     channel_map := replicate (MAX_CHANNEL_NUMBER + 1) 0,
     MaxTxPwrDbmList := replicate (MAX_CHANNEL_NUMBER + 1) 0xff,
     CountryIeWatchdog := 0\<rparr>\<rparr>"

text \<open>The loop over a plan's channels stops at the first one outside 1 to 14.\<close>

fun mark_plan :: "u8 list \<Rightarrow> u8 list \<Rightarrow> u8 list" where
  "mark_plan [] cm = cm"
| "mark_plan (c # cs) cm =
     (if c < 1 \<or> c > 14 then cm else mark_plan cs (cm[unat c := 1]))"

definition Dot11d_Channelmap :: "u8 \<Rightarrow> dot11d_dev \<Rightarrow> dot11d_dev option" where
  "Dot11d_Channelmap channel_plan d =
     (if length ChannelPlan \<le> unat channel_plan then None
      else
        let plan = ChannelPlan ! unat channel_plan;
            cm = (if length plan \<noteq> 0
                  then mark_plan plan (replicate (MAX_CHANNEL_NUMBER + 1) 0)
                  else channel_map (pDot11dInfo d));
            d1 = d\<lparr>bGlobalDomain := False\<rparr>
        in Some (if channel_plan = 10 then
                   d1\<lparr>bGlobalDomain := True,
                      pDot11dInfo := (pDot11dInfo d1)\<lparr>channel_map := fill 12 3 2 cm\<rparr>,
                      IbssStartChnl := 10, ibss_maxjoin_chal := 11\<rparr>
                 else if channel_plan = 11 then
                   d1\<lparr>pDot11dInfo := (pDot11dInfo d1)\<lparr>channel_map := fill 12 2 2 cm\<rparr>,
                      IbssStartChnl := 10, ibss_maxjoin_chal := 11\<rparr>
                 else
                   d1\<lparr>pDot11dInfo := (pDot11dInfo d1)\<lparr>channel_map := cm\<rparr>,
                      IbssStartChnl := 1, ibss_maxjoin_chal := 14\<rparr>))"

definition Dot11d_Reset :: "dot11d_dev \<Rightarrow> dot11d_dev" where
  "Dot11d_Reset d = d\<lparr>pDot11dInfo := (pDot11dInfo d)\<lparr>
     channel_map := fill 12 3 2 (fill 1 11 1 (replicate (MAX_CHANNEL_NUMBER + 1) 0)),
     MaxTxPwrDbmList := replicate (MAX_CHANNEL_NUMBER + 1) 0xff,
     dot11d_State := DOT11D_STATE_NONE, CountryIeLen := 0, CountryIeWatchdog := 0\<rparr>\<rparr>"

text \<open>
  The loop of \<open>Dot11d_UpdateCountryIe\<close> over \<open>n\<close> triples at the memory \<open>ie\<close>, with
  \<open>MaxChnlNum\<close>, the channel map and the power list. The Boolean of the result is False
  where the code returns on an invalid triple. The power byte is read only where the
  inner loop runs.
\<close>

fun walk_triples ::
  "nat \<Rightarrow> u8 list \<Rightarrow> u8 \<Rightarrow> u8 list \<Rightarrow> u8 list \<Rightarrow> (bool \<times> u8 list \<times> u8 list) option" where
  "walk_triples 0 ie mx cm pw = Some (True, cm, pw)"
| "walk_triples (Suc n) ie mx cm pw =
     (case ie of
        [] \<Rightarrow> None
      | FirstChnl # r \<Rightarrow>
          if mx \<ge> FirstChnl then Some (False, cm, pw)
          else (case r of
                  [] \<Rightarrow> None
                | NumChnls # r2 \<Rightarrow>
                    if MAX_CHANNEL_NUMBER < unat FirstChnl + unat NumChnls then Some (False, cm, pw)
                    else if NumChnls = 0 then walk_triples n (drop 1 r2) mx cm pw
                    else (case r2 of
                            [] \<Rightarrow> None
                          | MaxTxPowerInDbm # rest \<Rightarrow>
                              walk_triples n rest (FirstChnl + NumChnls - 1)
                                (fill (unat FirstChnl) (unat NumChnls) 1 cm)
                                (fill (unat FirstChnl) (unat NumChnls) MaxTxPowerInDbm pw))))"

definition num_triples :: "u16 \<Rightarrow> u8" where
  "num_triples CoutryIeLen = word_of_int (c_div (uint CoutryIeLen - 3) 3)"

definition Dot11d_UpdateCountryIe ::
  "dot11d_dev \<Rightarrow> mac \<Rightarrow> u16 \<Rightarrow> u8 list \<Rightarrow> dot11d_dev option" where
  "Dot11d_UpdateCountryIe d pTaddr CoutryIeLen pCoutryIe =
     (case walk_triples (unat (num_triples CoutryIeLen)) (drop 3 pCoutryIe) 0
             (replicate (MAX_CHANNEL_NUMBER + 1) 0) (replicate (MAX_CHANNEL_NUMBER + 1) 0xff) of
        None \<Rightarrow> None
      | Some (ok, cm, pw) \<Rightarrow>
          let d1 = d\<lparr>pDot11dInfo := (pDot11dInfo d)\<lparr>channel_map := cm, MaxTxPwrDbmList := pw\<rparr>\<rparr>;
              n = unat CoutryIeLen
          in if \<not> ok then Some d1
             else if MAX_IE_LEN < n \<or> length pCoutryIe < n then None
             else Some (d1\<lparr>pDot11dInfo := (pDot11dInfo d1)\<lparr>
                    CountryIeSrcAddr := take 6 pTaddr,
                    CountryIeLen := CoutryIeLen,
                    CountryIeBuf := take n pCoutryIe @ drop n (CountryIeBuf (pDot11dInfo d1)),
                    dot11d_State := DOT11D_STATE_LEARNED\<rparr>\<rparr>))"

definition DOT11D_GetMaxTxPwrInDbm :: "dot11d_dev \<Rightarrow> u8 \<Rightarrow> u8" where
  "DOT11D_GetMaxTxPwrInDbm d Channel =
     (if MAX_CHANNEL_NUMBER < unat Channel then 255
      else if channel_map (pDot11dInfo d) ! unat Channel \<noteq> 0
      then MaxTxPwrDbmList (pDot11dInfo d) ! unat Channel
      else 255)"

definition DOT11D_ScanComplete :: "dot11d_dev \<Rightarrow> dot11d_dev" where
  "DOT11D_ScanComplete d =
     (case dot11d_State (pDot11dInfo d) of
        DOT11D_STATE_LEARNED \<Rightarrow>
          d\<lparr>pDot11dInfo := (pDot11dInfo d)\<lparr>dot11d_State := DOT11D_STATE_DONE\<rparr>\<rparr>
      | DOT11D_STATE_DONE \<Rightarrow>
          if CountryIeWatchdog (pDot11dInfo d) = 0 then Dot11d_Reset d else d
      | DOT11D_STATE_NONE \<Rightarrow> d)"

definition IsLegalChannel :: "dot11d_dev \<Rightarrow> u8 \<Rightarrow> bool" where
  "IsLegalChannel d channel =
     (if MAX_CHANNEL_NUMBER < unat channel then False
      else channel_map (pDot11dInfo d) ! unat channel > 0)"

definition ToLegalChannel :: "dot11d_dev \<Rightarrow> u8 \<Rightarrow> u8" where
  "ToLegalChannel d channel =
     (let default_chn =
            (case find (\<lambda>i. channel_map (pDot11dInfo d) ! i > 0) [1..<MAX_CHANNEL_NUMBER + 1] of
               None \<Rightarrow> 0 | Some i \<Rightarrow> word_of_nat i)
      in if MAX_CHANNEL_NUMBER < unat channel then default_chn
         else if channel_map (pDot11dInfo d) ! unat channel > 0 then channel
         else default_chn)"

text \<open>
  The country element of a received beacon: \<open>len\<close> and \<open>data\<close> are the element, \<open>addr2\<close>
  the transmitter, and the pair in the state is the \<open>CountryIeBuf\<close> and \<open>CountryIeLen\<close> of
  the network entry.
\<close>

definition rtllib_extract_country_ie ::
  "dot11d_dev \<Rightarrow> u8 \<Rightarrow> u8 list \<Rightarrow> u8 list \<times> u16 \<Rightarrow> mac \<Rightarrow> (dot11d_dev \<times> u8 list \<times> u16) option" where
  "rtllib_extract_country_ie d len data net addr2 =
     (if \<not> bEnabled (pDot11dInfo d) then Some (d, net)
      else
        (case (if len = 0 then Some (d, net)
               else if length data < unat len \<or> length (fst net) < unat len then None
               else
                 let net1 = (take (unat len) data @ drop (unat len) (fst net), ucast len)
                 in if \<not> (CountryIeLen (pDot11dInfo d) > 0)
                    then map_option (\<lambda>d1. (d1, net1))
                           (Dot11d_UpdateCountryIe d addr2 (ucast len) data)
                    else Some (d, net1)) of
           None \<Rightarrow> None
         | Some (d1, net1) \<Rightarrow>
             if CountryIeSrcAddr (pDot11dInfo d1) = take 6 addr2
             then Some (d1\<lparr>pDot11dInfo := (pDot11dInfo d1)\<lparr>
                          CountryIeWatchdog := CountryIeWatchdog (pDot11dInfo d1) + 1\<rparr>\<rparr>, net1)
             else Some (d1, net1)))"

section \<open>What a country element means\<close>

fun triples_of :: "nat \<Rightarrow> u8 list \<Rightarrow> (u8 \<times> u8 \<times> u8) list" where
  "triples_of (Suc n) (f # k # p # rest) = (f, k, p) # triples_of n rest"
| "triples_of n ie = []"

fun covers :: "u8 \<times> u8 \<times> u8 \<Rightarrow> nat \<Rightarrow> bool" where
  "covers (f, k, p) c \<longleftrightarrow> unat f \<le> c \<and> c < unat f + unat k"

declare covers.simps [simp del]

text \<open>Triples are accepted when each starts above the highest channel so far.\<close>

fun triples_ok :: "nat \<Rightarrow> (u8 \<times> u8 \<times> u8) list \<Rightarrow> bool" where
  "triples_ok mx [] \<longleftrightarrow> True"
| "triples_ok mx ((f, k, p) # ts) \<longleftrightarrow>
     mx < unat f \<and> unat f + unat k \<le> MAX_CHANNEL_NUMBER \<and>
     triples_ok (if k = 0 then mx else unat f + unat k - 1) ts"

definition power_of :: "(u8 \<times> u8 \<times> u8) list \<Rightarrow> nat \<Rightarrow> u8" where
  "power_of ts c = (case find (\<lambda>t. covers t c) ts of None \<Rightarrow> 0xff | Some (f, k, p) \<Rightarrow> p)"

lemma triples_ok_above:
  "triples_ok mx ts \<Longrightarrow> t \<in> set ts \<Longrightarrow> covers t c \<Longrightarrow> mx < c"
proof (induction mx ts rule: triples_ok.induct)
  case (2 mx f k p ts)
  then show ?case
    by (cases "k = 0") (fastforce simp: unat_eq_0 covers.simps)+
qed simp

lemma triples_ok_le:
  "triples_ok mx ts \<Longrightarrow> t \<in> set ts \<Longrightarrow> covers t c \<Longrightarrow> c \<le> MAX_CHANNEL_NUMBER"
  by (induction mx ts rule: triples_ok.induct) (auto simp: covers.simps)

lemma unat_last_channel:
  assumes "unat f + unat k \<le> MAX_CHANNEL_NUMBER" "(k :: u8) \<noteq> 0"
  shows "unat (f + k - 1) = unat f + unat k - 1"
proof -
  have "unat (f + k) = unat f + unat k"
    using assms(1) by (simp add: unat_word_ariths)
  moreover have "f + k \<noteq> 0"
    using assms calculation by (metis add_eq_0_iff_both_eq_0 unat_eq_0)
  ultimately show ?thesis
    by (simp add: unat_minus_one)
qed

lemma walk_triples_spec:
  assumes "3 * n \<le> length ie" "length cm = MAX_CHANNEL_NUMBER + 1" "length pw = MAX_CHANNEL_NUMBER + 1"
  shows "\<exists>cm' pw'. walk_triples n ie mx cm pw = Some (triples_ok (unat mx) (triples_of n ie), cm', pw') \<and>
      length cm' = MAX_CHANNEL_NUMBER + 1 \<and> length pw' = MAX_CHANNEL_NUMBER + 1 \<and> cm' ! 0 = cm ! 0 \<and>
      (triples_ok (unat mx) (triples_of n ie) \<longrightarrow>
        (\<forall>c \<le> MAX_CHANNEL_NUMBER.
           cm' ! c = (if \<exists>t \<in> set (triples_of n ie). covers t c then 1 else cm ! c) \<and>
           pw' ! c = (case find (\<lambda>t. covers t c) (triples_of n ie) of
                        None \<Rightarrow> pw ! c | Some (f, k, p) \<Rightarrow> p)))"
  using assms
proof (induction n ie mx cm pw rule: walk_triples.induct)
  case (1 ie mx cm pw)
  then show ?case by simp
next
  case (2 n ie mx cm pw)
  from "2.prems"(1) obtain f k p rest where ie: "ie = f # k # p # rest" and len: "3 * n \<le> length rest"
    by (cases ie; cases "tl ie"; cases "tl (tl ie)") auto
  show ?case
  proof (cases "mx \<ge> f \<or> MAX_CHANNEL_NUMBER < unat f + unat k")
    case True
    then show ?thesis
      using "2.prems" by (auto simp: ie word_le_nat_alt)
  next
    case ok: False
    then have lt: "unat mx < unat f" and le: "unat f + unat k \<le> MAX_CHANNEL_NUMBER"
      by (auto simp: word_le_nat_alt)
    show ?thesis
    proof (cases "k = 0")
      case True
      have "\<not> covers (f, 0, p) c" for c by (simp add: covers.simps)
      with "2.IH"(1)[OF ie _ refl _ True] ok "2.prems" len lt le True show ?thesis
        by (simp add: ie)
    next
      case False
      let ?cm = "fill (unat f) (unat k) 1 cm" and ?pw = "fill (unat f) (unat k) p pw"
      let ?mx = "f + k - 1" and ?ts = "triples_of n rest"
      have mx: "unat ?mx = unat f + unat k - 1"
        using le False by (rule unat_last_channel)
      have above: "covers t c \<Longrightarrow> t \<in> set ?ts \<Longrightarrow> triples_ok (unat ?mx) ?ts \<Longrightarrow> unat f + unat k \<le> c" for t c
        using triples_ok_above[of "unat ?mx" ?ts t c] mx by simp
      from "2.IH"(2)[OF ie _ refl _ False refl] ok "2.prems" len
      obtain cm' pw' where IH: "walk_triples n rest ?mx ?cm ?pw = Some (triples_ok (unat ?mx) ?ts, cm', pw')"
        "length cm' = MAX_CHANNEL_NUMBER + 1" "length pw' = MAX_CHANNEL_NUMBER + 1" "cm' ! 0 = ?cm ! 0"
        "triples_ok (unat ?mx) ?ts \<longrightarrow> (\<forall>c \<le> MAX_CHANNEL_NUMBER.
           cm' ! c = (if \<exists>t \<in> set ?ts. covers t c then 1 else ?cm ! c) \<and>
           pw' ! c = (case find (\<lambda>t. covers t c) ?ts of None \<Rightarrow> ?pw ! c | Some (f, k, p) \<Rightarrow> p))"
        by auto
      have nf: "find (\<lambda>t. covers t c) ?ts = None"
        if "triples_ok (unat ?mx) ?ts" "c < unat f + unat k" for c
        using above[of _ c] that by (fastforce simp: find_None_iff)
      have cm0: "cm' ! 0 = cm ! 0"
        using IH(4) "2.prems"(2) lt by (simp add: nth_fill)
      have walk: "walk_triples (Suc n) ie mx cm pw = Some (triples_ok (unat ?mx) ?ts, cm', pw')"
        using ok False IH(1) by (simp add: ie)
      have oks: "triples_ok (unat mx) (triples_of (Suc n) ie) = triples_ok (unat ?mx) ?ts"
        using lt le False mx by (simp add: ie)
      have all: "cm' ! c = (if \<exists>t \<in> set ((f, k, p) # ?ts). covers t c then 1 else cm ! c) \<and>
           pw' ! c = (case find (\<lambda>t. covers t c) ((f, k, p) # ?ts) of
                        None \<Rightarrow> pw ! c | Some (f, k, p) \<Rightarrow> p)"
        if okts: "triples_ok (unat ?mx) ?ts" and c: "c \<le> MAX_CHANNEL_NUMBER" for c
      proof (cases "covers (f, k, p) c")
        case True
        then have r: "unat f \<le> c" "c < unat f + unat k" by (simp_all add: covers.simps)
        have nfc: "find (\<lambda>t. covers t c) ?ts = None" using nf[OF okts r(2)] .
        then have "\<forall>t \<in> set ?ts. \<not> covers t c" by (auto simp: find_None_iff)
        with nfc show ?thesis
          using IH(5) okts c True r "2.prems"(2,3) by (simp add: nth_fill)
      next
        case False
        then have "?cm ! c = cm ! c" "?pw ! c = pw ! c"
          using c False "2.prems"(2,3) by (auto simp: nth_fill covers.simps)
        then show ?thesis
          using IH(5) okts c False by (simp split: option.split)
      qed
      show ?thesis
        unfolding oks walk using IH(2,3) cm0 all by (auto simp: ie)
    qed
  qed
qed


section \<open>Properties\<close>

definition dot11d_info_wf :: "RT_DOT11D_INFO \<Rightarrow> bool" where
  "dot11d_info_wf i \<longleftrightarrow>
     length (channel_map i) = MAX_CHANNEL_NUMBER + 1 \<and>
     length (MaxTxPwrDbmList i) = MAX_CHANNEL_NUMBER + 1 \<and>
     length (CountryIeBuf i) = MAX_IE_LEN \<and>
     channel_map i ! 0 = 0"

definition dot11d_wf :: "dot11d_dev \<Rightarrow> bool" where
  "dot11d_wf d \<longleftrightarrow> dot11d_info_wf (pDot11dInfo d)"

lemma unat_num_triples:
  assumes "3 \<le> unat len" "unat len \<le> MAX_IE_LEN"
  shows "unat (num_triples len) = (unat len - 3) div 3"
proof -
  have "int 3 \<le> int (unat len)" using assms(1) by (simp only: of_nat_le_iff)
  then have "c_div (uint len - 3) 3 = int ((unat len - 3) div 3)"
    using assms by (simp add: c_div_nonneg of_nat_diff zdiv_int)
  moreover have "(unat len - 3) div 3 < 256" using assms by simp
  ultimately show ?thesis
    by (simp add: num_triples_def unat_of_nat take_bit_eq_mod)
qed

lemma ToLegalChannel_legal:
  assumes "dot11d_wf d"
  shows "if \<exists>c. IsLegalChannel d c then IsLegalChannel d (ToLegalChannel d ch)
         else ToLegalChannel d ch = 0"
    and "IsLegalChannel d ch \<Longrightarrow> ToLegalChannel d ch = ch"
proof -
  let ?m = "channel_map (pDot11dInfo d)" and ?is = "[1..<MAX_CHANNEL_NUMBER + 1]"
  have z: "\<not> ?m ! 0 > 0" using assms by (simp add: dot11d_wf_def dot11d_info_wf_def)
  show second: "ToLegalChannel d ch = ch" if "IsLegalChannel d ch"
    using that by (simp add: ToLegalChannel_def IsLegalChannel_def split: if_splits)
  have none: "find (\<lambda>i. ?m ! i > 0) ?is = None \<longleftrightarrow> \<not> (\<exists>c. IsLegalChannel d c)"
  proof
    assume "find (\<lambda>i. ?m ! i > 0) ?is = None"
    then have "\<forall>i \<in> set ?is. \<not> ?m ! i > 0" by (simp add: find_None_iff)
    then show "\<not> (\<exists>c. IsLegalChannel d c)"
      using z by (auto simp: IsLegalChannel_def not_less Suc_le_eq)
  next
    assume n: "\<not> (\<exists>c. IsLegalChannel d c)"
    have "\<not> ?m ! i > 0" if "i < 162" for i
      using n that by (auto simp: IsLegalChannel_def dest: spec[of _ "word_of_nat i"]
          simp: unat_of_nat take_bit_eq_mod)
    then show "find (\<lambda>i. ?m ! i > 0) ?is = None" by (auto simp: find_None_iff)
  qed
  have some: "IsLegalChannel d (word_of_nat i)" if "find (\<lambda>i. ?m ! i > 0) ?is = Some i" for i
    using that by (auto simp: find_Some_iff IsLegalChannel_def unat_of_nat take_bit_eq_mod simp del: upt_Suc)
  show "if \<exists>c. IsLegalChannel d c then IsLegalChannel d (ToLegalChannel d ch) else ToLegalChannel d ch = 0"
  proof (cases "IsLegalChannel d ch")
    case True
    then show ?thesis using second by auto
  next
    case False
    then have "ToLegalChannel d ch =
        (case find (\<lambda>i. ?m ! i > 0) ?is of None \<Rightarrow> 0 | Some i \<Rightarrow> word_of_nat i)"
      by (simp add: ToLegalChannel_def IsLegalChannel_def split: if_splits)
    then show ?thesis
      using none some by (cases "find (\<lambda>i. ?m ! i > 0) ?is") auto
  qed
qed


text \<open>Every operation of the component keeps the arrays at their declared sizes.\<close>

datatype dot11d_op =
    OpInit
  | OpChannelmap u8
  | OpReset
  | OpCountryIe mac u8 "u8 list"
  | OpScanComplete

fun dot11d_step :: "dot11d_op \<Rightarrow> dot11d_dev \<Rightarrow> dot11d_dev option" where
  "dot11d_step OpInit d = Some (Dot11d_Init d)"
| "dot11d_step (OpChannelmap p) d = Dot11d_Channelmap p d"
| "dot11d_step OpReset d = Some (Dot11d_Reset d)"
| "dot11d_step (OpCountryIe ta len ie) d = 
     map_option fst (rtllib_extract_country_ie d len ie (replicate MAX_IE_LEN 0, 0) ta)"
| "dot11d_step OpScanComplete d = Some (DOT11D_ScanComplete d)"

fun dot11d_run :: "dot11d_op list \<Rightarrow> dot11d_dev \<Rightarrow> dot11d_dev option" where
  "dot11d_run [] d = Some d"
| "dot11d_run (x # xs) d = Option.bind (dot11d_step x d) (dot11d_run xs)"

lemma mark_plan_keeps [simp]:
  "length (mark_plan cs cm) = length cm" "mark_plan cs cm ! 0 = cm ! 0"
  by (induction cs cm rule: mark_plan.induct) (auto simp: nth_list_update word_le_nat_alt word_less_nat_alt)

lemma walk_triples_keeps:
  "walk_triples n ie mx cm pw = Some (ok, cm', pw') \<Longrightarrow>
     length cm' = length cm \<and> length pw' = length pw \<and> (0 < length cm \<longrightarrow> cm' ! 0 = cm ! 0)"
  by (induction n ie mx cm pw rule: walk_triples.induct)
     (auto simp: nth_fill word_le_nat_alt split: list.splits if_splits)

lemma Dot11d_UpdateCountryIe_wf:
  "dot11d_wf d \<Longrightarrow> Dot11d_UpdateCountryIe d ta len ie = Some d' \<Longrightarrow> dot11d_wf d'"
  by (auto simp: Dot11d_UpdateCountryIe_def dot11d_wf_def dot11d_info_wf_def Let_def
      dest!: walk_triples_keeps split: option.splits if_splits)

lemma rtllib_extract_country_ie_wf:
  assumes "dot11d_wf d" "rtllib_extract_country_ie d len ie net ta = Some (d', net')"
  shows "dot11d_wf d'"
proof -
  have watchdog: "dot11d_wf (x\<lparr>pDot11dInfo := (pDot11dInfo x)\<lparr>CountryIeWatchdog := w\<rparr>\<rparr>) = dot11d_wf x"
    for x w by (simp add: dot11d_wf_def dot11d_info_wf_def)
  show ?thesis
    using assms
    by (auto simp: rtllib_extract_country_ie_def watchdog Let_def
        dest: Dot11d_UpdateCountryIe_wf split: if_splits option.splits)
qed

lemma nth_mark_plan:
  "\<forall>c \<in> set cs. 1 \<le> c \<and> c \<le> 14 \<Longrightarrow> i < length cm \<Longrightarrow>
     mark_plan cs cm ! i = (if \<exists>c \<in> set cs. unat c = i then 1 else cm ! i)"
  by (induction cs arbitrary: cm) (auto simp: nth_list_update not_less)

lemma dot11d_step_wf:
  assumes "dot11d_wf d" "dot11d_step x d = Some d'"
  shows "dot11d_wf d'"
proof (cases x)
  case (OpCountryIe ta len ie)
  then show ?thesis using assms rtllib_extract_country_ie_wf by auto
next
  case OpScanComplete
  then show ?thesis
    using assms
    by (auto simp: DOT11D_ScanComplete_def Dot11d_Reset_def dot11d_wf_def dot11d_info_wf_def nth_fill
        split: DOT11D_STATE.splits if_splits)
next
  case (OpChannelmap p)
  then show ?thesis
    using assms
    by (auto simp: Dot11d_Channelmap_def dot11d_wf_def dot11d_info_wf_def nth_fill Let_def
        split: if_splits)
qed (use assms in \<open>auto simp: Dot11d_Init_def Dot11d_Reset_def dot11d_wf_def dot11d_info_wf_def nth_fill\<close>)

lemma dot11d_run_wf: "dot11d_wf d \<Longrightarrow> dot11d_run xs d = Some d' \<Longrightarrow> dot11d_wf d'"
  by (induction xs arbitrary: d) (auto simp: bind_eq_Some_conv dest: dot11d_step_wf)


section \<open>Claims\<close>

text \<open>A device as the allocator leaves it, zeroed, after \<open>Dot11d_Init\<close>.\<close>

definition dot11d_zero :: dot11d_dev where
  "dot11d_zero = Dot11d_Init \<lparr>pDot11dInfo = \<lparr>bEnabled = True, CountryIeLen = 0,
     CountryIeBuf = replicate MAX_IE_LEN 0, CountryIeSrcAddr = replicate 6 0, CountryIeWatchdog = 0,
     channel_map = replicate (MAX_CHANNEL_NUMBER + 1) 0,
     MaxTxPwrDbmList = replicate (MAX_CHANNEL_NUMBER + 1) 0, dot11d_State = DOT11D_STATE_NONE\<rparr>,
     bGlobalDomain = False, IbssStartChnl = 0, ibss_maxjoin_chal = 0\<rparr>"

lemma dot11d_zero_wf: "dot11d_wf dot11d_zero"
  by (simp add: dot11d_zero_def dot11d_wf_def dot11d_info_wf_def Dot11d_Init_def)

text \<open>
  C16: Learning a country element implements its meaning. With at least three bytes the
  call never reads outside the element: if the triples start in increasing order above
  all earlier channels and end within 161, the device is LEARNED, stores the element and
  its sender, the legal channels are exactly those a triple covers, and the power limit
  of a channel is that of its triple (255 if none). Otherwise the state, the stored
  element and its length are those from before.
\<close>

theorem Dot11d_UpdateCountryIe_spec:
  assumes len: "3 \<le> unat len" "unat len \<le> MAX_IE_LEN" "unat len \<le> length ie"
    and wf: "dot11d_wf d" and ts: "ts = triples_of ((unat len - 3) div 3) (drop 3 ie)"
  shows "\<exists>d'. Dot11d_UpdateCountryIe d ta len ie = Some d' \<and> dot11d_wf d' \<and>
    (if triples_ok 0 ts then
       dot11d_State (pDot11dInfo d') = DOT11D_STATE_LEARNED \<and>
       CountryIeLen (pDot11dInfo d') = len \<and>
       take (unat len) (CountryIeBuf (pDot11dInfo d')) = take (unat len) ie \<and>
       CountryIeSrcAddr (pDot11dInfo d') = take 6 ta \<and>
       (\<forall>c. (IsLegalChannel d' c \<longleftrightarrow> (\<exists>t \<in> set ts. covers t (unat c))) \<and>
            DOT11D_GetMaxTxPwrInDbm d' c = power_of ts (unat c))
     else
       dot11d_State (pDot11dInfo d') = dot11d_State (pDot11dInfo d) \<and>
       CountryIeLen (pDot11dInfo d') = CountryIeLen (pDot11dInfo d) \<and>
       CountryIeBuf (pDot11dInfo d') = CountryIeBuf (pDot11dInfo d))"
proof -
  let ?n = "(unat len - 3) div 3" and ?z = "replicate (MAX_CHANNEL_NUMBER + 1) (0 :: u8)"
    and ?f = "replicate (MAX_CHANNEL_NUMBER + 1) (0xff :: u8)"
  have "3 * ?n \<le> length (drop 3 ie)" using len by simp
  from walk_triples_spec[OF this, of ?z ?f 0] obtain cm pw
    where w: "walk_triples ?n (drop 3 ie) 0 ?z ?f = Some (triples_ok 0 ts, cm, pw)"
      "length cm = MAX_CHANNEL_NUMBER + 1" "length pw = MAX_CHANNEL_NUMBER + 1" "cm ! 0 = ?z ! 0"
      and all: "triples_ok 0 ts \<longrightarrow> (\<forall>c \<le> MAX_CHANNEL_NUMBER.
           cm ! c = (if \<exists>t \<in> set ts. covers t c then 1 else ?z ! c) \<and>
           pw ! c = (case find (\<lambda>t. covers t c) ts of None \<Rightarrow> ?f ! c | Some (f, k, p) \<Rightarrow> p))"
    unfolding length_replicate unat_0 ts[symmetric] by blast
  have spec: "cm ! c = (if \<exists>t \<in> set ts. covers t c then 1 else 0) \<and> pw ! c = power_of ts c"
    if "triples_ok 0 ts" "c \<le> MAX_CHANNEL_NUMBER" for c
    using all that by (simp add: power_of_def del: replicate_Suc split: option.split)
  have legal: "\<not> covers t c" if "triples_ok 0 ts" "t \<in> set ts" "MAX_CHANNEL_NUMBER < c" for t c
    using triples_ok_le[OF that(1,2), of c] that(3) by auto
  show ?thesis
  proof (cases "triples_ok 0 ts")
    case False
    then show ?thesis
      using w wf by (simp add: Dot11d_UpdateCountryIe_def unat_num_triples len dot11d_wf_def dot11d_info_wf_def)
  next
    case True
    have p: "power_of ts c = 0xff" if "\<not> (\<exists>t \<in> set ts. covers t c)" for c
    proof -
      have "find (\<lambda>t. covers t c) ts = None" using that by (simp add: find_None_iff)
      then show ?thesis by (simp add: power_of_def)
    qed
    from True show ?thesis
      using w wf len spec[OF True] legal[OF True] p
      by (simp add: Dot11d_UpdateCountryIe_def unat_num_triples dot11d_wf_def dot11d_info_wf_def
          IsLegalChannel_def DOT11D_GetMaxTxPwrInDbm_def Let_def word_gt_0)
  qed
qed


theorem Dot11d_UpdateCountryIe_spec_witness:
  "\<exists>d'. Dot11d_UpdateCountryIe dot11d_zero (replicate 6 2) 9 [0x55, 0x53, 0x20, 1, 11, 27, 36, 4, 20] = Some d' \<and>
     IsLegalChannel d' 6 \<and> \<not> IsLegalChannel d' 12 \<and> IsLegalChannel d' 39 \<and>
     DOT11D_GetMaxTxPwrInDbm d' 6 = 27 \<and> DOT11D_GetMaxTxPwrInDbm d' 12 = 255"
proof -
  let ?ie = "[0x55, 0x53, 0x20, 1, 11, 27, 36, 4, 20] :: u8 list"
    and ?ts = "[(1, 11, 27), (36, 4, 20)] :: (u8 \<times> u8 \<times> u8) list"
  have "?ts = triples_of ((unat (9 :: u16) - 3) div 3) (drop 3 ?ie)"
  proof -
    have "(unat (9 :: u16) - 3) div 3 = Suc (Suc 0)" by simp
    then show ?thesis by (simp only:) simp
  qed
  note spec = Dot11d_UpdateCountryIe_spec[OF _ _ _ dot11d_zero_wf this, of "replicate 6 2"]
  have "triples_ok 0 ?ts" by simp
  with spec obtain d' where "Dot11d_UpdateCountryIe dot11d_zero (replicate 6 2) 9 ?ie = Some d'"
    "\<forall>c. (IsLegalChannel d' c \<longleftrightarrow> (\<exists>t \<in> set ?ts. covers t (unat c))) \<and>
         DOT11D_GetMaxTxPwrInDbm d' c = power_of ?ts (unat c)"
    by auto
  then show ?thesis by (simp add: covers.simps power_of_def)
qed

text \<open>
  After any sequence of the component's operations, \<open>ToLegalChannel\<close> returns a legal
  channel whenever there is one, keeps a channel that is legal already, and returns 0
  when no channel is legal; in particular the lookup never leaves the channel map.
\<close>

theorem ToLegalChannel_after_run:
  assumes "dot11d_wf d" "dot11d_run xs d = Some d'"
  shows "(if \<exists>c. IsLegalChannel d' c then IsLegalChannel d' (ToLegalChannel d' ch)
          else ToLegalChannel d' ch = 0) \<and>
         (IsLegalChannel d' ch \<longrightarrow> ToLegalChannel d' ch = ch)"
  using dot11d_run_wf[OF assms] ToLegalChannel_legal by metis

theorem ToLegalChannel_after_run_witness:
  "\<exists>d'. dot11d_run [OpInit, OpChannelmap 1] dot11d_zero = Some d' \<and>
      \<not> IsLegalChannel d' 13 \<and> IsLegalChannel d' (ToLegalChannel d' 13)"
proof -
  obtain d' where d': "dot11d_run [OpInit, OpChannelmap 1] dot11d_zero = Some d'"
    by (simp add: Dot11d_Channelmap_def ChannelPlan_def)
  let ?cm = "mark_plan (ChannelPlan ! 1) (replicate (MAX_CHANNEL_NUMBER + 1) 0)"
  have plan: "\<forall>c \<in> set (ChannelPlan ! 1). 1 \<le> c \<and> c \<le> 14" "ChannelPlan ! 1 \<noteq> []"
    "1 \<in> set (ChannelPlan ! 1)" "13 \<notin> unat ` set (ChannelPlan ! 1)"
    by (simp_all add: ChannelPlan_def)
  have "channel_map (pDot11dInfo d') = ?cm"
    using d' plan(2) by (auto simp: Dot11d_Channelmap_def Let_def split: if_splits)
  moreover have "?cm ! 1 = 1" "?cm ! 13 = 0"
    using plan by (force simp: nth_mark_plan simp del: replicate_Suc)+
  ultimately have "IsLegalChannel d' 1" "\<not> IsLegalChannel d' 13"
    by (simp_all add: IsLegalChannel_def)
  then show ?thesis
    using ToLegalChannel_after_run[OF dot11d_zero_wf d', of 13] d' by (metis (full_types))
qed

text \<open>
  A country element of fewer than six bytes holds no triple: it is accepted all the
  same, and leaves a learned domain in which no channel at all is legal.
\<close>

theorem Dot11d_UpdateCountryIe_no_triple:
  assumes "0 < unat len" "unat len < 6" "unat len \<le> length ie"
  shows "\<exists>d'. Dot11d_UpdateCountryIe d ta len ie = Some d' \<and>
    dot11d_State (pDot11dInfo d') = DOT11D_STATE_LEARNED \<and> (\<forall>c. \<not> IsLegalChannel d' c)"
proof -
  have "unat len \<in> {1, 2, 3, 4, 5}" using assms(1,2) by auto
  then have "len \<in> {1, 2, 3, 4, 5}"
    by (auto simp flip: word_unat_eq_iff simp: word_unat_eq_iff)
  then have "num_triples len = 0"
    by (auto simp: num_triples_def signed_divide_int_def)
  then show ?thesis
    using assms by (auto simp: Dot11d_UpdateCountryIe_def IsLegalChannel_def Let_def)
qed

theorem Dot11d_UpdateCountryIe_no_triple_witness:
  "\<exists>d'. Dot11d_UpdateCountryIe dot11d_zero (replicate 6 2) 1 [0x55] = Some d' \<and> \<not> IsLegalChannel d' 6"
  using Dot11d_UpdateCountryIe_no_triple[of 1 "[0x55]" dot11d_zero "replicate 6 2"] by auto

end
