(* ===== verification/Kernel_List.thy ===== *)
theory Kernel_List
  imports Prelude
begin

text \<open>
  The kernel's circular doubly linked lists, as a store of links: every list head and
  every entry is a node with a next and a previous node. The operations do what
  include/linux/list.h does, also on nodes that are not in the state the interface asks
  for, since the driver makes such calls. A predicate relates the store to the list of
  entries, and a locale states the laws that its users rely on.
\<close>

section \<open>Operations\<close>

type_synonym 'n links = "'n \<Rightarrow> 'n \<times> 'n"

definition nxt :: "'n links \<Rightarrow> 'n \<Rightarrow> 'n" where "nxt L n = fst (L n)"
definition prv :: "'n links \<Rightarrow> 'n \<Rightarrow> 'n" where "prv L n = snd (L n)"
definition set_nxt :: "'n \<Rightarrow> 'n \<Rightarrow> 'n links \<Rightarrow> 'n links" where "set_nxt n m L = L(n := (m, prv L n))"
definition set_prv :: "'n \<Rightarrow> 'n \<Rightarrow> 'n links \<Rightarrow> 'n links" where "set_prv n m L = L(n := (nxt L n, m))"

definition INIT_LIST_HEAD :: "'n \<Rightarrow> 'n links \<Rightarrow> 'n links" where
  "INIT_LIST_HEAD n L = set_prv n n (set_nxt n n L)"

definition list_add_tail :: "'n \<Rightarrow> 'n \<Rightarrow> 'n links \<Rightarrow> 'n links" where
  "list_add_tail new h L =
     (let prev = prv L h in set_nxt prev new (set_prv new prev (set_nxt new h (set_prv h new L))))"

definition list_del_init :: "'n \<Rightarrow> 'n links \<Rightarrow> 'n links" where
  "list_del_init n L =
     (let prev = prv L n; next = nxt L n in INIT_LIST_HEAD n (set_nxt prev next (set_prv next prev L)))"

definition list_empty :: "'n links \<Rightarrow> 'n \<Rightarrow> bool" where
  "list_empty L h \<longleftrightarrow> nxt L h = h"

text \<open>
  \<open>list_for_each_entry\<close> with a break at the first entry that satisfies a condition. The
  fuel bounds the number of steps; None means that the walk has not come back to the head.
\<close>

fun list_find :: "nat \<Rightarrow> 'n links \<Rightarrow> 'n \<Rightarrow> ('n \<Rightarrow> bool) \<Rightarrow> 'n \<Rightarrow> 'n option option" where
  "list_find fuel L h p cur =
     (if cur = h then Some None
      else if p cur then Some (Some cur)
      else case fuel of 0 \<Rightarrow> None | Suc f \<Rightarrow> list_find f L h p (nxt L cur))"

lemma link_simps [simp]:
  "nxt (set_nxt n m L) k = (if k = n then m else nxt L k)"
  "prv (set_nxt n m L) k = prv L k"
  "nxt (set_prv n m L) k = nxt L k"
  "prv (set_prv n m L) k = (if k = n then m else prv L k)"
  by (auto simp: nxt_def prv_def set_nxt_def set_prv_def)

lemma list_op_simps [simp]:
  "nxt (INIT_LIST_HEAD n L) k = (if k = n then n else nxt L k)"
  "prv (INIT_LIST_HEAD n L) k = (if k = n then n else prv L k)"
  "nxt (list_add_tail x h L) k = (if k = prv L h then x else if k = x then h else nxt L k)"
  "prv (list_add_tail x h L) k = (if k = x then prv L h else if k = h then x else prv L k)"
  "nxt (list_del_init x L) k = (if k = x then x else if k = prv L x then nxt L x else nxt L k)"
  "prv (list_del_init x L) k = (if k = x then x else if k = nxt L x then prv L x else prv L k)"
  by (auto simp: INIT_LIST_HEAD_def list_add_tail_def list_del_init_def Let_def)

section \<open>Well-formed lists\<close>

text \<open>A segment of links from \<open>a\<close> to \<open>b\<close> through the given nodes.\<close>

fun seg :: "'n links \<Rightarrow> 'n \<Rightarrow> 'n list \<Rightarrow> 'n \<Rightarrow> bool" where
  "seg L a [] b \<longleftrightarrow> nxt L a = b \<and> prv L b = a"
| "seg L a (x # xs) b \<longleftrightarrow> nxt L a = x \<and> prv L x = a \<and> seg L x xs b"

definition dlist :: "'n links \<Rightarrow> 'n \<Rightarrow> 'n list \<Rightarrow> bool" where
  "dlist L h xs \<longleftrightarrow> seg L h xs h \<and> distinct (h # xs)"

lemma seg_append: "seg L a (xs @ x # ys) b \<longleftrightarrow> seg L a xs x \<and> seg L x ys b"
  by (induction xs arbitrary: a) auto

lemma seg_cong:
  "\<forall>k \<in> insert a (set xs). nxt L k = nxt L' k \<Longrightarrow> \<forall>k \<in> insert b (set xs). prv L k = prv L' k \<Longrightarrow>
     seg L a xs b = seg L' a xs b"
  by (induction xs arbitrary: a) auto

lemma seg_last: "seg L a xs b \<Longrightarrow> prv L b = last (a # xs)"
  by (induction xs arbitrary: a) auto

lemma seg_first: "seg L a xs b \<Longrightarrow> nxt L a = hd (xs @ [b])"
  by (cases xs) auto

lemma dlist_last: "dlist L h xs \<Longrightarrow> prv L h = last (h # xs)"
  by (auto simp: dlist_def seg_last)

lemma dlist_first: "dlist L h xs \<Longrightarrow> nxt L h = (case xs of [] \<Rightarrow> h | x # _ \<Rightarrow> x)"
  by (cases xs) (auto simp: dlist_def)

lemma dlist_empty_iff: "dlist L h xs \<Longrightarrow> list_empty L h \<longleftrightarrow> xs = []"
  by (cases xs) (auto simp: dlist_def list_empty_def)

lemma dlist_init: "dlist (INIT_LIST_HEAD h L) h []"
  by (simp add: dlist_def)

lemma dlist_init_frame: "dlist L h xs \<Longrightarrow> n \<notin> set (h # xs) \<Longrightarrow> dlist (INIT_LIST_HEAD n L) h xs"
  unfolding dlist_def by (subst seg_cong[of _ _ _ L]) auto

lemma dlist_add_tail:
  assumes "dlist L h xs" "x \<notin> set (h # xs)"
  shows "dlist (list_add_tail x h L) h (xs @ [x])"
proof (cases xs rule: rev_cases)
  case Nil
  then show ?thesis using assms by (auto simp: dlist_def)
next
  case (snoc ys y)
  have d: "distinct (h # ys @ [y])" and s: "seg L h ys y" "nxt L y = h" "prv L h = y"
    using assms(1) by (auto simp: dlist_def snoc seg_append)
  have "seg (list_add_tail x h L) h ys y = seg L h ys y"
    using d s assms(2) by (intro seg_cong) (auto simp: snoc)
  then show ?thesis
    using d s assms(2) by (auto simp: dlist_def snoc seg_append)
qed

lemma dlist_add_tail_frame:
  assumes "dlist L h xs" "dlist L k ys" "x \<notin> set (k # ys)" "set (h # xs) \<inter> set (k # ys) = {}"
  shows "dlist (list_add_tail x h L) k ys"
proof -
  have "prv L h \<in> set (h # xs)" using dlist_last[OF assms(1)] last_in_set[of "h # xs"] by simp
  then have "prv L h \<notin> set (k # ys)" using assms(4) by blast
  then show ?thesis
    using assms unfolding dlist_def by (subst seg_cong[of _ _ _ L]) auto
qed

lemma dlist_del_init:
  assumes "dlist L h (xs @ x # ys)"
  shows "dlist (list_del_init x L) h (xs @ ys)"
proof -
  have d: "distinct (h # xs @ x # ys)" and s: "seg L h xs x" "seg L x ys h"
    using assms by (auto simp: dlist_def seg_append)
  have p: "prv L x = last (h # xs)" and n: "nxt L x = hd (ys @ [h])"
    using seg_last[OF s(1)] seg_first[OF s(2)] by simp_all
  let ?L = "list_del_init x L"
  show ?thesis
  proof (cases xs rule: rev_cases)
    case Nil
    show ?thesis
    proof (cases ys)
      case (Cons y ys')
      have "seg ?L y ys' h = seg L y ys' h" using d p n by (intro seg_cong) (auto simp: Nil Cons)
      then show ?thesis using d p n s by (auto simp: dlist_def Nil Cons)
    qed (use d p n in \<open>auto simp: dlist_def Nil\<close>)
  next
    case (snoc zs z)
    have pz: "prv L x = z" using p by (simp add: snoc)
    have nz: "nxt L x \<notin> insert z (set zs)" using d n by (cases ys) (auto simp: snoc)
    have "seg L h zs z" using s(1) by (simp add: snoc seg_append)
    moreover have "seg ?L h zs z = seg L h zs z"
      using d pz nz by (intro seg_cong) (auto simp: snoc)
    ultimately have z: "seg ?L h zs z" by simp
    show ?thesis
    proof (cases ys)
      case (Cons y ys')
      have "seg ?L y ys' h = seg L y ys' h" using d p n by (intro seg_cong) (auto simp: snoc Cons)
      then show ?thesis using d p n s z by (auto simp: dlist_def snoc Cons seg_append)
    qed (use d p n z in \<open>auto simp: dlist_def snoc seg_append\<close>)
  qed
qed

lemma dlist_del_init_frame:
  assumes "dlist L h xs" "x \<in> set xs" "dlist L k ys" "set (h # xs) \<inter> set (k # ys) = {}"
  shows "dlist (list_del_init x L) k ys"
proof -
  obtain as bs where xs: "xs = as @ x # bs" using assms(2) by (auto dest: split_list)
  have "prv L x = last (h # as)" "nxt L x = hd (bs @ [h])"
    using assms(1) by (auto simp: dlist_def xs seg_append dest: seg_last seg_first)
  then have "prv L x \<in> set (h # xs)" "nxt L x \<in> set (h # xs)"
    using last_in_set[of "h # as"] hd_in_set[of "bs @ [h]"] by (auto simp: xs)
  then have "prv L x \<notin> set (k # ys)" "nxt L x \<notin> set (k # ys)" "x \<notin> set (k # ys)"
    using assms(2,4) by auto
  then show ?thesis
    using assms(3) unfolding dlist_def by (subst seg_cong[of _ _ _ L]) auto
qed

lemma list_find_seg:
  "seg L a xs h \<Longrightarrow> h \<notin> set xs \<Longrightarrow> length xs \<le> fuel \<Longrightarrow> list_find fuel L h p (nxt L a) = Some (find p xs)"
proof (induction xs arbitrary: a fuel)
  case (Cons x xs)
  then obtain f where "fuel = Suc f" by (cases fuel) auto
  with Cons show ?case by auto
qed simp

lemma list_find_dlist:
  "dlist L h xs \<Longrightarrow> length xs \<le> fuel \<Longrightarrow> list_find fuel L h p (nxt L h) = Some (find p xs)"
  by (simp add: dlist_def list_find_seg del: list_find.simps)

declare list_find.simps [simp del]

section \<open>The laws of the interface\<close>

text \<open>
  What a user of the lists relies on: an entry may be added only while it is on no list
  and removed only while it is on one; then the lists hold what one expects, and other
  lists are left alone.
\<close>

locale linked_lists =
  fixes rep :: "'l \<Rightarrow> 'n \<Rightarrow> 'n list \<Rightarrow> bool"
    and add :: "'n \<Rightarrow> 'n \<Rightarrow> 'l \<Rightarrow> 'l"
    and del :: "'n \<Rightarrow> 'l \<Rightarrow> 'l"
  assumes rep_distinct: "rep L h xs \<Longrightarrow> distinct (h # xs)"
    and add_rep: "rep L h xs \<Longrightarrow> x \<notin> set (h # xs) \<Longrightarrow> rep (add x h L) h (xs @ [x])"
    and add_frame: "rep L h xs \<Longrightarrow> rep L k ys \<Longrightarrow> x \<notin> set (k # ys) \<Longrightarrow>
      set (h # xs) \<inter> set (k # ys) = {} \<Longrightarrow> rep (add x h L) k ys"
    and del_rep: "rep L h (xs @ x # ys) \<Longrightarrow> rep (del x L) h (xs @ ys)"
    and del_frame: "rep L h xs \<Longrightarrow> x \<in> set xs \<Longrightarrow> rep L k ys \<Longrightarrow>
      set (h # xs) \<inter> set (k # ys) = {} \<Longrightarrow> rep (del x L) k ys"
begin

text \<open>Moving an entry to the tail of another list.\<close>

lemma move_rep:
  assumes "rep L h (xs @ x # ys)" "rep L k zs" "set (h # xs @ x # ys) \<inter> set (k # zs) = {}"
  shows "rep (add x k (del x L)) h (xs @ ys)" "rep (add x k (del x L)) k (zs @ [x])"
proof -
  have 1: "rep (del x L) h (xs @ ys)" by (rule del_rep[OF assms(1)])
  have 2: "rep (del x L) k zs" using assms(3) by (intro del_frame[OF assms(1) _ assms(2)]) auto
  have "distinct (h # xs @ x # ys)" by (rule rep_distinct[OF assms(1)])
  then show "rep (add x k (del x L)) h (xs @ ys)"
    using assms(3) by (intro add_frame[OF 2 1]) auto
  show "rep (add x k (del x L)) k (zs @ [x])"
    using assms(3) by (intro add_rep[OF 2]) auto
qed

lemma move_frame:
  assumes "rep L h (xs @ x # ys)" "rep L k zs" "rep L j us"
    and "set (h # xs @ x # ys) \<inter> set (k # zs) = {}"
    and "set (j # us) \<inter> set (h # xs @ x # ys) = {}" "set (j # us) \<inter> set (k # zs) = {}"
  shows "rep (add x k (del x L)) j us"
proof -
  have 1: "rep (del x L) k zs" using assms(4) by (intro del_frame[OF assms(1) _ assms(2)]) auto
  have 2: "rep (del x L) j us" using assms(5) by (intro del_frame[OF assms(1) _ assms(3)]) auto
  show ?thesis using assms(5,6) by (intro add_frame[OF 1 2]) auto
qed

end

interpretation klist: linked_lists dlist list_add_tail list_del_init
proof unfold_locales
  show "dlist L h xs \<Longrightarrow> distinct (h # xs)" for L h and xs :: "'a list" by (simp add: dlist_def)
qed (fact dlist_add_tail dlist_add_tail_frame dlist_del_init dlist_del_init_frame)+

end
