(* ===== verification/TS_Types.thy ===== *)
theory TS_Types
  imports Kernel_List
begin

text \<open>
  The data of the traffic stream, block ack and receive reordering components: the
  records of src/src/rtl819x_TS.h, src/src/rtl819x_BA.h and the reordering types of
  src/src/rtllib.h, with their reset functions from src/src/rtl819x_TSProc.c and
  src/src/rtl819x_BAProc.c, and the part of the device structure these components use.

  The traffic streams stay in their arrays and are linked by the kernel's lists, an
  explicit store of links; the reordering entries are modelled by the lists themselves. A timer is the
  delay it was armed with, or None when it is not pending. The fields of a TSPEC other
  than its TSInfo, and the TCLAS entries, are written but never read by the driver and
  are left out.
\<close>

section \<open>Timers\<close>

datatype delay = MSECS nat | JIFFIES nat

type_synonym timer = "delay option"

section \<open>Block ack records\<close>

record BA_RECORD =
  ba_Timer :: timer
  bValid :: bool
  DialogToken :: u8
  BaParamSet :: u16
  BaTimeoutValue :: u16
  BaStartSeqCtrl :: u16

text \<open>The bit-fields of \<open>BA_PARAM_SET\<close>, \<open>SEQUENCE_CONTROL\<close> and \<open>DELBA_PARAM_SET\<close>.\<close>

definition get_AMSDU_Support :: "u16 \<Rightarrow> u16" where "get_AMSDU_Support = bf_get 0 1"
definition set_AMSDU_Support :: "u16 \<Rightarrow> u16 \<Rightarrow> u16" where "set_AMSDU_Support = bf_put 0 1"
definition get_BAPolicy :: "u16 \<Rightarrow> u16" where "get_BAPolicy = bf_get 1 1"
definition set_BAPolicy :: "u16 \<Rightarrow> u16 \<Rightarrow> u16" where "set_BAPolicy = bf_put 1 1"
definition get_TID :: "u16 \<Rightarrow> u16" where "get_TID = bf_get 2 4"
definition set_TID :: "u16 \<Rightarrow> u16 \<Rightarrow> u16" where "set_TID = bf_put 2 4"
definition get_BufferSize :: "u16 \<Rightarrow> u16" where "get_BufferSize = bf_get 6 10"
definition set_BufferSize :: "u16 \<Rightarrow> u16 \<Rightarrow> u16" where "set_BufferSize = bf_put 6 10"

definition get_SeqNum :: "u16 \<Rightarrow> u16" where "get_SeqNum = bf_get 4 12"
definition set_SeqNum :: "u16 \<Rightarrow> u16 \<Rightarrow> u16" where "set_SeqNum = bf_put 4 12"

definition get_Initiator :: "u16 \<Rightarrow> u16" where "get_Initiator = bf_get 11 1"
definition set_Initiator :: "u16 \<Rightarrow> u16 \<Rightarrow> u16" where "set_Initiator = bf_put 11 1"
definition get_DelbaTID :: "u16 \<Rightarrow> u16" where "get_DelbaTID = bf_get 12 4"
definition set_DelbaTID :: "u16 \<Rightarrow> u16 \<Rightarrow> u16" where "set_DelbaTID = bf_put 12 4"

lemmas ba_field_defs =
  get_AMSDU_Support_def set_AMSDU_Support_def get_BAPolicy_def set_BAPolicy_def
  get_TID_def set_TID_def get_BufferSize_def set_BufferSize_def get_SeqNum_def set_SeqNum_def
  get_Initiator_def set_Initiator_def get_DelbaTID_def set_DelbaTID_def

lemma ba_fields_same [simp]:
  "get_AMSDU_Support (set_AMSDU_Support v w) = take_bit 1 v"
  "get_BAPolicy (set_BAPolicy v w) = take_bit 1 v"
  "get_TID (set_TID v w) = take_bit 4 v"
  "get_BufferSize (set_BufferSize v w) = take_bit 10 v"
  "get_SeqNum (set_SeqNum v w) = take_bit 12 v"
  "get_Initiator (set_Initiator v w) = take_bit 1 v"
  "get_DelbaTID (set_DelbaTID v w) = take_bit 4 v"
  by (simp_all add: ba_field_defs bf_get_put_same)

lemma ba_fields_other [simp]:
  "get_TID (set_BufferSize v w) = get_TID w"
  "get_TID (set_BAPolicy v w) = get_TID w"
  "get_TID (set_AMSDU_Support v w) = get_TID w"
  "get_BAPolicy (set_BufferSize v w) = get_BAPolicy w"
  "get_BAPolicy (set_TID v w) = get_BAPolicy w"
  "get_BAPolicy (set_AMSDU_Support v w) = get_BAPolicy w"
  "get_AMSDU_Support (set_BufferSize v w) = get_AMSDU_Support w"
  "get_AMSDU_Support (set_BAPolicy v w) = get_AMSDU_Support w"
  "get_AMSDU_Support (set_TID v w) = get_AMSDU_Support w"
  "get_BufferSize (set_BAPolicy v w) = get_BufferSize w"
  "get_BufferSize (set_TID v w) = get_BufferSize w"
  "get_BufferSize (set_AMSDU_Support v w) = get_BufferSize w"
  "get_Initiator (set_DelbaTID v w) = get_Initiator w"
  "get_DelbaTID (set_Initiator v w) = get_DelbaTID w"
  by (simp_all add: ba_field_defs bf_get_put_disjoint)

definition ResetBaEntry :: "BA_RECORD \<Rightarrow> BA_RECORD" where
  "ResetBaEntry pBA = pBA\<lparr>bValid := False, BaParamSet := 0, BaTimeoutValue := 0,
     DialogToken := 0, BaStartSeqCtrl := 0\<rparr>"

section \<open>Traffic stream records\<close>

record QOS_TSINFO =
  ucTrafficType :: u8
  ucTSID :: u8
  ucDirection :: u8
  ucAccessPolicy :: u8
  ucAggregation :: u8
  ucPSB :: u8
  ucUP :: u8
  ucTSInfoAckPolicy :: u8
  ucSchedule :: u8

definition TSInfo_zero :: QOS_TSINFO where
  "TSInfo_zero = \<lparr>ucTrafficType = 0, ucTSID = 0, ucDirection = 0, ucAccessPolicy = 0,
     ucAggregation = 0, ucPSB = 0, ucUP = 0, ucTSInfoAckPolicy = 0, ucSchedule = 0\<rparr>"

record TS_COMMON_INFO =
  SetupTimer :: timer
  InactTimer :: timer
  Addr :: mac
  TSInfo :: QOS_TSINFO
  TClasProc :: u8
  TClasNum :: u8

record TX_TS_RECORD =
  tx_common :: TS_COMMON_INFO
  TxCurSeq :: u16
  TxPendingBARecord :: BA_RECORD
  TxAdmittedBARecord :: BA_RECORD
  bAddBaReqInProgress :: bool
  bAddBaReqDelayed :: bool
  bUsingBa :: bool
  bDisable_AddBa :: bool
  TsAddBaTimer :: timer
  tx_num :: u8

text \<open>A received MSDU group (\<open>rtllib_rxb\<close>) and an entry of the reordering pool.\<close>

record rtllib_rxb =
  subframes :: "u8 list list"
  rxb_dst :: mac
  rxb_src :: mac

record RX_REORDER_ENTRY =
  re_id :: nat
  SeqNum :: u16
  prxb :: "rtllib_rxb option"

record RX_TS_RECORD =
  rx_common :: TS_COMMON_INFO
  RxIndicateSeq :: u16
  RxTimeoutIndicateSeq :: u16
  RxPendingPktList :: "RX_REORDER_ENTRY list"
  RxPktPendingTimer :: timer
  RxAdmittedBARecord :: BA_RECORD
  RxLastSeqNum :: u16
  RxLastFragNum :: u8
  rx_num :: u8

definition ResetTsCommonInfo :: "TS_COMMON_INFO \<Rightarrow> TS_COMMON_INFO" where
  "ResetTsCommonInfo c = c\<lparr>Addr := replicate 6 0, TSInfo := TSInfo_zero, TClasProc := 0, TClasNum := 0\<rparr>"

definition ResetTxTsEntry :: "TX_TS_RECORD \<Rightarrow> TX_TS_RECORD" where
  "ResetTxTsEntry pTS = pTS\<lparr>tx_common := ResetTsCommonInfo (tx_common pTS), TxCurSeq := 0,
     bAddBaReqInProgress := False, bAddBaReqDelayed := False, bUsingBa := False, bDisable_AddBa := False,
     TxAdmittedBARecord := ResetBaEntry (TxAdmittedBARecord pTS),
     TxPendingBARecord := ResetBaEntry (TxPendingBARecord pTS)\<rparr>"

definition ResetRxTsEntry :: "RX_TS_RECORD \<Rightarrow> RX_TS_RECORD" where
  "ResetRxTsEntry pTS = pTS\<lparr>rx_common := ResetTsCommonInfo (rx_common pTS),
     RxIndicateSeq := 0xffff, RxTimeoutIndicateSeq := 0xffff,
     RxAdmittedBARecord := ResetBaEntry (RxAdmittedBARecord pTS)\<rparr>"

section \<open>The device\<close>

abbreviation (input) TOTAL_TS_NUM :: nat where "TOTAL_TS_NUM \<equiv> 16"
abbreviation (input) REORDER_WIN_SIZE :: nat where "REORDER_WIN_SIZE \<equiv> 128"
abbreviation (input) REORDER_ENTRY_NUM :: nat where "REORDER_ENTRY_NUM \<equiv> 128"

datatype TR_SELECT = TX_DIR | RX_DIR

abbreviation (input) DIR_UP :: u8 where "DIR_UP \<equiv> 0"
abbreviation (input) DIR_DOWN :: u8 where "DIR_DOWN \<equiv> 1"
abbreviation (input) DIR_DIRECT :: u8 where "DIR_DIRECT \<equiv> 2"
abbreviation (input) DIR_BI_DIR :: u8 where "DIR_BI_DIR \<equiv> 3"

text \<open>The operating modes of the wireless extensions (the kernel's \<open>IW_MODE_*\<close>).\<close>

datatype iw_mode = IW_MODE_ADHOC | IW_MODE_INFRA | IW_MODE_MASTER | IW_MODE_MONITOR | IW_MODE_OTHER

text \<open>
  An action frame handed to \<open>softmac_mgmt_xmit\<close>: its header fields that the block ack
  component writes, and its body.
\<close>

record act_frame =
  af_frame_ctl :: u16
  af_addr1 :: mac
  af_addr2 :: mac
  af_addr3 :: mac
  af_body :: "u8 list"

text \<open>The list heads of the device and the list entries inside the stream records.\<close>

datatype ts_node =
    Tx_TS_Admit_List | Tx_TS_Pending_List | Tx_TS_Unused_List
  | Rx_TS_Admit_List | Rx_TS_Pending_List | Rx_TS_Unused_List
  | TxTs nat | RxTs nat

text \<open>
  \<open>skb_avail\<close> says whether the kernel can allocate a socket buffer.
\<close>

record ts_dev =
  skb_avail :: bool
  iw_mode :: iw_mode
  dev_addr :: mac
  bssid :: mac
  qos_supported :: int
  qos_active :: int
  bHalfWirelessN24GMode :: bool
  bCurrentHTSupport :: bool
  bCurrentAMPDUEnable :: bool
  bCurRxReorderEnable :: bool
  IOTAction :: u32
  RxReorderWinSize :: u8
  RxReorderPendingTime :: u8
  RxReorderDropCounter :: u16
  TxTsRecord :: "TX_TS_RECORD list"
  RxTsRecord :: "RX_TS_RECORD list"
  ts_links :: "ts_node links"
  RxReorder_Unused_List :: "RX_REORDER_ENTRY list"
  mgmt_out :: "act_frame list"
  rx_indicated :: "rtllib_rxb list"
  rx_freed :: "rtllib_rxb list"

abbreviation upd_tx :: "nat \<Rightarrow> (TX_TS_RECORD \<Rightarrow> TX_TS_RECORD) \<Rightarrow> ts_dev \<Rightarrow> ts_dev" where
  "upd_tx i f d \<equiv> d\<lparr>TxTsRecord := (TxTsRecord d)[i := f (TxTsRecord d ! i)]\<rparr>"

abbreviation upd_rx :: "nat \<Rightarrow> (RX_TS_RECORD \<Rightarrow> RX_TS_RECORD) \<Rightarrow> ts_dev \<Rightarrow> ts_dev" where
  "upd_rx i f d \<equiv> d\<lparr>RxTsRecord := (RxTsRecord d)[i := f (RxTsRecord d ! i)]\<rparr>"

end
