(* ===== verification/Rx_Reorder.thy ===== *)
theory Rx_Reorder
  imports TS_Types
begin

text \<open>
  The receive reordering buffer: \<open>AddReorderEntry\<close> and \<open>RxReorderIndicatePacket\<close> of
  src/src/rtllib_rx.c and \<open>RxPktPendingTimeout\<close> of src/src/rtl819x_TSProc.c, with the
  sequence number comparisons of src/src/rtllib.h.

  A pending list is modelled from its head; the code inserts so that the head holds the
  newest sequence number and takes packets from the tail. The hand-over to
  \<open>rtllib_indicate_packets\<close> appends to \<open>rx_indicated\<close>, and freeing a packet appends to
  \<open>rx_freed\<close>. The spin lock is not modelled: each function is one atomic step.
\<close>

section \<open>Sequence numbers\<close>

text \<open>
  \<open>SN_LESS\<close> subtracts two 16-bit values as ints and tests bit 11 of the difference.
\<close>

definition SN_LESS :: "u16 \<Rightarrow> u16 \<Rightarrow> bool" where
  "SN_LESS a b \<longleftrightarrow> (uint a - uint b) AND 0x800 \<noteq> 0"

definition SN_EQUAL :: "u16 \<Rightarrow> u16 \<Rightarrow> bool" where
  "SN_EQUAL a b \<longleftrightarrow> a = b"

definition next_seq :: "u16 \<Rightarrow> u16" where
  "next_seq w = word_of_int (c_mod (uint w + 1) 4096)"

section \<open>Inserting into a pending list\<close>

text \<open>None when the list already holds the sequence number: the code returns false.\<close>

fun AddReorderEntry :: "RX_REORDER_ENTRY list \<Rightarrow> RX_REORDER_ENTRY \<Rightarrow> RX_REORDER_ENTRY list option" where
  "AddReorderEntry [] e = Some [e]"
| "AddReorderEntry (x # xs) e =
     (if SN_LESS (SeqNum e) (SeqNum x) then map_option ((#) x) (AddReorderEntry xs e)
      else if SN_EQUAL (SeqNum e) (SeqNum x) then None
      else Some (e # x # xs))"

section \<open>A packet arrives\<close>

text \<open>
  The loop that takes packets from the tail of the pending list. The list is given from
  its tail; the results are the window start, the entries taken in order, the entries
  left (again from the tail) and \<open>bPktInBuf\<close>.
\<close>

fun indicate_loop ::
  "u16 \<Rightarrow> nat \<Rightarrow> RX_REORDER_ENTRY list \<Rightarrow> u16 \<times> RX_REORDER_ENTRY list \<times> RX_REORDER_ENTRY list \<times> bool"
where
  "indicate_loop ind index [] = (ind, [], [], False)"
| "indicate_loop ind index (e # es) =
     (if SN_LESS (SeqNum e) ind \<or> SN_EQUAL (SeqNum e) ind then
        if index \<ge> REORDER_WIN_SIZE then (ind, [], e # es, True)
        else
          (case indicate_loop (if SN_EQUAL (SeqNum e) ind then next_seq ind else ind) (Suc index) es of
             (ind', taken, rest, inbuf) \<Rightarrow> (ind', e # taken, rest, inbuf))
      else (ind, [], e # es, True))"

text \<open>Where the window starts after a packet that is not older than the window.\<close>

definition shift_window :: "u8 \<Rightarrow> u16 \<Rightarrow> u16 \<Rightarrow> u16 \<Rightarrow> u16 \<times> bool" where
  "shift_window WinSize WinEnd SeqNo ind =
     (if SN_EQUAL SeqNo ind then (next_seq ind, True)
      else if SN_LESS WinEnd SeqNo then
        (if uint SeqNo \<ge> uint WinSize - 1 then word_of_int (uint SeqNo + 1 - uint WinSize)
         else word_of_int (4095 - (uint WinSize - (uint SeqNo + 1)) + 1), False)
      else (ind, False))"

text \<open>
  What \<open>RxReorderIndicatePacket\<close> works on: the stream's record, the free entries and the
  device's counters and outputs.
\<close>

record reorder_st =
  ro_ts :: RX_TS_RECORD
  ro_unused :: "RX_REORDER_ENTRY list"
  ro_drops :: u16
  ro_out :: "rtllib_rxb list"
  ro_freed :: "rtllib_rxb list"

text \<open>The part of the function from the indication process on.\<close>

definition buffer_packet :: "rtllib_rxb \<Rightarrow> u16 \<Rightarrow> reorder_st \<Rightarrow> reorder_st" where
  "buffer_packet pkt SeqNo st =
     (case ro_unused st of
        [] \<Rightarrow> st\<lparr>ro_freed := ro_freed st @ [pkt]\<rparr>
      | e # es \<Rightarrow>
          let e' = e\<lparr>SeqNum := SeqNo, prxb := Some pkt\<rparr>
          in case AddReorderEntry (RxPendingPktList (ro_ts st)) e' of
               None \<Rightarrow> st\<lparr>ro_unused := es @ [e'], ro_freed := ro_freed st @ [pkt]\<rparr>
             | Some l \<Rightarrow> st\<lparr>ro_unused := es, ro_ts := (ro_ts st)\<lparr>RxPendingPktList := l\<rparr>\<rparr>)"

definition flush_packets :: "u8 \<Rightarrow> rtllib_rxb list \<Rightarrow> reorder_st \<Rightarrow> reorder_st" where
  "flush_packets RxPendingTime first st =
     (case indicate_loop (RxIndicateSeq (ro_ts st)) (length first) (rev (RxPendingPktList (ro_ts st))) of
        (ind, taken, rest, inbuf) \<Rightarrow>
          let arr = first @ map (\<lambda>e. the (prxb e)) taken;
              t1 = (ro_ts st)\<lparr>RxIndicateSeq := ind, RxPendingPktList := rev rest\<rparr>;
              st1 = st\<lparr>ro_ts := t1, ro_unused := ro_unused st @ taken\<rparr>
          in if length arr > 0 then
               let t2 = t1\<lparr>RxPktPendingTimer := None, RxTimeoutIndicateSeq := 0xffff\<rparr>
               in if length arr > REORDER_WIN_SIZE then st1\<lparr>ro_ts := t2\<rparr>
                  else st1\<lparr>ro_ts := t2, ro_out := ro_out st @ arr\<rparr>
             else if inbuf \<and> RxTimeoutIndicateSeq t1 = 0xffff then
               st1\<lparr>ro_ts := t1\<lparr>RxTimeoutIndicateSeq := RxIndicateSeq t1,
                              RxPktPendingTimer := Some (MSECS (unat RxPendingTime))\<rparr>\<rparr>
             else st1)"

definition RxReorderIndicate :: "u8 \<Rightarrow> u8 \<Rightarrow> rtllib_rxb \<Rightarrow> u16 \<Rightarrow> reorder_st \<Rightarrow> reorder_st" where
  "RxReorderIndicate WinSize RxPendingTime pkt SeqNo st =
     (let ind0 = RxIndicateSeq (ro_ts st);
          WinEnd = word_of_int (c_mod (uint ind0 + uint WinSize - 1) 4096);
          ind1 = (if ind0 = 0xffff then SeqNo else ind0)
      in if SN_LESS SeqNo ind1 then
           st\<lparr>ro_ts := (ro_ts st)\<lparr>RxIndicateSeq := ind1\<rparr>, ro_drops := ro_drops st + 1,
              ro_freed := ro_freed st @ [pkt]\<rparr>
         else
           case shift_window WinSize WinEnd SeqNo ind1 of
             (ind2, bMatchWinStart) \<Rightarrow>
               let st1 = st\<lparr>ro_ts := (ro_ts st)\<lparr>RxIndicateSeq := ind2\<rparr>\<rparr>
               in if bMatchWinStart then flush_packets RxPendingTime [pkt] st1
                  else flush_packets RxPendingTime [] (buffer_packet pkt SeqNo st1))"

text \<open>The function on the device: \<open>i\<close> is the number of the receive stream.\<close>

definition reorder_view :: "ts_dev \<Rightarrow> nat \<Rightarrow> reorder_st" where
  "reorder_view d i = \<lparr>ro_ts = RxTsRecord d ! i, ro_unused = RxReorder_Unused_List d,
     ro_drops = RxReorderDropCounter d, ro_out = rx_indicated d, ro_freed = rx_freed d\<rparr>"

definition reorder_write :: "ts_dev \<Rightarrow> nat \<Rightarrow> reorder_st \<Rightarrow> ts_dev" where
  "reorder_write d i st = d\<lparr>RxTsRecord := (RxTsRecord d)[i := ro_ts st],
     RxReorder_Unused_List := ro_unused st, RxReorderDropCounter := ro_drops st,
     rx_indicated := ro_out st, rx_freed := ro_freed st\<rparr>"

definition RxReorderIndicatePacket :: "ts_dev \<Rightarrow> rtllib_rxb \<Rightarrow> nat \<Rightarrow> u16 \<Rightarrow> ts_dev" where
  "RxReorderIndicatePacket d pkt i SeqNo =
     reorder_write d i
       (RxReorderIndicate (RxReorderWinSize d) (RxReorderPendingTime d) pkt SeqNo (reorder_view d i))"

section \<open>The pending timer fires\<close>

text \<open>
  The loop of the timer function: before the first packet the window start is set to its
  number. The array of packets has \<open>REORDER_WIN_SIZE\<close> places and no check in the loop: a
  write beyond it is a fault, None.
\<close>

fun timeout_loop ::
  "u16 \<Rightarrow> nat \<Rightarrow> RX_REORDER_ENTRY list \<Rightarrow>
     (u16 \<times> RX_REORDER_ENTRY list \<times> RX_REORDER_ENTRY list \<times> bool) option"
where
  "timeout_loop ind index [] = Some (ind, [], [], False)"
| "timeout_loop ind index (e # es) =
     (let ind0 = (if index = 0 then SeqNum e else ind)
      in if SN_LESS (SeqNum e) ind0 \<or> SN_EQUAL (SeqNum e) ind0 then
           if index \<ge> REORDER_WIN_SIZE then None
           else map_option (\<lambda>(ind', taken, rest, inbuf). (ind', e # taken, rest, inbuf))
                  (timeout_loop (if SN_EQUAL (SeqNum e) ind0 then next_seq ind0 else ind0) (Suc index) es)
         else Some (ind0, [], e # es, True))"

definition RxPktPendingTimeout_st :: "u8 \<Rightarrow> reorder_st \<Rightarrow> reorder_st option" where
  "RxPktPendingTimeout_st RxPendingTime st0 =
     (let st = st0\<lparr>ro_ts := (ro_ts st0)\<lparr>RxPktPendingTimer := None\<rparr>\<rparr>;
          loop = (if RxTimeoutIndicateSeq (ro_ts st) \<noteq> 0xffff
                  then timeout_loop (RxIndicateSeq (ro_ts st)) 0 (rev (RxPendingPktList (ro_ts st)))
                  else Some (RxIndicateSeq (ro_ts st), [], rev (RxPendingPktList (ro_ts st)), False))
      in case loop of
           None \<Rightarrow> None
         | Some (ind, taken, rest, inbuf) \<Rightarrow>
             let t1 = (ro_ts st)\<lparr>RxIndicateSeq := ind, RxPendingPktList := rev rest\<rparr>;
                 st1 = st\<lparr>ro_ts := t1, ro_unused := ro_unused st @ taken\<rparr>;
                 arr = map (\<lambda>e. the (prxb e)) taken
             in if length arr > 0 then
                  let t2 = t1\<lparr>RxTimeoutIndicateSeq := 0xffff\<rparr>
                  in if length arr > REORDER_WIN_SIZE then Some (st1\<lparr>ro_ts := t2\<rparr>)
                     else Some (st1\<lparr>ro_ts := t2, ro_out := ro_out st @ arr\<rparr>)
                else if inbuf \<and> RxTimeoutIndicateSeq t1 = 0xffff then
                  Some (st1\<lparr>ro_ts := t1\<lparr>RxTimeoutIndicateSeq := RxIndicateSeq t1,
                                       RxPktPendingTimer := Some (MSECS (unat RxPendingTime))\<rparr>\<rparr>)
                else Some st1)"

definition RxPktPendingTimeout :: "ts_dev \<Rightarrow> nat \<Rightarrow> ts_dev option" where
  "RxPktPendingTimeout d i =
     map_option (reorder_write d i)
       (RxPktPendingTimeout_st (RxReorderPendingTime d) (reorder_view d i))"

end
