(* ===== verification/Rx_Reorder_Spec.thy ===== *)
theory Rx_Reorder_Spec
  imports Rx_Reorder
begin

text \<open>
  What the reordering buffer promises. The abstract receiver numbers packets by
  unbounded integers: its window start never moves back, it buffers packets of the
  window in increasing order, and it hands packets on in strictly increasing order. The
  driver's functions, which see numbers modulo 4096 only, refine it.
\<close>

section \<open>The abstract receiver\<close>

record spec_st =
  sp_win :: "int option"
  sp_buf :: "(int \<times> rtllib_rxb) list"
  sp_out :: "(int \<times> rtllib_rxb) list"

fun sp_insert :: "int \<Rightarrow> rtllib_rxb \<Rightarrow> (int \<times> rtllib_rxb) list \<Rightarrow> (int \<times> rtllib_rxb) list" where
  "sp_insert s p [] = [(s, p)]"
| "sp_insert s p ((k, q) # b) =
     (if s < k then (s, p) # (k, q) # b
      else if s = k then (k, q) # b
      else (k, q) # sp_insert s p b)"

fun sp_flush ::
  "int \<Rightarrow> (int \<times> rtllib_rxb) list \<Rightarrow> int \<times> (int \<times> rtllib_rxb) list \<times> (int \<times> rtllib_rxb) list" where
  "sp_flush w [] = (w, [], [])"
| "sp_flush w ((s, p) # b) =
     (if s \<le> w then
        (case sp_flush (if s = w then w + 1 else w) b of (w', t, r) \<Rightarrow> (w', (s, p) # t, r))
      else (w, [], (s, p) # b))"

definition sp_finish :: "int \<Rightarrow> (int \<times> rtllib_rxb) list \<Rightarrow> (int \<times> rtllib_rxb) list \<Rightarrow> spec_st \<Rightarrow> spec_st" where
  "sp_finish w b first st =
     (case sp_flush w b of (w', t, r) \<Rightarrow>
        \<lparr>sp_win = Some w', sp_buf = r, sp_out = sp_out st @ first @ t\<rparr>)"

text \<open>The Boolean says whether a buffer entry is free.\<close>

definition sp_recv :: "int \<Rightarrow> bool \<Rightarrow> int \<Rightarrow> rtllib_rxb \<Rightarrow> spec_st \<Rightarrow> spec_st" where
  "sp_recv W room s p st =
     (let w = (case sp_win st of None \<Rightarrow> s | Some w \<Rightarrow> w)
      in if s < w then st
         else if s = w then sp_finish (w + 1) (sp_buf st) [(s, p)] st
         else sp_finish (if w + W \<le> s then s + 1 - W else w)
                (if room then sp_insert s p (sp_buf st) else sp_buf st) [] st)"

definition sp_timeout :: "spec_st \<Rightarrow> spec_st" where
  "sp_timeout st =
     (case sp_buf st of [] \<Rightarrow> st | (s, p) # b \<Rightarrow> sp_finish s (sp_buf st) [] st)"

definition sp_init :: spec_st where
  "sp_init = \<lparr>sp_win = None, sp_buf = [], sp_out = []\<rparr>"

text \<open>
  A packet's true number is within 2048 of the window start, which is what 12 bits can
  tell apart.
\<close>

definition near :: "int option \<Rightarrow> int \<Rightarrow> bool" where
  "near ow s \<longleftrightarrow> (case ow of None \<Rightarrow> True | Some w \<Rightarrow> w - 2048 \<le> s \<and> s < w + 2048)"

section \<open>The abstract receiver delivers in order\<close>

definition ascending :: "(int \<times> 'a) list \<Rightarrow> bool" where
  "ascending b \<longleftrightarrow> sorted_wrt (\<lambda>x y. fst x < fst y) b"

lemma ascending_simps [simp]:
  "ascending []"
  "ascending (x # b) \<longleftrightarrow> (\<forall>y \<in> set b. fst x < fst y) \<and> ascending b"
  "ascending (b @ c) \<longleftrightarrow> ascending b \<and> ascending c \<and> (\<forall>x \<in> set b. \<forall>y \<in> set c. fst x < fst y)"
  by (auto simp: ascending_def sorted_wrt_append)

definition sp_inv :: "int \<Rightarrow> spec_st \<Rightarrow> bool" where
  "sp_inv W st \<longleftrightarrow> ascending (sp_buf st) \<and> ascending (sp_out st) \<and>
     (case sp_win st of
        None \<Rightarrow> sp_buf st = [] \<and> sp_out st = []
      | Some w \<Rightarrow> (\<forall>x \<in> set (sp_buf st). w < fst x \<and> fst x < w + W) \<and>
                  (\<forall>x \<in> set (sp_out st). fst x < w))"

lemma set_sp_insert: "set (sp_insert s p b) \<subseteq> insert (s, p) (set b)"
  by (induction s p b rule: sp_insert.induct) auto

lemma ascending_sp_insert: "ascending b \<Longrightarrow> ascending (sp_insert s p b)"
  by (induction s p b rule: sp_insert.induct) (use set_sp_insert in fastforce)+

lemma sp_flush_spec:
  "sp_flush w b = (w', t, r) \<Longrightarrow> ascending b \<Longrightarrow>
     b = t @ r \<and> w \<le> w' \<and> (\<forall>x \<in> set t. fst x < w') \<and> (\<forall>x \<in> set r. w' < fst x)"
proof (induction w b arbitrary: w' t r rule: sp_flush.induct)
  case (2 w s p b)
  show ?case
  proof (cases "s \<le> w")
    case True
    then obtain t' where t': "sp_flush (if s = w then w + 1 else w) b = (w', t', r)" "t = (s, p) # t'"
      using 2 by (auto split: prod.splits)
    with "2.IH"[OF True t'(1)] "2.prems"(2)
    have "b = t' @ r" "(if s = w then w + 1 else w) \<le> w'" "\<forall>x \<in> set t'. fst x < w'" "\<forall>x \<in> set r. w' < fst x"
      by auto
    moreover from this True have "s < w'" "w \<le> w'" by (auto split: if_splits)
    ultimately show ?thesis using t'(2) by auto
  qed (use 2 in fastforce)
qed auto

lemma sp_finish_inv:
  assumes "ascending b" "ascending (sp_out st @ first)"
    and "\<forall>x \<in> set (sp_out st @ first). fst x < w \<and> (\<forall>y \<in> set b. fst x < fst y)"
    and "\<forall>x \<in> set b. fst x < w + W"
  shows "sp_inv W (sp_finish w b first st)"
proof -
  obtain w' t r where f: "sp_flush w b = (w', t, r)" by (cases "sp_flush w b")
  from sp_flush_spec[OF f assms(1)] have b: "b = t @ r" and w: "w \<le> w'"
    and t: "\<forall>x \<in> set t. fst x < w'" and r: "\<forall>x \<in> set r. w' < fst x" by auto
  have asc: "ascending t" "ascending r" using assms(1) unfolding b by simp_all
  have "\<forall>x \<in> set (sp_out st @ first). \<forall>y \<in> set t. fst x < fst y"
    using assms(3) unfolding b by simp
  then have "ascending ((sp_out st @ first) @ t)"
    using assms(2) asc(1) by (simp only: ascending_simps) simp
  moreover have "\<forall>x \<in> set r. w' < fst x \<and> fst x < w' + W"
  proof
    fix x assume "x \<in> set r"
    then have "fst x < w + W" "w' < fst x" using assms(4) r b by auto
    then show "w' < fst x \<and> fst x < w' + W" using w by simp
  qed
  moreover have "\<forall>x \<in> set ((sp_out st @ first) @ t). fst x < w'"
  proof
    fix x assume "x \<in> set ((sp_out st @ first) @ t)"
    then consider "x \<in> set (sp_out st @ first)" | "x \<in> set t" by auto
    then show "fst x < w'"
    proof cases
      case 1
      then have "fst x < w" using assms(3) by blast
      then show ?thesis using w by simp
    qed (use t in blast)
  qed
  ultimately show ?thesis using asc(2) by (simp add: sp_inv_def sp_finish_def f)
qed

lemma sp_recv_inv:
  assumes "sp_inv W st" "0 < W"
  shows "sp_inv W (sp_recv W room s p st)"
proof (cases "sp_win st")
  case None
  then have "sp_recv W room s p st = sp_finish (s + 1) [] [(s, p)] st" "sp_out st = []"
    using assms by (auto simp: sp_recv_def sp_inv_def)
  then show ?thesis by (simp add: sp_finish_inv)
next
  case (Some w)
  have buf: "ascending (sp_buf st)" "\<forall>x \<in> set (sp_buf st). w < fst x \<and> fst x < w + W"
    and out: "ascending (sp_out st)" "\<forall>x \<in> set (sp_out st). fst x < w"
    using assms(1) Some by (auto simp: sp_inv_def)
  consider "s < w" | "s = w" | "w < s" by linarith
  then show ?thesis
  proof cases
    case 1
    then show ?thesis using assms by (simp add: sp_recv_def Some)
  next
    case 2
    have "sp_inv W (sp_finish (w + 1) (sp_buf st) [(w, p)] st)"
      using buf out by (intro sp_finish_inv) (auto; fastforce)+
    then show ?thesis using 2 by (simp add: sp_recv_def Some)
  next
    case 3
    let ?w = "if w + W \<le> s then s + 1 - W else w"
      and ?b = "if room then sp_insert s p (sp_buf st) else sp_buf st"
    have w: "w \<le> ?w" "s < ?w + W" using 3 assms(2) by auto
    have b: "ascending ?b" "\<forall>x \<in> set ?b. x = (s, p) \<or> x \<in> set (sp_buf st)"
      using buf(1) ascending_sp_insert set_sp_insert[of s p "sp_buf st"] by auto
    have keys: "\<forall>x \<in> set ?b. w < fst x \<and> fst x < ?w + W"
      using b(2) buf(2) 3 w by fastforce
    have "sp_inv W (sp_finish ?w ?b [] st)"
      using b(1) out keys w(1) by (intro sp_finish_inv) (fastforce)+
    then show ?thesis using 3 by (simp add: sp_recv_def Some)
  qed
qed

lemma sp_timeout_inv:
  assumes "sp_inv W st" shows "sp_inv W (sp_timeout st)"
proof (cases "sp_buf st")
  case (Cons x b)
  obtain s p where x: "x = (s, p)" by (cases x)
  obtain w where w: "sp_win st = Some w" using assms Cons by (auto simp: sp_inv_def split: option.splits)
  have buf: "ascending (sp_buf st)" "\<forall>x \<in> set (sp_buf st). w < fst x \<and> fst x < w + W" "w < s"
    "\<forall>x \<in> set (sp_buf st). s \<le> fst x"
    and out: "ascending (sp_out st)" "\<forall>x \<in> set (sp_out st). fst x < w"
    using assms w Cons x by (auto simp: sp_inv_def)
  have "sp_inv W (sp_finish s (sp_buf st) [] st)"
    using buf out by (intro sp_finish_inv) fastforce+
  then show ?thesis by (simp add: sp_timeout_def Cons x)
qed (use assms in \<open>simp add: sp_timeout_def\<close>)

section \<open>Numbers modulo 4096\<close>

definition seq12 :: "int \<Rightarrow> u16" where
  "seq12 x = word_of_int (x mod 4096)"

lemma uint_seq12 [simp]: "uint (seq12 x) = x mod 4096"
proof -
  have "0 \<le> x mod 4096" "x mod 4096 < 4096" by simp_all
  then have "take_bit 16 (x mod 4096) = x mod 4096" by (simp add: take_bit_int_eq_self)
  then show ?thesis by (simp only: seq12_def uint_word_of_int_eq len_num1 len_bit0 len_bit1) simp
qed

lemma seq12_not_ffff [simp]: "seq12 x \<noteq> 0xffff"
proof
  assume "seq12 x = 0xffff"
  then have "uint (seq12 x) = 65535" by simp
  moreover have "x mod 4096 < 4096" by simp
  ultimately show False by simp
qed

lemma bit_11_iff: "bit (k :: int) 11 \<longleftrightarrow> 2048 \<le> k mod 4096"
proof -
  have "k mod (2048 * 2) = 2048 * (k div 2048 mod 2) + k mod 2048"
    by (rule zmod_zmult2_eq) simp
  moreover have "0 \<le> k mod 2048" "k mod 2048 < 2048" by simp_all
  ultimately have "2048 \<le> k mod 4096 \<longleftrightarrow> k div 2048 mod 2 = 1"
    by (cases "k div 2048 mod 2 = 0") auto
  then show ?thesis by (simp add: bit_iff_odd odd_iff_mod_2_eq_one)
qed

lemma SN_LESS_iff: "SN_LESS a b \<longleftrightarrow> 2048 \<le> (uint a - uint b) mod 4096"
proof -
  have "(k AND 2048 \<noteq> 0) = bit k 11" for k :: int
    using and_exp_eq_0_iff_not_bit[of k 11] by simp
  then show ?thesis by (simp add: SN_LESS_def bit_11_iff)
qed

lemma mod_4096_near:
  assumes "- 2048 \<le> d" "d < 2048"
  shows "2048 \<le> d mod 4096 \<longleftrightarrow> d < (0 :: int)"
proof (cases "d < 0")
  case True
  then have "d mod 4096 = d + 4096"
    using assms mod_pos_pos_trivial[of "d + 4096" 4096] by simp
  then show ?thesis using assms True by simp
next
  case False
  then show ?thesis using assms by simp
qed

lemma SN_LESS_seq12:
  assumes "- 2048 \<le> x - y" "x - y < 2048"
  shows "SN_LESS (seq12 x) (seq12 y) \<longleftrightarrow> x < y"
  using mod_4096_near[OF assms] by (simp add: SN_LESS_iff mod_diff_eq)

lemma SN_EQUAL_seq12:
  assumes "- 4096 < x - y" "x - y < 4096"
  shows "SN_EQUAL (seq12 x) (seq12 y) \<longleftrightarrow> x = y"
proof
  assume "SN_EQUAL (seq12 x) (seq12 y)"
  then have "uint (seq12 x) = uint (seq12 y)" by (simp only: SN_EQUAL_def)
  then have "4096 dvd x - y" by (simp add: mod_eq_dvd_iff)
  then obtain k where "x - y = 4096 * k" by (rule dvdE)
  with assms show "x = y" by simp
qed (simp add: SN_EQUAL_def)

lemma next_seq_seq12 [simp]: "next_seq (seq12 x) = seq12 (x + 1)"
proof -
  have "c_mod (x mod 4096 + 1) 4096 = (x mod 4096 + 1) mod 4096" by (rule c_mod_nonneg) simp_all
  also have "\<dots> = (x + 1) mod 4096" by (rule mod_add_left_eq)
  finally show ?thesis by (simp only: next_seq_def uint_seq12) (simp only: seq12_def)
qed

section \<open>The driver refines the abstract receiver\<close>

definition ent_rel :: "RX_REORDER_ENTRY list \<Rightarrow> (int \<times> rtllib_rxb) list \<Rightarrow> bool" where
  "ent_rel = list_all2 (\<lambda>e x. SeqNum e = seq12 (fst x) \<and> prxb e = Some (snd x))"

definition abs_rel :: "reorder_st \<Rightarrow> spec_st \<Rightarrow> bool" where
  "abs_rel st sp \<longleftrightarrow>
     (case sp_win sp of None \<Rightarrow> RxIndicateSeq (ro_ts st) = 0xffff
      | Some w \<Rightarrow> RxIndicateSeq (ro_ts st) = seq12 w) \<and>
     ent_rel (rev (RxPendingPktList (ro_ts st))) (sp_buf sp) \<and>
     ro_out st = map snd (sp_out sp)"

lemma ent_rel_simps [simp]:
  "ent_rel [] b \<longleftrightarrow> b = []"
  "ent_rel es [] \<longleftrightarrow> es = []"
  "ent_rel (e # es) (x # b) \<longleftrightarrow> SeqNum e = seq12 (fst x) \<and> prxb e = Some (snd x) \<and> ent_rel es b"
  by (auto simp: ent_rel_def)

lemma ent_rel_Cons1: "ent_rel (e # es) b \<longleftrightarrow>
    (\<exists>k q b'. b = (k, q) # b' \<and> SeqNum e = seq12 k \<and> prxb e = Some q \<and> ent_rel es b')"
  by (auto simp: ent_rel_def list_all2_Cons1)

lemma ent_rel_snoc: "ent_rel (es @ [e]) b \<longleftrightarrow>
    (\<exists>b' k q. b = b' @ [(k, q)] \<and> SeqNum e = seq12 k \<and> prxb e = Some q \<and> ent_rel es b')"
proof
  assume "ent_rel (es @ [e]) b"
  then show "\<exists>b' k q. b = b' @ [(k, q)] \<and> SeqNum e = seq12 k \<and> prxb e = Some q \<and> ent_rel es b'"
    by (auto simp: ent_rel_def list_all2_append1 list_all2_Cons1)
qed (auto simp: ent_rel_def intro: list_all2_appendI)

lemma ent_rel_append: "ent_rel es b \<Longrightarrow> ent_rel es' b' \<Longrightarrow> ent_rel (es @ es') (b @ b')"
  by (simp add: ent_rel_def list_all2_appendI)

lemma ent_rel_length: "ent_rel es b \<Longrightarrow> length es = length b"
  by (simp add: ent_rel_def list_all2_lengthD)

lemma sp_insert_snoc_less: "s < k \<Longrightarrow> sp_insert s p (b @ [(k, q)]) = sp_insert s p b @ [(k, q)]"
  by (induction s p b rule: sp_insert.induct) auto

lemma sp_insert_snoc_eq: "ascending (b @ [(s, q)]) \<Longrightarrow> sp_insert s p (b @ [(s, q)]) = b @ [(s, q)]"
  by (induction s p b rule: sp_insert.induct) auto

lemma sp_insert_above: "\<forall>x \<in> set b. fst x < s \<Longrightarrow> sp_insert s p b = b @ [(s, p)]"
  by (induction s p b rule: sp_insert.induct) auto

lemma AddReorderEntry_refines:
  assumes "ent_rel (rev l) b" "ascending b" "SeqNum e = seq12 s" "prxb e = Some p"
    and "\<forall>x \<in> set b. - 2048 \<le> s - fst x \<and> s - fst x < 2048"
  shows "case AddReorderEntry l e of
           None \<Rightarrow> sp_insert s p b = b
         | Some l' \<Rightarrow> ent_rel (rev l') (sp_insert s p b)"
  using assms
proof (induction l e arbitrary: b rule: AddReorderEntry.induct)
  case (2 x xs e)
  from "2.prems"(1) obtain b' k q where b: "b = b' @ [(k, q)]" "SeqNum x = seq12 k" "prxb x = Some q"
    and xs: "ent_rel (rev xs) b'" by (auto simp: ent_rel_snoc)
  have near: "- 2048 \<le> s - k" "s - k < 2048" using "2.prems"(5) b(1) by auto
  have less: "SN_LESS (SeqNum e) (SeqNum x) \<longleftrightarrow> s < k"
    using SN_LESS_seq12[OF near] "2.prems"(3) b(2) by simp
  have equal: "SN_EQUAL (SeqNum e) (SeqNum x) \<longleftrightarrow> s = k"
    using SN_EQUAL_seq12[of s k] near "2.prems"(3) b(2) by simp
  consider "s < k" | "s = k" | "k < s" by linarith
  then show ?case
  proof cases
    case 1
    then show ?thesis
      using "2.IH" "2.prems" xs b less
      by (auto simp: sp_insert_snoc_less ent_rel_snoc split: option.splits)
  next
    case 2
    then show ?thesis
      using "2.prems"(2) less equal b(1) by (simp add: sp_insert_snoc_eq del: ascending_simps)
  next
    case 3
    then have "\<forall>y \<in> set b. fst y < s" using "2.prems"(2) b(1) by auto
    then show ?thesis
      using 3 "2.prems" less equal ent_rel_append[OF "2.prems"(1), of "[e]" "[(s, p)]"]
      by (simp add: sp_insert_above)
  qed
qed simp

lemma indicate_loop_refines:
  assumes "sp_flush w b = (w', t, r)" "ent_rel es b" "ascending b"
    and "\<forall>x \<in> set b. - 2048 \<le> fst x - w \<and> fst x - w < 2048"
    and "index + length es \<le> REORDER_WIN_SIZE"
  shows "\<exists>taken rest. indicate_loop (seq12 w) index es = (seq12 w', taken, rest, rest \<noteq> []) \<and>
           ent_rel taken t \<and> ent_rel rest r \<and> es = taken @ rest"
  using assms
proof (induction w b arbitrary: w' t r es index rule: sp_flush.induct)
  case (2 w s p b)
  from "2.prems"(2) obtain e es' where es: "es = e # es'" "SeqNum e = seq12 s" "prxb e = Some p" "ent_rel es' b"
    by (cases es) auto
  have near: "- 2048 \<le> s - w" "s - w < 2048" using "2.prems"(4) by auto
  have less: "SN_LESS (SeqNum e) (seq12 w) \<longleftrightarrow> s < w"
    using SN_LESS_seq12[OF near] es(2) by simp
  have equal: "SN_EQUAL (SeqNum e) (seq12 w) \<longleftrightarrow> s = w"
    using SN_EQUAL_seq12[of s w] near es(2) by simp
  show ?case
  proof (cases "s \<le> w")
    case True
    let ?w = "if s = w then w + 1 else w"
    obtain t' where t': "sp_flush ?w b = (w', t', r)" "t = (s, p) # t'"
      using "2.prems"(1) True by (auto split: prod.splits)
    have "\<forall>x \<in> set b. - 2048 \<le> fst x - ?w \<and> fst x - ?w < 2048"
      using "2.prems"(3,4) by auto
    with "2.IH"[OF True t'(1) es(4), of "Suc index"] "2.prems"(3,5) es(1)
    obtain taken rest where IH: "indicate_loop (seq12 ?w) (Suc index) es' = (seq12 w', taken, rest, rest \<noteq> [])"
      "ent_rel taken t'" "ent_rel rest r" "es' = taken @ rest"
      by auto
    have "indicate_loop (seq12 w) index es = (seq12 w', e # taken, rest, rest \<noteq> [])"
      using True less equal IH(1) "2.prems"(5) es(1) by (auto split: if_splits)
    then show ?thesis
      using IH t'(2) es by auto
  next
    case False
    then show ?thesis
      using "2.prems"(1,2) less equal es by auto
  qed
qed auto

lemma ent_rel_packets: "ent_rel es b \<Longrightarrow> map (\<lambda>e. the (prxb e)) es = map snd b"
  by (induction es arbitrary: b) (auto simp: ent_rel_Cons1)

lemma flush_packets_fields:
  assumes "indicate_loop (RxIndicateSeq (ro_ts st)) (length first) (rev (RxPendingPktList (ro_ts st))) =
      (ind, taken, rest, inbuf)" "length first + length taken \<le> REORDER_WIN_SIZE"
  shows "RxIndicateSeq (ro_ts (flush_packets T first st)) = ind"
    and "RxPendingPktList (ro_ts (flush_packets T first st)) = rev rest"
    and "ro_out (flush_packets T first st) = ro_out st @ first @ map (\<lambda>e. the (prxb e)) taken"
    and "ro_unused (flush_packets T first st) = ro_unused st @ taken"
    and "ro_freed (flush_packets T first st) = ro_freed st"
  using assms by (auto simp: flush_packets_def Let_def)

lemma flush_packets_refines:
  assumes "RxIndicateSeq (ro_ts st) = seq12 w" "ent_rel (rev (RxPendingPktList (ro_ts st))) b" "ascending b"
    and "\<forall>x \<in> set b. - 2048 \<le> fst x - w \<and> fst x - w < 2048"
    and "length fl + length b \<le> REORDER_WIN_SIZE" "ro_out st = map snd (sp_out sp)"
  shows "abs_rel (flush_packets T (map snd fl) st) (sp_finish w b fl sp)"
proof -
  obtain w' t r where f: "sp_flush w b = (w', t, r)" by (cases "sp_flush w b")
  have bt: "b = t @ r" using sp_flush_spec[OF f assms(3)] by simp
  obtain taken rest where l: "indicate_loop (seq12 w) (length fl) (rev (RxPendingPktList (ro_ts st))) =
      (seq12 w', taken, rest, rest \<noteq> [])" "ent_rel taken t" "ent_rel rest r"
    using indicate_loop_refines[OF f assms(2,3,4), of "length fl"] assms(5) ent_rel_length[OF assms(2)] by auto
  have t: "map (\<lambda>e. the (prxb e)) taken = map snd t" "length taken = length t"
    using l(2) by (simp_all add: ent_rel_packets ent_rel_length)
  have "indicate_loop (RxIndicateSeq (ro_ts st)) (length (map snd fl)) (rev (RxPendingPktList (ro_ts st))) =
      (seq12 w', taken, rest, rest \<noteq> [])" "length (map snd fl) + length taken \<le> REORDER_WIN_SIZE"
    using l(1) assms(1,5) bt t(2) by simp_all
  note fields = flush_packets_fields[OF this]
  show ?thesis
    using fields l(3) assms(6) t(1) by (simp add: abs_rel_def sp_finish_def f)
qed

lemma keys_length:
  assumes "ascending b" "\<forall>x \<in> set b. lo < fst x \<and> fst x < hi"
  shows "int (length b) \<le> max 0 (hi - lo - 1)"
proof -
  have "distinct (map fst b)" using assms(1) by (induction b) auto
  then have "length b = card (fst ` set b)" by (metis distinct_card length_map set_map)
  also have "\<dots> \<le> card {lo<..<hi}" using assms(2) by (intro card_mono) auto
  finally show ?thesis by simp
qed

lemma sp_insert_length: "length (sp_insert s p b) \<le> Suc (length b)"
  by (induction s p b rule: sp_insert.induct) auto

lemma buffer_packet_refines:
  assumes "ent_rel (rev (RxPendingPktList (ro_ts st))) b" "ascending b"
    and "\<forall>x \<in> set b. - 2048 \<le> s - fst x \<and> s - fst x < 2048"
  shows "ent_rel (rev (RxPendingPktList (ro_ts (buffer_packet pkt (seq12 s) st))))
           (if ro_unused st \<noteq> [] then sp_insert s pkt b else b)"
    and "RxIndicateSeq (ro_ts (buffer_packet pkt (seq12 s) st)) = RxIndicateSeq (ro_ts st)"
    and "ro_out (buffer_packet pkt (seq12 s) st) = ro_out st"
proof -
  show "RxIndicateSeq (ro_ts (buffer_packet pkt (seq12 s) st)) = RxIndicateSeq (ro_ts st)"
    "ro_out (buffer_packet pkt (seq12 s) st) = ro_out st"
    by (auto simp: buffer_packet_def Let_def split: list.split option.split)
  show "ent_rel (rev (RxPendingPktList (ro_ts (buffer_packet pkt (seq12 s) st))))
           (if ro_unused st \<noteq> [] then sp_insert s pkt b else b)"
  proof (cases "ro_unused st")
    case (Cons e es)
    let ?e = "e\<lparr>SeqNum := seq12 s, prxb := Some pkt\<rparr>"
    have "SeqNum ?e = seq12 s" "prxb ?e = Some pkt" by simp_all
    from AddReorderEntry_refines[OF assms(1,2) this assms(3)]
    show ?thesis
      using assms(1) by (auto simp: buffer_packet_def Cons Let_def split: option.split)
  qed (use assms(1) in \<open>simp add: buffer_packet_def\<close>)
qed

lemma WinEnd_seq12:
  "1 \<le> W \<Longrightarrow> word_of_int (c_mod (uint (seq12 w) + W - 1) 4096) = seq12 (w + W - 1)"
proof -
  assume "1 \<le> W"
  then have "c_mod (w mod 4096 + W - 1) 4096 = (w mod 4096 + (W - 1)) mod 4096"
    using c_mod_nonneg[of "w mod 4096 + W - 1" 4096] by (simp add: algebra_simps)
  also have "\<dots> = (w + (W - 1)) mod 4096" by (rule mod_add_left_eq)
  finally have "c_mod (w mod 4096 + W - 1) 4096 = (w + W - 1) mod 4096" by (simp add: algebra_simps)
  then show ?thesis by (simp only: uint_seq12) (simp only: seq12_def)
qed

lemma shift_seq12:
  assumes "1 \<le> W" "W \<le> 4096"
  shows "(if uint (seq12 s) \<ge> W - 1 then word_of_int (uint (seq12 s) + 1 - W)
          else word_of_int (4095 - (W - (uint (seq12 s) + 1)) + 1)) = seq12 (s + 1 - W)"
proof -
  let ?u = "s mod 4096"
  have r: "0 \<le> ?u" "?u < 4096" by simp_all
  have m: "(?u + (1 - W)) mod 4096 = (s + (1 - W)) mod 4096" by (rule mod_add_left_eq)
  show ?thesis
  proof (cases "?u \<ge> W - 1")
    case True
    then have "(?u + (1 - W)) mod 4096 = ?u + 1 - W" using r assms(1) by (simp add: algebra_simps)
    then have "?u + 1 - W = (s + 1 - W) mod 4096" using m by (simp add: algebra_simps)
    then show ?thesis using True by (simp only: uint_seq12 if_True) (simp only: seq12_def)
  next
    case False
    then have "(?u + (1 - W) + 4096) mod 4096 = 4096 + ?u + 1 - W"
      using r assms by (intro mod_pos_pos_trivial[THEN trans]) auto
    moreover have "(?u + (1 - W) + 4096) mod 4096 = (?u + (1 - W)) mod 4096" by (rule mod_add_self2)
    ultimately have "(?u + (1 - W)) mod 4096 = 4096 + ?u + 1 - W" by (simp only:)
    then have "4095 - (W - (?u + 1)) + 1 = (s + 1 - W) mod 4096" using m by (simp add: algebra_simps)
    then show ?thesis using False by (simp only: uint_seq12 if_False) (simp only: seq12_def)
  qed
qed

lemma RxReorderIndicate_refines:
  assumes R: "abs_rel st sp" and inv: "sp_inv (uint WinSize) sp"
    and W: "1 \<le> uint WinSize" "uint WinSize \<le> int REORDER_WIN_SIZE"
    and s: "near (sp_win sp) s"
  shows "abs_rel (RxReorderIndicate WinSize T pkt (seq12 s) st)
           (sp_recv (uint WinSize) (ro_unused st \<noteq> []) s pkt sp)"
proof (cases "sp_win sp")
  case None
  then have "RxIndicateSeq (ro_ts st) = 0xffff" "RxPendingPktList (ro_ts st) = []" "ro_out st = map snd (sp_out sp)"
    "sp_buf sp = []"
    using R inv by (auto simp: abs_rel_def sp_inv_def)
  moreover from this have "abs_rel (flush_packets T (map snd [(s, pkt)]) (st\<lparr>ro_ts := (ro_ts st)\<lparr>RxIndicateSeq := seq12 (s + 1)\<rparr>\<rparr>))
      (sp_finish (s + 1) [] [(s, pkt)] sp)"
    by (intro flush_packets_refines) auto
  ultimately show ?thesis
    using SN_LESS_seq12[of s s]
    by (simp add: RxReorderIndicate_def sp_recv_def None shift_window_def SN_EQUAL_def)
next
  case (Some w)
  let ?W = "uint WinSize"
  have ind: "RxIndicateSeq (ro_ts st) = seq12 w" and ent: "ent_rel (rev (RxPendingPktList (ro_ts st))) (sp_buf sp)"
    and out: "ro_out st = map snd (sp_out sp)"
    and asc: "ascending (sp_buf sp)" and keys: "\<forall>x \<in> set (sp_buf sp). w < fst x \<and> fst x < w + ?W"
    and sw: "- 2048 \<le> s - w" "s - w < 2048"
    using R inv s by (auto simp: abs_rel_def sp_inv_def near_def Some)
  have len: "int (length (sp_buf sp)) < ?W"
    using keys_length[OF asc keys] W by auto
  note less = SN_LESS_seq12[OF sw]
  have equal: "SN_EQUAL (seq12 s) (seq12 w) \<longleftrightarrow> s = w" using SN_EQUAL_seq12[of s w] sw by simp
  consider "s < w" | "s = w" | "w < s" by linarith
  then show ?thesis
  proof cases
    case 1
    then show ?thesis using R less ind by (simp add: RxReorderIndicate_def sp_recv_def Some abs_rel_def)
  next
    case 2
    have "abs_rel (flush_packets T (map snd [(w, pkt)]) (st\<lparr>ro_ts := (ro_ts st)\<lparr>RxIndicateSeq := seq12 (w + 1)\<rparr>\<rparr>))
        (sp_finish (w + 1) (sp_buf sp) [(w, pkt)] sp)"
      using ent asc keys len W out by (intro flush_packets_refines) auto
    then show ?thesis
      using 2 less ind by (simp add: RxReorderIndicate_def sp_recv_def Some shift_window_def SN_EQUAL_def)
  next
    case 3
    let ?w = "if w + ?W \<le> s then s + 1 - ?W else w"
      and ?b = "if ro_unused st \<noteq> [] then sp_insert s pkt (sp_buf sp) else sp_buf sp"
    let ?st = "st\<lparr>ro_ts := (ro_ts st)\<lparr>RxIndicateSeq := seq12 ?w\<rparr>\<rparr>"
    have e: "SN_LESS (seq12 (w + ?W - 1)) (seq12 s) \<longleftrightarrow> w + ?W \<le> s"
      using SN_LESS_seq12[of "w + ?W - 1" s] sw W 3 by auto
    have shift: "shift_window WinSize (seq12 (w + ?W - 1)) (seq12 s) (seq12 w) = (seq12 ?w, False)"
      using 3 equal e shift_seq12[of ?W s] W by (simp add: shift_window_def del: uint_seq12)
    have near: "\<forall>x \<in> set (sp_buf sp). - 2048 \<le> s - fst x \<and> s - fst x < 2048"
      using keys sw W 3 by fastforce
    have ent': "ent_rel (rev (RxPendingPktList (ro_ts ?st))) (sp_buf sp)" using ent by simp
    note buf = buffer_packet_refines[OF ent' asc near, of pkt]
    have b: "ascending ?b" "\<forall>x \<in> set ?b. x = (s, pkt) \<or> x \<in> set (sp_buf sp)"
      using asc ascending_sp_insert set_sp_insert[of s pkt "sp_buf sp"] by auto
    have "\<forall>x \<in> set ?b. - 2048 \<le> fst x - ?w \<and> fst x - ?w < 2048"
      using b(2) keys sw W 3 by fastforce
    moreover have "length ?b \<le> REORDER_WIN_SIZE"
      using len W sp_insert_length[of s pkt "sp_buf sp"] by auto
    ultimately have "abs_rel (flush_packets T (map snd ([] :: (int \<times> rtllib_rxb) list)) (buffer_packet pkt (seq12 s) ?st)) (sp_finish ?w ?b [] sp)"
      using buf b(1) out by (intro flush_packets_refines) auto
    then show ?thesis
      using 3 less ind shift WinEnd_seq12[OF W(1), of w]
      by (simp add: RxReorderIndicate_def sp_recv_def Some del: uint_seq12)
  qed
qed


text \<open>The timer function: it never writes outside its array, and it refines the timeout.\<close>

lemma timeout_loop_indicate:
  "Suc index + length es \<le> REORDER_WIN_SIZE \<Longrightarrow>
     timeout_loop ind (Suc index) es = Some (indicate_loop ind (Suc index) es)"
  by (induction es arbitrary: ind index) (auto simp: Let_def split: prod.splits)

lemma timeout_loop_refines:
  assumes "ent_rel es b" "ascending b" "b = (s, p) # b'" "length es \<le> REORDER_WIN_SIZE"
    and "\<forall>x \<in> set b. fst x - s < 2047" "sp_flush s b = (w', t, r)"
  shows "\<exists>taken rest. timeout_loop ind 0 es = Some (seq12 w', taken, rest, rest \<noteq> []) \<and>
           ent_rel taken t \<and> ent_rel rest r \<and> es = taken @ rest \<and> taken \<noteq> []"
proof -
  obtain e es' where es: "es = e # es'" "SeqNum e = seq12 s" "prxb e = Some p" "ent_rel es' b'"
    using assms(1,3) by (cases es) auto
  obtain t' where t': "sp_flush (s + 1) b' = (w', t', r)" "t = (s, p) # t'"
    using assms(3,6) by (auto split: prod.splits)
  have "\<forall>x \<in> set b'. - 2048 \<le> fst x - (s + 1) \<and> fst x - (s + 1) < 2048"
    using assms(2,3,5) by auto
  from indicate_loop_refines[OF t'(1) es(4) _ this, of "Suc 0"] assms(2-4) es(1)
  obtain taken rest where "indicate_loop (seq12 (s + 1)) (Suc 0) es' = (seq12 w', taken, rest, rest \<noteq> [])"
    "ent_rel taken t'" "ent_rel rest r" "es' = taken @ rest"
    by auto
  then show ?thesis
    using es t'(2) assms(4) timeout_loop_indicate[of 0 es'] by (auto simp: SN_EQUAL_def)
qed

lemma RxPktPendingTimeout_refines:
  assumes R: "abs_rel st sp" and inv: "sp_inv W sp" and W: "1 \<le> W" "W \<le> int REORDER_WIN_SIZE"
  shows "\<exists>st'. RxPktPendingTimeout_st T st = Some st' \<and> abs_rel st' (if RxTimeoutIndicateSeq (ro_ts st) \<noteq> 0xffff then sp_timeout sp else sp)"
proof (cases "RxTimeoutIndicateSeq (ro_ts st) = 0xffff \<or> sp_buf sp = []")
  case True
  then show ?thesis
    using R by (auto simp: RxPktPendingTimeout_st_def abs_rel_def sp_timeout_def Let_def split: option.splits)
next
  case False
  then obtain s p b' where b: "sp_buf sp = (s, p) # b'" by (cases "sp_buf sp") auto
  obtain w where w: "sp_win sp = Some w" using inv b by (auto simp: sp_inv_def split: option.splits)
  have asc: "ascending (sp_buf sp)" and keys: "\<forall>x \<in> set (sp_buf sp). w < fst x \<and> fst x < w + W"
    and ent: "ent_rel (rev (RxPendingPktList (ro_ts st))) (sp_buf sp)" and out: "ro_out st = map snd (sp_out sp)"
    using R inv w by (auto simp: sp_inv_def abs_rel_def)
  have len: "length (rev (RxPendingPktList (ro_ts st))) \<le> REORDER_WIN_SIZE"
    using keys_length[OF asc keys] W ent_rel_length[OF ent] by auto
  obtain w' t r where f: "sp_flush s (sp_buf sp) = (w', t, r)" by (cases "sp_flush s (sp_buf sp)")
  have "\<forall>x \<in> set (sp_buf sp). fst x - s < 2047" using keys W b by fastforce
  from timeout_loop_refines[OF ent asc b len this f]
  obtain taken rest where l: "timeout_loop (RxIndicateSeq (ro_ts st)) 0 (rev (RxPendingPktList (ro_ts st))) =
       Some (seq12 w', taken, rest, rest \<noteq> [])" "ent_rel taken t" "ent_rel rest r" "taken \<noteq> []"
    "rev (RxPendingPktList (ro_ts st)) = taken @ rest" by blast
  have tl: "length taken \<le> REORDER_WIN_SIZE" using len l(5) by simp
  have tmo: "sp_timeout sp = \<lparr>sp_win = Some w', sp_buf = r, sp_out = sp_out sp @ t\<rparr>"
  proof -
    have "sp_timeout sp = sp_finish s (sp_buf sp) [] sp" by (simp only: sp_timeout_def b list.case prod.case)
    then show ?thesis by (simp only: sp_finish_def f prod.case append_Nil)
  qed
  show ?thesis
    using False tl l(1,3,4) out ent_rel_packets[OF l(2)] ent_rel_length[OF l(2)]
    by (simp add: RxPktPendingTimeout_st_def abs_rel_def tmo Let_def)
qed

end
