(* ===== verification/Rx_Reorder_Run.thy ===== *)
theory Rx_Reorder_Run
  imports Rx_Reorder_Spec "HOL-Library.Multiset"
begin

text \<open>
  The life of one receive stream: packets arrive, the pending timer fires, and the other
  streams take entries from the shared pool and give them back. The driver's functions
  refine the abstract receiver along every such run; packets and pool entries are
  conserved; and the pending timer has an invariant of its own.
\<close>

section \<open>Events of a stream\<close>

datatype reorder_event =
    Packet rtllib_rxb u16
  | Timeout
  | Pool "RX_REORDER_ENTRY list"

definition reorder_ok :: "reorder_event \<Rightarrow> bool" where
  "reorder_ok e = (case e of Packet p n \<Rightarrow> uint n < 4096 | _ \<Rightarrow> True)"

fun reorder_step :: "u8 \<Rightarrow> u8 \<Rightarrow> reorder_event \<Rightarrow> reorder_st \<Rightarrow> reorder_st option" where
  "reorder_step WinSize T (Packet p n) st = Some (RxReorderIndicate WinSize T p n st)"
| "reorder_step WinSize T Timeout st = RxPktPendingTimeout_st T st"
| "reorder_step WinSize T (Pool l) st = Some (st\<lparr>ro_unused := l\<rparr>)"

inductive sp_step :: "int \<Rightarrow> reorder_event \<Rightarrow> spec_st \<Rightarrow> spec_st \<Rightarrow> bool" for W where
  recv: "near (sp_win st) s \<Longrightarrow> sp_step W (Packet p (seq12 s)) st (sp_recv W room s p st)"
| timeout: "sp_step W Timeout st (sp_timeout st)"
| late: "sp_step W Timeout st st"
| pool: "sp_step W (Pool l) st st"

lemma sp_step_inv: "sp_step W e st st' \<Longrightarrow> 0 < W \<Longrightarrow> sp_inv W st \<Longrightarrow> sp_inv W st'"
  by (induction rule: sp_step.induct) (auto intro: sp_recv_inv sp_timeout_inv)

section \<open>The true number of a packet\<close>

lemma seq12_id: "uint n < 4096 \<Longrightarrow> seq12 (uint n) = n"
  by (simp add: seq12_def)

lemma near_exists:
  assumes "uint n < 4096" shows "\<exists>s. near ow s \<and> n = seq12 s"
proof (cases ow)
  case None
  then show ?thesis using seq12_id[OF assms] by (auto simp: near_def intro!: exI[of _ "uint n"])
next
  case (Some w)
  let ?s = "w - 2048 + (uint n - (w - 2048)) mod 4096"
  have "?s mod 4096 = (w - 2048 + (uint n - (w - 2048))) mod 4096" by (rule mod_add_right_eq)
  then have "?s mod 4096 = uint n mod 4096" by (simp add: algebra_simps)
  then have "seq12 ?s = seq12 (uint n)" by (simp only: seq12_def)
  moreover have "0 \<le> (uint n - (w - 2048)) mod 4096" "(uint n - (w - 2048)) mod 4096 < 4096" by simp_all
  ultimately show ?thesis
    using seq12_id[OF assms] by (intro exI[of _ ?s]) (simp add: near_def Some)
qed

section \<open>The pending timer\<close>

text \<open>The timer runs exactly while a time-out number is set, and then packets are pending.\<close>

definition timer_inv :: "reorder_st \<Rightarrow> bool" where
  "timer_inv st \<longleftrightarrow>
     (RxPktPendingTimer (ro_ts st) \<noteq> None \<longleftrightarrow> RxTimeoutIndicateSeq (ro_ts st) \<noteq> 0xffff) \<and>
     (RxTimeoutIndicateSeq (ro_ts st) \<noteq> 0xffff \<longrightarrow> RxPendingPktList (ro_ts st) \<noteq> [])"

definition reorder_rel :: "u8 \<Rightarrow> reorder_st \<Rightarrow> spec_st \<Rightarrow> bool" where
  "reorder_rel WinSize st sp \<longleftrightarrow> 1 \<le> uint WinSize \<and> uint WinSize \<le> int REORDER_WIN_SIZE \<and>
     abs_rel st sp \<and> sp_inv (uint WinSize) sp \<and> timer_inv st"

lemma indicate_loop_struct:
  "indicate_loop ind index es = (ind', taken, rest, inbuf) \<Longrightarrow>
     es = taken @ rest \<and> (inbuf \<longleftrightarrow> rest \<noteq> []) \<and> (index \<le> REORDER_WIN_SIZE \<longrightarrow> index + length taken \<le> REORDER_WIN_SIZE)"
  by (induction ind index es arbitrary: taken rule: indicate_loop.induct)
    (auto split: if_splits prod.splits)

lemma timeout_loop_struct:
  "timeout_loop ind index es = Some (ind', taken, rest, inbuf) \<Longrightarrow>
     es = taken @ rest \<and> (inbuf \<longleftrightarrow> rest \<noteq> []) \<and> (index \<le> REORDER_WIN_SIZE \<longrightarrow> index + length taken \<le> REORDER_WIN_SIZE)"
proof (induction es arbitrary: ind index taken)
  case (Cons e es)
  let ?i = "if index = 0 then SeqNum e else ind"
  show ?case
  proof (cases "SN_LESS (SeqNum e) ?i \<or> SN_EQUAL (SeqNum e) ?i")
    case True
    with Cons.prems obtain t where
      "timeout_loop (if SN_EQUAL (SeqNum e) ?i then next_seq ?i else ?i) (Suc index) es = Some (ind', t, rest, inbuf)"
      "taken = e # t" "index < REORDER_WIN_SIZE"
      by (auto simp: Let_def split: if_splits)
    with Cons.IH[OF this(1)] show ?thesis by auto
  next
    case False
    then show ?thesis using Cons.prems by (auto simp: Let_def)
  qed
qed auto

lemma timeout_loop_takes: "timeout_loop ind 0 (e # es) = Some (ind', taken, rest, inbuf) \<Longrightarrow> taken \<noteq> []"
  by (auto simp: SN_EQUAL_def split: if_splits)

lemma flush_packets_timer:
  assumes "timer_inv st" "RxIndicateSeq (ro_ts (flush_packets T first st)) \<noteq> 0xffff"
  shows "timer_inv (flush_packets T first st)"
proof -
  obtain ind taken rest inbuf where l:
    "indicate_loop (RxIndicateSeq (ro_ts st)) (length first) (rev (RxPendingPktList (ro_ts st))) = (ind, taken, rest, inbuf)"
    by (metis prod_cases4)
  note s = indicate_loop_struct[OF l]
  show ?thesis
  proof (cases "first = [] \<and> taken = []")
    case True
    then have r: "rev rest = RxPendingPktList (ro_ts st)" using s by auto
    let ?f = "ro_ts (flush_packets T first st)" and ?arm = "rest \<noteq> [] \<and> RxTimeoutIndicateSeq (ro_ts st) = 0xffff"
    have "RxTimeoutIndicateSeq ?f = (if ?arm then ind else RxTimeoutIndicateSeq (ro_ts st))"
      "RxPktPendingTimer ?f = (if ?arm then Some (MSECS (unat T)) else RxPktPendingTimer (ro_ts st))"
      "RxIndicateSeq ?f = ind" "RxPendingPktList ?f = rev rest"
      using True l s by (simp_all add: flush_packets_def Let_def)
    then show ?thesis
      using assms r by (auto simp: timer_inv_def split: if_splits)
  next
    case False
    then show ?thesis by (auto simp: timer_inv_def flush_packets_def l Let_def)
  qed
qed

lemma buffer_packet_timer: "timer_inv st \<Longrightarrow> timer_inv (buffer_packet p n st)"
proof -
  have "AddReorderEntry l e \<noteq> Some []" for l e
    by (induction l e rule: AddReorderEntry.induct) auto
  then show "timer_inv st \<Longrightarrow> timer_inv (buffer_packet p n st)"
    by (auto simp: timer_inv_def buffer_packet_def Let_def split: list.split option.split)
qed

lemma RxReorderIndicate_timer:
  assumes "timer_inv st" "RxIndicateSeq (ro_ts (RxReorderIndicate WinSize T p n st)) \<noteq> 0xffff"
  shows "timer_inv (RxReorderIndicate WinSize T p n st)"
proof -
  have set_ind: "timer_inv (st'\<lparr>ro_ts := (ro_ts st')\<lparr>RxIndicateSeq := i\<rparr>\<rparr>) = timer_inv st'"
    "timer_inv (st'\<lparr>ro_ts := (ro_ts st')\<lparr>RxIndicateSeq := i\<rparr>, ro_drops := a, ro_freed := b\<rparr>) = timer_inv st'"
    for st' i a b by (simp_all add: timer_inv_def)
  show ?thesis
    using assms
    by (auto simp: RxReorderIndicate_def Let_def set_ind buffer_packet_timer
        intro!: flush_packets_timer split: prod.splits if_splits)
qed

lemma RxPktPendingTimeout_timer:
  assumes "RxPktPendingTimeout_st T st = Some st'" "timer_inv st"
  shows "RxPktPendingTimer (ro_ts st') = None" "RxTimeoutIndicateSeq (ro_ts st') = 0xffff" "timer_inv st'"
proof -
  have "RxPktPendingTimer (ro_ts st') = None \<and> RxTimeoutIndicateSeq (ro_ts st') = 0xffff"
  proof (cases "RxTimeoutIndicateSeq (ro_ts st) = 0xffff")
    case False
    then obtain e es where "rev (RxPendingPktList (ro_ts st)) = e # es"
      using assms(2) by (cases "rev (RxPendingPktList (ro_ts st))") (auto simp: timer_inv_def)
    then show ?thesis
      using False assms(1) timeout_loop_takes timeout_loop_struct[of _ 0 "e # es"]
      by (fastforce simp: RxPktPendingTimeout_st_def Let_def simp del: timeout_loop.simps split: option.splits if_splits)
  qed (use assms(1) in \<open>auto simp: RxPktPendingTimeout_st_def Let_def\<close>)
  then show "RxPktPendingTimer (ro_ts st') = None" "RxTimeoutIndicateSeq (ro_ts st') = 0xffff" "timer_inv st'"
    by (auto simp: timer_inv_def)
qed

section \<open>The driver's events refine the abstract receiver's\<close>

lemma reorder_step_sim:
  assumes R: "reorder_rel WinSize st sp" and ok: "reorder_ok e"
  shows "\<exists>st' sp'. reorder_step WinSize T e st = Some st' \<and> sp_step (uint WinSize) e sp sp' \<and> reorder_rel WinSize st' sp'"
proof -
  have W: "1 \<le> uint WinSize" "uint WinSize \<le> int REORDER_WIN_SIZE" using R by (auto simp: reorder_rel_def)
  show ?thesis
  proof (cases e)
  case (Packet p n)
  then obtain s where s: "near (sp_win sp) s" "n = seq12 s"
    using near_exists ok by (fastforce simp: reorder_ok_def)
  let ?st = "RxReorderIndicate WinSize T p n st" and ?sp = "sp_recv (uint WinSize) (ro_unused st \<noteq> []) s p sp"
  have "abs_rel ?st ?sp" using R W s by (auto simp: reorder_rel_def intro: RxReorderIndicate_refines)
  moreover have "sp_win ?sp \<noteq> None"
    by (auto simp: sp_recv_def sp_finish_def Let_def split: prod.splits option.splits)
  ultimately have "timer_inv ?st"
    using R by (intro RxReorderIndicate_timer) (auto simp: reorder_rel_def abs_rel_def)
  then show ?thesis
    using \<open>abs_rel ?st ?sp\<close> R W s Packet sp_recv_inv recv by (fastforce simp: reorder_rel_def)
next
  case Timeout
  obtain st' where st': "RxPktPendingTimeout_st T st = Some st'"
    "abs_rel st' (if RxTimeoutIndicateSeq (ro_ts st) \<noteq> 0xffff then sp_timeout sp else sp)"
    using RxPktPendingTimeout_refines[OF _ _ W] R by (meson reorder_rel_def)
  have "timer_inv st'" using RxPktPendingTimeout_timer(3)[OF st'(1)] R by (simp add: reorder_rel_def)
  then show ?thesis
    using st' R Timeout sp_timeout_inv timeout late by (fastforce simp: reorder_rel_def split: if_splits)
next
  case (Pool l)
  have "reorder_rel WinSize (st\<lparr>ro_unused := l\<rparr>) sp"
    using R by (simp add: reorder_rel_def abs_rel_def timer_inv_def split: option.splits)
  then show ?thesis using Pool pool by auto
  qed
qed

interpretation reorder: forward_sim "reorder_step WinSize T" "sp_step (uint WinSize)" "reorder_rel WinSize" reorder_ok
  for WinSize T
  by unfold_locales (rule reorder_step_sim)

section \<open>Conservation\<close>

text \<open>Every packet taken in is handed on, freed or pending, and no pool entry is lost.\<close>

definition pending_packets :: "reorder_st \<Rightarrow> rtllib_rxb multiset" where
  "pending_packets st = mset (map (\<lambda>e. the (prxb e)) (RxPendingPktList (ro_ts st)))"

definition all_packets :: "reorder_st \<Rightarrow> rtllib_rxb multiset" where
  "all_packets st = mset (ro_out st) + mset (ro_freed st) + pending_packets st"

definition pool_ids :: "reorder_st \<Rightarrow> nat multiset" where
  "pool_ids st = mset (map re_id (ro_unused st @ RxPendingPktList (ro_ts st)))"

lemma AddReorderEntry_mset: "AddReorderEntry l e = Some l' \<Longrightarrow> mset l' = add_mset e (mset l)"
  by (induction l e arbitrary: l' rule: AddReorderEntry.induct) (auto split: if_splits)

lemma flush_packets_conserves:
  assumes "length first \<le> REORDER_WIN_SIZE"
  shows "all_packets (flush_packets T first st) = all_packets st + mset first"
    and "pool_ids (flush_packets T first st) = pool_ids st"
proof -
  obtain ind taken rest inbuf where l:
    "indicate_loop (RxIndicateSeq (ro_ts st)) (length first) (rev (RxPendingPktList (ro_ts st))) = (ind, taken, rest, inbuf)"
    by (metis prod_cases4)
  note s = indicate_loop_struct[OF l]
  then have len: "length first + length taken \<le> REORDER_WIN_SIZE" using assms by simp
  have m: "mset (RxPendingPktList (ro_ts st)) = mset taken + mset rest"
    using s by (metis mset_append mset_rev)
  note f = flush_packets_fields[OF l len, of T]
  show "all_packets (flush_packets T first st) = all_packets st + mset first"
    using m by (simp add: all_packets_def pending_packets_def f)
  show "pool_ids (flush_packets T first st) = pool_ids st"
    using m by (simp add: pool_ids_def f)
qed

lemma buffer_packet_conserves:
  "all_packets (buffer_packet p n st) = add_mset p (all_packets st)"
  "pool_ids (buffer_packet p n st) = pool_ids st"
  by (auto simp: all_packets_def pending_packets_def pool_ids_def buffer_packet_def Let_def AddReorderEntry_mset
      split: list.split option.split)

lemma RxReorderIndicate_conserves:
  "all_packets (RxReorderIndicate WinSize T p n st) = add_mset p (all_packets st) \<and>
   pool_ids (RxReorderIndicate WinSize T p n st) = pool_ids st"
proof -
  have set_ind: "all_packets (st'\<lparr>ro_ts := (ro_ts st')\<lparr>RxIndicateSeq := i\<rparr>\<rparr>) = all_packets st'"
    "pool_ids (st'\<lparr>ro_ts := (ro_ts st')\<lparr>RxIndicateSeq := i\<rparr>\<rparr>) = pool_ids st'"
    "all_packets (st'\<lparr>ro_ts := (ro_ts st')\<lparr>RxIndicateSeq := i\<rparr>, ro_drops := a, ro_freed := ro_freed st' @ [p]\<rparr>) =
       add_mset p (all_packets st')"
    "pool_ids (st'\<lparr>ro_ts := (ro_ts st')\<lparr>RxIndicateSeq := i\<rparr>, ro_drops := a, ro_freed := ro_freed st' @ [p]\<rparr>) = pool_ids st'"
    for st' i a by (simp_all add: all_packets_def pending_packets_def pool_ids_def)
  show ?thesis
    by (simp add: RxReorderIndicate_def Let_def set_ind flush_packets_conserves buffer_packet_conserves
        split: prod.split)
qed

lemma RxPktPendingTimeout_conserves:
  assumes "RxPktPendingTimeout_st T st = Some st'"
  shows "all_packets st' = all_packets st" "pool_ids st' = pool_ids st"
proof -
  have *: "all_packets st' = all_packets st \<and> pool_ids st' = pool_ids st"
    if e: "rev (RxPendingPktList (ro_ts st)) = taken @ rest" and len: "length taken \<le> REORDER_WIN_SIZE"
      and f: "RxPendingPktList (ro_ts st') = rev rest" "ro_out st' = ro_out st @ map (\<lambda>e. the (prxb e)) taken"
      "ro_unused st' = ro_unused st @ taken" "ro_freed st' = ro_freed st" for taken rest
  proof -
    have "mset (RxPendingPktList (ro_ts st)) = mset taken + mset rest" by (metis e mset_append mset_rev)
    then show ?thesis by (simp add: all_packets_def pending_packets_def pool_ids_def f)
  qed
  have "all_packets st' = all_packets st \<and> pool_ids st' = pool_ids st"
  proof (cases "RxTimeoutIndicateSeq (ro_ts st) = 0xffff")
    case True
    then show ?thesis using assms by (intro *[of "[]"]) (auto simp: RxPktPendingTimeout_st_def Let_def)
  next
    case False
    then obtain ind taken rest inbuf where l:
      "timeout_loop (RxIndicateSeq (ro_ts st)) 0 (rev (RxPendingPktList (ro_ts st))) = Some (ind, taken, rest, inbuf)"
      using assms by (auto simp: RxPktPendingTimeout_st_def Let_def split: option.splits)
    note s = timeout_loop_struct[OF l]
    then have len: "length taken \<le> REORDER_WIN_SIZE" by simp
    have "RxPendingPktList (ro_ts st') = rev rest \<and> ro_out st' = ro_out st @ map (\<lambda>e. the (prxb e)) taken \<and>
        ro_unused st' = ro_unused st @ taken \<and> ro_freed st' = ro_freed st"
      using assms False len l
      by (cases "taken = []") (auto simp: RxPktPendingTimeout_st_def Let_def split: if_splits)
    then show ?thesis using s len by (intro *[of taken rest]) auto
  qed
  then show "all_packets st' = all_packets st" "pool_ids st' = pool_ids st" by auto
qed

section \<open>A stream from its reset on\<close>

definition reorder_fresh :: "reorder_st \<Rightarrow> bool" where
  "reorder_fresh st \<longleftrightarrow> RxIndicateSeq (ro_ts st) = 0xffff \<and> RxTimeoutIndicateSeq (ro_ts st) = 0xffff \<and>
     RxPendingPktList (ro_ts st) = [] \<and> RxPktPendingTimer (ro_ts st) = None \<and> ro_out st = []"

lemma reorder_fresh_rel:
  "reorder_fresh st \<Longrightarrow> 1 \<le> uint WinSize \<Longrightarrow> uint WinSize \<le> int REORDER_WIN_SIZE \<Longrightarrow> reorder_rel WinSize st sp_init"
  by (simp add: reorder_fresh_def reorder_rel_def abs_rel_def sp_inv_def timer_inv_def sp_init_def)

lemma set_sp_flush: "sp_flush w b = (w', t, r) \<Longrightarrow> set t \<subseteq> set b \<and> set r \<subseteq> set b"
  by (induction w b arbitrary: w' t r rule: sp_flush.induct) (fastforce split: if_splits prod.splits)+

lemma set_sp_finish:
  "set (sp_buf (sp_finish w b fl st)) \<union> set (sp_out (sp_finish w b fl st)) \<subseteq> set b \<union> set fl \<union> set (sp_out st)"
  using set_sp_flush by (fastforce simp: sp_finish_def split: prod.splits)

lemma sp_step_provenance:
  "sp_step W e a b \<Longrightarrow> x \<in> set (sp_buf b) \<union> set (sp_out b) \<Longrightarrow>
     x \<in> set (sp_buf a) \<union> set (sp_out a) \<or> e = Packet (snd x) (seq12 (fst x))"
proof (induction rule: sp_step.induct)
  case (recv st s p room)
  then show ?case
    using set_sp_finish set_sp_insert[of s p "sp_buf st"]
    by (simp add: sp_recv_def Let_def split: if_splits) (fastforce+)
next
  case (timeout st)
  then show ?case
    using set_sp_finish by (fastforce simp: sp_timeout_def split: list.splits)
qed auto

lemma sp_run_provenance:
  "lrun (sp_step W) es a b \<Longrightarrow> x \<in> set (sp_buf b) \<union> set (sp_out b) \<Longrightarrow>
     x \<in> set (sp_buf a) \<union> set (sp_out a) \<or> Packet (snd x) (seq12 (fst x)) \<in> set es"
  by (induction rule: lrun.induct) (auto dest!: sp_step_provenance)

lemma ent_rel_member: "ent_rel es b \<Longrightarrow> e \<in> set es \<Longrightarrow> \<exists>x \<in> set b. SeqNum e = seq12 (fst x)"
  by (induction es arbitrary: b) (auto simp: ent_rel_Cons1)

lemma pending_not_next:
  assumes "abs_rel st sp" "sp_inv W sp" "W \<le> 128" "e \<in> set (RxPendingPktList (ro_ts st))"
  shows "SeqNum e \<noteq> RxIndicateSeq (ro_ts st)"
proof -
  have "e \<in> set (rev (RxPendingPktList (ro_ts st)))" using assms(4) by simp
  then obtain x where x: "x \<in> set (sp_buf sp)" "SeqNum e = seq12 (fst x)"
    using assms(1) ent_rel_member unfolding abs_rel_def by blast
  then obtain w where w: "sp_win sp = Some w" "w < fst x" "fst x < w + W"
    using assms(2) by (auto simp: sp_inv_def split: option.splits)
  then have "\<not> SN_EQUAL (seq12 (fst x)) (seq12 w)" using assms(3) SN_EQUAL_seq12[of "fst x" w] by simp
  then show ?thesis using assms(1) w(1) x(2) by (simp add: abs_rel_def SN_EQUAL_def)
qed


text \<open>A stream at its reset and three packets, for the concrete instances.\<close>

definition ex_rxb :: "u8 \<Rightarrow> rtllib_rxb" where
  "ex_rxb n = \<lparr>subframes = [[n]], rxb_dst = replicate 6 0, rxb_src = replicate 6 0\<rparr>"

definition ex_entry :: "nat \<Rightarrow> RX_REORDER_ENTRY" where
  "ex_entry n = \<lparr>re_id = n, SeqNum = 0, prxb = None\<rparr>"

definition ex_ba :: BA_RECORD where
  "ex_ba = \<lparr>ba_Timer = None, bValid = False, DialogToken = 0, BaParamSet = 0, BaTimeoutValue = 0, BaStartSeqCtrl = 0\<rparr>"

definition ex_common :: TS_COMMON_INFO where
  "ex_common = \<lparr>SetupTimer = None, InactTimer = None, Addr = replicate 6 0, TSInfo = TSInfo_zero, TClasProc = 0, TClasNum = 0\<rparr>"

definition ex_rx_ts :: RX_TS_RECORD where
  "ex_rx_ts = \<lparr>rx_common = ex_common, RxIndicateSeq = 0xffff, RxTimeoutIndicateSeq = 0xffff, RxPendingPktList = [],
     RxPktPendingTimer = None, RxAdmittedBARecord = ex_ba, RxLastSeqNum = 0, RxLastFragNum = 0, rx_num = 0\<rparr>"

definition ex_reorder :: reorder_st where
  "ex_reorder = \<lparr>ro_ts = ex_rx_ts, ro_unused = map ex_entry [0, 1, 2, 3], ro_drops = 0, ro_out = [], ro_freed = []\<rparr>"

lemma ex_reorder_fresh: "reorder_fresh ex_reorder"
  by (simp add: reorder_fresh_def ex_reorder_def ex_rx_ts_def)

definition ex_events :: "reorder_event list" where
  "ex_events = [Packet (ex_rxb 1) 4095, Packet (ex_rxb 3) 1, Timeout, Packet (ex_rxb 2) 0]"


text \<open>
  C9: along any run of packets and time-outs the packets are conserved, each received
  packet being handed on, freed or still pending, exactly once, and no entry of the
  shared pool is lost or duplicated.
\<close>

fun received :: "reorder_event list \<Rightarrow> rtllib_rxb multiset" where
  "received [] = {#}"
| "received (Packet p n # es) = add_mset p (received es)"
| "received (_ # es) = received es"

theorem reorder_run_conserves:
  assumes "crun (reorder_step WinSize T) evs st = Some st'" "\<forall>l. Pool l \<notin> set evs"
  shows "all_packets st' = all_packets st + received evs \<and> pool_ids st' = pool_ids st"
  using assms
proof (induction evs arbitrary: st)
  case (Cons e evs)
  obtain st1 where st1: "reorder_step WinSize T e st = Some st1" "crun (reorder_step WinSize T) evs st1 = Some st'"
    using Cons.prems(1) by (auto split: option.splits)
  have "all_packets st1 = all_packets st + received [e] \<and> pool_ids st1 = pool_ids st"
    using st1(1) Cons.prems(2) RxReorderIndicate_conserves RxPktPendingTimeout_conserves by (cases e) auto
  moreover have "received (e # evs) = received [e] + received evs" by (cases e) auto
  ultimately show ?case using Cons.IH[OF st1(2)] Cons.prems(2) by (simp add: ac_simps)
qed simp

theorem reorder_run_conserves_witness:
  "\<exists>st'. crun (reorder_step 64 30) [Packet (ex_rxb 1) 5, Packet (ex_rxb 3) 7, Timeout] ex_reorder = Some st' \<and>
     all_packets st' = all_packets ex_reorder + {#ex_rxb 1, ex_rxb 3#} \<and> pool_ids st' = pool_ids ex_reorder"
proof -
  have "reorder_rel 64 ex_reorder sp_init" by (simp add: reorder_fresh_rel[OF ex_reorder_fresh])
  then have "crun (reorder_step 64 30) [Packet (ex_rxb 1) 5, Packet (ex_rxb 3) 7, Timeout] ex_reorder \<noteq> None"
    by (rule reorder.run_no_fault) (simp add: reorder_ok_def)
  then obtain st' where "crun (reorder_step 64 30) [Packet (ex_rxb 1) 5, Packet (ex_rxb 3) 7, Timeout] ex_reorder = Some st'"
    by blast
  with reorder_run_conserves[OF this] show ?thesis by (auto simp: add_mset_commute)
qed

lemma flush_packets_armed:
  assumes "timer_inv st" "ro_out (flush_packets T [] st) = ro_out st" "RxPendingPktList (ro_ts st) \<noteq> []"
  shows "RxPktPendingTimer (ro_ts (flush_packets T [] st)) \<noteq> None \<and> RxPendingPktList (ro_ts (flush_packets T [] st)) \<noteq> []"
proof -
  obtain ind taken rest inbuf where l:
    "indicate_loop (RxIndicateSeq (ro_ts st)) 0 (rev (RxPendingPktList (ro_ts st))) = (ind, taken, rest, inbuf)"
    by (metis prod_cases4)
  note s = indicate_loop_struct[OF l]
  have t: "taken = []"
    using assms(2) l s by (auto simp: flush_packets_def Let_def split: if_splits)
  then have "rest \<noteq> []" using s assms(3) by auto
  then show ?thesis using assms(1) l t s by (auto simp: flush_packets_def Let_def timer_inv_def)
qed

lemma flush_packets_stops:
  assumes "ro_out (flush_packets T fl st) \<noteq> ro_out st"
  shows "RxPktPendingTimer (ro_ts (flush_packets T fl st)) = None \<and> RxTimeoutIndicateSeq (ro_ts (flush_packets T fl st)) = 0xffff"
  using assms by (auto simp: flush_packets_def Let_def split: prod.splits if_splits)

lemma flush_packets_freed [simp]: "ro_freed (flush_packets T fl st) = ro_freed st"
  by (auto simp: flush_packets_def Let_def split: prod.splits)

lemma flush_packets_first_out: "fl \<noteq> [] \<Longrightarrow> length fl \<le> REORDER_WIN_SIZE \<Longrightarrow> ro_out (flush_packets T fl st) \<noteq> ro_out st"
  using indicate_loop_struct[of _ "length fl"]
  by (fastforce simp: flush_packets_def Let_def split: prod.splits)

lemma buffer_packet_kept:
  "ro_freed (buffer_packet p n st) = ro_freed st \<Longrightarrow> RxPendingPktList (ro_ts (buffer_packet p n st)) \<noteq> []"
proof -
  have "AddReorderEntry l e \<noteq> Some []" for l e
    by (induction l e rule: AddReorderEntry.induct) auto
  then show "ro_freed (buffer_packet p n st) = ro_freed st \<Longrightarrow> RxPendingPktList (ro_ts (buffer_packet p n st)) \<noteq> []"
    by (auto simp: buffer_packet_def Let_def split: list.splits option.splits)
qed

lemma buffer_packet_out [simp]: "ro_out (buffer_packet p n st) = ro_out st"
  by (auto simp: buffer_packet_def Let_def split: list.split option.split)

text \<open>
  When a packet is neither dropped nor handed on, so that it is buffered, the pending
  timer runs afterwards; when anything is handed on, the timer is off afterwards, also
  when packets remain pending. The concrete instance has a packet left pending with the
  timer off.
\<close>

theorem RxReorderIndicate_timer_state:
  assumes "timer_inv st" "ro_freed (RxReorderIndicate WinSize T p n st) = ro_freed st"
  shows "if ro_out (RxReorderIndicate WinSize T p n st) = ro_out st
         then RxPktPendingTimer (ro_ts (RxReorderIndicate WinSize T p n st)) \<noteq> None \<and>
              RxPendingPktList (ro_ts (RxReorderIndicate WinSize T p n st)) \<noteq> []
         else RxPktPendingTimer (ro_ts (RxReorderIndicate WinSize T p n st)) = None \<and>
              RxTimeoutIndicateSeq (ro_ts (RxReorderIndicate WinSize T p n st)) = 0xffff"
proof -
  let ?i0 = "RxIndicateSeq (ro_ts st)"
  let ?i1 = "if ?i0 = 0xffff then n else ?i0"
  obtain ind m where sw: "shift_window WinSize (word_of_int (c_mod (uint ?i0 + uint WinSize - 1) 4096)) n ?i1 = (ind, m)"
    by (metis surj_pair)
  let ?st = "st\<lparr>ro_ts := (ro_ts st)\<lparr>RxIndicateSeq := ind\<rparr>\<rparr>"
  have inv: "timer_inv ?st" using assms(1) by (simp add: timer_inv_def)
  have late: "\<not> SN_LESS n ?i1" using assms(2) by (auto simp: RxReorderIndicate_def Let_def)
  show ?thesis
  proof (cases m)
    case True
    then have "RxReorderIndicate WinSize T p n st = flush_packets T [p] ?st"
      using late sw by (simp add: RxReorderIndicate_def Let_def)
    then show ?thesis using flush_packets_first_out[of "[p]" T ?st] flush_packets_stops[of T "[p]" ?st] by simp
  next
    case False
    then have eq: "RxReorderIndicate WinSize T p n st = flush_packets T [] (buffer_packet p n ?st)"
      using late sw by (simp add: RxReorderIndicate_def Let_def)
    have "RxPendingPktList (ro_ts (buffer_packet p n ?st)) \<noteq> []"
      using assms(2) by (intro buffer_packet_kept) (simp add: eq)
    then show ?thesis
      using flush_packets_armed[OF buffer_packet_timer[OF inv]] flush_packets_stops[of T "[]" "buffer_packet p n ?st"]
      by (simp add: eq)
  qed
qed

definition ex_gap :: reorder_st where
  "ex_gap = RxReorderIndicate 64 30 (ex_rxb 5) 5 (RxReorderIndicate 64 30 (ex_rxb 3) 3 (RxReorderIndicate 64 30 (ex_rxb 1) 1 ex_reorder))"

lemma ex_gap_eval:
  "ro_freed ex_gap = []" "ro_out ex_gap = [ex_rxb 1]" "timer_inv ex_gap"
  "ro_out (RxReorderIndicate 64 30 (ex_rxb 2) 2 ex_gap) = [ex_rxb 1, ex_rxb 2, ex_rxb 3]"
  "ro_freed (RxReorderIndicate 64 30 (ex_rxb 2) 2 ex_gap) = []"
  "map SeqNum (RxPendingPktList (ro_ts (RxReorderIndicate 64 30 (ex_rxb 2) 2 ex_gap))) = [5]"
  by code_simp+

theorem RxReorderIndicate_timer_state_witness:
  "map SeqNum (RxPendingPktList (ro_ts (RxReorderIndicate 64 30 (ex_rxb 2) 2 ex_gap))) = [5] \<and>
   RxPktPendingTimer (ro_ts (RxReorderIndicate 64 30 (ex_rxb 2) 2 ex_gap)) = None"
  using RxReorderIndicate_timer_state[OF ex_gap_eval(3), of 64 30 "ex_rxb 2" 2] by (simp add: ex_gap_eval)

end
