(* ===== verification/BA_Proc.thy ===== *)
theory BA_Proc
  imports TS_Types
begin

text \<open>
  The block ack agreements of src/src/rtl819x_BAProc.c: activating and removing the
  records, building and sending the ADDBA and DELBA frames, opening and closing an
  agreement and the timers. The handlers of received frames are in theory BA_Rx.
\<close>

section \<open>Records\<close>

abbreviation (input) ADDBA_STATUS_SUCCESS :: u16 where "ADDBA_STATUS_SUCCESS \<equiv> 0"
abbreviation (input) ADDBA_STATUS_REFUSED :: u16 where "ADDBA_STATUS_REFUSED \<equiv> 37"
abbreviation (input) ADDBA_STATUS_INVALID_PARAM :: u16 where "ADDBA_STATUS_INVALID_PARAM \<equiv> 38"
abbreviation (input) DELBA_REASON_END_BA :: u16 where "DELBA_REASON_END_BA \<equiv> 37"
abbreviation (input) DELBA_REASON_UNKNOWN_BA :: u16 where "DELBA_REASON_UNKNOWN_BA \<equiv> 38"
abbreviation (input) DELBA_REASON_TIMEOUT :: u16 where "DELBA_REASON_TIMEOUT \<equiv> 39"
abbreviation (input) BA_POLICY_DELAYED :: u16 where "BA_POLICY_DELAYED \<equiv> 0"
abbreviation (input) BA_POLICY_IMMEDIATE :: u16 where "BA_POLICY_IMMEDIATE \<equiv> 1"
abbreviation (input) BA_SETUP_TIMEOUT :: u16 where "BA_SETUP_TIMEOUT \<equiv> 200"
abbreviation (input) ACT_CAT_BA :: u8 where "ACT_CAT_BA \<equiv> 3"
abbreviation (input) ACT_ADDBAREQ :: u8 where "ACT_ADDBAREQ \<equiv> 0"
abbreviation (input) ACT_ADDBARSP :: u8 where "ACT_ADDBARSP \<equiv> 1"
abbreviation (input) ACT_DELBA :: u8 where "ACT_DELBA \<equiv> 2"

definition ActivateBAEntry :: "BA_RECORD \<Rightarrow> u16 \<Rightarrow> BA_RECORD" where
  "ActivateBAEntry pBA Time =
     (let b = pBA\<lparr>bValid := True\<rparr>
      in if Time \<noteq> 0 then b\<lparr>ba_Timer := Some (MSECS (unat Time))\<rparr> else b)"

definition DeActivateBAEntry :: "BA_RECORD \<Rightarrow> BA_RECORD" where
  "DeActivateBAEntry pBA = pBA\<lparr>bValid := False, ba_Timer := None\<rparr>"

definition TxTsDeleteBA :: "TX_TS_RECORD \<Rightarrow> TX_TS_RECORD \<times> bool" where
  "TxTsDeleteBA pTxTs =
     (let (t1, s1) = (if bValid (TxPendingBARecord pTxTs)
                      then (pTxTs\<lparr>TxPendingBARecord := DeActivateBAEntry (TxPendingBARecord pTxTs)\<rparr>, True)
                      else (pTxTs, False))
      in if bValid (TxAdmittedBARecord t1)
         then (t1\<lparr>TxAdmittedBARecord := DeActivateBAEntry (TxAdmittedBARecord t1)\<rparr>, True)
         else (t1, s1))"

definition RxTsDeleteBA :: "RX_TS_RECORD \<Rightarrow> RX_TS_RECORD \<times> bool" where
  "RxTsDeleteBA pRxTs =
     (if bValid (RxAdmittedBARecord pRxTs)
      then (pRxTs\<lparr>RxAdmittedBARecord := DeActivateBAEntry (RxAdmittedBARecord pRxTs)\<rparr>, True)
      else (pRxTs, False))"

section \<open>Frames\<close>

text \<open>
  \<open>rtllib_ADDBA\<close> with the two types it is called with; both fill the nine bytes of the
  body. None when no buffer can be allocated.
\<close>

definition rtllib_ADDBA :: "ts_dev \<Rightarrow> mac \<Rightarrow> BA_RECORD \<Rightarrow> u16 \<Rightarrow> u8 \<Rightarrow> act_frame option" where
  "rtllib_ADDBA d Dst pBA StatusCode type =
     (if \<not> skb_avail d then None
      else Some \<lparr>af_frame_ctl = 0xD0, af_addr1 = Dst, af_addr2 = dev_addr d, af_addr3 = bssid d,
        af_body = [ACT_CAT_BA, type, DialogToken pBA]
          @ (if type = ACT_ADDBARSP then put16 StatusCode else [])
          @ put16 (BaParamSet pBA) @ put16 (BaTimeoutValue pBA)
          @ (if type = ACT_ADDBAREQ then put16 (BaStartSeqCtrl pBA) else [])\<rparr>)"

definition rtllib_DELBA :: "ts_dev \<Rightarrow> mac \<Rightarrow> BA_RECORD \<Rightarrow> TR_SELECT \<Rightarrow> u16 \<Rightarrow> act_frame option" where
  "rtllib_DELBA d dst pBA TxRxSelect ReasonCode =
     (let DelbaParamSet = set_DelbaTID (get_TID (BaParamSet pBA))
            (set_Initiator (if TxRxSelect = TX_DIR then 1 else 0) 0)
      in if \<not> skb_avail d then None
         else Some \<lparr>af_frame_ctl = 0xD0, af_addr1 = dst, af_addr2 = dev_addr d, af_addr3 = bssid d,
           af_body = [ACT_CAT_BA, ACT_DELBA] @ put16 DelbaParamSet @ put16 ReasonCode\<rparr>)"

definition mgmt_xmit :: "act_frame option \<Rightarrow> ts_dev \<Rightarrow> ts_dev" where
  "mgmt_xmit f d = (case f of None \<Rightarrow> d | Some skb \<Rightarrow> d\<lparr>mgmt_out := mgmt_out d @ [skb]\<rparr>)"

definition rtllib_send_ADDBAReq :: "mac \<Rightarrow> BA_RECORD \<Rightarrow> ts_dev \<Rightarrow> ts_dev" where
  "rtllib_send_ADDBAReq dst pBA d = mgmt_xmit (rtllib_ADDBA d dst pBA 0 ACT_ADDBAREQ) d"

definition rtllib_send_ADDBARsp :: "mac \<Rightarrow> BA_RECORD \<Rightarrow> u16 \<Rightarrow> ts_dev \<Rightarrow> ts_dev" where
  "rtllib_send_ADDBARsp dst pBA StatusCode d = mgmt_xmit (rtllib_ADDBA d dst pBA StatusCode ACT_ADDBARSP) d"

definition rtllib_send_DELBA :: "mac \<Rightarrow> BA_RECORD \<Rightarrow> TR_SELECT \<Rightarrow> u16 \<Rightarrow> ts_dev \<Rightarrow> ts_dev" where
  "rtllib_send_DELBA dst pBA TxRxSelect ReasonCode d =
     mgmt_xmit (rtllib_DELBA d dst pBA TxRxSelect ReasonCode) d"

section \<open>Opening and closing an agreement\<close>

definition init_pending_BA :: "TX_TS_RECORD \<Rightarrow> u16 \<Rightarrow> BA_RECORD" where
  "init_pending_BA pTS Policy =
     (let b = DeActivateBAEntry (TxPendingBARecord pTS);
          ps = set_BufferSize 32 (set_TID (ucast (ucTSID (TSInfo (tx_common pTS))))
                 (set_BAPolicy Policy (set_AMSDU_Support 0 (BaParamSet b))));
          seq = word_of_int (c_mod (uint (TxCurSeq pTS) + 3) 4096)
      in ActivateBAEntry
           (b\<lparr>DialogToken := DialogToken b + 1, BaParamSet := ps, BaTimeoutValue := 0,
              BaStartSeqCtrl := set_SeqNum seq (BaStartSeqCtrl b)\<rparr>) BA_SETUP_TIMEOUT)"

definition TsInitAddBA :: "ts_dev \<Rightarrow> nat \<Rightarrow> u16 \<Rightarrow> bool \<Rightarrow> ts_dev" where
  "TsInitAddBA d i Policy bOverwritePending =
     (let pTS = TxTsRecord d ! i
      in if bValid (TxPendingBARecord pTS) \<and> \<not> bOverwritePending then d
         else
           let pBA = init_pending_BA pTS Policy
           in rtllib_send_ADDBAReq (Addr (tx_common pTS)) pBA
                (upd_tx i (\<lambda>t. t\<lparr>TxPendingBARecord := pBA\<rparr>) d))"

definition TsInitDelBA :: "ts_dev \<Rightarrow> nat \<Rightarrow> TR_SELECT \<Rightarrow> ts_dev" where
  "TsInitDelBA d i TxRxSelect =
     (case TxRxSelect of
        TX_DIR \<Rightarrow>
          (case TxTsDeleteBA (TxTsRecord d ! i) of (t, del) \<Rightarrow>
             let d1 = upd_tx i (\<lambda>_. t) d
             in if del then
                  rtllib_send_DELBA (Addr (tx_common t))
                    (if bValid (TxAdmittedBARecord t) then TxAdmittedBARecord t else TxPendingBARecord t)
                    TxRxSelect DELBA_REASON_END_BA d1
                else d1)
      | RX_DIR \<Rightarrow>
          (case RxTsDeleteBA (RxTsRecord d ! i) of (t, del) \<Rightarrow>
             let d1 = upd_rx i (\<lambda>_. t) d
             in if del then
                  rtllib_send_DELBA (Addr (rx_common t)) (RxAdmittedBARecord t) TxRxSelect DELBA_REASON_END_BA d1
                else d1))"

section \<open>Timers\<close>

text \<open>A timer that has fired is not pending any more.\<close>

definition BaSetupTimeOut :: "nat \<Rightarrow> ts_dev \<Rightarrow> ts_dev" where
  "BaSetupTimeOut i = upd_tx i (\<lambda>pTxTs. pTxTs\<lparr>bAddBaReqInProgress := False, bAddBaReqDelayed := True,
     TxPendingBARecord := (TxPendingBARecord pTxTs)\<lparr>bValid := False, ba_Timer := None\<rparr>\<rparr>)"

definition TxBaInactTimeout :: "nat \<Rightarrow> ts_dev \<Rightarrow> ts_dev" where
  "TxBaInactTimeout i d =
     (let t0 = (TxTsRecord d ! i)\<lparr>TxAdmittedBARecord := (TxAdmittedBARecord (TxTsRecord d ! i))\<lparr>ba_Timer := None\<rparr>\<rparr>;
          t = fst (TxTsDeleteBA t0)
      in rtllib_send_DELBA (Addr (tx_common t)) (TxAdmittedBARecord t) TX_DIR DELBA_REASON_TIMEOUT
           (upd_tx i (\<lambda>_. t) d))"

definition RxBaInactTimeout :: "nat \<Rightarrow> ts_dev \<Rightarrow> ts_dev" where
  "RxBaInactTimeout i d =
     (let t0 = (RxTsRecord d ! i)\<lparr>RxAdmittedBARecord := (RxAdmittedBARecord (RxTsRecord d ! i))\<lparr>ba_Timer := None\<rparr>\<rparr>;
          t = fst (RxTsDeleteBA t0)
      in rtllib_send_DELBA (Addr (rx_common t)) (RxAdmittedBARecord t) RX_DIR DELBA_REASON_TIMEOUT
           (upd_rx i (\<lambda>_. t) d))"

end
