(* ===== verification/TS_Proc.thy ===== *)
theory TS_Proc
  imports BA_Proc
begin

text \<open>
  The traffic streams of src/src/rtl819x_TSProc.c: initialisation, finding or admitting
  the stream of a peer, removing streams, and starting a block ack agreement on one.
\<close>

section \<open>Initialisation\<close>

text \<open>
  Setting up a timer writes its record: a record number outside the array is a fault. The
  argument \<open>new_timers\<close> chooses between the two branches of the kernel version test;
  the second loop of the branch for newer kernels sets up two timers through the
  transmit pointer, which then points behind the last record.
\<close>

definition setup_tx_timers :: "nat \<Rightarrow> ts_dev \<Rightarrow> ts_dev option" where
  "setup_tx_timers i d =
     (if i < length (TxTsRecord d)
      then Some (upd_tx i (\<lambda>t. t\<lparr>tx_common := (tx_common t)\<lparr>SetupTimer := None, InactTimer := None\<rparr>\<rparr>) d)
      else None)"

definition init_tx :: "nat \<Rightarrow> ts_dev \<Rightarrow> ts_dev option" where
  "init_tx count d =
     do { d1 \<leftarrow> setup_tx_timers count (upd_tx count (\<lambda>t. t\<lparr>tx_num := of_nat count\<rparr>) d);
          let d2 = upd_tx count (\<lambda>t. ResetTxTsEntry
                (t\<lparr>TsAddBaTimer := None,
                   TxPendingBARecord := (TxPendingBARecord t)\<lparr>ba_Timer := None\<rparr>,
                   TxAdmittedBARecord := (TxAdmittedBARecord t)\<lparr>ba_Timer := None\<rparr>\<rparr>)) d1;
          Some (d2\<lparr>ts_links := list_add_tail (TxTs count) Tx_TS_Unused_List
                    (list_add_tail (RxTs 0) Rx_TS_Unused_List
                      (INIT_LIST_HEAD (TxTs count) (ts_links d2)))\<rparr>) }"

definition init_rx :: "bool \<Rightarrow> nat \<Rightarrow> ts_dev \<Rightarrow> ts_dev option" where
  "init_rx new_timers count d =
     do { d1 \<leftarrow> (if new_timers then setup_tx_timers TOTAL_TS_NUM d
                else Some (upd_rx count (\<lambda>t. t\<lparr>rx_common := (rx_common t)\<lparr>SetupTimer := None, InactTimer := None\<rparr>\<rparr>) d));
          let d2 = upd_rx count (\<lambda>t. ResetRxTsEntry
                (t\<lparr>rx_num := of_nat count, RxPendingPktList := [], RxPktPendingTimer := None,
                   RxAdmittedBARecord := (RxAdmittedBARecord t)\<lparr>ba_Timer := None\<rparr>\<rparr>)) d1;
          Some (d2\<lparr>ts_links := list_add_tail (RxTs count) Rx_TS_Unused_List
                    (INIT_LIST_HEAD (RxTs count) (ts_links d2))\<rparr>) }"

fun for_opt :: "(nat \<Rightarrow> 's \<Rightarrow> 's option) \<Rightarrow> nat list \<Rightarrow> 's \<Rightarrow> 's option" where
  "for_opt f [] s = Some s"
| "for_opt f (i # is) s = (case f i s of None \<Rightarrow> None | Some s' \<Rightarrow> for_opt f is s')"

definition init_heads :: "ts_node links \<Rightarrow> ts_node links" where
  "init_heads L = INIT_LIST_HEAD Rx_TS_Unused_List (INIT_LIST_HEAD Rx_TS_Pending_List
     (INIT_LIST_HEAD Rx_TS_Admit_List (INIT_LIST_HEAD Tx_TS_Unused_List
       (INIT_LIST_HEAD Tx_TS_Pending_List (INIT_LIST_HEAD Tx_TS_Admit_List L)))))"

definition TSInitialize :: "bool \<Rightarrow> RX_REORDER_ENTRY list \<Rightarrow> ts_dev \<Rightarrow> ts_dev option" where
  "TSInitialize new_timers RxReorderEntry d =
     do { d1 \<leftarrow> for_opt init_tx [0..<TOTAL_TS_NUM]
                (d\<lparr>ts_links := init_heads (ts_links d), RxReorder_Unused_List := []\<rparr>);
          d2 \<leftarrow> for_opt (init_rx new_timers) [0..<TOTAL_TS_NUM] d1;
          Some (d2\<lparr>RxReorder_Unused_List := RxReorderEntry\<rparr>) }"

section \<open>Finding and admitting a stream\<close>

definition node_index :: "ts_node \<Rightarrow> nat" where
  "node_index n = (case n of TxTs i \<Rightarrow> i | RxTs i \<Rightarrow> i | _ \<Rightarrow> 0)"

definition ts_common :: "ts_dev \<Rightarrow> ts_node \<Rightarrow> TS_COMMON_INFO" where
  "ts_common d n = (case n of RxTs i \<Rightarrow> rx_common (RxTsRecord d ! i) | _ \<Rightarrow> tx_common (TxTsRecord d ! node_index n))"

definition set_common :: "(TS_COMMON_INFO \<Rightarrow> TS_COMMON_INFO) \<Rightarrow> ts_node \<Rightarrow> ts_dev \<Rightarrow> ts_dev" where
  "set_common f n d =
     (case n of RxTs i \<Rightarrow> upd_rx i (\<lambda>t. t\<lparr>rx_common := f (rx_common t)\<rparr>) d
      | _ \<Rightarrow> upd_tx (node_index n) (\<lambda>t. t\<lparr>tx_common := f (tx_common t)\<rparr>) d)"

definition AdmitTS :: "ts_node \<Rightarrow> u32 \<Rightarrow> ts_dev \<Rightarrow> ts_dev" where
  "AdmitTS n InactTime =
     set_common (\<lambda>c. let c1 = c\<lparr>SetupTimer := None, InactTimer := None\<rparr>
                     in if InactTime \<noteq> 0 then c1\<lparr>InactTimer := Some (MSECS (unat InactTime))\<rparr> else c1) n"

definition search_dir :: "iw_mode \<Rightarrow> TR_SELECT \<Rightarrow> u8 \<Rightarrow> bool" where
  "search_dir m TxRxSelect dir =
     (if m = IW_MODE_MASTER then
        (if TxRxSelect = TX_DIR then dir = DIR_DOWN \<or> dir = DIR_BI_DIR else dir = DIR_UP \<or> dir = DIR_BI_DIR)
      else if m = IW_MODE_ADHOC then
        (if TxRxSelect = TX_DIR then dir = DIR_UP else dir = DIR_DOWN)
      else
        (if TxRxSelect = TX_DIR then dir = DIR_UP \<or> dir = DIR_BI_DIR \<or> dir = DIR_DIRECT
         else dir = DIR_DOWN \<or> dir = DIR_BI_DIR \<or> dir = DIR_DIRECT))"

definition admit_head :: "TR_SELECT \<Rightarrow> ts_node" where
  "admit_head s = (if s = TX_DIR then Tx_TS_Admit_List else Rx_TS_Admit_List)"

definition unused_head :: "TR_SELECT \<Rightarrow> ts_node" where
  "unused_head s = (if s = TX_DIR then Tx_TS_Unused_List else Rx_TS_Unused_List)"

definition pending_head :: "TR_SELECT \<Rightarrow> ts_node" where
  "pending_head s = (if s = TX_DIR then Tx_TS_Pending_List else Rx_TS_Pending_List)"

abbreviation (input) LIST_FUEL :: nat where "LIST_FUEL \<equiv> 40"

text \<open>
  One pass over the admitted streams per direction that is searched, in increasing order
  of the direction. The outer None is a walk that does not end.
\<close>

fun search_dirs :: "ts_dev \<Rightarrow> mac \<Rightarrow> u8 \<Rightarrow> TR_SELECT \<Rightarrow> u8 list \<Rightarrow> ts_node option option" where
  "search_dirs d Address TID TxRxSelect [] = Some None"
| "search_dirs d Address TID TxRxSelect (dir # dirs) =
     (if \<not> search_dir (iw_mode d) TxRxSelect dir then search_dirs d Address TID TxRxSelect dirs
      else
        case list_find LIST_FUEL (ts_links d) (admit_head TxRxSelect)
               (\<lambda>n. Addr (ts_common d n) = Address \<and> ucTSID (TSInfo (ts_common d n)) = TID \<and>
                    ucDirection (TSInfo (ts_common d n)) = dir)
               (nxt (ts_links d) (admit_head TxRxSelect)) of
          None \<Rightarrow> None
        | Some None \<Rightarrow> search_dirs d Address TID TxRxSelect dirs
        | Some (Some n) \<Rightarrow> Some (Some n))"

definition SearchAdmitTRStream :: "ts_dev \<Rightarrow> mac \<Rightarrow> u8 \<Rightarrow> TR_SELECT \<Rightarrow> ts_node option option" where
  "SearchAdmitTRStream d Address TID TxRxSelect = search_dirs d Address TID TxRxSelect [DIR_UP, DIR_DOWN, DIR_DIRECT, DIR_BI_DIR]"

definition MakeTSEntry :: "mac \<Rightarrow> QOS_TSINFO \<Rightarrow> u8 \<Rightarrow> u8 \<Rightarrow> TS_COMMON_INFO \<Rightarrow> TS_COMMON_INFO" where
  "MakeTSEntry Address pTSPEC TCLAS_Num TCLAS_Proc c =
     c\<lparr>Addr := Address, TSInfo := pTSPEC, TClasProc := TCLAS_Proc, TClasNum := TCLAS_Num\<rparr>"

definition UP_of_TID :: "u8 \<Rightarrow> u8" where
  "UP_of_TID TID = (if TID = 0 \<or> TID = 3 then 0 else if TID = 1 \<or> TID = 2 then 2
     else if TID = 4 \<or> TID = 5 then 5 else 7)"

definition GetTs_UP :: "ts_dev \<Rightarrow> u8 \<Rightarrow> u8 option" where
  "GetTs_UP d TID = (if qos_supported d = 0 then Some 0 else if TID \<le> 7 then Some (UP_of_TID TID) else None)"

definition GetTs_Dir :: "ts_dev \<Rightarrow> TR_SELECT \<Rightarrow> u8" where
  "GetTs_Dir d TxRxSelect =
     (if iw_mode d = IW_MODE_MASTER then (if TxRxSelect = TX_DIR then DIR_DOWN else DIR_UP)
      else (if TxRxSelect = TX_DIR then DIR_UP else DIR_DOWN))"

definition new_TSInfo :: "u8 \<Rightarrow> u8 \<Rightarrow> QOS_TSINFO" where
  "new_TSInfo UP Dir = \<lparr>ucTrafficType = 0, ucTSID = UP, ucDirection = Dir, ucAccessPolicy = 1,
     ucAggregation = 0, ucPSB = 0, ucUP = UP, ucTSInfoAckPolicy = 0, ucSchedule = 0\<rparr>"

definition reset_ts :: "ts_node \<Rightarrow> ts_dev \<Rightarrow> ts_dev" where
  "reset_ts n d = (case n of RxTs i \<Rightarrow> upd_rx i ResetRxTsEntry d | _ \<Rightarrow> upd_tx (node_index n) ResetTxTsEntry d)"

definition admit_new_ts :: "ts_dev \<Rightarrow> mac \<Rightarrow> u8 \<Rightarrow> TR_SELECT \<Rightarrow> ts_node \<Rightarrow> ts_dev" where
  "admit_new_ts d Address UP TxRxSelect n =
     (let d1 = reset_ts n (d\<lparr>ts_links := list_del_init n (ts_links d)\<rparr>);
          d2 = set_common (MakeTSEntry Address (new_TSInfo UP (GetTs_Dir d TxRxSelect)) 0 0) n d1;
          d3 = AdmitTS n 0 d2
      in d3\<lparr>ts_links := list_add_tail n (admit_head TxRxSelect) (ts_links d3)\<rparr>)"

text \<open>The second component is the stream, when the result is true.\<close>

definition GetTs :: "ts_dev \<Rightarrow> mac \<Rightarrow> u8 \<Rightarrow> TR_SELECT \<Rightarrow> bool \<Rightarrow> (ts_dev \<times> ts_node option) option" where
  "GetTs d Address TID TxRxSelect bAddNewTs =
     (if is_broadcast_ether_addr Address \<or> is_multicast_ether_addr Address then Some (d, None)
      else
        case GetTs_UP d TID of
          None \<Rightarrow> Some (d, None)
        | Some UP \<Rightarrow>
            (case SearchAdmitTRStream d Address UP TxRxSelect of
               None \<Rightarrow> None
             | Some (Some n) \<Rightarrow> Some (d, Some n)
             | Some None \<Rightarrow>
                 if \<not> bAddNewTs then Some (d, None)
                 else if list_empty (ts_links d) (unused_head TxRxSelect) then Some (d, None)
                 else
                   let n = nxt (ts_links d) (unused_head TxRxSelect)
                   in Some (admit_new_ts d Address UP TxRxSelect n, Some n)))"

section \<open>Removing streams\<close>

text \<open>
  Pending packets are freed from the tail; an entry without a packet stops the function,
  and that entry has left the list for good.
\<close>

fun free_pending ::
  "RX_REORDER_ENTRY list \<Rightarrow> RX_REORDER_ENTRY list \<times> RX_REORDER_ENTRY list \<times> rtllib_rxb list" where
  "free_pending [] = ([], [], [])"
| "free_pending (e # es) =
     (case prxb e of
        None \<Rightarrow> (es, [], [])
      | Some p \<Rightarrow> (case free_pending es of (rest, entries, freed) \<Rightarrow> (rest, e # entries, p # freed)))"

definition RemoveTsEntry :: "ts_dev \<Rightarrow> ts_node \<Rightarrow> TR_SELECT \<Rightarrow> ts_dev" where
  "RemoveTsEntry d n TxRxSelect =
     (let d1 = TsInitDelBA (set_common (\<lambda>c. c\<lparr>SetupTimer := None, InactTimer := None\<rparr>) n d)
                 (node_index n) TxRxSelect
      in if TxRxSelect = RX_DIR then
           (case free_pending (rev (RxPendingPktList (RxTsRecord d1 ! node_index n))) of
              (rest, entries, freed) \<Rightarrow>
                upd_rx (node_index n) (\<lambda>t. t\<lparr>RxPktPendingTimer := None, RxPendingPktList := rev rest\<rparr>) d1
                  \<lparr>RxReorder_Unused_List := RxReorder_Unused_List d1 @ entries, rx_freed := rx_freed d1 @ freed\<rparr>)
         else upd_tx (node_index n) (\<lambda>t. t\<lparr>TsAddBaTimer := None\<rparr>) d1)"

text \<open>
  \<open>list_for_each_entry_safe\<close> over one list: the next entry is read before the body.
\<close>

fun remove_loop ::
  "nat \<Rightarrow> (ts_dev \<Rightarrow> ts_node \<Rightarrow> bool) \<Rightarrow> TR_SELECT \<Rightarrow> ts_node \<Rightarrow> ts_node \<Rightarrow> ts_dev \<Rightarrow> ts_dev option" where
  "remove_loop 0 p TxRxSelect h cur d = (if cur = h then Some d else None)"
| "remove_loop (Suc fuel) p TxRxSelect h cur d =
     (if cur = h then Some d
      else
        let next = nxt (ts_links d) cur;
            d1 = (if p d cur then
                    let d' = RemoveTsEntry d cur TxRxSelect
                    in d'\<lparr>ts_links := list_add_tail cur (unused_head TxRxSelect) (list_del_init cur (ts_links d'))\<rparr>
                  else d)
        in remove_loop fuel p TxRxSelect h next d1)"

definition remove_from :: "(ts_dev \<Rightarrow> ts_node \<Rightarrow> bool) \<Rightarrow> TR_SELECT \<Rightarrow> ts_node \<Rightarrow> ts_dev \<Rightarrow> ts_dev option" where
  "remove_from p TxRxSelect h d = remove_loop LIST_FUEL p TxRxSelect h (nxt (ts_links d) h) d"

definition RemovePeerTS :: "mac \<Rightarrow> ts_dev \<Rightarrow> ts_dev option" where
  "RemovePeerTS Address d =
     do { let p = (\<lambda>d n. Addr (ts_common d n) = Address);
          d1 \<leftarrow> remove_from p TX_DIR Tx_TS_Pending_List d;
          d2 \<leftarrow> remove_from p TX_DIR Tx_TS_Admit_List d1;
          d3 \<leftarrow> remove_from p RX_DIR Rx_TS_Pending_List d2;
          remove_from p RX_DIR Rx_TS_Admit_List d3 }"

definition RemoveAllTS :: "ts_dev \<Rightarrow> ts_dev option" where
  "RemoveAllTS d =
     do { let p = (\<lambda>d n. True);
          d1 \<leftarrow> remove_from p TX_DIR Tx_TS_Pending_List d;
          d2 \<leftarrow> remove_from p TX_DIR Tx_TS_Admit_List d1;
          d3 \<leftarrow> remove_from p RX_DIR Rx_TS_Pending_List d2;
          remove_from p RX_DIR Rx_TS_Admit_List d3 }"

section \<open>Starting a block ack agreement\<close>

definition TsStartAddBaProcess :: "nat \<Rightarrow> ts_dev \<Rightarrow> ts_dev" where
  "TsStartAddBaProcess i = upd_tx i (\<lambda>pTxTS.
     if \<not> bAddBaReqInProgress pTxTS then
       pTxTS\<lparr>bAddBaReqInProgress := True,
         TsAddBaTimer := Some (if bAddBaReqDelayed pTxTS then MSECS 60 else JIFFIES 10)\<rparr>
     else pTxTS)"

definition TsAddBaProcess :: "nat \<Rightarrow> ts_dev \<Rightarrow> ts_dev" where
  "TsAddBaProcess i d =
     TsInitAddBA (upd_tx i (\<lambda>t. t\<lparr>TsAddBaTimer := None\<rparr>) d) i BA_POLICY_IMMEDIATE False"

end
