(* ===== verification/TS_Spec.thy ===== *)
theory TS_Spec
  imports TS_Proc "HOL-Library.Multiset"
begin

text \<open>
  The traffic streams as a table: the invariant of the lists and records of one
  direction, the table from peers and priorities to records that they represent, the
  laws that \<open>GetTs\<close> keeps of it, and what removing a peer does to it.
\<close>

section \<open>The lists of one direction\<close>

definition ts_node_of :: "TR_SELECT \<Rightarrow> nat \<Rightarrow> ts_node" where
  "ts_node_of s i = (if s = TX_DIR then TxTs i else RxTs i)"

definition ts_nodes :: "TR_SELECT \<Rightarrow> ts_node list" where
  "ts_nodes s = map (ts_node_of s) [0..<TOTAL_TS_NUM]"

definition ts_heads :: "TR_SELECT \<Rightarrow> ts_node set" where
  "ts_heads s = {admit_head s, pending_head s, unused_head s}"

definition ts_pool :: "TR_SELECT \<Rightarrow> ts_dev \<Rightarrow> ts_node list \<Rightarrow> ts_node list \<Rightarrow> ts_node list \<Rightarrow> bool" where
  "ts_pool s d as ps us \<longleftrightarrow>
     length (TxTsRecord d) = TOTAL_TS_NUM \<and> length (RxTsRecord d) = TOTAL_TS_NUM \<and>
     dlist (ts_links d) (admit_head s) as \<and> dlist (ts_links d) (pending_head s) ps \<and>
     dlist (ts_links d) (unused_head s) us \<and> mset (as @ ps @ us) = mset (ts_nodes s)"

lemma ts_node_of_inject [simp]: "ts_node_of s i = ts_node_of s j \<longleftrightarrow> i = j"
  by (simp add: ts_node_of_def)

lemma ts_nodes_distinct: "distinct (ts_nodes s)"
  by (simp add: ts_nodes_def distinct_map inj_on_def)

lemma ts_node_not_head [simp]:
  "ts_node_of s i \<noteq> admit_head t" "ts_node_of s i \<noteq> pending_head t" "ts_node_of s i \<noteq> unused_head t"
  by (simp_all add: ts_node_of_def admit_head_def pending_head_def unused_head_def)

lemma ts_heads_distinct [simp]:
  "admit_head s \<noteq> pending_head t" "admit_head s \<noteq> unused_head t" "pending_head s \<noteq> unused_head t"
  "pending_head s \<noteq> admit_head t" "unused_head s \<noteq> admit_head t" "unused_head s \<noteq> pending_head t"
  "admit_head s = admit_head t \<longleftrightarrow> s = t" "pending_head s = pending_head t \<longleftrightarrow> s = t"
  "unused_head s = unused_head t \<longleftrightarrow> s = t"
  by (cases s; cases t; simp add: admit_head_def pending_head_def unused_head_def)+

lemma ts_pool_facts:
  assumes "ts_pool s d as ps us"
  shows "distinct (as @ ps @ us)" "set (as @ ps @ us) = set (ts_nodes s)"
    "length (as @ ps @ us) = TOTAL_TS_NUM"
    "\<forall>n \<in> set (as @ ps @ us). \<exists>i < TOTAL_TS_NUM. n = ts_node_of s i"
proof -
  have m: "mset (as @ ps @ us) = mset (ts_nodes s)" using assms by (simp add: ts_pool_def)
  show "distinct (as @ ps @ us)" using mset_eq_imp_distinct_iff[OF m] ts_nodes_distinct by simp
  show s: "set (as @ ps @ us) = set (ts_nodes s)" by (rule mset_eq_setD[OF m])
  show "length (as @ ps @ us) = TOTAL_TS_NUM" using mset_eq_length[OF m] by (simp add: ts_nodes_def)
  show "\<forall>n \<in> set (as @ ps @ us). \<exists>i < TOTAL_TS_NUM. n = ts_node_of s i"
    unfolding s by (auto simp: ts_nodes_def)
qed

lemma ts_pool_heads:
  assumes "ts_pool s d as ps us"
  shows "admit_head t \<notin> set (as @ ps @ us)" "pending_head t \<notin> set (as @ ps @ us)"
    "unused_head t \<notin> set (as @ ps @ us)"
  using ts_pool_facts(4)[OF assms] by (metis ts_node_not_head)+

text \<open>The moves of an entry between the lists of its direction.\<close>

abbreviation move_links :: "ts_node \<Rightarrow> ts_node \<Rightarrow> ts_node links \<Rightarrow> ts_node links" where
  "move_links n h L \<equiv> list_add_tail n h (list_del_init n L)"

lemma ts_pool_disjoint:
  assumes "ts_pool s d as ps us"
  shows "set (admit_head s # as) \<inter> set (pending_head s # ps) = {}"
    "set (admit_head s # as) \<inter> set (unused_head s # us) = {}"
    "set (pending_head s # ps) \<inter> set (unused_head s # us) = {}"
  using ts_pool_facts(1)[OF assms] ts_pool_heads[OF assms] by auto

lemma ts_pool_admit:
  assumes "ts_pool s d as ps (n # us)"
    and "ts_links d' = move_links n (admit_head s) (ts_links d)"
    and "length (TxTsRecord d') = TOTAL_TS_NUM" "length (RxTsRecord d') = TOTAL_TS_NUM"
  shows "ts_pool s d' (as @ [n]) ps us"
proof -
  note dj = ts_pool_disjoint[OF assms(1)]
  have r: "dlist (ts_links d) (unused_head s) ([] @ n # us)" "dlist (ts_links d) (admit_head s) as"
    "dlist (ts_links d) (pending_head s) ps" and m: "mset (as @ ps @ n # us) = mset (ts_nodes s)"
    using assms(1) by (simp_all add: ts_pool_def)
  have "set (unused_head s # [] @ n # us) \<inter> set (admit_head s # as) = {}" using dj(2) by auto
  note mv = klist.move_rep[OF r(1,2) this] klist.move_frame[OF r this]
  have "dlist (ts_links d') (pending_head s) ps" unfolding assms(2) by (rule mv) (use dj in auto)
  then show ?thesis using mv(1,2) assms(2-4) m by (simp add: ts_pool_def)
qed

lemma ts_pool_release_admitted:
  assumes "ts_pool s d (xs @ n # ys) ps us"
    and "ts_links d' = move_links n (unused_head s) (ts_links d)"
    and "length (TxTsRecord d') = TOTAL_TS_NUM" "length (RxTsRecord d') = TOTAL_TS_NUM"
  shows "ts_pool s d' (xs @ ys) ps (us @ [n])"
proof -
  note dj = ts_pool_disjoint[OF assms(1)]
  have r: "dlist (ts_links d) (admit_head s) (xs @ n # ys)" "dlist (ts_links d) (unused_head s) us"
    "dlist (ts_links d) (pending_head s) ps" and m: "mset ((xs @ n # ys) @ ps @ us) = mset (ts_nodes s)"
    using assms(1) by (simp_all add: ts_pool_def)
  note mv = klist.move_rep[OF r(1,2) dj(2)] klist.move_frame[OF r dj(2)]
  have "dlist (ts_links d') (pending_head s) ps" unfolding assms(2) by (rule mv) (use dj in auto)
  then show ?thesis using mv(1,2) assms(2-4) m by (simp add: ts_pool_def)
qed

lemma ts_pool_release_pending:
  assumes "ts_pool s d as (xs @ n # ys) us"
    and "ts_links d' = move_links n (unused_head s) (ts_links d)"
    and "length (TxTsRecord d') = TOTAL_TS_NUM" "length (RxTsRecord d') = TOTAL_TS_NUM"
  shows "ts_pool s d' as (xs @ ys) (us @ [n])"
proof -
  note dj = ts_pool_disjoint[OF assms(1)]
  have r: "dlist (ts_links d) (pending_head s) (xs @ n # ys)" "dlist (ts_links d) (unused_head s) us"
    "dlist (ts_links d) (admit_head s) as" and m: "mset (as @ (xs @ n # ys) @ us) = mset (ts_nodes s)"
    using assms(1) by (simp_all add: ts_pool_def)
  note mv = klist.move_rep[OF r(1,2) dj(3)] klist.move_frame[OF r dj(3)]
  have "dlist (ts_links d') (admit_head s) as" unfolding assms(2) by (rule mv) (use dj in auto)
  then show ?thesis using mv(1,2) assms(2-4) m by (simp add: ts_pool_def)
qed

text \<open>A move in one direction leaves the lists of the other direction alone.\<close>

lemma ts_pool_other:
  assumes P: "ts_pool s d as ps us" and Q: "ts_pool t d as' ps' us'" and st: "s \<noteq> t"
    and n: "n \<in> set (as @ ps @ us)" and h: "h \<in> ts_heads s"
    and "h = unused_head s \<and> n \<notin> set us \<or> h = admit_head s \<and> n \<in> set us"
    and L: "ts_links d' = move_links n h (ts_links d)"
    and "length (TxTsRecord d') = TOTAL_TS_NUM" "length (RxTsRecord d') = TOTAL_TS_NUM"
  shows "ts_pool t d' as' ps' us'"
proof -
  have ST: "ts_node_of s i \<noteq> ts_node_of t j" for i j using st by (cases s; cases t) (auto simp: ts_node_of_def)
  have N: "set (as @ ps @ us) \<inter> set (as' @ ps' @ us') = {}"
    using ts_pool_facts(4)[OF P] ts_pool_facts(4)[OF Q] ST by fastforce
  note hP = ts_pool_heads[OF P] and hQ = ts_pool_heads[OF Q]
  have fr: "dlist (move_links n h (ts_links d)) k zs"
    if k: "dlist (ts_links d) k zs" "k \<in> ts_heads t" "set zs \<subseteq> set (as' @ ps' @ us')" for k zs
  proof -
    have kP: "k \<notin> set (as @ ps @ us)" using hP k(2) by (auto simp: ts_heads_def)
    have hz: "g \<notin> set (k # zs)" if "g \<in> ts_heads s" for g
      using that k(2,3) hQ st by (fastforce simp: ts_heads_def)
    have D: "set (g # xs) \<inter> set (k # zs) = {}" if "g \<in> ts_heads s" "set xs \<subseteq> set (as @ ps @ us)" for g xs
      using hz[OF that(1)] that(2) kP k(3) N by auto
    note dj = ts_pool_disjoint[OF P]
    have d3: "dlist (ts_links d) (admit_head s) as" "dlist (ts_links d) (pending_head s) ps"
      "dlist (ts_links d) (unused_head s) us" using P by (simp_all add: ts_pool_def)
    consider "n \<in> set as" "h = unused_head s" | "n \<in> set ps" "h = unused_head s" | "n \<in> set us" "h = admit_head s"
      using n assms(6) by auto
    then show ?thesis
    proof cases
      case 1
      then obtain xs ys where "as = xs @ n # ys" by (auto dest: split_list)
      then show ?thesis
        using klist.move_frame[of "ts_links d" "admit_head s" xs n ys "unused_head s" us k zs] d3 k(1) dj(2)
          D[of "admit_head s" as] D[of "unused_head s" us] 1 by (auto simp: ts_heads_def Int_commute)
    next
      case 2
      then obtain xs ys where "ps = xs @ n # ys" by (auto dest: split_list)
      then show ?thesis
        using klist.move_frame[of "ts_links d" "pending_head s" xs n ys "unused_head s" us k zs] d3 k(1) dj(3)
          D[of "pending_head s" ps] D[of "unused_head s" us] 2 by (auto simp: ts_heads_def Int_commute)
    next
      case 3
      then obtain xs ys where "us = xs @ n # ys" by (auto dest: split_list)
      then show ?thesis
        using klist.move_frame[of "ts_links d" "unused_head s" xs n ys "admit_head s" as k zs] d3 k(1) dj(2)
          D[of "admit_head s" as] D[of "unused_head s" us] 3 by (auto simp: ts_heads_def Int_commute)
    qed
  qed
  have "dlist (ts_links d') (admit_head t) as'" "dlist (ts_links d') (pending_head t) ps'"
    "dlist (ts_links d') (unused_head t) us'"
    unfolding L by (rule fr; use Q in \<open>auto simp: ts_pool_def ts_heads_def\<close>)+
  then show ?thesis using Q assms(8,9) by (simp add: ts_pool_def)
qed

section \<open>The table of admitted streams\<close>

definition ts_valid :: "ts_dev \<Rightarrow> ts_node \<Rightarrow> bool" where
  "ts_valid d n \<longleftrightarrow> (case n of TxTs i \<Rightarrow> i < length (TxTsRecord d) | RxTs i \<Rightarrow> i < length (RxTsRecord d) | _ \<Rightarrow> False)"

lemma ts_pool_valid:
  assumes "ts_pool s d as ps us" "n \<in> set (as @ ps @ us)"
  shows "ts_valid d n"
proof -
  obtain i where "i < TOTAL_TS_NUM" "n = ts_node_of s i" using ts_pool_facts(4)[OF assms(1)] assms(2) by blast
  then show ?thesis using assms(1) by (simp add: ts_pool_def ts_valid_def ts_node_of_def)
qed

lemma ts_common_links [simp]:
  "ts_common (d\<lparr>ts_links := L\<rparr>) m = ts_common d m"
  by (simp add: ts_common_def cong: ts_node.case_cong)

lemma ts_common_set: "ts_valid d n \<Longrightarrow> ts_valid d m \<Longrightarrow>
    ts_common (set_common f n d) m = (if m = n then f (ts_common d n) else ts_common d m)"
  by (auto simp: ts_common_def set_common_def ts_valid_def node_index_def nth_list_update_if split: ts_node.splits)

lemma ts_common_reset: "ts_valid d n \<Longrightarrow> ts_valid d m \<Longrightarrow>
    ts_common (reset_ts n d) m = (if m = n then ResetTsCommonInfo (ts_common d n) else ts_common d m)"
  by (auto simp: ts_common_def reset_ts_def ts_valid_def node_index_def nth_list_update_if
      ResetTxTsEntry_def ResetRxTsEntry_def split: ts_node.splits)

lemma set_common_frame [simp]:
  "ts_links (set_common f n d) = ts_links d" "iw_mode (set_common f n d) = iw_mode d"
  "qos_supported (set_common f n d) = qos_supported d"
  "length (TxTsRecord (set_common f n d)) = length (TxTsRecord d)"
  "length (RxTsRecord (set_common f n d)) = length (RxTsRecord d)"
  "ts_valid (set_common f n d) m = ts_valid d m"
  by (auto simp: set_common_def ts_valid_def split: ts_node.split)

lemma reset_ts_frame [simp]:
  "ts_links (reset_ts n d) = ts_links d" "iw_mode (reset_ts n d) = iw_mode d"
  "qos_supported (reset_ts n d) = qos_supported d"
  "length (TxTsRecord (reset_ts n d)) = length (TxTsRecord d)"
  "length (RxTsRecord (reset_ts n d)) = length (RxTsRecord d)"
  "ts_valid (reset_ts n d) m = ts_valid d m"
  by (auto simp: reset_ts_def ts_valid_def split: ts_node.split)

lemma ts_valid_links [simp]: "ts_valid (d\<lparr>ts_links := L\<rparr>) m = ts_valid d m"
  by (simp add: ts_valid_def cong: ts_node.case_cong)

definition ts_key :: "ts_dev \<Rightarrow> ts_node \<Rightarrow> mac \<times> u8" where
  "ts_key d n = (Addr (ts_common d n), ucTSID (TSInfo (ts_common d n)))"

definition ts_inv :: "TR_SELECT \<Rightarrow> ts_dev \<Rightarrow> ts_node list \<Rightarrow> ts_node list \<Rightarrow> ts_node list \<Rightarrow> bool" where
  "ts_inv s d as ps us \<longleftrightarrow> ts_pool s d as ps us \<and> distinct (map (ts_key d) as) \<and>
     (\<forall>n \<in> set as. ucDirection (TSInfo (ts_common d n)) = GetTs_Dir d s)"

definition ts_tbl :: "ts_dev \<Rightarrow> ts_node list \<Rightarrow> mac \<times> u8 \<Rightarrow> ts_node option" where
  "ts_tbl d as = map_of (map (\<lambda>n. (ts_key d n, n)) as)"

lemma map_of_find: "map_of (map (\<lambda>n. (f n, n)) as) k = find (\<lambda>n. f n = k) as"
  by (induction as) auto

lemma ts_tbl_Some: "distinct (map (ts_key d) as) \<Longrightarrow> ts_tbl d as k = Some n \<longleftrightarrow> n \<in> set as \<and> ts_key d n = k"
  by (auto simp: ts_tbl_def map_of_eq_Some_iff comp_def)

lemma ts_tbl_None: "ts_tbl d as k = None \<longleftrightarrow> (\<forall>n \<in> set as. ts_key d n \<noteq> k)"
  by (auto simp: ts_tbl_def map_of_find find_None_iff)

lemma search_dir_Dir: "search_dir (iw_mode d) s (GetTs_Dir d s)"
  by (simp add: search_dir_def GetTs_Dir_def)

lemma SearchAdmitTRStream_tbl:
  assumes "ts_inv s d as ps us"
  shows "SearchAdmitTRStream d a up s = Some (ts_tbl d as (a, up))"
proof -
  let ?P = "\<lambda>dir n. Addr (ts_common d n) = a \<and> ucTSID (TSInfo (ts_common d n)) = up \<and>
     ucDirection (TSInfo (ts_common d n)) = dir"
  have dl: "dlist (ts_links d) (admit_head s) as" and len: "length as \<le> LIST_FUEL"
    using assms ts_pool_facts(3)[of s d as ps us] by (auto simp: ts_inv_def ts_pool_def)
  note F = list_find_dlist[OF dl len]
  have dir: "\<forall>n \<in> set as. ucDirection (TSInfo (ts_common d n)) = GetTs_Dir d s"
    using assms by (simp add: ts_inv_def)
  have none: "dir \<noteq> GetTs_Dir d s \<Longrightarrow> find (?P dir) as = None" for dir
    using dir by (auto simp: find_None_iff)
  have "find (?P (GetTs_Dir d s)) as = find (\<lambda>n. ts_key d n = (a, up)) as"
    using dir by (intro find_cong) (auto simp: ts_key_def)
  then have hit: "find (?P (GetTs_Dir d s)) as = ts_tbl d as (a, up)"
    by (simp add: ts_tbl_def map_of_find)
  have step: "search_dirs d a up s (dir # dirs) =
     (if dir = GetTs_Dir d s then (case ts_tbl d as (a, up) of None \<Rightarrow> search_dirs d a up s dirs | Some n \<Rightarrow> Some (Some n))
      else search_dirs d a up s dirs)" for dir dirs
    using none[of dir] hit search_dir_Dir[of d s] by (simp add: F split: option.split)
  have "GetTs_Dir d s = DIR_UP \<or> GetTs_Dir d s = DIR_DOWN" by (simp add: GetTs_Dir_def)
  then show ?thesis
    unfolding SearchAdmitTRStream_def step
    by (elim disjE; cases "ts_tbl d as (a, up)") simp_all
qed

section \<open>What GetTs does to the table\<close>

definition unicast :: "mac \<Rightarrow> bool" where
  "unicast a \<longleftrightarrow> \<not> is_broadcast_ether_addr a \<and> \<not> is_multicast_ether_addr a"

lemma GetTs_hit:
  "ts_inv s d as ps us \<Longrightarrow> unicast a \<Longrightarrow> GetTs_UP d tid = Some up \<Longrightarrow> ts_tbl d as (a, up) = Some n \<Longrightarrow>
     GetTs d a tid s add = Some (d, Some n)"
  by (simp add: GetTs_def SearchAdmitTRStream_tbl unicast_def)

lemma GetTs_refuse:
  assumes "ts_inv s d as ps us"
    and "\<not> unicast a \<or> GetTs_UP d tid = None \<or>
      (\<exists>up. GetTs_UP d tid = Some up \<and> ts_tbl d as (a, up) = None \<and> (\<not> add \<or> us = []))"
  shows "GetTs d a tid s add = Some (d, None)"
proof -
  have "list_empty (ts_links d) (unused_head s) \<longleftrightarrow> us = []"
    using assms(1) by (intro dlist_empty_iff) (simp add: ts_inv_def ts_pool_def)
  then show ?thesis
    using assms by (auto simp: GetTs_def SearchAdmitTRStream_tbl[OF assms(1)] unicast_def split: option.splits)
qed

lemma admit_new_ts_frame:
  "ts_links (admit_new_ts d a up s n) = move_links n (admit_head s) (ts_links d)"
  "iw_mode (admit_new_ts d a up s n) = iw_mode d"
  "qos_supported (admit_new_ts d a up s n) = qos_supported d"
  "length (TxTsRecord (admit_new_ts d a up s n)) = length (TxTsRecord d)"
  "length (RxTsRecord (admit_new_ts d a up s n)) = length (RxTsRecord d)"
  by (simp_all add: admit_new_ts_def Let_def AdmitTS_def)

lemma admit_new_ts_common:
  assumes "ts_valid d n"
  shows "Addr (ts_common (admit_new_ts d a up s n) n) = a"
    "TSInfo (ts_common (admit_new_ts d a up s n) n) = new_TSInfo up (GetTs_Dir d s)"
    "ts_valid d m \<Longrightarrow> m \<noteq> n \<Longrightarrow> ts_common (admit_new_ts d a up s n) m = ts_common d m"
  using assms by (simp_all add: admit_new_ts_def AdmitTS_def Let_def ts_common_set ts_common_reset MakeTSEntry_def)

lemma GetTs_new:
  assumes inv: "ts_inv s d as ps (n # us)" and "unicast a" "GetTs_UP d tid = Some up" "ts_tbl d as (a, up) = None"
  shows "GetTs d a tid s True = Some (admit_new_ts d a up s n, Some n)"
    and "ts_inv s (admit_new_ts d a up s n) (as @ [n]) ps us"
    and "ts_key (admit_new_ts d a up s n) n = (a, up)"
    and "m \<in> set as \<Longrightarrow> ts_key (admit_new_ts d a up s n) m = ts_key d m"
proof -
  have P: "ts_pool s d as ps (n # us)" using inv by (simp add: ts_inv_def)
  note facts = ts_pool_facts[OF P]
  define d' where "d' = admit_new_ts d a up s n"
  have v: "ts_valid d m" if "m \<in> set (as @ ps @ n # us)" for m using ts_pool_valid[OF P that] .
  have ne: "\<not> list_empty (ts_links d) (unused_head s)" "nxt (ts_links d) (unused_head s) = n"
    using P dlist_empty_iff[of "ts_links d" "unused_head s" "n # us"] dlist_first[of "ts_links d" "unused_head s" "n # us"]
    by (auto simp: ts_pool_def)
  show "GetTs d a tid s True = Some (admit_new_ts d a up s n, Some n)"
    using assms(2-4) ne by (simp add: GetTs_def SearchAdmitTRStream_tbl[OF inv] unicast_def Let_def)
  note fr = admit_new_ts_frame[of d a up s n, folded d'_def]
  have vn: "ts_valid d n" by (rule v) simp
  note cn = admit_new_ts_common[OF vn, where a=a and up=up and s=s, folded d'_def]
  have P': "ts_pool s d' (as @ [n]) ps us"
    using P by (intro ts_pool_admit[OF P]) (simp_all add: fr ts_pool_def)
  have dir: "GetTs_Dir d' s = GetTs_Dir d s" by (simp add: GetTs_Dir_def fr)
  have same: "ts_common d' m = ts_common d m" if "m \<in> set as" for m
    using that facts(1) by (intro cn(3)) (auto intro: v)
  show keys: "ts_key (admit_new_ts d a up s n) m = ts_key d m" if "m \<in> set as" for m
    using same[OF that] by (simp add: ts_key_def d'_def)
  show kn: "ts_key (admit_new_ts d a up s n) n = (a, up)"
    using cn(1,2) by (simp add: ts_key_def d'_def new_TSInfo_def)
  have m: "map (ts_key d') as = map (ts_key d) as" using keys by (simp add: d'_def)
  have "map (ts_key d') (as @ [n]) = map (ts_key d) as @ [(a, up)]" using kn by (simp only: map_append list.map m) (simp add: d'_def)
  moreover have "distinct (map (ts_key d) as @ [(a, up)])" using inv assms(4) by (auto simp: ts_inv_def ts_tbl_None)
  ultimately have "distinct (map (ts_key d') (as @ [n]))" by (simp only:)
  moreover have "ucDirection (TSInfo (ts_common d' m)) = GetTs_Dir d' s" if "m \<in> set (as @ [n])" for m
    using that inv same[of m] cn(2) by (auto simp: ts_inv_def dir new_TSInfo_def)
  ultimately show "ts_inv s (admit_new_ts d a up s n) (as @ [n]) ps us"
    using P' by (simp add: ts_inv_def d'_def)
qed

section \<open>The interface of the table\<close>

text \<open>
  What the block ack handlers and the receive path rely on when they look a stream up:
  a table from keys to records in which a lookup finds what an earlier one returned and
  different keys have different records.
\<close>

definition get_step ::
  "('q \<Rightarrow> bool \<Rightarrow> 'd \<Rightarrow> ('d \<times> 'v option) option) \<Rightarrow> 'q \<times> bool \<Rightarrow> 'd \<Rightarrow> 'd option" where
  "get_step get c d = map_option fst (get (fst c) (snd c) d)"

locale keyed_table =
  fixes get :: "'q \<Rightarrow> bool \<Rightarrow> 'd \<Rightarrow> ('d \<times> 'v option) option"
    and key :: "'d \<Rightarrow> 'q \<Rightarrow> 'k option"
    and tbl :: "'d \<Rightarrow> 'k \<Rightarrow> 'v option"
    and inv :: "'d \<Rightarrow> bool"
  assumes get_total: "inv d \<Longrightarrow> get q add d \<noteq> None"
    and get_inv: "inv d \<Longrightarrow> get q add d = Some (d', r) \<Longrightarrow> inv d'"
    and get_key: "inv d \<Longrightarrow> get q add d = Some (d', Some v) \<Longrightarrow> \<exists>k. key d q = Some k \<and> tbl d' k = Some v"
    and get_tbl: "inv d \<Longrightarrow> get q add d = Some (d', r) \<Longrightarrow>
      tbl d' = tbl d \<or> (\<exists>k v. key d q = Some k \<and> tbl d k = None \<and> r = Some v \<and> tbl d' = (tbl d)(k \<mapsto> v))"
    and get_hit: "inv d \<Longrightarrow> key d q = Some k \<Longrightarrow> tbl d k = Some v \<Longrightarrow> get q add d = Some (d, Some v)"
    and key_same: "inv d \<Longrightarrow> get q add d = Some (d', r) \<Longrightarrow> key d' q' = key d q'"
    and inv_inj: "inv d \<Longrightarrow> tbl d k = Some v \<Longrightarrow> tbl d k' = Some v \<Longrightarrow> k = k'"
begin

lemma step_keeps:
  assumes "inv d" "get_step get c d = Some d'"
  shows "inv d' \<and> key d' = key d \<and> (\<forall>k v. tbl d k = Some v \<longrightarrow> tbl d' k = Some v)"
proof -
  obtain r where r: "get (fst c) (snd c) d = Some (d', r)"
    using assms(2) by (auto simp: get_step_def)
  show ?thesis
    using get_inv[OF assms(1) r] get_tbl[OF assms(1) r] key_same[OF assms(1) r] by (auto simp: fun_eq_iff)
qed

lemma run_keeps:
  "inv d \<Longrightarrow> crun (get_step get) cs d = Some d' \<Longrightarrow>
     inv d' \<and> key d' = key d \<and> (\<forall>k v. tbl d k = Some v \<longrightarrow> tbl d' k = Some v)"
proof (induction cs arbitrary: d)
  case (Cons c cs)
  then obtain d1 where "get_step get c d = Some d1" "crun (get_step get) cs d1 = Some d'" by (auto split: option.splits)
  with Cons.IH[of d1] step_keeps[of d c d1] Cons.prems(1) show ?case by auto
qed simp

lemma run_total: "inv d \<Longrightarrow> crun (get_step get) cs d \<noteq> None"
proof (induction cs arbitrary: d)
  case (Cons c cs)
  then obtain d1 where "get_step get c d = Some d1" using get_total[of d] by (fastforce simp: get_step_def)
  with Cons step_keeps[of d c d1] show ?case by auto
qed simp

lemma get_again:
  assumes "inv d" "get q add d = Some (d1, Some v)" "crun (get_step get) cs d1 = Some d2"
  shows "get q add' d2 = Some (d2, Some v)"
proof -
  obtain k where k: "key d q = Some k" "tbl d1 k = Some v" using get_key[OF assms(1,2)] by blast
  have i1: "inv d1" and "key d1 q = Some k" using get_inv[OF assms(1,2)] key_same[OF assms(1,2)] k by auto
  with run_keeps[OF i1 assms(3)] k(2) show ?thesis by (intro get_hit) auto
qed

lemma get_distinct:
  assumes "inv d" "get q add d = Some (d1, Some v)" "crun (get_step get) cs d1 = Some d2"
    and "get q' add' d2 = Some (d3, Some v')" "key d q \<noteq> key d q'"
  shows "v \<noteq> v'"
proof -
  obtain k where k: "key d q = Some k" "tbl d1 k = Some v" using get_key[OF assms(1,2)] by blast
  have i1: "inv d1" using get_inv[OF assms(1,2)] .
  have keys: "key d1 = key d" using key_same[OF assms(1,2)] by auto
  have 2: "inv d2" "key d2 = key d1" "tbl d2 k = Some v" using run_keeps[OF i1 assms(3)] k(2) by auto
  obtain k' where k': "key d2 q' = Some k'" "tbl d3 k' = Some v'" using get_key[OF 2(1) assms(4)] by blast
  have "inv d3" "tbl d3 k = Some v"
    using get_inv[OF 2(1) assms(4)] get_tbl[OF 2(1) assms(4)] 2(3) by auto
  moreover have "k \<noteq> k'" using k(1) k'(1) keys 2(2) assms(5) by auto
  ultimately show ?thesis using inv_inj k'(2) by blast
qed

end

subsection \<open>The streams are such a table\<close>

fun list_nodes :: "nat \<Rightarrow> 'n links \<Rightarrow> 'n \<Rightarrow> 'n \<Rightarrow> 'n list" where
  "list_nodes 0 L h cur = []"
| "list_nodes (Suc f) L h cur = (if cur = h then [] else cur # list_nodes f L h (nxt L cur))"

lemma list_nodes_seg:
  "seg L a xs h \<Longrightarrow> h \<notin> set xs \<Longrightarrow> length xs < f \<Longrightarrow> list_nodes f L h (nxt L a) = xs"
proof (induction xs arbitrary: a f)
  case Nil
  then show ?case by (cases f) auto
next
  case (Cons x xs)
  then obtain g where "f = Suc g" by (cases f) auto
  with Cons show ?case by auto
qed

definition admitted :: "TR_SELECT \<Rightarrow> ts_dev \<Rightarrow> ts_node list" where
  "admitted s d = list_nodes LIST_FUEL (ts_links d) (admit_head s) (nxt (ts_links d) (admit_head s))"

definition ts_ok :: "TR_SELECT \<Rightarrow> ts_dev \<Rightarrow> bool" where
  "ts_ok s d \<longleftrightarrow> (\<exists>as ps us. ts_inv s d as ps us)"

lemma ts_inv_admitted:
  assumes "ts_inv s d as ps us"
  shows "admitted s d = as"
proof -
  have P: "ts_pool s d as ps us" using assms by (simp add: ts_inv_def)
  then have "seg (ts_links d) (admit_head s) as (admit_head s)" "admit_head s \<notin> set as"
    by (auto simp: ts_pool_def dlist_def)
  moreover have "length as < LIST_FUEL" using ts_pool_facts(3)[OF P] by auto
  ultimately show ?thesis unfolding admitted_def by (rule list_nodes_seg)
qed

definition stream_table :: "TR_SELECT \<Rightarrow> ts_dev \<Rightarrow> mac \<times> u8 \<Rightarrow> ts_node option" where
  "stream_table s d = ts_tbl d (admitted s d)"

definition stream_key :: "ts_dev \<Rightarrow> mac \<times> u8 \<Rightarrow> (mac \<times> u8) option" where
  "stream_key d q = (if unicast (fst q) then map_option (Pair (fst q)) (GetTs_UP d (snd q)) else None)"

definition get_stream :: "TR_SELECT \<Rightarrow> mac \<times> u8 \<Rightarrow> bool \<Rightarrow> ts_dev \<Rightarrow> (ts_dev \<times> ts_node option) option" where
  "get_stream s q add d = GetTs d (fst q) (snd q) s add"

text \<open>Every call of GetTs on a well-formed direction is one of three cases.\<close>

lemma GetTs_cases:
  assumes inv: "ts_inv s d as ps us"
  obtains (refuse) "get_stream s q add d = Some (d, None)"
      "stream_key d q = None \<or> (\<exists>k. stream_key d q = Some k \<and> stream_table s d k = None \<and> (\<not> add \<or> us = []))"
    | (hit) k n where "stream_key d q = Some k" "stream_table s d k = Some n" "get_stream s q add d = Some (d, Some n)"
    | (new) k n us' where "add" "us = n # us'" "stream_key d q = Some k" "stream_table s d k = None"
      "get_stream s q add d = Some (admit_new_ts d (fst k) (snd k) s n, Some n)"
      "ts_inv s (admit_new_ts d (fst k) (snd k) s n) (as @ [n]) ps us'"
      "stream_table s (admit_new_ts d (fst k) (snd k) s n) = (stream_table s d)(k \<mapsto> n)" "n \<notin> set as"
proof -
  have tb: "stream_table s d = ts_tbl d as" by (simp add: stream_table_def ts_inv_admitted[OF inv])
  show ?thesis
  proof (cases "stream_key d q")
    case None
    then have "get_stream s q add d = Some (d, None)"
      using GetTs_refuse[OF inv] by (auto simp: stream_key_def get_stream_def split: if_splits)
    then show ?thesis using None refuse by blast
  next
    case (Some k)
    then obtain up where up: "unicast (fst q)" "GetTs_UP d (snd q) = Some up" "k = (fst q, up)"
      by (auto simp: stream_key_def split: if_splits)
    show ?thesis
    proof (cases "ts_tbl d as k")
      case (Some n)
      then show ?thesis
        using GetTs_hit[OF inv up(1,2)] \<open>stream_key d q = Some k\<close> hit[of k n] up(3) by (simp add: tb get_stream_def)
    next
      case None
      show ?thesis
      proof (cases "\<not> add \<or> us = []")
        case True
        then have "get_stream s q add d = Some (d, None)"
          using GetTs_refuse[OF inv, of "fst q" "snd q" add] None up by (auto simp: get_stream_def)
        then show ?thesis using refuse \<open>stream_key d q = Some k\<close> None tb True by auto
      next
        case False
        then obtain n us' where us: "us = n # us'" by (cases us) auto
        have None': "ts_tbl d as (fst q, up) = None" using None up(3) by simp
        note N = GetTs_new[OF inv[unfolded us] up(1,2) None']
        let ?d' = "admit_new_ts d (fst q) up s n"
        have notin: "n \<notin> set as"
          using inv us ts_pool_facts(1)[of s d as ps us] by (auto simp: ts_inv_def)
        have "stream_table s ?d' = ts_tbl ?d' (as @ [n])"
          by (simp add: stream_table_def ts_inv_admitted[OF N(2)])
        also have "\<dots> = (ts_tbl d as)(k \<mapsto> n)"
        proof -
          have "ts_tbl ?d' as = ts_tbl d as" unfolding ts_tbl_def using N(4) by (metis (no_types, lifting) map_cong)
          moreover have "ts_tbl ?d' (as @ [n]) = [k \<mapsto> n] ++ ts_tbl ?d' as"
            using N(3) up(3) by (simp add: ts_tbl_def)
          ultimately show ?thesis using None by (auto simp: map_add_def fun_eq_iff split: option.split)
        qed
        finally have "stream_table s ?d' = (stream_table s d)(k \<mapsto> n)" by (simp add: tb)
        then show ?thesis
          using False us \<open>stream_key d q = Some k\<close> None tb N(1,2) up(3) notin
          by (intro new[of n us' k]) (auto simp: get_stream_def)
      qed
    qed
  qed
qed

lemma stream_key_frame: "stream_key (admit_new_ts d a up s n) = stream_key d"
  by (simp add: stream_key_def GetTs_UP_def admit_new_ts_frame fun_eq_iff)

interpretation streams: keyed_table "get_stream s" stream_key "stream_table s" "ts_ok s" for s
proof unfold_locales
  fix d q add d' r
  assume "ts_ok s d"
  then obtain as ps us where inv: "ts_inv s d as ps us" by (auto simp: ts_ok_def)
  show "get_stream s q add d \<noteq> None" by (rule GetTs_cases[OF inv, of q add]) auto
  assume g: "get_stream s q add d = Some (d', r)"
  show "ts_ok s d'"
    by (rule GetTs_cases[OF inv, of q add]) (use g inv in \<open>auto simp: ts_ok_def\<close>)
  show "stream_key d' q' = stream_key d q'" for q'
    by (rule GetTs_cases[OF inv, of q add]) (use g in \<open>auto simp: stream_key_frame\<close>)
  show "stream_table s d' = stream_table s d \<or> (\<exists>k v. stream_key d q = Some k \<and> stream_table s d k = None \<and>
      r = Some v \<and> stream_table s d' = (stream_table s d)(k \<mapsto> v))"
    by (rule GetTs_cases[OF inv, of q add]) (use g in auto)
next
  fix d q add d' v
  assume "ts_ok s d" and g: "get_stream s q add d = Some (d', Some v)"
  then obtain as ps us where inv: "ts_inv s d as ps us" by (auto simp: ts_ok_def)
  show "\<exists>k. stream_key d q = Some k \<and> stream_table s d' k = Some v"
    by (rule GetTs_cases[OF inv, of q add]) (use g in auto)
next
  fix d q k v add
  assume "ts_ok s d" and k: "stream_key d q = Some k" "stream_table s d k = Some v"
  then obtain as ps us where inv: "ts_inv s d as ps us" by (auto simp: ts_ok_def)
  show "get_stream s q add d = Some (d, Some v)"
    by (rule GetTs_cases[OF inv, of q add]) (use k in auto)
next
  fix d k v k'
  assume "ts_ok s d" and k: "stream_table s d k = Some v" "stream_table s d k' = Some v"
  then obtain as ps us where inv: "ts_inv s d as ps us" by (auto simp: ts_ok_def)
  then have "distinct (map (ts_key d) as)" by (simp add: ts_inv_def)
  then show "k = k'" using k by (auto simp: stream_table_def ts_inv_admitted[OF inv] ts_tbl_Some)
qed

end
