(* ===== verification/TS_Remove.thy ===== *)
theory TS_Remove
  imports TS_Spec
begin

text \<open>
  Removing streams: walking the lists while entries leave them, what is left in the
  tables of both directions, and the state in which records return to the unused lists.
\<close>

section \<open>Frames\<close>

lemma mgmt_xmit_frame [simp]:
  "ts_links (mgmt_xmit f d) = ts_links d" "iw_mode (mgmt_xmit f d) = iw_mode d"
  "qos_supported (mgmt_xmit f d) = qos_supported d" "TxTsRecord (mgmt_xmit f d) = TxTsRecord d"
  "RxTsRecord (mgmt_xmit f d) = RxTsRecord d" "RxReorder_Unused_List (mgmt_xmit f d) = RxReorder_Unused_List d"
  "rx_freed (mgmt_xmit f d) = rx_freed d" "rx_indicated (mgmt_xmit f d) = rx_indicated d"
  "skb_avail (mgmt_xmit f d) = skb_avail d"
  by (simp_all add: mgmt_xmit_def split: option.split)

lemma TxTsDeleteBA_frame [simp]:
  "tx_common (fst (TxTsDeleteBA t)) = tx_common t" "TxCurSeq (fst (TxTsDeleteBA t)) = TxCurSeq t"
  by (simp_all add: TxTsDeleteBA_def Let_def)

lemma RxTsDeleteBA_frame [simp]:
  "rx_common (fst (RxTsDeleteBA t)) = rx_common t" "RxPendingPktList (fst (RxTsDeleteBA t)) = RxPendingPktList t"
  "RxPktPendingTimer (fst (RxTsDeleteBA t)) = RxPktPendingTimer t"
  by (simp_all add: RxTsDeleteBA_def)

lemma TsInitDelBA_TX: "TsInitDelBA d i TX_DIR =
   (let t = fst (TxTsDeleteBA (TxTsRecord d ! i)); d1 = upd_tx i (\<lambda>_. t) d
    in if snd (TxTsDeleteBA (TxTsRecord d ! i))
       then mgmt_xmit (rtllib_DELBA d1 (Addr (tx_common t))
              (if bValid (TxAdmittedBARecord t) then TxAdmittedBARecord t else TxPendingBARecord t) TX_DIR 37) d1
       else d1)"
  by (simp add: TsInitDelBA_def rtllib_send_DELBA_def Let_def case_prod_beta)

lemma TsInitDelBA_RX: "TsInitDelBA d i RX_DIR =
   (let t = fst (RxTsDeleteBA (RxTsRecord d ! i)); d1 = upd_rx i (\<lambda>_. t) d
    in if snd (RxTsDeleteBA (RxTsRecord d ! i))
       then mgmt_xmit (rtllib_DELBA d1 (Addr (rx_common t)) (RxAdmittedBARecord t) RX_DIR 37) d1
       else d1)"
  by (simp add: TsInitDelBA_def rtllib_send_DELBA_def Let_def case_prod_beta)

text \<open>What \<open>TsInitDelBA\<close> and \<open>RemoveTsEntry\<close> leave alone.\<close>

definition same_streams :: "ts_dev \<Rightarrow> ts_dev \<Rightarrow> bool" where
  "same_streams d d' \<longleftrightarrow> iw_mode d' = iw_mode d \<and> qos_supported d' = qos_supported d \<and>
     length (TxTsRecord d') = length (TxTsRecord d) \<and> length (RxTsRecord d') = length (RxTsRecord d) \<and>
     (\<forall>n. ts_valid d n \<longrightarrow> Addr (ts_common d' n) = Addr (ts_common d n) \<and> TSInfo (ts_common d' n) = TSInfo (ts_common d n))"

lemma same_streams_refl: "same_streams d d"
  by (simp add: same_streams_def)

lemma ts_valid_length: "length (TxTsRecord d') = length (TxTsRecord d) \<Longrightarrow> length (RxTsRecord d') = length (RxTsRecord d) \<Longrightarrow>
    ts_valid d' n = ts_valid d n"
  by (simp add: ts_valid_def split: ts_node.split)

lemma same_streams_trans: "same_streams d d' \<Longrightarrow> same_streams d' d'' \<Longrightarrow> same_streams d d''"
  using ts_valid_length[of d' d] by (simp add: same_streams_def)

lemma same_streams_links: "same_streams d d' \<Longrightarrow> same_streams d (d'\<lparr>ts_links := L\<rparr>)"
  by (simp add: same_streams_def)

lemma same_streams_common:
  "i < length (TxTsRecord d) \<Longrightarrow> Addr (tx_common t) = Addr (tx_common (TxTsRecord d ! i)) \<Longrightarrow>
     TSInfo (tx_common t) = TSInfo (tx_common (TxTsRecord d ! i)) \<Longrightarrow> same_streams d (upd_tx i (\<lambda>_. t) d)"
  "j < length (RxTsRecord d) \<Longrightarrow> Addr (rx_common u) = Addr (rx_common (RxTsRecord d ! j)) \<Longrightarrow>
     TSInfo (rx_common u) = TSInfo (rx_common (RxTsRecord d ! j)) \<Longrightarrow> same_streams d (upd_rx j (\<lambda>_. u) d)"
  by (auto simp: same_streams_def ts_common_def ts_valid_def node_index_def nth_list_update_if split: ts_node.splits)

lemma same_streams_ignore:
  "same_streams d (mgmt_xmit f d') = same_streams d d'"
  "same_streams d (d'\<lparr>RxReorder_Unused_List := a, rx_freed := b\<rparr>) = same_streams d d'"
  by (simp_all add: same_streams_def ts_common_def cong: ts_node.case_cong)

lemma TsInitDelBA_same:
  assumes "ts_valid d (ts_node_of s i)"
  shows "same_streams d (TsInitDelBA d i s)" "ts_links (TsInitDelBA d i s) = ts_links d"
proof -
  have "same_streams d (TsInitDelBA d i s) \<and> ts_links (TsInitDelBA d i s) = ts_links d"
  proof (cases s)
    case TX_DIR
    then have "i < length (TxTsRecord d)" using assms by (simp add: ts_valid_def ts_node_of_def)
    then show ?thesis
      by (simp add: TX_DIR TsInitDelBA_TX Let_def same_streams_ignore same_streams_common)
  next
    case RX_DIR
    then have "i < length (RxTsRecord d)" using assms by (simp add: ts_valid_def ts_node_of_def)
    then show ?thesis
      by (simp add: RX_DIR TsInitDelBA_RX Let_def same_streams_ignore same_streams_common)
  qed
  then show "same_streams d (TsInitDelBA d i s)" "ts_links (TsInitDelBA d i s) = ts_links d" by auto
qed

lemma node_index_of [simp]: "node_index (ts_node_of s i) = i"
  by (simp add: node_index_def ts_node_of_def)

lemma same_streams_set_common:
  "ts_valid d n \<Longrightarrow> (\<And>c. Addr (f c) = Addr c \<and> TSInfo (f c) = TSInfo c) \<Longrightarrow> same_streams d (set_common f n d)"
  by (simp add: same_streams_def ts_common_set)

lemma RemoveTsEntry_same:
  assumes "ts_valid d n" "n = ts_node_of s i"
  shows "same_streams d (RemoveTsEntry d n s)" "ts_links (RemoveTsEntry d n s) = ts_links d"
proof -
  let ?d0 = "set_common (\<lambda>c. c\<lparr>SetupTimer := None, InactTimer := None\<rparr>) n d"
  let ?d1 = "TsInitDelBA ?d0 i s"
  have v0: "ts_valid ?d0 (ts_node_of s i)" using assms by simp
  have "same_streams d ?d0" using assms(1) by (rule same_streams_set_common) simp
  then have s1: "same_streams d ?d1" using TsInitDelBA_same(1)[OF v0] by (rule same_streams_trans)
  have len: "length (TxTsRecord ?d1) = length (TxTsRecord d)" "length (RxTsRecord ?d1) = length (RxTsRecord d)"
    using s1 by (simp_all add: same_streams_def)
  have L: "ts_links ?d1 = ts_links d" using TsInitDelBA_same(2)[OF v0] by simp
  have "same_streams d (RemoveTsEntry d n s) \<and> ts_links (RemoveTsEntry d n s) = ts_links d"
  proof (cases s)
    case TX_DIR
    then have i: "i < length (TxTsRecord ?d1)" using assms len by (simp add: ts_valid_def ts_node_of_def)
    have "RemoveTsEntry d n s = upd_tx i (\<lambda>t. t\<lparr>TsAddBaTimer := None\<rparr>) ?d1"
      using assms(2) TX_DIR by (simp add: RemoveTsEntry_def Let_def)
    moreover have "same_streams ?d1 (upd_tx i (\<lambda>_. (TxTsRecord ?d1 ! i)\<lparr>TsAddBaTimer := None\<rparr>) ?d1)"
      using i by (intro same_streams_common) auto
    ultimately show ?thesis using same_streams_trans[OF s1] L by simp
  next
    case RX_DIR
    then have i: "i < length (RxTsRecord ?d1)" using assms len by (simp add: ts_valid_def ts_node_of_def)
    obtain rest es fr where f: "free_pending (rev (RxPendingPktList (RxTsRecord ?d1 ! i))) = (rest, es, fr)"
      by (metis prod_cases3)
    let ?t = "(RxTsRecord ?d1 ! i)\<lparr>RxPktPendingTimer := None, RxPendingPktList := rev rest\<rparr>"
    have "RemoveTsEntry d n s = (upd_rx i (\<lambda>_. ?t) ?d1)
        \<lparr>RxReorder_Unused_List := RxReorder_Unused_List ?d1 @ es, rx_freed := rx_freed ?d1 @ fr\<rparr>"
      using assms(2) RX_DIR f by (simp add: RemoveTsEntry_def Let_def)
    moreover have "same_streams ?d1 (upd_rx i (\<lambda>_. ?t) ?d1)"
      using i by (intro same_streams_common) auto
    ultimately show ?thesis using same_streams_trans[OF s1] L by (simp add: same_streams_ignore)
  qed
  then show "same_streams d (RemoveTsEntry d n s)" "ts_links (RemoveTsEntry d n s) = ts_links d" by auto
qed

section \<open>Records that are at rest\<close>

definition ts_ready :: "ts_dev \<Rightarrow> ts_node \<Rightarrow> bool" where
  "ts_ready d n \<longleftrightarrow>
     (case n of
        RxTs i \<Rightarrow> RxPendingPktList (RxTsRecord d ! i) = [] \<and> RxPktPendingTimer (RxTsRecord d ! i) = None \<and>
                  \<not> bValid (RxAdmittedBARecord (RxTsRecord d ! i))
      | _ \<Rightarrow> TsAddBaTimer (TxTsRecord d ! node_index n) = None \<and>
             \<not> bValid (TxPendingBARecord (TxTsRecord d ! node_index n)) \<and>
             \<not> bValid (TxAdmittedBARecord (TxTsRecord d ! node_index n)))"

definition entry_total :: "ts_dev \<Rightarrow> nat" where
  "entry_total d = length (RxReorder_Unused_List d) + sum_list (map (\<lambda>t. length (RxPendingPktList t)) (RxTsRecord d))"

text \<open>Pending entries hold a packet, and there are no more entries than the driver has.\<close>

definition packets_ok :: "ts_dev \<Rightarrow> bool" where
  "packets_ok d \<longleftrightarrow> (\<forall>t \<in> set (RxTsRecord d). \<forall>e \<in> set (RxPendingPktList t). prxb e \<noteq> None) \<and>
     entry_total d \<le> REORDER_ENTRY_NUM"

lemma sum_list_map_update:
  "i < length xs \<Longrightarrow> sum_list (map f (xs[i := t])) + f (xs ! i) = sum_list (map f xs) + (f t :: nat)"
proof -
  assume i: "i < length xs"
  then have "f (xs ! i) \<le> sum_list (map f xs)" by (intro member_le_sum_list) auto
  with i show ?thesis by (simp add: map_update sum_list_update)
qed

lemma free_pending_all:
  "\<forall>e \<in> set es. prxb e \<noteq> None \<Longrightarrow> free_pending es = ([], es, map (\<lambda>e. the (prxb e)) es)"
  by (induction es) auto

lemma set_common_records:
  "RxTsRecord (set_common f (TxTs i) d) = RxTsRecord d" "TxTsRecord (set_common f (RxTs i) d) = TxTsRecord d"
  "RxTsRecord (set_common f (RxTs i) d) = (RxTsRecord d)[i := (RxTsRecord d ! i)\<lparr>rx_common := f (rx_common (RxTsRecord d ! i))\<rparr>]"
  "TxTsRecord (set_common f (TxTs i) d) = (TxTsRecord d)[i := (TxTsRecord d ! i)\<lparr>tx_common := f (tx_common (TxTsRecord d ! i))\<rparr>]"
  by (simp_all add: set_common_def node_index_def)

lemma TxTsDeleteBA_invalid:
  "\<not> bValid (TxPendingBARecord (fst (TxTsDeleteBA t)))" "\<not> bValid (TxAdmittedBARecord (fst (TxTsDeleteBA t)))"
  by (simp_all add: TxTsDeleteBA_def DeActivateBAEntry_def Let_def)

lemma RxTsDeleteBA_invalid: "\<not> bValid (RxAdmittedBARecord (fst (RxTsDeleteBA t)))"
  by (simp add: RxTsDeleteBA_def DeActivateBAEntry_def)

text \<open>The records after one stream was removed.\<close>

lemma RemoveTsEntry_TX_records:
  assumes "i < length (TxTsRecord d)"
  shows "RxTsRecord (RemoveTsEntry d (TxTs i) TX_DIR) = RxTsRecord d"
    and "RxReorder_Unused_List (RemoveTsEntry d (TxTs i) TX_DIR) = RxReorder_Unused_List d"
    and "\<exists>t. TxTsRecord (RemoveTsEntry d (TxTs i) TX_DIR) = (TxTsRecord d)[i := t] \<and> TsAddBaTimer t = None \<and>
       \<not> bValid (TxPendingBARecord t) \<and> \<not> bValid (TxAdmittedBARecord t)"
proof -
  let ?d0 = "set_common (\<lambda>c. c\<lparr>SetupTimer := None, InactTimer := None\<rparr>) (TxTs i) d"
  let ?t = "(fst (TxTsDeleteBA (TxTsRecord ?d0 ! i)))\<lparr>TsAddBaTimer := None\<rparr>"
  have "RxTsRecord (RemoveTsEntry d (TxTs i) TX_DIR) = RxTsRecord d \<and>
      TxTsRecord (RemoveTsEntry d (TxTs i) TX_DIR) = (TxTsRecord d)[i := ?t]"
    using assms by (simp add: RemoveTsEntry_def node_index_def TsInitDelBA_TX Let_def set_common_records)
  moreover have "RxReorder_Unused_List (RemoveTsEntry d (TxTs i) TX_DIR) = RxReorder_Unused_List d"
    by (simp add: RemoveTsEntry_def node_index_def TsInitDelBA_TX Let_def) (simp add: set_common_def)
  ultimately show "RxTsRecord (RemoveTsEntry d (TxTs i) TX_DIR) = RxTsRecord d"
    and "RxReorder_Unused_List (RemoveTsEntry d (TxTs i) TX_DIR) = RxReorder_Unused_List d"
    and "\<exists>t. TxTsRecord (RemoveTsEntry d (TxTs i) TX_DIR) = (TxTsRecord d)[i := t] \<and> TsAddBaTimer t = None \<and>
       \<not> bValid (TxPendingBARecord t) \<and> \<not> bValid (TxAdmittedBARecord t)"
    by (auto simp: TxTsDeleteBA_invalid)
qed

lemma RemoveTsEntry_RX_records:
  assumes "i < length (RxTsRecord d)" "packets_ok d"
  shows "TxTsRecord (RemoveTsEntry d (RxTs i) RX_DIR) = TxTsRecord d"
    and "\<exists>t. RxTsRecord (RemoveTsEntry d (RxTs i) RX_DIR) = (RxTsRecord d)[i := t] \<and> RxPendingPktList t = [] \<and>
       RxPktPendingTimer t = None \<and> \<not> bValid (RxAdmittedBARecord t)"
    and "RxReorder_Unused_List (RemoveTsEntry d (RxTs i) RX_DIR) =
       RxReorder_Unused_List d @ rev (RxPendingPktList (RxTsRecord d ! i))"
    and "rx_freed (RemoveTsEntry d (RxTs i) RX_DIR) =
       rx_freed d @ map (\<lambda>e. the (prxb e)) (rev (RxPendingPktList (RxTsRecord d ! i)))"
proof -
  let ?d0 = "set_common (\<lambda>c. c\<lparr>SetupTimer := None, InactTimer := None\<rparr>) (RxTs i) d"
  let ?u = "fst (RxTsDeleteBA (RxTsRecord ?d0 ! i))"
  let ?t = "?u\<lparr>RxPktPendingTimer := None, RxPendingPktList := []\<rparr>"
  have "\<forall>e \<in> set (rev (RxPendingPktList (RxTsRecord d ! i))). prxb e \<noteq> None"
    using assms by (auto simp: packets_ok_def)
  note fp = free_pending_all[OF this]
  have R: "RxTsRecord (TsInitDelBA ?d0 i RX_DIR) = (RxTsRecord d)[i := ?u]"
    "TxTsRecord (TsInitDelBA ?d0 i RX_DIR) = TxTsRecord d"
    "RxReorder_Unused_List (TsInitDelBA ?d0 i RX_DIR) = RxReorder_Unused_List d"
    "rx_freed (TsInitDelBA ?d0 i RX_DIR) = rx_freed d"
    using assms(1) by (simp_all add: TsInitDelBA_RX Let_def set_common_records) (simp_all add: set_common_def)
  have pu: "RxPendingPktList ?u = RxPendingPktList (RxTsRecord d ! i)"
    using assms(1) by (simp add: set_common_records)
  have "TxTsRecord (RemoveTsEntry d (RxTs i) RX_DIR) = TxTsRecord d \<and>
      RxTsRecord (RemoveTsEntry d (RxTs i) RX_DIR) = (RxTsRecord d)[i := ?t] \<and>
      RxReorder_Unused_List (RemoveTsEntry d (RxTs i) RX_DIR) =
        RxReorder_Unused_List d @ rev (RxPendingPktList (RxTsRecord d ! i)) \<and>
      rx_freed (RemoveTsEntry d (RxTs i) RX_DIR) =
        rx_freed d @ map (\<lambda>e. the (prxb e)) (rev (RxPendingPktList (RxTsRecord d ! i)))"
    using assms(1) fp pu by (simp add: RemoveTsEntry_def node_index_def Let_def R)
  then show "TxTsRecord (RemoveTsEntry d (RxTs i) RX_DIR) = TxTsRecord d"
    and "\<exists>t. RxTsRecord (RemoveTsEntry d (RxTs i) RX_DIR) = (RxTsRecord d)[i := t] \<and> RxPendingPktList t = [] \<and>
       RxPktPendingTimer t = None \<and> \<not> bValid (RxAdmittedBARecord t)"
    and "RxReorder_Unused_List (RemoveTsEntry d (RxTs i) RX_DIR) =
       RxReorder_Unused_List d @ rev (RxPendingPktList (RxTsRecord d ! i))"
    and "rx_freed (RemoveTsEntry d (RxTs i) RX_DIR) =
       rx_freed d @ map (\<lambda>e. the (prxb e)) (rev (RxPendingPktList (RxTsRecord d ! i)))"
    by (auto simp: RxTsDeleteBA_invalid)
qed

lemma RemoveTsEntry_ready:
  assumes "ts_valid d n" "n = ts_node_of s i" "packets_ok d"
  shows "packets_ok (RemoveTsEntry d n s)" "ts_ready (RemoveTsEntry d n s) n"
    "ts_valid d m \<Longrightarrow> ts_ready d m \<Longrightarrow> ts_ready (RemoveTsEntry d n s) m"
proof -
  have "packets_ok (RemoveTsEntry d n s) \<and> ts_ready (RemoveTsEntry d n s) n \<and>
      (\<forall>m. ts_valid d m \<and> ts_ready d m \<longrightarrow> ts_ready (RemoveTsEntry d n s) m)"
  proof (cases s)
    case TX_DIR
    then have i: "n = TxTs i" "i < length (TxTsRecord d)" using assms by (auto simp: ts_valid_def ts_node_of_def)
    from RemoveTsEntry_TX_records[OF i(2)] obtain t where
      "RxTsRecord (RemoveTsEntry d n s) = RxTsRecord d" "TxTsRecord (RemoveTsEntry d n s) = (TxTsRecord d)[i := t]"
      "RxReorder_Unused_List (RemoveTsEntry d n s) = RxReorder_Unused_List d" "TsAddBaTimer t = None" "\<not> bValid (TxPendingBARecord t)" "\<not> bValid (TxAdmittedBARecord t)"
      unfolding i(1) TX_DIR by auto
    then show ?thesis
      using assms(3) i
      by (auto simp: packets_ok_def entry_total_def ts_ready_def node_index_def ts_valid_def nth_list_update_if split: ts_node.splits)
  next
    case RX_DIR
    then have i: "n = RxTs i" "i < length (RxTsRecord d)" using assms by (auto simp: ts_valid_def ts_node_of_def)
    from RemoveTsEntry_RX_records[OF i(2) assms(3)] obtain t where
      "TxTsRecord (RemoveTsEntry d n s) = TxTsRecord d" "RxTsRecord (RemoveTsEntry d n s) = (RxTsRecord d)[i := t]"
      "RxReorder_Unused_List (RemoveTsEntry d n s) = RxReorder_Unused_List d @ rev (RxPendingPktList (RxTsRecord d ! i))"
      "RxPendingPktList t = []" "RxPktPendingTimer t = None" "\<not> bValid (RxAdmittedBARecord t)"
      unfolding i(1) RX_DIR by auto
    moreover from this have "entry_total (RemoveTsEntry d n s) = entry_total d"
      using sum_list_map_update[OF i(2), of "\<lambda>t. length (RxPendingPktList t)" t] by (simp add: entry_total_def)
    ultimately show ?thesis
      using assms(3) i set_update_subset_insert[of "RxTsRecord d" i t]
      by (auto simp: packets_ok_def ts_ready_def node_index_def ts_valid_def nth_list_update_if split: ts_node.splits)
  qed
  then show "packets_ok (RemoveTsEntry d n s)" "ts_ready (RemoveTsEntry d n s) n"
    "ts_valid d m \<Longrightarrow> ts_ready d m \<Longrightarrow> ts_ready (RemoveTsEntry d n s) m" by auto
qed

section \<open>Walking a list while entries leave it\<close>

definition release :: "ts_dev \<Rightarrow> ts_node \<Rightarrow> TR_SELECT \<Rightarrow> ts_dev" where
  "release d n s = (RemoveTsEntry d n s)\<lparr>ts_links := move_links n (unused_head s) (ts_links (RemoveTsEntry d n s))\<rparr>"

lemma remove_loop_generic:
  assumes step: "\<And>xs n ys us d. Q (xs @ n # ys) us d \<Longrightarrow> P n \<Longrightarrow> Q (xs @ ys) (us @ [n]) (release d n s)"
    and list: "\<And>xs us d. Q xs us d \<Longrightarrow> dlist (ts_links d) h xs"
    and cond: "\<And>xs us d n. Q xs us d \<Longrightarrow> n \<in> set xs \<Longrightarrow> p d n = P n"
  shows "Q (front @ todo) us d \<Longrightarrow> length todo \<le> fuel \<Longrightarrow>
    \<exists>d'. remove_loop fuel p s h (hd (todo @ [h])) d = Some d' \<and>
         Q (front @ filter (\<lambda>n. \<not> P n) todo) (us @ filter P todo) d'"
proof (induction todo arbitrary: front us d fuel)
  case Nil
  then show ?case by (cases fuel) auto
next
  case (Cons n todo)
  then obtain f where f: "fuel = Suc f" "length todo \<le> f" by (cases fuel) auto
  note dl = list[OF Cons.prems(1)]
  then have next_n: "nxt (ts_links d) n = hd (todo @ [h])" and ne: "n \<noteq> h"
    by (auto simp: dlist_def seg_append dest: seg_first)
  have pn: "p d n = P n" using cond[OF Cons.prems(1)] by simp
  show ?case
  proof (cases "P n")
    case True
    have "Q (front @ todo) (us @ [n]) (release d n s)" using step[OF Cons.prems(1) True] .
    from Cons.IH[OF this f(2)] show ?thesis
      using True pn ne next_n f(1) by (simp add: release_def Let_def)
  next
    case False
    have "Q ((front @ [n]) @ todo) us d" using Cons.prems(1) by simp
    from Cons.IH[OF this f(2)] show ?thesis
      using False pn ne next_n f(1) by (simp add: Let_def)
  qed
qed

corollary remove_from_generic:
  assumes "\<And>xs n ys us d. Q (xs @ n # ys) us d \<Longrightarrow> P n \<Longrightarrow> Q (xs @ ys) (us @ [n]) (release d n s)"
    and list: "\<And>xs us d. Q xs us d \<Longrightarrow> dlist (ts_links d) h xs"
    and "\<And>xs us d n. Q xs us d \<Longrightarrow> n \<in> set xs \<Longrightarrow> p d n = P n"
    and "Q xs us d" "length xs \<le> LIST_FUEL"
  shows "\<exists>d'. remove_from p s h d = Some d' \<and> Q (filter (\<lambda>n. \<not> P n) xs) (us @ filter P xs) d'"
proof -
  have "nxt (ts_links d) h = hd (xs @ [h])" using dlist_first[OF list[OF assms(4)]] by (cases xs) auto
  then show ?thesis
    using remove_loop_generic[of Q P s h p "[]" xs us d, OF assms(1-3)] assms(4,5) by (simp add: remove_from_def)
qed

section \<open>Both directions\<close>

type_synonym ts_lists = "TR_SELECT \<Rightarrow> ts_node list"

definition ts_sys :: "ts_dev \<Rightarrow> ts_lists \<Rightarrow> ts_lists \<Rightarrow> ts_lists \<Rightarrow> bool" where
  "ts_sys d A P U \<longleftrightarrow> (\<forall>s. ts_inv s d (A s) (P s) (U s)) \<and> (\<forall>s. \<forall>n \<in> set (U s). ts_ready d n) \<and> packets_ok d"

definition ts_system :: "ts_dev \<Rightarrow> bool" where
  "ts_system d \<longleftrightarrow> (\<exists>A P U. ts_sys d A P U)"

lemma same_streams_key: "same_streams d d' \<Longrightarrow> ts_valid d n \<Longrightarrow> ts_key d' n = ts_key d n"
  by (simp add: same_streams_def ts_key_def)

lemma ts_inv_same:
  assumes "same_streams d d'" "ts_pool s d as' ps' us'" "set as \<subseteq> set (as' @ ps' @ us')"
    and "distinct (map (ts_key d) as)" "\<forall>n \<in> set as. ucDirection (TSInfo (ts_common d n)) = GetTs_Dir d s"
    and "ts_pool s d' as ps us"
  shows "ts_inv s d' as ps us"
proof -
  have v: "ts_valid d n" if "n \<in> set as" for n using that assms(3) ts_pool_valid[OF assms(2)] by blast
  have "map (ts_key d') as = map (ts_key d) as"
    by (rule map_cong[OF refl]) (use v same_streams_key[OF assms(1)] in blast)
  then have "distinct (map (ts_key d') as)" using assms(4) by (simp only:)
  moreover have "GetTs_Dir d' s = GetTs_Dir d s" using assms(1) by (simp add: GetTs_Dir_def same_streams_def)
  ultimately show ?thesis
    using assms(1,5,6) v by (simp add: ts_inv_def same_streams_def)
qed

lemma ts_ready_links [simp]: "ts_ready (d\<lparr>ts_links := L\<rparr>) n = ts_ready d n"
  by (simp add: ts_ready_def cong: ts_node.case_cong)

lemma packets_ok_links [simp]: "packets_ok (d\<lparr>ts_links := L\<rparr>) = packets_ok d"
  by (simp add: packets_ok_def entry_total_def)

lemma ts_sys_release:
  assumes sys: "ts_sys d A P U"
    and lists: "A s = xs @ n # ys \<and> A' = A(s := xs @ ys) \<and> P' = P \<or> P s = xs @ n # ys \<and> P' = P(s := xs @ ys) \<and> A' = A"
  shows "ts_sys (release d n s) A' P' (U(s := U s @ [n]))" "same_streams d (release d n s)"
proof -
  let ?d = "release d n s"
  have inv: "ts_inv t d (A t) (P t) (U t)" for t using sys by (simp add: ts_sys_def)
  then have pool: "ts_pool t d (A t) (P t) (U t)" for t by (simp add: ts_inv_def)
  have mem: "n \<in> set (A s @ P s @ U s)" using lists by auto
  have v: "ts_valid d n" by (rule ts_pool_valid[OF pool mem])
  obtain i where i: "n = ts_node_of s i" using ts_pool_facts(4)[OF pool[of s]] mem by blast
  note same = RemoveTsEntry_same[OF v i]
  show ss: "same_streams d ?d" unfolding release_def by (rule same_streams_links[OF same(1)])
  have L: "ts_links ?d = move_links n (unused_head s) (ts_links d)" by (simp add: release_def same(2))
  have len: "length (TxTsRecord ?d) = TOTAL_TS_NUM" "length (RxTsRecord ?d) = TOTAL_TS_NUM"
    using ss pool[of s] by (simp_all add: same_streams_def ts_pool_def)
  have nU: "n \<notin> set (U s)" using lists ts_pool_facts(1)[OF pool[of s]] by auto
  have p: "ts_pool t ?d (A' t) (P' t) ((U(s := U s @ [n])) t)" for t
  proof (cases "t = s")
    case True
    from lists show ?thesis
    proof
      assume "A s = xs @ n # ys \<and> A' = A(s := xs @ ys) \<and> P' = P"
      then show ?thesis using True ts_pool_release_admitted[of s d xs n ys "P s" "U s" ?d, OF _ L len] pool[of s] by simp
    next
      assume "P s = xs @ n # ys \<and> P' = P(s := xs @ ys) \<and> A' = A"
      then show ?thesis using True ts_pool_release_pending[of s d "A s" xs n ys "U s" ?d, OF _ L len] pool[of s] by simp
    qed
  next
    case False
    then show ?thesis
      using ts_pool_other[OF pool[of s] pool[of t] _ mem _ _ L len] nU lists by (auto simp: ts_heads_def)
  qed
  have "ts_inv t ?d (A' t) (P' t) ((U(s := U s @ [n])) t)" for t
  proof (rule ts_inv_same[OF ss pool[of t] _ _ _ p])
    show "set (A' t) \<subseteq> set (A t @ P t @ U t)" using lists by (auto split: if_splits)
    show "distinct (map (ts_key d) (A' t))" "\<forall>m \<in> set (A' t). ucDirection (TSInfo (ts_common d m)) = GetTs_Dir d t"
    proof -
      have "A' t = A t \<or> A t = xs @ n # ys \<and> A' t = xs @ ys" using lists by (auto split: if_splits)
      moreover have "distinct (map (ts_key d) (A t))" "\<forall>m \<in> set (A t). ucDirection (TSInfo (ts_common d m)) = GetTs_Dir d t"
        using inv[of t] by (simp_all add: ts_inv_def)
      ultimately show "distinct (map (ts_key d) (A' t))" "\<forall>m \<in> set (A' t). ucDirection (TSInfo (ts_common d m)) = GetTs_Dir d t"
        by (elim disjE; force)+
    qed
  qed
  moreover have po: "packets_ok d" using sys by (simp add: ts_sys_def)
  note R = RemoveTsEntry_ready[OF v i po]
  have "ts_ready ?d m" if "m \<in> set ((U(s := U s @ [n])) t)" for m t
  proof (cases "m = n")
    case False
    then have m: "m \<in> set (U t)" using that by (auto split: if_splits)
    then have "ts_valid d m" using ts_pool_valid[OF pool[of t], of m] by simp
    then show ?thesis using R(3)[of m] m sys by (simp add: release_def ts_sys_def)
  qed (simp add: release_def R(2))
  ultimately show "ts_sys ?d A' P' (U(s := U s @ [n]))"
    using R(1) by (simp add: ts_sys_def release_def)
qed

lemma ts_sys_valid:
  assumes "ts_sys d A P U" "n \<in> set (A s @ P s @ U s)" shows "ts_valid d n"
proof -
  have "ts_pool s d (A s) (P s) (U s)" using assms(1) by (simp add: ts_sys_def ts_inv_def)
  then show ?thesis using assms(2) by (rule ts_pool_valid)
qed

lemma ts_sys_lists:
  assumes "ts_sys d A P U"
  shows "dlist (ts_links d) (admit_head s) (A s)" "dlist (ts_links d) (pending_head s) (P s)"
    "length (A s) \<le> LIST_FUEL" "length (P s) \<le> LIST_FUEL"
proof -
  have "ts_pool s d (A s) (P s) (U s)" using assms by (simp add: ts_sys_def ts_inv_def)
  then show "dlist (ts_links d) (admit_head s) (A s)" "dlist (ts_links d) (pending_head s) (P s)"
    "length (A s) \<le> LIST_FUEL" "length (P s) \<le> LIST_FUEL"
    using ts_pool_facts(3)[of s d "A s" "P s" "U s"] by (auto simp: ts_pool_def)
qed

lemma same_streams_Addr: "same_streams d d' \<Longrightarrow> ts_valid d' n \<Longrightarrow> Addr (ts_common d' n) = Addr (ts_common d n)"
  using ts_valid_length[of d' d n] by (simp add: same_streams_def)

lemma remove_from_admitted:
  assumes sys: "ts_sys d A P U" and p: "\<And>d n. p d n = C (Addr (ts_common d n))"
  shows "\<exists>d' U'. remove_from p s (admit_head s) d = Some d' \<and> same_streams d d' \<and>
    ts_sys d' (A(s := filter (\<lambda>n. \<not> C (Addr (ts_common d n))) (A s))) P U'"
proof -
  let ?Q = "\<lambda>xs us d'. ts_sys d' (A(s := xs)) P (U(s := us)) \<and> same_streams d d'"
  let ?P = "\<lambda>n. C (Addr (ts_common d n))"
  have "\<exists>d'. remove_from p s (admit_head s) d = Some d' \<and> ?Q (filter (\<lambda>n. \<not> ?P n) (A s)) (U s @ filter ?P (A s)) d'"
  proof (rule remove_from_generic)
    show "?Q (xs @ ys) (us @ [n]) (release d' n s)" if "?Q (xs @ n # ys) us d'" for xs n ys us d'
      using ts_sys_release[of d' "A(s := xs @ n # ys)" P "U(s := us)" s xs n ys "A(s := xs @ ys)" P] that
      by (auto intro: same_streams_trans)
    show "dlist (ts_links d') (admit_head s) xs" if "?Q xs us d'" for xs us d'
      using ts_sys_lists(1)[of d' "A(s := xs)" P "U(s := us)" s] that by simp
    show "p d' n = ?P n" if "?Q xs us d'" "n \<in> set xs" for xs us d' n
      using that ts_sys_valid[of d' "A(s := xs)" P "U(s := us)" n s] same_streams_Addr[of d d' n] by (simp add: p)
  qed (use sys ts_sys_lists(3)[OF sys] in \<open>simp_all add: same_streams_refl\<close>)
  then show ?thesis by blast
qed

lemma remove_from_pending:
  assumes sys: "ts_sys d A P U" and p: "\<And>d n. p d n = C (Addr (ts_common d n))"
  shows "\<exists>d' U'. remove_from p s (pending_head s) d = Some d' \<and> same_streams d d' \<and>
    ts_sys d' A (P(s := filter (\<lambda>n. \<not> C (Addr (ts_common d n))) (P s))) U'"
proof -
  let ?Q = "\<lambda>xs us d'. ts_sys d' A (P(s := xs)) (U(s := us)) \<and> same_streams d d'"
  let ?P = "\<lambda>n. C (Addr (ts_common d n))"
  have "\<exists>d'. remove_from p s (pending_head s) d = Some d' \<and> ?Q (filter (\<lambda>n. \<not> ?P n) (P s)) (U s @ filter ?P (P s)) d'"
  proof (rule remove_from_generic)
    show "?Q (xs @ ys) (us @ [n]) (release d' n s)" if "?Q (xs @ n # ys) us d'" for xs n ys us d'
      using ts_sys_release[of d' A "P(s := xs @ n # ys)" "U(s := us)" s xs n ys A "P(s := xs @ ys)"] that
      by (auto intro: same_streams_trans)
    show "dlist (ts_links d') (pending_head s) xs" if "?Q xs us d'" for xs us d'
      using ts_sys_lists(2)[of d' A "P(s := xs)" "U(s := us)" s] that by simp
    show "p d' n = ?P n" if "?Q xs us d'" "n \<in> set xs" for xs us d' n
      using that ts_sys_valid[of d' A "P(s := xs)" "U(s := us)" n s] same_streams_Addr[of d d' n] by (simp add: p)
  qed (use sys ts_sys_lists(4)[OF sys] in \<open>simp_all add: same_streams_refl\<close>)
  then show ?thesis by blast
qed

text \<open>The four walks, one after the other.\<close>

lemma remove_all_walks:
  assumes sys: "ts_sys d A P U" and p: "\<And>d n. p d n = C (Addr (ts_common d n))"
  shows "\<exists>d' P' U'. do { d1 \<leftarrow> remove_from p TX_DIR Tx_TS_Pending_List d;
             d2 \<leftarrow> remove_from p TX_DIR Tx_TS_Admit_List d1;
             d3 \<leftarrow> remove_from p RX_DIR Rx_TS_Pending_List d2;
             remove_from p RX_DIR Rx_TS_Admit_List d3 } = Some d' \<and> same_streams d d' \<and>
    ts_sys d' (\<lambda>s. filter (\<lambda>n. \<not> C (Addr (ts_common d n))) (A s)) P' U'"
proof -
  let ?N = "\<lambda>d n. \<not> C (Addr (ts_common d n))"
  obtain d1 U1 P1 where 1: "remove_from p TX_DIR Tx_TS_Pending_List d = Some d1" "same_streams d d1" "ts_sys d1 A P1 U1"
    using remove_from_pending[where C = C and p = p and s = TX_DIR, OF sys p] by (auto simp: pending_head_def)
  obtain d2 U2 where 2: "remove_from p TX_DIR Tx_TS_Admit_List d1 = Some d2" "same_streams d1 d2"
    "ts_sys d2 (A(TX_DIR := filter (?N d1) (A TX_DIR))) P1 U2"
    using remove_from_admitted[where C = C and p = p and s = TX_DIR, OF 1(3) p] by (auto simp: admit_head_def)
  obtain d3 U3 P3 where 3: "remove_from p RX_DIR Rx_TS_Pending_List d2 = Some d3" "same_streams d2 d3"
    "ts_sys d3 (A(TX_DIR := filter (?N d1) (A TX_DIR))) P3 U3"
    using remove_from_pending[where C = C and p = p and s = RX_DIR, OF 2(3) p] by (auto simp: pending_head_def)
  obtain d4 U4 where 4: "remove_from p RX_DIR Rx_TS_Admit_List d3 = Some d4" "same_streams d3 d4"
    "ts_sys d4 ((A(TX_DIR := filter (?N d1) (A TX_DIR)))(RX_DIR := filter (?N d3) (A RX_DIR))) P3 U4"
    using remove_from_admitted[where C = C and p = p and s = RX_DIR, OF 3(3) p] by (auto simp: admit_head_def)
  have s3: "same_streams d d3" using 1(2) 2(2) 3(2) same_streams_trans by blast
  have v: "ts_valid d n" if "n \<in> set (A s)" for n s using that ts_sys_valid[OF sys, of n s] by simp
  have "filter (?N d1) (A TX_DIR) = filter (?N d) (A TX_DIR)" "filter (?N d3) (A RX_DIR) = filter (?N d) (A RX_DIR)"
    using v 1(2) s3 by (auto simp: same_streams_def intro!: filter_cong)
  then have "(A(TX_DIR := filter (?N d1) (A TX_DIR)))(RX_DIR := filter (?N d3) (A RX_DIR)) = (\<lambda>s. filter (?N d) (A s))"
    by (auto simp: fun_eq_iff) (metis TR_SELECT.exhaust)
  then show ?thesis
    using 1(1) 2(1) 3(1) 4 same_streams_trans[OF s3 4(2)] by auto
qed

lemma ts_sys_table: "ts_sys d A P U \<Longrightarrow> stream_table s d = ts_tbl d (A s)"
  using ts_inv_admitted[of s d "A s" "P s" "U s"] by (simp add: stream_table_def ts_sys_def)

lemma stream_table_filtered:
  assumes "ts_sys d A P U" "same_streams d d'"
    and "ts_sys d' (\<lambda>s. filter (\<lambda>n. \<not> C (Addr (ts_common d n))) (A s)) P' U'"
  shows "stream_table s d' k = (if C (fst k) then None else stream_table s d k)"
proof -
  have v: "ts_valid d n" if "n \<in> set (A s)" for n using that ts_sys_valid[OF assms(1), of n s] by simp
  have key: "ts_key d' n = ts_key d n" if "n \<in> set (A s)" for n using same_streams_key[OF assms(2) v[OF that]] .
  have "find (\<lambda>n. ts_key d' n = k) (filter (\<lambda>n. \<not> C (Addr (ts_common d n))) xs) =
      (if C (fst k) then None else find (\<lambda>n. ts_key d n = k) xs)" if "set xs \<subseteq> set (A s)" for xs
    using that key by (induction xs) (auto simp: ts_key_def)
  from this[of "A s"] show ?thesis
    by (simp add: ts_sys_table[OF assms(1)] ts_sys_table[OF assms(3)] ts_tbl_def map_of_find)
qed

text \<open>
  C15: RemovePeerTS returns, keeps both directions well formed, removes exactly the
  streams of the peer from both tables, and leaves every unused record at rest: no
  pending packet, no running timer and no valid block ack record.
\<close>

theorem RemovePeerTS_spec:
  assumes "ts_system d"
  shows "\<exists>d'. RemovePeerTS a d = Some d' \<and> ts_system d' \<and>
    (\<forall>s k. stream_table s d' k = (if fst k = a then None else stream_table s d k))"
proof -
  obtain A P U where sys: "ts_sys d A P U" using assms by (auto simp: ts_system_def)
  have "\<exists>d' P' U'. RemovePeerTS a d = Some d' \<and> same_streams d d' \<and>
      ts_sys d' (\<lambda>s. filter (\<lambda>n. \<not> Addr (ts_common d n) = a) (A s)) P' U'"
    unfolding RemovePeerTS_def Let_def
    by (rule remove_all_walks[OF sys, where C = "\<lambda>x. x = a"]) (rule refl)
  then show ?thesis
    using stream_table_filtered[OF sys, of _ "\<lambda>x. x = a"] by (fastforce simp: ts_system_def)
qed

text \<open>
  RemoveAllTS returns, empties both tables and leaves every unused record at rest.\<close>

theorem RemoveAllTS_spec:
  assumes "ts_system d"
  shows "\<exists>d'. RemoveAllTS d = Some d' \<and> ts_system d' \<and> (\<forall>s k. stream_table s d' k = None)"
proof -
  obtain A P U where sys: "ts_sys d A P U" using assms by (auto simp: ts_system_def)
  have "\<exists>d' P' U'. RemoveAllTS d = Some d' \<and> same_streams d d' \<and>
      ts_sys d' (\<lambda>s. filter (\<lambda>n. \<not> True) (A s)) P' U'"
    unfolding RemoveAllTS_def Let_def
    by (rule remove_all_walks[OF sys, where C = "\<lambda>x. True"]) (rule refl)
  then show ?thesis
    using stream_table_filtered[OF sys, of _ "\<lambda>x. True"] by (fastforce simp: ts_system_def)
qed

end
