(* ===== verification/TS_Init.thy ===== *)
theory TS_Init
  imports TS_Remove Rx_Reorder_Run
begin

text \<open>
  What TSInitialize really builds, the properties of GetTs over the stream tables, and the
  concrete device that the witnesses use.
\<close>

section \<open>Initialisation\<close>

lemma dlist_local:
  "dlist L h xs \<Longrightarrow> \<forall>k \<in> set (h # xs). nxt L' k = nxt L k \<and> prv L' k = prv L k \<Longrightarrow> dlist L' h xs"
  unfolding dlist_def by (subst seg_cong[of _ _ L' L]) auto

lemma add_tail_local:
  "k \<noteq> x \<Longrightarrow> k \<noteq> h \<Longrightarrow> k \<noteq> prv L h \<Longrightarrow> nxt (list_add_tail x h L) k = nxt L k \<and> prv (list_add_tail x h L) k = prv L k"
  by simp

lemma init_local: "k \<noteq> n \<Longrightarrow> nxt (INIT_LIST_HEAD n L) k = nxt L k \<and> prv (INIT_LIST_HEAD n L) k = prv L k"
  by simp

lemma init_tx_Some:
  assumes "i < length (TxTsRecord d)"
  shows "\<exists>d'. init_tx i d = Some d' \<and> length (TxTsRecord d') = length (TxTsRecord d) \<and> RxTsRecord d' = RxTsRecord d \<and>
     ts_links d' = list_add_tail (TxTs i) Tx_TS_Unused_List (list_add_tail (RxTs 0) Rx_TS_Unused_List
                      (INIT_LIST_HEAD (TxTs i) (ts_links d)))"
  using assms by (simp add: init_tx_def setup_tx_timers_def Let_def)

definition tx_loop_inv :: "nat \<Rightarrow> ts_dev \<Rightarrow> bool" where
  "tx_loop_inv k d \<longleftrightarrow> length (TxTsRecord d) = TOTAL_TS_NUM \<and> length (RxTsRecord d) = TOTAL_TS_NUM \<and>
     dlist (ts_links d) Tx_TS_Unused_List (map TxTs [0..<k]) \<and>
     dlist (ts_links d) Tx_TS_Admit_List [] \<and> dlist (ts_links d) Tx_TS_Pending_List [] \<and>
     dlist (ts_links d) Rx_TS_Admit_List [] \<and> dlist (ts_links d) Rx_TS_Pending_List [] \<and>
     (if k = 0 then prv (ts_links d) Rx_TS_Unused_List = Rx_TS_Unused_List
      else nxt (ts_links d) Rx_TS_Unused_List = RxTs 0 \<and> prv (ts_links d) Rx_TS_Unused_List = RxTs 0)"

lemma tx_loop_step:
  assumes "tx_loop_inv k d" "k < TOTAL_TS_NUM"
  shows "\<exists>d'. init_tx k d = Some d' \<and> tx_loop_inv (Suc k) d'"
proof -
  have len: "k < length (TxTsRecord d)" using assms by (simp add: tx_loop_inv_def)
  let ?L = "ts_links d"
  let ?L1 = "list_add_tail (RxTs 0) Rx_TS_Unused_List (INIT_LIST_HEAD (TxTs k) ?L)"
  have u: "dlist ?L Tx_TS_Unused_List (map TxTs [0..<k])" and pv: "prv ?L Rx_TS_Unused_List \<in> {Rx_TS_Unused_List, RxTs 0}"
    using assms(1) by (auto simp: tx_loop_inv_def split: if_splits)
  have pu: "prv ?L Tx_TS_Unused_List \<in> insert Tx_TS_Unused_List (range TxTs)"
    using dlist_last[OF u] by (cases k) auto
  have u1: "dlist ?L1 Tx_TS_Unused_List (map TxTs [0..<k])"
    using pv by (intro dlist_local[OF u]) auto
  have pu1: "prv ?L1 Tx_TS_Unused_List = prv ?L Tx_TS_Unused_List" by simp
  let ?L2 = "list_add_tail (TxTs k) Tx_TS_Unused_List ?L1"
  have U: "dlist ?L2 Tx_TS_Unused_List (map TxTs [0..<k] @ [TxTs k])" by (rule dlist_add_tail[OF u1]) auto
  have oth: "nxt ?L2 h = nxt ?L h \<and> prv ?L2 h = prv ?L h"
    if "h \<in> {Tx_TS_Admit_List, Tx_TS_Pending_List, Rx_TS_Admit_List, Rx_TS_Pending_List}" for h
  proof -
    have ne: "h \<noteq> TxTs k" "h \<noteq> RxTs 0" "h \<noteq> Tx_TS_Unused_List" "h \<noteq> Rx_TS_Unused_List" "h \<notin> range TxTs"
      using that by auto
    have "h \<noteq> prv ?L1 Tx_TS_Unused_List" using ne pu unfolding pu1 by auto
    moreover have "h \<noteq> prv (INIT_LIST_HEAD (TxTs k) ?L) Rx_TS_Unused_List" using ne pv by auto
    ultimately show ?thesis
      using add_tail_local[OF ne(1,3), of ?L1] add_tail_local[OF ne(2,4), of "INIT_LIST_HEAD (TxTs k) ?L"]
        init_local[OF ne(1), of ?L] by presburger
  qed
  have rx: "nxt ?L2 Rx_TS_Unused_List = RxTs 0 \<and> prv ?L2 Rx_TS_Unused_List = RxTs 0"
    using assms(1) pu by (auto simp: tx_loop_inv_def split: if_splits)
  obtain d' where d': "init_tx k d = Some d'" "length (TxTsRecord d') = length (TxTsRecord d)"
    "RxTsRecord d' = RxTsRecord d" "ts_links d' = ?L2" using init_tx_Some[OF len] by blast
  have "dlist ?L2 h []" if "h \<in> {Tx_TS_Admit_List, Tx_TS_Pending_List, Rx_TS_Admit_List, Rx_TS_Pending_List}" for h
    by (rule dlist_local[of ?L]) (use that oth[OF that] assms(1) in \<open>auto simp: tx_loop_inv_def\<close>)
  moreover define L2 where "L2 = ?L2"
  ultimately have "dlist L2 Tx_TS_Admit_List []" "dlist L2 Tx_TS_Pending_List []" "dlist L2 Rx_TS_Admit_List []"
    "dlist L2 Rx_TS_Pending_List []" "dlist L2 Tx_TS_Unused_List (map TxTs [0..<Suc k])"
    "nxt L2 Rx_TS_Unused_List = RxTs 0" "prv L2 Rx_TS_Unused_List = RxTs 0" "ts_links d' = L2"
    using U rx d'(4) by simp_all
  then have "tx_loop_inv (Suc k) d'"
    using d'(2,3) assms(1) by (simp add: tx_loop_inv_def)
  then show ?thesis using d'(1) by blast
qed

lemma for_opt_append: "for_opt f (xs @ ys) s = (case for_opt f xs s of None \<Rightarrow> None | Some s' \<Rightarrow> for_opt f ys s')"
  by (induction xs arbitrary: s) (auto split: option.split)

lemma for_opt_inv:
  assumes "I 0 s" "\<And>k s. I k s \<Longrightarrow> k < n \<Longrightarrow> \<exists>s'. f k s = Some s' \<and> I (Suc k) s'"
  shows "\<exists>s'. for_opt f [0..<n] s = Some s' \<and> I n s'"
proof -
  have "k \<le> n \<Longrightarrow> \<exists>s'. for_opt f [0..<k] s = Some s' \<and> I k s'" for k
  proof (induction k)
    case (Suc k)
    then obtain s' where "for_opt f [0..<k] s = Some s'" "I k s'" by auto
    with assms(2)[of k s'] Suc.prems show ?case by (auto simp: for_opt_append)
  qed (use assms(1) in simp)
  then show ?thesis by simp
qed

lemma tx_loop:
  assumes "length (TxTsRecord d) = TOTAL_TS_NUM" "length (RxTsRecord d) = TOTAL_TS_NUM"
  shows "\<exists>d'. for_opt init_tx [0..<TOTAL_TS_NUM] (d\<lparr>ts_links := init_heads (ts_links d), RxReorder_Unused_List := []\<rparr>) = Some d' \<and>
     tx_loop_inv TOTAL_TS_NUM d'"
  by (rule for_opt_inv) (use assms tx_loop_step in \<open>auto simp: tx_loop_inv_def init_heads_def dlist_def\<close>)

text \<open>
  on a kernel with the new timer interface TSInitialize faults: its second loop sets
  up timers behind the last transmit record.
\<close>

theorem TSInitialize_new_timers_fault:
  assumes "length (TxTsRecord d) = TOTAL_TS_NUM" "length (RxTsRecord d) = TOTAL_TS_NUM"
  shows "TSInitialize True entries d = None"
proof -
  obtain d1 where d1: "for_opt init_tx [0..<TOTAL_TS_NUM] (d\<lparr>ts_links := init_heads (ts_links d), RxReorder_Unused_List := []\<rparr>) = Some d1"
    "length (TxTsRecord d1) = TOTAL_TS_NUM"
    using tx_loop[OF assms] by (auto simp: tx_loop_inv_def)
  have "init_rx True 0 d1 = None" using d1(2) by (simp add: init_rx_def setup_tx_timers_def)
  then have "for_opt (init_rx True) [0..<TOTAL_TS_NUM] d1 = None" by (simp add: upt_conv_Cons)
  then show ?thesis by (simp add: TSInitialize_def d1(1))
qed

text \<open>The second loop with the old timer interface.\<close>

definition rx_loop_inv :: "nat \<Rightarrow> ts_dev \<Rightarrow> bool" where
  "rx_loop_inv k d \<longleftrightarrow> length (TxTsRecord d) = TOTAL_TS_NUM \<and> length (RxTsRecord d) = TOTAL_TS_NUM \<and>
     dlist (ts_links d) Tx_TS_Unused_List (map TxTs [0..<TOTAL_TS_NUM]) \<and>
     dlist (ts_links d) Tx_TS_Admit_List [] \<and> dlist (ts_links d) Tx_TS_Pending_List [] \<and>
     dlist (ts_links d) Rx_TS_Admit_List [] \<and> dlist (ts_links d) Rx_TS_Pending_List [] \<and>
     nxt (ts_links d) Rx_TS_Unused_List = RxTs 0 \<and>
     prv (ts_links d) Rx_TS_Unused_List = RxTs (k - 1) \<and> (k > 0 \<longrightarrow> prv (ts_links d) (RxTs 0) = RxTs 0 \<and> nxt (ts_links d) (RxTs 0) \<in> range RxTs)"

lemma init_rx_Some:
  "\<exists>d'. init_rx False i d = Some d' \<and> TxTsRecord d' = TxTsRecord d \<and> length (RxTsRecord d') = length (RxTsRecord d) \<and>
     ts_links d' = list_add_tail (RxTs i) Rx_TS_Unused_List (INIT_LIST_HEAD (RxTs i) (ts_links d))"
  by (simp add: init_rx_def Let_def)

lemma rx_loop_step:
  assumes "rx_loop_inv k d" "k < TOTAL_TS_NUM"
  shows "\<exists>d'. init_rx False k d = Some d' \<and> rx_loop_inv (Suc k) d'"
proof -
  let ?L = "ts_links d"
  let ?L1 = "list_add_tail (RxTs k) Rx_TS_Unused_List (INIT_LIST_HEAD (RxTs k) ?L)"
  have pv: "prv ?L Rx_TS_Unused_List = RxTs (k - 1)" using assms(1) by (simp add: rx_loop_inv_def)
  have oth: "nxt ?L1 h = nxt ?L h \<and> prv ?L1 h = prv ?L h" if "h \<noteq> Rx_TS_Unused_List" "\<forall>i. h \<noteq> RxTs i" for h
  proof -
    have ne: "h \<noteq> RxTs k" "h \<noteq> prv (INIT_LIST_HEAD (RxTs k) ?L) Rx_TS_Unused_List" using that pv by auto
    then show ?thesis
      using add_tail_local[OF ne(1) that(1), of "INIT_LIST_HEAD (RxTs k) ?L"] init_local[OF ne(1), of ?L] by presburger
  qed
  have dl: "dlist ?L1 h xs" if "dlist ?L h xs" "Rx_TS_Unused_List \<notin> set (h # xs)" "\<forall>i. RxTs i \<notin> set (h # xs)" for h xs
  proof (rule dlist_local[OF that(1)], intro ballI oth)
    fix n assume n: "n \<in> set (h # xs)"
    show "n \<noteq> Rx_TS_Unused_List" using n that(2) by metis
    show "\<forall>i. n \<noteq> RxTs i" using n that(3) by metis
  qed
  obtain d' where d': "init_rx False k d = Some d'" "TxTsRecord d' = TxTsRecord d"
    "length (RxTsRecord d') = length (RxTsRecord d)" "ts_links d' = ?L1" using init_rx_Some by blast
  have "nxt ?L1 Rx_TS_Unused_List = RxTs 0" "prv ?L1 Rx_TS_Unused_List = RxTs k" "prv ?L1 (RxTs 0) = RxTs 0"
    "nxt ?L1 (RxTs 0) \<in> range RxTs"
    using assms(1) pv by (auto simp: rx_loop_inv_def)
  moreover have "dlist ?L1 Tx_TS_Unused_List (map TxTs [0..<TOTAL_TS_NUM])" "dlist ?L1 Tx_TS_Admit_List []"
    "dlist ?L1 Tx_TS_Pending_List []" "dlist ?L1 Rx_TS_Admit_List []" "dlist ?L1 Rx_TS_Pending_List []"
    by (rule dl; use assms(1) in \<open>simp add: rx_loop_inv_def\<close>; auto)+
  moreover define L1 where "L1 = ?L1"
  ultimately have "nxt L1 Rx_TS_Unused_List = RxTs 0" "prv L1 Rx_TS_Unused_List = RxTs k" "prv L1 (RxTs 0) = RxTs 0"
    "nxt L1 (RxTs 0) \<in> range RxTs" "dlist L1 Tx_TS_Unused_List (map TxTs [0..<TOTAL_TS_NUM])" "dlist L1 Tx_TS_Admit_List []"
    "dlist L1 Tx_TS_Pending_List []" "dlist L1 Rx_TS_Admit_List []" "dlist L1 Rx_TS_Pending_List []" "ts_links d' = L1"
    using d'(4) by (simp_all only:)
  then have "rx_loop_inv (Suc k) d'"
    using assms(1) d'(2,3) by (simp add: rx_loop_inv_def del: upt_Suc)
  then show ?thesis using d'(1) by blast
qed

lemma TSInitialize_old:
  assumes "length (TxTsRecord d) = TOTAL_TS_NUM" "length (RxTsRecord d) = TOTAL_TS_NUM"
  shows "\<exists>d'. TSInitialize False entries d = Some d' \<and> rx_loop_inv TOTAL_TS_NUM d' \<and> RxReorder_Unused_List d' = entries"
proof -
  obtain d1 where d1: "for_opt init_tx [0..<TOTAL_TS_NUM] (d\<lparr>ts_links := init_heads (ts_links d), RxReorder_Unused_List := []\<rparr>) = Some d1"
    "tx_loop_inv TOTAL_TS_NUM d1" using tx_loop[OF assms] by blast
  have "rx_loop_inv 0 d1" using d1(2) by (simp add: rx_loop_inv_def tx_loop_inv_def)
  then obtain d2 where "for_opt (init_rx False) [0..<TOTAL_TS_NUM] d1 = Some d2" "rx_loop_inv TOTAL_TS_NUM d2"
    using for_opt_inv[of rx_loop_inv d1 TOTAL_TS_NUM "init_rx False", OF _ rx_loop_step] by blast
  then show ?thesis by (simp add: TSInitialize_def d1(1) rx_loop_inv_def)
qed

lemma search_nobody:
  assumes "dlist (ts_links d) (admit_head s) as" "length as \<le> LIST_FUEL" "\<forall>n \<in> set as. Addr (ts_common d n) \<noteq> a"
  shows "SearchAdmitTRStream d a up s = Some None"
proof -
  have "find (\<lambda>n. Addr (ts_common d n) = a \<and> ucTSID (TSInfo (ts_common d n)) = up \<and>
     ucDirection (TSInfo (ts_common d n)) = dir) as = None" for dir
    using assms(3) by (auto simp: find_None_iff)
  then have "search_dirs d a up s dirs = Some None" for dirs
    by (induction dirs) (simp_all add: list_find_dlist[OF assms(1,2)])
  then show ?thesis unfolding SearchAdmitTRStream_def .
qed

lemma GetTs_UP_Some: "t \<le> 7 \<Longrightarrow> \<exists>up. GetTs_UP d t = Some up"
  by (simp add: GetTs_UP_def)

lemma GetTs_takes_first:
  assumes "unicast a" "t \<le> 7" "SearchAdmitTRStream d a (the (GetTs_UP d t)) s = Some None"
    and "nxt (ts_links d) (unused_head s) = n" "n \<noteq> unused_head s"
  shows "GetTs d a t s True = Some (admit_new_ts d a (the (GetTs_UP d t)) s n, Some n)"
  using assms GetTs_UP_Some[OF assms(2), of d] by (auto simp: GetTs_def unicast_def list_empty_def Let_def)

text \<open>
  The state of the receive lists in which the head of the unused list points to record 0
  while that record is on the admitted list.
\<close>

lemma rx0_stolen:
  assumes "nxt (ts_links d) Rx_TS_Unused_List = RxTs 0" "length (RxTsRecord d) = TOTAL_TS_NUM"
    and "dlist (ts_links d) Rx_TS_Admit_List [] \<and> prv (ts_links d) (RxTs 0) = RxTs 0 \<and> nxt (ts_links d) (RxTs 0) \<in> range RxTs \<or>
         dlist (ts_links d) Rx_TS_Admit_List [RxTs 0] \<and> Addr (ts_common d (RxTs 0)) \<noteq> a"
    and "unicast a" "t \<le> 7"
  obtains d' where "GetTs d a t RX_DIR True = Some (d', Some (RxTs 0))"
    "nxt (ts_links d') Rx_TS_Unused_List = RxTs 0" "length (RxTsRecord d') = TOTAL_TS_NUM"
    "dlist (ts_links d') Rx_TS_Admit_List [RxTs 0]" "Addr (ts_common d' (RxTs 0)) = a"
proof -
  let ?L = "ts_links d" and ?up = "the (GetTs_UP d t)"
  let ?d' = "admit_new_ts d a ?up RX_DIR (RxTs 0)"
  have v: "ts_valid d (RxTs 0)" using assms(2) by (simp add: ts_valid_def)
  have "SearchAdmitTRStream d a ?up RX_DIR = Some None"
    using assms(3) by (elim disjE conjE; intro search_nobody) (auto simp: admit_head_def)
  then have g: "GetTs d a t RX_DIR True = Some (?d', Some (RxTs 0))"
    using assms(1,4,5) by (intro GetTs_takes_first) (simp_all add: unused_head_def)
  have L: "ts_links ?d' = list_add_tail (RxTs 0) Rx_TS_Admit_List (list_del_init (RxTs 0) ?L)"
    by (simp add: admit_new_ts_frame admit_head_def)
  have del: "dlist (list_del_init (RxTs 0) ?L) Rx_TS_Admit_List []"
    using assms(3)
  proof
    assume a: "dlist ?L Rx_TS_Admit_List [] \<and> prv ?L (RxTs 0) = RxTs 0 \<and> nxt ?L (RxTs 0) \<in> range RxTs"
    then obtain j where j: "nxt ?L (RxTs 0) = RxTs j" by blast
    show ?thesis
    proof (rule dlist_local[of ?L])
      show "dlist ?L Rx_TS_Admit_List []" using a by (rule conjunct1)
      show "\<forall>k \<in> set [Rx_TS_Admit_List]. nxt (list_del_init (RxTs 0) ?L) k = nxt ?L k \<and>
          prv (list_del_init (RxTs 0) ?L) k = prv ?L k" using a j by (simp only: list_op_simps) simp
    qed
  next
    assume "dlist ?L Rx_TS_Admit_List [RxTs 0] \<and> Addr (ts_common d (RxTs 0)) \<noteq> a"
    then show ?thesis using dlist_del_init[of ?L Rx_TS_Admit_List "[]" "RxTs 0" "[]"] by simp
  qed
  have "RxTs 0 \<notin> set [Rx_TS_Admit_List]" by simp
  from dlist_add_tail[OF del this] have adm: "dlist (ts_links ?d') Rx_TS_Admit_List [RxTs 0]"
    unfolding L by (simp only: append_Nil)
  have pa: "prv (list_del_init (RxTs 0) ?L) Rx_TS_Admit_List = Rx_TS_Admit_List" using dlist_last[OF del] by simp
  have p0: "prv ?L (RxTs 0) \<noteq> Rx_TS_Unused_List"
    using assms(3) by (auto simp: dlist_def)
  have "nxt (list_del_init (RxTs 0) ?L) Rx_TS_Unused_List = RxTs 0" using assms(1) p0 by auto
  then have "nxt (ts_links ?d') Rx_TS_Unused_List = RxTs 0"
    unfolding L using add_tail_local[of Rx_TS_Unused_List "RxTs 0" Rx_TS_Admit_List "list_del_init (RxTs 0) ?L"] pa
    by (simp del: list_op_simps)
  then show ?thesis
    using that[OF g _ _ adm admit_new_ts_common(1)[OF v]] assms(2) by (simp add: admit_new_ts_frame)
qed

text \<open>
  C23: with the old timer interface TSInitialize sets up the transmit lists with all
  sixteen records unused, but its first loop links receive record 0 sixteen times. From
  then on every new receive stream gets record 0: a second peer takes the record of the
  first, whose stream is then gone.
\<close>

theorem TSInitialize_shares_rx_record:
  assumes "length (TxTsRecord d) = TOTAL_TS_NUM" "length (RxTsRecord d) = TOTAL_TS_NUM"
    and "unicast a" "unicast b" "a \<noteq> b" "t \<le> 7" "u \<le> 7"
  shows "\<exists>d0 d1 d2. TSInitialize False entries d = Some d0 \<and>
     ts_inv TX_DIR d0 [] [] (map TxTs [0..<TOTAL_TS_NUM]) \<and>
     GetTs d0 a t RX_DIR True = Some (d1, Some (RxTs 0)) \<and>
     GetTs d1 b u RX_DIR True = Some (d2, Some (RxTs 0)) \<and>
     GetTs d2 a t RX_DIR False = Some (d2, None)"
proof -
  obtain d0 where d0: "TSInitialize False entries d = Some d0" "rx_loop_inv TOTAL_TS_NUM d0"
    using TSInitialize_old[OF assms(1,2)] by blast
  have tx: "ts_inv TX_DIR d0 [] [] (map TxTs [0..<TOTAL_TS_NUM])"
  proof -
    have "ts_node_of TX_DIR = TxTs" by (simp add: ts_node_of_def fun_eq_iff)
    then show ?thesis
      using d0(2) by (simp add: rx_loop_inv_def ts_inv_def ts_pool_def ts_nodes_def
          admit_head_def pending_head_def unused_head_def)
  qed
  have h0: "nxt (ts_links d0) Rx_TS_Unused_List = RxTs 0" "length (RxTsRecord d0) = TOTAL_TS_NUM"
    "dlist (ts_links d0) Rx_TS_Admit_List [] \<and> prv (ts_links d0) (RxTs 0) = RxTs 0 \<and> nxt (ts_links d0) (RxTs 0) \<in> range RxTs \<or>
     dlist (ts_links d0) Rx_TS_Admit_List [RxTs 0] \<and> Addr (ts_common d0 (RxTs 0)) \<noteq> a"
    using d0(2) by (auto simp: rx_loop_inv_def)
  obtain d1 where d1: "GetTs d0 a t RX_DIR True = Some (d1, Some (RxTs 0))"
    "nxt (ts_links d1) Rx_TS_Unused_List = RxTs 0" "length (RxTsRecord d1) = TOTAL_TS_NUM"
    "dlist (ts_links d1) Rx_TS_Admit_List [RxTs 0]" "Addr (ts_common d1 (RxTs 0)) = a"
    using rx0_stolen[OF h0 assms(3,6)] by blast
  have "dlist (ts_links d1) Rx_TS_Admit_List [RxTs 0] \<and> Addr (ts_common d1 (RxTs 0)) \<noteq> b"
    using d1(4,5) assms(5) by simp
  then obtain d2 where d2: "GetTs d1 b u RX_DIR True = Some (d2, Some (RxTs 0))"
    "dlist (ts_links d2) Rx_TS_Admit_List [RxTs 0]" "Addr (ts_common d2 (RxTs 0)) = b"
    using rx0_stolen[OF d1(2,3) disjI2 assms(4,7)] by blast
  have "SearchAdmitTRStream d2 a up RX_DIR = Some None" for up
    using d2(2,3) assms(5) by (intro search_nobody[of _ _ "[RxTs 0]"]) (auto simp: admit_head_def)
  then have "GetTs d2 a t RX_DIR False = Some (d2, None)"
    using assms(3,6) GetTs_UP_Some[OF assms(6), of d2] by (auto simp: GetTs_def unicast_def)
  then show ?thesis using d0(1) tx d1(1) d2(1) by blast
qed

end
