(* ===== verification/TS_Props.thy ===== *)
theory TS_Props
  imports TS_Init
begin

text \<open>
  The properties of GetTs on a well-formed device, and the concrete device that the
  instances use.
\<close>

section \<open>GetTs keeps the whole device well formed\<close>

lemma reset_ts_ready:
  "m \<noteq> n \<Longrightarrow> ts_valid d n \<Longrightarrow> ts_valid d m \<Longrightarrow> ts_ready (reset_ts n d) m = ts_ready d m"
  by (auto simp: ts_ready_def reset_ts_def ts_valid_def node_index_def nth_list_update_if split: ts_node.splits)

lemma set_common_ready:
  "ts_valid d n \<Longrightarrow> ts_valid d m \<Longrightarrow> ts_ready (set_common f n d) m = ts_ready d m"
  by (auto simp: ts_ready_def set_common_def ts_valid_def node_index_def nth_list_update_if split: ts_node.splits)

definition pend_lists :: "ts_dev \<Rightarrow> RX_REORDER_ENTRY list list" where
  "pend_lists d = map RxPendingPktList (RxTsRecord d)"

lemma pend_lists_packets:
  "pend_lists d' = pend_lists d \<Longrightarrow> RxReorder_Unused_List d' = RxReorder_Unused_List d \<Longrightarrow> packets_ok d' = packets_ok d"
proof -
  have "packets_ok d \<longleftrightarrow> (\<forall>l \<in> set (pend_lists d). \<forall>e \<in> set l. prxb e \<noteq> None) \<and>
      length (RxReorder_Unused_List d) + sum_list (map length (pend_lists d)) \<le> REORDER_ENTRY_NUM" for d
    by (auto simp: packets_ok_def pend_lists_def entry_total_def comp_def)
  then show "pend_lists d' = pend_lists d \<Longrightarrow> RxReorder_Unused_List d' = RxReorder_Unused_List d \<Longrightarrow> packets_ok d' = packets_ok d"
    by simp
qed

lemma map_update_same: "f t = f (xs ! i) \<Longrightarrow> map f (xs[i := t]) = map f xs"
  by (cases "i < length xs") (simp_all add: map_update list_update_same_conv list_update_beyond)

lemma pend_lists_frame [simp]:
  "pend_lists (reset_ts n d) = pend_lists d" "pend_lists (set_common f n d) = pend_lists d"
  "pend_lists (d\<lparr>ts_links := L\<rparr>) = pend_lists d"
  by (auto simp: pend_lists_def reset_ts_def set_common_def ResetRxTsEntry_def map_update_same split: ts_node.split)

lemma pend_lists_admit [simp]:
  "pend_lists (admit_new_ts d a up s n) = pend_lists d"
  "RxReorder_Unused_List (admit_new_ts d a up s n) = RxReorder_Unused_List d"
  by (simp_all add: admit_new_ts_def AdmitTS_def Let_def) (simp add: set_common_def reset_ts_def split: ts_node.split)

lemma admit_new_ts_ready:
  "packets_ok d \<Longrightarrow> packets_ok (admit_new_ts d a up s n)"
  "m \<noteq> n \<Longrightarrow> ts_valid d n \<Longrightarrow> ts_valid d m \<Longrightarrow> ts_ready (admit_new_ts d a up s n) m = ts_ready d m"
  by (simp add: pend_lists_packets[of "admit_new_ts d a up s n" d])
    (simp add: admit_new_ts_def AdmitTS_def Let_def reset_ts_ready set_common_ready)

lemma ts_sys_pool: "ts_sys d A P U \<Longrightarrow> ts_pool s d (A s) (P s) (U s)"
  by (simp add: ts_sys_def ts_inv_def)

lemma ts_sys_admit:
  assumes sys: "ts_sys d A P U" and U: "U s = n # us"
    and new: "ts_inv s (admit_new_ts d a up s n) (A s @ [n]) (P s) us"
  shows "ts_sys (admit_new_ts d a up s n) (A(s := A s @ [n])) P (U(s := us))"
proof -
  let ?d = "admit_new_ts d a up s n"
  have n: "n \<in> set (A s @ P s @ U s)" using U by simp
  have v: "ts_valid d n" by (rule ts_sys_valid[OF sys n])
  have len: "length (TxTsRecord ?d) = TOTAL_TS_NUM" "length (RxTsRecord ?d) = TOTAL_TS_NUM"
    using ts_sys_pool[OF sys, of s] by (simp_all add: admit_new_ts_frame ts_pool_def)
  have nt: "n \<notin> set (A t @ P t @ U t)" if "t \<noteq> s" for t
    using ts_pool_facts(4)[OF ts_sys_pool[OF sys], of s] ts_pool_facts(4)[OF ts_sys_pool[OF sys], of t] n that
    by (cases s; cases t) (fastforce simp: ts_node_of_def)+
  have "ts_inv t ?d ((A(s := A s @ [n])) t) (P t) ((U(s := us)) t)" for t
  proof (cases "t = s")
    case False
    have p: "ts_pool t ?d (A t) (P t) (U t)"
      by (rule ts_pool_other[OF ts_sys_pool[OF sys, of s] ts_sys_pool[OF sys, of t] _ n, where h = "admit_head s"])
        (use False U len in \<open>auto simp: ts_heads_def admit_new_ts_frame\<close>)
    have c: "ts_common ?d m = ts_common d m" if "m \<in> set (A t)" for m
      using that nt[OF False] ts_sys_valid[OF sys, of m t] by (intro admit_new_ts_common(3)[OF v]) auto
    have i: "distinct (map (ts_key d) (A t))" "\<forall>m \<in> set (A t). ucDirection (TSInfo (ts_common d m)) = GetTs_Dir d t"
      using sys by (simp_all add: ts_sys_def ts_inv_def)
    have "map (ts_key ?d) (A t) = map (ts_key d) (A t)" using c by (simp add: ts_key_def)
    then have "distinct (map (ts_key ?d) (A t))" using i(1) by (simp only:)
    then show ?thesis
      using False p i(2) c by (simp add: ts_inv_def GetTs_Dir_def admit_new_ts_frame)
  qed (use new in simp)
  moreover have "ts_ready ?d m" if "m \<in> set ((U(s := us)) t)" for m t
  proof -
    have m: "m \<in> set (U t)" using that U by (auto split: if_splits)
    have "m \<noteq> n"
      using that U nt[of t] m ts_pool_facts(1)[OF ts_sys_pool[OF sys], of s] by (cases "t = s") auto
    then show ?thesis
      using admit_new_ts_ready(2)[OF _ v, of m] ts_sys_valid[OF sys, of m t] m sys by (simp add: ts_sys_def)
  qed
  moreover have "packets_ok ?d" using admit_new_ts_ready(1) sys by (simp add: ts_sys_def)
  ultimately show ?thesis by (simp add: ts_sys_def)
qed

lemma GetTs_system:
  assumes "ts_system d" "GetTs d a t s add = Some (d', r)"
  shows "ts_system d'"
proof -
  obtain A P U where sys: "ts_sys d A P U" using assms(1) by (auto simp: ts_system_def)
  then have inv: "ts_inv s d (A s) (P s) (U s)" by (simp add: ts_sys_def)
  have g: "get_stream s (a, t) add d = Some (d', r)" using assms(2) by (simp add: get_stream_def)
  show ?thesis
  proof (rule GetTs_cases[OF inv, of "(a, t)" add])
    fix k n us'
    assume "U s = n # us'" "ts_inv s (admit_new_ts d (fst k) (snd k) s n) (A s @ [n]) (P s) us'"
      and "get_stream s (a, t) add d = Some (admit_new_ts d (fst k) (snd k) s n, Some n)"
    then show ?thesis using g ts_sys_admit[OF sys] unfolding ts_system_def by (metis option.inject prod.inject)
  qed (use g assms(1) in auto)
qed

lemma ts_system_ok: "ts_system d \<Longrightarrow> ts_ok s d"
  by (auto simp: ts_system_def ts_sys_def ts_ok_def)

section \<open>A concrete device\<close>

definition ex_tx_ts :: TX_TS_RECORD where
  "ex_tx_ts = \<lparr>tx_common = ex_common, TxCurSeq = 0, TxPendingBARecord = ex_ba, TxAdmittedBARecord = ex_ba,
     bAddBaReqInProgress = False, bAddBaReqDelayed = False, bUsingBa = False, bDisable_AddBa = False,
     TsAddBaTimer = None, tx_num = 0\<rparr>"

definition ex_links :: "ts_node links" where
  "ex_links = fold (\<lambda>i L. list_add_tail (RxTs i) Rx_TS_Unused_List (list_add_tail (TxTs i) Tx_TS_Unused_List L))
     [0..<TOTAL_TS_NUM] (\<lambda>n. (n, n))"

definition ex_dev :: ts_dev where
  "ex_dev = \<lparr>skb_avail = True, iw_mode = IW_MODE_INFRA, dev_addr = [0, 1, 2, 3, 4, 5], bssid = [0, 9, 9, 9, 9, 9],
     qos_supported = 1, qos_active = 1, bHalfWirelessN24GMode = False, bCurrentHTSupport = True,
     bCurrentAMPDUEnable = True, bCurRxReorderEnable = True, IOTAction = 0, RxReorderWinSize = 64,
     RxReorderPendingTime = 30, RxReorderDropCounter = 0, TxTsRecord = replicate TOTAL_TS_NUM ex_tx_ts,
     RxTsRecord = replicate TOTAL_TS_NUM ex_rx_ts, ts_links = ex_links,
     RxReorder_Unused_List = map ex_entry [0..<128], mgmt_out = [], rx_indicated = [], rx_freed = []\<rparr>"

lemma ex_links_lists:
  "dlist ex_links Tx_TS_Unused_List (map TxTs [0..<TOTAL_TS_NUM])"
  "dlist ex_links Rx_TS_Unused_List (map RxTs [0..<TOTAL_TS_NUM])"
  "h \<in> {Tx_TS_Admit_List, Tx_TS_Pending_List, Rx_TS_Admit_List, Rx_TS_Pending_List} \<Longrightarrow> dlist ex_links h []"
proof -
  let ?f = "\<lambda>i L. list_add_tail (RxTs i) Rx_TS_Unused_List (list_add_tail (TxTs i) Tx_TS_Unused_List L)"
  let ?H = "{Tx_TS_Admit_List, Tx_TS_Pending_List, Rx_TS_Admit_List, Rx_TS_Pending_List}"
  have "dlist (fold ?f [0..<k] (\<lambda>n. (n, n))) Tx_TS_Unused_List (map TxTs [0..<k]) \<and>
      dlist (fold ?f [0..<k] (\<lambda>n. (n, n))) Rx_TS_Unused_List (map RxTs [0..<k]) \<and>
      (\<forall>h \<in> ?H. dlist (fold ?f [0..<k] (\<lambda>n. (n, n))) h [])" for k
  proof (induction k)
    case 0
    then show ?case by (simp add: dlist_def nxt_def prv_def)
  next
    case (Suc k)
    define L where "L = fold ?f [0..<k] (\<lambda>n. (n, n))"
    have t: "dlist L Tx_TS_Unused_List (map TxTs [0..<k])" and r: "dlist L Rx_TS_Unused_List (map RxTs [0..<k])"
      and h: "\<forall>h \<in> ?H. dlist L h []" using Suc by (simp_all add: L_def)
    let ?M = "list_add_tail (TxTs k) Tx_TS_Unused_List L"
    have t1: "dlist ?M Tx_TS_Unused_List (map TxTs [0..<k] @ [TxTs k])" by (rule dlist_add_tail[OF t]) auto
    have r1: "dlist ?M Rx_TS_Unused_List (map RxTs [0..<k])" by (rule dlist_add_tail_frame[OF t r]) auto
    have h1: "dlist ?M h []" if "h \<in> ?H" for h by (rule dlist_add_tail_frame[OF t bspec[OF h that]]) (use that in auto)
    have "dlist (?f k L) Rx_TS_Unused_List (map RxTs [0..<k] @ [RxTs k])" by (rule dlist_add_tail[OF r1]) auto
    moreover have "dlist (?f k L) Tx_TS_Unused_List (map TxTs [0..<k] @ [TxTs k])"
      by (rule dlist_add_tail_frame[OF r1 t1]) auto
    moreover have "dlist (?f k L) h []" if "h \<in> ?H" for h
      by (rule dlist_add_tail_frame[OF r1 h1[OF that]]) (use that in auto)
    moreover have "fold ?f [0..<Suc k] (\<lambda>n. (n, n)) = ?f k L" by (simp add: L_def)
    ultimately show ?case by (simp del: fold_simps list_op_simps)
  qed
  from this[of TOTAL_TS_NUM] show "dlist ex_links Tx_TS_Unused_List (map TxTs [0..<TOTAL_TS_NUM])"
    "dlist ex_links Rx_TS_Unused_List (map RxTs [0..<TOTAL_TS_NUM])" "h \<in> ?H \<Longrightarrow> dlist ex_links h []"
    unfolding ex_links_def by blast+
qed

lemma ex_dev_inv: "ts_inv s ex_dev [] [] (ts_nodes s)"
proof -
  have n: "ts_node_of TX_DIR = TxTs" "ts_node_of RX_DIR = RxTs" by (auto simp: ts_node_of_def)
  show ?thesis
    using ex_links_lists n
    by (cases s) (simp_all add: ts_inv_def ts_pool_def ts_nodes_def ex_dev_def admit_head_def pending_head_def unused_head_def del: upt_rec_numeral)
qed

lemma ex_dev_system: "ts_system ex_dev"
proof -
  let ?E = "\<lambda>s :: TR_SELECT. [] :: ts_node list"
  have n: "ts_node_of TX_DIR = TxTs" "ts_node_of RX_DIR = RxTs" by (auto simp: ts_node_of_def)
  note ex_dev_inv
  moreover have "ts_ready ex_dev m" if "m \<in> set (ts_nodes s)" for m s
  proof -
    obtain i where "i < TOTAL_TS_NUM" "m = ts_node_of s i" using \<open>m \<in> set (ts_nodes s)\<close>
      by (auto simp: ts_nodes_def simp del: upt_rec_numeral)
    then show ?thesis
      by (cases s) (simp_all add: n ts_ready_def ex_dev_def ex_rx_ts_def ex_tx_ts_def ex_ba_def node_index_def)
  qed
  moreover have "packets_ok ex_dev" by (simp add: packets_ok_def entry_total_def ex_dev_def ex_rx_ts_def sum_list_replicate)
  ultimately have "ts_sys ex_dev ?E ?E ts_nodes" by (simp add: ts_sys_def)
  then show ?thesis by (auto simp: ts_system_def)
qed

section \<open>Properties of GetTs\<close>

text \<open>
  C10: on a well-formed device GetTs returns and keeps the device well formed. It refuses
  broadcast and multicast peers and invalid priorities, and without a matching stream when
  none may be added or none is unused, leaving the device alone; otherwise it returns the
  stream of the peer and priority, a new one being a record that no other key has, and
  changes the table at this key only.
\<close>

theorem GetTs_spec:
  assumes "ts_system d"
  shows "\<exists>d' r. GetTs d a t s add = Some (d', r) \<and> ts_system d' \<and>
     (case r of
        None \<Rightarrow> d' = d \<and> (stream_key d (a, t) = None \<or>
          (\<exists>k. stream_key d (a, t) = Some k \<and> stream_table s d k = None \<and>
               (\<not> add \<or> list_empty (ts_links d) (unused_head s))))
      | Some n \<Rightarrow> \<exists>k. stream_key d (a, t) = Some k \<and> stream_table s d' = (stream_table s d)(k \<mapsto> n) \<and>
          (if stream_table s d k = None then add \<and> n \<notin> ran (stream_table s d) else d' = d))"
proof -
  obtain A P U where sys: "ts_sys d A P U" using assms by (auto simp: ts_system_def)
  then have inv: "ts_inv s d (A s) (P s) (U s)" by (simp add: ts_sys_def)
  have emp: "list_empty (ts_links d) (unused_head s) \<longleftrightarrow> U s = []"
    using ts_sys_pool[OF sys, of s] by (intro dlist_empty_iff) (simp add: ts_pool_def)
  have ran: "ran (stream_table s d) \<subseteq> set (A s)"
    using inv by (auto simp: ran_def ts_sys_table[OF sys] ts_inv_def ts_tbl_Some)
  have sysd: "GetTs d a t s add = Some (d', r) \<Longrightarrow> ts_system d'" for d' r by (rule GetTs_system[OF assms])
  show ?thesis
  proof (rule GetTs_cases[OF inv, of "(a, t)" add])
    fix k n us'
    assume "add" "stream_key d (a, t) = Some k" "stream_table s d k = None" "n \<notin> set (A s)"
      "get_stream s (a, t) add d = Some (admit_new_ts d (fst k) (snd k) s n, Some n)"
      "stream_table s (admit_new_ts d (fst k) (snd k) s n) = (stream_table s d)(k \<mapsto> n)"
    then show ?thesis
      using ran sysd by (intro exI[of _ "admit_new_ts d (fst k) (snd k) s n"] exI[of _ "Some n"]) (auto simp: get_stream_def)
  qed (use emp assms sysd in \<open>auto simp: get_stream_def fun_upd_idem\<close>)
qed

definition ex_peer :: mac where "ex_peer = [0, 7, 7, 7, 7, 7]"
definition ex_peer2 :: mac where "ex_peer2 = [0, 8, 8, 8, 8, 8]"

lemma ex_peer_unicast: "unicast ex_peer" "unicast ex_peer2"
  by code_simp+

lemma ex_dev_empty: "stream_table s ex_dev k = None"
  by (simp add: stream_table_def ts_inv_admitted[OF ex_dev_inv] ts_tbl_def)

lemma ex_dev_key: "stream_key ex_dev (ex_peer, 0) = Some (ex_peer, 0)"
  using ex_peer_unicast by (simp add: stream_key_def GetTs_UP_def UP_of_TID_def)

lemma ex_dev_GetTs:
  "GetTs ex_dev ex_peer 0 s True = Some (admit_new_ts ex_dev ex_peer 0 s (ts_node_of s 0), Some (ts_node_of s 0))"
proof -
  have "ts_nodes s = ts_node_of s 0 # map (ts_node_of s) [1..<TOTAL_TS_NUM]"
    by (simp add: ts_nodes_def upt_conv_Cons)
  then have "ts_inv s ex_dev [] [] (ts_node_of s 0 # map (ts_node_of s) [1..<TOTAL_TS_NUM])"
    using ex_dev_inv[of s] by (simp only:)
  then show ?thesis
    by (rule GetTs_new(1)) (simp_all add: ex_peer_unicast GetTs_UP_def UP_of_TID_def ts_tbl_def)
qed

theorem GetTs_spec_witness:
  "\<exists>d'. GetTs ex_dev ex_peer 0 TX_DIR True = Some (d', Some (TxTs 0)) \<and> ts_system d' \<and>
     stream_table TX_DIR d' (ex_peer, 0) = Some (TxTs 0)"
  using GetTs_spec[OF ex_dev_system, of ex_peer 0 TX_DIR True] ex_dev_GetTs[of TX_DIR] ex_dev_key
  by (auto simp: ts_node_of_def)

text \<open>
  once GetTs has returned a stream, every later call for the same peer and priority
  returns the same record, whatever other calls come between; and calls that differ in
  the peer or in the priority class return different records.
\<close>

theorem GetTs_stable:
  assumes "ts_system d" "GetTs d a t s add = Some (d1, Some n)"
    and "crun (get_step (get_stream s)) cs d1 = Some d2"
  shows "GetTs d2 a t s add' = Some (d2, Some n) \<and>
    (\<forall>b u d3 m. GetTs d2 b u s add' = Some (d3, Some m) \<and> stream_key d (b, u) \<noteq> stream_key d (a, t) \<longrightarrow> m \<noteq> n)"
proof -
  have ok: "ts_ok s d" by (rule ts_system_ok[OF assms(1)])
  have g: "get_stream s (a, t) add d = Some (d1, Some n)" using assms(2) by (simp add: get_stream_def)
  have "GetTs d2 a t s add' = Some (d2, Some n)"
    using streams.get_again[OF ok g assms(3)] by (simp add: get_stream_def)
  moreover have "m \<noteq> n" if "GetTs d2 b u s add' = Some (d3, Some m)" "stream_key d (b, u) \<noteq> stream_key d (a, t)" for b u d3 m
    using streams.get_distinct[OF ok g assms(3), of "(b, u)" add' d3 m] that by (auto simp: get_stream_def)
  ultimately show ?thesis by blast
qed

theorem GetTs_stable_witness:
  "\<exists>d1 d2. GetTs ex_dev ex_peer 0 TX_DIR True = Some (d1, Some (TxTs 0)) \<and>
     crun (get_step (get_stream TX_DIR)) [((ex_peer2, 5), True), ((ex_peer, 6), True)] d1 = Some d2 \<and>
     GetTs d2 ex_peer 0 TX_DIR False = Some (d2, Some (TxTs 0))"
proof -
  let ?d1 = "admit_new_ts ex_dev ex_peer 0 TX_DIR (TxTs 0)"
  have g: "GetTs ex_dev ex_peer 0 TX_DIR True = Some (?d1, Some (TxTs 0))"
    using ex_dev_GetTs[of TX_DIR] by (simp add: ts_node_of_def)
  have "ts_ok TX_DIR ?d1" using GetTs_system[OF ex_dev_system g] by (rule ts_system_ok)
  from streams.run_total[OF this, of "[((ex_peer2, 5), True), ((ex_peer, 6), True)]"] obtain d2
    where "crun (get_step (get_stream TX_DIR)) [((ex_peer2, 5), True), ((ex_peer, 6), True)] ?d1 = Some d2" by blast
  then show ?thesis using GetTs_stable[OF ex_dev_system g] g by blast
qed

text \<open>
  a new receive stream starts at its reset: nothing is pending, the window is unset
  and the pending timer is off, so that the reordering theorems apply to it.
\<close>

theorem GetTs_new_rx_fresh:
  assumes "ts_system d" "GetTs d a t RX_DIR True = Some (d', Some n)"
    and "stream_key d (a, t) = Some k" "stream_table RX_DIR d k = None"
  shows "reorder_fresh ((reorder_view d' (node_index n))\<lparr>ro_out := []\<rparr>)"
proof -
  obtain A P U where sys: "ts_sys d A P U" using assms(1) by (auto simp: ts_system_def)
  then have inv: "ts_inv RX_DIR d (A RX_DIR) (P RX_DIR) (U RX_DIR)" by (simp add: ts_sys_def)
  obtain us where U: "U RX_DIR = n # us" and d': "d' = admit_new_ts d (fst k) (snd k) RX_DIR n"
    using assms(2-4) by (cases rule: GetTs_cases[OF inv, of "(a, t)" True]) (auto simp: get_stream_def)
  have "n \<in> set (U RX_DIR)" using U by simp
  then have "ts_ready d n" "ts_valid d n"
    using sys ts_sys_valid[OF sys, of n RX_DIR] by (auto simp: ts_sys_def)
  moreover obtain i where "n = RxTs i" using ts_pool_facts(4)[OF ts_sys_pool[OF sys], of RX_DIR] U
    by (auto simp: ts_node_of_def)
  ultimately show ?thesis
    by (simp add: d' admit_new_ts_def AdmitTS_def set_common_def reset_ts_def Let_def reorder_fresh_def reorder_view_def
        node_index_def ts_ready_def ts_valid_def ResetRxTsEntry_def)
qed

theorem GetTs_new_rx_fresh_witness:
  "reorder_fresh ((reorder_view (admit_new_ts ex_dev ex_peer 0 RX_DIR (RxTs 0)) 0)\<lparr>ro_out := []\<rparr>)"
  using GetTs_new_rx_fresh[OF ex_dev_system, of ex_peer 0 "admit_new_ts ex_dev ex_peer 0 RX_DIR (RxTs 0)" "RxTs 0"]
    ex_dev_GetTs[of RX_DIR] ex_dev_key ex_dev_empty by (simp add: ts_node_of_def node_index_def)

text \<open>Instances of the properties of the theories before.\<close>

theorem RemovePeerTS_spec_witness:
  "\<exists>d'. RemovePeerTS ex_peer (admit_new_ts ex_dev ex_peer 0 RX_DIR (RxTs 0)) = Some d' \<and>
     ts_system d' \<and> stream_table RX_DIR d' (ex_peer, 0) = None"
proof -
  have "GetTs ex_dev ex_peer 0 RX_DIR True = Some (admit_new_ts ex_dev ex_peer 0 RX_DIR (RxTs 0), Some (RxTs 0))"
    using ex_dev_GetTs[of RX_DIR] by (simp add: ts_node_of_def)
  from RemovePeerTS_spec[OF GetTs_system[OF ex_dev_system this], of ex_peer] show ?thesis by auto
qed

theorem RemoveAllTS_spec_witness:
  "\<exists>d'. RemoveAllTS (admit_new_ts ex_dev ex_peer 0 RX_DIR (RxTs 0)) = Some d' \<and>
     ts_system d' \<and> stream_table RX_DIR d' (ex_peer, 0) = None"
proof -
  have "GetTs ex_dev ex_peer 0 RX_DIR True = Some (admit_new_ts ex_dev ex_peer 0 RX_DIR (RxTs 0), Some (RxTs 0))"
    using ex_dev_GetTs[of RX_DIR] by (simp add: ts_node_of_def)
  from RemoveAllTS_spec[OF GetTs_system[OF ex_dev_system this]] show ?thesis by auto
qed

theorem TSInitialize_new_timers_fault_witness: "TSInitialize True [] ex_dev = None"
  by (rule TSInitialize_new_timers_fault) (simp_all add: ex_dev_def)

theorem TSInitialize_shares_rx_record_witness:
  "\<exists>d0 d1 d2. TSInitialize False [] ex_dev = Some d0 \<and>
     GetTs d0 ex_peer 0 RX_DIR True = Some (d1, Some (RxTs 0)) \<and>
     GetTs d1 ex_peer2 0 RX_DIR True = Some (d2, Some (RxTs 0)) \<and>
     GetTs d2 ex_peer 0 RX_DIR False = Some (d2, None)"
  using TSInitialize_shares_rx_record[of ex_dev ex_peer ex_peer2 0 0 "[]"] ex_peer_unicast
  by (auto simp: ex_dev_def ex_peer_def ex_peer2_def)

end
