(* ===== verification/Frame.thy ===== *)
theory Frame
  imports Prelude
begin

text \<open>
  The frame control field of 802.11 frames and the header lengths that src/src/rtllib.h
  derives from it.
\<close>

abbreviation (input) RTLLIB_1ADDR_LEN :: nat where "RTLLIB_1ADDR_LEN \<equiv> 10"
abbreviation (input) RTLLIB_2ADDR_LEN :: nat where "RTLLIB_2ADDR_LEN \<equiv> 16"
abbreviation (input) RTLLIB_3ADDR_LEN :: nat where "RTLLIB_3ADDR_LEN \<equiv> 24"
abbreviation (input) RTLLIB_4ADDR_LEN :: nat where "RTLLIB_4ADDR_LEN \<equiv> 30"

definition WLAN_FC_GET_TYPE :: "u16 \<Rightarrow> u16" where "WLAN_FC_GET_TYPE fc = fc AND 0x000c"
definition WLAN_FC_GET_STYPE :: "u16 \<Rightarrow> u16" where "WLAN_FC_GET_STYPE fc = fc AND 0x00f0"
definition WLAN_GET_SEQ_FRAG :: "u16 \<Rightarrow> u16" where "WLAN_GET_SEQ_FRAG seq = seq AND 0x000F"
definition WLAN_GET_SEQ_SEQ :: "u16 \<Rightarrow> u16" where "WLAN_GET_SEQ_SEQ seq = drop_bit 4 (seq AND 0xFFF0)"

text \<open>
  The mask leaves out bit 6, so that QoS data and QoS null frames pass, but frames with
  an acknowledgement or a poll in the subtype do not.
\<close>

definition RTLLIB_QOS_HAS_SEQ :: "u16 \<Rightarrow> bool" where
  "RTLLIB_QOS_HAS_SEQ fc \<longleftrightarrow> fc AND 0x00BC = 0x0088"

definition rtllib_get_hdrlen :: "u16 \<Rightarrow> nat" where
  "rtllib_get_hdrlen fc =
     (if WLAN_FC_GET_TYPE fc = 0x0008 then
        (if fc AND 0x0200 \<noteq> 0 \<and> fc AND 0x0100 \<noteq> 0 then RTLLIB_4ADDR_LEN else RTLLIB_3ADDR_LEN)
        + (if RTLLIB_QOS_HAS_SEQ fc then 2 else 0)
      else if WLAN_FC_GET_TYPE fc = 0x0004 then
        (if WLAN_FC_GET_STYPE fc = 0x00C0 \<or> WLAN_FC_GET_STYPE fc = 0x00D0 then RTLLIB_1ADDR_LEN
         else RTLLIB_2ADDR_LEN)
      else RTLLIB_3ADDR_LEN)"

text \<open>The offset of the payload; None is the null pointer.\<close>

definition rtllib_get_payload :: "u16 \<Rightarrow> nat option" where
  "rtllib_get_payload fc =
     (let n = rtllib_get_hdrlen fc
      in if n = RTLLIB_1ADDR_LEN \<or> n = RTLLIB_2ADDR_LEN \<or> n = RTLLIB_3ADDR_LEN \<or> n = RTLLIB_4ADDR_LEN
         then Some n else None)"

lemma rtllib_get_hdrlen_range: "rtllib_get_hdrlen fc \<in> {10, 16, 24, 26, 30, 32}"
  by (simp add: rtllib_get_hdrlen_def)

end
