(* ===== verification/BA_Rx.thy ===== *)
theory BA_Rx
  imports TS_Props Frame
begin

text \<open>
  The handlers of received block ack frames in src/src/rtl819x_BAProc.c and their
  dispatch in src/src/rtllib_softmac.c. A buffer is read at the offsets that the code
  computes; the pointer arithmetic of two of them is on whole headers, so they lie far
  behind the frame. The outer None is a fault or a walk that does not end.
\<close>

section \<open>The handlers\<close>

definition ba_refused :: "ts_dev \<Rightarrow> bool" where
  "ba_refused d \<longleftrightarrow> qos_active d = 0 \<or> \<not> bCurrentHTSupport d \<or> IOTAction d AND 0x00001000 \<noteq> 0"

text \<open>
  The record of the failure path lives on the stack and its starting sequence number is
  never set; the response does not contain it.
\<close>

definition ADDBAReq_Fail :: "mac \<Rightarrow> u16 \<Rightarrow> u16 \<Rightarrow> u8 \<Rightarrow> u16 \<Rightarrow> ts_dev \<Rightarrow> ts_dev" where
  "ADDBAReq_Fail dst ps tmo dt rc =
     rtllib_send_ADDBARsp dst \<lparr>ba_Timer = None, bValid = False, DialogToken = dt,
       BaParamSet = set_BAPolicy BA_POLICY_IMMEDIATE ps, BaTimeoutValue = tmo, BaStartSeqCtrl = 0\<rparr> rc"

definition accept_ADDBAReq :: "ts_dev \<Rightarrow> u16 \<Rightarrow> u16 \<Rightarrow> u8 \<Rightarrow> u16 \<Rightarrow> BA_RECORD \<Rightarrow> BA_RECORD" where
  "accept_ADDBAReq d ps tmo dt ssc pBA =
     ActivateBAEntry
       ((DeActivateBAEntry pBA)\<lparr>DialogToken := dt,
          BaParamSet := set_BufferSize
            (if bHalfWirelessN24GMode d \<or> IOTAction d AND 0x00002000 \<noteq> 0 then 1 else 32) ps,
          BaTimeoutValue := tmo, BaStartSeqCtrl := ssc\<rparr>) 0"

definition rtllib_rx_ADDBAReq :: "ts_dev \<Rightarrow> skb \<Rightarrow> (ts_dev \<times> int) option" where
  "rtllib_rx_ADDBAReq d skb =
     (if sk_len skb < 24 + 9 then Some (d, -1)
      else do {
        dst \<leftarrow> rdn skb 10 6;
        dt \<leftarrow> rd8 skb (24 + 2);
        ps \<leftarrow> rd16 skb (24 + 3);
        tmo \<leftarrow> rd16 skb (24 + 5);
        if ba_refused d then Some (ADDBAReq_Fail dst ps tmo dt ADDBA_STATUS_REFUSED d, 0)
        else case GetTs d dst (ucast (get_TID ps)) RX_DIR True of
          None \<Rightarrow> None
        | Some (d1, None) \<Rightarrow> Some (ADDBAReq_Fail dst ps tmo dt ADDBA_STATUS_REFUSED d1, 0)
        | Some (d1, Some n) \<Rightarrow>
            if get_BAPolicy ps = BA_POLICY_DELAYED
            then Some (ADDBAReq_Fail dst ps tmo dt ADDBA_STATUS_INVALID_PARAM d1, 0)
            else do {
              ssc \<leftarrow> rd16 skb (7 * 24);
              let i = node_index n;
              let pBA = accept_ADDBAReq d1 ps tmo dt ssc (RxAdmittedBARecord (RxTsRecord d1 ! i));
              Some (rtllib_send_ADDBARsp dst pBA ADDBA_STATUS_SUCCESS
                      (upd_rx i (\<lambda>t. t\<lparr>RxAdmittedBARecord := pBA\<rparr>) d1), 0) } })"

definition ADDBARsp_Reject :: "mac \<Rightarrow> u16 \<Rightarrow> u16 \<Rightarrow> ts_dev \<Rightarrow> ts_dev" where
  "ADDBARsp_Reject dst ps ReasonCode =
     rtllib_send_DELBA dst \<lparr>ba_Timer = None, bValid = False, DialogToken = 0, BaParamSet = ps,
       BaTimeoutValue = 0, BaStartSeqCtrl = 0\<rparr> TX_DIR ReasonCode"

text \<open>What the response does to the record of the stream, and the reason to reject it.\<close>

datatype rsp_result = RSP_ADMITTED | RSP_DROPPED | RSP_REJECTED u16

definition ADDBARsp_record :: "u8 \<Rightarrow> u16 \<Rightarrow> u16 \<Rightarrow> u16 \<Rightarrow> TX_TS_RECORD \<Rightarrow> TX_TS_RECORD \<times> rsp_result" where
  "ADDBARsp_record dt status ps tmo t0 =
     (let t1 = t0\<lparr>bAddBaReqInProgress := False\<rparr>
      in if bValid (TxAdmittedBARecord t1) then (t1, RSP_DROPPED)
         else if \<not> bValid (TxPendingBARecord t1) \<or> dt \<noteq> DialogToken (TxPendingBARecord t1)
         then (t1, RSP_REJECTED DELBA_REASON_UNKNOWN_BA)
         else
           let t2 = t1\<lparr>TxPendingBARecord := DeActivateBAEntry (TxPendingBARecord t1)\<rparr>
           in if status = ADDBA_STATUS_SUCCESS then
                if get_BAPolicy ps = BA_POLICY_DELAYED then
                  (t2\<lparr>bAddBaReqDelayed := True, TxAdmittedBARecord := DeActivateBAEntry (TxAdmittedBARecord t2)\<rparr>,
                   RSP_REJECTED DELBA_REASON_END_BA)
                else
                  (t2\<lparr>TxAdmittedBARecord := ActivateBAEntry
                      (DeActivateBAEntry ((TxAdmittedBARecord t2)\<lparr>DialogToken := dt, BaTimeoutValue := tmo,
                         BaStartSeqCtrl := BaStartSeqCtrl (TxPendingBARecord t2), BaParamSet := ps\<rparr>)) tmo\<rparr>,
                   RSP_ADMITTED)
              else (t2\<lparr>bAddBaReqDelayed := True, bDisable_AddBa := True\<rparr>, RSP_REJECTED DELBA_REASON_END_BA))"

definition rtllib_rx_ADDBARsp :: "ts_dev \<Rightarrow> skb \<Rightarrow> (ts_dev \<times> int) option" where
  "rtllib_rx_ADDBARsp d skb =
     (if sk_len skb < 24 + 9 then Some (d, -1)
      else do {
        dst \<leftarrow> rdn skb 10 6;
        dt \<leftarrow> rd8 skb (24 + 2);
        status \<leftarrow> rd16 skb (24 + 3);
        ps \<leftarrow> rd16 skb (24 + 5);
        tmo \<leftarrow> rd16 skb (24 + 7);
        if qos_active d = 0 \<or> \<not> bCurrentHTSupport d \<or> \<not> bCurrentAMPDUEnable d
        then Some (ADDBARsp_Reject dst ps DELBA_REASON_UNKNOWN_BA d, 0)
        else case GetTs d dst (ucast (get_TID ps)) TX_DIR False of
          None \<Rightarrow> None
        | Some (d1, None) \<Rightarrow> Some (ADDBARsp_Reject dst ps DELBA_REASON_UNKNOWN_BA d1, 0)
        | Some (d1, Some n) \<Rightarrow>
            (case ADDBARsp_record dt status ps tmo (TxTsRecord d1 ! node_index n) of
               (t, r) \<Rightarrow>
                 let d2 = upd_tx (node_index n) (\<lambda>_. t) d1
                 in case r of
                      RSP_DROPPED \<Rightarrow> Some (d2, -1)
                    | RSP_ADMITTED \<Rightarrow> Some (d2, 0)
                    | RSP_REJECTED ReasonCode \<Rightarrow> Some (ADDBARsp_Reject dst ps ReasonCode d2, 0)) })"

text \<open>
  The parameter field is read two headers behind a pointer that was moved by a header's
  length of headers: at offset \<open>24 * 24 + 2 * 24\<close>.
\<close>

definition rtllib_rx_DELBA :: "ts_dev \<Rightarrow> skb \<Rightarrow> (ts_dev \<times> int) option" where
  "rtllib_rx_DELBA d skb =
     (if sk_len skb < 24 + 6 then Some (d, -1)
      else if qos_active d = 0 \<or> \<not> bCurrentHTSupport d then Some (d, -1)
      else do {
        dst \<leftarrow> rdn skb 10 6;
        ps \<leftarrow> rd16 skb (24 * 24 + 2 * 24);
        if get_Initiator ps = 1 then
          case GetTs d dst (ucast (get_DelbaTID ps)) RX_DIR False of
            None \<Rightarrow> None
          | Some (d1, None) \<Rightarrow> Some (d1, -1)
          | Some (d1, Some n) \<Rightarrow> Some (upd_rx (node_index n) (\<lambda>t. fst (RxTsDeleteBA t)) d1, 0)
        else
          case GetTs d dst (ucast (get_DelbaTID ps)) TX_DIR False of
            None \<Rightarrow> None
          | Some (d1, None) \<Rightarrow> Some (d1, -1)
          | Some (d1, Some n) \<Rightarrow>
              Some (upd_tx (node_index n) (\<lambda>t. fst (TxTsDeleteBA
                (t\<lparr>bUsingBa := False, bAddBaReqInProgress := False, bAddBaReqDelayed := False,
                   TsAddBaTimer := None\<rparr>))) d1, 0) })"

definition rtllib_process_action :: "ts_dev \<Rightarrow> skb \<Rightarrow> ts_dev option" where
  "rtllib_process_action d skb =
     do { fc \<leftarrow> rd16 skb 0;
          case rtllib_get_payload fc of
            None \<Rightarrow> Some d
          | Some off \<Rightarrow> do {
              category \<leftarrow> rd8 skb off;
              if category \<noteq> ACT_CAT_BA then Some d
              else do {
                act \<leftarrow> rd8 skb (off + 1);
                if act = ACT_ADDBAREQ then map_option fst (rtllib_rx_ADDBAReq d skb)
                else if act = ACT_ADDBARSP then map_option fst (rtllib_rx_ADDBARsp d skb)
                else if act = ACT_DELBA then map_option fst (rtllib_rx_DELBA d skb)
                else Some d } } }"

end
