(* ===== verification/BA_Props.thy ===== *)
theory BA_Props
  imports BA_Rx
begin

text \<open>
  What the block ack handlers achieve: the handshake between two devices that run this
  code, and what the DELBA handler really looks at.
\<close>

section \<open>Frames on the air\<close>

text \<open>
  A frame as the receiver sees it: the header with the duration and sequence control that
  the transmit path filled in, the body, and the rest of the receive buffer.
\<close>

definition act_skb :: "act_frame \<Rightarrow> u16 \<Rightarrow> u16 \<Rightarrow> u8 list \<Rightarrow> skb" where
  "act_skb f dur seq slack =
     \<lparr>sk_mem = (put16 (af_frame_ctl f) @ put16 dur @ af_addr1 f @ af_addr2 f @ af_addr3 f @ put16 seq) @ af_body f @ slack,
      sk_len = 24 + length (af_body f)\<rparr>"

definition af_ok :: "act_frame \<Rightarrow> bool" where
  "af_ok f \<longleftrightarrow> length (af_addr1 f) = 6 \<and> length (af_addr2 f) = 6 \<and> length (af_addr3 f) = 6"

lemma act_skb_len [simp]: "sk_len (act_skb f dur seq slack) = 24 + length (af_body f)"
  by (simp add: act_skb_def)

lemma act_skb_mem_length: "af_ok f \<Longrightarrow> length (sk_mem (act_skb f dur seq slack)) = 24 + length (af_body f) + length slack"
  by (simp add: act_skb_def af_ok_def)

lemma act_skb_body_nth:
  "af_ok f \<Longrightarrow> k < length (af_body f) \<Longrightarrow> sk_mem (act_skb f dur seq slack) ! (24 + k) = af_body f ! k"
  by (simp add: act_skb_def af_ok_def nth_append)

lemma act_skb_addr2: "af_ok f \<Longrightarrow> rdn (act_skb f dur seq slack) 10 6 = Some (af_addr2 f)"
  by (simp add: act_skb_def af_ok_def rdn_def put16_def)

lemma act_skb_rd8: "af_ok f \<Longrightarrow> k < length (af_body f) \<Longrightarrow> rd8 (act_skb f dur seq slack) (24 + k) = Some (af_body f ! k)"
  using act_skb_body_nth by (simp add: rd8_def act_skb_mem_length)

lemma act_skb_rd16:
  assumes "af_ok f" "Suc k < length (af_body f)"
  shows "rd16 (act_skb f dur seq slack) (24 + k) = Some (le16 (af_body f ! k) (af_body f ! Suc k))"
proof -
  have "rd8 (act_skb f dur seq slack) (Suc (24 + k)) = Some (af_body f ! Suc k)"
    using act_skb_rd8[OF assms] by (simp only: add_Suc_right)
  moreover have "rd8 (act_skb f dur seq slack) (24 + k) = Some (af_body f ! k)"
    using assms by (intro act_skb_rd8) simp_all
  ultimately show ?thesis by (simp only: rd16_def Option.bind.simps)
qed

lemma act_skb_rd16_Some:
  "af_ok f \<Longrightarrow> Suc i < 24 + length (af_body f) + length slack \<Longrightarrow> \<exists>v. rd16 (act_skb f dur seq slack) i = Some v"
  using act_skb_mem_length[of f dur seq slack] by (simp add: rd16_inside)

lemma le16_put16': "le16 (ucast w) (ucast (drop_bit 8 w)) = w"
  using le16_put16[of w] by (simp add: put16_def)

text \<open>What the handlers read from a request and from a response.\<close>

lemma ADDBAReq_fields:
  assumes "rtllib_ADDBA d dst b st ACT_ADDBAREQ = Some f" "length dst = 6" "length (dev_addr d) = 6" "length (bssid d) = 6"
  shows "af_ok f" "length (af_body f) = 9"
    and "rdn (act_skb f dur seq slack) 10 6 = Some (dev_addr d)"
    and "rd8 (act_skb f dur seq slack) (24 + 2) = Some (DialogToken b)"
    and "rd16 (act_skb f dur seq slack) (24 + 3) = Some (BaParamSet b)"
    and "rd16 (act_skb f dur seq slack) (24 + 5) = Some (BaTimeoutValue b)"
proof -
  show ok: "af_ok f" and len: "length (af_body f) = 9"
    using assms by (auto simp: rtllib_ADDBA_def af_ok_def split: if_splits)
  have f: "af_addr2 f = dev_addr d" "af_body f ! 2 = DialogToken b"
    "af_body f ! 3 = ucast (BaParamSet b)" "af_body f ! 4 = ucast (drop_bit 8 (BaParamSet b))"
    "af_body f ! 5 = ucast (BaTimeoutValue b)" "af_body f ! 6 = ucast (drop_bit 8 (BaTimeoutValue b))"
    using assms(1) by (auto simp: rtllib_ADDBA_def put16_def split: if_splits)
  show "rdn (act_skb f dur seq slack) 10 6 = Some (dev_addr d)"
    "rd8 (act_skb f dur seq slack) (24 + 2) = Some (DialogToken b)"
    "rd16 (act_skb f dur seq slack) (24 + 3) = Some (BaParamSet b)"
    "rd16 (act_skb f dur seq slack) (24 + 5) = Some (BaTimeoutValue b)"
    using ok len f act_skb_addr2[OF ok] act_skb_rd8[OF ok, of 2] act_skb_rd16[OF ok, of 3] act_skb_rd16[OF ok, of 5]
    by (simp_all add: le16_put16')
qed

lemma ADDBARsp_fields:
  assumes "rtllib_ADDBA d dst b st ACT_ADDBARSP = Some f" "length dst = 6" "length (dev_addr d) = 6" "length (bssid d) = 6"
  shows "af_ok f" "length (af_body f) = 9"
    and "rdn (act_skb f dur seq slack) 10 6 = Some (dev_addr d)"
    and "rd8 (act_skb f dur seq slack) (24 + 2) = Some (DialogToken b)"
    and "rd16 (act_skb f dur seq slack) (24 + 3) = Some st"
    and "rd16 (act_skb f dur seq slack) (24 + 5) = Some (BaParamSet b)"
    and "rd16 (act_skb f dur seq slack) (24 + 7) = Some (BaTimeoutValue b)"
proof -
  show ok: "af_ok f" and len: "length (af_body f) = 9"
    using assms by (auto simp: rtllib_ADDBA_def af_ok_def split: if_splits)
  have f: "af_addr2 f = dev_addr d" "af_body f ! 2 = DialogToken b"
    "af_body f ! 3 = ucast st" "af_body f ! 4 = ucast (drop_bit 8 st)"
    "af_body f ! 5 = ucast (BaParamSet b)" "af_body f ! 6 = ucast (drop_bit 8 (BaParamSet b))"
    "af_body f ! 7 = ucast (BaTimeoutValue b)" "af_body f ! 8 = ucast (drop_bit 8 (BaTimeoutValue b))"
    using assms(1) by (auto simp: rtllib_ADDBA_def put16_def split: if_splits)
  show "rdn (act_skb f dur seq slack) 10 6 = Some (dev_addr d)"
    "rd8 (act_skb f dur seq slack) (24 + 2) = Some (DialogToken b)"
    "rd16 (act_skb f dur seq slack) (24 + 3) = Some st"
    "rd16 (act_skb f dur seq slack) (24 + 5) = Some (BaParamSet b)"
    "rd16 (act_skb f dur seq slack) (24 + 7) = Some (BaTimeoutValue b)"
    using ok len f act_skb_addr2[OF ok] act_skb_rd8[OF ok, of 2] act_skb_rd16[OF ok, of 3] act_skb_rd16[OF ok, of 5]
      act_skb_rd16[OF ok, of 7]
    by (simp_all add: le16_put16')
qed

section \<open>Changes that keep the streams\<close>

lemma ts_sys_local:
  assumes sys: "ts_sys d A P U" and ss: "same_streams d d'" and L: "ts_links d' = ts_links d"
    and "packets_ok d'" "\<forall>s. \<forall>n \<in> set (U s). ts_ready d' n"
  shows "ts_sys d' A P U"
proof -
  have "ts_inv s d' (A s) (P s) (U s)" for s
  proof (rule ts_inv_same[OF ss ts_sys_pool[OF sys, of s]])
    show "ts_pool s d' (A s) (P s) (U s)"
      using ts_sys_pool[OF sys, of s] ss L by (simp add: ts_pool_def same_streams_def)
  qed (use sys in \<open>auto simp: ts_sys_def ts_inv_def\<close>)
  then show ?thesis using assms(4,5) by (simp add: ts_sys_def)
qed

lemma stream_table_same:
  assumes "ts_sys d A P U" "ts_sys d' A P U" "same_streams d d'"
  shows "stream_table s d' = stream_table s d"
proof -
  have "ts_key d' n = ts_key d n" if "n \<in> set (A s)" for n
    using that ts_sys_valid[OF assms(1), of n s] same_streams_key[OF assms(3)] by simp
  then have "map (\<lambda>n. (ts_key d' n, n)) (A s) = map (\<lambda>n. (ts_key d n, n)) (A s)" by simp
  then show ?thesis by (simp only: ts_sys_table[OF assms(1)] ts_sys_table[OF assms(2)] ts_tbl_def)
qed

text \<open>A stream in the table is admitted, so it is not on an unused list.\<close>

lemma ts_sys_admitted:
  assumes "ts_sys d A P U" "stream_table s d k = Some n"
  shows "n \<in> set (A s)" "ts_key d n = k" "ts_valid d n" "\<And>t. n \<notin> set (U t)" "\<exists>i < TOTAL_TS_NUM. n = ts_node_of s i"
proof -
  have "ts_inv s d (A s) (P s) (U s)" using assms(1) by (simp add: ts_sys_def)
  then show A: "n \<in> set (A s)" and "ts_key d n = k"
    using assms(2) by (auto simp: ts_sys_table[OF assms(1)] ts_inv_def ts_tbl_Some)
  show "ts_valid d n" using A ts_sys_valid[OF assms(1), of n s] by simp
  show i: "\<exists>i < TOTAL_TS_NUM. n = ts_node_of s i" using A ts_pool_facts(4)[OF ts_sys_pool[OF assms(1)], of s] by auto
  show "n \<notin> set (U t)" for t
  proof (cases "t = s")
    case True
    then show ?thesis using A ts_pool_facts(1)[OF ts_sys_pool[OF assms(1)], of s] by auto
  next
    case False
    then show ?thesis
      using i ts_pool_facts(4)[OF ts_sys_pool[OF assms(1)], of t] by (cases s; cases t) (fastforce simp: ts_node_of_def)+
  qed
qed

lemma ts_ready_other:
  "TxTsRecord d' = (TxTsRecord d)[i := t] \<Longrightarrow> RxTsRecord d' = RxTsRecord d \<Longrightarrow> ts_valid d m \<Longrightarrow> m \<noteq> TxTs i \<Longrightarrow> ts_ready d' m = ts_ready d m"
  "RxTsRecord d' = (RxTsRecord d)[i := u] \<Longrightarrow> TxTsRecord d' = TxTsRecord d \<Longrightarrow> ts_valid d m \<Longrightarrow> m \<noteq> RxTs i \<Longrightarrow> ts_ready d' m = ts_ready d m"
  by (auto simp: ts_ready_def ts_valid_def node_index_def nth_list_update_if split: ts_node.splits)

lemma ts_sys_records:
  assumes "ts_sys d A P U" "TxTsRecord d' = TxTsRecord d" "RxTsRecord d' = RxTsRecord d" "ts_links d' = ts_links d"
    "iw_mode d' = iw_mode d" "qos_supported d' = qos_supported d" "RxReorder_Unused_List d' = RxReorder_Unused_List d"
  shows "ts_sys d' A P U"
proof -
  have c: "ts_common d' n = ts_common d n" "ts_ready d' n = ts_ready d n" for n
    by (simp_all add: ts_common_def ts_ready_def assms(2,3) split: ts_node.split)
  show ?thesis
    by (rule ts_sys_local[OF assms(1)]) (use assms c in \<open>simp_all add: same_streams_def packets_ok_def entry_total_def ts_sys_def\<close>)
qed

lemma ts_sys_tx_update:
  assumes sys: "ts_sys d A P U" and k: "stream_table TX_DIR d k = Some (TxTs i)"
    and d': "TxTsRecord d' = (TxTsRecord d)[i := t]" "RxTsRecord d' = RxTsRecord d" "ts_links d' = ts_links d"
      "iw_mode d' = iw_mode d" "qos_supported d' = qos_supported d" "RxReorder_Unused_List d' = RxReorder_Unused_List d"
    and t: "Addr (tx_common t) = Addr (tx_common (TxTsRecord d ! i))" "TSInfo (tx_common t) = TSInfo (tx_common (TxTsRecord d ! i))"
  shows "ts_sys d' A P U" "stream_table s d' = stream_table s d"
proof -
  note adm = ts_sys_admitted[OF sys k]
  have i: "i < length (TxTsRecord d)" using adm(3) by (simp add: ts_valid_def)
  have ss: "same_streams d d'"
    using i d' t by (auto simp: same_streams_def ts_common_def ts_valid_def node_index_def nth_list_update_if split: ts_node.splits)
  have po: "packets_ok d'" using sys d'(2,6) by (simp add: ts_sys_def packets_ok_def entry_total_def)
  have rdy: "ts_ready d' m" if m: "m \<in> set (U s)" for s m
  proof -
    have "ts_valid d m" using ts_sys_valid[OF sys, of m s] m by simp
    moreover have "m \<noteq> TxTs i" using adm(4)[of s] m by metis
    ultimately show ?thesis using ts_ready_other(1)[OF d'(1,2)] sys m by (simp add: ts_sys_def)
  qed
  show s': "ts_sys d' A P U" using ts_sys_local[OF sys ss d'(3) po] rdy by blast
  show "stream_table s d' = stream_table s d" by (rule stream_table_same[OF sys s' ss])
qed

lemma ts_sys_rx_update:
  assumes sys: "ts_sys d A P U" and k: "stream_table RX_DIR d k = Some (RxTs i)"
    and d': "RxTsRecord d' = (RxTsRecord d)[i := t]" "TxTsRecord d' = TxTsRecord d" "ts_links d' = ts_links d"
      "iw_mode d' = iw_mode d" "qos_supported d' = qos_supported d" "RxReorder_Unused_List d' = RxReorder_Unused_List d"
    and t: "Addr (rx_common t) = Addr (rx_common (RxTsRecord d ! i))" "TSInfo (rx_common t) = TSInfo (rx_common (RxTsRecord d ! i))"
      "RxPendingPktList t = RxPendingPktList (RxTsRecord d ! i)"
  shows "ts_sys d' A P U" "stream_table s d' = stream_table s d"
proof -
  note adm = ts_sys_admitted[OF sys k]
  have i: "i < length (RxTsRecord d)" using adm(3) by (simp add: ts_valid_def)
  have ss: "same_streams d d'"
    using i d' t by (auto simp: same_streams_def ts_common_def ts_valid_def node_index_def nth_list_update_if split: ts_node.splits)
  have "pend_lists d' = pend_lists d" using d'(1) t(3) by (simp add: pend_lists_def map_update_same)
  then have po: "packets_ok d'" using pend_lists_packets[of d' d] d'(6) sys by (simp add: ts_sys_def)
  have rdy: "ts_ready d' m" if m: "m \<in> set (U s)" for s m
  proof -
    have "ts_valid d m" using ts_sys_valid[OF sys, of m s] m by simp
    moreover have "m \<noteq> RxTs i" using adm(4)[of s] m by metis
    ultimately show ?thesis using ts_ready_other(2)[OF d'(1,2)] sys m by (simp add: ts_sys_def)
  qed
  show s': "ts_sys d' A P U" using ts_sys_local[OF sys ss d'(3) po] rdy by blast
  show "stream_table s d' = stream_table s d" by (rule stream_table_same[OF sys s' ss])
qed

lemma admit_new_ts_env [simp]:
  "mgmt_out (admit_new_ts d a up s n) = mgmt_out d" "skb_avail (admit_new_ts d a up s n) = skb_avail d"
  "dev_addr (admit_new_ts d a up s n) = dev_addr d" "bssid (admit_new_ts d a up s n) = bssid d"
  "qos_active (admit_new_ts d a up s n) = qos_active d" "IOTAction (admit_new_ts d a up s n) = IOTAction d"
  "bHalfWirelessN24GMode (admit_new_ts d a up s n) = bHalfWirelessN24GMode d"
  "bCurrentHTSupport (admit_new_ts d a up s n) = bCurrentHTSupport d"
  "bCurrentAMPDUEnable (admit_new_ts d a up s n) = bCurrentAMPDUEnable d"
  by (simp_all add: admit_new_ts_def AdmitTS_def set_common_def reset_ts_def Let_def split: ts_node.split)

text \<open>A call of GetTs that finds or adds a stream.\<close>

lemma GetTs_found:
  assumes sys: "ts_system d" and k: "stream_key d (a, t) = Some k"
    and "stream_table s d k \<noteq> None \<or> add \<and> \<not> list_empty (ts_links d) (unused_head s)"
  obtains d' n where "GetTs d a t s add = Some (d', Some n)" "ts_system d'" "stream_table s d' k = Some n"
    "d' = d \<or> (\<exists>up. d' = admit_new_ts d (fst k) up s n)"
proof -
  obtain A P U where S: "ts_sys d A P U" using sys by (auto simp: ts_system_def)
  then have inv: "ts_inv s d (A s) (P s) (U s)" by (simp add: ts_sys_def)
  have emp: "list_empty (ts_links d) (unused_head s) \<longleftrightarrow> U s = []"
    using ts_sys_pool[OF S, of s] by (intro dlist_empty_iff) (simp add: ts_pool_def)
  have "\<exists>d' n. GetTs d a t s add = Some (d', Some n) \<and> stream_table s d' k = Some n \<and>
      (d' = d \<or> (\<exists>up. d' = admit_new_ts d (fst k) up s n))"
    by (rule GetTs_cases[OF inv, of "(a, t)" add]) (use assms(2,3) emp in \<open>auto simp: get_stream_def\<close>)
  then show ?thesis using that GetTs_system[OF sys] by blast
qed

section \<open>The handshake\<close>

definition ba_capable :: "ts_dev \<Rightarrow> bool" where
  "ba_capable d \<longleftrightarrow> qos_active d \<noteq> 0 \<and> qos_supported d \<noteq> 0 \<and> bCurrentHTSupport d \<and> bCurrentAMPDUEnable d \<and>
     IOTAction d AND 0x00001000 = 0 \<and> skb_avail d \<and> length (dev_addr d) = 6 \<and> length (bssid d) = 6 \<and>
     unicast (dev_addr d)"

lemma rx_ADDBAReq_accept:
  assumes "33 \<le> sk_len skb" "rdn skb 10 6 = Some dst" "rd8 skb (24 + 2) = Some dt" "rd16 skb (24 + 3) = Some ps"
    "rd16 skb (24 + 5) = Some tmo" "\<not> ba_refused d" "GetTs d dst (ucast (get_TID ps)) RX_DIR True = Some (d1, Some (RxTs j))"
    "get_BAPolicy ps \<noteq> 0" "rd16 skb (7 * 24) = Some ssc"
  shows "rtllib_rx_ADDBAReq d skb =
    (let pBA = accept_ADDBAReq d1 ps tmo dt ssc (RxAdmittedBARecord (RxTsRecord d1 ! j))
     in Some (rtllib_send_ADDBARsp dst pBA 0 (upd_rx j (\<lambda>t. t\<lparr>RxAdmittedBARecord := pBA\<rparr>) d1), 0))"
  using assms by (simp add: rtllib_rx_ADDBAReq_def node_index_def Let_def del: rd8_Some)

lemma rx_ADDBARsp_admit:
  assumes "33 \<le> sk_len skb" "rdn skb 10 6 = Some dst" "rd8 skb (24 + 2) = Some dt" "rd16 skb (24 + 3) = Some 0"
    "rd16 skb (24 + 5) = Some ps" "rd16 skb (24 + 7) = Some tmo" "ba_capable d"
    "GetTs d dst (ucast (get_TID ps)) TX_DIR False = Some (d, Some (TxTs i))" "get_BAPolicy ps \<noteq> 0"
    "bValid (TxPendingBARecord (TxTsRecord d ! i))" "DialogToken (TxPendingBARecord (TxTsRecord d ! i)) = dt"
    "\<not> bValid (TxAdmittedBARecord (TxTsRecord d ! i))"
  shows "rtllib_rx_ADDBARsp d skb = Some (upd_tx i (\<lambda>_. fst (ADDBARsp_record dt 0 ps tmo (TxTsRecord d ! i))) d, 0)"
proof -
  have "snd (ADDBARsp_record dt 0 ps tmo (TxTsRecord d ! i)) = RSP_ADMITTED"
    using assms(9-12) by (simp add: ADDBARsp_record_def Let_def)
  then obtain t where r: "ADDBARsp_record dt 0 ps tmo (TxTsRecord d ! i) = (t, RSP_ADMITTED)"
    by (cases "ADDBARsp_record dt 0 ps tmo (TxTsRecord d ! i)") auto
  show ?thesis
    using assms(1-8) r by (simp add: rtllib_rx_ADDBARsp_def ba_capable_def node_index_def Let_def del: rd8_Some)
qed

lemma take_4_up: "up \<in> {0, 2, 5, 7} \<Longrightarrow> take_bit 4 (ucast (up :: u8) :: u16) = ucast up \<and> ucast (ucast up :: u16) = up \<and> UP_of_TID up = up \<and> up \<le> 7"
  by (elim insertE emptyE) (simp_all add: UP_of_TID_def)

lemma rtllib_ADDBA_cong:
  "skb_avail d' = skb_avail d \<Longrightarrow> dev_addr d' = dev_addr d \<Longrightarrow> bssid d' = bssid d \<Longrightarrow>
     rtllib_ADDBA d' dst b st ty = rtllib_ADDBA d dst b st ty"
  by (simp add: rtllib_ADDBA_def)

lemma rtllib_ADDBA_avail: "skb_avail d \<Longrightarrow> \<exists>f. rtllib_ADDBA d dst b st ty = Some f"
  by (simp add: rtllib_ADDBA_def)

text \<open>The opening side sends a request.\<close>

lemma TsInitAddBA_request:
  assumes "ba_capable A" "up \<in> {0, 2, 5, 7}" "ts_key A (TxTs i) = (peer, up)"
    and "\<not> bValid (TxPendingBARecord (TxTsRecord A ! i))"
  obtains pBA req where "rtllib_ADDBA A peer pBA 0 ACT_ADDBAREQ = Some req"
    "TsInitAddBA A i 1 False = (upd_tx i (\<lambda>t. t\<lparr>TxPendingBARecord := pBA\<rparr>) A)\<lparr>mgmt_out := mgmt_out A @ [req]\<rparr>"
    "bValid pBA" "get_TID (BaParamSet pBA) = ucast up" "get_BAPolicy (BaParamSet pBA) = 1"
proof -
  have key: "Addr (tx_common (TxTsRecord A ! i)) = peer" "ucTSID (TSInfo (tx_common (TxTsRecord A ! i))) = up"
    using assms(3) by (auto simp: ts_key_def ts_common_def node_index_def)
  let ?b = "init_pending_BA (TxTsRecord A ! i) 1"
  obtain req where req: "rtllib_ADDBA A peer ?b 0 ACT_ADDBAREQ = Some req"
    using assms(1) rtllib_ADDBA_avail by (fastforce simp: ba_capable_def)
  then have "rtllib_ADDBA (upd_tx i (\<lambda>t. t\<lparr>TxPendingBARecord := ?b\<rparr>) A) peer ?b 0 ACT_ADDBAREQ = Some req"
    by (subst rtllib_ADDBA_cong[of _ A]) simp_all
  then have "TsInitAddBA A i 1 False = (upd_tx i (\<lambda>t. t\<lparr>TxPendingBARecord := ?b\<rparr>) A)\<lparr>mgmt_out := mgmt_out A @ [req]\<rparr>"
    using assms(4) by (simp add: TsInitAddBA_def Let_def rtllib_send_ADDBAReq_def key mgmt_xmit_def)
  then show ?thesis
    using that[OF req] take_4_up[OF assms(2)]
    by (simp add: init_pending_BA_def Let_def ActivateBAEntry_def key)
qed

text \<open>The peer answers it.\<close>

lemma ADDBAReq_answered:
  assumes "ts_system B" "ba_capable B" "up \<in> {0, 2, 5, 7}" "unicast dst"
    and rd: "33 \<le> sk_len skb" "rdn skb 10 6 = Some dst" "rd8 skb (24 + 2) = Some dt" "rd16 skb (24 + 3) = Some ps"
      "rd16 skb (24 + 5) = Some tmo" "rd16 skb (7 * 24) = Some ssc"
    and ps: "get_TID ps = ucast up" "get_BAPolicy ps = 1"
    and room: "stream_table RX_DIR B (dst, up) \<noteq> None \<or> \<not> list_empty (ts_links B) (unused_head RX_DIR)"
  obtains B1 rsp rBA j where "rtllib_rx_ADDBAReq B skb = Some (B1, 0)" "mgmt_out B1 = mgmt_out B @ [rsp]"
    "rtllib_ADDBA B dst rBA 0 ACT_ADDBARSP = Some rsp" "stream_table RX_DIR B1 (dst, up) = Some (RxTs j)"
    "RxAdmittedBARecord (RxTsRecord B1 ! j) = rBA" "bValid rBA" "DialogToken rBA = dt"
    "get_TID (BaParamSet rBA) = ucast up" "get_BAPolicy (BaParamSet rBA) = 1"
proof -
  note up4 = take_4_up[OF assms(3)]
  have "stream_key B (dst, up) = Some (dst, up)"
    using assms(2,4) up4 by (simp add: stream_key_def ba_capable_def GetTs_UP_def)
  then obtain d1 n where g: "GetTs B dst up RX_DIR True = Some (d1, Some n)" "ts_system d1"
    "stream_table RX_DIR d1 (dst, up) = Some n" "d1 = B \<or> (\<exists>u. d1 = admit_new_ts B dst u RX_DIR n)"
    using GetTs_found[OF assms(1), of dst up "(dst, up)" RX_DIR True] room by auto
  obtain BA BP BU where SB: "ts_sys d1 BA BP BU" using g(2) by (auto simp: ts_system_def)
  obtain j where j: "n = RxTs j" "j < length (RxTsRecord d1)"
    using ts_sys_admitted(3,5)[OF SB g(3)] by (auto simp: ts_node_of_def ts_valid_def)
  define rBA where "rBA = accept_ADDBAReq d1 ps tmo dt ssc (RxAdmittedBARecord (RxTsRecord d1 ! j))"
  define B0 where "B0 = upd_rx j (\<lambda>t. t\<lparr>RxAdmittedBARecord := rBA\<rparr>) d1"
  have env: "skb_avail B0 = skb_avail B" "dev_addr B0 = dev_addr B" "bssid B0 = bssid B" "mgmt_out B0 = mgmt_out B"
    using g(4) by (auto simp: B0_def)
  obtain rsp where rsp: "rtllib_ADDBA B dst rBA 0 ACT_ADDBARSP = Some rsp"
    using assms(2) rtllib_ADDBA_avail by (fastforce simp: ba_capable_def)
  have send: "rtllib_send_ADDBARsp dst rBA 0 B0 = B0\<lparr>mgmt_out := mgmt_out B @ [rsp]\<rparr>"
    using rsp env by (simp add: rtllib_send_ADDBARsp_def mgmt_xmit_def rtllib_ADDBA_cong[OF env(1-3)])
  have accept: "rtllib_rx_ADDBAReq B skb = Some (B0\<lparr>mgmt_out := mgmt_out B @ [rsp]\<rparr>, 0)"
    using rx_ADDBAReq_accept[OF rd(1-5) _ _ _ rd(6), of B d1 j] g(1) j(1) assms(2) ps up4 send
    by (simp add: ba_refused_def ba_capable_def Let_def B0_def rBA_def)
  have "stream_table RX_DIR (B0\<lparr>mgmt_out := mgmt_out B @ [rsp]\<rparr>) = stream_table RX_DIR d1"
    by (rule ts_sys_rx_update(2)[OF SB g(3)[unfolded j(1)], of _ "(RxTsRecord d1 ! j)\<lparr>RxAdmittedBARecord := rBA\<rparr>"])
      (simp_all add: B0_def)
  then have tab: "stream_table RX_DIR (B0\<lparr>mgmt_out := mgmt_out B @ [rsp]\<rparr>) (dst, up) = Some (RxTs j)" using g(3) j(1) by simp
  have rec: "RxAdmittedBARecord (RxTsRecord (B0\<lparr>mgmt_out := mgmt_out B @ [rsp]\<rparr>) ! j) = rBA" using j(2) by (simp add: B0_def)
  show ?thesis
    by (rule that[OF accept _ rsp tab rec]) (use ps in \<open>simp_all add: rBA_def accept_ADDBAReq_def ActivateBAEntry_def\<close>)
qed

text \<open>The opening side takes the answer.\<close>

lemma ADDBARsp_admitted:
  assumes "ts_system A" "ba_capable A" "up \<in> {0, 2, 5, 7}" "unicast dst"
    and k: "stream_table TX_DIR A (dst, up) = Some (TxTs i)"
    and "bValid (TxPendingBARecord (TxTsRecord A ! i))" "DialogToken (TxPendingBARecord (TxTsRecord A ! i)) = dt"
    and "\<not> bValid (TxAdmittedBARecord (TxTsRecord A ! i))"
    and rd: "33 \<le> sk_len skb" "rdn skb 10 6 = Some dst" "rd8 skb (24 + 2) = Some dt" "rd16 skb (24 + 3) = Some 0"
      "rd16 skb (24 + 5) = Some ps" "rd16 skb (24 + 7) = Some tmo"
    and ps: "get_TID ps = ucast up" "get_BAPolicy ps = 1"
  obtains A2 where "rtllib_rx_ADDBARsp A skb = Some (A2, 0)"
    "bValid (TxAdmittedBARecord (TxTsRecord A2 ! i))" "DialogToken (TxAdmittedBARecord (TxTsRecord A2 ! i)) = dt"
    "BaParamSet (TxAdmittedBARecord (TxTsRecord A2 ! i)) = ps" "\<not> bValid (TxPendingBARecord (TxTsRecord A2 ! i))"
proof -
  note up4 = take_4_up[OF assms(3)]
  let ?t = "fst (ADDBARsp_record dt 0 ps tmo (TxTsRecord A ! i))"
  have "stream_key A (dst, up) = Some (dst, up)"
    using assms(2,4) up4 by (simp add: stream_key_def ba_capable_def GetTs_UP_def)
  from streams.get_hit[OF ts_system_ok[OF assms(1)] this k, of False]
  have "GetTs A dst (ucast (get_TID ps)) TX_DIR False = Some (A, Some (TxTs i))"
    using ps(1) up4 by (simp add: get_stream_def)
  from rx_ADDBARsp_admit[OF rd assms(2) this _ assms(6,7,8)] ps(2)
  have r: "rtllib_rx_ADDBARsp A skb = Some (upd_tx i (\<lambda>_. ?t) A, 0)" by simp
  obtain AA AP AU where SA: "ts_sys A AA AP AU" using assms(1) by (auto simp: ts_system_def)
  have "i < length (TxTsRecord A)" using ts_sys_admitted(3)[OF SA k] by (simp add: ts_valid_def)
  then have "TxTsRecord (upd_tx i (\<lambda>_. ?t) A) ! i = ?t" by simp
  then show ?thesis
    using that[OF r] assms(6-8) ps(2)
    by (simp add: ADDBARsp_record_def ActivateBAEntry_def DeActivateBAEntry_def Let_def)
qed

text \<open>
  C3: the block ack handshake. A device that opens an agreement on an admitted stream
  sends a request which a capable peer accepts; the peer's response makes the agreement
  valid on the opening side. Afterwards both sides hold valid records of the stream with
  the same dialog token and the same parameters, for the priority of the stream, and the
  opening side has no request pending.
\<close>

theorem ADDBA_handshake:
  assumes "ts_system A" "ts_system B" "ba_capable A" "ba_capable B" and up: "up \<in> {0, 2, 5, 7}"
    and k: "stream_table TX_DIR A (dev_addr B, up) = Some (TxTs i)"
    and "\<not> bValid (TxPendingBARecord (TxTsRecord A ! i))" "\<not> bValid (TxAdmittedBARecord (TxTsRecord A ! i))"
    and room: "stream_table RX_DIR B (dev_addr A, up) \<noteq> None \<or> \<not> list_empty (ts_links B) (unused_head RX_DIR)"
    and slack: "137 \<le> length slack"
  shows "\<exists>req B1 rsp A2 j.
    mgmt_out (TsInitAddBA A i 1 False) = mgmt_out A @ [req] \<and>
    rtllib_rx_ADDBAReq B (act_skb req dur seq slack) = Some (B1, 0) \<and> mgmt_out B1 = mgmt_out B @ [rsp] \<and>
    rtllib_rx_ADDBARsp (TsInitAddBA A i 1 False) (act_skb rsp dur' seq' slack') = Some (A2, 0) \<and>
    stream_table RX_DIR B1 (dev_addr A, up) = Some (RxTs j) \<and>
    (let tx = TxAdmittedBARecord (TxTsRecord A2 ! i); rx = RxAdmittedBARecord (RxTsRecord B1 ! j)
     in bValid tx \<and> bValid rx \<and> DialogToken tx = DialogToken rx \<and> BaParamSet tx = BaParamSet rx \<and>
        get_TID (BaParamSet tx) = ucast up \<and> \<not> bValid (TxPendingBARecord (TxTsRecord A2 ! i)))"
proof -
  obtain AA AP AU where SA: "ts_sys A AA AP AU" using assms(1) by (auto simp: ts_system_def)
  note admA = ts_sys_admitted[OF SA k]
  have iA: "i < length (TxTsRecord A)" using admA(3) by (simp add: ts_valid_def)
  have len: "length (dev_addr A) = 6" "length (bssid A) = 6" "length (dev_addr B) = 6" "length (bssid B) = 6"
    and uni: "unicast (dev_addr A)" "unicast (dev_addr B)"
    using assms(3,4) by (simp_all add: ba_capable_def)
  obtain pBA req where req: "rtllib_ADDBA A (dev_addr B) pBA 0 ACT_ADDBAREQ = Some req"
    and A1: "TsInitAddBA A i 1 False = (upd_tx i (\<lambda>t. t\<lparr>TxPendingBARecord := pBA\<rparr>) A)\<lparr>mgmt_out := mgmt_out A @ [req]\<rparr>"
    and pb: "bValid pBA" "get_TID (BaParamSet pBA) = ucast up" "get_BAPolicy (BaParamSet pBA) = 1"
    using TsInitAddBA_request[OF assms(3) up admA(2) assms(7)] by blast
  note F = ADDBAReq_fields[OF req len(3,1,2)]
  obtain ssc where ssc: "rd16 (act_skb req dur seq slack) (7 * 24) = Some ssc"
    using act_skb_rd16_Some[OF F(1), of "7 * 24" slack dur seq] F(2) slack by auto
  have "33 \<le> sk_len (act_skb req dur seq slack)" using F(2) by simp
  from ADDBAReq_answered[OF assms(2,4) up uni(1) this F(3-6) ssc pb(2,3) room]
  obtain B1 rsp rBA j where B: "rtllib_rx_ADDBAReq B (act_skb req dur seq slack) = Some (B1, 0)"
    "mgmt_out B1 = mgmt_out B @ [rsp]" "rtllib_ADDBA B (dev_addr A) rBA 0 ACT_ADDBARSP = Some rsp"
    "stream_table RX_DIR B1 (dev_addr A, up) = Some (RxTs j)" "RxAdmittedBARecord (RxTsRecord B1 ! j) = rBA"
    "bValid rBA" "DialogToken rBA = DialogToken pBA" "get_TID (BaParamSet rBA) = ucast up" "get_BAPolicy (BaParamSet rBA) = 1"
    by blast
  note G = ADDBARsp_fields[OF B(3) len(1,3,4)]
  let ?A1 = "TsInitAddBA A i 1 False"
  have tsA: "ts_sys ?A1 AA AP AU" "stream_table TX_DIR ?A1 = stream_table TX_DIR A"
    by (rule ts_sys_tx_update[OF SA k, of _ "(TxTsRecord A ! i)\<lparr>TxPendingBARecord := pBA\<rparr>"]; simp add: A1)+
  have sysA: "ts_system ?A1" using tsA(1) by (auto simp: ts_system_def)
  have capA: "ba_capable ?A1" using assms(3) by (simp add: A1 ba_capable_def)
  have recA: "TxTsRecord ?A1 ! i = (TxTsRecord A ! i)\<lparr>TxPendingBARecord := pBA\<rparr>" using iA by (simp add: A1)
  have lr: "33 \<le> sk_len (act_skb rsp dur' seq' slack')" using G(2) by simp
  have kA: "stream_table TX_DIR ?A1 (dev_addr B, up) = Some (TxTs i)" using k tsA(2) by simp
  have pend: "bValid (TxPendingBARecord (TxTsRecord ?A1 ! i))"
    "DialogToken (TxPendingBARecord (TxTsRecord ?A1 ! i)) = DialogToken rBA"
    "\<not> bValid (TxAdmittedBARecord (TxTsRecord ?A1 ! i))"
    using recA pb(1) B(7) assms(8) by simp_all
  from ADDBARsp_admitted[OF sysA capA up uni(2) kA pend lr G(3-7) B(8,9)]
  obtain A2 where "rtllib_rx_ADDBARsp ?A1 (act_skb rsp dur' seq' slack') = Some (A2, 0)"
    "bValid (TxAdmittedBARecord (TxTsRecord A2 ! i))" "DialogToken (TxAdmittedBARecord (TxTsRecord A2 ! i)) = DialogToken rBA"
    "BaParamSet (TxAdmittedBARecord (TxTsRecord A2 ! i)) = BaParamSet rBA" "\<not> bValid (TxPendingBARecord (TxTsRecord A2 ! i))"
    by blast
  then show ?thesis
    using B A1 by (intro exI[of _ req] exI[of _ B1] exI[of _ rsp] exI[of _ A2] exI[of _ j]) (simp add: Let_def)
qed

definition ex_devB :: ts_dev where
  "ex_devB = ex_dev\<lparr>dev_addr := ex_peer\<rparr>"

definition ex_devA :: ts_dev where
  "ex_devA = admit_new_ts ex_dev ex_peer 0 TX_DIR (TxTs 0)"

lemma ex_devB_system: "ts_system ex_devB"
proof -
  obtain A P U where "ts_sys ex_dev A P U" using ex_dev_system by (auto simp: ts_system_def)
  then have "ts_sys ex_devB A P U"
    by (rule ts_sys_records) (simp_all add: ex_devB_def)
  then show ?thesis by (auto simp: ts_system_def)
qed

lemma ex_devA_GetTs: "GetTs ex_dev ex_peer 0 TX_DIR True = Some (ex_devA, Some (TxTs 0))"
  using ex_dev_GetTs[of TX_DIR] by (simp add: ts_node_of_def ex_devA_def)

lemma ex_devA_system: "ts_system ex_devA"
  by (rule GetTs_system[OF ex_dev_system ex_devA_GetTs])

lemma ex_devA_table: "stream_table TX_DIR ex_devA (ex_peer, 0) = Some (TxTs 0)"
  using streams.get_key[OF ts_system_ok[OF ex_dev_system], of TX_DIR "(ex_peer, 0)" True ex_devA "TxTs 0"] ex_devA_GetTs ex_dev_key
  by (simp add: get_stream_def)

lemma ex_self_unicast: "unicast [0, 1, 2, 3, 4, 5]"
  by code_simp

lemma ex_dev_capable: "ba_capable ex_devA" "ba_capable ex_devB"
  using ex_self_unicast ex_peer_unicast(1)
  by (simp_all add: ba_capable_def ex_devA_def ex_devB_def admit_new_ts_frame ex_dev_def) (simp_all add: ex_peer_def)

lemma ex_dev_records:
  "\<not> bValid (TxPendingBARecord (TxTsRecord ex_devA ! 0))" "\<not> bValid (TxAdmittedBARecord (TxTsRecord ex_devA ! 0))"
  by (simp_all add: ex_devA_def admit_new_ts_def AdmitTS_def set_common_def reset_ts_def Let_def node_index_def
      ResetTxTsEntry_def ResetBaEntry_def ex_dev_def)

lemma ex_devB_room: "\<not> list_empty (ts_links ex_devB) (unused_head RX_DIR)"
  using dlist_first[OF ex_links_lists(2)]
  by (simp add: list_empty_def ex_devB_def ex_dev_def unused_head_def upt_conv_Cons)

theorem ADDBA_handshake_witness:
  "\<exists>req B1 rsp A2 j.
    rtllib_rx_ADDBAReq ex_devB (act_skb req 0 0 (replicate 200 0)) = Some (B1, 0) \<and>
    rtllib_rx_ADDBARsp (TsInitAddBA ex_devA 0 1 False) (act_skb rsp 0 0 []) = Some (A2, 0) \<and>
    bValid (TxAdmittedBARecord (TxTsRecord A2 ! 0)) \<and> bValid (RxAdmittedBARecord (RxTsRecord B1 ! j)) \<and>
    BaParamSet (TxAdmittedBARecord (TxTsRecord A2 ! 0)) = BaParamSet (RxAdmittedBARecord (RxTsRecord B1 ! j))"
proof -
  have k: "stream_table TX_DIR ex_devA (dev_addr ex_devB, 0) = Some (TxTs 0)"
    using ex_devA_table by (simp add: ex_devB_def)
  have "(0 :: u8) \<in> {0, 2, 5, 7}" "137 \<le> length (replicate 200 (0 :: u8))" by simp_all
  from ADDBA_handshake[OF ex_devA_system ex_devB_system ex_dev_capable this(1) k ex_dev_records disjI2[OF ex_devB_room] this(2),
      of 0 0 0 0 "[]"]
  show ?thesis by (simp only: Let_def) blast
qed

section \<open>What the DELBA handler looks at\<close>

text \<open>
  the DELBA handler ignores the parameters of the frame it handles. Two frames from
  the same sender, whatever initiator, priority and reason they name, have the same effect
  when the receive buffers hold the same bytes behind them.
\<close>

theorem rtllib_rx_DELBA_ignores_frame:
  assumes "af_ok f" "af_ok g" "af_addr2 f = af_addr2 g" "length (af_body f) = 6" "length (af_body g) = 6"
  shows "rtllib_rx_DELBA d (act_skb f dur seq slack) = rtllib_rx_DELBA d (act_skb g dur' seq' slack)"
proof -
  have mem: "sk_mem (act_skb f dur seq slack) ! (30 + k) = sk_mem (act_skb g dur' seq' slack) ! (30 + k)" for k
    using assms by (simp add: act_skb_def af_ok_def nth_append)
  have len: "length (sk_mem (act_skb f dur seq slack)) = length (sk_mem (act_skb g dur' seq' slack))"
    using assms by (simp add: act_skb_mem_length)
  have "rd16 (act_skb f dur seq slack) (24 * 24 + 2 * 24) = rd16 (act_skb g dur' seq' slack) (24 * 24 + 2 * 24)"
    using mem[of 594] mem[of 595] len by (simp add: rd16_def rd8_def)
  then show ?thesis
    using assms act_skb_addr2[OF assms(1)] act_skb_addr2[OF assms(2)]
    by (simp add: rtllib_rx_DELBA_def cong: option.case_cong)
qed

definition ex_delba :: "u8 list \<Rightarrow> act_frame" where
  "ex_delba body = \<lparr>af_frame_ctl = 0xD0, af_addr1 = [0, 1, 2, 3, 4, 5], af_addr2 = ex_peer, af_addr3 = ex_peer, af_body = body\<rparr>"

theorem rtllib_rx_DELBA_ignores_frame_witness:
  "rtllib_rx_DELBA ex_devA (act_skb (ex_delba [3, 2, 0, 0x58, 37, 0]) 0 0 (replicate 600 0)) =
   rtllib_rx_DELBA ex_devA (act_skb (ex_delba [3, 2, 0, 0x00, 39, 0]) 0 0 (replicate 600 0))"
  by (rule rtllib_rx_DELBA_ignores_frame) (simp_all add: ex_delba_def af_ok_def ex_peer_def)

end
