(* ===== verification/Rx_Data.thy ===== *)
theory Rx_Data
  imports TS_Props Frame
begin

text \<open>
  The receive path of src/src/rtllib_rx.c for data frames: duplicate detection, the
  fragment cache, the A-MSDU parser, the conversion to Ethernet frames and \<open>rtllib_rx\<close>
  itself, up to the hand-over to the network stack. The decryption operations are the
  function pointers of the code, here functions in a record; the kernel's time and
  allocation are fields of the device.
\<close>

section \<open>State\<close>

text \<open>
  An entry of the fragment cache; the buffer None is the null pointer.
\<close>

record rtllib_frag_entry =
  first_frag_time :: u64
  fe_seq :: nat
  last_frag :: nat
  fe_skb :: "skb option"
  src_addr :: mac
  dst_addr :: mac

record ieee_ibss_seq =
  ibss_mac :: mac
  seq_num :: "u16 list"
  frag_num :: "u16 list"
  packet_time :: "u64 list"

text \<open>
  A key of the host encryption: the two decryption operations of its algorithm on its
  private data. The result is the frame, the private data and the return value.
\<close>

record 'k crypt_data =
  decrypt_mpdu :: "(skb \<Rightarrow> nat \<Rightarrow> 'k \<Rightarrow> skb \<times> 'k \<times> int) option"
  decrypt_msdu :: "(skb \<Rightarrow> int \<Rightarrow> nat \<Rightarrow> 'k \<Rightarrow> skb \<times> 'k \<times> int) option"
  crypt_priv :: 'k

text \<open>
  \<open>skb_fresh\<close> is the memory of an allocation of a given size, \<open>netif\<close> the Ethernet frames
  given to the network stack, \<open>mgmt_rx\<close> the management frames given to the handlers, and
  \<open>frag_live\<close> counts the fragment buffers that are allocated and not freed.
\<close>

record 'k rx_dev =
  tsd :: ts_dev
  jiffies :: u64
  HZ :: u64
  skb_fresh :: "nat \<Rightarrow> u8 list"
  mtu :: nat
  ibss_mac_hash :: "ieee_ibss_seq list list"
  last_rxseq_num :: "u16 list"
  last_rxfrag_num :: "u16 list"
  last_packet_time :: "u64 list"
  frag_cache :: "rtllib_frag_entry list list"
  frag_next_idx :: "nat list"
  frag_live :: int
  host_decrypt :: bool
  open_wep :: bool
  crypt :: "'k crypt_data option list"
  sta_sleep :: u8
  polling :: bool
  pspolls :: nat
  rx_discards_undecryptable :: u32
  NumRecvDataInPeriod :: u32
  NumRxOkInPeriod :: u32
  bis_any_nonbepkts :: bool
  bIsAggregateFrame :: bool
  rx_packets :: u64
  rx_bytes :: u64
  rx_multicast :: u64
  rx_dropped :: u64
  last_rx_ps_time :: u64
  netif :: "u8 list list"
  mgmt_rx :: "u8 list list"

text \<open>The kernel's \<open>time_after\<close>: the first time is later, across a wrap of the counter.\<close>

definition time_after :: "u64 \<Rightarrow> u64 \<Rightarrow> bool" where
  "time_after a b \<longleftrightarrow> sint (b - a) < 0"

section \<open>Priorities\<close>

definition UP2AC :: "u8 \<Rightarrow> u8" where
  "UP2AC up = (if up < 1 then 1 else if up < 3 then 0 else if up < 4 then 1 else if up < 6 then 2 else 3)"

text \<open>
  The index into the tables per access category: 0 for frames without a QoS field. The
  argument \<open>m\<close> is the memory of the frame.
\<close>

definition frame_tid :: "skb \<Rightarrow> u16 \<Rightarrow> u8 option" where
  "frame_tid m fc =
     (if fc AND 0x0300 = 0x0300 \<and> RTLLIB_QOS_HAS_SEQ fc then
        map_option (\<lambda>q. UP2AC (ucast (q AND 0x000F)) + 1) (rd16 m 30)
      else if RTLLIB_QOS_HAS_SEQ fc then
        map_option (\<lambda>q. UP2AC (ucast (q AND 0x000F)) + 1) (rd16 m 24)
      else Some 0)"

definition Frame_QoSTID :: "skb \<Rightarrow> u16 \<Rightarrow> u8 option" where
  "Frame_QoSTID m fc =
     map_option (\<lambda>q. ucast (bf_get 0 4 q)) (rd16 m (if fc AND 0x0100 \<noteq> 0 \<and> fc AND 0x0200 \<noteq> 0 then 30 else 24))"

definition IsDataFrame :: "u16 \<Rightarrow> bool" where "IsDataFrame fc \<longleftrightarrow> fc AND 0x0C = 0x08"
definition IsLegacyDataFrame :: "u16 \<Rightarrow> bool" where "IsLegacyDataFrame fc \<longleftrightarrow> IsDataFrame fc \<and> fc AND 0x80 = 0"
definition IsQoSDataFrame :: "u16 \<Rightarrow> bool" where "IsQoSDataFrame fc \<longleftrightarrow> fc AND 0x88 = 0x88"

definition HTCCheck :: "ts_dev \<Rightarrow> u16 \<Rightarrow> bool" where
  "HTCCheck d fc \<longleftrightarrow> bCurrentHTSupport d \<and> IsQoSDataFrame fc \<and> fc AND 0x8000 \<noteq> 0"

section \<open>Duplicate frames\<close>

text \<open>The comparison with the last frame: the result says drop, with the new values.\<close>

definition dup_check :: "u64 \<Rightarrow> u64 \<Rightarrow> u16 \<Rightarrow> u16 \<Rightarrow> u16 \<times> u16 \<times> u64 \<Rightarrow> (u16 \<times> u16 \<times> u64) option" where
  "dup_check hz now seq frag l =
     (case l of (lseq, lfrag, ltime) \<Rightarrow>
        if lseq = seq \<and> time_after (ltime + 5 * hz) now then
          if lfrag = frag then None
          else if uint lfrag + 1 \<noteq> uint frag then None
          else Some (lseq, frag, now)
        else Some (seq, frag, now))"

definition dup_entry ::
  "u64 \<Rightarrow> u64 \<Rightarrow> u16 \<Rightarrow> u16 \<Rightarrow> nat \<Rightarrow> ieee_ibss_seq \<Rightarrow> ieee_ibss_seq option" where
  "dup_entry hz now seq frag t e =
     map_option (\<lambda>(s, f, p). e\<lparr>seq_num := (seq_num e)[t := s], frag_num := (frag_num e)[t := f],
                                packet_time := (packet_time e)[t := p]\<rparr>)
       (dup_check hz now seq frag (seq_num e ! t, frag_num e ! t, packet_time e ! t))"

text \<open>
  The entry of a new station is allocated and only the values of this category are set;
  \<open>fresh\<close> stands for the values that the memory has.
\<close>

definition new_ibss_entry :: "ieee_ibss_seq \<Rightarrow> mac \<Rightarrow> u16 \<Rightarrow> u16 \<Rightarrow> u64 \<Rightarrow> nat \<Rightarrow> ieee_ibss_seq" where
  "new_ibss_entry fresh a seq frag now t =
     fresh\<lparr>ibss_mac := a, seq_num := (seq_num fresh)[t := seq],
           frag_num := (frag_num fresh)[t := frag], packet_time := (packet_time fresh)[t := now]\<rparr>"

fun update_first :: "('a \<Rightarrow> bool) \<Rightarrow> 'a \<Rightarrow> 'a list \<Rightarrow> 'a list" where
  "update_first p v [] = []"
| "update_first p v (x # xs) = (if p x then v # xs else x # update_first p v xs)"

definition dup_adhoc :: "ieee_ibss_seq \<Rightarrow> mac \<Rightarrow> u16 \<Rightarrow> u16 \<Rightarrow> nat \<Rightarrow> 'k rx_dev \<Rightarrow> 'k rx_dev \<times> bool" where
  "dup_adhoc fresh mac_addr seq frag t d =
     (let index = unat (mac_addr ! 5) mod 31;
          chain = ibss_mac_hash d ! index
      in case find (\<lambda>e. ibss_mac e = mac_addr) chain of
           None \<Rightarrow>
             if \<not> skb_avail (tsd d) then (d, False)
             else (d\<lparr>ibss_mac_hash := (ibss_mac_hash d)[index :=
                    new_ibss_entry fresh mac_addr seq frag (jiffies d) t # chain]\<rparr>, False)
         | Some e \<Rightarrow>
             (case dup_entry (HZ d) (jiffies d) seq frag t e of
                None \<Rightarrow> (d, True)
              | Some e' \<Rightarrow> (d\<lparr>ibss_mac_hash := (ibss_mac_hash d)[index :=
                    update_first (\<lambda>e. ibss_mac e = mac_addr) e' chain]\<rparr>, False)))"

definition dup_infra :: "u16 \<Rightarrow> u16 \<Rightarrow> nat \<Rightarrow> 'k rx_dev \<Rightarrow> 'k rx_dev \<times> bool" where
  "dup_infra seq frag t d =
     (case dup_check (HZ d) (jiffies d) seq frag
             (last_rxseq_num d ! t, last_rxfrag_num d ! t, last_packet_time d ! t) of
        None \<Rightarrow> (d, True)
      | Some (s, f, p) \<Rightarrow>
          (d\<lparr>last_rxseq_num := (last_rxseq_num d)[t := s],
             last_rxfrag_num := (last_rxfrag_num d)[t := f],
             last_packet_time := (last_packet_time d)[t := p]\<rparr>, False))"

definition is_duplicate_packet ::
  "ieee_ibss_seq \<Rightarrow> skb \<Rightarrow> 'k rx_dev \<Rightarrow> ('k rx_dev \<times> bool) option" where
  "is_duplicate_packet fresh m d =
     do { fc \<leftarrow> rd16 m 0;
          sc \<leftarrow> rd16 m 22;
          addr2 \<leftarrow> rdn m 10 6;
          tid \<leftarrow> frame_tid m fc;
          Some (case iw_mode (tsd d) of
            IW_MODE_ADHOC \<Rightarrow> dup_adhoc fresh addr2 (WLAN_GET_SEQ_SEQ sc) (WLAN_GET_SEQ_FRAG sc) (unat tid) d
          | IW_MODE_INFRA \<Rightarrow> dup_infra (WLAN_GET_SEQ_SEQ sc) (WLAN_GET_SEQ_FRAG sc) (unat tid) d
          | _ \<Rightarrow> (d, False)) }"

section \<open>The fragment cache\<close>

abbreviation (input) RTLLIB_FRAG_CACHE_LEN :: nat where "RTLLIB_FRAG_CACHE_LEN \<equiv> 4"

definition frag_expired :: "u64 \<Rightarrow> u64 \<Rightarrow> rtllib_frag_entry \<Rightarrow> bool" where
  "frag_expired hz now e \<longleftrightarrow> fe_skb e \<noteq> None \<and> time_after now (first_frag_time e + 2 * hz)"

definition frag_match :: "nat \<Rightarrow> nat option \<Rightarrow> mac \<Rightarrow> mac \<Rightarrow> rtllib_frag_entry \<Rightarrow> bool" where
  "frag_match seq frag src dst e \<longleftrightarrow>
     fe_skb e \<noteq> None \<and> fe_seq e = seq \<and>
     (frag = None \<or> frag = Some (last_frag e + 1)) \<and> src_addr e = src \<and> dst_addr e = dst"

text \<open>
  The search expires old entries on its way and stops at the first match. The results are
  the entries, the number of buffers freed and the index of the match; \<open>frag\<close> is None for
  the argument -1 that matches every fragment number.
\<close>

fun frag_find ::
  "u64 \<Rightarrow> u64 \<Rightarrow> nat \<Rightarrow> nat option \<Rightarrow> mac \<Rightarrow> mac \<Rightarrow> rtllib_frag_entry list \<Rightarrow>
     rtllib_frag_entry list \<times> nat \<times> nat option"
where
  "frag_find hz now seq frag src dst [] = ([], 0, None)"
| "frag_find hz now seq frag src dst (e # es) =
     (let (e', freed) = (if frag_expired hz now e then (e\<lparr>fe_skb := None\<rparr>, 1) else (e, 0))
      in if frag_match seq frag src dst e' then (e' # es, freed, Some 0)
         else (case frag_find hz now seq frag src dst es of
                 (es', n, r) \<Rightarrow> (e' # es', freed + n, map_option Suc r)))"

definition rtllib_frag_cache_find ::
  "nat \<Rightarrow> nat option \<Rightarrow> nat \<Rightarrow> mac \<Rightarrow> mac \<Rightarrow> 'k rx_dev \<Rightarrow> 'k rx_dev \<times> nat option" where
  "rtllib_frag_cache_find seq frag t src dst d =
     (case frag_find (HZ d) (jiffies d) seq frag src dst (frag_cache d ! t) of
        (es, freed, r) \<Rightarrow>
          (d\<lparr>frag_cache := (frag_cache d)[t := es], frag_live := frag_live d - int freed\<rparr>, r))"

definition frag_size :: "nat \<Rightarrow> u16 \<Rightarrow> nat" where
  "frag_size m fc = m + 30 + 8 + 2 + 8 + 6 + (if RTLLIB_QOS_HAS_SEQ fc then 2 else 0)"

text \<open>
  The entry for a fragment, as the indices of its table and its place, None when there is none.
\<close>

definition rtllib_frag_cache_get :: "skb \<Rightarrow> 'k rx_dev \<Rightarrow> ('k rx_dev \<times> (nat \<times> nat) option) option" where
  "rtllib_frag_cache_get m d =
     do { fc \<leftarrow> rd16 m 0;
          sc \<leftarrow> rd16 m 22;
          addr1 \<leftarrow> rdn m 4 6;
          addr2 \<leftarrow> rdn m 10 6;
          tid \<leftarrow> frame_tid m fc;
          let frag = unat (WLAN_GET_SEQ_FRAG sc);
          let seq = unat (WLAN_GET_SEQ_SEQ sc);
          let t = unat tid;
          if frag = 0 then
            if \<not> skb_avail (tsd d) then Some (d, None)
            else
              let i = frag_next_idx d ! t;
                  e = frag_cache d ! t ! i;
                  next = (if i + 1 \<ge> RTLLIB_FRAG_CACHE_LEN then 0 else i + 1);
                  e' = \<lparr>first_frag_time = jiffies d, fe_seq = seq, last_frag = frag,
                        fe_skb = Some \<lparr>sk_mem = skb_fresh d (frag_size (mtu d) fc), sk_len = 0\<rparr>,
                        src_addr = addr2, dst_addr = addr1\<rparr>
              in Some (d\<lparr>frag_next_idx := (frag_next_idx d)[t := next],
                         frag_cache := (frag_cache d)[t := (frag_cache d ! t)[i := e']],
                         frag_live := frag_live d + 1 - (if fe_skb e = None then 0 else 1)\<rparr>, Some (t, i))
          else
            (case rtllib_frag_cache_find seq (Some frag) t addr2 addr1 d of
               (d1, None) \<Rightarrow> Some (d1, None)
             | (d1, Some i) \<Rightarrow>
                 Some (d1\<lparr>frag_cache := (frag_cache d1)[t := (frag_cache d1 ! t)
                            [i := (frag_cache d1 ! t ! i)\<lparr>last_frag := frag\<rparr>]]\<rparr>, Some (t, i))) }"

definition rtllib_frag_cache_invalidate :: "skb \<Rightarrow> 'k rx_dev \<Rightarrow> ('k rx_dev \<times> int) option" where
  "rtllib_frag_cache_invalidate m d =
     do { fc \<leftarrow> rd16 m 0;
          sc \<leftarrow> rd16 m 22;
          addr1 \<leftarrow> rdn m 4 6;
          addr2 \<leftarrow> rdn m 10 6;
          tid \<leftarrow> frame_tid m fc;
          let t = unat tid;
          (case rtllib_frag_cache_find (unat (WLAN_GET_SEQ_SEQ sc)) None t addr2 addr1 d of
             (d1, None) \<Rightarrow> Some (d1, -1)
           | (d1, Some i) \<Rightarrow>
               Some (d1\<lparr>frag_cache := (frag_cache d1)[t := (frag_cache d1 ! t)
                          [i := (frag_cache d1 ! t ! i)\<lparr>fe_skb := None\<rparr>]]\<rparr>, 0)) }"

section \<open>Aggregated MSDUs\<close>

abbreviation (input) ETHERNET_HEADER_SIZE :: nat where "ETHERNET_HEADER_SIZE \<equiv> 14"
abbreviation (input) MAX_SUBFRAME_COUNT :: nat where "MAX_SUBFRAME_COUNT \<equiv> 64"

definition swap16 :: "u16 \<Rightarrow> u16" where
  "swap16 n = drop_bit 8 n + push_bit 8 n"

definition subframe_length :: "u8 list \<Rightarrow> nat" where
  "subframe_length data = unat (swap16 (le16 (data ! 12) (data ! 13)))"

definition padding_length :: "nat \<Rightarrow> nat" where
  "padding_length n = (let p = 4 - (n + ETHERNET_HEADER_SIZE) mod 4 in if p = 4 then 0 else p)"

text \<open>
  The loop over the subframes of the remaining bytes, with the subframes so far. False is
  a return of 0.
\<close>

function subframe_loop :: "u8 list \<Rightarrow> u8 list list \<Rightarrow> u8 list list \<times> bool" where
  "subframe_loop data subs =
     (if length data \<le> ETHERNET_HEADER_SIZE then (subs, True)
      else
        let n = subframe_length data;
            subs' = subs @ [take n (drop ETHERNET_HEADER_SIZE data)];
            rest = drop (ETHERNET_HEADER_SIZE + n) data
        in if length data < ETHERNET_HEADER_SIZE + n then (subs, False)
           else if length subs' \<ge> MAX_SUBFRAME_COUNT then (subs', True)
           else if rest = [] then (subs', True)
           else if length rest < padding_length n then (subs', False)
           else subframe_loop (drop (padding_length n) rest) subs')"
  by pat_completeness auto

termination
  by (relation "measure (\<lambda>(data, subs). length data)") auto

declare subframe_loop.simps [simp del]

text \<open>
  \<open>parse_subframe\<close>: None is a fault (a subframe buffer that cannot be allocated). The first
  component of the result is the frame that is left, the second \<open>bIsAggregateFrame\<close> when it was set,
  the third the subframes, when there are any; an early return leaves \<open>nr_subframes\<close> unset.
\<close>

datatype parse_result = PARSE_SHORT | PARSE_FAILED | PARSED "u8 list list"

definition parse_subframe :: "bool \<Rightarrow> bool \<Rightarrow> skb \<Rightarrow> (bool option \<times> parse_result) option" where
  "parse_subframe avail bContainHTC m =
     do { fc \<leftarrow> rd16 m 0;
          q \<leftarrow> (if RTLLIB_QOS_HAS_SEQ fc then rd16 m 24 else Some 0);
          let aggregate = (RTLLIB_QOS_HAS_SEQ fc \<and> bf_get 7 1 q \<noteq> 0);
          let LLCOffset = 24 + (if RTLLIB_QOS_HAS_SEQ fc then 2 else 0) + (if bContainHTC then 4 else 0);
          if sk_len m \<le> LLCOffset then Some (None, PARSE_SHORT)
          else
            let data = drop LLCOffset (skb_frame m)
            in if \<not> aggregate then
                 if \<not> avail then None else Some (Some False, PARSED [data])
               else
                 (case subframe_loop data [] of
                    (subs, ok) \<Rightarrow>
                      if \<not> avail \<and> subs \<noteq> [] then None
                      else if \<not> ok \<or> subs = [] then Some (Some True, PARSE_FAILED)
                      else Some (Some True, PARSED subs)) }"

section \<open>Ethernet frames\<close>

definition rfc1042_header :: "u8 list" where "rfc1042_header = [0xaa, 0xaa, 0x03, 0x00, 0x00, 0x00]"
definition bridge_tunnel_header :: "u8 list" where "bridge_tunnel_header = [0xaa, 0xaa, 0x03, 0x00, 0x00, 0xf8]"

definition be16 :: "nat \<Rightarrow> u8 list" where "be16 n = [word_of_nat (n div 256), word_of_nat n]"

definition eth_frame :: "mac \<Rightarrow> mac \<Rightarrow> u8 list \<Rightarrow> u8 list" where
  "eth_frame dst src sub =
     (let ethertype = sub ! 6 # sub ! 7 # []
      in if length sub \<ge> 8 \<and>
            (take 6 sub = rfc1042_header \<and> ethertype \<noteq> [0x80, 0xF3] \<and> ethertype \<noteq> [0x81, 0x37]
             \<or> take 6 sub = bridge_tunnel_header)
         then dst @ src @ drop 6 sub
         else dst @ src @ be16 (length sub) @ sub)"

definition indicate_frame :: "u8 list \<Rightarrow> 'k rx_dev \<Rightarrow> 'k rx_dev" where
  "indicate_frame f d = d\<lparr>rx_packets := rx_packets d + 1, rx_bytes := rx_bytes d + word_of_nat (length f),
     netif := netif d @ [f]\<rparr>"

fun rtllib_indicate_packets :: "rtllib_rxb list \<Rightarrow> 'k rx_dev \<Rightarrow> 'k rx_dev" where
  "rtllib_indicate_packets [] d = d"
| "rtllib_indicate_packets (b # bs) d =
     rtllib_indicate_packets bs
       (fold (\<lambda>sub d. (indicate_frame (eth_frame (rxb_dst b) (rxb_src b) sub) d)\<lparr>last_rx_ps_time := jiffies d\<rparr>)
          (subframes b) d)"

end
