(* ===== verification/Rx_Path.thy ===== *)
theory Rx_Path
  imports Rx_Data
begin

text \<open>
  The function \<open>rtllib_rx\<close> of src/src/rtllib_rx.c, as the sequence of its stages. A stage
  ends the function with one of its two exits or goes on; None is a fault.
\<close>

section \<open>Stages\<close>

text \<open>
  The local variables of the function: the buffer, the header length, the HT control flag
  of the receive statistics, the key, its number, the addresses, the receive stream and
  the sequence number. \<open>cx_freed\<close> says that the buffer given to the function was freed or
  handed on, \<open>cx_frag\<close> that the current buffer comes from the fragment cache.
\<close>

datatype rx_out = RX_DROPPED | RX_EXIT

record rx_ctx =
  cx_m :: skb
  cx_fc :: u16
  cx_sc :: u16
  cx_hdrlen :: nat
  cx_htc :: bool
  cx_crypt :: "nat option"
  cx_keyidx :: int
  cx_dst :: mac
  cx_src :: mac
  cx_pTS :: "ts_node option"
  cx_freed :: bool
  cx_frag :: bool

type_synonym 'k rx_stage = "rx_ctx \<Rightarrow> 'k rx_dev \<Rightarrow> ('k rx_dev \<times> rx_ctx \<times> rx_out option) option"

definition rx_then :: "'k rx_stage \<Rightarrow> 'k rx_stage \<Rightarrow> 'k rx_stage" where
  "rx_then f g c d =
     (case f c d of
        None \<Rightarrow> None
      | Some (d1, c1, None) \<Rightarrow> g c1 d1
      | Some (d1, c1, Some out) \<Rightarrow> Some (d1, c1, Some out))"

abbreviation (input) rx_go :: "'k rx_stage" where "rx_go c d \<equiv> Some (d, c, None)"
abbreviation (input) rx_drop :: "'k rx_stage" where "rx_drop c d \<equiv> Some (d, c, Some RX_DROPPED)"
abbreviation (input) rx_exit :: "'k rx_stage" where "rx_exit c d \<equiv> Some (d, c, Some RX_EXIT)"

definition rx_header :: "'k rx_stage" where
  "rx_header c d =
     (let m = cx_m c in
      if sk_len m < 10 then rx_drop c d
      else do {
        fc \<leftarrow> rd16 m 0;
        sc \<leftarrow> rd16 m 22;
        let hdrlen = rtllib_get_hdrlen fc;
        let htc = HTCCheck (tsd d) fc;
        let c1 = c\<lparr>cx_fc := fc, cx_sc := sc, cx_hdrlen := hdrlen + (if htc then 4 else 0),
                    cx_htc := cx_htc c \<or> htc\<rparr>;
        if sk_len m < hdrlen then rx_drop c d
        else if iw_mode (tsd d) = IW_MODE_MONITOR then
          let raw = drop hdrlen (skb_frame m)
          in rx_exit (c1\<lparr>cx_freed := True\<rparr>) (indicate_frame raw d)
        else rx_go c1 d })"

definition rx_key :: "'k rx_stage" where
  "rx_key c d =
     (if \<not> host_decrypt d then rx_go c d
      else do {
        idx \<leftarrow> (if sk_len (cx_m c) \<ge> cx_hdrlen c + 3
               then map_option (\<lambda>b. unat (drop_bit 6 b)) (rd8 (cx_m c) (cx_hdrlen c + 3)) else Some 0);
        let key = (case crypt d ! idx of None \<Rightarrow> None
                   | Some k \<Rightarrow> if decrypt_mpdu k = None then None else Some idx);
        if key = None \<and> cx_fc c AND 0x4000 \<noteq> 0
        then rx_drop c (d\<lparr>rx_discards_undecryptable := rx_discards_undecryptable d + 1\<rparr>)
        else rx_go (c\<lparr>cx_crypt := key\<rparr>) d })"

text \<open>Duplicates, with and without a receive stream.\<close>

definition rx_ts_duplicate :: "'k rx_stage" where
  "rx_ts_duplicate c d =
     do { addr2 \<leftarrow> rdn (cx_m c) 10 6;
          tid \<leftarrow> Frame_QoSTID (cx_m c) (cx_fc c);
          (t, r) \<leftarrow> GetTs (tsd d) addr2 tid RX_DIR True;
          case r of
            None \<Rightarrow> rx_drop c (d\<lparr>tsd := t\<rparr>)
          | Some n \<Rightarrow>
              let i = node_index n; frag = WLAN_GET_SEQ_FRAG (cx_sc c); seq = WLAN_GET_SEQ_SEQ (cx_sc c)
              in if cx_fc c AND 0x0800 \<noteq> 0 \<and> frag = ucast (RxLastFragNum (RxTsRecord t ! i)) \<and>
                    seq = RxLastSeqNum (RxTsRecord t ! i)
                 then rx_drop c (d\<lparr>tsd := t\<rparr>)
                 else rx_go c (d\<lparr>tsd := upd_rx i (\<lambda>r. r\<lparr>RxLastFragNum := ucast frag, RxLastSeqNum := seq\<rparr>) t\<rparr>) }"

definition rx_plain_duplicate :: "ieee_ibss_seq \<Rightarrow> 'k rx_stage" where
  "rx_plain_duplicate fresh c d =
     (if \<not> (WLAN_FC_GET_TYPE (cx_fc c) = 0x0000 \<and> WLAN_FC_GET_STYPE (cx_fc c) = 0x0080) then
        do { (d1, dup) \<leftarrow> is_duplicate_packet fresh (cx_m c) d;
             if dup then rx_drop c d1 else rx_go c d1 }
      else rx_go c d)"

definition rx_duplicate :: "ieee_ibss_seq \<Rightarrow> 'k rx_stage" where
  "rx_duplicate fresh c d =
     (let fc = cx_fc c in
      if sk_len (cx_m c) < 24 then rx_drop c d
      else if \<not> bCurRxReorderEnable (tsd d) \<or> qos_active (tsd d) = 0 \<or> \<not> IsDataFrame fc \<or> IsLegacyDataFrame fc
      then rx_plain_duplicate fresh c d
      else rx_ts_duplicate c d)"

text \<open>Management frames go to their handlers, which free the buffer.\<close>

definition rx_management :: "'k rx_stage" where
  "rx_management c d =
     (if WLAN_FC_GET_TYPE (cx_fc c) = 0x0000
      then rx_exit (c\<lparr>cx_freed := True\<rparr>) (d\<lparr>mgmt_rx := mgmt_rx d @ [skb_frame (cx_m c)]\<rparr>)
      else rx_go c d)"

definition rx_addresses :: "'k rx_stage" where
  "rx_addresses c d =
     do { let m = cx_m c;
          addr1 \<leftarrow> rdn m 4 6;
          addr2 \<leftarrow> rdn m 10 6;
          addr3 \<leftarrow> rdn m 16 6;
          let ds = cx_fc c AND 0x0300;
          if ds = 0x0200 then rx_go (c\<lparr>cx_dst := addr1, cx_src := addr3\<rparr>) d
          else if ds = 0x0100 then rx_go (c\<lparr>cx_dst := addr3, cx_src := addr2\<rparr>) d
          else if ds = 0x0300 then
            if sk_len m < 30 then rx_drop c d
            else do { addr4 \<leftarrow> rdn m 24 6; rx_go (c\<lparr>cx_dst := addr3, cx_src := addr4\<rparr>) d }
          else rx_go (c\<lparr>cx_dst := addr1, cx_src := addr2\<rparr>) d }"

text \<open>The filter on the addresses, per mode; True passes the frame.\<close>

definition network_filter :: "ts_dev \<Rightarrow> mac \<Rightarrow> mac \<Rightarrow> mac \<Rightarrow> bool" where
  "network_filter d addr1 addr2 addr3 =
     (case iw_mode d of
        IW_MODE_ADHOC \<Rightarrow>
          if addr2 = dev_addr d then False
          else if is_multicast_ether_addr addr1 then addr3 = bssid d
          else addr1 = dev_addr d
      | IW_MODE_INFRA \<Rightarrow>
          if addr3 = dev_addr d then False
          else if is_multicast_ether_addr addr1 then addr2 = bssid d
          else addr1 = dev_addr d
      | _ \<Rightarrow> True)"

definition is_data_stype :: "u16 \<Rightarrow> bool" where
  "is_data_stype stype \<longleftrightarrow> stype = 0x0000 \<or> stype = 0x0010 \<or> stype = 0x0020 \<or> stype = 0x0030 \<or> stype = 0x0080"

definition rx_filter :: "'k rx_stage" where
  "rx_filter c d =
     do { addr1 \<leftarrow> rdn (cx_m c) 4 6;
          addr2 \<leftarrow> rdn (cx_m c) 10 6;
          addr3 \<leftarrow> rdn (cx_m c) 16 6;
          if \<not> is_data_stype (WLAN_FC_GET_STYPE (cx_fc c)) then rx_drop c d
          else if network_filter (tsd d) addr1 addr2 addr3 then rx_go c d
          else rx_drop c d }"

definition rx_pspoll :: "'k rx_stage" where
  "rx_pspoll c d =
     (if iw_mode (tsd d) = IW_MODE_INFRA \<and> sta_sleep d = 1 \<and> polling d then
        if cx_fc c AND 0x2000 \<noteq> 0 then rx_go c (d\<lparr>pspolls := pspolls d + 1\<rparr>)
        else rx_go c (d\<lparr>polling := False\<rparr>)
      else rx_go c d)"

definition rx_decrypt :: "'k rx_stage" where
  "rx_decrypt c d =
     (if host_decrypt d \<and> cx_fc c AND 0x4000 \<noteq> 0 then
        (case cx_crypt c of
           None \<Rightarrow> rx_go (c\<lparr>cx_keyidx := 0\<rparr>) d
         | Some idx \<Rightarrow>
             (case crypt d ! idx of
                None \<Rightarrow> None
              | Some k \<Rightarrow>
                  (case decrypt_mpdu k of
                     None \<Rightarrow> rx_go (c\<lparr>cx_keyidx := 0\<rparr>) d
                   | Some f \<Rightarrow> do {
                       fc \<leftarrow> rd16 (cx_m c) 0;
                       (case f (cx_m c) (rtllib_get_hdrlen fc) (crypt_priv k) of
                          (m', priv', res) \<Rightarrow>
                            let d1 = d\<lparr>crypt := (crypt d)[idx := Some (k\<lparr>crypt_priv := priv'\<rparr>)]\<rparr>;
                                c1 = c\<lparr>cx_m := m', cx_keyidx := (if res < 0 then -1 else res)\<rparr>
                            in if res < 0
                               then rx_drop c1 (d1\<lparr>rx_discards_undecryptable := rx_discards_undecryptable d1 + 1\<rparr>)
                               else rx_go c1 d1) })))
      else rx_go c d)"

text \<open>\<open>skb_put\<close> followed by a copy: the bytes go behind the bytes already in the buffer.\<close>

definition skb_append :: "skb \<Rightarrow> u8 list \<Rightarrow> skb" where
  "skb_append m bs = m\<lparr>sk_mem := take (sk_len m) (sk_mem m) @ bs @ drop (sk_len m + length bs) (sk_mem m),
                       sk_len := sk_len m + length bs\<rparr>"

text \<open>
  The fragment stage. A fragment shorter than its header length gives the copy a negative
  length: a fault.
\<close>

definition rx_fragment :: "'k rx_stage" where
  "rx_fragment c d =
     (let fc = cx_fc c; m = cx_m c; frag = WLAN_GET_SEQ_FRAG (cx_sc c) in
      if frag = 0 \<and> fc AND 0x0400 = 0 then rx_go c d
      else
        (case rtllib_frag_cache_get m d of
           None \<Rightarrow> None
         | Some (d1, None) \<Rightarrow> rx_drop c d1
         | Some (d1, Some (t, i)) \<Rightarrow>
             (case fe_skb (frag_cache d1 ! t ! i) of
                None \<Rightarrow> None
              | Some fs \<Rightarrow>
                  if frag \<noteq> 0 \<and> sk_len m < cx_hdrlen c then None
                  else
                    let piece = (if frag = 0 then skb_frame m else drop (cx_hdrlen c) (skb_frame m))
                    in if length (sk_mem fs) < sk_len fs + length piece then
                         map_option (\<lambda>(d2, r). (d2, c, Some RX_DROPPED)) (rtllib_frag_cache_invalidate m d1)
                       else
                         let fs' = skb_append fs piece;
                             d2 = d1\<lparr>frag_cache := (frag_cache d1)[t := (frag_cache d1 ! t)
                                      [i := (frag_cache d1 ! t ! i)\<lparr>fe_skb := Some fs'\<rparr>]]\<rparr>;
                             c1 = c\<lparr>cx_freed := True\<rparr>
                         in if fc AND 0x0400 \<noteq> 0 then rx_exit c1 d2
                            else map_option (\<lambda>(d3, r). (d3, c1\<lparr>cx_m := fs', cx_frag := True\<rparr>, None))
                                   (rtllib_frag_cache_invalidate fs' d2))))"

definition rx_decrypt_msdu :: "'k rx_stage" where
  "rx_decrypt_msdu c d =
     (if host_decrypt d \<and> cx_fc c AND 0x4000 \<noteq> 0 then
        (case cx_crypt c of
           None \<Rightarrow> rx_go c d
         | Some idx \<Rightarrow>
             (case crypt d ! idx of
                None \<Rightarrow> None
              | Some k \<Rightarrow>
                  (case decrypt_msdu k of
                     None \<Rightarrow> rx_go c d
                   | Some f \<Rightarrow> do {
                       fc \<leftarrow> rd16 (cx_m c) 0;
                       (case f (cx_m c) (cx_keyidx c) (rtllib_get_hdrlen fc) (crypt_priv k) of
                          (m', priv', res) \<Rightarrow>
                            let d1 = d\<lparr>crypt := (crypt d)[idx := Some (k\<lparr>crypt_priv := priv'\<rparr>)]\<rparr>;
                                c1 = c\<lparr>cx_m := m'\<rparr>
                            in if res < 0 then rx_drop c1 d1 else rx_go c1 d1) })))
      else rx_go c d)"

definition rtllib_is_eapol_frame :: "ts_dev \<Rightarrow> skb \<Rightarrow> nat \<Rightarrow> bool option" where
  "rtllib_is_eapol_frame d m hdrlen =
     (if sk_len m < 24 then Some False
      else do {
        fc \<leftarrow> rd16 m 0;
        addr1 \<leftarrow> rdn m 4 6;
        addr3 \<leftarrow> rdn m 16 6;
        let ds = fc AND 0x0300;
        if (ds = 0x0100 \<and> addr1 = dev_addr d \<and> addr3 = dev_addr d) \<or> (ds = 0x0200 \<and> addr1 = dev_addr d) then
          if sk_len m < 24 + 8 then Some False
          else do { b6 \<leftarrow> rd8 m (hdrlen + 6); b7 \<leftarrow> rd8 m (hdrlen + 7); Some (b6 = 0x88 \<and> b7 = 0x8E) }
        else Some False })"

definition rx_plaintext :: "'k rx_stage" where
  "rx_plaintext c d =
     (let d1 = d\<lparr>NumRecvDataInPeriod := NumRecvDataInPeriod d + 1, NumRxOkInPeriod := NumRxOkInPeriod d + 1\<rparr> in
      if cx_crypt c \<noteq> None \<and> cx_fc c AND 0x4000 = 0 \<and> \<not> open_wep d then
        (case rtllib_is_eapol_frame (tsd d) (cx_m c) (cx_hdrlen c) of
           None \<Rightarrow> None
         | Some True \<Rightarrow> rx_go c d1
         | Some False \<Rightarrow> rx_drop c d1)
      else rx_go c d1)"

definition rx_stream :: "'k rx_stage" where
  "rx_stream c d =
     do { fc \<leftarrow> rd16 (cx_m c) 0;
          addr1 \<leftarrow> rdn (cx_m c) 4 6;
          addr2 \<leftarrow> rdn (cx_m c) 10 6;
          if qos_active (tsd d) \<noteq> 0 \<and> IsQoSDataFrame fc \<and>
             \<not> is_multicast_ether_addr addr1 \<and> \<not> is_broadcast_ether_addr addr1
          then do {
            tid \<leftarrow> Frame_QoSTID (cx_m c) fc;
            (t, r) \<leftarrow> GetTs (tsd d) addr2 tid RX_DIR True;
            rx_go (c\<lparr>cx_pTS := r\<rparr>)
              (d\<lparr>tsd := t, bis_any_nonbepkts := bis_any_nonbepkts d \<or> (tid \<noteq> 0 \<and> tid \<noteq> 3)\<rparr>) }
          else rx_go c d }"

definition rx_direct :: "mac \<Rightarrow> mac \<Rightarrow> u8 list list \<Rightarrow> 'k rx_dev \<Rightarrow> 'k rx_dev" where
  "rx_direct dst src subs d =
     fold (\<lambda>sub d. (indicate_frame (eth_frame dst src sub) d)
             \<lparr>rx_multicast := rx_multicast d + (if is_multicast_ether_addr dst then 1 else 0)\<rparr>) subs d"

definition rx_reorder :: "rtllib_rxb \<Rightarrow> nat \<Rightarrow> u16 \<Rightarrow> 'k rx_dev \<Rightarrow> 'k rx_dev" where
  "rx_reorder b i SeqNo d =
     (let t = RxReorderIndicatePacket (tsd d) b i SeqNo
      in rtllib_indicate_packets (drop (length (rx_indicated (tsd d))) (rx_indicated t)) (d\<lparr>tsd := t\<rparr>))"

text \<open>
  A frame that is too short for \<open>parse_subframe\<close> leaves the number of subframes unset, and
  the loop that frees them runs on it: a fault.
\<close>

definition rx_deliver :: "'k rx_stage" where
  "rx_deliver c d =
     (if \<not> skb_avail (tsd d) then rx_drop c d
      else
        (case parse_subframe (skb_avail (tsd d)) (cx_htc c) (cx_m c) of
           None \<Rightarrow> None
         | Some (agg, r) \<Rightarrow>
             let d1 = (case agg of None \<Rightarrow> d | Some a \<Rightarrow> d\<lparr>bIsAggregateFrame := a\<rparr>)
             in case r of
                  PARSE_SHORT \<Rightarrow> None
                | PARSE_FAILED \<Rightarrow> rx_drop c d1
                | PARSED subs \<Rightarrow>
                    let d2 = d1\<lparr>last_rx_ps_time := jiffies d1\<rparr>;
                        d3 = (case cx_pTS c of
                                None \<Rightarrow> rx_direct (cx_dst c) (cx_src c) subs d2
                              | Some n \<Rightarrow>
                                  if \<not> bCurRxReorderEnable (tsd d) then rx_direct (cx_dst c) (cx_src c) subs d2
                                  else rx_reorder \<lparr>subframes = subs, rxb_dst = cx_dst c, rxb_src = cx_src c\<rparr>
                                         (node_index n) (WLAN_GET_SEQ_SEQ (cx_sc c)) d2)
                    in if cx_frag c then rx_exit c (d3\<lparr>frag_live := frag_live d3 - 1\<rparr>)
                       else rx_exit (c\<lparr>cx_freed := True\<rparr>) d3))"

definition rx_body :: "ieee_ibss_seq \<Rightarrow> 'k rx_stage" where
  "rx_body fresh =
     rx_then rx_key (rx_then (rx_duplicate fresh) (rx_then rx_management
       (rx_then rx_addresses (rx_then rx_filter (rx_then rx_pspoll (rx_then rx_decrypt
         (rx_then rx_fragment (rx_then rx_decrypt_msdu (rx_then rx_plaintext
           (rx_then rx_stream rx_deliver))))))))))"

definition rx_stages :: "ieee_ibss_seq \<Rightarrow> 'k rx_stage" where
  "rx_stages fresh = rx_then rx_header (rx_body fresh)"

definition rx_start :: "skb \<Rightarrow> bool \<Rightarrow> rx_ctx" where
  "rx_start m htc = \<lparr>cx_m = m, cx_fc = 0, cx_sc = 0, cx_hdrlen = 0, cx_htc = htc, cx_crypt = None, cx_keyidx = 0,
     cx_dst = replicate 6 0, cx_src = replicate 6 0, cx_pTS = None, cx_freed = False, cx_frag = False\<rparr>"

text \<open>
  The result is the device, the return value and whether the buffer was freed. The
  argument \<open>htc\<close> is \<open>bContainHTC\<close> of the receive statistics at entry.
\<close>

definition rtllib_rx :: "ieee_ibss_seq \<Rightarrow> skb \<Rightarrow> bool \<Rightarrow> 'k rx_dev \<Rightarrow> ('k rx_dev \<times> int \<times> bool) option" where
  "rtllib_rx fresh m htc d =
     (case rx_stages fresh (rx_start m htc) d of
        None \<Rightarrow> None
      | Some (d1, c1, out) \<Rightarrow>
          if out = Some RX_EXIT then Some (d1, 1, cx_freed c1)
          else Some (d1\<lparr>rx_dropped := rx_dropped d1 + 1\<rparr>, 0, cx_freed c1))"

end
