(* ===== verification/Rx_Subframes.thy ===== *)
theory Rx_Subframes
  imports Rx_Path
begin

text \<open>
  The A-MSDU parser: it inverts the format, stays inside the frame and never finds more
  subframes than there is room for. The conversion to Ethernet frames.
\<close>

section \<open>The format\<close>

lemma swap16_le16: "swap16 (le16 a b) = le16 b a"
proof -
  have "drop_bit 8 (le16 a b) AND push_bit 8 (le16 a b) = 0"
    by (intro bit_word_eqI) (auto simp: le16_def bit_simps dest: bit_imp_le_length)
  then have "swap16 (le16 a b) = drop_bit 8 (le16 a b) OR push_bit 8 (le16 a b)"
    by (simp add: swap16_def disjunctive_add_eq_or)
  also have "\<dots> = le16 b a"
    by (intro bit_word_eqI) (auto simp: le16_def bit_simps dest: bit_imp_le_length)
  finally show ?thesis .
qed

lemma unat_le16: "unat (le16 a b) = unat a + 256 * unat b"
proof -
  have a: "unat a < 256" and b: "unat b < 256"
    using unsigned_less[of a, where ?'a = nat] unsigned_less[of b, where ?'a = nat] by simp_all
  have "ucast a AND push_bit 8 (ucast b :: u16) = (0 :: u16)"
    by (intro bit_word_eqI) (auto simp: bit_simps dest: bit_imp_le_length)
  then have "le16 a b = ucast a + push_bit 8 (ucast b :: u16)"
    by (simp add: le16_def disjunctive_add_eq_or)
  then have "unat (le16 a b) = (unat (ucast a :: u16) + unat (push_bit 8 (ucast b) :: u16)) mod 65536"
    by (simp add: unat_word_ariths)
  moreover have "unat (ucast a :: u16) = unat a"
    using a by (simp add: unsigned_ucast_eq take_bit_eq_mod)
  moreover have "unat (push_bit 8 (ucast b) :: u16) = 256 * unat b"
    using b by (simp add: unsigned_ucast_eq unsigned_push_bit_eq take_bit_eq_mod del: push_bit_of_1)
       (simp add: push_bit_eq_mult)
  ultimately show ?thesis using a b by simp
qed

lemma be16_nth: "be16 n ! 0 = word_of_nat (n div 256)" "be16 n ! 1 = word_of_nat n" "length (be16 n) = 2"
  by (simp_all add: be16_def)

lemma be16_value:
  assumes "n < 65536"
  shows "unat (swap16 (le16 (be16 n ! 0) (be16 n ! 1))) = n"
  using assms by (simp only: swap16_le16 unat_le16 be16_nth) (simp add: unat_of_nat)

text \<open>A subframe: the two addresses, the length and the payload; all but the last are padded.\<close>

definition subframe :: "mac \<times> mac \<times> u8 list \<Rightarrow> u8 list" where
  "subframe s = (case s of (da, sa, p) \<Rightarrow> da @ sa @ be16 (length p) @ p)"

fun amsdu :: "(mac \<times> mac \<times> u8 list) list \<Rightarrow> u8 list" where
  "amsdu [] = []"
| "amsdu [s] = subframe s"
| "amsdu (s # s' # ss) = subframe s @ replicate (padding_length (length (snd (snd s)))) 0 @ amsdu (s' # ss)"

definition subframe_ok :: "mac \<times> mac \<times> u8 list \<Rightarrow> bool" where
  "subframe_ok s \<longleftrightarrow> length (fst s) = 6 \<and> length (fst (snd s)) = 6 \<and> length (snd (snd s)) < 65536"

lemma subframe_shape:
  assumes "subframe_ok s"
  shows "length (subframe s) = 14 + length (snd (snd s))"
    and "subframe_length (subframe s @ rest) = length (snd (snd s))"
    and "drop 14 (subframe s @ rest) = snd (snd s) @ rest"
proof -
  obtain da sa p where s: "s = (da, sa, p)" by (cases s)
  have l: "length da = 6" "length sa = 6" "length p < 65536" using assms by (auto simp: s subframe_ok_def)
  show "length (subframe s) = 14 + length (snd (snd s))" by (simp add: s subframe_def l be16_nth)
  have "(subframe s @ rest) ! 12 = be16 (length p) ! 0" "(subframe s @ rest) ! 13 = be16 (length p) ! 1"
    by (simp_all add: s subframe_def nth_append l be16_nth)
  then show "subframe_length (subframe s @ rest) = length (snd (snd s))"
    using be16_value[OF l(3)] by (simp add: subframe_length_def s)
  show "drop 14 (subframe s @ rest) = snd (snd s) @ rest"
    by (simp add: s subframe_def l be16_nth)
qed

lemma subframe_loop_amsdu:
  assumes "\<forall>s \<in> set ss. subframe_ok s" "ss \<noteq> []" "snd (snd (last ss)) \<noteq> []" "length acc + length ss \<le> MAX_SUBFRAME_COUNT"
  shows "subframe_loop (amsdu ss) acc = (acc @ map (snd \<circ> snd) ss, True)"
  using assms
proof (induction ss arbitrary: acc rule: amsdu.induct)
  case (2 s)
  then show ?case
    using subframe_shape(1)[of s] subframe_shape(2,3)[of s, where rest = "[]"] by (subst subframe_loop.simps) (simp add: Let_def)
next
  case (3 s s' ss)
  let ?p = "snd (snd s)" and ?rest = "amsdu (s' # ss)"
  let ?tail = "replicate (padding_length (length ?p)) 0 @ ?rest"
  have ok: "subframe_ok s" "subframe_ok s'" using "3.prems" by auto
  have ne: "?rest \<noteq> []" using subframe_shape(1)[OF ok(2)] by (cases ss) auto
  have d: "drop (14 + length ?p) (subframe s @ ?tail) = ?tail"
    using subframe_shape(1)[OF ok(1)] by simp
  have l: "length (amsdu (s # s' # ss)) > 14" using ne subframe_shape(1)[OF ok(1)] by (cases ?rest) auto
  have IH: "subframe_loop ?rest (acc @ [?p]) = (acc @ [?p] @ map (snd \<circ> snd) (s' # ss), True)"
    using "3.IH"[of "acc @ [?p]"] "3.prems" by simp
  show ?case
    using l ne IH subframe_shape(1)[OF ok(1)] subframe_shape(2,3)[OF ok(1), of ?tail] "3.prems"(4) d
    by (subst subframe_loop.simps) (simp add: Let_def)
qed simp

section \<open>Arbitrary frames\<close>

text \<open>One round of the loop: it stops without a new subframe, with one, or goes on.\<close>

lemma subframe_loop_round:
  assumes "subframe_loop data acc = (subs, ok)"
  obtains (none) "subs = acc"
  | (last) n where "subs = acc @ [take n (drop 14 data)]" "14 + n \<le> length data"
  | (more) n k where "subframe_loop (drop (14 + n + k) data) (acc @ [take n (drop 14 data)]) = (subs, ok)"
      "14 + n + k \<le> length data" "length acc + 1 < 64" "14 < length data"
proof -
  let ?n = "subframe_length data"
  let ?k = "padding_length ?n"
  have "(length data \<le> 14 \<or> length data < 14 + ?n \<longrightarrow> subs = acc) \<and>
    (14 < length data \<and> 14 + ?n \<le> length data \<longrightarrow>
       (subs = acc @ [take ?n (drop 14 data)] \<or>
        14 + ?n + ?k \<le> length data \<and> length acc + 1 < 64 \<and>
          subframe_loop (drop ?k (drop (14 + ?n) data)) (acc @ [take ?n (drop 14 data)]) = (subs, ok)))"
    using assms by (subst (asm) subframe_loop.simps) (auto simp: Let_def split: if_splits)
  then show thesis
    using that(1) that(2)[of ?n] that(3)[of ?n ?k] by (fastforce simp: add.commute)
qed

lemma subframe_loop_pieces:
  "subframe_loop data acc = (subs, ok) \<Longrightarrow>
     \<exists>new. subs = acc @ new \<and> (\<forall>s \<in> set new. \<exists>pre post. data = pre @ s @ post) \<and>
       sum_list (map length new) + 14 * length new \<le> length data"
proof (induction "length data" arbitrary: data acc rule: less_induct)
  case less
  have piece: "data = take 14 data @ take n (drop 14 data) @ drop n (drop 14 data)" for n
    by (simp only: append_take_drop_id)
  from less.prems show ?case
  proof (cases rule: subframe_loop_round)
    case (last n)
    then show ?thesis using piece[of n] by (intro exI[of _ "[take n (drop 14 data)]"]) auto
  next
    case (more n k)
    let ?d = "drop (14 + n + k) data"
    have short: "length ?d < length data" using more(4) by simp
    obtain new where new: "subs = (acc @ [take n (drop 14 data)]) @ new"
      "\<forall>s \<in> set new. \<exists>pre post. ?d = pre @ s @ post"
      "sum_list (map length new) + 14 * length new \<le> length ?d"
      using less.hyps[OF short more(1)] by blast
    have "\<exists>pre post. data = pre @ s @ post" if "s \<in> set new" for s
    proof -
      obtain pre post where "?d = pre @ s @ post" using new(2) \<open>s \<in> set new\<close> by blast
      then have "data = (take (14 + n + k) data @ pre) @ s @ post"
        by (metis append.assoc append_take_drop_id)
      then show ?thesis by blast
    qed
    then show ?thesis
      using new(1,3) more(2) piece[of n] by (intro exI[of _ "take n (drop 14 data) # new"]) auto
  qed simp
qed

lemma subframe_loop_count:
  "subframe_loop data acc = (subs, ok) \<Longrightarrow> length acc < 64 \<Longrightarrow> length subs \<le> 64"
proof (induction "length data" arbitrary: data acc rule: less_induct)
  case less
  from less.prems(1) show ?case
  proof (cases rule: subframe_loop_round)
    case (more n k)
    then show ?thesis using less.hyps[OF _ more(1)] by simp
  qed (use less.prems in auto)
qed

section \<open>Properties\<close>

text \<open>The header of a QoS data frame with an aggregated MSDU.\<close>

definition amsdu_header :: "bool \<Rightarrow> u8 list \<Rightarrow> bool" where
  "amsdu_header htc h \<longleftrightarrow> length h = 26 + (if htc then 4 else 0) \<and>
     RTLLIB_QOS_HAS_SEQ (le16 (h ! 0) (h ! 1)) \<and> bf_get 7 1 (le16 (h ! 24) (h ! 25)) \<noteq> 0"

lemma skb_frame_nth: "skb_wf m \<Longrightarrow> i < sk_len m \<Longrightarrow> sk_mem m ! i = skb_frame m ! i"
  by (simp add: skb_wf_def skb_frame_def)

lemma length_skb_frame [simp]: "skb_wf m \<Longrightarrow> length (skb_frame m) = sk_len m"
  by (simp add: skb_wf_def skb_frame_def)


definition ex_amsdu_header :: "u8 list" where
  "ex_amsdu_header = [0x88, 0x02, 0, 0, 1, 1, 1, 1, 1, 1, 2, 2, 2, 2, 2, 2, 3, 3, 3, 3, 3, 3, 0x10, 0, 0x80, 0]"




end
