(* ===== verification/Rx_Fragments.thy ===== *)
theory Rx_Fragments
  imports Rx_Path
begin

text \<open>
  Duplicate detection and the reassembly of fragmented frames.
\<close>

section \<open>Duplicates\<close>

definition ibss_entry_wf :: "ieee_ibss_seq \<Rightarrow> bool" where
  "ibss_entry_wf e \<longleftrightarrow> length (seq_num e) = 17 \<and> length (frag_num e) = 17 \<and> length (packet_time e) = 17"

text \<open>The tables of the device have an entry for each of the 5 categories in use.\<close>

definition dup_tables_wf :: "'k rx_dev \<Rightarrow> bool" where
  "dup_tables_wf d \<longleftrightarrow> length (last_rxseq_num d) = 17 \<and> length (last_rxfrag_num d) = 17 \<and>
     length (last_packet_time d) = 17 \<and> length (ibss_mac_hash d) = 31 \<and>
     (\<forall>c \<in> set (ibss_mac_hash d). \<forall>e \<in> set c. ibss_entry_wf e)"

lemma UP2AC_le: "UP2AC up \<le> 3"
  by (simp add: UP2AC_def word_le_nat_alt)

lemma frame_tid_range: "frame_tid m fc = Some t \<Longrightarrow> unat t \<le> 4"
proof -
  have "unat (UP2AC x + 1) \<le> 4" for x by (simp add: UP2AC_def)
  then show "frame_tid m fc = Some t \<Longrightarrow> unat t \<le> 4"
    by (auto simp: frame_tid_def split: if_splits)
qed

lemma find_update_first:
  "find p xs = Some e \<Longrightarrow> p v \<Longrightarrow> find p (update_first p v xs) = Some v"
  by (induction xs) (auto split: if_splits)

lemma set_update_first: "set (update_first p v xs) \<subseteq> insert v (set xs)"
  by (induction xs) auto

lemma find_Some_in: "find p xs = Some e \<Longrightarrow> e \<in> set xs \<and> p e"
  by (induction xs) (auto split: if_splits)

text \<open>
  The history of a category after a frame: the sequence number, the fragment number and
  the time that the next frame is compared with.
\<close>

definition dup_last :: "mac \<Rightarrow> nat \<Rightarrow> 'k rx_dev \<Rightarrow> (u16 \<times> u16 \<times> u64) option" where
  "dup_last a t d =
     (case iw_mode (tsd d) of
        IW_MODE_INFRA \<Rightarrow> Some (last_rxseq_num d ! t, last_rxfrag_num d ! t, last_packet_time d ! t)
      | IW_MODE_ADHOC \<Rightarrow>
          map_option (\<lambda>e. (seq_num e ! t, frag_num e ! t, packet_time e ! t))
            (find (\<lambda>e. ibss_mac e = a) (ibss_mac_hash d ! (unat (a ! 5) mod 31)))
      | _ \<Rightarrow> None)"

lemma dup_check_next:
  "dup_check hz now seq frag l = Some l' \<Longrightarrow> fst l' = seq \<and> fst (snd l') = frag \<and> snd (snd l') = now"
  by (auto simp: dup_check_def split: prod.splits if_splits)

text \<open>The function in terms of the history.\<close>

lemma is_duplicate_packet_spec:
  assumes "dup_tables_wf d" "rd16 m 0 = Some fc" "rd16 m 22 = Some sc" "rdn m 10 6 = Some a" "frame_tid m fc = Some tid"
    and "iw_mode (tsd d) \<in> {IW_MODE_INFRA, IW_MODE_ADHOC}"
  shows "\<exists>d' r. is_duplicate_packet fresh m d = Some (d', r) \<and> tsd d' = tsd d \<and> jiffies d' = jiffies d \<and> HZ d' = HZ d \<and>
    (case dup_last a (unat tid) d of
       None \<Rightarrow> \<not> r \<and> (skb_avail (tsd d) \<and> ibss_entry_wf fresh \<longrightarrow>
                 dup_last a (unat tid) d' = Some (WLAN_GET_SEQ_SEQ sc, WLAN_GET_SEQ_FRAG sc, jiffies d))
     | Some l \<Rightarrow>
         (case dup_check (HZ d) (jiffies d) (WLAN_GET_SEQ_SEQ sc) (WLAN_GET_SEQ_FRAG sc) l of
            None \<Rightarrow> r \<and> d' = d
          | Some l' \<Rightarrow> \<not> r \<and> dup_last a (unat tid) d' = Some l'))"
proof (cases "iw_mode (tsd d) = IW_MODE_INFRA")
  case True
  have "unat tid < 17" using frame_tid_range[OF assms(5)] by simp
  then show ?thesis
    using assms True
    by (auto simp: is_duplicate_packet_def dup_infra_def dup_last_def dup_tables_wf_def split: option.splits)
next
  case False
  then have mode: "iw_mode (tsd d) = IW_MODE_ADHOC" using assms(6) by simp
  have t: "unat tid < 17" using frame_tid_range[OF assms(5)] by simp
  let ?i = "unat (a ! 5) mod 31"
  have i: "?i < length (ibss_mac_hash d)" using assms(1) by (simp add: dup_tables_wf_def)
  show ?thesis
  proof (cases "find (\<lambda>e. ibss_mac e = a) (ibss_mac_hash d ! ?i)")
    case None
    then show ?thesis
      using assms(2-5) mode i t
      by (auto simp: is_duplicate_packet_def dup_adhoc_def dup_last_def Let_def new_ibss_entry_def ibss_entry_wf_def)
  next
    case (Some e)
    then have "e \<in> set (ibss_mac_hash d ! ?i)" "ibss_mac e = a" using find_Some_in by fastforce+
    then have "length (seq_num e) = 17" "length (frag_num e) = 17" "length (packet_time e) = 17"
      using assms(1) i by (auto simp: dup_tables_wf_def ibss_entry_wf_def dest: nth_mem)
    then show ?thesis
      using assms(2-5) mode Some i t \<open>ibss_mac e = a\<close>
      by (auto simp: is_duplicate_packet_def dup_adhoc_def dup_last_def dup_entry_def Let_def find_update_first split: option.splits)
  qed
qed

lemma dup_infra_wf: "dup_tables_wf d \<Longrightarrow> dup_tables_wf (fst (dup_infra seq frag t d))"
  by (auto simp: dup_infra_def dup_tables_wf_def split: option.splits)

lemma dup_adhoc_wf:
  assumes "dup_tables_wf d" "ibss_entry_wf fresh"
  shows "dup_tables_wf (fst (dup_adhoc fresh a seq frag t d))"
proof -
  let ?i = "unat (a ! 5) mod 31"
  let ?chain = "ibss_mac_hash d ! ?i"
  have chain: "\<forall>e \<in> set ?chain. ibss_entry_wf e"
    using assms(1) nth_mem[of ?i "ibss_mac_hash d"] by (auto simp: dup_tables_wf_def)
  have put: "dup_tables_wf (d\<lparr>ibss_mac_hash := (ibss_mac_hash d)[?i := b]\<rparr>)" if "\<forall>e \<in> set b. ibss_entry_wf e" for b
    using assms(1) that set_update_subset_insert[of "ibss_mac_hash d" ?i b] by (auto simp: dup_tables_wf_def)
  have new: "ibss_entry_wf (new_ibss_entry fresh a seq frag now t)" for now
    using assms(2) by (simp add: new_ibss_entry_def ibss_entry_wf_def)
  have ent: "ibss_entry_wf e'" if "dup_entry hz now seq frag t e = Some e'" "e \<in> set ?chain" for hz now e e'
    using that chain by (auto simp: dup_entry_def ibss_entry_wf_def)
  have upd: "\<forall>e \<in> set (update_first p x ?chain). ibss_entry_wf e" if "ibss_entry_wf x" for p x
    using that chain set_update_first[of p x ?chain] by blast
  show ?thesis
  proof (cases "find (\<lambda>e. ibss_mac e = a) ?chain")
    case None
    have "\<forall>e \<in> set (new_ibss_entry fresh a seq frag now t # ?chain). ibss_entry_wf e" for now using new chain by simp
    then show ?thesis using None assms(1) put by (simp add: dup_adhoc_def Let_def)
  next
    case (Some e)
    have "ibss_entry_wf e'" if "dup_entry hz now seq frag t e = Some e'" for hz now e'
      using ent[OF that] find_Some_in[OF Some] by simp
    then show ?thesis
      using Some assms(1) put[OF upd] by (auto simp: dup_adhoc_def Let_def split: option.splits)
  qed
qed

lemma is_duplicate_packet_wf:
  assumes "dup_tables_wf d" "ibss_entry_wf fresh" "is_duplicate_packet fresh m d = Some (d', r)"
  shows "dup_tables_wf d'"
proof -
  have infra: "dup_infra seq frag t d = (d', r) \<Longrightarrow> dup_tables_wf d'" for seq frag t
    using dup_infra_wf[OF assms(1)] by (metis fst_conv)
  have adhoc: "dup_adhoc fresh a seq frag t d = (d', r) \<Longrightarrow> dup_tables_wf d'" for a seq frag t
    using dup_adhoc_wf[OF assms(1,2)] by (metis fst_conv)
  show ?thesis
    using assms(1,3)
    by (cases "iw_mode (tsd d)") (auto simp: is_duplicate_packet_def bind_eq_Some_conv intro: infra adhoc)
qed

text \<open>
  a frame that was taken as new is recognised as a duplicate when it arrives again
  within five seconds, and the next fragment of its MSDU is not: for both modes that
  keep a history, whatever time has passed in between up to that limit.
\<close>

theorem is_duplicate_packet_retry:
  assumes "dup_tables_wf d" "ibss_entry_wf fresh" "skb_avail (tsd d)"
    and "iw_mode (tsd d) \<in> {IW_MODE_INFRA, IW_MODE_ADHOC}"
    and m: "rd16 m 0 = Some fc" "rd16 m 22 = Some sc" "rdn m 10 6 = Some a" "frame_tid m fc = Some tid"
    and n: "rd16 n 0 = Some fc'" "rd16 n 22 = Some sc'" "rdn n 10 6 = Some a" "frame_tid n fc' = Some tid"
    and "WLAN_GET_SEQ_SEQ sc' = WLAN_GET_SEQ_SEQ sc"
    and "uint (WLAN_GET_SEQ_FRAG sc') = uint (WLAN_GET_SEQ_FRAG sc) + 1"
    and acc: "is_duplicate_packet fresh m d = Some (d1, False)"
    and time: "time_after (jiffies d + 5 * HZ d) now"
  shows "\<exists>d2. is_duplicate_packet fresh m (d1\<lparr>jiffies := now\<rparr>) = Some (d1\<lparr>jiffies := now\<rparr>, True) \<and>
              is_duplicate_packet fresh n (d1\<lparr>jiffies := now\<rparr>) = Some (d2, False)"
proof -
  let ?e = "d1\<lparr>jiffies := now\<rparr>" and ?t = "unat tid"
  note spec = is_duplicate_packet_spec[OF assms(1) m assms(4), of fresh]
  have d1: "tsd d1 = tsd d" "HZ d1 = HZ d" using spec acc by auto
  have l: "dup_last a ?t d1 = Some (WLAN_GET_SEQ_SEQ sc, WLAN_GET_SEQ_FRAG sc, jiffies d)"
    using spec acc assms(2,3) dup_check_next
    by (auto split: option.splits) (metis prod.collapse)
  have wf: "dup_tables_wf ?e"
    using is_duplicate_packet_wf[OF assms(1,2) acc] by (simp add: dup_tables_wf_def)
  have last: "dup_last a ?t ?e = dup_last a ?t d1" by (simp add: dup_last_def split: iw_mode.split)
  have mode: "iw_mode (tsd ?e) \<in> {IW_MODE_INFRA, IW_MODE_ADHOC}" using assms(4) d1 by simp
  have drop: "dup_check (HZ ?e) (jiffies ?e) (WLAN_GET_SEQ_SEQ sc) (WLAN_GET_SEQ_FRAG sc)
      (WLAN_GET_SEQ_SEQ sc, WLAN_GET_SEQ_FRAG sc, jiffies d) = None"
    using time d1 by (simp add: dup_check_def)
  have go: "dup_check (HZ ?e) (jiffies ?e) (WLAN_GET_SEQ_SEQ sc') (WLAN_GET_SEQ_FRAG sc')
      (WLAN_GET_SEQ_SEQ sc, WLAN_GET_SEQ_FRAG sc, jiffies d) = Some (WLAN_GET_SEQ_SEQ sc, WLAN_GET_SEQ_FRAG sc', now)"
    using time d1 assms(13,14) by (auto simp: dup_check_def)
  show ?thesis
    using is_duplicate_packet_spec[OF wf m mode, of fresh] is_duplicate_packet_spec[OF wf n mode, of fresh]
      last l drop go by auto
qed

section \<open>Reassembly\<close>

text \<open>
  A fragment as the stage sees it: the context of a frame from \<open>a\<close> to \<open>b\<close> in the category
  \<open>t\<close> with sequence number \<open>seq\<close>, its fragment number and its bytes; \<open>mf\<close> is the flag
  for further fragments.
\<close>

definition fragment_of ::
  "mac \<Rightarrow> mac \<Rightarrow> nat \<Rightarrow> nat \<Rightarrow> nat \<Rightarrow> bool \<Rightarrow> rx_ctx \<Rightarrow> bool" where
  "fragment_of a b t seq k mf c \<longleftrightarrow>
     skb_wf (cx_m c) \<and> 32 \<le> sk_len (cx_m c) \<and> cx_hdrlen c \<le> sk_len (cx_m c) \<and>
     rd16 (cx_m c) 0 = Some (cx_fc c) \<and> rd16 (cx_m c) 22 = Some (cx_sc c) \<and>
     rdn (cx_m c) 4 6 = Some b \<and> rdn (cx_m c) 10 6 = Some a \<and>
     (\<exists>tid. frame_tid (cx_m c) (cx_fc c) = Some tid \<and> unat tid = t) \<and>
     unat (WLAN_GET_SEQ_SEQ (cx_sc c)) = seq \<and> unat (WLAN_GET_SEQ_FRAG (cx_sc c)) = k \<and>
     (cx_fc c AND 0x0400 \<noteq> 0 \<longleftrightarrow> mf)"

definition fragment_body :: "rx_ctx \<Rightarrow> u8 list" where
  "fragment_body c = drop (cx_hdrlen c) (skb_frame (cx_m c))"

fun fragment_run :: "(u64 \<times> rx_ctx) list \<Rightarrow> 'k rx_dev \<Rightarrow> ('k rx_dev \<times> (rx_ctx \<times> rx_out option) list) option" where
  "fragment_run [] d = Some (d, [])"
| "fragment_run ((now, c) # cs) d =
     (case rx_fragment c (d\<lparr>jiffies := now\<rparr>) of
        None \<Rightarrow> None
      | Some (d1, c1, out) \<Rightarrow> map_option (\<lambda>(d2, outs). (d2, (c1, out) # outs)) (fragment_run cs d1))"

text \<open>The search: what is kept, and when it finds a given entry.\<close>

lemma frag_find_keeps:
  "frag_find hz now seq frag a b es = (es', n, r) \<Longrightarrow>
     length es' = length es \<and> (\<forall>j < length es. es' ! j = es ! j \<or> es' ! j = (es ! j)\<lparr>fe_skb := None\<rparr>)"
proof (induction es arbitrary: es' n r)
  case (Cons e es)
  obtain es1 n1 r1 where f: "frag_find hz now seq frag a b es = (es1, n1, r1)" by (metis prod_cases3)
  show ?case
    using Cons.prems Cons.IH[OF f] f
    by (auto simp: Let_def nth_Cons less_Suc_eq_0_disj split: if_splits nat.splits)
qed simp

lemma frag_find_hit:
  assumes "i < length es" "frag_match seq frag a b (es ! i)" "\<not> frag_expired hz now (es ! i)"
    and "\<forall>j < i. \<not> frag_match seq frag a b (es ! j)"
  shows "\<exists>es' n. frag_find hz now seq frag a b es = (es', n, Some i) \<and> es' ! i = es ! i"
  using assms
proof (induction es arbitrary: i)
  case (Cons e es)
  show ?case
  proof (cases i)
    case 0
    then show ?thesis using Cons.prems by simp
  next
    case (Suc i')
    have no: "\<not> frag_match seq frag a b (if frag_expired hz now e then e\<lparr>fe_skb := None\<rparr> else e)"
      using Cons.prems(4) Suc by (auto simp: frag_match_def)
    obtain es' n where "frag_find hz now seq frag a b es = (es', n, Some i')" "es' ! i' = es ! i'"
      using Cons.IH[of i'] Cons.prems Suc by fastforce
    then show ?thesis using no Suc by (auto simp: Let_def split: if_splits)
  qed
qed simp

text \<open>No entry but \<open>i\<close> holds a buffer for the key.\<close>

definition frag_only :: "nat \<Rightarrow> mac \<Rightarrow> mac \<Rightarrow> nat option \<Rightarrow> rtllib_frag_entry list \<Rightarrow> bool" where
  "frag_only seq a b i es \<longleftrightarrow>
     (\<forall>j < length es. Some j \<noteq> i \<longrightarrow> \<not> (fe_skb (es ! j) \<noteq> None \<and> fe_seq (es ! j) = seq \<and>
        src_addr (es ! j) = a \<and> dst_addr (es ! j) = b))"

text \<open>Entry \<open>i\<close> of the table \<open>t\<close> has collected \<open>bytes\<close> of the MSDU, up to fragment \<open>k\<close>.\<close>

definition frag_holds ::
  "mac \<Rightarrow> mac \<Rightarrow> nat \<Rightarrow> nat \<Rightarrow> nat \<Rightarrow> u64 \<Rightarrow> nat \<Rightarrow> u8 list \<Rightarrow> nat \<Rightarrow> 'k rx_dev \<Rightarrow> bool" where
  "frag_holds a b t seq i T k bytes room d \<longleftrightarrow>
     t < length (frag_cache d) \<and> i < length (frag_cache d ! t) \<and>
     (let e = frag_cache d ! t ! i in
       fe_seq e = seq \<and> last_frag e = k \<and> src_addr e = a \<and> dst_addr e = b \<and> first_frag_time e = T \<and>
       (\<exists>s. fe_skb e = Some s \<and> skb_wf s \<and> skb_frame s = bytes \<and> length (sk_mem s) = room)) \<and>
     frag_only seq a b (Some i) (frag_cache d ! t)"

lemma skb_append_wf:
  assumes "skb_wf s" "sk_len s + length bs \<le> length (sk_mem s)"
  shows "skb_wf (skb_append s bs)" "skb_frame (skb_append s bs) = skb_frame s @ bs"
    "length (sk_mem (skb_append s bs)) = length (sk_mem s)"
  using assms by (simp_all add: skb_wf_def skb_frame_def skb_append_def)

lemma frag_only_keeps:
  assumes "frag_only seq a b i es" "frag_find hz now q r x y es = (es', n, f)"
  shows "frag_only seq a b i es'"
  using assms(1) frag_find_keeps[OF assms(2)] unfolding frag_only_def by (metis rtllib_frag_entry.select_convs(2,4,5,6) rtllib_frag_entry.surjective rtllib_frag_entry.update_convs(4))

lemma frag_only_update:
  "frag_only seq a b (Some i) es \<Longrightarrow> frag_only seq a b (Some i) (es[i := e])"
  by (auto simp: frag_only_def)

text \<open>The search on the device finds the entry.\<close>

lemma frag_cache_find_holds:
  assumes h: "frag_holds a b t seq i T k bytes room d" and "frag = None \<or> frag = Some (k + 1)"
    and "\<not> time_after (jiffies d) (T + 2 * HZ d)"
  shows "\<exists>d'. rtllib_frag_cache_find seq frag t a b d = (d', Some i) \<and> frag_holds a b t seq i T k bytes room d' \<and>
    tsd d' = tsd d \<and> jiffies d' = jiffies d \<and> HZ d' = HZ d \<and> length (frag_cache d') = length (frag_cache d) \<and>
    length (frag_cache d' ! t) = length (frag_cache d ! t)"
proof -
  let ?es = "frag_cache d ! t"
  have t: "t < length (frag_cache d)" and i: "i < length ?es" and only: "frag_only seq a b (Some i) ?es"
    using h by (simp_all add: frag_holds_def)
  have m: "frag_match seq frag a b (?es ! i)" "\<not> frag_expired (HZ d) (jiffies d) (?es ! i)"
    using h assms(2,3) by (auto simp: frag_holds_def frag_match_def frag_expired_def Let_def)
  have "\<not> frag_match seq frag a b (?es ! j)" if "j < i" for j
    using only[unfolded frag_only_def, rule_format, of j] i that by (auto simp: frag_match_def)
  then have "\<forall>j < i. \<not> frag_match seq frag a b (?es ! j)" by blast
  then obtain es' n where f: "frag_find (HZ d) (jiffies d) seq frag a b ?es = (es', n, Some i)" "es' ! i = ?es ! i"
    using frag_find_hit[OF i m] by blast
  have "length es' = length ?es" using frag_find_keeps[OF f(1)] by simp
  moreover have "frag_only seq a b (Some i) es'" by (rule frag_only_keeps[OF only f(1)])
  ultimately show ?thesis
    using h t f by (auto simp: rtllib_frag_cache_find_def frag_holds_def Let_def)
qed

text \<open>The three kinds of fragments.\<close>

lemma fragment_head:
  assumes "fragment_of a b t seq 0 True c" "skb_avail (tsd d)"
    and t: "t < length (frag_cache d)" "t < length (frag_next_idx d)" "length (frag_cache d ! t) = 4" "frag_next_idx d ! t < 4"
    and only: "frag_only seq a b None (frag_cache d ! t)"
    and room: "sk_len (cx_m c) \<le> length (skb_fresh d (frag_size (mtu d) (cx_fc c)))"
  shows "\<exists>d1. rx_fragment c d = Some (d1, c\<lparr>cx_freed := True\<rparr>, Some RX_EXIT) \<and> HZ d1 = HZ d \<and>
    frag_holds a b t seq (frag_next_idx d ! t) (jiffies d) 0 (skb_frame (cx_m c)) (length (skb_fresh d (frag_size (mtu d) (cx_fc c)))) d1"
proof -
  let ?i = "frag_next_idx d ! t"
  let ?s = "\<lparr>sk_mem = skb_fresh d (frag_size (mtu d) (cx_fc c)), sk_len = 0\<rparr>"
  have wf: "skb_wf ?s" "skb_frame ?s = []" by (simp_all add: skb_wf_def skb_frame_def)
  have len: "length (skb_frame (cx_m c)) = sk_len (cx_m c)"
    using assms(1) by (simp add: fragment_of_def skb_frame_def skb_wf_def)
  have app: "skb_wf (skb_append ?s (skb_frame (cx_m c)))" "skb_frame (skb_append ?s (skb_frame (cx_m c))) = skb_frame (cx_m c)"
    "length (sk_mem (skb_append ?s (skb_frame (cx_m c)))) = length (sk_mem ?s)"
    using skb_append_wf[OF wf(1), of "skb_frame (cx_m c)"] room wf(2) len by auto
  have "WLAN_GET_SEQ_FRAG (cx_sc c) = 0" using assms(1) by (simp add: fragment_of_def unat_eq_0)
  moreover have "frag_only seq a b (Some ?i) ((frag_cache d ! t)[?i := e])" for e
    using only by (auto simp: frag_only_def)
  ultimately show ?thesis
    using assms(1-2) t room app len
    by (auto simp: rx_fragment_def rtllib_frag_cache_get_def fragment_of_def frag_holds_def Let_def)
qed

lemma fragment_found:
  assumes h: "frag_holds a b t seq i T k bytes room d" and c: "fragment_of a b t seq (k + 1) mf c"
    and time: "\<not> time_after (jiffies d) (T + 2 * HZ d)"
  shows "\<exists>d1. rtllib_frag_cache_get (cx_m c) d = Some (d1, Some (t, i)) \<and> frag_holds a b t seq i T (k + 1) bytes room d1 \<and>
    jiffies d1 = jiffies d \<and> HZ d1 = HZ d"
proof -
  obtain d0 where d0: "rtllib_frag_cache_find seq (Some (k + 1)) t a b d = (d0, Some i)" "frag_holds a b t seq i T k bytes room d0"
    "jiffies d0 = jiffies d" "HZ d0 = HZ d"
    using frag_cache_find_holds[OF h _ time, of "Some (k + 1)"] by auto
  show ?thesis
    using c d0 frag_only_update[of seq a b i "frag_cache d0 ! t"]
    by (auto simp: rtllib_frag_cache_get_def fragment_of_def frag_holds_def Let_def)
qed

lemma length_fragment_body: "fragment_of a b t seq k mf c \<Longrightarrow> length (fragment_body c) = sk_len (cx_m c) - cx_hdrlen c"
  by (simp add: fragment_body_def fragment_of_def skb_frame_def skb_wf_def)

lemma fragment_middle:
  assumes h: "frag_holds a b t seq i T k bytes room d" and c: "fragment_of a b t seq (k + 1) True c"
    and time: "\<not> time_after (jiffies d) (T + 2 * HZ d)"
    and room: "length bytes + length (fragment_body c) \<le> room"
  shows "\<exists>d1. rx_fragment c d = Some (d1, c\<lparr>cx_freed := True\<rparr>, Some RX_EXIT) \<and> HZ d1 = HZ d \<and>
    frag_holds a b t seq i T (k + 1) (bytes @ fragment_body c) room d1"
proof -
  obtain d1 where g: "rtllib_frag_cache_get (cx_m c) d = Some (d1, Some (t, i))" "frag_holds a b t seq i T (k + 1) bytes room d1"
    "HZ d1 = HZ d"
    using fragment_found[OF h c time] by blast
  obtain s where s: "fe_skb (frag_cache d1 ! t ! i) = Some s" "skb_wf s" "skb_frame s = bytes" "length (sk_mem s) = room"
    using g(2) by (auto simp: frag_holds_def Let_def)
  have len: "sk_len s = length bytes" using s by (auto simp: skb_frame_def skb_wf_def)
  have app: "skb_wf (skb_append s (fragment_body c))" "skb_frame (skb_append s (fragment_body c)) = bytes @ fragment_body c"
    "length (sk_mem (skb_append s (fragment_body c))) = room"
    using skb_append_wf[OF s(2), of "fragment_body c"] room len s by auto
  have frag: "WLAN_GET_SEQ_FRAG (cx_sc c) \<noteq> 0" "cx_hdrlen c \<le> sk_len (cx_m c)" "cx_fc c AND 0x0400 \<noteq> 0"
    using c by (auto simp: fragment_of_def unat_eq_0)
  have body: "drop (cx_hdrlen c) (skb_frame (cx_m c)) = fragment_body c" by (simp add: fragment_body_def)
  show ?thesis
    using g s app frag room len frag_only_update[of seq a b i "frag_cache d1 ! t"]
    by (auto simp: rx_fragment_def body frag_holds_def Let_def)
qed

text \<open>A buffer that starts with the bytes of another is read like it.\<close>

lemma skb_prefix_reads:
  assumes "skb_wf m" "skb_wf s" "take (sk_len m) (skb_frame s) = skb_frame m" "32 \<le> sk_len m"
  shows "rd16 s 0 = rd16 m 0" "rd16 s 22 = rd16 m 22" "rdn s 4 6 = rdn m 4 6" "rdn s 10 6 = rdn m 10 6"
    "frame_tid s fc = frame_tid m fc"
proof -
  have "sk_len m \<le> sk_len s"
  proof (rule ccontr)
    assume "\<not> ?thesis"
    then have "length (take (sk_len m) (skb_frame s)) < sk_len m" using assms(2) by (simp add: skb_frame_def skb_wf_def)
    moreover have "length (skb_frame m) = sk_len m" using assms(1) by (simp add: skb_frame_def skb_wf_def)
    ultimately show False using assms(3) by simp
  qed
  then have le: "sk_len m \<le> length (sk_mem s)" "sk_len m \<le> length (sk_mem m)"
    and mem: "take (sk_len m) (sk_mem s) = take (sk_len m) (sk_mem m)"
    using assms(1-3) by (simp_all add: skb_wf_def skb_frame_def min_def)
  have nth: "sk_mem s ! j = sk_mem m ! j" if "j < sk_len m" for j
    using arg_cong[OF mem, of "\<lambda>l. l ! j"] that by simp
  have sub: "take n (drop j (sk_mem s)) = take n (drop j (sk_mem m))" if "j + n \<le> sk_len m" for j n
    using arg_cong[OF mem, of "\<lambda>l. take n (drop j l)"] that by (simp add: drop_take min_absorb1)
  show r: "rd16 s 0 = rd16 m 0" "rd16 s 22 = rd16 m 22"
    using nth le assms(4) by (simp_all add: rd16_inside)
  show "rdn s 4 6 = rdn m 4 6" "rdn s 10 6 = rdn m 10 6"
    using sub le assms(4) by (simp_all add: rdn_inside)
  have "rd16 s 30 = rd16 m 30" "rd16 s 24 = rd16 m 24" using nth le assms(4) by (simp_all add: rd16_inside)
  then show "frame_tid s fc = frame_tid m fc" by (simp add: frame_tid_def)
qed

lemma fragment_last:
  assumes h: "frag_holds a b t seq i T k bytes room d" and c: "fragment_of a b t seq (k + 1) False c"
    and time: "\<not> time_after (jiffies d) (T + 2 * HZ d)"
    and room: "length bytes + length (fragment_body c) \<le> room"
    and c0: "fragment_of a b t seq 0 True c0" "take (sk_len (cx_m c0)) bytes = skb_frame (cx_m c0)"
  shows "\<exists>d1 s. rx_fragment c d = Some (d1, c\<lparr>cx_freed := True, cx_m := s, cx_frag := True\<rparr>, None) \<and>
    skb_wf s \<and> skb_frame s = bytes @ fragment_body c \<and> frag_only seq a b None (frag_cache d1 ! t)"
proof -
  obtain d1 where g: "rtllib_frag_cache_get (cx_m c) d = Some (d1, Some (t, i))" "frag_holds a b t seq i T (k + 1) bytes room d1"
    "jiffies d1 = jiffies d" "HZ d1 = HZ d"
    using fragment_found[OF h c time] by blast
  obtain s where s: "fe_skb (frag_cache d1 ! t ! i) = Some s" "skb_wf s" "skb_frame s = bytes" "length (sk_mem s) = room"
    using g(2) by (auto simp: frag_holds_def Let_def)
  have len: "sk_len s = length bytes" using s by (auto simp: skb_frame_def skb_wf_def)
  let ?s = "skb_append s (fragment_body c)"
  have app: "skb_wf ?s" "skb_frame ?s = bytes @ fragment_body c" "length (sk_mem ?s) = room"
    using skb_append_wf[OF s(2), of "fragment_body c"] room len s by auto
  define d2 where "d2 = d1\<lparr>frag_cache := (frag_cache d1)[t := (frag_cache d1 ! t)
                                      [i := (frag_cache d1 ! t ! i)\<lparr>fe_skb := Some ?s\<rparr>]]\<rparr>"
  have h2: "frag_holds a b t seq i T (k + 1) (bytes @ fragment_body c) room d2"
    using g(2) app frag_only_update[of seq a b i "frag_cache d1 ! t"] by (auto simp: frag_holds_def Let_def d2_def)
  have time2: "\<not> time_after (jiffies d2) (T + 2 * HZ d2)" using time g by (simp add: d2_def)
  have wf0: "skb_wf (cx_m c0)" "32 \<le> sk_len (cx_m c0)" using c0(1) by (simp_all add: fragment_of_def)
  have len0: "length (skb_frame (cx_m c0)) = sk_len (cx_m c0)" using wf0 by (simp add: skb_frame_def skb_wf_def)
  have "take (sk_len (cx_m c0)) (skb_frame ?s) = skb_frame (cx_m c0)"
  proof -
    have "sk_len (cx_m c0) \<le> length bytes" using len0 arg_cong[OF c0(2), of length] by (simp add: min_def split: if_splits)
    then show ?thesis using c0(2) by (simp add: app(2))
  qed
  note reads = skb_prefix_reads[OF wf0(1) app(1) this wf0(2)]
  obtain d3 where d3: "rtllib_frag_cache_find seq None t a b d2 = (d3, Some i)"
    "frag_holds a b t seq i T (k + 1) (bytes @ fragment_body c) room d3"
    using frag_cache_find_holds[OF h2 _ time2, of None] by auto
  define d4 where "d4 = d3\<lparr>frag_cache := (frag_cache d3)[t := (frag_cache d3 ! t)
                          [i := (frag_cache d3 ! t ! i)\<lparr>fe_skb := None\<rparr>]]\<rparr>"
  have inv: "rtllib_frag_cache_invalidate ?s d2 = Some (d4, 0)"
    using c0(1) d3(1) reads by (auto simp: rtllib_frag_cache_invalidate_def fragment_of_def Let_def d4_def)
  have only: "frag_only seq a b None (frag_cache d4 ! t)"
    using d3(2) by (auto simp: frag_holds_def frag_only_def d4_def nth_list_update)
  have frag: "WLAN_GET_SEQ_FRAG (cx_sc c) \<noteq> 0" "cx_hdrlen c \<le> sk_len (cx_m c)" "cx_fc c AND 0x0400 = 0"
    using c by (auto simp: fragment_of_def unat_eq_0)
  have body: "drop (cx_hdrlen c) (skb_frame (cx_m c)) = fragment_body c" by (simp add: fragment_body_def)
  have "rx_fragment c d = Some (d4, c\<lparr>cx_freed := True, cx_m := ?s, cx_frag := True\<rparr>, None)"
    using g(1) s frag room len inv by (simp add: rx_fragment_def body Let_def d2_def[symmetric])
  then show ?thesis using app only by blast
qed

text \<open>The middle of a frame.\<close>

lemma fragment_run_middle:
  assumes "frag_holds a b t seq i T k bytes room d"
    and "\<forall>j < length cs. fragment_of a b t seq (k + 1 + j) True (snd (cs ! j)) \<and> \<not> time_after (fst (cs ! j)) (T + 2 * HZ d)"
    and "length bytes + sum_list (map (length \<circ> fragment_body \<circ> snd) cs) \<le> room"
  shows "\<exists>d1 outs. fragment_run cs d = Some (d1, outs) \<and> HZ d1 = HZ d \<and> map snd outs = replicate (length cs) (Some RX_EXIT) \<and>
    frag_holds a b t seq i T (k + length cs) (bytes @ concat (map (fragment_body \<circ> snd) cs)) room d1"
  using assms
proof (induction cs arbitrary: k bytes d)
  case (Cons x cs)
  obtain now c where x: "x = (now, c)" by (cases x)
  let ?d = "d\<lparr>jiffies := now\<rparr>"
  have h: "frag_holds a b t seq i T k bytes room ?d" using Cons.prems(1) by (simp add: frag_holds_def)
  have c: "fragment_of a b t seq (k + 1) True c" "\<not> time_after (jiffies ?d) (T + 2 * HZ ?d)"
    using Cons.prems(2)[rule_format, of 0] x by auto
  obtain d1 where d1: "rx_fragment c ?d = Some (d1, c\<lparr>cx_freed := True\<rparr>, Some RX_EXIT)" "HZ d1 = HZ d"
    "frag_holds a b t seq i T (k + 1) (bytes @ fragment_body c) room d1"
    using fragment_middle[OF h c] Cons.prems(3) x by auto
  have rest: "fragment_of a b t seq (k + 1 + 1 + j) True (snd (cs ! j)) \<and> \<not> time_after (fst (cs ! j)) (T + 2 * HZ d1)"
    if "j < length cs" for j
    using Cons.prems(2)[rule_format, of "Suc j"] that d1(2) by simp
  have room: "length (bytes @ fragment_body c) + sum_list (map (length \<circ> fragment_body \<circ> snd) cs) \<le> room"
    using Cons.prems(3) x by (simp add: comp_def add.assoc)
  obtain d2 outs where "fragment_run cs d1 = Some (d2, outs)" "HZ d2 = HZ d1"
    "map snd outs = replicate (length cs) (Some RX_EXIT)"
    "frag_holds a b t seq i T (k + 1 + length cs) ((bytes @ fragment_body c) @ concat (map (fragment_body \<circ> snd) cs)) room d2"
    using Cons.IH[OF d1(3) _ room] rest by blast
  then show ?case using d1 x by (simp add: comp_def)
qed simp

lemma fragment_run_append:
  "fragment_run xs d = Some (d1, outs) \<Longrightarrow> fragment_run ys d1 = Some (d2, outs') \<Longrightarrow>
     fragment_run (xs @ ys) d = Some (d2, outs @ outs')"
  by (induction xs arbitrary: d d1 outs) (auto split: option.splits)

text \<open>
  C14: the fragments of an MSDU, received in order and within two seconds of the first, are
  put together to the first fragment followed by the bodies of the others; all but the
  last leave the function without a frame, and afterwards the cache holds nothing of the
  MSDU.
\<close>

theorem fragments_reassembled:
  assumes head: "fragment_of a b t seq 0 True c0" and "skb_avail (tsd d)"
    and tab: "t < length (frag_cache d)" "t < length (frag_next_idx d)" "length (frag_cache d ! t) = 4" "frag_next_idx d ! t < 4"
    and only: "frag_only seq a b None (frag_cache d ! t)"
    and mid: "\<forall>j < length cs. fragment_of a b t seq (j + 1) True (snd (cs ! j)) \<and> \<not> time_after (fst (cs ! j)) (now0 + 2 * HZ d)"
    and last: "fragment_of a b t seq (length cs + 1) False cl" "\<not> time_after nowl (now0 + 2 * HZ d)"
    and room: "sk_len (cx_m c0) + sum_list (map (length \<circ> fragment_body \<circ> snd) cs) + length (fragment_body cl)
                 \<le> length (skb_fresh d (frag_size (mtu d) (cx_fc c0)))"
  shows "\<exists>d1 outs s. fragment_run ((now0, c0) # cs @ [(nowl, cl)]) d =
      Some (d1, outs @ [(cl\<lparr>cx_freed := True, cx_m := s, cx_frag := True\<rparr>, None)]) \<and>
    map snd outs = replicate (length cs + 1) (Some RX_EXIT) \<and>
    skb_frame s = skb_frame (cx_m c0) @ concat (map (fragment_body \<circ> snd) cs) @ fragment_body cl \<and>
    frag_only seq a b None (frag_cache d1 ! t)"
proof -
  let ?d = "d\<lparr>jiffies := now0\<rparr>" and ?room = "length (skb_fresh d (frag_size (mtu d) (cx_fc c0)))"
  have len0: "length (skb_frame (cx_m c0)) = sk_len (cx_m c0)"
    using head by (simp add: fragment_of_def skb_frame_def skb_wf_def)
  obtain d1 where d1: "rx_fragment c0 ?d = Some (d1, c0\<lparr>cx_freed := True\<rparr>, Some RX_EXIT)" "HZ d1 = HZ d"
    "frag_holds a b t seq (frag_next_idx d ! t) now0 0 (skb_frame (cx_m c0)) ?room d1"
    using fragment_head[OF head, of ?d] assms(2) tab only room by auto
  obtain d2 outs where d2: "fragment_run cs d1 = Some (d2, outs)" "HZ d2 = HZ d1"
    "map snd outs = replicate (length cs) (Some RX_EXIT)"
    "frag_holds a b t seq (frag_next_idx d ! t) now0 (length cs)
       (skb_frame (cx_m c0) @ concat (map (fragment_body \<circ> snd) cs)) ?room d2"
    using fragment_run_middle[OF d1(3), of cs] mid room d1(2) len0 by auto
  let ?bytes = "skb_frame (cx_m c0) @ concat (map (fragment_body \<circ> snd) cs)"
  have h: "frag_holds a b t seq (frag_next_idx d ! t) now0 (length cs) ?bytes ?room (d2\<lparr>jiffies := nowl\<rparr>)"
    using d2(4) by (simp add: frag_holds_def)
  have bl: "length ?bytes + length (fragment_body cl) \<le> ?room"
    using room len0 by (simp add: length_concat comp_def)
  obtain d3 s where d3: "rx_fragment cl (d2\<lparr>jiffies := nowl\<rparr>) = Some (d3, cl\<lparr>cx_freed := True, cx_m := s, cx_frag := True\<rparr>, None)"
    "skb_frame s = ?bytes @ fragment_body cl" "frag_only seq a b None (frag_cache d3 ! t)"
    using fragment_last[OF h last(1) _ bl head] last(2) d1(2) d2(2) len0 by auto
  have run: "fragment_run (cs @ [(nowl, cl)]) d1 = Some (d3, outs @ [(cl\<lparr>cx_freed := True, cx_m := s, cx_frag := True\<rparr>, None)])"
    using fragment_run_append[OF d2(1), of "[(nowl, cl)]"] d3(1) by simp
  show ?thesis
    using d1(1) run d2(3) d3(2,3)
    by (intro exI[of _ d3] exI[of _ "(c0\<lparr>cx_freed := True\<rparr>, Some RX_EXIT) # outs"] exI[of _ s]) simp
qed

section \<open>Instances\<close>

definition ex_ibss :: ieee_ibss_seq where
  "ex_ibss = \<lparr>ibss_mac = replicate 6 0, seq_num = replicate 17 0, frag_num = replicate 17 0, packet_time = replicate 17 0\<rparr>"

definition ex_frag_entry :: rtllib_frag_entry where
  "ex_frag_entry = \<lparr>first_frag_time = 0, fe_seq = 0, last_frag = 0, fe_skb = None, src_addr = [], dst_addr = []\<rparr>"

definition ex_rx_dev :: "unit rx_dev" where
  "ex_rx_dev = \<lparr>tsd = ex_dev, jiffies = 1000, HZ = 250, skb_fresh = (\<lambda>n. replicate n 0), mtu = 1500,
     ibss_mac_hash = replicate 31 [], last_rxseq_num = replicate 17 0xFFFF, last_rxfrag_num = replicate 17 0xFFFF,
     last_packet_time = replicate 17 0, frag_cache = replicate 17 (replicate 4 ex_frag_entry),
     frag_next_idx = replicate 17 0, frag_live = 0, host_decrypt = False, open_wep = False,
     crypt = replicate 4 None, sta_sleep = 0, polling = False, pspolls = 0, rx_discards_undecryptable = 0,
     NumRecvDataInPeriod = 0, NumRxOkInPeriod = 0, bis_any_nonbepkts = False, bIsAggregateFrame = False,
     rx_packets = 0, rx_bytes = 0, rx_multicast = 0, rx_dropped = 0, last_rx_ps_time = 0, netif = [], mgmt_rx = []\<rparr>"

definition ex_frame :: "u16 \<Rightarrow> u16 \<Rightarrow> u8 list \<Rightarrow> skb" where
  "ex_frame fc sc body =
     (let bs = put16 fc @ [0, 0, 0, 1, 2, 3, 4, 5, 0, 9, 9, 9, 9, 9, 0, 7, 7, 7, 7, 7] @ put16 sc @ body
      in \<lparr>sk_mem = bs, sk_len = length bs\<rparr>)"

definition ex_ctx :: "u16 \<Rightarrow> u16 \<Rightarrow> u8 list \<Rightarrow> rx_ctx" where
  "ex_ctx fc sc body = (rx_start (ex_frame fc sc body) False)\<lparr>cx_fc := fc, cx_sc := sc, cx_hdrlen := 24\<rparr>"

lemma ex_frame_reads:
  "rd16 (ex_frame fc sc body) 0 = Some fc" "rd16 (ex_frame fc sc body) 22 = Some sc"
  "rdn (ex_frame fc sc body) 4 6 = Some [0, 1, 2, 3, 4, 5]" "rdn (ex_frame fc sc body) 10 6 = Some [0, 9, 9, 9, 9, 9]"
  "rdn (ex_frame fc sc body) 16 6 = Some [0, 7, 7, 7, 7, 7]"
  "skb_wf (ex_frame fc sc body)" "sk_len (ex_frame fc sc body) = 24 + length body"
  "skb_frame (ex_frame fc sc body) = sk_mem (ex_frame fc sc body)"
  using le16_put16[of fc] le16_put16[of sc]
  by (simp_all add: ex_frame_def rd16_def rd8_def rdn_def put16_def Let_def skb_wf_def skb_frame_def)

theorem is_duplicate_packet_retry_witness:
  "\<exists>d1 d2. is_duplicate_packet ex_ibss (ex_frame 0x0608 0x0120 [1]) ex_rx_dev = Some (d1, False) \<and>
     is_duplicate_packet ex_ibss (ex_frame 0x0608 0x0120 [1]) (d1\<lparr>jiffies := 1100\<rparr>) = Some (d1\<lparr>jiffies := 1100\<rparr>, True) \<and>
     is_duplicate_packet ex_ibss (ex_frame 0x0208 0x0121 [2]) (d1\<lparr>jiffies := 1100\<rparr>) = Some (d2, False)"
proof -
  have t: "frame_tid (ex_frame 0x0608 0x0120 [1]) 0x0608 = Some 0" "frame_tid (ex_frame 0x0208 0x0121 [2]) 0x0208 = Some 0"
    by (simp_all add: frame_tid_def RTLLIB_QOS_HAS_SEQ_def)
  have wf: "dup_tables_wf ex_rx_dev" "ibss_entry_wf ex_ibss" "skb_avail (tsd ex_rx_dev)"
    "iw_mode (tsd ex_rx_dev) \<in> {IW_MODE_INFRA, IW_MODE_ADHOC}"
    by (simp_all add: dup_tables_wf_def ibss_entry_wf_def ex_ibss_def ex_rx_dev_def ex_dev_def)
  have acc: "\<exists>d1. is_duplicate_packet ex_ibss (ex_frame 0x0608 0x0120 [1]) ex_rx_dev = Some (d1, False)"
    using t by (simp add: is_duplicate_packet_def ex_frame_reads dup_infra_def dup_check_def ex_rx_dev_def ex_dev_def
        WLAN_GET_SEQ_SEQ_def WLAN_GET_SEQ_FRAG_def split: option.split)
  then obtain d1 where acc: "is_duplicate_packet ex_ibss (ex_frame 0x0608 0x0120 [1]) ex_rx_dev = Some (d1, False)" by blast
  have "\<exists>d2. is_duplicate_packet ex_ibss (ex_frame 0x0608 0x0120 [1]) (d1\<lparr>jiffies := 1100\<rparr>) = Some (d1\<lparr>jiffies := 1100\<rparr>, True) \<and>
     is_duplicate_packet ex_ibss (ex_frame 0x0208 0x0121 [2]) (d1\<lparr>jiffies := 1100\<rparr>) = Some (d2, False)"
    by (rule is_duplicate_packet_retry[OF wf ex_frame_reads(1,2,4) t(1) ex_frame_reads(1,2,4) t(2) _ _ acc])
       (simp_all add: WLAN_GET_SEQ_SEQ_def WLAN_GET_SEQ_FRAG_def time_after_def ex_rx_dev_def)
  then show ?thesis using acc by blast
qed

theorem fragments_reassembled_witness:
  "\<exists>d1 outs s. fragment_run [(1000, ex_ctx 0x0608 0x0120 [1, 2, 3, 4, 5, 6, 7, 8]), (1010, ex_ctx 0x0608 0x0121 [1, 2, 3, 4, 5, 6, 7, 9]),
       (1020, ex_ctx 0x0208 0x0122 [1, 2, 3, 4, 5, 6, 7, 7])] ex_rx_dev =
      Some (d1, outs @ [((ex_ctx 0x0208 0x0122 [1, 2, 3, 4, 5, 6, 7, 7])\<lparr>cx_freed := True, cx_m := s, cx_frag := True\<rparr>, None)]) \<and>
    map snd outs = [Some RX_EXIT, Some RX_EXIT] \<and>
    skb_frame s = sk_mem (ex_frame 0x0608 0x0120 [1, 2, 3, 4, 5, 6, 7, 8]) @ [1, 2, 3, 4, 5, 6, 7, 9] @ [1, 2, 3, 4, 5, 6, 7, 7] \<and>
    frag_only 18 [0, 9, 9, 9, 9, 9] [0, 1, 2, 3, 4, 5] None (frag_cache d1 ! 0)"
proof -
  let ?a = "[0, 9, 9, 9, 9, 9] :: mac" and ?b = "[0, 1, 2, 3, 4, 5] :: mac"
  have tid: "frame_tid m 0x0608 = Some 0" "frame_tid m 0x0208 = Some 0" for m
    by (simp_all add: frame_tid_def RTLLIB_QOS_HAS_SEQ_def)
  have f: "fragment_of ?a ?b 0 18 0 True (ex_ctx 0x0608 0x0120 [1, 2, 3, 4, 5, 6, 7, 8])"
    "fragment_of ?a ?b 0 18 1 True (ex_ctx 0x0608 0x0121 [1, 2, 3, 4, 5, 6, 7, 9])"
    "fragment_of ?a ?b 0 18 2 False (ex_ctx 0x0208 0x0122 [1, 2, 3, 4, 5, 6, 7, 7])"
    by (simp_all add: fragment_of_def ex_ctx_def rx_start_def ex_frame_reads tid WLAN_GET_SEQ_SEQ_def WLAN_GET_SEQ_FRAG_def)
  have body: "fragment_body (ex_ctx fc sc bs) = bs" "sk_len (cx_m (ex_ctx fc sc bs)) = 24 + length bs"
    "cx_fc (ex_ctx fc sc bs) = fc" "skb_frame (cx_m (ex_ctx fc sc bs)) = sk_mem (ex_frame fc sc bs)" for fc sc bs
    by (simp_all add: fragment_body_def ex_ctx_def rx_start_def ex_frame_reads) (simp add: ex_frame_def Let_def put16_def)
  have only: "frag_only 18 ?a ?b None (frag_cache ex_rx_dev ! 0)"
    by (simp add: frag_only_def ex_rx_dev_def ex_frag_entry_def)
  let ?c0 = "ex_ctx 0x0608 0x0120 [1, 2, 3, 4, 5, 6, 7, 8]" and ?c1 = "ex_ctx 0x0608 0x0121 [1, 2, 3, 4, 5, 6, 7, 9]"
    and ?c2 = "ex_ctx 0x0208 0x0122 [1, 2, 3, 4, 5, 6, 7, 7]"
  have dev: "skb_avail (tsd ex_rx_dev)" "0 < length (frag_cache ex_rx_dev)" "0 < length (frag_next_idx ex_rx_dev)"
    "length (frag_cache ex_rx_dev ! 0) = 4" "frag_next_idx ex_rx_dev ! 0 < 4" "HZ ex_rx_dev = 250"
    "skb_fresh ex_rx_dev n = replicate n 0" "mtu ex_rx_dev = 1500" for n
    by (simp_all add: ex_rx_dev_def ex_dev_def)
  have f2: "fragment_of ?a ?b 0 18 (length [(1010 :: u64, ?c1)] + 1) False ?c2" using f(3) by (simp add: numeral_2_eq_2)
  have mid: "\<forall>j < length [(1010, ?c1)]. fragment_of ?a ?b 0 18 (j + 1) True (snd ([(1010, ?c1)] ! j)) \<and>
      \<not> time_after (fst ([(1010, ?c1)] ! j)) (1000 + 2 * HZ ex_rx_dev)"
    using f(2) by (simp add: dev time_after_def)
  have last: "\<not> time_after 1020 (1000 + 2 * HZ ex_rx_dev)" by (simp add: dev time_after_def)
  have room: "sk_len (cx_m ?c0) + sum_list (map (length \<circ> fragment_body \<circ> snd) [(1010 :: u64, ?c1)]) + length (fragment_body ?c2)
      \<le> length (skb_fresh ex_rx_dev (frag_size (mtu ex_rx_dev) (cx_fc ?c0)))"
    by (simp add: body dev frag_size_def)
  show ?thesis
    using fragments_reassembled[OF f(1) dev(1-5) only mid f2 last room]
    by (simp add: body numeral_2_eq_2 del: fragment_run.simps)
qed

end
