(* ===== verification/Rx_Props.thy ===== *)
theory Rx_Props
  imports Rx_Subframes Rx_Fragments
begin

text \<open>
  Properties of \<open>rtllib_rx\<close> as a whole: which frames reach the network stack, and who
  owns the buffer afterwards.
\<close>

section \<open>What the stages leave alone\<close>

definition rx_same :: "'k rx_dev \<Rightarrow> 'k rx_dev \<Rightarrow> bool" where
  "rx_same d d1 \<longleftrightarrow> netif d1 = netif d \<and> iw_mode (tsd d1) = iw_mode (tsd d) \<and> dev_addr (tsd d1) = dev_addr (tsd d) \<and>
     bssid (tsd d1) = bssid (tsd d) \<and> host_decrypt d1 = host_decrypt d \<and> open_wep d1 = open_wep d"

lemma rx_same_refl [simp]: "rx_same d d" by (simp add: rx_same_def)
lemma rx_same_trans: "rx_same d d1 \<Longrightarrow> rx_same d1 d2 \<Longrightarrow> rx_same d d2" by (simp add: rx_same_def)

lemma admit_new_ts_rx [frame]:
  "iw_mode (admit_new_ts d a u s n) = iw_mode d" "dev_addr (admit_new_ts d a u s n) = dev_addr d"
  "bssid (admit_new_ts d a u s n) = bssid d"
  by (simp_all add: admit_new_ts_def reset_ts_def set_common_def AdmitTS_def Let_def split: ts_node.splits)

lemma GetTs_frame:
  "GetTs d a t s add = Some (d', r) \<Longrightarrow> iw_mode d' = iw_mode d \<and> dev_addr d' = dev_addr d \<and> bssid d' = bssid d"
  by (auto simp: GetTs_def Let_def frame split: if_splits option.splits)

lemma rx_header_facts:
  assumes "rx_header c d = Some (d1, c1, out)" "iw_mode (tsd d) \<noteq> IW_MODE_MONITOR"
  shows "d1 = d \<and> cx_m c1 = cx_m c \<and> (out = None \<longrightarrow> rd16 (cx_m c) 0 = Some (cx_fc c1) \<and> rd16 (cx_m c) 22 = Some (cx_sc c1) \<and>
      cx_hdrlen c1 = rtllib_get_hdrlen (cx_fc c1) + (if HTCCheck (tsd d) (cx_fc c1) then 4 else 0))"
proof (cases "sk_len (cx_m c) < 10")
  case False
  then obtain fc sc where r: "rd16 (cx_m c) 0 = Some fc" "rd16 (cx_m c) 22 = Some sc"
    using assms by (auto simp: rx_header_def Let_def bind_eq_Some_conv)
  show ?thesis
  proof (cases "sk_len (cx_m c) < rtllib_get_hdrlen fc")
    case True
    then show ?thesis using assms False r by (auto simp: rx_header_def Let_def)
  next
    case long: False
    have "Some (d1, c1, out) = Some (d, c\<lparr>cx_fc := fc, cx_sc := sc,
        cx_hdrlen := rtllib_get_hdrlen fc + (if HTCCheck (tsd d) fc then 4 else 0), cx_htc := cx_htc c \<or> HTCCheck (tsd d) fc\<rparr>, None)"
      using assms False r long by (auto simp: rx_header_def Let_def)
    then have "c1 = c\<lparr>cx_fc := fc, cx_sc := sc,
        cx_hdrlen := rtllib_get_hdrlen fc + (if HTCCheck (tsd d) fc then 4 else 0), cx_htc := cx_htc c \<or> HTCCheck (tsd d) fc\<rparr>"
      "d1 = d" "out = None" by simp_all
    then show ?thesis using r by simp
  qed
qed (use assms in \<open>auto simp: rx_header_def\<close>)

text \<open>Every key slot holds a key that can decrypt.\<close>

definition keys_set :: "'k rx_dev \<Rightarrow> bool" where
  "keys_set d \<longleftrightarrow> host_decrypt d \<and> (\<forall>i < 4. \<exists>k. crypt d ! i = Some k \<and> decrypt_mpdu k \<noteq> None)"

lemma key_index: "unat (drop_bit 6 (b :: u8)) < 4"
proof -
  have "unat (drop_bit 6 b) = unat b div 2 ^ 6" by (simp add: drop_bit_eq_div unat_div_distrib)
  then show ?thesis using unsigned_less[of b, where ?'a = nat] by simp
qed

lemma rx_key_facts:
  assumes "rx_key c d = Some (d1, c1, out)"
  shows "rx_same d d1 \<and> cx_m c1 = cx_m c \<and> cx_fc c1 = cx_fc c \<and> cx_sc c1 = cx_sc c \<and> cx_hdrlen c1 = cx_hdrlen c \<and>
    (keys_set d \<longrightarrow> cx_crypt c1 \<noteq> None)"
proof (cases "host_decrypt d")
  case True
  then obtain idx where idx: "(if sk_len (cx_m c) \<ge> cx_hdrlen c + 3
               then map_option (\<lambda>b. unat (drop_bit 6 b)) (rd8 (cx_m c) (cx_hdrlen c + 3)) else Some 0) = Some idx"
    using assms by (auto simp: rx_key_def bind_eq_Some_conv split: if_splits)
  have "idx < 4" using idx key_index by (auto split: if_splits)
  then show ?thesis
    using assms True unfolding rx_key_def idx
    by (auto simp: Let_def rx_same_def keys_set_def split: if_splits option.splits)
qed (use assms in \<open>auto simp: rx_key_def keys_set_def\<close>)

lemma dup_same: "rx_same d (fst (dup_infra seq frag t d))" "rx_same d (fst (dup_adhoc fresh a seq frag t d))"
  by (auto simp: dup_infra_def dup_adhoc_def rx_same_def Let_def split: option.splits)

lemma is_duplicate_packet_same:
  assumes "is_duplicate_packet fresh m d = Some (d1, r)"
  shows "rx_same d d1"
proof -
  have "dup_infra seq frag t d = (d1, r) \<Longrightarrow> rx_same d d1" "dup_adhoc fresh a seq frag t d = (d1, r) \<Longrightarrow> rx_same d d1"
    for seq frag t a using dup_same[of d] by (metis fst_conv)+
  then show ?thesis
    using assms by (cases "iw_mode (tsd d)") (auto simp: is_duplicate_packet_def bind_eq_Some_conv)
qed

lemma rx_ts_duplicate_facts:
  assumes "rx_ts_duplicate c d = Some (d1, c1, out)"
  shows "rx_same d d1 \<and> c1 = c \<and> out \<noteq> Some RX_EXIT"
proof -
  obtain a tid t r where g: "rdn (cx_m c) 10 6 = Some a" "Frame_QoSTID (cx_m c) (cx_fc c) = Some tid"
    "GetTs (tsd d) a tid RX_DIR True = Some (t, r)"
    using assms by (auto simp: rx_ts_duplicate_def bind_eq_Some_conv)
  show ?thesis
    using assms g GetTs_frame[OF g(3)]
    by (cases r) (auto simp: rx_ts_duplicate_def rx_same_def Let_def split: if_splits)
qed

lemma rx_duplicate_facts:
  assumes "rx_duplicate fresh c d = Some (d1, c1, out)"
  shows "rx_same d d1 \<and> c1 = c \<and> out \<noteq> Some RX_EXIT"
  using assms rx_ts_duplicate_facts[of c d]
  by (auto simp: rx_duplicate_def rx_plain_duplicate_def Let_def bind_eq_Some_conv is_duplicate_packet_same split: if_splits)

lemma rx_management_facts:
  assumes "rx_management c d = Some (d1, c1, out)"
  shows "rx_same d d1 \<and> cx_m c1 = cx_m c \<and> (out = None \<longrightarrow> c1 = c \<and> WLAN_FC_GET_TYPE (cx_fc c) \<noteq> 0)"
  using assms by (auto simp: rx_management_def rx_same_def split: if_splits)

lemma rx_addresses_facts:
  assumes "rx_addresses c d = Some (d1, c1, out)"
  shows "d1 = d \<and> cx_m c1 = cx_m c \<and> cx_fc c1 = cx_fc c \<and> cx_sc c1 = cx_sc c \<and> cx_hdrlen c1 = cx_hdrlen c \<and>
    cx_crypt c1 = cx_crypt c \<and> cx_freed c1 = cx_freed c \<and> cx_frag c1 = cx_frag c \<and> out \<noteq> Some RX_EXIT"
proof -
  obtain a1 a2 a3 where "rdn (cx_m c) 4 6 = Some a1" "rdn (cx_m c) 10 6 = Some a2" "rdn (cx_m c) 16 6 = Some a3"
    using assms by (auto simp: rx_addresses_def Let_def[of "cx_m c"] bind_eq_Some_conv)
  then show ?thesis
    using assms by (cases "rdn (cx_m c) 24 6") (auto simp: rx_addresses_def Let_def split: if_split_asm)
qed

lemma rx_filter_facts:
  assumes "rx_filter c d = Some (d1, c1, out)"
  shows "d1 = d \<and> c1 = c \<and> out \<noteq> Some RX_EXIT \<and>
    (out = None \<longrightarrow> is_data_stype (WLAN_FC_GET_STYPE (cx_fc c)) \<and>
       (\<exists>a1 a2 a3. rdn (cx_m c) 4 6 = Some a1 \<and> rdn (cx_m c) 10 6 = Some a2 \<and> rdn (cx_m c) 16 6 = Some a3 \<and>
          network_filter (tsd d) a1 a2 a3))"
  using assms by (auto simp: rx_filter_def bind_eq_Some_conv split: if_splits)

lemma rx_pspoll_facts:
  assumes "rx_pspoll c d = Some (d1, c1, out)"
  shows "rx_same d d1 \<and> c1 = c \<and> out = None"
  using assms by (auto simp: rx_pspoll_def rx_same_def split: if_splits)

lemma rx_decrypt_facts:
  assumes "rx_decrypt c d = Some (d1, c1, out)"
  shows "rx_same d d1 \<and> cx_fc c1 = cx_fc c \<and> cx_sc c1 = cx_sc c \<and> cx_crypt c1 = cx_crypt c \<and>
    cx_freed c1 = cx_freed c \<and> cx_frag c1 = cx_frag c \<and> out \<noteq> Some RX_EXIT \<and>
    (cx_fc c AND 0x4000 = 0 \<longrightarrow> c1 = c)"
proof (cases "\<exists>idx k f fc. host_decrypt d \<and> cx_fc c AND 0x4000 \<noteq> 0 \<and> cx_crypt c = Some idx \<and> crypt d ! idx = Some k \<and>
    decrypt_mpdu k = Some f \<and> rd16 (cx_m c) 0 = Some fc")
  case True
  then obtain idx k f fc where g: "host_decrypt d" "cx_fc c AND 0x4000 \<noteq> 0" "cx_crypt c = Some idx" "crypt d ! idx = Some k"
    "decrypt_mpdu k = Some f" "rd16 (cx_m c) 0 = Some fc" by blast
  obtain m' priv' res where "f (cx_m c) (rtllib_get_hdrlen fc) (crypt_priv k) = (m', priv', res)" by (metis prod_cases3)
  then show ?thesis using assms g by (auto simp: rx_decrypt_def Let_def rx_same_def split: if_splits)
next
  case False
  then show ?thesis
    using assms by (cases "rd16 (cx_m c) 0") (auto simp: rx_decrypt_def rx_same_def simp del: rd16_None split: if_splits option.splits)
qed

lemma rx_decrypt_msdu_facts:
  assumes "rx_decrypt_msdu c d = Some (d1, c1, out)"
  shows "rx_same d d1 \<and> cx_fc c1 = cx_fc c \<and> cx_sc c1 = cx_sc c \<and> cx_crypt c1 = cx_crypt c \<and>
    cx_freed c1 = cx_freed c \<and> cx_frag c1 = cx_frag c \<and> out \<noteq> Some RX_EXIT \<and>
    (cx_fc c AND 0x4000 = 0 \<longrightarrow> c1 = c)"
proof (cases "\<exists>idx k f fc. host_decrypt d \<and> cx_fc c AND 0x4000 \<noteq> 0 \<and> cx_crypt c = Some idx \<and> crypt d ! idx = Some k \<and>
    decrypt_msdu k = Some f \<and> rd16 (cx_m c) 0 = Some fc")
  case True
  then obtain idx k f fc where g: "host_decrypt d" "cx_fc c AND 0x4000 \<noteq> 0" "cx_crypt c = Some idx" "crypt d ! idx = Some k"
    "decrypt_msdu k = Some f" "rd16 (cx_m c) 0 = Some fc" by blast
  obtain m' priv' res where "f (cx_m c) (cx_keyidx c) (rtllib_get_hdrlen fc) (crypt_priv k) = (m', priv', res)" by (metis prod_cases3)
  then show ?thesis using assms g by (auto simp: rx_decrypt_msdu_def Let_def rx_same_def split: if_splits)
next
  case False
  then show ?thesis
    using assms by (cases "rd16 (cx_m c) 0") (auto simp: rx_decrypt_msdu_def rx_same_def simp del: rd16_None split: if_splits option.splits)
qed

text \<open>The device without the fragment cache.\<close>

definition frag_erase :: "'k rx_dev \<Rightarrow> 'k rx_dev" where
  "frag_erase d = d\<lparr>frag_cache := [], frag_next_idx := [], frag_live := 0\<rparr>"

lemma frag_erase_upd [simp]:
  "frag_erase (d\<lparr>frag_cache := F\<rparr>) = frag_erase d" "frag_erase (d\<lparr>frag_next_idx := I\<rparr>) = frag_erase d"
  "frag_erase (d\<lparr>frag_live := n\<rparr>) = frag_erase d"
  by (simp_all add: frag_erase_def)

lemma frag_erase_fields:
  assumes "frag_erase d1 = frag_erase d"
  shows "tsd d1 = tsd d" "jiffies d1 = jiffies d" "HZ d1 = HZ d" "host_decrypt d1 = host_decrypt d" "open_wep d1 = open_wep d"
    "crypt d1 = crypt d" "sta_sleep d1 = sta_sleep d" "netif d1 = netif d" "last_rxseq_num d1 = last_rxseq_num d"
    "last_rxfrag_num d1 = last_rxfrag_num d" "last_packet_time d1 = last_packet_time d"
  using arg_cong[OF assms, of tsd] arg_cong[OF assms, of jiffies] arg_cong[OF assms, of HZ] arg_cong[OF assms, of host_decrypt]
    arg_cong[OF assms, of open_wep] arg_cong[OF assms, of crypt] arg_cong[OF assms, of sta_sleep] arg_cong[OF assms, of netif]
    arg_cong[OF assms, of last_rxseq_num] arg_cong[OF assms, of last_rxfrag_num] arg_cong[OF assms, of last_packet_time]
  by (simp_all add: frag_erase_def)

lemma frag_erase_same: "frag_erase d1 = frag_erase d \<Longrightarrow> rx_same d d1"
  using frag_erase_fields[of d1 d] by (simp add: rx_same_def)

lemma frag_cache_find_same: "rtllib_frag_cache_find seq frag t a b d = (d1, r) \<Longrightarrow> frag_erase d1 = frag_erase d"
  by (auto simp: rtllib_frag_cache_find_def split: prod.splits)

lemma frag_cache_get_same:
  assumes "rtllib_frag_cache_get m d = Some (d1, r)"
  shows "frag_erase d1 = frag_erase d"
proof -
  obtain fc sc a1 a2 tid where g: "rd16 m 0 = Some fc" "rd16 m 22 = Some sc" "rdn m 4 6 = Some a1" "rdn m 10 6 = Some a2"
    "frame_tid m fc = Some tid"
    using assms by (auto simp: rtllib_frag_cache_get_def bind_eq_Some_conv)
  obtain d0 r0 where f: "rtllib_frag_cache_find (unat (WLAN_GET_SEQ_SEQ sc)) (Some (unat (WLAN_GET_SEQ_FRAG sc))) (unat tid) a2 a1 d
      = (d0, r0)" by (metis surj_pair)
  show ?thesis
    using assms g f frag_cache_find_same[OF f]
    by (cases r0) (auto simp: rtllib_frag_cache_get_def Let_def split: if_splits)
qed

lemma frag_cache_invalidate_same:
  assumes "rtllib_frag_cache_invalidate m d = Some (d1, r)"
  shows "frag_erase d1 = frag_erase d"
proof -
  obtain fc sc a1 a2 tid where g: "rd16 m 0 = Some fc" "rd16 m 22 = Some sc" "rdn m 4 6 = Some a1" "rdn m 10 6 = Some a2"
    "frame_tid m fc = Some tid"
    using assms by (auto simp: rtllib_frag_cache_invalidate_def bind_eq_Some_conv)
  obtain d0 r0 where f: "rtllib_frag_cache_find (unat (WLAN_GET_SEQ_SEQ sc)) None (unat tid) a2 a1 d = (d0, r0)" by (metis surj_pair)
  show ?thesis
    using assms g f frag_cache_find_same[OF f]
    by (cases r0) (auto simp: rtllib_frag_cache_invalidate_def Let_def)
qed

definition is_fragment :: "u16 \<Rightarrow> u16 \<Rightarrow> bool" where
  "is_fragment fc sc \<longleftrightarrow> WLAN_GET_SEQ_FRAG sc \<noteq> 0 \<or> fc AND 0x0400 \<noteq> 0"

lemma rx_fragment_facts:
  assumes "rx_fragment c d = Some (d1, c1, out)"
  shows "frag_erase d1 = frag_erase d \<and> cx_fc c1 = cx_fc c \<and> cx_sc c1 = cx_sc c \<and> cx_crypt c1 = cx_crypt c \<and> cx_hdrlen c1 = cx_hdrlen c \<and>
    (\<not> is_fragment (cx_fc c) (cx_sc c) \<longrightarrow> c1 = c \<and> out = None) \<and>
    (out = Some RX_EXIT \<longrightarrow> cx_freed c1) \<and> (out = Some RX_DROPPED \<longrightarrow> c1 = c) \<and>
    (out = None \<and> is_fragment (cx_fc c) (cx_sc c) \<longrightarrow> cx_freed c1 \<and> cx_frag c1 \<and> cx_fc c AND 0x0400 = 0)"
proof (cases "is_fragment (cx_fc c) (cx_sc c)")
  case False
  then show ?thesis using assms by (auto simp: rx_fragment_def is_fragment_def Let_def)
next
  case True
  obtain d0 ti where g: "rtllib_frag_cache_get (cx_m c) d = Some (d0, ti)"
    using assms True by (auto simp: rx_fragment_def is_fragment_def Let_def split: option.splits)
  have s: "frag_erase d0 = frag_erase d" by (rule frag_cache_get_same[OF g])
  show ?thesis
  proof (cases ti)
    case None
    then show ?thesis using assms True g s by (auto simp: rx_fragment_def is_fragment_def Let_def)
  next
    case (Some x)
    obtain t i where x: "ti = Some (t, i)" using Some by (cases x) simp
    have inv: "frag_erase d2 = frag_erase d0" if "rtllib_frag_cache_invalidate m (d0\<lparr>frag_cache := F\<rparr>) = Some (d2, r)" for m F d2 r
      using frag_cache_invalidate_same[OF that] by simp
    show ?thesis
      using assms True g x s
      by (auto simp: rx_fragment_def is_fragment_def Let_def split: option.splits if_splits dest: inv frag_cache_invalidate_same)
  qed
qed

lemma rx_plaintext_facts:
  assumes "rx_plaintext c d = Some (d1, c1, out)"
  shows "rx_same d d1 \<and> c1 = c \<and> out \<noteq> Some RX_EXIT \<and>
    (out = None \<and> cx_crypt c \<noteq> None \<and> cx_fc c AND 0x4000 = 0 \<and> \<not> open_wep d \<longrightarrow>
       rtllib_is_eapol_frame (tsd d) (cx_m c) (cx_hdrlen c) = Some True)"
  using assms by (auto simp: rx_plaintext_def Let_def rx_same_def split: if_splits option.splits bool.splits)

lemma rx_stream_facts:
  assumes "rx_stream c d = Some (d1, c1, out)"
  shows "rx_same d d1 \<and> cx_fc c1 = cx_fc c \<and> cx_sc c1 = cx_sc c \<and> cx_freed c1 = cx_freed c \<and> cx_frag c1 = cx_frag c \<and> out = None"
  using assms
  by (auto simp: rx_stream_def bind_eq_Some_conv rx_same_def split: if_splits dest: GetTs_frame)

lemma rx_deliver_facts:
  assumes "rx_deliver c d = Some (d1, c1, out)"
  shows "cx_fc c1 = cx_fc c \<and> cx_sc c1 = cx_sc c \<and>
    (out = Some RX_EXIT \<and> (cx_frag c \<longrightarrow> cx_freed c) \<longrightarrow> cx_freed c1) \<and> (out \<noteq> Some RX_EXIT \<longrightarrow> c1 = c)"
  using assms by (auto simp: rx_deliver_def Let_def split: if_splits option.splits parse_result.splits)

section \<open>What reaches the network stack\<close>

definition rx_quiet :: "'k rx_stage \<Rightarrow> bool" where
  "rx_quiet f \<longleftrightarrow> (\<forall>c d d1 c1 out. f c d = Some (d1, c1, out) \<longrightarrow> rx_same d d1)"

lemma quiet_go:
  assumes "rx_then f g c d = Some (d', c', out)" "netif d' \<noteq> netif d0" "rx_same d0 d" "rx_quiet f"
  obtains d1 c1 where "f c d = Some (d1, c1, None)" "rx_same d0 d1" "g c1 d1 = Some (d', c', out)"
proof (cases "f c d")
  case (Some r)
  obtain d1 c1 o' where r: "f c d = Some (d1, c1, o')" using Some by (cases r) auto
  then have "rx_same d0 d1" using assms(3,4) rx_same_trans by (metis rx_quiet_def)
  then show thesis using assms(1,2) r that by (cases o') (auto simp: rx_then_def rx_same_def)
qed (use assms(1) in \<open>simp add: rx_then_def\<close>)

lemma rtllib_is_eapol_frame_cong:
  "dev_addr d = dev_addr e \<Longrightarrow> rtllib_is_eapol_frame d m h = rtllib_is_eapol_frame e m h"
  by (simp add: rtllib_is_eapol_frame_def)

lemma quiet_stages:
  "rx_quiet rx_key" "rx_quiet (rx_duplicate fresh)" "rx_quiet rx_management" "rx_quiet rx_addresses" "rx_quiet rx_filter"
  "rx_quiet rx_pspoll" "rx_quiet rx_decrypt" "rx_quiet rx_fragment" "rx_quiet rx_decrypt_msdu" "rx_quiet rx_plaintext"
  unfolding rx_quiet_def
  by (blast dest: rx_key_facts, blast dest: rx_duplicate_facts, blast dest: rx_management_facts,
      metis rx_addresses_facts rx_same_refl, metis rx_filter_facts rx_same_refl, blast dest: rx_pspoll_facts,
      blast dest: rx_decrypt_facts, blast dest: rx_fragment_facts frag_erase_same, blast dest: rx_decrypt_msdu_facts, blast dest: rx_plaintext_facts)

lemma header_go:
  assumes "rx_then rx_header g c d = Some (d', c', out)" "iw_mode (tsd d) \<noteq> IW_MODE_MONITOR" "netif d' \<noteq> netif d"
  obtains c1 where "rx_header c d = Some (d, c1, None)" "g c1 d = Some (d', c', out)"
proof (cases "rx_header c d")
  case (Some r)
  obtain d1 c1 o' where r: "rx_header c d = Some (d1, c1, o')" using Some by (cases r) auto
  have "d1 = d" using rx_header_facts[OF r assms(2)] by simp
  then show thesis using assms(1,3) r that by (cases o') (auto simp: rx_then_def)
qed (use assms(1) in \<open>simp add: rx_then_def\<close>)

lemma rx_stages_delivers:
  assumes "rx_stages fresh (rx_start m htc) d = Some (d', c', out)" "iw_mode (tsd d) \<noteq> IW_MODE_MONITOR" "netif d' \<noteq> netif d"
  shows "\<exists>fc sc a1 a2 a3. rd16 m 0 = Some fc \<and> rd16 m 22 = Some sc \<and> rdn m 4 6 = Some a1 \<and> rdn m 10 6 = Some a2 \<and>
    rdn m 16 6 = Some a3 \<and> WLAN_FC_GET_TYPE fc \<noteq> 0 \<and> is_data_stype (WLAN_FC_GET_STYPE fc) \<and> network_filter (tsd d) a1 a2 a3 \<and>
    (keys_set d \<and> \<not> open_wep d \<and> fc AND 0x4000 = 0 \<and> \<not> is_fragment fc sc \<longrightarrow>
       rtllib_is_eapol_frame (tsd d) m (rtllib_get_hdrlen fc + (if HTCCheck (tsd d) fc then 4 else 0)) = Some True)"
proof -
  note new = assms(3)
  obtain c1 where 1: "rx_header (rx_start m htc) d = Some (d, c1, None)"
    and s1: "rx_then rx_key (rx_then (rx_duplicate fresh) (rx_then rx_management (rx_then rx_addresses (rx_then rx_filter
        (rx_then rx_pspoll (rx_then rx_decrypt (rx_then rx_fragment (rx_then rx_decrypt_msdu (rx_then rx_plaintext
        (rx_then rx_stream rx_deliver)))))))))) c1 d = Some (d', c', out)"
    by (rule header_go[OF assms(1)[unfolded rx_stages_def rx_body_def] assms(2) new])
  note h = rx_header_facts[OF 1 assms(2)]
  obtain d2 c2 where 2: "rx_key c1 d = Some (d2, c2, None)" "rx_same d d2"
    and s2: "rx_then (rx_duplicate fresh) (rx_then rx_management (rx_then rx_addresses (rx_then rx_filter
        (rx_then rx_pspoll (rx_then rx_decrypt (rx_then rx_fragment (rx_then rx_decrypt_msdu (rx_then rx_plaintext
        (rx_then rx_stream rx_deliver))))))))) c2 d2 = Some (d', c', out)"
    by (rule quiet_go[OF s1 new rx_same_refl quiet_stages(1)])
  obtain d3 c3 where 3: "rx_duplicate fresh c2 d2 = Some (d3, c3, None)" "rx_same d d3"
    and s3: "rx_then rx_management (rx_then rx_addresses (rx_then rx_filter
        (rx_then rx_pspoll (rx_then rx_decrypt (rx_then rx_fragment (rx_then rx_decrypt_msdu (rx_then rx_plaintext
        (rx_then rx_stream rx_deliver)))))))) c3 d3 = Some (d', c', out)"
    by (rule quiet_go[OF s2 new 2(2) quiet_stages(2)])
  obtain d4 c4 where 4: "rx_management c3 d3 = Some (d4, c4, None)" "rx_same d d4"
    and s4: "rx_then rx_addresses (rx_then rx_filter (rx_then rx_pspoll (rx_then rx_decrypt (rx_then rx_fragment
        (rx_then rx_decrypt_msdu (rx_then rx_plaintext (rx_then rx_stream rx_deliver))))))) c4 d4 = Some (d', c', out)"
    by (rule quiet_go[OF s3 new 3(2) quiet_stages(3)])
  obtain d5 c5 where 5: "rx_addresses c4 d4 = Some (d5, c5, None)" "rx_same d d5"
    and s5: "rx_then rx_filter (rx_then rx_pspoll (rx_then rx_decrypt (rx_then rx_fragment
        (rx_then rx_decrypt_msdu (rx_then rx_plaintext (rx_then rx_stream rx_deliver)))))) c5 d5 = Some (d', c', out)"
    by (rule quiet_go[OF s4 new 4(2) quiet_stages(4)])
  obtain d6 c6 where 6: "rx_filter c5 d5 = Some (d6, c6, None)" "rx_same d d6"
    and s6: "rx_then rx_pspoll (rx_then rx_decrypt (rx_then rx_fragment
        (rx_then rx_decrypt_msdu (rx_then rx_plaintext (rx_then rx_stream rx_deliver))))) c6 d6 = Some (d', c', out)"
    by (rule quiet_go[OF s5 new 5(2) quiet_stages(5)])
  obtain d7 c7 where 7: "rx_pspoll c6 d6 = Some (d7, c7, None)" "rx_same d d7"
    and s7: "rx_then rx_decrypt (rx_then rx_fragment
        (rx_then rx_decrypt_msdu (rx_then rx_plaintext (rx_then rx_stream rx_deliver)))) c7 d7 = Some (d', c', out)"
    by (rule quiet_go[OF s6 new 6(2) quiet_stages(6)])
  obtain d8 c8 where 8: "rx_decrypt c7 d7 = Some (d8, c8, None)" "rx_same d d8"
    and s8: "rx_then rx_fragment
        (rx_then rx_decrypt_msdu (rx_then rx_plaintext (rx_then rx_stream rx_deliver))) c8 d8 = Some (d', c', out)"
    by (rule quiet_go[OF s7 new 7(2) quiet_stages(7)])
  obtain d9 c9 where 9: "rx_fragment c8 d8 = Some (d9, c9, None)" "rx_same d d9"
    and s9: "rx_then rx_decrypt_msdu (rx_then rx_plaintext (rx_then rx_stream rx_deliver)) c9 d9 = Some (d', c', out)"
    by (rule quiet_go[OF s8 new 8(2) quiet_stages(8)])
  obtain d10 c10 where 10: "rx_decrypt_msdu c9 d9 = Some (d10, c10, None)" "rx_same d d10"
    and s10: "rx_then rx_plaintext (rx_then rx_stream rx_deliver) c10 d10 = Some (d', c', out)"
    by (rule quiet_go[OF s9 new 9(2) quiet_stages(9)])
  obtain d11 c11 where 11: "rx_plaintext c10 d10 = Some (d11, c11, None)"
    by (rule quiet_go[OF s10 new 10(2) quiet_stages(10)])
  note f = h rx_key_facts[OF 2(1)] rx_duplicate_facts[OF 3(1)] rx_management_facts[OF 4(1)] rx_addresses_facts[OF 5(1)]
    rx_filter_facts[OF 6(1)] rx_pspoll_facts[OF 7(1)] rx_decrypt_facts[OF 8(1)] rx_fragment_facts[OF 9(1)]
    rx_decrypt_msdu_facts[OF 10(1)] rx_plaintext_facts[OF 11]
  have m: "cx_m (rx_start m htc) = m" by (simp add: rx_start_def)
  have same: "iw_mode (tsd d5) = iw_mode (tsd d)" "dev_addr (tsd d5) = dev_addr (tsd d)" "bssid (tsd d5) = bssid (tsd d)"
    "dev_addr (tsd d10) = dev_addr (tsd d)" "open_wep d10 = open_wep d"
    using 5(2) 10(2) by (simp_all add: rx_same_def)
  have filt: "network_filter (tsd d5) x y z = network_filter (tsd d) x y z" for x y z
    by (simp only: network_filter_def same)
  have eap: "rtllib_is_eapol_frame (tsd d10) m' n = rtllib_is_eapol_frame (tsd d) m' n" for m' n
    by (rule rtllib_is_eapol_frame_cong) (rule same(4))
  have c2: "cx_m c2 = m" "cx_fc c2 = cx_fc c1" "cx_sc c2 = cx_sc c1" "cx_hdrlen c2 = cx_hdrlen c1" "keys_set d \<longrightarrow> cx_crypt c2 \<noteq> None"
    using f(1,2) m by simp_all
  have eq: "c3 = c2" "c4 = c3" "c6 = c5" "c7 = c6" "WLAN_FC_GET_TYPE (cx_fc c3) \<noteq> 0" using f(3,4,6,7) by blast+
  have c5: "cx_m c5 = m" "cx_fc c5 = cx_fc c1" "cx_sc c5 = cx_sc c1" "cx_hdrlen c5 = cx_hdrlen c1" "cx_crypt c5 = cx_crypt c2"
    using f(5) c2 unfolding eq(1,2) by simp_all
  have keep: "cx_fc c8 = cx_fc c1" "cx_sc c8 = cx_sc c1" "cx_fc c9 = cx_fc c8" "cx_sc c9 = cx_sc c8" "cx_fc c10 = cx_fc c9"
    using f(8,9,10) c5 unfolding eq(3,4) by simp_all
  have plain: "cx_m c10 = m \<and> cx_crypt c10 \<noteq> None \<and> cx_hdrlen c10 = cx_hdrlen c1"
    if "keys_set d" "cx_fc c1 AND 0x4000 = 0" "\<not> is_fragment (cx_fc c1) (cx_sc c1)"
  proof -
    have "c8 = c7" using f(8) that(2) c5(2) unfolding eq(3,4) by simp
    moreover have "c9 = c8" using f(9) that(3) keep(1,2) by simp
    moreover have "c10 = c9" using f(10) that(2) keep(1,3) by simp
    ultimately show ?thesis using c2(5) c5 that(1) eq(3,4) by simp
  qed
  obtain a1 a2 a3 where a: "rdn m 4 6 = Some a1" "rdn m 10 6 = Some a2" "rdn m 16 6 = Some a3" "network_filter (tsd d) a1 a2 a3"
    and st: "is_data_stype (WLAN_FC_GET_STYPE (cx_fc c1))"
    using f(6) c5(1,2) filt by auto
  have "rtllib_is_eapol_frame (tsd d) m (cx_hdrlen c1) = Some True"
    if "keys_set d" "\<not> open_wep d" "cx_fc c1 AND 0x4000 = 0" "\<not> is_fragment (cx_fc c1) (cx_sc c1)"
    using f(11) plain[OF that(1,3,4)] that keep same(5) eap by simp
  then show ?thesis
    using h m a st eq(5)[unfolded eq(1) c2(2)]
    by (intro exI[of _ "cx_fc c1"] exI[of _ "cx_sc c1"] exI[of _ a1] exI[of _ a2] exI[of _ a3]) simp
qed


section \<open>Who owns the buffer\<close>

definition owner_ok :: "rx_ctx \<Rightarrow> rx_out option \<Rightarrow> bool" where
  "owner_ok c out \<longleftrightarrow> (out = Some RX_EXIT \<longrightarrow> cx_freed c) \<and>
     (out \<noteq> Some RX_EXIT \<and> cx_freed c \<longrightarrow> is_fragment (cx_fc c) (cx_sc c) \<and> cx_fc c AND 0x0400 = 0) \<and>
     (cx_frag c \<longrightarrow> cx_freed c)"

definition stage_owner :: "'k rx_stage \<Rightarrow> bool" where
  "stage_owner f \<longleftrightarrow> (\<forall>c d d1 c1 out. owner_ok c None \<longrightarrow> f c d = Some (d1, c1, out) \<longrightarrow> owner_ok c1 out)"

lemma stage_owner_then [intro]:
  assumes "stage_owner f" "stage_owner g"
  shows "stage_owner (rx_then f g)"
  unfolding stage_owner_def
proof (intro allI impI)
  fix c d d2 c2 out
  assume c: "owner_ok c None" and r: "rx_then f g c d = Some (d2, c2, out)"
  then obtain d1 c1 o' where f: "f c d = Some (d1, c1, o')" by (auto simp: rx_then_def split: option.splits)
  then have "owner_ok c1 o'" using assms(1) c by (simp add: stage_owner_def)
  then show "owner_ok c2 out"
    using assms(2) r f by (cases o') (auto simp: rx_then_def stage_owner_def)
qed

text \<open>A stage that does not touch the two flags and never exits.\<close>

lemma stage_ownerI:
  assumes "\<And>c d d1 c1 out. f c d = Some (d1, c1, out) \<Longrightarrow> out \<noteq> Some RX_EXIT \<and> cx_fc c1 = cx_fc c \<and> cx_sc c1 = cx_sc c \<and>
    cx_freed c1 = cx_freed c \<and> cx_frag c1 = cx_frag c"
  shows "stage_owner f"
  unfolding stage_owner_def owner_ok_def using assms by fastforce

lemma owners:
  "stage_owner rx_key" "stage_owner (rx_duplicate fresh)" "stage_owner rx_management" "stage_owner rx_addresses"
  "stage_owner rx_filter" "stage_owner rx_pspoll" "stage_owner rx_decrypt" "stage_owner rx_fragment"
  "stage_owner rx_decrypt_msdu" "stage_owner rx_plaintext" "stage_owner rx_stream" "stage_owner rx_deliver"
proof -
  show "stage_owner rx_key"
    by (rule stage_ownerI) (auto simp: rx_key_def bind_eq_Some_conv Let_def split: if_splits)
  show "stage_owner (rx_duplicate fresh)" by (rule stage_ownerI) (drule rx_duplicate_facts, simp)
  show "stage_owner rx_management"
    by (auto simp: stage_owner_def owner_ok_def rx_management_def)
  show "stage_owner rx_addresses" by (rule stage_ownerI) (drule rx_addresses_facts, simp)
  show "stage_owner rx_filter" by (rule stage_ownerI) (drule rx_filter_facts, simp)
  show "stage_owner rx_pspoll" by (rule stage_ownerI) (drule rx_pspoll_facts, simp)
  show "stage_owner rx_decrypt" by (rule stage_ownerI) (drule rx_decrypt_facts, simp)
  show "stage_owner rx_decrypt_msdu" by (rule stage_ownerI) (drule rx_decrypt_msdu_facts, simp)
  show "stage_owner rx_plaintext" by (rule stage_ownerI) (drule rx_plaintext_facts, simp)
  show "stage_owner rx_stream" by (rule stage_ownerI) (drule rx_stream_facts, simp)
  show "stage_owner rx_fragment"
    unfolding stage_owner_def
  proof (intro allI impI)
    fix c d d1 c1 out
    assume c: "owner_ok c None" and r: "rx_fragment c d = Some (d1, c1, out)"
    note f = rx_fragment_facts[OF r]
    show "owner_ok c1 out"
    proof (cases "is_fragment (cx_fc c) (cx_sc c)")
      case False
      then have "c1 = c" "out = None" using f by blast+
      then show ?thesis using c by simp
    next
      case True
      then show ?thesis using c f by (cases out rule: option.exhaust; cases "the out") (auto simp: owner_ok_def)
    qed
  qed
  show "stage_owner rx_deliver"
    unfolding stage_owner_def
  proof (intro allI impI)
    fix c d d1 c1 out
    assume c: "owner_ok c None" and r: "rx_deliver c d = Some (d1, c1, out)"
    show "owner_ok c1 out"
      using c rx_deliver_facts[OF r] by (cases "out = Some RX_EXIT") (auto simp: owner_ok_def)
  qed
qed

text \<open>The stages behind the first leave the frame control and the sequence number alone.\<close>

definition rx_keeps :: "'k rx_stage \<Rightarrow> bool" where
  "rx_keeps f \<longleftrightarrow> (\<forall>c d d1 c1 out. f c d = Some (d1, c1, out) \<longrightarrow> cx_fc c1 = cx_fc c \<and> cx_sc c1 = cx_sc c)"

lemma rx_keeps_then:
  assumes "rx_keeps f" "rx_keeps g"
  shows "rx_keeps (rx_then f g)"
  unfolding rx_keeps_def
proof (intro allI impI)
  fix c d d2 c2 out
  assume r: "rx_then f g c d = Some (d2, c2, out)"
  then obtain d1 c1 o' where f: "f c d = Some (d1, c1, o')" by (auto simp: rx_then_def split: option.splits)
  then have "cx_fc c1 = cx_fc c \<and> cx_sc c1 = cx_sc c" using assms(1) unfolding rx_keeps_def by blast
  then show "cx_fc c2 = cx_fc c \<and> cx_sc c2 = cx_sc c"
  proof (cases o')
    case None
    then have "g c1 d1 = Some (d2, c2, out)" using r f by (simp add: rx_then_def)
    then show ?thesis using assms(2) \<open>cx_fc c1 = _ \<and> _\<close> unfolding rx_keeps_def by metis
  qed (use r f \<open>cx_fc c1 = _ \<and> _\<close> in \<open>auto simp: rx_then_def\<close>)
qed

lemma stage_keeps: "rx_keeps (rx_body fresh)"
  unfolding rx_body_def
proof (intro rx_keeps_then)
  show "rx_keeps rx_management" by (auto simp: rx_keeps_def rx_management_def)
qed (auto simp: rx_keeps_def dest!: rx_key_facts rx_duplicate_facts rx_addresses_facts rx_filter_facts rx_pspoll_facts
      rx_decrypt_facts rx_fragment_facts rx_decrypt_msdu_facts rx_plaintext_facts rx_stream_facts rx_deliver_facts)


section \<open>Instances\<close>

definition ex_key :: "unit crypt_data" where
  "ex_key = \<lparr>decrypt_mpdu = Some (\<lambda>m n k. (m, k, 0)), decrypt_msdu = None, crypt_priv = ()\<rparr>"

definition ex_key_dev :: "unit rx_dev" where
  "ex_key_dev = ex_rx_dev\<lparr>host_decrypt := True, crypt := replicate 4 (Some ex_key)\<rparr>"

lemmas ex_rx_eval =
  rtllib_rx_def rx_stages_def rx_body_def rx_then_def rx_header_def rx_key_def rx_duplicate_def rx_plain_duplicate_def
  rx_management_def rx_addresses_def rx_filter_def rx_pspoll_def rx_decrypt_def rx_decrypt_msdu_def rx_plaintext_def rx_stream_def
  rx_deliver_def rx_start_def ex_frame_reads Let_def HTCCheck_def IsQoSDataFrame_def IsDataFrame_def IsLegacyDataFrame_def
  rtllib_get_hdrlen_def WLAN_FC_GET_TYPE_def WLAN_FC_GET_STYPE_def RTLLIB_QOS_HAS_SEQ_def frame_tid_def
  is_duplicate_packet_def dup_infra_def dup_check_def WLAN_GET_SEQ_SEQ_def WLAN_GET_SEQ_FRAG_def is_data_stype_def
  network_filter_def is_multicast_ether_addr_def is_broadcast_ether_addr_def parse_subframe_def

lemma ex_tsd: "iw_mode ex_dev = IW_MODE_INFRA" "dev_addr ex_dev = [0, 1, 2, 3, 4, 5]" "bssid ex_dev = [0, 9, 9, 9, 9, 9]"
  "skb_avail ex_dev" "bCurRxReorderEnable ex_dev" "qos_active ex_dev = 1" "bCurrentHTSupport ex_dev"
  by (simp_all add: ex_dev_def)

lemma ex_rx_fields: "tsd ex_rx_dev = ex_dev" "jiffies ex_rx_dev = 1000" "HZ ex_rx_dev = 250" "skb_fresh ex_rx_dev n = replicate n 0"
  "mtu ex_rx_dev = 1500" "last_rxseq_num ex_rx_dev = replicate 17 0xFFFF" "last_rxfrag_num ex_rx_dev = replicate 17 0xFFFF"
  "last_packet_time ex_rx_dev = replicate 17 0" "frag_cache ex_rx_dev = replicate 17 (replicate 4 ex_frag_entry)"
  "frag_next_idx ex_rx_dev = replicate 17 0" "\<not> host_decrypt ex_rx_dev" "\<not> open_wep ex_rx_dev" "netif ex_rx_dev = []"
  "sta_sleep ex_rx_dev = 0"
  by (simp_all add: ex_rx_dev_def)

lemma ex_rx_plain:
  "\<exists>d. rtllib_rx ex_ibss (ex_frame 0x0208 0x0120 [1, 2, 3]) False ex_rx_dev = Some (d, 1, True) \<and>
     netif d = [[0, 1, 2, 3, 4, 5, 0, 7, 7, 7, 7, 7, 0, 3, 1, 2, 3]]"
  by (simp add: ex_rx_eval ex_tsd ex_rx_fields rx_fragment_def rx_direct_def indicate_frame_def eth_frame_def be16_def)
     (simp add: ex_frame_def Let_def put16_def)



lemma ex_frame_mem: "sk_mem (ex_frame fc sc body) =
    put16 fc @ [0, 0, 0, 1, 2, 3, 4, 5, 0, 9, 9, 9, 9, 9, 0, 7, 7, 7, 7, 7] @ put16 sc @ body"
  by (simp add: ex_frame_def Let_def)

lemma rx_then_go: "f c d = Some (d1, c1, None) \<Longrightarrow> rx_then f g c d = g c1 d1"
  by (simp add: rx_then_def)

lemma rx_then_stop: "f c d = Some (d1, c1, Some out) \<Longrightarrow> rx_then f g c d = Some (d1, c1, Some out)"
  by (simp add: rx_then_def)

text \<open>The stages before the fragment cache, for a data frame of the example.\<close>

definition ex_ctx2 :: "u16 \<Rightarrow> u16 \<Rightarrow> u8 list \<Rightarrow> rx_ctx" where
  "ex_ctx2 fc sc body = (ex_ctx fc sc body)\<lparr>cx_crypt := Some 0, cx_dst := [0, 1, 2, 3, 4, 5], cx_src := [0, 7, 7, 7, 7, 7]\<rparr>"

lemma ex_before_fragment:
  assumes d: "tsd d = ex_dev" "host_decrypt d" "crypt d = replicate 4 (Some ex_key)" "sta_sleep d = 0"
    and fc: "fc = 0x0608 \<or> fc = 0x0208" and body: "4 \<le> length body" "drop_bit 6 (body ! 3) = 0"
    and dup: "is_duplicate_packet ex_ibss (ex_frame fc sc body) d = Some (d1, False)"
    and d1: "tsd d1 = ex_dev" "host_decrypt d1" "crypt d1 = replicate 4 (Some ex_key)" "sta_sleep d1 = 0"
  shows "rx_stages ex_ibss (rx_start (ex_frame fc sc body) False) d =
    rx_then rx_fragment (rx_then rx_decrypt_msdu (rx_then rx_plaintext (rx_then rx_stream rx_deliver))) (ex_ctx2 fc sc body) d1"
proof -
  let ?m = "ex_frame fc sc body"
  have "rx_header (rx_start ?m False) d = Some (d, ex_ctx fc sc body, None)"
    using fc by (auto simp: rx_header_def rx_start_def ex_ctx_def ex_frame_reads Let_def HTCCheck_def IsQoSDataFrame_def
        rtllib_get_hdrlen_def WLAN_FC_GET_TYPE_def RTLLIB_QOS_HAS_SEQ_def d ex_tsd)
  moreover have "rx_key (ex_ctx fc sc body) d = Some (d, (ex_ctx fc sc body)\<lparr>cx_crypt := Some 0\<rparr>, None)"
    using fc body by (auto simp: rx_key_def rx_start_def ex_ctx_def ex_frame_reads Let_def d ex_key_def rd8_def ex_frame_mem nth_append put16_def)
  moreover have "rx_duplicate ex_ibss ((ex_ctx fc sc body)\<lparr>cx_crypt := Some 0\<rparr>) d = Some (d1, (ex_ctx fc sc body)\<lparr>cx_crypt := Some 0\<rparr>, None)"
    using fc dup by (auto simp: rx_duplicate_def rx_plain_duplicate_def rx_start_def ex_ctx_def ex_frame_reads Let_def
        IsLegacyDataFrame_def IsDataFrame_def WLAN_FC_GET_TYPE_def)
  moreover have "rx_management ((ex_ctx fc sc body)\<lparr>cx_crypt := Some 0\<rparr>) d1 = Some (d1, (ex_ctx fc sc body)\<lparr>cx_crypt := Some 0\<rparr>, None)"
    using fc by (auto simp: rx_management_def ex_ctx_def WLAN_FC_GET_TYPE_def)
  moreover have "rx_addresses ((ex_ctx fc sc body)\<lparr>cx_crypt := Some 0\<rparr>) d1 = Some (d1, ex_ctx2 fc sc body, None)"
    using fc by (auto simp: rx_addresses_def ex_ctx_def ex_ctx2_def rx_start_def ex_frame_reads Let_def)
  moreover have "rx_filter (ex_ctx2 fc sc body) d1 = Some (d1, ex_ctx2 fc sc body, None)"
    using fc by (auto simp: rx_filter_def ex_ctx_def ex_ctx2_def rx_start_def ex_frame_reads is_data_stype_def WLAN_FC_GET_STYPE_def
        network_filter_def d1 ex_tsd is_multicast_ether_addr_def)
  moreover have "rx_pspoll (ex_ctx2 fc sc body) d1 = Some (d1, ex_ctx2 fc sc body, None)" by (simp add: rx_pspoll_def d1)
  moreover have "rx_decrypt (ex_ctx2 fc sc body) d1 = Some (d1, ex_ctx2 fc sc body, None)"
    using fc by (auto simp: rx_decrypt_def ex_ctx2_def ex_ctx_def)
  ultimately show ?thesis by (simp add: rx_stages_def rx_body_def rx_then_go)
qed

lemma ex_no_plaintext:
  assumes "tsd d = ex_dev" "\<not> open_wep d" "skb_wf s" "take (24 + length body) (skb_frame s) = sk_mem (ex_frame 0x0608 sc0 body)"
    and "8 \<le> length body" "body ! 6 = 7" "cx_m c = s" "cx_crypt c = Some 0" "cx_fc c = 0x0208" "cx_hdrlen c = 24"
  shows "rx_plaintext c d = Some (d\<lparr>NumRecvDataInPeriod := NumRecvDataInPeriod d + 1, NumRxOkInPeriod := NumRxOkInPeriod d + 1\<rparr>, c, Some RX_DROPPED)"
proof -
  let ?m = "ex_frame 0x0608 sc0 body"
  have "length (sk_mem ?m) = 24 + length body" by (simp add: ex_frame_mem)
  then have len: "24 + length body \<le> sk_len s"
    using arg_cong[OF assms(4), of length] assms(3) by (simp add: skb_frame_def skb_wf_def min_def split: if_splits)
  have mem: "sk_mem s ! i = sk_mem ?m ! i" if "i < 24 + length body" for i
    using arg_cong[OF assms(4), of "\<lambda>l. l ! i"] that len by (simp add: skb_frame_def min_absorb1)
  have mlen: "32 \<le> length (sk_mem s)" using len assms(3,5) by (simp add: skb_wf_def)
  have r: "rd16 s 0 = Some 0x0608"
    using mem[of 0] mem[of 1] mlen le16_put16[of "0x0608"] by (simp add: rd16_inside ex_frame_mem nth_append put16_def)
  have a: "rdn s 4 6 \<noteq> None" "rdn s 16 6 \<noteq> None" using mlen by (simp_all add: rdn_def)
  have "sk_mem s ! 30 = 7" using mem[of 30] assms(5,6) by (simp add: ex_frame_mem nth_append)
  then have "rtllib_is_eapol_frame ex_dev s 24 = Some False"
    using r a len mlen assms(5) by (auto simp: rtllib_is_eapol_frame_def rd8_def Let_def)
  then show ?thesis using assms by (simp add: rx_plaintext_def Let_def)
qed


end
