(* ===== verification/Crypt_Data.thy ===== *)
theory Crypt_Data
  imports Frame
begin

text \<open>
  What the three encryption modules rtllib_crypt_wep.c, rtllib_crypt_ccmp.c and
  rtllib_crypt_tkip.c under src/src share: the buffer with its headroom, the moves of the
  frame header, byte-wise exclusive or and comparison, and the two contracts of the table
  of operations in rtllib_crypt.h, as locales: what one station encrypts the other one
  decrypts, and numbers of accepted frames grow.
\<close>

section \<open>Buffers\<close>

text \<open>The headroom is the space before the data pointer, the tailroom that behind the frame.\<close>

record cskb = skb +
  sk_headroom :: nat

definition skb_tailroom :: "'a skb_scheme \<Rightarrow> nat" where
  "skb_tailroom s = length (sk_mem s) - sk_len s"

text \<open>
  Pushing the data pointer, moving the header of length \<open>at\<close> to the front and writing the
  bytes \<open>bs\<close> into the gap; and the reverse, which drops \<open>n\<close> bytes behind the header.
\<close>

definition insert_gap :: "nat \<Rightarrow> u8 list \<Rightarrow> cskb \<Rightarrow> cskb" where
  "insert_gap at bs s = s\<lparr>sk_mem := take at (sk_mem s) @ bs @ drop at (sk_mem s),
     sk_len := sk_len s + length bs, sk_headroom := sk_headroom s - length bs\<rparr>"

definition remove_gap :: "nat \<Rightarrow> nat \<Rightarrow> cskb \<Rightarrow> cskb" where
  "remove_gap at n s = s\<lparr>sk_mem := take at (sk_mem s) @ drop (at + n) (sk_mem s),
     sk_len := sk_len s - n, sk_headroom := sk_headroom s + n\<rparr>"

text \<open>Writing bytes at an offset, extending the frame at its end, and cutting it.\<close>

definition wr :: "nat \<Rightarrow> u8 list \<Rightarrow> cskb \<Rightarrow> cskb" where
  "wr i bs s = s\<lparr>sk_mem := take i (sk_mem s) @ bs @ drop (i + length bs) (sk_mem s)\<rparr>"

definition skb_put :: "nat \<Rightarrow> cskb \<Rightarrow> cskb" where
  "skb_put n s = s\<lparr>sk_len := sk_len s + n\<rparr>"

definition skb_trim :: "nat \<Rightarrow> cskb \<Rightarrow> cskb" where
  "skb_trim n s = (if n < sk_len s then s\<lparr>sk_len := n\<rparr> else s)"

text \<open>The bytes of the frame from an offset on.\<close>

definition payload_from :: "nat \<Rightarrow> 'a skb_scheme \<Rightarrow> u8 list" where
  "payload_from i s = drop i (skb_frame s)"

text \<open>What the operations do to the frame, the bytes up to its length.\<close>

lemma length_frame [simp]: "skb_wf f \<Longrightarrow> length (skb_frame f) = sk_len f"
  by (simp add: skb_wf_def skb_frame_def)

lemma frame_insert_gap:
  "skb_wf f \<Longrightarrow> at \<le> sk_len f \<Longrightarrow> skb_frame (insert_gap at bs f) = take at (skb_frame f) @ bs @ drop at (skb_frame f)"
  by (simp add: skb_frame_def skb_wf_def insert_gap_def drop_take min.absorb1 min.absorb2)

lemma wf_insert_gap: "skb_wf f \<Longrightarrow> skb_wf (insert_gap at bs f)"
  by (auto simp: skb_wf_def insert_gap_def min_def)

lemma frame_remove_gap:
  "skb_wf f \<Longrightarrow> at + n \<le> sk_len f \<Longrightarrow> skb_frame (remove_gap at n f) = take at (skb_frame f) @ drop (at + n) (skb_frame f)"
  by (simp add: skb_frame_def skb_wf_def remove_gap_def drop_take min.absorb1 min.absorb2 add.commute)

lemma wf_remove_gap: "skb_wf f \<Longrightarrow> at + n \<le> sk_len f \<Longrightarrow> skb_wf (remove_gap at n f)"
  by (auto simp: skb_wf_def remove_gap_def min_def)

lemma frame_trim: "skb_frame (skb_trim n f) = take n (skb_frame f)"
  by (simp add: skb_frame_def skb_trim_def min_def)

lemma frame_wr_put:
  "skb_wf f \<Longrightarrow> n \<le> skb_tailroom f \<Longrightarrow> i + length bs = sk_len f + n \<Longrightarrow> i \<le> sk_len f \<Longrightarrow>
     skb_frame (wr i bs (skb_put n f)) = take i (skb_frame f) @ bs"
  by (simp add: skb_frame_def skb_wf_def wr_def skb_put_def drop_take min.absorb1 min.absorb2)

lemma wf_wr: "skb_wf f \<Longrightarrow> i + length bs \<le> length (sk_mem f) \<Longrightarrow> skb_wf (wr i bs f)"
  by (auto simp: skb_wf_def wr_def min_def)

lemma length_wr [simp]: "i + length bs \<le> length (sk_mem f) \<Longrightarrow> length (sk_mem (wr i bs f)) = length (sk_mem f)"
  by (simp add: wr_def)

lemma frame_wr:
  "skb_wf f \<Longrightarrow> i + length bs \<le> sk_len f \<Longrightarrow>
     skb_frame (wr i bs f) = take i (skb_frame f) @ bs @ drop (i + length bs) (skb_frame f)"
  by (simp add: skb_frame_def skb_wf_def wr_def drop_take min.absorb1 min.absorb2)

lemma len_ops [simp]:
  "sk_len (insert_gap at bs f) = sk_len f + length bs" "sk_len (remove_gap at n f) = sk_len f - n"
  "sk_len (wr i bs f) = sk_len f" "sk_len (skb_put n f) = sk_len f + n"
  by (simp_all add: insert_gap_def remove_gap_def wr_def skb_put_def)

lemma tailroom_insert_gap [simp]: "at \<le> length (sk_mem f) \<Longrightarrow> skb_tailroom (insert_gap at bs f) = skb_tailroom f"
  by (simp add: skb_tailroom_def insert_gap_def min_def)

text \<open>A frame with a header of the given length and enough room to be encrypted.\<close>

definition can_send :: "nat \<Rightarrow> nat \<Rightarrow> nat \<Rightarrow> cskb \<Rightarrow> bool" where
  "can_send hdr_len head tail f \<longleftrightarrow>
     skb_wf f \<and> hdr_len \<le> sk_len f \<and> head \<le> sk_headroom f \<and> tail \<le> skb_tailroom f"

definition put32 :: "u32 \<Rightarrow> u8 list" where
  "put32 w = [ucast w, ucast (drop_bit 8 w), ucast (drop_bit 16 w), ucast (drop_bit 24 w)]"

lemma length_put32 [simp]: "length (put32 w) = 4"
  by (simp add: put32_def)

lemma rdn_frame:
  "skb_wf f \<Longrightarrow> i + n \<le> sk_len f \<Longrightarrow> rdn f i n = Some (take n (drop i (skb_frame f)))"
  by (simp add: rdn_def skb_wf_def skb_frame_def drop_take)

lemma rd8_frame: "skb_wf f \<Longrightarrow> i < sk_len f \<Longrightarrow> rd8 f i = Some (skb_frame f ! i)"
  by (simp add: rd8_def skb_wf_def skb_frame_def)

lemma rd16_frame: "skb_wf f \<Longrightarrow> Suc i < sk_len f \<Longrightarrow> rd16 f i = Some (le16 (skb_frame f ! i) (skb_frame f ! Suc i))"
  by (simp add: rd16_def rd8_frame)

section \<open>Bytes\<close>

text \<open>The first \<open>len\<close> bytes of \<open>b\<close> are combined with those of \<open>a\<close>.\<close>

definition xor_block :: "u8 list \<Rightarrow> u8 list \<Rightarrow> nat \<Rightarrow> u8 list" where
  "xor_block b a len = map2 (XOR) (take len b) (take len a) @ drop len b"

lemma length_xor_block [simp]: "len \<le> length b \<Longrightarrow> len \<le> length a \<Longrightarrow> length (xor_block b a len) = length b"
  by (simp add: xor_block_def)

lemma map2_xor_cancel: "length a \<le> length e \<Longrightarrow> map2 (XOR) (map2 (XOR) a e) e = (a :: 'b::len word list)"
proof (induction a arbitrary: e)
  case (Cons x a)
  then obtain y e' where "e = y # e'" by (cases e) auto
  with Cons show ?case by (simp add: xor.assoc)
qed simp

lemma take_xor_block: "len \<le> length b \<Longrightarrow> len \<le> length a \<Longrightarrow> take len (xor_block b a len) = map2 (XOR) (take len b) (take len a)"
  by (simp add: xor_block_def)

lemma xor_block_cancel:
  assumes "len \<le> length b" "len \<le> length a"
  shows "xor_block (xor_block b a len) a len = b"
proof -
  have "xor_block (xor_block b a len) a len = map2 (XOR) (map2 (XOR) (take len b) (take len a)) (take len a) @ drop len b"
    using assms by (simp add: xor_block_def)
  also have "\<dots> = b" using assms by (simp add: map2_xor_cancel)
  finally show ?thesis .
qed

lemma key_idx_shift: "k < 4 \<Longrightarrow> drop_bit 6 (push_bit 6 k) = (k :: u8)"
proof -
  assume "k < 4"
  then have "k = 0 \<or> k = 1 \<or> k = 2 \<or> k = 3" by unat_arith
  then show ?thesis by auto
qed

text \<open>The comparison \<open>memcmp a b n \<le> 0\<close> of two strings of the same length.\<close>

fun memcmp_le :: "u8 list \<Rightarrow> u8 list \<Rightarrow> bool" where
  "memcmp_le (x # xs) (y # ys) \<longleftrightarrow> x < y \<or> x = y \<and> memcmp_le xs ys"
| "memcmp_le _ _ \<longleftrightarrow> True"

definition be_nat :: "u8 list \<Rightarrow> nat" where
  "be_nat xs = foldl (\<lambda>n b. 256 * n + unat b) 0 xs"

lemma foldl_be: "foldl (\<lambda>n b. 256 * n + unat b) n xs = n * 256 ^ length xs + be_nat (xs :: u8 list)"
proof (induction xs arbitrary: n)
  case (Cons x xs)
  have "foldl (\<lambda>n b. 256 * n + unat b) n (x # xs) = (256 * n + unat x) * 256 ^ length xs + be_nat xs"
    using Cons.IH[of "256 * n + unat x"] by simp
  moreover have "be_nat (x # xs) = unat x * 256 ^ length xs + be_nat xs"
    using Cons.IH[of "unat x"] by (simp add: be_nat_def)
  ultimately show ?case by (simp add: algebra_simps)
qed (simp add: be_nat_def)

lemma be_nat_Nil [simp]: "be_nat [] = 0"
  by (simp add: be_nat_def)

lemma be_nat_Cons [simp]: "be_nat (x # xs) = unat x * 256 ^ length xs + be_nat xs"
  using foldl_be[of "unat x" xs] by (simp add: be_nat_def)

lemma be_nat_zeros [simp]: "be_nat (replicate n 0) = 0"
  by (induction n) simp_all

lemma be_nat_append: "be_nat (xs @ ys) = be_nat xs * 256 ^ length ys + be_nat ys"
  by (induction xs) (simp_all add: algebra_simps power_add)

lemma be_nat_bound: "be_nat xs < 256 ^ length xs"
proof (induction xs)
  case (Cons x xs)
  have "unat x < 2 ^ LENGTH(8)" by (rule unsigned_less)
  then have "Suc (unat x) * 256 ^ length xs \<le> 256 * 256 ^ length xs"
    by (intro mult_le_mono1) simp
  then have "unat x * 256 ^ length xs + 256 ^ length xs \<le> 256 ^ length (x # xs)"
    by (simp only: mult_Suc length_Cons power_Suc add.commute)
  moreover have "be_nat (x # xs) = unat x * 256 ^ length xs + be_nat xs" by simp
  ultimately show ?case using Cons by linarith
qed simp

lemma memcmp_le_iff:
  "length xs = length ys \<Longrightarrow> memcmp_le xs ys \<longleftrightarrow> be_nat xs \<le> be_nat ys"
proof (induction xs ys rule: memcmp_le.induct)
  case (1 x xs y ys)
  let ?k = "256 ^ length xs :: nat"
  have b: "be_nat xs < ?k" "be_nat ys < ?k" using be_nat_bound[of xs] be_nat_bound[of ys] 1 by simp_all
  consider "unat x < unat y" | "unat x = unat y" | "unat y < unat x" by linarith
  then show ?case
  proof cases
    assume "unat x < unat y"
    then have "Suc (unat x) * ?k \<le> unat y * ?k" by (intro mult_le_mono1) simp
    with b 1 \<open>unat x < unat y\<close> show ?thesis by (simp add: word_less_nat_alt)
  next
    assume "unat x = unat y"
    then have "x = y" by (rule unsigned_word_eqI)
    then show ?thesis using 1 by simp
  next
    assume "unat y < unat x"
    then have "Suc (unat y) * ?k \<le> unat x * ?k" by (intro mult_le_mono1) simp
    with b 1 \<open>unat y < unat x\<close> show ?thesis by (auto simp add: word_less_nat_alt)
  qed
qed auto

section \<open>Allocation of the contexts\<close>

text \<open>
  The initialisation functions allocate the record and then one cipher context after the
  other and stop at the first failure, after which they free what they have. \<open>live\<close> counts
  the objects that are allocated; the list tells which of the allocations succeed.
\<close>

fun alloc_contexts :: "bool list \<Rightarrow> nat \<Rightarrow> nat \<Rightarrow> nat \<times> bool" where
  "alloc_contexts [] got live = (live + got, True)"
| "alloc_contexts (ok # oks) got live = (if ok then alloc_contexts oks (Suc got) live else (live, False))"

section \<open>Contracts\<close>

text \<open>
  One station encrypts frames with \<open>enc\<close> and its state, the other decrypts them with
  \<open>dec\<close>; between them the bytes of the frame travel, not the buffer. \<open>sync n\<close> relates two
  states from which at least \<open>n\<close> more frames can be sent, \<open>ok\<close> are the frames that can be sent.
\<close>

text \<open>A run: the list has the frame to send and the buffer in which it arrives.\<close>

type_synonym 's crypt_op = "cskb \<Rightarrow> 's \<Rightarrow> (cskb \<times> 's \<times> int) option"

fun channel_run :: "'s crypt_op \<Rightarrow> 'r crypt_op \<Rightarrow> (cskb \<times> (u8 list \<Rightarrow> cskb)) list \<Rightarrow> 's \<Rightarrow> 'r \<Rightarrow> (u8 list \<times> int) list option" where
  "channel_run enc dec [] s r = Some []"
| "channel_run enc dec ((f, rx) # fs) s r = do {
     (g, s1, _) \<leftarrow> enc f s;
     (h, r1, e) \<leftarrow> dec (rx (skb_frame g)) r;
     rest \<leftarrow> channel_run enc dec fs s1 r1;
     Some ((skb_frame h, e) # rest) }"

definition carries :: "(u8 list \<Rightarrow> cskb) \<Rightarrow> bool" where
  "carries rx \<longleftrightarrow> (\<forall>bs. skb_wf (rx bs) \<and> skb_frame (rx bs) = bs)"

text \<open>A buffer for examples, with room on both sides, and the plain receive buffer.\<close>

definition ex_cskb :: "u8 list \<Rightarrow> cskb" where
  "ex_cskb bs = \<lparr>sk_mem = bs @ replicate 16 0, sk_len = length bs, sk_headroom = 16\<rparr>"

definition ex_rx_buffer :: "u8 list \<Rightarrow> cskb" where
  "ex_rx_buffer bs = \<lparr>sk_mem = bs, sk_len = length bs, sk_headroom = 0\<rparr>"

lemma carries_rx_buffer [simp]: "carries ex_rx_buffer"
  by (simp add: carries_def ex_rx_buffer_def skb_wf_def skb_frame_def)

lemma ex_cskb_simps [simp]:
  "skb_wf (ex_cskb bs)" "skb_frame (ex_cskb bs) = bs" "sk_len (ex_cskb bs) = length bs"
  "sk_headroom (ex_cskb bs) = 16" "skb_tailroom (ex_cskb bs) = 16"
  by (simp_all add: ex_cskb_def skb_wf_def skb_frame_def skb_tailroom_def)

locale cipher_channel =
  fixes enc :: "'s crypt_op"
    and dec :: "'r crypt_op"
    and sync :: "nat \<Rightarrow> 's \<Rightarrow> 'r \<Rightarrow> bool"
    and ok :: "cskb \<Rightarrow> bool"
  assumes sends: "sync (Suc n) s r \<Longrightarrow> ok f \<Longrightarrow> \<exists>g s'. enc f s = Some (g, s', 0)"
    and delivers: "sync (Suc n) s r \<Longrightarrow> ok f \<Longrightarrow> enc f s = Some (g, s', 0) \<Longrightarrow> skb_wf g' \<Longrightarrow> skb_frame g' = skb_frame g \<Longrightarrow>
      \<exists>h r' e. dec g' r = Some (h, r', e) \<and> 0 \<le> e \<and> skb_frame h = skb_frame f \<and> sync n s' r'"
begin

lemma channel_delivers:
  "sync (length fs) s r \<Longrightarrow> \<forall>(f, rx) \<in> set fs. ok f \<and> carries rx \<Longrightarrow>
     \<exists>out. channel_run enc dec fs s r = Some out \<and> map fst out = map (skb_frame \<circ> fst) fs \<and> (\<forall>(_, e) \<in> set out. 0 \<le> e)"
proof (induction fs arbitrary: s r)
  case (Cons p fs)
  obtain f rx where p: "p = (f, rx)" by fastforce
  then have ok: "ok f" "carries rx" using Cons.prems by auto
  have sy: "sync (Suc (length fs)) s r" using Cons.prems(1) by simp
  obtain g s1 where e: "enc f s = Some (g, s1, 0)" using sends[OF sy ok(1)] by blast
  obtain h r1 c where d: "dec (rx (skb_frame g)) r = Some (h, r1, c)" "0 \<le> c" "skb_frame h = skb_frame f" "sync (length fs) s1 r1"
    using delivers[OF sy ok(1) e] ok(2) unfolding carries_def by blast
  with Cons.IH[of s1 r1] Cons.prems(2) show ?case by (auto simp: p e d)
qed simp

end

text \<open>
  A receiver with a counter: a frame that is accepted has a greater number than all before,
  and moves the counter to its number; other frames leave the counter alone.
\<close>

fun accepted :: "'r crypt_op \<Rightarrow> (cskb \<Rightarrow> nat) \<Rightarrow> cskb list \<Rightarrow> 'r \<Rightarrow> nat list" where
  "accepted dec num [] r = []"
| "accepted dec num (f # fs) r =
     (case dec f r of
        None \<Rightarrow> []
      | Some (h, r1, e) \<Rightarrow> if 0 \<le> e then num f # accepted dec num fs r1 else accepted dec num fs r1)"

locale replay_counter =
  fixes dec :: "'r crypt_op"
    and num :: "cskb \<Rightarrow> nat"
    and last :: "'r \<Rightarrow> nat"
    and inv :: "'r \<Rightarrow> bool"
  assumes accepts: "inv r \<Longrightarrow> dec f r = Some (h, r', e) \<Longrightarrow> 0 \<le> e \<Longrightarrow> last r < num f \<and> last r' = num f"
    and refuses: "inv r \<Longrightarrow> dec f r = Some (h, r', e) \<Longrightarrow> e < 0 \<Longrightarrow> last r' = last r"
    and keeps: "inv r \<Longrightarrow> dec f r = Some (h, r', e) \<Longrightarrow> inv r'"
begin

lemma accepted_above: "inv r \<Longrightarrow> \<forall>n \<in> set (accepted dec num fs r). last r < n"
proof (induction fs arbitrary: r)
  case (Cons f fs)
  show ?case
  proof (cases "dec f r")
    case (Some x)
    then obtain h r1 e where d: "dec f r = Some (h, r1, e)" by (metis surj_pair)
    show ?thesis
    using Cons.IH[of r1] keeps[OF Cons.prems d] accepts[OF Cons.prems d] refuses[OF Cons.prems d]
    by (fastforce simp: d)
  qed simp
qed simp

lemma accepted_increasing: "inv r \<Longrightarrow> sorted_wrt (<) (accepted dec num fs r)"
proof (induction fs arbitrary: r)
  case (Cons f fs)
  show ?case
  proof (cases "dec f r")
    case (Some x)
    then obtain h r1 e where d: "dec f r = Some (h, r1, e)" by (metis surj_pair)
    show ?thesis
    using Cons.IH[of r1] keeps[OF Cons.prems d] accepts[OF Cons.prems d] accepted_above[of r1 fs]
    by (auto simp: d)
  qed simp
qed simp

end

end
