(* ===== verification/Crypt_WEP.thy ===== *)
theory Crypt_WEP
  imports Crypt_Data
begin

text \<open>
  The WEP module src/src/rtllib_crypt_wep.c. The kernel's \<open>crc32_le\<close> and the two directions
  of its arc4 cipher are parameters: a cipher takes a key and the data and returns the data
  and an error code. The flag \<open>bHwSec\<close> of the control block of the buffer says that the
  device encrypts.
\<close>

section \<open>The module\<close>

type_synonym skcipher = "u8 list \<Rightarrow> u8 list \<Rightarrow> u8 list \<times> int"
type_synonym crc_fun = "u32 \<Rightarrow> u8 list \<Rightarrow> u32"

record prism2_wep_data =
  wep_iv :: u32
  wep_key :: "u8 list"
  wep_key_len :: u8
  wep_key_idx :: u8

definition prism2_wep_init :: "bool list \<Rightarrow> u32 \<Rightarrow> int \<Rightarrow> nat \<Rightarrow> nat \<times> prism2_wep_data option" where
  "prism2_wep_init allocs random keyidx live =
     (case alloc_contexts (take 3 allocs) 0 live of
        (live', True) \<Rightarrow> (live', Some \<lparr>wep_iv = random, wep_key = replicate 14 0, wep_key_len = 0, wep_key_idx = word_of_int keyidx\<rparr>)
      | (live', False) \<Rightarrow> (live', None))"

text \<open>The weak initial vectors are those whose second byte is 0xff and whose first byte is the index of a key byte.\<close>

definition wep_next_iv :: "u32 \<Rightarrow> u32 \<Rightarrow> u32" where
  "wep_next_iv klen iv0 =
     (let iv = iv0 + 1; B = ucast (drop_bit 16 iv AND 0xff) :: u8
      in if iv AND 0xff00 = 0xff00 \<and> 3 \<le> B \<and> ucast B < klen then iv + 0x0100 else iv)"

definition wep_iv_bytes :: "u32 \<Rightarrow> u8 list" where
  "wep_iv_bytes iv = [ucast (drop_bit 16 iv AND 0xff), ucast (drop_bit 8 iv AND 0xff), ucast (iv AND 0xff)]"

text \<open>The key of the cipher: the initial vector and the secret part.\<close>

definition wep_seed :: "u8 list \<Rightarrow> prism2_wep_data \<Rightarrow> u8 list" where
  "wep_seed iv3 wep = iv3 @ take (unat (wep_key_len wep)) (wep_key wep)"

definition wep_icv :: "crc_fun \<Rightarrow> u8 list \<Rightarrow> u8 list" where
  "wep_icv crc32_le data = put32 (NOT (crc32_le (NOT 0) data))"

definition prism2_wep_encrypt ::
    "crc_fun \<Rightarrow> skcipher \<Rightarrow> bool \<Rightarrow> nat \<Rightarrow> cskb \<Rightarrow> prism2_wep_data \<Rightarrow> cskb \<times> prism2_wep_data \<times> int" where
  "prism2_wep_encrypt crc32_le arc4 bHwSec hdr_len f wep =
     (if sk_headroom f < 4 \<or> skb_tailroom f < 4 \<or> sk_len f < hdr_len then (f, wep, - 1)
      else
        let iv = wep_next_iv (3 + ucast (wep_key_len wep)) (wep_iv wep);
            wep1 = wep\<lparr>wep_iv := iv\<rparr>;
            iv3 = wep_iv_bytes iv;
            f1 = insert_gap hdr_len (iv3 @ [push_bit 6 (wep_key_idx wep)]) f
        in if bHwSec then (f1, wep1, 0)
           else
             let data = payload_from (hdr_len + 4) f1;
                 (c, err) = arc4 (wep_seed iv3 wep) (data @ wep_icv crc32_le data)
             in (wr (hdr_len + 4) c (skb_put 4 f1), wep1, err))"

definition prism2_wep_decrypt ::
    "crc_fun \<Rightarrow> skcipher \<Rightarrow> bool \<Rightarrow> nat \<Rightarrow> cskb \<Rightarrow> prism2_wep_data \<Rightarrow> cskb \<times> prism2_wep_data \<times> int" where
  "prism2_wep_decrypt crc32_le arc4 bHwSec hdr_len f wep =
     (if sk_len f < hdr_len + 8 then (f, wep, - 1)
      else
        let iv3 = take 3 (payload_from hdr_len f);
            keyidx = drop_bit 6 (payload_from hdr_len f ! 3);
            plen = sk_len f - hdr_len - 8
        in if keyidx \<noteq> wep_key_idx wep then (f, wep, - 1)
           else if bHwSec then (let g = remove_gap hdr_len 4 f in (skb_trim (sk_len g - 4) g, wep, 0))
           else
             let (p, err) = arc4 (wep_seed iv3 wep) (payload_from (hdr_len + 4) f);
                 f1 = wr (hdr_len + 4) p f
             in if err \<noteq> 0 then (f1, wep, - 7)
                else if wep_icv crc32_le (take plen p) \<noteq> take 4 (drop plen p) then (f1, wep, - 2)
                else (let g = remove_gap hdr_len 4 f1 in (skb_trim (sk_len g - 4) g, wep, 0)))"

definition prism2_wep_set_key :: "u8 list \<Rightarrow> int \<Rightarrow> prism2_wep_data \<Rightarrow> prism2_wep_data \<times> int" where
  "prism2_wep_set_key key len wep =
     (if len < 0 \<or> len > 13 then (wep, - 1)
      else (wep\<lparr>wep_key := take (nat len) key @ drop (nat len) (wep_key wep), wep_key_len := word_of_int len\<rparr>, 0))"

text \<open>The bytes that are copied to the caller and the result.\<close>

definition prism2_wep_get_key :: "int \<Rightarrow> prism2_wep_data \<Rightarrow> u8 list \<times> int" where
  "prism2_wep_get_key len wep =
     (if len < uint (wep_key_len wep) then ([], - 1)
      else (take (unat (wep_key_len wep)) (wep_key wep), uint (wep_key_len wep)))"

section \<open>Encryption and decryption\<close>

text \<open>What the kernel's arc4 promises: with one key the two directions are inverse.\<close>

definition skcipher_ok :: "skcipher \<Rightarrow> skcipher \<Rightarrow> bool" where
  "skcipher_ok e d \<longleftrightarrow> (\<forall>k p. k \<noteq> [] \<and> length k \<le> 256 \<longrightarrow>
     (\<exists>c. e k p = (c, 0) \<and> length c = length p \<and> d k c = (p, 0)))"

definition wep_sync :: "skcipher \<Rightarrow> skcipher \<Rightarrow> prism2_wep_data \<Rightarrow> prism2_wep_data \<Rightarrow> bool" where
  "wep_sync e d s r \<longleftrightarrow> skcipher_ok e d \<and> wep_key_len s \<le> 13 \<and> wep_key_len r = wep_key_len s \<and>
     take (unat (wep_key_len s)) (wep_key r) = take (unat (wep_key_len s)) (wep_key s) \<and>
     wep_key_idx s < 4 \<and> wep_key_idx r = wep_key_idx s"

lemma wep_encrypt_frame:
  assumes ok: "can_send hl 4 4 f" and ck: "skcipher_ok e d" and l: "wep_key_len s \<le> 13"
    and run: "prism2_wep_encrypt crc e False hl f s = (g, s', err)"
  obtains iv c where "length iv = 3" "length c = sk_len f - hl + 4"
    "iv = wep_iv_bytes (wep_next_iv (3 + ucast (wep_key_len s)) (wep_iv s))" "d (wep_seed iv s) c = (drop hl (skb_frame f) @ wep_icv crc (drop hl (skb_frame f)), 0)"
    "skb_frame g = take hl (skb_frame f) @ iv @ [push_bit 6 (wep_key_idx s)] @ c" "err = 0"
    "s' = s\<lparr>wep_iv := wep_next_iv (3 + ucast (wep_key_len s)) (wep_iv s)\<rparr>"
proof -
  define iv where "iv = wep_next_iv (3 + ucast (wep_key_len s)) (wep_iv s)"
  define iv3 where "iv3 = wep_iv_bytes iv"
  define f1 where "f1 = insert_gap hl (iv3 @ [push_bit 6 (wep_key_idx s)]) f"
  define D where "D = drop hl (skb_frame f)"
  define key where "key = wep_seed iv3 s"
  have wf: "skb_wf f" "hl \<le> sk_len f" "4 \<le> sk_headroom f" "4 \<le> skb_tailroom f"
    using ok by (auto simp: can_send_def)
  have f1: "skb_frame f1 = take hl (skb_frame f) @ iv3 @ [push_bit 6 (wep_key_idx s)] @ D" "skb_wf f1"
    using wf by (simp_all add: f1_def frame_insert_gap wf_insert_gap D_def)
  have i3: "length iv3 = 3" by (simp add: iv3_def wep_iv_bytes_def)
  have pl: "payload_from (hl + 4) f1 = D"
    using wf i3 by (simp add: payload_from_def f1)
  have "unat (wep_key_len s) \<le> 13" using l by (simp add: word_le_nat_alt)
  then have "key \<noteq> []" "length key \<le> 256" using i3 by (auto simp: key_def wep_seed_def)
  then obtain c where c: "e key (D @ wep_icv crc D) = (c, 0)" "length c = length (D @ wep_icv crc D)" "d key c = (D @ wep_icv crc D, 0)"
    using ck unfolding skcipher_ok_def by blast
  have lD: "length D = sk_len f - hl" using wf by (simp add: D_def)
  have "hl \<le> length (sk_mem f)" using wf by (simp add: skb_wf_def)
  then have "skb_frame (wr (hl + 4) c (skb_put 4 f1)) = take (hl + 4) (skb_frame f1) @ c"
    using wf i3 lD c(2) f1(2) by (intro frame_wr_put) (simp_all add: f1_def wep_icv_def)
  also have "take (hl + 4) (skb_frame f1) = take hl (skb_frame f) @ iv3 @ [push_bit 6 (wep_key_idx s)]"
    using wf i3 by (simp add: f1 min_def)
  finally have fr: "skb_frame (wr (hl + 4) c (skb_put 4 f1)) = take hl (skb_frame f) @ iv3 @ [push_bit 6 (wep_key_idx s)] @ c"
    by simp
  have "g = wr (hl + 4) c (skb_put 4 f1)" "err = 0" "s' = s\<lparr>wep_iv := iv\<rparr>"
    using run wf pl c(1) unfolding key_def iv3_def f1_def iv_def
    by (simp_all add: prism2_wep_encrypt_def Let_def)
  with fr c lD i3 show thesis
    by (intro that[of iv3 c]) (simp_all add: D_def key_def iv_def iv3_def wep_icv_def)
qed

lemma wep_decrypt_frame:
  assumes g: "skb_wf g" "skb_frame g = H @ iv @ [b] @ c" "length H = hl" "length iv = 3"
    and b: "drop_bit 6 b = wep_key_idx r"
    and dc: "d (wep_seed iv r) c = (D @ wep_icv crc D, 0)" "length c = length D + 4"
    and run: "prism2_wep_decrypt crc d False hl g r = (h, r', err)"
  shows "skb_frame h = H @ D \<and> r' = r \<and> err = 0"
proof -
  have len: "sk_len g = hl + length D + 8"
    using g dc(2) length_frame[OF g(1)] by simp
  have pl: "take 3 (payload_from hl g) = iv" "payload_from hl g ! 3 = b" "payload_from (hl + 4) g = c"
    using g by (simp_all add: payload_from_def nth_append)
  have tk: "take (length D) (D @ wep_icv crc D) = D" "take 4 (drop (length D) (D @ wep_icv crc D)) = wep_icv crc D"
    by (simp_all add: wep_icv_def)
  define f1 where "f1 = wr (hl + 4) (D @ wep_icv crc D) g"
  have f1: "skb_frame f1 = H @ iv @ [b] @ D @ wep_icv crc D" "skb_wf f1" "sk_len f1 = sk_len g"
    using g len dc(2) by (simp_all add: f1_def frame_wr wep_icv_def skb_wf_def)
  have "h = skb_trim (sk_len g - 4 - 4) (remove_gap hl 4 f1)" "r' = r" "err = 0"
    using run len pl tk b dc(1) unfolding f1_def
    by (simp_all add: prism2_wep_decrypt_def Let_def)
  moreover have "skb_frame (remove_gap hl 4 f1) = H @ D @ wep_icv crc D"
    using f1 len g by (simp add: frame_remove_gap)
  ultimately show ?thesis using len g by (simp add: frame_trim)
qed

text \<open>The two operations are a channel, for every checksum and cipher.\<close>

abbreviation wep_enc where "wep_enc crc e hl f s \<equiv> Some (prism2_wep_encrypt crc e False hl f s)"
abbreviation wep_dec where "wep_dec crc d hl f r \<equiv> Some (prism2_wep_decrypt crc d False hl f r)"

interpretation wep: cipher_channel "wep_enc crc e hl" "wep_dec crc d hl" "\<lambda>_. wep_sync e d" "can_send hl 4 4" for crc e d hl
proof (unfold_locales, goal_cases)
  case (1 n s r f)
  obtain g s' err where run: "prism2_wep_encrypt crc e False hl f s = (g, s', err)" by (metis surj_pair)
  moreover have "skcipher_ok e d" "wep_key_len s \<le> 13" using 1 by (auto simp: wep_sync_def)
  ultimately have "err = 0" using wep_encrypt_frame[OF 1(2) _ _ run] by blast
  then show ?case using run by blast
next
  case (2 n s r f g s' g')
  then have sy: "skcipher_ok e d" "wep_key_len s \<le> 13" "wep_key_len r = wep_key_len s" "wep_key_idx s < 4" "wep_key_idx r = wep_key_idx s"
    "take (unat (wep_key_len s)) (wep_key r) = take (unat (wep_key_len s)) (wep_key s)"
    by (auto simp: wep_sync_def)
  have run: "prism2_wep_encrypt crc e False hl f s = (g, s', 0)" using 2(3) by simp
  obtain iv c where x: "length iv = 3" "length c = sk_len f - hl + 4"
    "iv = wep_iv_bytes (wep_next_iv (3 + ucast (wep_key_len s)) (wep_iv s))"
    "d (wep_seed iv s) c = (drop hl (skb_frame f) @ wep_icv crc (drop hl (skb_frame f)), 0)"
    "skb_frame g = take hl (skb_frame f) @ iv @ [push_bit 6 (wep_key_idx s)] @ c"
    "s' = s\<lparr>wep_iv := wep_next_iv (3 + ucast (wep_key_len s)) (wep_iv s)\<rparr>"
    using wep_encrypt_frame[OF 2(2) sy(1,2) run] by blast
  obtain h r' err' where dec: "prism2_wep_decrypt crc d False hl g' r = (h, r', err')" by (metis surj_pair)
  have f: "skb_wf f" "hl \<le> sk_len f" using 2(2) by (auto simp: can_send_def)
  have "skb_frame h = take hl (skb_frame f) @ drop hl (skb_frame f) \<and> r' = r \<and> err' = 0"
    using f x 2 sy dec by (intro wep_decrypt_frame[where g = g' and b = "push_bit 6 (wep_key_idx s)" and iv = iv and c = c and d = d
          and crc = crc and hl = hl]) (simp_all add: key_idx_shift[OF sy(4)] wep_seed_def)
  then show ?case using x sy dec by (simp add: wep_sync_def)
qed

text \<open>A cipher for the examples: every byte is combined with the sum of the key.\<close>

definition ex_arc4 :: skcipher where
  "ex_arc4 k p = (map (\<lambda>b. b XOR foldr (XOR) k 0) p, 0)"

lemma ex_arc4_ok: "skcipher_ok ex_arc4 ex_arc4"
  by (auto simp: skcipher_ok_def ex_arc4_def comp_def xor.assoc)

definition ex_wep :: prism2_wep_data where
  "ex_wep = \<lparr>wep_iv = 0x04fefe, wep_key = [1, 2, 3, 4, 5, 6, 7, 8, 9, 10, 11, 12, 13, 0], wep_key_len = 5, wep_key_idx = 1\<rparr>"

lemma ex_wep_sync: "wep_sync ex_arc4 ex_arc4 ex_wep (ex_wep\<lparr>wep_iv := 77\<rparr>)"
  by (simp add: wep_sync_def ex_arc4_ok ex_wep_def)

text \<open>
  C25: WEP is a round trip over any sequence of frames. Two stations have the same key; the
  checksum and the cipher are those of the kernel, of which only is used that the cipher's
  directions are inverse. Every frame with enough room that the one encrypts is decrypted
  by the other, in the order of sending, to the frame before encryption, and every call
  returns its success code, however the initial vectors run.
\<close>

theorem wep_channel_delivers:
  assumes "wep_sync e d s r" and "\<forall>(f, rx) \<in> set fs. can_send hl 4 4 f \<and> carries rx"
  shows "\<exists>out. channel_run (\<lambda>f s. Some (prism2_wep_encrypt crc e False hl f s)) (\<lambda>f r. Some (prism2_wep_decrypt crc d False hl f r)) fs s r = Some out \<and>
           map fst out = map (skb_frame \<circ> fst) fs \<and> (\<forall>(_, code) \<in> set out. 0 \<le> code)"
  using wep.channel_delivers[OF assms] .

theorem wep_channel_delivers_witness:
  "\<exists>out. channel_run (\<lambda>f s. Some (prism2_wep_encrypt (\<lambda>_ bs. sum_list (map ucast bs)) ex_arc4 False 24 f s))
       (\<lambda>f r. Some (prism2_wep_decrypt (\<lambda>_ bs. sum_list (map ucast bs)) ex_arc4 False 24 f r))
       [(ex_cskb (replicate 30 7), ex_rx_buffer), (ex_cskb (replicate 24 9), ex_rx_buffer)] ex_wep (ex_wep\<lparr>wep_iv := 77\<rparr>) = Some out \<and>
     map fst out = [replicate 30 7, replicate 24 9]"
  using wep_channel_delivers[OF ex_wep_sync, of "[(ex_cskb (replicate 30 7), ex_rx_buffer), (ex_cskb (replicate 24 9), ex_rx_buffer)]" 24
      "\<lambda>_ bs. sum_list (map ucast bs)"]
  by (auto simp: can_send_def)

section \<open>Weak initial vectors\<close>

lemma low_byte_mask: "(ucast (w AND 0xff) :: u8) = ucast (w :: u32)"
proof -
  have m: "(0xff :: u32) = mask 8" by (simp add: mask_eq_exp_minus_1)
  show ?thesis unfolding m by (intro bit_word_eqI) (auto simp: bit_simps dest: bit_imp_le_length)
qed

lemma wep_iv_bytes_simp: "wep_iv_bytes iv = [ucast (drop_bit 16 iv), ucast (drop_bit 8 iv), ucast iv]"
  by (simp add: wep_iv_bytes_def low_byte_mask)

lemma uint_byte_u32: "uint (ucast (b :: u8) :: u32) = uint b"
  using uint_lt2p[of b] by (simp add: unsigned_ucast_eq take_bit_int_eq_self)

lemma uint_byte1: "uint (ucast (drop_bit 8 (w :: u32)) :: u8) = uint w div 256 mod 256"
  by (simp add: unsigned_ucast_eq unsigned_drop_bit_eq take_bit_eq_mod drop_bit_eq_div take_bit_word_eq_self uint_div)

lemma byte1_ff: "w AND 0xff00 = 0xff00 \<longleftrightarrow> (ucast (drop_bit 8 (w :: u32)) :: u8) = 0xff"
proof -
  have m: "(0xff00 :: u32) = push_bit 8 (mask 8)" "(0xff :: u8) = mask 8" by (simp_all add: mask_eq_exp_minus_1)
  have "w AND push_bit 8 (mask 8) = push_bit 8 (mask 8) \<longleftrightarrow> (\<forall>n. 8 \<le> n \<and> n < 16 \<longrightarrow> bit w n)"
  proof (intro iffI allI impI)
    fix n :: nat assume w: "w AND push_bit 8 (mask 8) = push_bit 8 (mask 8)" and "8 \<le> n \<and> n < 16"
    then have "bit (push_bit 8 (mask 8) :: u32) n" by (auto simp: bit_simps)
    with w have "bit (w AND push_bit 8 (mask 8)) n" by simp
    then show "bit w n" by (simp add: bit_and_iff)
  qed (intro bit_word_eqI, auto simp: bit_simps)
  also have "\<dots> \<longleftrightarrow> (\<forall>n < 8. bit w (n + 8))"
  proof (intro iffI allI impI)
    fix n :: nat assume "\<forall>n < 8. bit w (n + 8)" "8 \<le> n \<and> n < 16"
    then show "bit w n" by (auto dest: spec[of _ "n - 8"])
  qed auto
  also have "\<dots> \<longleftrightarrow> (ucast (drop_bit 8 w) :: u8) = mask 8"
    by (auto simp: bit_eq_iff bit_simps add.commute)
  finally show ?thesis unfolding m .
qed

lemma wep_next_iv_strong:
  fixes klen iv0 :: u32
  defines "iv \<equiv> wep_next_iv klen iv0"
  shows "\<not> ((ucast (drop_bit 8 iv) :: u8) = 0xff \<and> 3 \<le> (ucast (drop_bit 16 iv) :: u8) \<and>
             ucast (ucast (drop_bit 16 iv) :: u8) < klen)"
proof -
  define i where "i = iv0 + 1"
  let ?weak = "i AND 0xff00 = 0xff00 \<and> 3 \<le> (ucast (drop_bit 16 i) :: u8) \<and> ucast (ucast (drop_bit 16 i) :: u8) < klen"
  have iv: "iv = (if ?weak then i + 0x100 else i)"
    by (simp add: iv_def i_def wep_next_iv_def Let_def low_byte_mask)
  show ?thesis
  proof (cases ?weak)
    case True
    then have "uint (ucast (drop_bit 8 i) :: u8) = 255" by (simp add: byte1_ff)
    then have "uint i div 256 mod 256 = 255" by (simp add: uint_byte1)
    note i = this
    have "uint (i + 0x100) = (uint i + 256) mod 2 ^ 32" by (simp add: uint_word_ariths)
    then have "uint (i + 0x100) div 256 mod 256 = (uint i + 256) mod 2 ^ 32 div 256 mod 256" by (simp only:)
    also have "(uint i + 256) mod 2 ^ 32 div 256 = (uint i + 256) div 256 mod 2 ^ 24"
      using zmod_zmult2_eq[of "2 ^ 24" "uint i + 256" 256] by simp
    also have "(uint i + 256) div 256 mod 2 ^ 24 mod 256 = (uint i div 256 + 1) mod 256"
      using div_add_self2[of 256 "uint i"] by (simp add: mod_mod_cancel)
    also have "\<dots> = (uint i div 256 mod 256 + 1) mod 256" by (simp add: mod_add_left_eq)
    also have "\<dots> = 0" using i by simp
    finally have "uint (i + 0x100) div 256 mod 256 = 0" .
    then have "uint (ucast (drop_bit 8 (i + 0x100)) :: u8) = 0" by (simp only: uint_byte1)
    then have "(ucast (drop_bit 8 (i + 0x100)) :: u8) \<noteq> 0xff" by (rule_tac notI) simp
    then show ?thesis using True by (simp add: iv)
  next
    case False
    then show ?thesis by (auto simp: iv byte1_ff)
  qed
qed

text \<open>
  C26: No frame leaves with a weak initial vector. Whatever the counter was, with
  encryption in the host or in the device, if the second byte of the initial vector in the
  encrypted frame is 0xff then its first byte is not one of the numbers 3 to 3 + key length
  for which the cipher's key schedule is known to leak a byte of the key.
\<close>

theorem wep_no_weak_iv:
  assumes run: "prism2_wep_encrypt crc e hw hl f s = (g, s', err)"
    and ok: "can_send hl 4 4 f" and c: "skcipher_ok e d" and l: "wep_key_len s \<le> 13"
  shows "\<not> (skb_frame g ! (hl + 1) = 0xff \<and> 3 \<le> skb_frame g ! hl \<and> uint (skb_frame g ! hl) < 3 + uint (wep_key_len s))"
proof -
  define iv where "iv = wep_next_iv (3 + ucast (wep_key_len s)) (wep_iv s)"
  have wf: "skb_wf f" "hl \<le> sk_len f" "4 \<le> sk_headroom f" "4 \<le> skb_tailroom f"
    using ok by (auto simp: can_send_def)
  obtain rest where g: "skb_frame g = take hl (skb_frame f) @ wep_iv_bytes iv @ rest"
  proof (cases hw)
    case True
    then have "g = insert_gap hl (wep_iv_bytes iv @ [push_bit 6 (wep_key_idx s)]) f"
      using run wf by (simp add: prism2_wep_encrypt_def Let_def iv_def)
    then show ?thesis using wf that by (simp add: frame_insert_gap)
  next
    case False
    then show ?thesis using wep_encrypt_frame[OF ok c l] run that unfolding iv_def by (metis (full_types))
  qed
  have k: "uint (3 + ucast (wep_key_len s) :: u32) = 3 + uint (wep_key_len s)"
    using l uint_lt2p[of "wep_key_len s"] by (simp add: uint_word_ariths word_le_def uint_byte_u32)
  have "skb_frame g ! hl = ucast (drop_bit 16 iv)" "skb_frame g ! (hl + 1) = ucast (drop_bit 8 iv)"
    using wf by (simp_all add: g nth_append wep_iv_bytes_simp)
  then show ?thesis
    using wep_next_iv_strong[of "3 + ucast (wep_key_len s)" "wep_iv s"] k
    by (auto simp: iv_def word_less_def uint_byte_u32)
qed

theorem wep_no_weak_iv_witness:
  "let g = fst (prism2_wep_encrypt (\<lambda>_ _. 0) ex_arc4 False 24 (ex_cskb (replicate 30 7)) ex_wep)
   in \<not> (skb_frame g ! 25 = 0xff \<and> 3 \<le> skb_frame g ! 24 \<and> uint (skb_frame g ! 24) < 3 + uint (wep_key_len ex_wep))"
  using wep_no_weak_iv[of "\<lambda>_ _. 0" ex_arc4 False 24 "ex_cskb (replicate 30 7)" ex_wep, OF _ _ ex_arc4_ok]
  by (cases "prism2_wep_encrypt (\<lambda>_ _. 0) ex_arc4 False 24 (ex_cskb (replicate 30 7)) ex_wep")
    (simp add: can_send_def ex_wep_def)

end
