(* ===== verification/Crypt_CCMP.thy ===== *)
theory Crypt_CCMP
  imports Crypt_Data
begin

text \<open>
  The CCMP module src/src/rtllib_crypt_ccmp.c. The kernel's AES is a parameter that
  encrypts one block under a key. The scratch blocks of the context, which every call
  writes before it reads them, are local values here; the print statements are left out.
\<close>

section \<open>The module\<close>

type_synonym block_cipher = "u8 list \<Rightarrow> u8 list \<Rightarrow> u8 list"

text \<open>\<open>tfm_key\<close> is the key that the cipher context was given last.\<close>

record rtllib_ccmp_data =
  ccmp_key :: "u8 list"
  ccmp_key_set :: bool
  tx_pn :: "u8 list"
  rx_pn :: "u8 list"
  ccmp_format_errors :: u32
  ccmp_replays :: u32
  ccmp_decrypt_errors :: u32
  ccmp_key_idx :: int
  tfm_key :: "u8 list"

definition ccmp_zero :: rtllib_ccmp_data where
  "ccmp_zero = \<lparr>ccmp_key = replicate 16 0, ccmp_key_set = False, tx_pn = replicate 6 0, rx_pn = replicate 6 0,
     ccmp_format_errors = 0, ccmp_replays = 0, ccmp_decrypt_errors = 0, ccmp_key_idx = 0, tfm_key = []\<rparr>"

definition rtllib_ccmp_init :: "bool list \<Rightarrow> int \<Rightarrow> nat \<Rightarrow> nat \<times> rtllib_ccmp_data option" where
  "rtllib_ccmp_init allocs key_idx live =
     (case alloc_contexts (take 2 allocs) 0 live of
        (live', True) \<Rightarrow> (live', Some (ccmp_zero\<lparr>ccmp_key_idx := key_idx\<rparr>))
      | (live', False) \<Rightarrow> (live', None))"

text \<open>
  The first block, the authenticated header and the mask of the integrity code. A read
  outside of the buffer is a fault.
\<close>

definition ccmp_init_blocks ::
    "(u8 list \<Rightarrow> u8 list) \<Rightarrow> 'a skb_scheme \<Rightarrow> u8 list \<Rightarrow> nat \<Rightarrow> (u8 list \<times> u8 list \<times> u8 list) option" where
  "ccmp_init_blocks aes s pn dlen = do {
     hdr \<leftarrow> rdn s 0 24;
     let fc = le16 (hdr ! 0) (hdr ! 1);
     let a4_included = fc AND 0x0300 = 0x0300;
     let qc_included = WLAN_FC_GET_TYPE fc = 0x0008 \<and> WLAN_FC_GET_STYPE fc AND 0x80 \<noteq> 0;
     let aad_len = 22 + (if a4_included then 6 else 0) + (if qc_included then 2 else 0);
     qc \<leftarrow> (if qc_included then map_option (\<lambda>b. b AND 0x0f) (rd8 s (if a4_included then 30 else 24)) else Some 0);
     addr4 \<leftarrow> (if a4_included then rdn s 24 6 else Some (replicate 6 0));
     let b0 = [0x59, qc] @ take 6 (drop 10 hdr) @ pn @ [of_nat (dlen div 256), of_nat dlen];
     let aad = [0, of_nat aad_len, hdr ! 0 AND 0x8f, hdr ! 1 AND 0xc7] @ take 18 (drop 4 hdr) @
               [hdr ! 22 AND 0x0f, 0] @ addr4 @ [0, 0];
     let aad1 = (if qc_included then aad[if a4_included then 30 else 24 := qc] else aad);
     let auth1 = aes (xor_block (aes b0) (take 16 aad1) 16);
     let auth2 = aes (xor_block auth1 (drop 16 aad1) 16);
     let b1 = b0[0 := 0x59 AND 0x07, 14 := 0, 15 := 0];
     Some (b1, auth2, aes b1) }"

text \<open>The packet number is a counter of six bytes with the lowest byte last.\<close>

fun ccmp_pn_inc :: "nat \<Rightarrow> u8 list \<Rightarrow> u8 list" where
  "ccmp_pn_inc i pn =
     (let pn1 = pn[i := pn ! i + 1]
      in if pn1 ! i \<noteq> 0 then pn1 else case i of 0 \<Rightarrow> pn1 | Suc j \<Rightarrow> ccmp_pn_inc j pn1)"

declare ccmp_pn_inc.simps [simp del]

text \<open>
  The loops over the blocks: \<open>n\<close> blocks are left, \<open>i\<close> is the number of the next one,
  \<open>rem\<close> the length of an incomplete last block or 0.
\<close>

fun ccmp_encrypt_blocks ::
    "(u8 list \<Rightarrow> u8 list) \<Rightarrow> u8 list \<Rightarrow> nat \<Rightarrow> nat \<Rightarrow> nat \<Rightarrow> u8 list \<Rightarrow> u8 list \<Rightarrow> u8 list \<times> u8 list" where
  "ccmp_encrypt_blocks aes b0 rem 0 i b p = ([], b)"
| "ccmp_encrypt_blocks aes b0 rem (Suc n) i b p =
     (let len = (if n = 0 \<and> rem \<noteq> 0 then rem else 16);
          b1 = aes (xor_block b (take len p) len);
          e = aes (b0[14 := of_nat (i div 256), 15 := of_nat i]);
          c = xor_block (take len p) e len;
          (cs, b2) = ccmp_encrypt_blocks aes b0 rem n (Suc i) b1 (drop len p)
      in (c @ cs, b2))"

fun ccmp_decrypt_blocks ::
    "(u8 list \<Rightarrow> u8 list) \<Rightarrow> u8 list \<Rightarrow> nat \<Rightarrow> nat \<Rightarrow> nat \<Rightarrow> u8 list \<Rightarrow> u8 list \<Rightarrow> u8 list \<times> u8 list" where
  "ccmp_decrypt_blocks aes b0 rem 0 i a p = ([], a)"
| "ccmp_decrypt_blocks aes b0 rem (Suc n) i a p =
     (let len = (if n = 0 \<and> rem \<noteq> 0 then rem else 16);
          b = aes (b0[14 := of_nat (i div 256), 15 := of_nat i]);
          q = xor_block (take len p) b len;
          a1 = aes (xor_block a q len);
          (qs, a2) = ccmp_decrypt_blocks aes b0 rem n (Suc i) a1 (drop len p)
      in (q @ qs, a2))"

definition ccmp_blocks :: "nat \<Rightarrow> nat" where
  "ccmp_blocks data_len = (data_len + 16 - 1) div 16"

text \<open>The CCMP header with the packet number and the number of the key.\<close>

definition ccmp_header :: "u8 list \<Rightarrow> int \<Rightarrow> u8 list" where
  "ccmp_header pn key_idx =
     [pn ! 5, pn ! 4, 0, push_bit 6 (word_of_int key_idx) OR 0x20, pn ! 3, pn ! 2, pn ! 1, pn ! 0]"

definition rtllib_ccmp_encrypt :: "block_cipher \<Rightarrow> bool \<Rightarrow> nat \<Rightarrow> rtllib_ccmp_data crypt_op" where
  "rtllib_ccmp_encrypt aes bHwSec hdr_len f key =
     (if sk_headroom f < 8 \<or> skb_tailroom f < 8 \<or> sk_len f < hdr_len then Some (f, key, - 1)
      else
        let data_len = sk_len f - hdr_len;
            pn = ccmp_pn_inc 5 (tx_pn key);
            key1 = key\<lparr>tx_pn := pn\<rparr>;
            f1 = insert_gap hdr_len (ccmp_header pn (ccmp_key_idx key)) f
        in if bHwSec then Some (f1, key1, 0)
           else do {
             (b0, b, s0) \<leftarrow> ccmp_init_blocks (aes (tfm_key key)) f1 pn data_len;
             let (c, b') = ccmp_encrypt_blocks (aes (tfm_key key)) b0 (data_len mod 16) (ccmp_blocks data_len) 1 b
                             (payload_from (hdr_len + 8) f1);
             let mic = map2 (XOR) (take 8 b') (take 8 s0);
             Some (wr (hdr_len + 8) (c @ mic) (skb_put 8 f1), key1, 0) })"

text \<open>The packet number of a received frame, highest byte first.\<close>

definition ccmp_frame_pn :: "nat \<Rightarrow> cskb \<Rightarrow> u8 list" where
  "ccmp_frame_pn hdr_len f =
     (let pos = payload_from hdr_len f in [pos ! 7, pos ! 6, pos ! 5, pos ! 4, pos ! 1, pos ! 0])"

definition ccmp_strip :: "nat \<Rightarrow> cskb \<Rightarrow> cskb" where
  "ccmp_strip hdr_len f = (let g = remove_gap hdr_len 8 f in skb_trim (sk_len g - 8) g)"

definition rtllib_ccmp_decrypt :: "block_cipher \<Rightarrow> bool \<Rightarrow> nat \<Rightarrow> rtllib_ccmp_data crypt_op" where
  "rtllib_ccmp_decrypt aes bHwSec hdr_len f key =
     (if sk_len f < hdr_len + 8 + 8 then Some (f, key\<lparr>ccmp_format_errors := ccmp_format_errors key + 1\<rparr>, - 1)
      else
        let b3 = payload_from hdr_len f ! 3;
            keyidx = uint (drop_bit 6 b3);
            pn = ccmp_frame_pn hdr_len f;
            data_len = sk_len f - hdr_len - 8 - 8
        in if \<not> bit b3 5 then Some (f, key\<lparr>ccmp_format_errors := ccmp_format_errors key + 1\<rparr>, - 2)
           else if ccmp_key_idx key \<noteq> keyidx then Some (f, key, - 6)
           else if \<not> ccmp_key_set key then Some (f, key, - 3)
           else if memcmp_le pn (rx_pn key) then Some (f, key\<lparr>ccmp_replays := ccmp_replays key + 1\<rparr>, - 4)
           else if bHwSec then Some (ccmp_strip hdr_len f, key, keyidx)
           else do {
             (b0, a, b) \<leftarrow> ccmp_init_blocks (aes (tfm_key key)) f pn data_len;
             let pos = payload_from (hdr_len + 8) f;
             let mic = xor_block (drop data_len pos) b 8;
             let (p, a') = ccmp_decrypt_blocks (aes (tfm_key key)) b0 (data_len mod 16) (ccmp_blocks data_len) 1 a (take data_len pos);
             let f1 = wr (hdr_len + 8) (p @ mic) f;
             if mic \<noteq> take 8 a' then Some (f1, key\<lparr>ccmp_decrypt_errors := ccmp_decrypt_errors key + 1\<rparr>, - 5)
             else Some (ccmp_strip hdr_len f1, key\<lparr>rx_pn := pn\<rparr>, keyidx) })"

text \<open>The sequence counter of the caller has the lowest byte first; None is the null pointer.\<close>

definition rtllib_ccmp_set_key :: "u8 list \<Rightarrow> int \<Rightarrow> u8 list option \<Rightarrow> rtllib_ccmp_data \<Rightarrow> rtllib_ccmp_data \<times> int" where
  "rtllib_ccmp_set_key key len seq data =
     (let d = ccmp_zero\<lparr>ccmp_key_idx := ccmp_key_idx data, tfm_key := tfm_key data\<rparr>
      in if len = 16 then
           (d\<lparr>ccmp_key := take 16 key, ccmp_key_set := True,
              rx_pn := (case seq of None \<Rightarrow> rx_pn d | Some q \<Rightarrow> [q ! 5, q ! 4, q ! 3, q ! 2, q ! 1, q ! 0]),
              tfm_key := take 16 key\<rparr>, 0)
         else if len = 0 then (d\<lparr>ccmp_key_set := False\<rparr>, 0)
         else (d, - 1))"

text \<open>The bytes written to the key buffer and to the sequence buffer, and the result.\<close>

definition rtllib_ccmp_get_key :: "int \<Rightarrow> bool \<Rightarrow> rtllib_ccmp_data \<Rightarrow> u8 list \<times> u8 list \<times> int" where
  "rtllib_ccmp_get_key len want_seq data =
     (if len < 16 then ([], [], - 1)
      else if \<not> ccmp_key_set data then ([], [], 0)
      else (ccmp_key data,
            if want_seq then [tx_pn data ! 5, tx_pn data ! 4, tx_pn data ! 3, tx_pn data ! 2, tx_pn data ! 1, tx_pn data ! 0] else [],
            16))"

end
