(* ===== verification/Crypt_CCMP_Spec.thy ===== *)
theory Crypt_CCMP_Spec
  imports Crypt_CCMP
begin

text \<open>
  The counter with CBC-MAC mode as its standard states it, over any block cipher, and the
  proof that the interleaved loops of the module compute it.
\<close>

section \<open>The reference\<close>

text \<open>Blocks of 16 bytes, the last one filled with zeros.\<close>

fun chunks16 :: "u8 list \<Rightarrow> u8 list list" where
  "chunks16 [] = []"
| "chunks16 (x # xs) = (take 16 (x # xs) @ replicate (16 - length (x # xs)) 0) # chunks16 (drop 16 (x # xs))"

definition cbc_mac :: "(u8 list \<Rightarrow> u8 list) \<Rightarrow> u8 list list \<Rightarrow> u8 list" where
  "cbc_mac aes bs = foldl (\<lambda>x b. aes (map2 (XOR) x b)) (replicate 16 0) bs"

definition be_len :: "nat \<Rightarrow> u8 list" where
  "be_len n = [of_nat (n div 256), of_nat n]"

text \<open>The first block of the integrity code, and the counter blocks.\<close>

definition ccm_b0 :: "u8 list \<Rightarrow> nat \<Rightarrow> u8 list" where
  "ccm_b0 nonce n = [0x59] @ nonce @ be_len n"

definition ccm_ctr :: "u8 list \<Rightarrow> nat \<Rightarrow> u8 list" where
  "ccm_ctr nonce i = [0x01] @ nonce @ be_len i"

definition ccm_stream :: "(u8 list \<Rightarrow> u8 list) \<Rightarrow> u8 list \<Rightarrow> nat \<Rightarrow> u8 list" where
  "ccm_stream aes nonce n = concat (map (\<lambda>i. aes (ccm_ctr nonce i)) [1..<Suc ((n + 15) div 16)])"

text \<open>The integrity code over the authenticated data and the message, and the encryption.\<close>

definition ccm_tag :: "(u8 list \<Rightarrow> u8 list) \<Rightarrow> u8 list \<Rightarrow> u8 list \<Rightarrow> u8 list \<Rightarrow> u8 list" where
  "ccm_tag aes nonce aad p =
     map2 (XOR) (take 8 (cbc_mac aes (ccm_b0 nonce (length p) # chunks16 (be_len (length aad) @ aad) @ chunks16 p)))
                (take 8 (aes (ccm_ctr nonce 0)))"

definition ccm_encrypt :: "(u8 list \<Rightarrow> u8 list) \<Rightarrow> u8 list \<Rightarrow> u8 list \<Rightarrow> u8 list \<Rightarrow> u8 list" where
  "ccm_encrypt aes nonce aad p = map2 (XOR) p (ccm_stream aes nonce (length p)) @ ccm_tag aes nonce aad p"

text \<open>Nonce and authenticated data of an 802.11 frame: the mutable bits of the header are masked.\<close>

definition has_a4 :: "u8 list \<Rightarrow> bool" where
  "has_a4 F \<longleftrightarrow> le16 (F ! 0) (F ! 1) AND 0x0300 = 0x0300"

definition has_qc :: "u8 list \<Rightarrow> bool" where
  "has_qc F \<longleftrightarrow> WLAN_FC_GET_TYPE (le16 (F ! 0) (F ! 1)) = 0x0008 \<and> WLAN_FC_GET_STYPE (le16 (F ! 0) (F ! 1)) AND 0x80 \<noteq> 0"

definition frame_priority :: "u8 list \<Rightarrow> u8" where
  "frame_priority F = (if has_qc F then F ! (if has_a4 F then 30 else 24) AND 0x0f else 0)"

definition ccmp_nonce :: "u8 list \<Rightarrow> u8 list \<Rightarrow> u8 list" where
  "ccmp_nonce F pn = [frame_priority F] @ take 6 (drop 10 F) @ pn"

definition ccmp_aad :: "u8 list \<Rightarrow> u8 list" where
  "ccmp_aad F = [F ! 0 AND 0x8f, F ! 1 AND 0xc7] @ take 18 (drop 4 F) @ [F ! 22 AND 0x0f, 0] @
     (if has_a4 F then take 6 (drop 24 F) else []) @ (if has_qc F then [frame_priority F, 0] else [])"

section \<open>The blocks\<close>

definition block_cipher_ok :: "(u8 list \<Rightarrow> u8 list) \<Rightarrow> bool" where
  "block_cipher_ok aes \<longleftrightarrow> (\<forall>b. length b = 16 \<longrightarrow> length (aes b) = 16)"

lemma map2_xor_zero: "length b = n \<Longrightarrow> map2 (XOR) b (replicate n (0 :: u8)) = b"
  by (induction b arbitrary: n) auto

lemma map2_zero_xor: "length b = n \<Longrightarrow> map2 (XOR) (replicate n (0 :: u8)) b = b"
  by (induction b arbitrary: n) auto

lemma xor_block_pad:
  assumes "length b = 16" "length q \<le> 16"
  shows "xor_block b q (length q) = map2 (XOR) b (q @ replicate (16 - length q) 0)"
proof -
  have "map2 (XOR) b (q @ replicate (16 - length q) 0) =
      map2 (XOR) (take (length q) b @ drop (length q) b) (q @ replicate (16 - length q) 0)" by simp
  also have "\<dots> = map2 (XOR) (take (length q) b) q @ map2 (XOR) (drop (length q) b) (replicate (16 - length q) 0)"
    using assms by (subst zip_append) simp_all
  also have "map2 (XOR) (drop (length q) b) (replicate (16 - length q) 0) = drop (length q) b"
    using assms by (intro map2_xor_zero) simp
  finally show ?thesis by (simp add: xor_block_def)
qed

lemma xor_block_full: "length b = 16 \<Longrightarrow> length a = 16 \<Longrightarrow> xor_block b a 16 = map2 (XOR) b a"
  by (simp add: xor_block_def)

lemma ccmp_blocks_step: "0 < n \<Longrightarrow> ccmp_blocks n = Suc (ccmp_blocks (n - 16))"
proof (cases "16 \<le> n")
  case True
  then obtain m where "n = m + 16" by (metis le_add_diff_inverse2)
  then show ?thesis by (simp add: ccmp_blocks_def div_add_self2[of 16 "m + 15", simplified])
next
  case False
  moreover assume "0 < n"
  ultimately have "n + 15 = 16 + (n - 1)" "n - 1 < 16" by simp_all
  then show ?thesis using False by (simp only: ccmp_blocks_def) simp
qed

lemma block_length:
  assumes "p \<noteq> []" "r = length p mod 16" "n = ccmp_blocks (length p - 16)"
  shows "(if n = 0 \<and> r \<noteq> 0 then r else 16) = min 16 (length p)"
proof (cases "length p \<le> 16")
  case True
  then have "n = 0" using assms(3) by (simp add: ccmp_blocks_def)
  then show ?thesis using assms True by (cases "length p = 16") auto
next
  case False
  then have "n \<noteq> 0" using assms(3) by (auto simp: ccmp_blocks_def)
  then show ?thesis using False by simp
qed

lemma chunks16_step:
  "p \<noteq> [] \<Longrightarrow> chunks16 p = (take 16 p @ replicate (16 - length p) 0) # chunks16 (drop 16 p)"
  by (cases p) simp_all

text \<open>The key stream from block \<open>i\<close> on.\<close>

definition stream_from :: "(u8 list \<Rightarrow> u8 list) \<Rightarrow> u8 list \<Rightarrow> nat \<Rightarrow> nat \<Rightarrow> u8 list" where
  "stream_from aes b0 i n = concat (map (\<lambda>j. aes (b0[14 := of_nat (j div 256), 15 := of_nat j])) [i..<i + ccmp_blocks n])"

lemma stream_from_step:
  "0 < n \<Longrightarrow> stream_from aes b0 i n = aes (b0[14 := of_nat (i div 256), 15 := of_nat i]) @ stream_from aes b0 (Suc i) (n - 16)"
  using upt_conv_Cons[of i "i + Suc (ccmp_blocks (n - 16))"] by (simp add: stream_from_def ccmp_blocks_step del: upt_Suc)

lemma length_stream_from:
  "block_cipher_ok aes \<Longrightarrow> length b0 = 16 \<Longrightarrow> length (stream_from aes b0 i n) = 16 * ccmp_blocks n"
  by (simp add: stream_from_def length_concat comp_def block_cipher_ok_def sum_list_triv)

lemma ccmp_blocks_enough: "n \<le> 16 * ccmp_blocks n"
  unfolding ccmp_blocks_def by presburger

lemma map2_take: "map2 f p e = map2 f p (take (length p) e)"
proof (induction p arbitrary: e)
  case (Cons x p)
  then show ?case by (cases e) auto
qed simp

lemma map2_append_take:
  assumes "length e = 16"
  shows "map2 (XOR) (p :: u8 list) (e @ s) = xor_block (take 16 p) e (min 16 (length p)) @ map2 (XOR) (drop 16 p) s"
proof -
  have "xor_block (take 16 p) e (min 16 (length p)) = map2 (XOR) (take 16 p) e"
    using map2_take[of "(XOR)" "take 16 p" e] by (cases "length p < 16") (simp_all add: xor_block_def)
  then show ?thesis using assms by (simp add: zip_append2)
qed

text \<open>One block, with its length.\<close>

lemma ccmp_blocks_unfold:
  assumes "(if n = 0 \<and> r \<noteq> 0 then r else 16) = k"
  shows "ccmp_encrypt_blocks aes b0 r (Suc n) i b p =
      (let c = xor_block (take k p) (aes (b0[14 := of_nat (i div 256), 15 := of_nat i])) k;
           (cs, b2) = ccmp_encrypt_blocks aes b0 r n (Suc i) (aes (xor_block b (take k p) k)) (drop k p)
       in (c @ cs, b2))"
    and "ccmp_decrypt_blocks aes b0 r (Suc n) i a p =
      (let q = xor_block (take k p) (aes (b0[14 := of_nat (i div 256), 15 := of_nat i])) k;
           (qs, a2) = ccmp_decrypt_blocks aes b0 r n (Suc i) (aes (xor_block a q k)) (drop k p)
       in (q @ qs, a2))"
  unfolding assms[symmetric] by (simp_all only: ccmp_encrypt_blocks.simps ccmp_decrypt_blocks.simps Let_def)

lemma ccmp_encrypt_blocks_spec:
  assumes "block_cipher_ok aes" "length b0 = 16"
  shows "length b = 16 \<Longrightarrow> r = length p mod 16 \<or> p = [] \<Longrightarrow>
    ccmp_encrypt_blocks aes b0 r (ccmp_blocks (length p)) i b p =
      (map2 (XOR) p (stream_from aes b0 i (length p)), foldl (\<lambda>x c. aes (map2 (XOR) x c)) b (chunks16 p))"
proof (induction p arbitrary: i b rule: measure_induct_rule[of length])
  case (less p)
  show ?case
  proof (cases "p = []")
    case True
    then show ?thesis by (simp add: ccmp_blocks_def)
  next
    case False
    let ?n = "ccmp_blocks (length p - 16)" and ?k = "min 16 (length p)"
    let ?e = "aes (b0[14 := of_nat (i div 256), 15 := of_nat i])"
    let ?b1 = "aes (map2 (XOR) b (take 16 p @ replicate (16 - length p) 0))"
    have k: "(if ?n = 0 \<and> r \<noteq> 0 then r else 16) = ?k" using block_length[OF False] less.prems(2) False by blast
    have tk: "take ?k p = take 16 p" "drop ?k p = drop 16 p" "length (take 16 p) = ?k" by (auto simp: min_def)
    have b1: "xor_block b (take 16 p) ?k = map2 (XOR) b (take 16 p @ replicate (16 - length p) 0)"
      using xor_block_pad[of b "take 16 p"] less.prems(1) by (simp add: min.commute min_def split: if_splits)
    have lb1: "length ?b1 = 16" using assms less.prems(1) by (simp add: block_cipher_ok_def)
    have le: "length ?e = 16" using assms by (simp add: block_cipher_ok_def)
    have IH: "ccmp_encrypt_blocks aes b0 r ?n (Suc i) ?b1 (drop 16 p) =
        (map2 (XOR) (drop 16 p) (stream_from aes b0 (Suc i) (length p - 16)), foldl (\<lambda>x c. aes (map2 (XOR) x c)) ?b1 (chunks16 (drop 16 p)))"
    proof -
      have "r = length (drop 16 p) mod 16 \<or> drop 16 p = []"
        using less.prems(2) False by (cases "16 \<le> length p") (simp_all add: le_mod_geq)
      then show ?thesis using less.IH[of "drop 16 p" ?b1 "Suc i"] False lb1 by simp
    qed
    have "ccmp_blocks (length p) = Suc ?n" using False by (simp add: ccmp_blocks_step)
    moreover have "stream_from aes b0 i (length p) = ?e @ stream_from aes b0 (Suc i) (length p - 16)"
      using False by (simp add: stream_from_step)
    ultimately show ?thesis
      using False by (simp add: ccmp_blocks_unfold[OF k] Let_def tk b1 IH chunks16_step map2_append_take[OF le] del: ccmp_encrypt_blocks.simps(2))
  qed
qed

lemma ccmp_decrypt_blocks_inverse:
  assumes "block_cipher_ok aes" "length b0 = 16"
  shows "length b = 16 \<Longrightarrow> r = length p mod 16 \<or> p = [] \<Longrightarrow>
    ccmp_decrypt_blocks aes b0 r (ccmp_blocks (length p)) i b (map2 (XOR) p (stream_from aes b0 i (length p))) =
      (p, foldl (\<lambda>x c. aes (map2 (XOR) x c)) b (chunks16 p))"
proof (induction p arbitrary: i b rule: measure_induct_rule[of length])
  case (less p)
  show ?case
  proof (cases "p = []")
    case True
    then show ?thesis by (simp add: ccmp_blocks_def)
  next
    case False
    let ?n = "ccmp_blocks (length p - 16)" and ?k = "min 16 (length p)"
    let ?e = "aes (b0[14 := of_nat (i div 256), 15 := of_nat i])"
    let ?b1 = "aes (map2 (XOR) b (take 16 p @ replicate (16 - length p) 0))"
    let ?c = "xor_block (take 16 p) ?e ?k" and ?cs = "map2 (XOR) (drop 16 p) (stream_from aes b0 (Suc i) (length p - 16))"
    have k: "(if ?n = 0 \<and> r \<noteq> 0 then r else 16) = ?k" using block_length[OF False] less.prems(2) False by blast
    have b1: "xor_block b (take 16 p) ?k = map2 (XOR) b (take 16 p @ replicate (16 - length p) 0)"
      using xor_block_pad[of b "take 16 p"] less.prems(1) by (simp add: min.commute min_def split: if_splits)
    have lb1: "length ?b1 = 16" using assms less.prems(1) by (simp add: block_cipher_ok_def)
    have le: "length ?e = 16" using assms by (simp add: block_cipher_ok_def)
    have lc: "length ?c = ?k" using le by (simp add: min.commute)
    have c: "take ?k (?c @ ?cs) = ?c" "drop ?k (?c @ ?cs) = ?cs" using lc by simp_all
    have q: "xor_block ?c ?e ?k = take 16 p" using le by (intro xor_block_cancel) simp_all
    have IH: "ccmp_decrypt_blocks aes b0 r ?n (Suc i) ?b1 ?cs = (drop 16 p, foldl (\<lambda>x c. aes (map2 (XOR) x c)) ?b1 (chunks16 (drop 16 p)))"
    proof -
      have "r = length (drop 16 p) mod 16 \<or> drop 16 p = []"
        using less.prems(2) False by (cases "16 \<le> length p") (simp_all add: le_mod_geq)
      then show ?thesis using less.IH[of "drop 16 p" ?b1 "Suc i"] False lb1 by simp
    qed
    have "ccmp_blocks (length p) = Suc ?n" using False by (simp add: ccmp_blocks_step)
    moreover have "map2 (XOR) p (stream_from aes b0 i (length p)) = ?c @ ?cs"
      using False by (simp add: stream_from_step map2_append_take[OF le])
    ultimately have "ccmp_decrypt_blocks aes b0 r (ccmp_blocks (length p)) i b (map2 (XOR) p (stream_from aes b0 i (length p))) =
        (take 16 p @ drop 16 p, foldl (\<lambda>x c. aes (map2 (XOR) x c)) ?b1 (chunks16 (drop 16 p)))"
      by (simp only: ccmp_blocks_unfold(2)[OF k] Let_def c q b1 IH prod.case)
    then show ?thesis using False by (simp add: chunks16_step)
  qed
qed

section \<open>The first blocks\<close>

lemma chunks16_two: "16 < length x \<Longrightarrow> length x \<le> 32 \<Longrightarrow> chunks16 x = [take 16 x, drop 16 x @ replicate (32 - length x) 0]"
  by (cases "x = []") (simp_all add: chunks16_step)

lemma has_a4_code: "le16 (F ! 0) (F ! 1) AND 0x0300 = 0x0300 \<longleftrightarrow> has_a4 F"
  by (simp add: has_a4_def)

lemma ccmp_init_blocks_spec:
  assumes s: "skb_wf s" "32 \<le> sk_len s" and pn: "length pn = 6" and c: "block_cipher_ok aes"
  defines "F \<equiv> skb_frame s"
  shows "ccmp_init_blocks aes s pn n = Some (ccm_ctr (ccmp_nonce F pn) 0,
      cbc_mac aes (ccm_b0 (ccmp_nonce F pn) n # chunks16 (be_len (length (ccmp_aad F)) @ ccmp_aad F)),
      aes (ccm_ctr (ccmp_nonce F pn) 0))"
proof -
  define A2 where "A2 = take 6 (drop 10 F)"
  define A where "A = take 18 (drop 4 F)"
  define A4 where "A4 = take 6 (drop 24 F)"
  define h where "h = take 24 F"
  have lF: "32 \<le> length F" "length F \<le> length (sk_mem s)" using s by (simp_all add: F_def skb_wf_def skb_frame_def)
  then have l: "length A2 = 6" "length A = 18" "length A4 = 6" by (simp_all add: A2_def A_def A4_def)
  have nth: "sk_mem s ! i = F ! i" if "i < 32" for i using that s by (simp add: F_def skb_frame_def)
  have r: "rdn s 0 24 = Some h" "rdn s 24 6 = Some A4"
    using s by (simp_all add: rdn_def h_def A4_def F_def skb_frame_def skb_wf_def drop_take)
  have h: "take 6 (drop 10 h) = A2" "take 18 (drop 4 h) = A" "h ! 0 = F ! 0" "h ! 1 = F ! 1" "h ! 22 = F ! 22"
    using lF by (simp_all add: h_def A2_def A_def drop_take)
  have b: "rd8 s 30 = Some (F ! 30)" "rd8 s 24 = Some (F ! 24)" using lF nth by simp_all
  have b1: "([0x59, q] @ A2 @ pn @ be_len n)[0 := 0x59 AND 0x07, 14 := 0, 15 := 0] = [1, q] @ A2 @ pn @ be_len 0" for q
    using l pn by (simp add: list_update_append be_len_def)
  let ?pr = "frame_priority F"
  have aad: "chunks16 (be_len (length (ccmp_aad F)) @ ccmp_aad F) =
      [take 16 aad1, drop 16 aad1]" if "aad1 = (if has_qc F then aad[if has_a4 F then 30 else 24 := ?pr] else aad)"
      "aad = [0, of_nat (22 + (if has_a4 F then 6 else 0) + (if has_qc F then 2 else 0)), F ! 0 AND 0x8f, F ! 1 AND 0xc7] @ A @
         [F ! 22 AND 0x0f, 0] @ (if has_a4 F then A4 else replicate 6 0) @ [0, 0]" for aad aad1
  proof -
    define x where "x = be_len (length (ccmp_aad F)) @ ccmp_aad F"
    have aF: "ccmp_aad F = [F ! 0 AND 0x8f, F ! 1 AND 0xc7] @ A @ [F ! 22 AND 0x0f, 0] @
        (if has_a4 F then A4 else []) @ (if has_qc F then [?pr, 0] else [])"
      by (simp add: ccmp_aad_def A_def A4_def)
    have la: "length (ccmp_aad F) = 22 + (if has_a4 F then 6 else 0) + (if has_qc F then 2 else 0)"
      using l by (simp add: aF)
    have rep: "replicate 2 0 = [0, 0 :: u8]" "replicate 6 0 = [0, 0, 0, 0, 0, 0 :: u8]" "replicate 8 0 = [0, 0, 0, 0, 0, 0, 0, 0 :: u8]"
      by (simp_all add: eval_nat_numeral)
    have e: "x @ replicate (32 - length x) 0 = aad1"
      using l by (cases "has_a4 F"; cases "has_qc F")
        (simp_all add: x_def that aF la be_len_def list_update_append rep)
    have "16 < length x" "length x \<le> 32" using la by (simp_all add: x_def be_len_def)
    then have "chunks16 x = [take 16 (x @ replicate (32 - length x) 0), drop 16 (x @ replicate (32 - length x) 0)]"
      by (simp add: chunks16_two)
    then show ?thesis unfolding e unfolding x_def .
  qed
  define aad where "aad = [0, of_nat (22 + (if has_a4 F then 6 else 0) + (if has_qc F then 2 else 0)), F ! 0 AND 0x8f, F ! 1 AND 0xc7] @ A @
         [F ! 22 AND 0x0f, 0] @ (if has_a4 F then A4 else replicate 6 0) @ [0, 0]"
  define aad1 where "aad1 = (if has_qc F then aad[if has_a4 F then 30 else 24 := ?pr] else aad)"
  define N where "N = [?pr] @ A2 @ pn"
  have N: "ccmp_nonce F pn = N" "length N = 13" using l pn by (simp_all add: N_def ccmp_nonce_def A2_def)
  have l1: "length aad1 = 32" using l by (simp add: aad1_def aad_def)
  have code: "ccmp_init_blocks aes s pn n = Some (ccm_ctr N 0,
      aes (xor_block (aes (xor_block (aes (ccm_b0 N n)) (take 16 aad1) 16)) (drop 16 aad1) 16), aes (ccm_ctr N 0))"
  proof -
    have qc: "(if has_qc F then map_option (\<lambda>b. b AND 0x0f) (rd8 s (if has_a4 F then 30 else 24)) else Some 0) = Some ?pr"
      using b by (simp add: frame_priority_def)
    have a4: "(if has_a4 F then rdn s 24 6 else Some (replicate 6 0)) = Some (if has_a4 F then A4 else replicate 6 0)"
      by (simp add: r)
    have b0: "[0x59, ?pr] @ A2 @ pn @ [of_nat (n div 256), of_nat n] = ccm_b0 N n" "[1, ?pr] @ A2 @ pn @ be_len 0 = ccm_ctr N 0"
      by (simp_all add: ccm_b0_def ccm_ctr_def N_def be_len_def)
    have b1': "(ccm_b0 N n)[0 := 0x59 AND 0x07, 14 := 0, 15 := 0] = ccm_ctr N 0"
      using b1[of ?pr] by (simp only: b0(2) b0(1)[folded be_len_def])
    have hh: "has_a4 h = has_a4 F" "has_qc h = has_qc F" by (simp_all only: has_a4_def has_qc_def h)
    show ?thesis
      by (simp only: ccmp_init_blocks_def r(1) bind.bind_lunit hh Let_def h has_a4_code has_qc_def[symmetric] qc a4 b0 b1'
          aad_def[symmetric] aad1_def[symmetric])
  qed
  have len: "length (ccm_b0 N n) = 16" using N by (simp add: ccm_b0_def be_len_def)
  have "length (aes (ccm_b0 N n)) = 16" "\<And>b. length b = 16 \<Longrightarrow> length (aes b) = 16" using len c by (simp_all add: block_cipher_ok_def)
  then show ?thesis unfolding code N aad[OF aad1_def aad_def] using l1 len
    by (simp add: cbc_mac_def map2_zero_xor xor_block_full)
qed

section \<open>The packet number\<close>

lemma ccmp_pn_inc_prefix:
  "i < length pn \<Longrightarrow> length (ccmp_pn_inc i pn) = length pn \<and> drop (Suc i) (ccmp_pn_inc i pn) = drop (Suc i) pn \<and>
     be_nat (take (Suc i) (ccmp_pn_inc i pn)) = (be_nat (take (Suc i) pn) + 1) mod 256 ^ Suc i"
proof (induction i arbitrary: pn)
  case 0
  have "unat (pn ! 0 + 1) = (unat (pn ! 0) + 1) mod 256" by (simp add: unat_word_ariths)
  then show ?case using 0 by (subst (1 2 3) ccmp_pn_inc.simps) (cases "pn ! 0 + 1 = 0", simp_all add: Let_def take_Suc_conv_app_nth)
next
  case (Suc i)
  let ?x = "pn ! Suc i" and ?pn1 = "pn[Suc i := pn ! Suc i + 1]" and ?V = "be_nat (take (Suc i) pn)"
  have x: "unat (?x + 1) = (unat ?x + 1) mod 256" by (simp add: unat_word_ariths)
  have old: "be_nat (take (Suc (Suc i)) pn) = ?V * 256 + unat ?x"
    using Suc.prems by (simp add: take_Suc_conv_app_nth[of "Suc i"] be_nat_append)
  have lt: "length (take (Suc i) pn) = Suc i" using Suc.prems by simp
  have V: "?V < 256 ^ Suc i" using be_nat_bound[of "take (Suc i) pn"] unfolding lt .
  show ?case
  proof (cases "?x + 1 = 0")
    case False
    then have ux: "unat (?x + 1) = unat ?x + 1" by (simp add: unatSuc add.commute)
    have "unat (?x + 1) < 2 ^ LENGTH(8)" by (rule unsigned_less)
    then have "unat ?x + 1 < 256" using ux by simp
    then have "?V * 256 + unat ?x + 1 < 256 ^ Suc (Suc i)"
      using V mult_le_mono1[of "Suc ?V" "256 ^ Suc i" 256] by simp
    then show ?thesis using False Suc.prems ux
      by (subst (1 2 3) ccmp_pn_inc.simps) (simp add: Let_def old take_Suc_conv_app_nth[of "Suc i"] be_nat_append)
  next
    case True
    let ?r = "ccmp_pn_inc i ?pn1"
    have "(unat ?x + 1) mod 256 = 0" using x True by simp
    moreover have "unat ?x < 2 ^ LENGTH(8)" by (rule unsigned_less)
    ultimately have ux: "unat ?x = 255" by simp presburger
    have IH: "length ?r = length pn" "drop (Suc i) ?r = drop (Suc i) ?pn1"
      "be_nat (take (Suc i) ?r) = (?V + 1) mod 256 ^ Suc i" using Suc.IH[of ?pn1] Suc.prems by simp_all
    have d: "drop (Suc (Suc i)) ?r = drop (Suc (Suc i)) pn"
      using arg_cong[OF IH(2), of "drop 1"] by simp
    have nth: "?r ! Suc i = 0"
      using arg_cong[OF IH(2), of "\<lambda>l. l ! 0"] IH(1) Suc.prems True by simp
    have "be_nat (take (Suc (Suc i)) ?r) = ((?V + 1) mod 256 ^ Suc i) * 256"
      using Suc.prems IH(1,3) nth by (simp add: take_Suc_conv_app_nth[of "Suc i" ?r] be_nat_append)
    also have "\<dots> = ((?V + 1) * 256) mod (256 ^ Suc i * 256)" by (simp only: mod_mult_mult2)
    also have "(?V + 1) * 256 = be_nat (take (Suc (Suc i)) pn) + 1" using old ux by simp
    finally have "be_nat (take (Suc (Suc i)) ?r) = (be_nat (take (Suc (Suc i)) pn) + 1) mod 256 ^ Suc (Suc i)"
      by (simp only: power_Suc2)
    moreover have "ccmp_pn_inc (Suc i) pn = ?r"
      using True Suc.prems by (subst ccmp_pn_inc.simps) (simp add: Let_def)
    ultimately show ?thesis using IH(1) d by simp
  qed
qed

lemma ccmp_pn_inc_nat:
  assumes "length pn = 6"
  shows "length (ccmp_pn_inc 5 pn) = 6" "be_nat (ccmp_pn_inc 5 pn) = (be_nat pn + 1) mod 2 ^ 48"
  using ccmp_pn_inc_prefix[of 5 pn] assms by (auto simp: take_all_iff[THEN iffD2])

end
