(* ===== verification/Crypt_CCMP_Props.thy ===== *)
theory Crypt_CCMP_Props
  imports Crypt_CCMP_Spec
begin

text \<open>
  The correctness of the CCMP module: it computes the reference, its two directions are a
  channel, and its packet numbers keep replayed frames out.
\<close>

section \<open>Encryption\<close>

lemma ccm_prefix:
  assumes "32 \<le> length H"
  shows "ccmp_nonce (H @ x) pn = ccmp_nonce H pn" "ccmp_aad (H @ x) = ccmp_aad H"
proof -
  have n: "(H @ x) ! i = H ! i" if "i < 32" for i using assms that by (simp add: nth_append)
  have t: "take 6 (drop 10 (H @ x)) = take 6 (drop 10 H)" "take 18 (drop 4 (H @ x)) = take 18 (drop 4 H)"
    "take 6 (drop 24 (H @ x)) = take 6 (drop 24 H)" using assms by simp_all
  have f: "has_a4 (H @ x) = has_a4 H" "has_qc (H @ x) = has_qc H"
    unfolding has_a4_def has_qc_def by (simp_all only: n zero_less_numeral one_less_numeral_iff num.simps semiring_norm)
  have "frame_priority (H @ x) = frame_priority H"
    by (simp add: frame_priority_def f n)
  then show "ccmp_nonce (H @ x) pn = ccmp_nonce H pn" "ccmp_aad (H @ x) = ccmp_aad H"
    unfolding ccmp_nonce_def ccmp_aad_def t f by (simp_all add: n[of 0] n[of "Suc 0"] n[of 22])
qed

lemma ctr_update:
  assumes "length N = 13"
  shows "(ccm_ctr N 0)[14 := of_nat (j div 256), 15 := of_nat j] = ccm_ctr N j"
  using assms by (simp add: ccm_ctr_def be_len_def list_update_append)

lemma length_nonce: "32 \<le> length H \<Longrightarrow> length pn = 6 \<Longrightarrow> length (ccmp_nonce H pn) = 13"
  by (simp add: ccmp_nonce_def)

lemma stream_from_ccm: "length N = 13 \<Longrightarrow> stream_from aes (ccm_ctr N 0) 1 n = ccm_stream aes N n"
  by (simp add: stream_from_def ccm_stream_def ctr_update ccmp_blocks_def add.commute del: upt_Suc)

lemma length_ccm_stream:
  assumes "block_cipher_ok aes" "length N = 13"
  shows "n \<le> length (ccm_stream aes N n)"
proof -
  have "length (ccm_ctr N 0) = 16" using assms by (simp add: ccm_ctr_def be_len_def)
  then show ?thesis
    using length_stream_from[OF assms(1), of "ccm_ctr N 0" 1 n] ccmp_blocks_enough[of n] by (simp only: stream_from_ccm[OF assms(2)])
qed

lemma cbc_mac_append: "foldl (\<lambda>x c. aes (map2 (XOR) x c)) (cbc_mac aes bs) cs = cbc_mac aes (bs @ cs)"
  by (simp add: cbc_mac_def)

lemma length_foldl_aes:
  "block_cipher_ok aes \<Longrightarrow> length x = 16 \<Longrightarrow> \<forall>c \<in> set cs. length c = 16 \<Longrightarrow> length (foldl (\<lambda>x c. aes (map2 (XOR) x c)) x cs) = 16"
  by (induction cs arbitrary: x) (simp_all add: block_cipher_ok_def)

lemma chunks16_length: "\<forall>c \<in> set (chunks16 p). length c = 16"
  by (induction p rule: chunks16.induct) auto

lemma length_cbc_mac: "block_cipher_ok aes \<Longrightarrow> \<forall>c \<in> set cs. length c = 16 \<Longrightarrow> length (cbc_mac aes cs) = 16"
  unfolding cbc_mac_def by (rule length_foldl_aes) simp_all

lemma length_header [simp]: "length (ccmp_header pn k) = 8"
  by (simp add: ccmp_header_def)

lemma ccmp_encrypt_frame:
  assumes ok: "can_send hl 8 8 f" "24 \<le> hl" and c: "block_cipher_ok (aes (tfm_key key))" and pn: "length (tx_pn key) = 6"
  defines "pn' \<equiv> ccmp_pn_inc 5 (tx_pn key)"
  defines "H \<equiv> take hl (skb_frame f) @ ccmp_header pn' (ccmp_key_idx key)"
  obtains g where "rtllib_ccmp_encrypt aes False hl f key = Some (g, key\<lparr>tx_pn := pn'\<rparr>, 0)"
    "skb_frame g = H @ ccm_encrypt (aes (tfm_key key)) (ccmp_nonce H pn') (ccmp_aad H) (drop hl (skb_frame f))"
proof -
  let ?E = "aes (tfm_key key)"
  define D where "D = drop hl (skb_frame f)"
  define f1 where "f1 = insert_gap hl (ccmp_header pn' (ccmp_key_idx key)) f"
  define N where "N = ccmp_nonce H pn'"
  have wf: "skb_wf f" "hl \<le> sk_len f" "8 \<le> sk_headroom f" "8 \<le> skb_tailroom f"
    using ok by (auto simp: can_send_def)
  have lf: "length (skb_frame f) = sk_len f" using wf by simp
  have f1: "skb_frame f1 = H @ D" "skb_wf f1" "sk_len f1 = sk_len f + 8"
    using wf by (simp_all add: f1_def frame_insert_gap wf_insert_gap D_def H_def)
  have lH: "length H = hl + 8" "32 \<le> length H" using wf ok lf by (simp_all add: H_def)
  have lD: "length D = sk_len f - hl" using lf by (simp add: D_def)
  have pn': "length pn' = 6" unfolding pn'_def using ccmp_pn_inc_nat[OF pn] by simp
  have lN: "length N = 13" using length_nonce[OF lH(2) pn'] by (simp add: N_def)
  have init: "ccmp_init_blocks ?E f1 pn' (length D) = Some (ccm_ctr N 0,
      cbc_mac ?E (ccm_b0 N (length D) # chunks16 (be_len (length (ccmp_aad H)) @ ccmp_aad H)), ?E (ccm_ctr N 0))"
    using ccmp_init_blocks_spec[OF f1(2) _ pn' c, of "length D"] f1(3) wf(2) ok(2)
    by (simp add: f1(1) ccm_prefix[OF lH(2)] N_def)
  let ?b = "cbc_mac ?E (ccm_b0 N (length D) # chunks16 (be_len (length (ccmp_aad H)) @ ccmp_aad H))"
  let ?b' = "cbc_mac ?E (ccm_b0 N (length D) # chunks16 (be_len (length (ccmp_aad H)) @ ccmp_aad H) @ chunks16 D)"
  have lb: "length ?b = 16" using chunks16_length lN by (intro length_cbc_mac[OF c]) (auto simp: ccm_b0_def be_len_def)
  have l0: "length (ccm_ctr N 0) = 16" using lN by (simp add: ccm_ctr_def be_len_def)
  have blocks: "ccmp_encrypt_blocks ?E (ccm_ctr N 0) (length D mod 16) (ccmp_blocks (length D)) 1 ?b D =
      (map2 (XOR) D (ccm_stream ?E N (length D)), ?b')"
    using ccmp_encrypt_blocks_spec[OF c l0 lb, of "length D mod 16" D 1]
    by (simp only: stream_from_ccm[OF lN] cbc_mac_append append_Cons) simp
  have pl: "payload_from (hl + 8) f1 = D" using lH by (simp add: payload_from_def f1)
  define g where "g = wr (hl + 8) (ccm_encrypt ?E N (ccmp_aad H) D) (skb_put 8 f1)"
  have "rtllib_ccmp_encrypt aes False hl f key = Some (g, key\<lparr>tx_pn := pn'\<rparr>, 0)"
    using wf init blocks pl
    by (simp add: rtllib_ccmp_encrypt_def Let_def pn'_def[symmetric] f1_def[symmetric] lD[symmetric] g_def ccm_encrypt_def ccm_tag_def)
  moreover have "skb_frame g = H @ ccm_encrypt ?E N (ccmp_aad H) D"
  proof -
    have "length (cbc_mac ?E (ccm_b0 N (length D) # chunks16 (be_len (length (ccmp_aad H)) @ ccmp_aad H) @ chunks16 D)) = 16"
      using chunks16_length lN by (intro length_cbc_mac[OF c]) (auto simp: ccm_b0_def be_len_def)
    moreover have "length (?E (ccm_ctr N 0)) = 16" using c l0 by (simp add: block_cipher_ok_def)
    ultimately have "length (ccm_encrypt ?E N (ccmp_aad H) D) = length D + 8"
      using length_ccm_stream[OF c lN, of "length D"] by (simp add: ccm_encrypt_def ccm_tag_def)
    then have "skb_frame g = take (hl + 8) (skb_frame f1) @ ccm_encrypt ?E N (ccmp_aad H) D"
      unfolding g_def using f1 lD wf by (intro frame_wr_put) (simp_all add: f1_def skb_wf_def)
    then show ?thesis using lH by (simp add: f1)
  qed
  ultimately show thesis using that unfolding N_def D_def by blast
qed

text \<open>
  C27: The module computes the counter with CBC-MAC mode. For every frame with a header of
  at least 24 bytes and room for the 8 bytes on each side, host encryption succeeds; the
  result is the old header, the CCMP header with the packet number increased by one, and
  the reference encryption of the payload under the nonce and the authenticated data of
  the frame, followed by its integrity code, although the module computes both in one loop
  on a shared counter block.
\<close>

theorem rtllib_ccmp_encrypt_is_ccm:
  assumes ok: "can_send hl 8 8 f" "24 \<le> hl" and c: "block_cipher_ok (aes (tfm_key key))" and pn: "length (tx_pn key) = 6"
  defines "pn' \<equiv> ccmp_pn_inc 5 (tx_pn key)"
  defines "H \<equiv> take hl (skb_frame f) @ ccmp_header pn' (ccmp_key_idx key)"
  shows "\<exists>g. rtllib_ccmp_encrypt aes False hl f key = Some (g, key\<lparr>tx_pn := pn'\<rparr>, 0) \<and>
    be_nat pn' = (be_nat (tx_pn key) + 1) mod 2 ^ 48 \<and>
    skb_frame g = H @ ccm_encrypt (aes (tfm_key key)) (ccmp_nonce H pn') (ccmp_aad H) (drop hl (skb_frame f))"
proof -
  have "be_nat pn' = (be_nat (tx_pn key) + 1) mod 2 ^ 48" unfolding pn'_def using ccmp_pn_inc_nat[OF pn] by simp
  then show ?thesis using ccmp_encrypt_frame[where aes = aes and key = key, OF ok c pn] unfolding pn'_def[symmetric] H_def[symmetric] by blast
qed

section \<open>Decryption\<close>

lemma header_bytes:
  assumes "0 \<le> k" "k < 4"
  shows "bit (ccmp_header pn k ! 3) 5" "uint (drop_bit 6 (ccmp_header pn k ! 3)) = k"
proof -
  have "k = 0 \<or> k = 1 \<or> k = 2 \<or> k = 3" using assms by linarith
  then show "bit (ccmp_header pn k ! 3) 5" "uint (drop_bit 6 (ccmp_header pn k ! 3)) = k"
    by (auto simp: ccmp_header_def)
qed

lemma frame_pn_header:
  assumes "length pn = 6" "skb_frame g = P @ ccmp_header pn k @ X" "length P = hl"
  shows "ccmp_frame_pn hl g = pn"
proof -
  have "pn = [pn ! 0, pn ! 1, pn ! 2, pn ! 3, pn ! 4, pn ! 5]"
    using assms(1) by (intro nth_equalityI) (auto simp: less_Suc_eq nth_Cons' eval_nat_numeral)
  then show ?thesis using assms(2,3)
    by (simp add: ccmp_frame_pn_def payload_from_def ccmp_header_def)
qed

lemma frame_strip:
  assumes "skb_wf g" "skb_frame g = P @ X @ D @ T" "length P = hl" "length X = 8" "length T = 8"
  shows "skb_frame (ccmp_strip hl g) = P @ D"
proof -
  have len: "sk_len g = hl + length D + 16" using assms length_frame[OF assms(1)] by simp
  have "skb_frame (remove_gap hl 8 g) = P @ D @ T" using assms len by (simp add: frame_remove_gap)
  then show ?thesis using assms len by (simp add: ccmp_strip_def frame_trim)
qed

lemma ccmp_decrypt_frame:
  assumes g: "skb_wf g" "skb_frame g = P @ ccmp_header pn k @ ccm_encrypt (aes (tfm_key key)) (ccmp_nonce H pn) (ccmp_aad H) D"
    and H: "H = P @ ccmp_header pn k" "length P = hl" "24 \<le> hl"
    and c: "block_cipher_ok (aes (tfm_key key))" and pn: "length pn = 6"
    and k: "0 \<le> k" "k < 4" "ccmp_key_idx key = k" "ccmp_key_set key" "\<not> memcmp_le pn (rx_pn key)"
  obtains h where "rtllib_ccmp_decrypt aes False hl g key = Some (h, key\<lparr>rx_pn := pn\<rparr>, k)" "skb_frame h = P @ D"
proof -
  let ?E = "aes (tfm_key key)"
  define N where "N = ccmp_nonce H pn"
  have lH: "length H = hl + 8" "32 \<le> length H" using H by simp_all
  have lN: "length N = 13" using length_nonce[OF lH(2) pn] by (simp add: N_def)
  have l0: "length (ccm_ctr N 0) = 16" using lN by (simp add: ccm_ctr_def be_len_def)
  let ?b = "cbc_mac ?E (ccm_b0 N (length D) # chunks16 (be_len (length (ccmp_aad H)) @ ccmp_aad H))"
  let ?b' = "cbc_mac ?E (ccm_b0 N (length D) # chunks16 (be_len (length (ccmp_aad H)) @ ccmp_aad H) @ chunks16 D)"
  define C where "C = map2 (XOR) D (ccm_stream ?E N (length D))"
  define T where "T = ccm_tag ?E N (ccmp_aad H) D"
  have lb: "length ?b = 16" "length ?b' = 16"
    using chunks16_length lN by (auto intro!: length_cbc_mac[OF c] simp: ccm_b0_def be_len_def)
  have ls: "length (?E (ccm_ctr N 0)) = 16" using c l0 by (simp add: block_cipher_ok_def)
  have lC: "length C = length D" using length_ccm_stream[OF c lN, of "length D"] by (simp add: C_def)
  have lT: "length T = 8" using lb ls by (simp add: T_def ccm_tag_def)
  have fr: "skb_frame g = H @ C @ T" by (simp add: g(2) H(1) ccm_encrypt_def C_def T_def N_def)
  have len: "sk_len g = hl + length D + 16" using length_frame[OF g(1)] fr lC lT lH by simp
  have init: "ccmp_init_blocks ?E g pn (length D) = Some (ccm_ctr N 0, ?b, ?E (ccm_ctr N 0))"
    using ccmp_init_blocks_spec[OF g(1) _ pn c, of "length D"] len H(3)
    by (simp add: fr ccm_prefix[OF lH(2)] N_def)
  have blocks: "ccmp_decrypt_blocks ?E (ccm_ctr N 0) (length D mod 16) (ccmp_blocks (length D)) 1 ?b C = (D, ?b')"
    using ccmp_decrypt_blocks_inverse[OF c l0 lb(1), of "length D mod 16" D 1]
    by (simp only: stream_from_ccm[OF lN] cbc_mac_append append_Cons C_def) simp
  have pos: "payload_from (hl + 8) g = C @ T" using lH by (simp add: payload_from_def fr)
  have mic: "xor_block T (?E (ccm_ctr N 0)) 8 = take 8 ?b'"
  proof -
    have "xor_block T (?E (ccm_ctr N 0)) 8 = map2 (XOR) T (take 8 (?E (ccm_ctr N 0)))" using lT by (simp add: xor_block_def)
    also have "\<dots> = take 8 ?b'" unfolding T_def ccm_tag_def using lb ls by (intro map2_xor_cancel) simp
    finally show ?thesis .
  qed
  have b3: "payload_from hl g ! 3 = ccmp_header pn k ! 3" using H lH by (simp add: payload_from_def fr nth_append)
  have fpn: "ccmp_frame_pn hl g = pn" by (rule frame_pn_header[OF pn g(2) H(2)])
  define f1 where "f1 = wr (hl + 8) (D @ take 8 ?b') g"
  have f1: "skb_wf f1" "skb_frame f1 = P @ ccmp_header pn k @ D @ take 8 ?b'"
  proof -
    have "skb_frame g = P @ ccmp_header pn k @ C @ T" using fr H(1) by simp
    then show "skb_wf f1" "skb_frame f1 = P @ ccmp_header pn k @ D @ take 8 ?b'"
      using g(1) len lb(2) H(2) lC lT by (simp_all add: f1_def frame_wr skb_wf_def)
  qed
  have "rtllib_ccmp_decrypt aes False hl g key = Some (ccmp_strip hl f1, key\<lparr>rx_pn := pn\<rparr>, k)"
    using len header_bytes[OF k(1,2)] k init blocks
    by (simp add: rtllib_ccmp_decrypt_def Let_def b3 fpn pos lC[symmetric] f1_def)
      (simp add: lC mic)
  moreover have "skb_frame (ccmp_strip hl f1) = P @ D"
    using frame_strip[OF f1 H(2)] lb by simp
  ultimately show thesis by (rule that)
qed

text \<open>Sender and receiver share the key; the sender's counter is not behind and does not wrap.\<close>

definition ccmp_sync :: "block_cipher \<Rightarrow> nat \<Rightarrow> rtllib_ccmp_data \<Rightarrow> rtllib_ccmp_data \<Rightarrow> bool" where
  "ccmp_sync aes n s r \<longleftrightarrow> block_cipher_ok (aes (tfm_key s)) \<and> tfm_key r = tfm_key s \<and> ccmp_key_set r \<and>
     0 \<le> ccmp_key_idx s \<and> ccmp_key_idx s < 4 \<and> ccmp_key_idx r = ccmp_key_idx s \<and>
     length (tx_pn s) = 6 \<and> length (rx_pn r) = 6 \<and> be_nat (rx_pn r) \<le> be_nat (tx_pn s) \<and> be_nat (tx_pn s) + n < 2 ^ 48"

interpretation ccmp: cipher_channel "rtllib_ccmp_encrypt aes False hl" "rtllib_ccmp_decrypt aes False hl" "ccmp_sync aes"
  "\<lambda>f. can_send hl 8 8 f \<and> 24 \<le> hl" for aes hl
proof (unfold_locales, goal_cases)
  case (1 n s r f)
  then have "can_send hl 8 8 f" "24 \<le> hl" "block_cipher_ok (aes (tfm_key s))" "length (tx_pn s) = 6"
    by (auto simp: ccmp_sync_def)
  then show ?case by (metis ccmp_encrypt_frame)
next
  case (2 n s r f g s' g')
  then have ok: "can_send hl 8 8 f" "24 \<le> hl" and sy: "block_cipher_ok (aes (tfm_key s))" "tfm_key r = tfm_key s" "ccmp_key_set r"
    "0 \<le> ccmp_key_idx s" "ccmp_key_idx s < 4" "ccmp_key_idx r = ccmp_key_idx s" "length (tx_pn s) = 6" "length (rx_pn r) = 6"
    "be_nat (rx_pn r) \<le> be_nat (tx_pn s)" "be_nat (tx_pn s) + Suc n < 2 ^ 48"
    by (auto simp: ccmp_sync_def)
  define pn where "pn = ccmp_pn_inc 5 (tx_pn s)"
  have pn: "length pn = 6" "be_nat pn = be_nat (tx_pn s) + 1"
    using ccmp_pn_inc_nat[OF sy(7)] sy(10) by (simp_all add: pn_def)
  define P where "P = take hl (skb_frame f)"
  have lP: "length P = hl" using ok by (simp add: can_send_def P_def)
  have x: "s' = s\<lparr>tx_pn := pn\<rparr>" "skb_frame g = (P @ ccmp_header pn (ccmp_key_idx s)) @ ccm_encrypt (aes (tfm_key s))
      (ccmp_nonce (P @ ccmp_header pn (ccmp_key_idx s)) pn) (ccmp_aad (P @ ccmp_header pn (ccmp_key_idx s))) (drop hl (skb_frame f))"
    using ccmp_encrypt_frame[where aes = aes and key = s, OF ok sy(1,7)] 2(3) unfolding pn_def[symmetric] P_def[symmetric]
    by (metis option.inject prod.inject)+
  have new: "\<not> memcmp_le pn (rx_pn r)" using pn sy(8,9) by (simp add: memcmp_le_iff)
  have gf: "skb_frame g' = P @ ccmp_header pn (ccmp_key_idx s) @ ccm_encrypt (aes (tfm_key r))
      (ccmp_nonce (P @ ccmp_header pn (ccmp_key_idx s)) pn) (ccmp_aad (P @ ccmp_header pn (ccmp_key_idx s))) (drop hl (skb_frame f))"
    using 2(5) x(2) sy(2) by simp
  have cr: "block_cipher_ok (aes (tfm_key r))" using sy(1,2) by simp
  obtain h where h: "rtllib_ccmp_decrypt aes False hl g' r = Some (h, r\<lparr>rx_pn := pn\<rparr>, ccmp_key_idx s)" "skb_frame h = P @ drop hl (skb_frame f)"
    by (rule ccmp_decrypt_frame[where aes = aes and key = r, OF 2(4) gf refl lP ok(2) cr pn(1) sy(4,5,6,3) new])
  show ?case using h sy pn x(1) by (auto simp: P_def ccmp_sync_def)
qed

lemma ccmp_set_key_sync:
  assumes "block_cipher_ok (aes (take 16 K))" "0 \<le> k" "k < 4" "ccmp_key_idx s0 = k" "ccmp_key_idx r0 = k" "n < 2 ^ 48"
  shows "ccmp_sync aes n (fst (rtllib_ccmp_set_key K 16 None s0)) (fst (rtllib_ccmp_set_key K 16 None r0))"
  using assms by (simp add: ccmp_sync_def rtllib_ccmp_set_key_def ccmp_zero_def Let_def)

text \<open>
  C28: CCMP is a round trip over any sequence of frames. Two contexts with the same key
  number are given the same key, with the block cipher any function from blocks to blocks.
  Then every frame with enough room and a header of at least 24 bytes that the one encrypts
  is decrypted by the other, in the order of sending and for up to 2 to the 48 frames, to
  the frame before encryption, and every call succeeds.
\<close>

theorem ccmp_channel_delivers:
  assumes aes: "block_cipher_ok (aes (take 16 K))"
    and k: "0 \<le> k" "k < 4" "ccmp_key_idx s0 = k" "ccmp_key_idx r0 = k"
    and fs: "\<forall>(f, rx) \<in> set fs. (can_send hl 8 8 f \<and> 24 \<le> hl) \<and> carries rx" "length fs < 2 ^ 48"
  shows "\<exists>out. channel_run (rtllib_ccmp_encrypt aes False hl) (rtllib_ccmp_decrypt aes False hl) fs
             (fst (rtllib_ccmp_set_key K 16 None s0)) (fst (rtllib_ccmp_set_key K 16 None r0)) = Some out \<and>
           map fst out = map (skb_frame \<circ> fst) fs \<and> (\<forall>(_, code) \<in> set out. 0 \<le> code)"
  using ccmp.channel_delivers[OF ccmp_set_key_sync[where aes = aes and K = K, OF aes k fs(2)] fs(1)] .

section \<open>Replayed frames\<close>

lemma ccmp_decrypt_cases:
  assumes "rtllib_ccmp_decrypt aes False hl f r = Some (h, r', e)"
  shows "if 0 \<le> e then \<not> memcmp_le (ccmp_frame_pn hl f) (rx_pn r) \<and> rx_pn r' = ccmp_frame_pn hl f else rx_pn r' = rx_pn r"
proof -
  have idx: "uint (drop_bit 6 (payload_from hl f ! 3)) = ccmp_key_idx r \<Longrightarrow> 0 \<le> ccmp_key_idx r" by (metis uint_ge_0)
  show ?thesis
  proof (cases "ccmp_init_blocks (aes (tfm_key r)) f (ccmp_frame_pn hl f) (sk_len f - hl - 8 - 8)")
    case None
    then show ?thesis using assms by (auto simp: rtllib_ccmp_decrypt_def Let_def dest: idx split: if_splits)
  next
    case (Some x)
    then obtain b0 a b where x: "ccmp_init_blocks (aes (tfm_key r)) f (ccmp_frame_pn hl f) (sk_len f - hl - 8 - 8) = Some (b0, a, b)"
      by (metis surj_pair)
    then show ?thesis using assms
      by (auto simp: rtllib_ccmp_decrypt_def Let_def dest: idx split: if_splits prod.splits)
  qed
qed

lemma length_frame_pn [simp]: "length (ccmp_frame_pn hl f) = 6"
  by (simp add: ccmp_frame_pn_def Let_def)

interpretation ccmp_replay: replay_counter "rtllib_ccmp_decrypt aes False hl" "\<lambda>f. be_nat (ccmp_frame_pn hl f)"
  "\<lambda>r. be_nat (rx_pn r)" "\<lambda>r. length (rx_pn r) = 6" for aes hl
proof (unfold_locales, goal_cases)
  case (1 r f h r' e)
  then show ?case using ccmp_decrypt_cases[OF 1(2)] by (simp add: memcmp_le_iff)
next
  case (2 r f h r' e)
  then show ?case using ccmp_decrypt_cases[OF 2(2)] by simp
next
  case (3 r f h r' e)
  then show ?case using ccmp_decrypt_cases[OF 3(2)] by (cases "0 \<le> e") simp_all
qed

text \<open>
  C29: Replay protection of CCMP. Whatever frames arrive, and whatever the block cipher is,
  the packet numbers of the frames that host decryption accepts grow strictly, from the
  counter of the key on: no packet number is accepted twice.
\<close>

theorem ccmp_no_replay:
  assumes "length (rx_pn r) = 6"
  shows "sorted_wrt (<) (accepted (rtllib_ccmp_decrypt aes False hl) (\<lambda>f. be_nat (ccmp_frame_pn hl f)) fs r) \<and>
    (\<forall>n \<in> set (accepted (rtllib_ccmp_decrypt aes False hl) (\<lambda>f. be_nat (ccmp_frame_pn hl f)) fs r). be_nat (rx_pn r) < n)"
  using ccmp_replay.accepted_increasing ccmp_replay.accepted_above assms by blast

text \<open>
  When the device decrypts, the counter of the key is compared with but never advanced:
  a frame that was accepted leaves the key as it was and is accepted again.
\<close>

theorem ccmp_device_accepts_replay:
  assumes "rtllib_ccmp_decrypt aes True hl f key = Some (h, key', code)" "0 \<le> code"
  shows "key' = key \<and> rtllib_ccmp_decrypt aes True hl f key' = Some (h, key', code)"
proof -
  have "key' = key" using assms by (auto simp: rtllib_ccmp_decrypt_def Let_def split: if_splits)
  then show ?thesis using assms by simp
qed

section \<open>Examples\<close>

text \<open>A block cipher for the examples: the key is combined with the block, cut and filled to 16 bytes.\<close>

definition ex_aes :: block_cipher where
  "ex_aes k b = take 16 (map2 (+) k b @ rev b @ replicate 16 0)"

lemma ex_aes_ok: "block_cipher_ok (ex_aes k)"
  by (simp add: block_cipher_ok_def ex_aes_def)

definition ex_ccmp :: rtllib_ccmp_data where
  "ex_ccmp = fst (rtllib_ccmp_set_key (replicate 16 3) 16 None (ccmp_zero\<lparr>ccmp_key_idx := 1\<rparr>))"

lemma ex_ccmp_simps [simp]:
  "length (tx_pn ex_ccmp) = 6" "tx_pn ex_ccmp = replicate 6 0" "length (rx_pn ex_ccmp) = 6" "ccmp_key_idx ex_ccmp = 1"
  by (simp_all add: ex_ccmp_def rtllib_ccmp_set_key_def ccmp_zero_def)

theorem rtllib_ccmp_encrypt_is_ccm_witness:
  "\<exists>g. rtllib_ccmp_encrypt ex_aes False 24 (ex_cskb (replicate 50 8)) ex_ccmp = Some (g, ex_ccmp\<lparr>tx_pn := ccmp_pn_inc 5 (replicate 6 0)\<rparr>, 0) \<and>
     be_nat (ccmp_pn_inc 5 (replicate 6 0)) = 1"
  using rtllib_ccmp_encrypt_is_ccm[of 24 "ex_cskb (replicate 50 8)" ex_aes ex_ccmp]
  by (auto simp: can_send_def ex_aes_ok)

theorem ccmp_channel_delivers_witness:
  "\<exists>out. channel_run (rtllib_ccmp_encrypt ex_aes False 24) (rtllib_ccmp_decrypt ex_aes False 24)
       [(ex_cskb (replicate 50 8), ex_rx_buffer), (ex_cskb (replicate 24 9), ex_rx_buffer)]
       (fst (rtllib_ccmp_set_key (replicate 16 3) 16 None ex_ccmp)) (fst (rtllib_ccmp_set_key (replicate 16 3) 16 None ex_ccmp)) = Some out \<and>
     map fst out = [replicate 50 8, replicate 24 9]"
  using ccmp_channel_delivers[of ex_aes "replicate 16 3" 1 ex_ccmp ex_ccmp
      "[(ex_cskb (replicate 50 8), ex_rx_buffer), (ex_cskb (replicate 24 9), ex_rx_buffer)]" 24]
  by (auto simp: can_send_def ex_aes_ok)

theorem ccmp_no_replay_witness:
  "sorted_wrt (<) (accepted (rtllib_ccmp_decrypt ex_aes False 24) (\<lambda>f. be_nat (ccmp_frame_pn 24 f)) [ex_cskb (replicate 50 8)] ex_ccmp)"
  using ccmp_no_replay[of ex_ccmp ex_aes 24 "[ex_cskb (replicate 50 8)]"] by simp

theorem ccmp_device_accepts_replay_witness:
  "\<exists>h. rtllib_ccmp_decrypt ex_aes True 24 (ex_cskb (replicate 50 0x60)) ex_ccmp = Some (h, ex_ccmp, 1)"
proof -
  have "rx_pn ex_ccmp = replicate 6 0" "ccmp_key_set ex_ccmp"
    by (simp_all add: ex_ccmp_def rtllib_ccmp_set_key_def ccmp_zero_def)
  moreover have "replicate 6 0 = [0, 0, 0, 0, 0, 0 :: u8]" by (simp add: eval_nat_numeral)
  ultimately obtain h where "rtllib_ccmp_decrypt ex_aes True 24 (ex_cskb (replicate 50 0x60)) ex_ccmp = Some (h, ex_ccmp, 1)"
    by (simp add: rtllib_ccmp_decrypt_def Let_def ccmp_frame_pn_def payload_from_def)
  then show ?thesis using ccmp_device_accepts_replay[of ex_aes 24 "ex_cskb (replicate 50 0x60)" ex_ccmp h ex_ccmp 1] by auto
qed

end
