(* ===== verification/Crypt_TKIP.thy ===== *)
theory Crypt_TKIP
  imports Crypt_WEP
begin

text \<open>
  The TKIP module src/src/rtllib_crypt_tkip.c: the key mixing, the encapsulation of a frame
  with its sequence counter, and the Michael code over the whole message. The kernel's
  checksum, cipher and Michael hash are parameters. The header blocks of the context, which
  every call fills completely, are local values here.
\<close>

section \<open>Key mixing\<close>

definition RotR1 :: "u16 \<Rightarrow> u16" where "RotR1 v = drop_bit 1 v OR push_bit 15 v"
definition Lo8 :: "u16 \<Rightarrow> u8" where "Lo8 v = ucast (v AND 0xff)"
definition Hi8 :: "u16 \<Rightarrow> u8" where "Hi8 v = ucast (drop_bit 8 v)"
definition Lo16 :: "u32 \<Rightarrow> u16" where "Lo16 v = ucast (v AND 0xffff)"
definition Hi16 :: "u32 \<Rightarrow> u16" where "Hi16 v = ucast (drop_bit 16 v)"
definition Mk16 :: "u8 \<Rightarrow> u8 \<Rightarrow> u16" where "Mk16 hi lo = ucast lo OR push_bit 8 (ucast hi)"

definition Sbox :: "u16 list" where
  "Sbox = [0xC6A5, 0xF884, 0xEE99, 0xF68D, 0xFF0D, 0xD6BD, 0xDEB1, 0x9154,
     0x6050, 0x0203, 0xCEA9, 0x567D, 0xE719, 0xB562, 0x4DE6, 0xEC9A,
     0x8F45, 0x1F9D, 0x8940, 0xFA87, 0xEF15, 0xB2EB, 0x8EC9, 0xFB0B,
     0x41EC, 0xB367, 0x5FFD, 0x45EA, 0x23BF, 0x53F7, 0xE496, 0x9B5B,
     0x75C2, 0xE11C, 0x3DAE, 0x4C6A, 0x6C5A, 0x7E41, 0xF502, 0x834F,
     0x685C, 0x51F4, 0xD134, 0xF908, 0xE293, 0xAB73, 0x6253, 0x2A3F,
     0x080C, 0x9552, 0x4665, 0x9D5E, 0x3028, 0x37A1, 0x0A0F, 0x2FB5,
     0x0E09, 0x2436, 0x1B9B, 0xDF3D, 0xCD26, 0x4E69, 0x7FCD, 0xEA9F,
     0x121B, 0x1D9E, 0x5874, 0x342E, 0x362D, 0xDCB2, 0xB4EE, 0x5BFB,
     0xA4F6, 0x764D, 0xB761, 0x7DCE, 0x527B, 0xDD3E, 0x5E71, 0x1397,
     0xA6F5, 0xB968, 0x0000, 0xC12C, 0x4060, 0xE31F, 0x79C8, 0xB6ED,
     0xD4BE, 0x8D46, 0x67D9, 0x724B, 0x94DE, 0x98D4, 0xB0E8, 0x854A,
     0xBB6B, 0xC52A, 0x4FE5, 0xED16, 0x86C5, 0x9AD7, 0x6655, 0x1194,
     0x8ACF, 0xE910, 0x0406, 0xFE81, 0xA0F0, 0x7844, 0x25BA, 0x4BE3,
     0xA2F3, 0x5DFE, 0x80C0, 0x058A, 0x3FAD, 0x21BC, 0x7048, 0xF104,
     0x63DF, 0x77C1, 0xAF75, 0x4263, 0x2030, 0xE51A, 0xFD0E, 0xBF6D,
     0x814C, 0x1814, 0x2635, 0xC32F, 0xBEE1, 0x35A2, 0x88CC, 0x2E39,
     0x9357, 0x55F2, 0xFC82, 0x7A47, 0xC8AC, 0xBAE7, 0x322B, 0xE695,
     0xC0A0, 0x1998, 0x9ED1, 0xA37F, 0x4466, 0x547E, 0x3BAB, 0x0B83,
     0x8CCA, 0xC729, 0x6BD3, 0x283C, 0xA779, 0xBCE2, 0x161D, 0xAD76,
     0xDB3B, 0x6456, 0x744E, 0x141E, 0x92DB, 0x0C0A, 0x486C, 0xB8E4,
     0x9F5D, 0xBD6E, 0x43EF, 0xC4A6, 0x39A8, 0x31A4, 0xD337, 0xF28B,
     0xD532, 0x8B43, 0x6E59, 0xDAB7, 0x018C, 0xB164, 0x9CD2, 0x49E0,
     0xD8B4, 0xACFA, 0xF307, 0xCF25, 0xCAAF, 0xF48E, 0x47E9, 0x1018,
     0x6FD5, 0xF088, 0x4A6F, 0x5C72, 0x3824, 0x57F1, 0x73C7, 0x9751,
     0xCB23, 0xA17C, 0xE89C, 0x3E21, 0x96DD, 0x61DC, 0x0D86, 0x0F85,
     0xE090, 0x7C42, 0x71C4, 0xCCAA, 0x90D8, 0x0605, 0xF701, 0x1C12,
     0xC2A3, 0x6A5F, 0xAEF9, 0x69D0, 0x1791, 0x9958, 0x3A27, 0x27B9,
     0xD938, 0xEB13, 0x2BB3, 0x2233, 0xD2BB, 0xA970, 0x0789, 0x33A7,
     0x2DB6, 0x3C22, 0x1592, 0xC920, 0x8749, 0xAAFF, 0x5078, 0xA57A,
     0x038F, 0x59F8, 0x0980, 0x1A17, 0x65DA, 0xD731, 0x84C6, 0xD0B8,
     0x82C3, 0x29B0, 0x5A77, 0x1E11, 0x7BCB, 0xA8FC, 0x6DD6, 0x2C3A]"

definition S_box16 :: "u16 \<Rightarrow> u16" where
  "S_box16 v = (let t = Sbox ! unat (Hi8 v) in Sbox ! unat (Lo8 v) XOR (push_bit 8 t OR drop_bit 8 t))"

text \<open>The first phase mixes the key with the address of the sender and the upper half of the counter.\<close>

definition tkip_phase1_round :: "u8 list \<Rightarrow> nat \<Rightarrow> u16 list \<Rightarrow> u16 list" where
  "tkip_phase1_round TK i T =
     (let j = 2 * (i mod 2);
          t0 = T ! 0 + S_box16 (T ! 4 XOR Mk16 (TK ! (1 + j)) (TK ! (0 + j)));
          t1 = T ! 1 + S_box16 (t0 XOR Mk16 (TK ! (5 + j)) (TK ! (4 + j)));
          t2 = T ! 2 + S_box16 (t1 XOR Mk16 (TK ! (9 + j)) (TK ! (8 + j)));
          t3 = T ! 3 + S_box16 (t2 XOR Mk16 (TK ! (13 + j)) (TK ! (12 + j)));
          t4 = T ! 4 + S_box16 (t3 XOR Mk16 (TK ! (1 + j)) (TK ! (0 + j))) + of_nat i
      in [t0, t1, t2, t3, t4])"

definition tkip_mixing_phase1 :: "u8 list \<Rightarrow> u8 list \<Rightarrow> u32 \<Rightarrow> u16 list" where
  "tkip_mixing_phase1 TK TA IV32 =
     fold (tkip_phase1_round TK) [0..<8]
       [Lo16 IV32, Hi16 IV32, Mk16 (TA ! 1) (TA ! 0), Mk16 (TA ! 3) (TA ! 2), Mk16 (TA ! 5) (TA ! 4)]"

text \<open>The second phase makes the 16 bytes of the cipher key of one frame.\<close>

definition TK16 :: "u8 list \<Rightarrow> nat \<Rightarrow> u16" where "TK16 TK i = le16 (TK ! i) (TK ! Suc i)"

definition tkip_mixing_phase2 :: "u8 list \<Rightarrow> u16 list \<Rightarrow> u16 \<Rightarrow> u8 list" where
  "tkip_mixing_phase2 TK TTAK IV16 =
     (let p5 = TTAK ! 4 + IV16;
          p0 = TTAK ! 0 + S_box16 (p5 XOR TK16 TK 0);
          p1 = TTAK ! 1 + S_box16 (p0 XOR TK16 TK 2);
          p2 = TTAK ! 2 + S_box16 (p1 XOR TK16 TK 4);
          p3 = TTAK ! 3 + S_box16 (p2 XOR TK16 TK 6);
          p4 = TTAK ! 4 + S_box16 (p3 XOR TK16 TK 8);
          p5 = p5 + S_box16 (p4 XOR TK16 TK 10);
          p0 = p0 + RotR1 (p5 XOR TK16 TK 12);
          p1 = p1 + RotR1 (p0 XOR TK16 TK 14);
          p2 = p2 + RotR1 p1;
          p3 = p3 + RotR1 p2;
          p4 = p4 + RotR1 p3;
          p5 = p5 + RotR1 p4
      in [Hi8 IV16, (Hi8 IV16 OR 0x20) AND 0x7f, Lo8 IV16, Lo8 (drop_bit 1 (p5 XOR TK16 TK 0))] @
         concat (map put16 [p0, p1, p2, p3, p4, p5]))"

section \<open>The module\<close>

record rtllib_tkip_data =
  tkip_key :: "u8 list"
  tkip_key_set :: bool
  tx_iv32 :: u32
  tx_iv16 :: u16
  tx_ttak :: "u16 list"
  tx_phase1_done :: bool
  rx_iv32 :: u32
  rx_iv16 :: u16
  initialized :: bool
  rx_ttak :: "u16 list"
  rx_phase1_done :: bool
  rx_iv32_new :: u32
  rx_iv16_new :: u16
  tkip_replays :: u32
  tkip_icv_errors :: u32
  tkip_mic_failures :: u32
  tkip_key_idx :: int

definition tkip_zero :: rtllib_tkip_data where
  "tkip_zero = \<lparr>tkip_key = replicate 32 0, tkip_key_set = False, tx_iv32 = 0, tx_iv16 = 0, tx_ttak = replicate 5 0,
     tx_phase1_done = False, rx_iv32 = 0, rx_iv16 = 0, initialized = False, rx_ttak = replicate 5 0, rx_phase1_done = False,
     rx_iv32_new = 0, rx_iv16_new = 0, tkip_replays = 0, tkip_icv_errors = 0, tkip_mic_failures = 0, tkip_key_idx = 0\<rparr>"

definition rtllib_tkip_init :: "bool list \<Rightarrow> int \<Rightarrow> nat \<Rightarrow> nat \<times> rtllib_tkip_data option" where
  "rtllib_tkip_init allocs key_idx live =
     (case alloc_contexts (take 5 allocs) 0 live of
        (live', True) \<Rightarrow> (live', Some (tkip_zero\<lparr>tkip_key_idx := key_idx\<rparr>))
      | (live', False) \<Rightarrow> (live', None))"

definition tkip_header :: "u8 list \<Rightarrow> int \<Rightarrow> u32 \<Rightarrow> u8 list" where
  "tkip_header iv3 key_idx iv32 = iv3 @ [push_bit 6 (word_of_int key_idx) OR 0x20] @ put32 iv32"

text \<open>The counter of sent frames: the first phase has to be done again when its upper half changes.\<close>

definition tkip_next_tsc :: "rtllib_tkip_data \<Rightarrow> rtllib_tkip_data" where
  "tkip_next_tsc t =
     (let t1 = t\<lparr>tx_iv16 := tx_iv16 t + 1\<rparr>
      in if tx_iv16 t1 = 0 then t1\<lparr>tx_phase1_done := False, tx_iv32 := tx_iv32 t1 + 1\<rparr> else t1)"

definition tkip_tx_phase1 :: "cskb \<Rightarrow> rtllib_tkip_data \<Rightarrow> rtllib_tkip_data option" where
  "tkip_tx_phase1 f t =
     (if tx_phase1_done t then Some t
      else do {
        TA \<leftarrow> rdn f 10 6;
        Some (t\<lparr>tx_ttak := tkip_mixing_phase1 (tkip_key t) TA (tx_iv32 t), tx_phase1_done := True\<rparr>) })"

definition rtllib_tkip_encrypt :: "crc_fun \<Rightarrow> skcipher \<Rightarrow> bool \<Rightarrow> nat \<Rightarrow> rtllib_tkip_data crypt_op" where
  "rtllib_tkip_encrypt crc32_le arc4 bHwSec hdr_len f tkey =
     (if sk_headroom f < 8 \<or> skb_tailroom f < 4 \<or> sk_len f < hdr_len then Some (f, tkey, - 1)
      else if bHwSec then
        let iv3 = [Hi8 (tx_iv16 tkey), (Hi8 (tx_iv16 tkey) OR 0x20) AND 0x7f, Lo8 (tx_iv16 tkey)];
            f1 = insert_gap hdr_len (tkip_header iv3 (tkip_key_idx tkey) (tx_iv32 tkey)) f
        in Some (f1, tkip_next_tsc (tkey\<lparr>tx_phase1_done := True\<rparr>), 0)
      else do {
        t \<leftarrow> tkip_tx_phase1 f tkey;
        let rc4key = tkip_mixing_phase2 (tkip_key t) (tx_ttak t) (tx_iv16 t);
        let f1 = insert_gap hdr_len (tkip_header (take 3 rc4key) (tkip_key_idx t) (tx_iv32 t)) f;
        let data = payload_from (hdr_len + 8) f1;
        let (c, ret) = arc4 rc4key (data @ wep_icv crc32_le data);
        Some (wr (hdr_len + 8) c (skb_put 4 f1), tkip_next_tsc t, ret) })"

definition rd_iv16 :: "u8 list \<Rightarrow> u16" where "rd_iv16 pos = Mk16 (pos ! 0) (pos ! 2)"

definition rd_iv32 :: "u8 list \<Rightarrow> u32" where
  "rd_iv32 pos = ucast (pos ! 4) OR push_bit 8 (ucast (pos ! 5)) OR push_bit 16 (ucast (pos ! 6)) OR push_bit 24 (ucast (pos ! 7))"

text \<open>The cached result of the first phase, calculated again for another upper half of the counter.\<close>

definition tkip_rx_phase1 :: "cskb \<Rightarrow> u32 \<Rightarrow> rtllib_tkip_data \<Rightarrow> rtllib_tkip_data option" where
  "tkip_rx_phase1 f iv32 t =
     (if iv32 \<noteq> rx_iv32 t \<or> \<not> rx_phase1_done t then do {
        TA \<leftarrow> rdn f 10 6;
        Some (t\<lparr>rx_ttak := tkip_mixing_phase1 (tkip_key t) TA iv32, rx_phase1_done := True\<rparr>) }
      else Some t)"

definition tkip_strip :: "nat \<Rightarrow> cskb \<Rightarrow> cskb" where
  "tkip_strip hdr_len f = (let g = remove_gap hdr_len 8 f in skb_trim (sk_len g - 4) g)"

text \<open>The flag \<open>cb0\<close> says that the first byte of the control block is 1: the host decrypts all the same.\<close>

definition rtllib_tkip_decrypt :: "crc_fun \<Rightarrow> skcipher \<Rightarrow> bool \<Rightarrow> bool \<Rightarrow> nat \<Rightarrow> rtllib_tkip_data crypt_op" where
  "rtllib_tkip_decrypt crc32_le arc4 bHwSec cb0 hdr_len f tkey =
     (if sk_len f < hdr_len + 8 + 4 then Some (f, tkey, - 1)
      else
        let pos = payload_from hdr_len f;
            keyidx = uint (drop_bit 6 (pos ! 3));
            iv16 = rd_iv16 pos;
            iv32 = rd_iv32 pos;
            plen = sk_len f - hdr_len - 12
        in if \<not> bit (pos ! 3) 5 then Some (f, tkey, - 2)
           else if tkip_key_idx tkey \<noteq> keyidx then Some (f, tkey, - 6)
           else if \<not> tkip_key_set tkey then Some (f, tkey, - 3)
           else if bHwSec \<and> \<not> cb0 then
             Some (tkip_strip hdr_len f, tkey\<lparr>rx_iv32_new := iv32, rx_iv16_new := iv16\<rparr>, keyidx)
           else if (iv32 < rx_iv32 tkey \<or> iv32 = rx_iv32 tkey \<and> iv16 \<le> rx_iv16 tkey) \<and> initialized tkey then
             Some (f, tkey\<lparr>tkip_replays := tkip_replays tkey + 1\<rparr>, - 4)
           else do {
             t \<leftarrow> tkip_rx_phase1 f iv32 (tkey\<lparr>initialized := True\<rparr>);
             let rc4key = tkip_mixing_phase2 (tkip_key t) (rx_ttak t) iv16;
             let (p, err) = arc4 rc4key (payload_from (hdr_len + 8) f);
             let f1 = wr (hdr_len + 8) p f;
             if err \<noteq> 0 then Some (f1, t, - 7)
             else if wep_icv crc32_le (take plen p) \<noteq> take 4 (drop plen p) then
               Some (f1, t\<lparr>rx_phase1_done := (if iv32 \<noteq> rx_iv32 t then False else rx_phase1_done t),
                           tkip_icv_errors := tkip_icv_errors t + 1\<rparr>, - 5)
             else Some (tkip_strip hdr_len f1, t\<lparr>rx_iv32_new := iv32, rx_iv16_new := iv16\<rparr>, keyidx) })"

section \<open>The Michael code\<close>

text \<open>The hash takes the key, the header block and the data; the result is the code and an error.\<close>

type_synonym michael_fun = "u8 list \<Rightarrow> u8 list \<Rightarrow> u8 list \<Rightarrow> u8 list \<times> int"

text \<open>Destination, source, priority and padding; the addresses depend on the direction.\<close>

definition michael_mic_hdr :: "cskb \<Rightarrow> u8 list option" where
  "michael_mic_hdr f = do {
     fc \<leftarrow> rd16 f 0;
     let ds = fc AND 0x0300;
     da \<leftarrow> rdn f (if ds AND 0x0100 \<noteq> 0 then 16 else 4) 6;
     sa \<leftarrow> rdn f (if ds = 0x0300 then 24 else if ds = 0x0200 then 16 else 10) 6;
     Some (da @ sa @ [0, 0, 0, 0]) }"

definition michael_hdr_qos :: "nat \<Rightarrow> cskb \<Rightarrow> u8 list option" where
  "michael_hdr_qos hdr_len f = do {
     hdr \<leftarrow> michael_mic_hdr f;
     fc \<leftarrow> rd16 f 0;
     if RTLLIB_QOS_HAS_SEQ fc then do { q \<leftarrow> rd8 f (hdr_len - 2); Some (hdr[12 := q AND 0x07]) } else Some hdr }"

definition rtllib_michael_mic_add :: "michael_fun \<Rightarrow> nat \<Rightarrow> rtllib_tkip_data crypt_op" where
  "rtllib_michael_mic_add michael_mic hdr_len f tkey =
     (if skb_tailroom f < 8 \<or> sk_len f < hdr_len then Some (f, tkey, - 1)
      else do {
        hdr \<leftarrow> michael_hdr_qos hdr_len f;
        let (mic, err) = michael_mic (take 8 (drop 16 (tkip_key tkey))) hdr (payload_from hdr_len f);
        let f1 = wr (sk_len f) mic (skb_put 8 f);
        Some (f1, tkey, if err \<noteq> 0 then - 1 else 0) })"

text \<open>
  The verification. The flag is \<open>force_mic_error\<close> of the device, which a failure clears;
  the event for the user space is not modelled. A frame shorter than header and code makes
  the length of the data wrap, and the hash reads outside of the buffer: a fault.
\<close>

definition rtllib_michael_mic_verify ::
    "michael_fun \<Rightarrow> nat \<Rightarrow> bool \<Rightarrow> cskb \<Rightarrow> rtllib_tkip_data \<Rightarrow> (cskb \<times> rtllib_tkip_data \<times> bool \<times> int) option" where
  "rtllib_michael_mic_verify michael_mic hdr_len force f tkey =
     (if \<not> tkip_key_set tkey then Some (f, tkey, force, - 1)
      else if sk_len f < hdr_len + 8 then None
      else do {
        hdr \<leftarrow> michael_hdr_qos hdr_len f;
        let dlen = sk_len f - 8 - hdr_len;
        let (mic, err) = michael_mic (take 8 (drop 24 (tkip_key tkey))) hdr (take dlen (payload_from hdr_len f));
        if err \<noteq> 0 then Some (f, tkey, force, - 1)
        else if mic \<noteq> drop dlen (payload_from hdr_len f) \<or> force then
          Some (f, tkey\<lparr>tkip_mic_failures := tkip_mic_failures tkey + 1\<rparr>, False, - 1)
        else Some (skb_trim (sk_len f - 8) f, tkey\<lparr>rx_iv32 := rx_iv32_new tkey, rx_iv16 := rx_iv16_new tkey\<rparr>, force, 0) })"

section \<open>Keys\<close>

definition rtllib_tkip_set_key :: "u8 list \<Rightarrow> int \<Rightarrow> u8 list option \<Rightarrow> rtllib_tkip_data \<Rightarrow> rtllib_tkip_data \<times> int" where
  "rtllib_tkip_set_key key len seq tkey =
     (let t = tkip_zero\<lparr>tkip_key_idx := tkip_key_idx tkey\<rparr>
      in if len = 32 then
           let t1 = t\<lparr>tkip_key := take 32 key, tkip_key_set := True, tx_iv16 := 1\<rparr>
           in (case seq of
                 None \<Rightarrow> t1
               | Some q \<Rightarrow> t1\<lparr>rx_iv32 := push_bit 24 (ucast (q ! 5)) OR push_bit 16 (ucast (q ! 4)) OR
                                         push_bit 8 (ucast (q ! 3)) OR ucast (q ! 2),
                              rx_iv16 := Mk16 (q ! 1) (q ! 0)\<rparr>, 0)
         else if len = 0 then (t\<lparr>tkip_key_set := False\<rparr>, 0)
         else (t, - 1))"

text \<open>The local copies of the counter that the code decrements are not used for the result.\<close>

definition rtllib_tkip_get_key :: "int \<Rightarrow> bool \<Rightarrow> rtllib_tkip_data \<Rightarrow> u8 list \<times> u8 list \<times> int" where
  "rtllib_tkip_get_key len want_seq tkey =
     (if len < 32 then ([], [], - 1)
      else if \<not> tkip_key_set tkey then ([], [], 0)
      else (tkip_key tkey, if want_seq then put16 (tx_iv16 tkey) @ put32 (tx_iv32 tkey) else [], 32))"

end
