(* ===== verification/Crypt_TKIP_Props.thy ===== *)
theory Crypt_TKIP_Props
  imports Crypt_TKIP Crypt_CCMP
begin

text \<open>
  The correctness of the TKIP module: the round trip of encapsulation and Michael code, the
  cached first phase of the key mixing, and replayed frames.
\<close>

section \<open>Header fields\<close>

lemma Mk16_Hi8_Lo8: "Mk16 (Hi8 v) (Lo8 v) = v"
proof -
  have "(0xff :: u16) = mask 8" by (simp add: mask_eq_exp_minus_1)
  then have "Lo8 v = ucast (v AND mask 8)" by (simp only: Lo8_def)
  then show ?thesis
    by (intro bit_word_eqI) (auto simp: Mk16_def Hi8_def bit_simps)
qed

lemma rd_iv32_put32: "length pre = 4 \<Longrightarrow> rd_iv32 (pre @ put32 v @ X) = v"
proof -
  assume "length pre = 4"
  then have "rd_iv32 (pre @ put32 v @ X) = ucast (ucast v :: u8) OR push_bit 8 (ucast (ucast (drop_bit 8 v) :: u8)) OR
      push_bit 16 (ucast (ucast (drop_bit 16 v) :: u8)) OR push_bit 24 (ucast (ucast (drop_bit 24 v) :: u8))"
    by (simp add: rd_iv32_def put32_def nth_append)
  also have "\<dots> = v"
  proof (rule bit_word_eqI)
    fix n :: nat assume "n < LENGTH(32)"
    then consider "n < 8" | "8 \<le> n" "n < 16" | "16 \<le> n" "n < 24" | "24 \<le> n" "n < 32" by force
    then show "bit (ucast (ucast v :: u8) OR push_bit 8 (ucast (ucast (drop_bit 8 v) :: u8)) OR
      push_bit 16 (ucast (ucast (drop_bit 16 v) :: u8)) OR push_bit 24 (ucast (ucast (drop_bit 24 v) :: u8) :: u32)) n = bit v n"
      by cases (auto simp: bit_simps)
  qed
  finally show ?thesis .
qed

lemma length_phase2 [simp]: "length (tkip_mixing_phase2 K T v) = 16"
  by (simp add: tkip_mixing_phase2_def Let_def put16_def)

lemma take_phase2: "take 3 (tkip_mixing_phase2 K T v) = [Hi8 v, (Hi8 v OR 0x20) AND 0x7f, Lo8 v]"
  by (simp add: tkip_mixing_phase2_def Let_def)

definition tsc :: "u32 \<Rightarrow> u16 \<Rightarrow> nat" where
  "tsc hi lo = unat hi * 65536 + unat lo"

lemma unat_u16: "unat (v :: u16) < 65536"
  using unsigned_less[of v, where ?'a = nat] by simp

lemma tsc_le: "hi < rh \<or> hi = rh \<and> lo \<le> rl \<longleftrightarrow> tsc hi lo \<le> tsc rh rl"
  using unat_u16[of lo] unat_u16[of rl]
  by (auto simp: tsc_def word_less_nat_alt word_le_nat_alt word_unat_eq_iff)

lemma header_reads:
  assumes "length P = hl" "0 \<le> k" "k < 4" "skb_frame g = P @ tkip_header (take 3 (tkip_mixing_phase2 K T lo)) k hi @ X"
  shows "bit (payload_from hl g ! 3) 5" "uint (drop_bit 6 (payload_from hl g ! 3)) = k"
    "rd_iv16 (payload_from hl g) = lo" "rd_iv32 (payload_from hl g) = hi"
proof -
  have b3: "payload_from hl g ! 3 = push_bit 6 (word_of_int k) OR 0x20"
    using assms by (simp add: payload_from_def tkip_header_def take_phase2)
  have "k = 0 \<or> k = 1 \<or> k = 2 \<or> k = 3" using assms by linarith
  then show "bit (payload_from hl g ! 3) 5" "uint (drop_bit 6 (payload_from hl g ! 3)) = k"
    unfolding b3 by auto
  show "rd_iv16 (payload_from hl g) = lo"
    using assms by (simp add: payload_from_def tkip_header_def take_phase2 rd_iv16_def Mk16_Hi8_Lo8)
  show "rd_iv32 (payload_from hl g) = hi"
    using assms rd_iv32_put32[of "take 3 (tkip_mixing_phase2 K T lo) @ [push_bit 6 (word_of_int k) OR 0x20]" hi X]
    by (simp add: payload_from_def tkip_header_def)
qed

lemma length_tkip_header [simp]: "length iv3 = 3 \<Longrightarrow> length (tkip_header iv3 k hi) = 8"
  by (simp add: tkip_header_def)

section \<open>Key mixing\<close>

text \<open>The mixing uses the first 16 bytes of the key, the other two quarters are for the Michael code.\<close>

lemma phase_key:
  assumes "\<And>i. i < 16 \<Longrightarrow> K ! i = K' ! i"
  shows "tkip_mixing_phase1 K = tkip_mixing_phase1 K'" "tkip_mixing_phase2 K = tkip_mixing_phase2 K'"
proof -
  have "tkip_phase1_round K i = tkip_phase1_round K' i" for i
    by (cases "i mod 2 = 0") (auto simp: fun_eq_iff tkip_phase1_round_def Let_def assms)
  then have "tkip_phase1_round K = tkip_phase1_round K'" by (rule ext)
  then show "tkip_mixing_phase1 K = tkip_mixing_phase1 K'" by (intro ext) (simp add: tkip_mixing_phase1_def)
  show "tkip_mixing_phase2 K = tkip_mixing_phase2 K'"
    by (simp add: fun_eq_iff tkip_mixing_phase2_def Let_def TK16_def assms)
qed

text \<open>The cached first phases belong to the counters.\<close>

definition tx_cached :: "u8 list \<Rightarrow> rtllib_tkip_data \<Rightarrow> bool" where
  "tx_cached TA t \<longleftrightarrow> (tx_phase1_done t \<longrightarrow> tx_ttak t = tkip_mixing_phase1 (tkip_key t) TA (tx_iv32 t))"

definition rx_cached :: "u8 list \<Rightarrow> rtllib_tkip_data \<Rightarrow> bool" where
  "rx_cached TA t \<longleftrightarrow> (rx_phase1_done t \<longrightarrow> rx_ttak t = tkip_mixing_phase1 (tkip_key t) TA (rx_iv32 t))"

lemma tx_phase1_cached:
  assumes "skb_wf f" "16 \<le> sk_len f" "take 6 (drop 10 (skb_frame f)) = TA" "tx_cached TA t"
  shows "tkip_tx_phase1 f t = Some (t\<lparr>tx_ttak := tkip_mixing_phase1 (tkip_key t) TA (tx_iv32 t), tx_phase1_done := True\<rparr>)"
  using assms by (auto simp: tkip_tx_phase1_def tx_cached_def rdn_frame)

lemma rx_phase1_cached:
  assumes "skb_wf f" "16 \<le> sk_len f" "take 6 (drop 10 (skb_frame f)) = TA" "rx_cached TA t"
  shows "tkip_rx_phase1 f hi t = Some (t\<lparr>rx_ttak := tkip_mixing_phase1 (tkip_key t) TA hi, rx_phase1_done := True\<rparr>)"
  using assms by (auto simp: tkip_rx_phase1_def rx_cached_def rdn_frame)

lemma next_tsc:
  assumes "tsc (tx_iv32 t) (tx_iv16 t) + 1 < 2 ^ 48"
  shows "tsc (tx_iv32 (tkip_next_tsc t)) (tx_iv16 (tkip_next_tsc t)) = tsc (tx_iv32 t) (tx_iv16 t) + 1"
proof (cases "tx_iv16 t + 1 = 0")
  case True
  then have "(unat (tx_iv16 t) + 1) mod 65536 = 0" using unat_word_ariths(1)[of "tx_iv16 t" 1] by simp
  moreover have "unat (tx_iv16 t) + 1 < 65536 \<or> unat (tx_iv16 t) + 1 = 65536" using unat_u16[of "tx_iv16 t"] by linarith
  ultimately have lo: "unat (tx_iv16 t) = 65535" by (auto dest: dvd_imp_le)
  have "unat (tx_iv32 t) + 1 < 2 ^ 32" using assms lo by (simp add: tsc_def)
  then have "unat (tx_iv32 t + 1) = unat (tx_iv32 t) + 1" by (simp add: unat_word_ariths)
  then show ?thesis using True lo by (simp add: tkip_next_tsc_def Let_def tsc_def)
next
  case False
  then show ?thesis by (simp add: tkip_next_tsc_def Let_def tsc_def unatSuc add.commute)
qed

lemma next_tsc_fields [simp]:
  "tkip_key (tkip_next_tsc t) = tkip_key t" "tkip_key_idx (tkip_next_tsc t) = tkip_key_idx t"
  by (simp_all add: tkip_next_tsc_def Let_def)

lemma next_tsc_cached: "tx_cached TA t \<Longrightarrow> tx_cached TA (tkip_next_tsc t)"
  by (simp add: tx_cached_def tkip_next_tsc_def Let_def)

section \<open>Encapsulation\<close>

text \<open>The cipher key of a frame, from the first 16 bytes of the key, the sender and the counter.\<close>

definition tkip_seed :: "u8 list \<Rightarrow> u8 list \<Rightarrow> u32 \<Rightarrow> u16 \<Rightarrow> u8 list" where
  "tkip_seed K TA hi lo = tkip_mixing_phase2 K (tkip_mixing_phase1 K TA hi) lo"

lemma tkip_encrypt_frame:
  assumes ok: "can_send hl 8 4 f" "24 \<le> hl" "take 6 (drop 10 (skb_frame f)) = TA" "tx_cached TA t" and ck: "skcipher_ok e d"
  obtains g c t1 where "rtllib_tkip_encrypt crc e False hl f t = Some (g, tkip_next_tsc t1, 0)"
    "d (tkip_seed (tkip_key t) TA (tx_iv32 t) (tx_iv16 t)) c = (drop hl (skb_frame f) @ wep_icv crc (drop hl (skb_frame f)), 0)"
    "skb_frame g = take hl (skb_frame f) @
       tkip_header (take 3 (tkip_seed (tkip_key t) TA (tx_iv32 t) (tx_iv16 t))) (tkip_key_idx t) (tx_iv32 t) @ c"
    "length c = sk_len f - hl + 4" "tx_cached TA t1" "tkip_key t1 = tkip_key t" "tkip_key_idx t1 = tkip_key_idx t"
    "tx_iv32 t1 = tx_iv32 t" "tx_iv16 t1 = tx_iv16 t"
proof -
  let ?hi = "tx_iv32 t" and ?lo = "tx_iv16 t" and ?K = "tkip_key t"
  define t1 where "t1 = t\<lparr>tx_ttak := tkip_mixing_phase1 ?K TA ?hi, tx_phase1_done := True\<rparr>"
  define seed where "seed = tkip_seed ?K TA ?hi ?lo"
  define D where "D = drop hl (skb_frame f)"
  define f1 where "f1 = insert_gap hl (tkip_header (take 3 seed) (tkip_key_idx t) ?hi) f"
  have wf: "skb_wf f" "hl \<le> sk_len f" "8 \<le> sk_headroom f" "4 \<le> skb_tailroom f" using ok by (auto simp: can_send_def)
  have p1: "tkip_tx_phase1 f t = Some t1" unfolding t1_def using wf ok by (intro tx_phase1_cached) simp_all
  have ls: "length seed = 16" by (simp add: seed_def tkip_seed_def)
  have f1: "skb_frame f1 = take hl (skb_frame f) @ tkip_header (take 3 seed) (tkip_key_idx t) ?hi @ D" "skb_wf f1" "sk_len f1 = sk_len f + 8"
    using wf ls by (simp_all add: f1_def frame_insert_gap wf_insert_gap D_def)
  have lf: "length (skb_frame f) = sk_len f" using wf by simp
  have pl: "payload_from (hl + 8) f1 = D" using wf lf ls by (simp add: payload_from_def f1)
  have lD: "length D = sk_len f - hl" using lf by (simp add: D_def)
  have "seed \<noteq> []" "length seed \<le> 256" using ls by auto
  then obtain c where c: "e seed (D @ wep_icv crc D) = (c, 0)" "length c = length (D @ wep_icv crc D)" "d seed c = (D @ wep_icv crc D, 0)"
    using ck unfolding skcipher_ok_def by blast
  define g where "g = wr (hl + 8) c (skb_put 4 f1)"
  have enc: "rtllib_tkip_encrypt crc e False hl f t = Some (g, tkip_next_tsc t1, 0)"
  proof -
    have sd: "tkip_mixing_phase2 (tkip_key t1) (tx_ttak t1) (tx_iv16 t1) = seed"
      "tkip_key_idx t1 = tkip_key_idx t" "tx_iv32 t1 = ?hi" by (simp_all add: t1_def seed_def tkip_seed_def)
    show ?thesis using wf by (simp add: rtllib_tkip_encrypt_def p1 Let_def sd f1_def[symmetric] pl c(1) g_def)
  qed
  have "skb_frame g = take (hl + 8) (skb_frame f1) @ c"
    unfolding g_def using f1 lD wf c(2) by (intro frame_wr_put) (simp_all add: f1_def wep_icv_def skb_wf_def)
  then have fr: "skb_frame g = take hl (skb_frame f) @ tkip_header (take 3 seed) (tkip_key_idx t) ?hi @ c"
    using wf lf ls by (simp add: f1)
  have "tx_cached TA t1" by (simp add: tx_cached_def t1_def)
  then show thesis
    using that[OF enc] c lD fr unfolding seed_def D_def
    by (simp add: t1_def wep_icv_def)
qed

lemma tkip_decrypt_frame:
  assumes g: "skb_wf g" "skb_frame g = P @ tkip_header (take 3 (tkip_seed K TA hi lo)) k hi @ c" "length P = hl" "24 \<le> hl"
    "take 6 (drop 10 P) = TA"
    and dc: "d (tkip_seed K TA hi lo) c = (D @ wep_icv crc D, 0)" "length c = length D + 4"
    and k: "0 \<le> k" "k < 4" "tkip_key_idx r = k" "tkip_key_set r"
    and K: "\<And>i. i < 16 \<Longrightarrow> tkip_key r ! i = K ! i"
    and rx: "rx_cached TA r" "initialized r \<Longrightarrow> tsc (rx_iv32 r) (rx_iv16 r) < tsc hi lo"
  obtains h where "rtllib_tkip_decrypt crc d False False hl g r =
      Some (h, r\<lparr>initialized := True, rx_ttak := tkip_mixing_phase1 (tkip_key r) TA hi, rx_phase1_done := True,
                 rx_iv32_new := hi, rx_iv16_new := lo\<rparr>, k)"
    "skb_frame h = P @ D" "skb_wf h"
proof -
  let ?seed = "tkip_seed K TA hi lo"
  define r1 where "r1 = r\<lparr>initialized := True, rx_ttak := tkip_mixing_phase1 (tkip_key r) TA hi, rx_phase1_done := True\<rparr>"
  have g': "skb_frame g = P @ tkip_header (take 3 (tkip_mixing_phase2 K (tkip_mixing_phase1 K TA hi) lo)) k hi @ c"
    using g(2) by (simp add: tkip_seed_def)
  note hd = header_reads[OF g(3) k(1,2) g']
  have l8: "length (tkip_header (take 3 ?seed) k hi) = 8" by (simp add: tkip_seed_def)
  have len: "sk_len g = hl + length D + 12" using length_frame[OF g(1)] g(2,3) dc(2) l8 by simp
  have pl: "payload_from (hl + 8) g = c" using g(2,3) l8 by (simp add: payload_from_def)
  have sd: "tkip_mixing_phase2 (tkip_key r1) (rx_ttak r1) lo = ?seed"
    using phase_key[OF K] by (simp add: r1_def tkip_seed_def)
  have ta: "take 6 (drop 10 (skb_frame g)) = TA" using g(2-5) by simp
  have "rx_cached TA (r\<lparr>initialized := True\<rparr>)" using rx(1) by (simp add: rx_cached_def)
  then have p1: "tkip_rx_phase1 g hi (r\<lparr>initialized := True\<rparr>) = Some r1"
    using rx_phase1_cached[OF g(1) _ ta, of "r\<lparr>initialized := True\<rparr>" hi] len g(4) by (simp add: r1_def)
  have new: "\<not> ((hi < rx_iv32 r \<or> hi = rx_iv32 r \<and> lo \<le> rx_iv16 r) \<and> initialized r)"
    using rx(2) tsc_le[of hi "rx_iv32 r" lo "rx_iv16 r"] by auto
  have tk: "take (length D) (D @ wep_icv crc D) = D" "take 4 (drop (length D) (D @ wep_icv crc D)) = wep_icv crc D"
    by (simp_all add: wep_icv_def)
  define f1 where "f1 = wr (hl + 8) (D @ wep_icv crc D) g"
  have f1: "skb_frame f1 = P @ tkip_header (take 3 ?seed) k hi @ D @ wep_icv crc D" "skb_wf f1" "sk_len f1 = sk_len g"
    using g l8 len dc(2) by (simp_all add: f1_def frame_wr wep_icv_def skb_wf_def)
  have "rtllib_tkip_decrypt crc d False False hl g r = Some (tkip_strip hl f1, r1\<lparr>rx_iv32_new := hi, rx_iv16_new := lo\<rparr>, k)"
    using len hd k new p1 dc(1) tk
    by (simp add: rtllib_tkip_decrypt_def Let_def sd pl f1_def del: take_append drop_append)
  moreover have "skb_frame (tkip_strip hl f1) = P @ D"
  proof -
    have "skb_frame (remove_gap hl 8 f1) = P @ D @ wep_icv crc D"
      using f1 len g(3) l8 by (simp add: frame_remove_gap)
    then show ?thesis using len f1(3) g(3) by (simp add: tkip_strip_def frame_trim wep_icv_def)
  qed
  moreover have "skb_wf (tkip_strip hl f1)"
    using wf_remove_gap[of f1 hl 8] f1 len by (simp add: tkip_strip_def skb_trim_def skb_wf_def)
  ultimately show thesis using that by (simp add: r1_def)
qed

section \<open>The Michael code\<close>

text \<open>The header block of a frame with at least 30 bytes, as a function of its bytes.\<close>

definition michael_block :: "nat \<Rightarrow> u8 list \<Rightarrow> u8 list" where
  "michael_block hl F =
     (let fc = le16 (F ! 0) (F ! 1); ds = fc AND 0x0300;
          b = take 6 (drop (if ds AND 0x0100 \<noteq> 0 then 16 else 4) F) @
              take 6 (drop (if ds = 0x0300 then 24 else if ds = 0x0200 then 16 else 10) F) @ [0, 0, 0, 0]
      in if RTLLIB_QOS_HAS_SEQ fc then b[12 := F ! (hl - 2) AND 0x07] else b)"

lemma michael_hdr_block:
  assumes "skb_wf f" "30 \<le> sk_len f" "hl \<le> sk_len f" "2 \<le> hl"
  shows "michael_hdr_qos hl f = Some (michael_block hl (skb_frame f))"
proof -
  have "rd16 f 0 = Some (le16 (skb_frame f ! 0) (skb_frame f ! 1))" using assms rd16_frame[of f 0] by simp
  moreover have "rd8 f (hl - 2) = Some (skb_frame f ! (hl - 2))" using assms by (intro rd8_frame) simp_all
  ultimately show ?thesis using assms
    by (simp add: michael_hdr_qos_def michael_mic_hdr_def michael_block_def Let_def rdn_frame del: rd8_Some)
qed

lemma length_michael_block: "30 \<le> length F \<Longrightarrow> length (michael_block hl F) = 16"
  by (simp add: michael_block_def Let_def)

lemma michael_block_prefix:
  assumes "30 \<le> length F" "hl \<le> length F" "2 \<le> hl"
  shows "michael_block hl (F @ X) = michael_block hl F"
proof -
  have n: "(F @ X) ! i = F ! i" if "i < length F" for i using that by (simp add: nth_append)
  have "0 < length F" "1 < length F" "hl - 2 < length F" using assms by linarith+
  then have "(F @ X) ! 0 = F ! 0" "(F @ X) ! 1 = F ! 1" "(F @ X) ! (hl - 2) = F ! (hl - 2)"
    by (simp_all only: n)
  moreover have "take 6 (drop i (F @ X)) = take 6 (drop i F)" if "i \<le> 24" for i using assms that by simp
  ultimately show ?thesis by (simp add: michael_block_def Let_def del: take_append drop_append)
qed

definition michael_ok :: "michael_fun \<Rightarrow> bool" where
  "michael_ok m \<longleftrightarrow> (\<forall>k h d. length k = 8 \<and> length h = 16 \<longrightarrow> length (fst (m k h d)) = 8 \<and> snd (m k h d) = 0)"

lemma mic_add_frame:
  assumes "skb_wf f" "30 \<le> sk_len f" "hl \<le> sk_len f" "2 \<le> hl" "8 \<le> skb_tailroom f" "michael_ok m" "length (tkip_key t) = 32"
  defines "mic \<equiv> fst (m (take 8 (drop 16 (tkip_key t))) (michael_block hl (skb_frame f)) (drop hl (skb_frame f)))"
  obtains g where "rtllib_michael_mic_add m hl f t = Some (g, t, 0)" "skb_frame g = skb_frame f @ mic" "skb_wf g"
    "length mic = 8" "sk_len g = sk_len f + 8" "sk_headroom g = sk_headroom f" "skb_tailroom g = skb_tailroom f - 8"
proof -
  define g where "g = wr (sk_len f) mic (skb_put 8 f)"
  have "length (take 8 (drop 16 (tkip_key t))) = 8" "length (michael_block hl (skb_frame f)) = 16"
    using assms by (simp_all add: length_michael_block)
  then have m: "length mic = 8" "m (take 8 (drop 16 (tkip_key t))) (michael_block hl (skb_frame f)) (drop hl (skb_frame f)) = (mic, 0)"
    using assms(6) unfolding michael_ok_def mic_def by (metis prod.collapse)+
  have "rtllib_michael_mic_add m hl f t = Some (g, t, 0)"
    using assms m michael_hdr_block[OF assms(1-4)] by (simp add: rtllib_michael_mic_add_def payload_from_def g_def)
  moreover have "skb_frame g = skb_frame f @ mic"
    using assms m unfolding g_def by (subst frame_wr_put) simp_all
  moreover have "skb_wf g" "sk_headroom g = sk_headroom f" "skb_tailroom g = skb_tailroom f - 8"
    using assms m by (auto simp: g_def skb_wf_def wr_def skb_put_def skb_tailroom_def)
  ultimately show thesis using that m by (simp add: g_def)
qed

lemma mic_verify_frame:
  assumes "skb_wf g" "skb_frame g = F @ mic" "length mic = 8" "30 \<le> length F" "hl \<le> length F" "2 \<le> hl" "tkip_key_set r"
    and m: "m (take 8 (drop 24 (tkip_key r))) (michael_block hl F) (drop hl F) = (mic, 0)"
  obtains h where "rtllib_michael_mic_verify m hl False g r = Some (h, r\<lparr>rx_iv32 := rx_iv32_new r, rx_iv16 := rx_iv16_new r\<rparr>, False, 0)"
    "skb_frame h = F"
proof -
  have len: "sk_len g = length F + 8" using length_frame[OF assms(1)] assms(2,3) by simp
  have "michael_hdr_qos hl g = Some (michael_block hl F)"
    using michael_hdr_block[OF assms(1), of hl] len assms by (simp add: michael_block_prefix)
  then have "rtllib_michael_mic_verify m hl False g r = Some (skb_trim (sk_len g - 8) g, r\<lparr>rx_iv32 := rx_iv32_new r, rx_iv16 := rx_iv16_new r\<rparr>, False, 0)"
    using assms len m by (simp add: rtllib_michael_mic_verify_def payload_from_def)
  then show thesis using that len assms(2) by (simp add: frame_trim)
qed

section \<open>The channel\<close>

text \<open>
  A frame that is not fragmented goes through both operations of the sender and of the
  receiver, as the table of operations has them.
\<close>

definition tkip_send :: "crc_fun \<Rightarrow> skcipher \<Rightarrow> michael_fun \<Rightarrow> nat \<Rightarrow> rtllib_tkip_data crypt_op" where
  "tkip_send crc arc4 m hl f t = do {
     (f1, t1, e) \<leftarrow> rtllib_michael_mic_add m hl f t;
     if e \<noteq> 0 then Some (f1, t1, e) else rtllib_tkip_encrypt crc arc4 False hl f1 t1 }"

definition tkip_receive :: "crc_fun \<Rightarrow> skcipher \<Rightarrow> michael_fun \<Rightarrow> nat \<Rightarrow> rtllib_tkip_data crypt_op" where
  "tkip_receive crc arc4 m hl f t = do {
     (f1, t1, e) \<leftarrow> rtllib_tkip_decrypt crc arc4 False False hl f t;
     if e < 0 then Some (f1, t1, e)
     else do { (f2, t2, _, e2) \<leftarrow> rtllib_michael_mic_verify m hl False f1 t1; Some (f2, t2, e2) } }"

text \<open>
  The two stations have the same temporal key, and the key of the sender's Michael code is
  the receiver's key for the other direction; \<open>TA\<close> is the address of the sender.
\<close>

definition tkip_sync :: "skcipher \<Rightarrow> skcipher \<Rightarrow> michael_fun \<Rightarrow> mac \<Rightarrow> nat \<Rightarrow> rtllib_tkip_data \<Rightarrow> rtllib_tkip_data \<Rightarrow> bool" where
  "tkip_sync e d m TA n s r \<longleftrightarrow> skcipher_ok e d \<and> michael_ok m \<and>
     length (tkip_key s) = 32 \<and> take 16 (tkip_key r) = take 16 (tkip_key s) \<and>
     take 8 (drop 24 (tkip_key r)) = take 8 (drop 16 (tkip_key s)) \<and>
     tkip_key_set r \<and> 0 \<le> tkip_key_idx s \<and> tkip_key_idx s < 4 \<and> tkip_key_idx r = tkip_key_idx s \<and>
     tx_cached TA s \<and> rx_cached TA r \<and>
     (initialized r \<longrightarrow> tsc (rx_iv32 r) (rx_iv16 r) < tsc (tx_iv32 s) (tx_iv16 s)) \<and>
     tsc (tx_iv32 s) (tx_iv16 s) + n < 2 ^ 48"

definition tkip_can_send :: "mac \<Rightarrow> nat \<Rightarrow> cskb \<Rightarrow> bool" where
  "tkip_can_send TA hl f \<longleftrightarrow> can_send hl 8 12 f \<and> 24 \<le> hl \<and> 30 \<le> sk_len f \<and> take 6 (drop 10 (skb_frame f)) = TA"

lemma tkip_channel_step:
  assumes sy: "tkip_sync e d m TA (Suc n) s r" and ok: "tkip_can_send TA hl f"
  obtains g s' where "tkip_send crc e m hl f s = Some (g, s', 0)"
    "\<And>g'. skb_wf g' \<Longrightarrow> skb_frame g' = skb_frame g \<Longrightarrow>
       \<exists>h r' c. tkip_receive crc d m hl g' r = Some (h, r', c) \<and> 0 \<le> c \<and> skb_frame h = skb_frame f \<and> tkip_sync e d m TA n s' r'"
proof -
  have f: "skb_wf f" "hl \<le> sk_len f" "8 \<le> sk_headroom f" "12 \<le> skb_tailroom f" "24 \<le> hl" "30 \<le> sk_len f"
    "take 6 (drop 10 (skb_frame f)) = TA" using ok by (auto simp: tkip_can_send_def can_send_def)
  have ck: "skcipher_ok e d" and mk: "michael_ok m" and ks: "length (tkip_key s) = 32" "take 16 (tkip_key r) = take 16 (tkip_key s)"
    "take 8 (drop 24 (tkip_key r)) = take 8 (drop 16 (tkip_key s))" "tkip_key_set r"
    and k: "0 \<le> tkip_key_idx s" "tkip_key_idx s < 4" "tkip_key_idx r = tkip_key_idx s"
    and ca: "tx_cached TA s" "rx_cached TA r"
    and new: "initialized r \<Longrightarrow> tsc (rx_iv32 r) (rx_iv16 r) < tsc (tx_iv32 s) (tx_iv16 s)"
    and lim: "tsc (tx_iv32 s) (tx_iv16 s) + Suc n < 2 ^ 48"
    using sy by (auto simp: tkip_sync_def)
  have lf: "length (skb_frame f) = sk_len f" using f by simp
  define F where "F = skb_frame f"
  define mic where "mic = fst (m (take 8 (drop 16 (tkip_key s))) (michael_block hl F) (drop hl F))"
  have t: "2 \<le> hl" "8 \<le> skb_tailroom f" using f by simp_all
  obtain f1 where add: "rtllib_michael_mic_add m hl f s = Some (f1, s, 0)" "skb_frame f1 = F @ mic" "skb_wf f1" "length mic = 8"
    "sk_len f1 = sk_len f + 8" "sk_headroom f1 = sk_headroom f" "skb_tailroom f1 = skb_tailroom f - 8"
    using mic_add_frame[OF f(1,6,2) t mk ks(1)] unfolding mic_def F_def by blast
  have ok1: "can_send hl 8 4 f1" using add f by (simp add: can_send_def)
  have ta1: "take 6 (drop 10 (skb_frame f1)) = TA" using add(2) f(6,7) lf by (simp add: F_def)
  define P where "P = take hl F"
  define D where "D = drop hl F @ mic"
  have PD: "take hl (skb_frame f1) = P" "drop hl (skb_frame f1) = D" "P @ D = F @ mic" "length P = hl"
    using add f lf by (simp_all add: P_def D_def F_def)
  let ?hi = "tx_iv32 s" and ?lo = "tx_iv16 s" and ?K = "tkip_key s"
  obtain g c t1 where enc: "rtllib_tkip_encrypt crc e False hl f1 s = Some (g, tkip_next_tsc t1, 0)"
    "d (tkip_seed ?K TA ?hi ?lo) c = (D @ wep_icv crc D, 0)"
    "skb_frame g = P @ tkip_header (take 3 (tkip_seed ?K TA ?hi ?lo)) (tkip_key_idx s) ?hi @ c"
    "length c = sk_len f1 - hl + 4" "tx_cached TA t1" "tkip_key t1 = ?K" "tkip_key_idx t1 = tkip_key_idx s"
    "tx_iv32 t1 = ?hi" "tx_iv16 t1 = ?lo"
    using tkip_encrypt_frame[OF ok1 f(5) ta1 ca(1) ck, of crc] unfolding PD(1,2) by blast
  have send: "tkip_send crc e m hl f s = Some (g, tkip_next_tsc t1, 0)"
    by (simp add: tkip_send_def add(1) enc(1))
  have K: "tkip_key r ! i = ?K ! i" if "i < 16" for i using arg_cong[OF ks(2), of "\<lambda>l. l ! i"] that by simp
  have lc: "length c = length D + 4" using enc(4) add lf f by (simp add: D_def F_def)
  have "min 6 (hl - 10) = 6" using f(5) by linarith
  then have taP: "take 6 (drop 10 P) = TA" using f(7) by (simp add: P_def F_def drop_take)
  have lmic: "length (take 8 (drop 16 ?K)) = 8" using ks(1) by simp
  have mm: "m (take 8 (drop 24 (tkip_key r))) (michael_block hl F) (drop hl F) = (mic, 0)"
    using mk lmic length_michael_block[of F hl] f(6) lf unfolding michael_ok_def mic_def ks(3) F_def by (metis prod.collapse)
  have rec: "\<exists>h r' c. tkip_receive crc d m hl g' r = Some (h, r', c) \<and> 0 \<le> c \<and> skb_frame h = F \<and> tkip_sync e d m TA n (tkip_next_tsc t1) r'"
    if g': "skb_wf g'" "skb_frame g' = skb_frame g" for g'
  proof -
    define r1 where "r1 = r\<lparr>initialized := True, rx_ttak := tkip_mixing_phase1 (tkip_key r) TA ?hi, rx_phase1_done := True,
        rx_iv32_new := ?hi, rx_iv16_new := ?lo\<rparr>"
    have fr: "skb_frame g' = P @ tkip_header (take 3 (tkip_seed ?K TA ?hi ?lo)) (tkip_key_idx s) ?hi @ c" using g'(2) enc(3) by simp
    obtain h where h: "rtllib_tkip_decrypt crc d False False hl g' r = Some (h, r1, tkip_key_idx s)" "skb_frame h = P @ D" "skb_wf h"
      using tkip_decrypt_frame[where r = r and crc = crc and d = d and D = D and K = ?K, OF g'(1) fr PD(4) f(5) taP enc(2) lc k(1,2,3) ks(4) K ca(2) new] unfolding r1_def by blast
    have hF: "skb_frame h = F @ mic" using h(2) PD(3) by simp
    have lF: "30 \<le> length F" "hl \<le> length F" using f lf by (simp_all add: F_def)
    have r1: "tkip_key_set r1" "tkip_key r1 = tkip_key r" using ks(4) by (simp_all add: r1_def)
    obtain h2 where h2: "rtllib_michael_mic_verify m hl False h r1 = Some (h2, r1\<lparr>rx_iv32 := rx_iv32_new r1, rx_iv16 := rx_iv16_new r1\<rparr>, False, 0)"
      "skb_frame h2 = F"
      using mic_verify_frame[where r = r1 and m = m, OF h(3) hF add(4) lF t(1) r1(1)] mm r1(2) by metis
    have "tkip_receive crc d m hl g' r = Some (h2, r1\<lparr>rx_iv32 := ?hi, rx_iv16 := ?lo\<rparr>, 0)"
      using h(1) h2(1) k(1) by (simp add: tkip_receive_def) (simp add: r1_def)
    moreover have "tkip_sync e d m TA n (tkip_next_tsc t1) (r1\<lparr>rx_iv32 := ?hi, rx_iv16 := ?lo\<rparr>)"
    proof -
      have nx: "tsc (tx_iv32 (tkip_next_tsc t1)) (tx_iv16 (tkip_next_tsc t1)) = tsc ?hi ?lo + 1"
        using next_tsc[of t1] lim enc(8,9) by simp
      show ?thesis unfolding tkip_sync_def nx
        using ck mk ks k enc(5-7) lim by (simp add: next_tsc_cached r1_def) (simp add: rx_cached_def)
    qed
    ultimately show ?thesis using h2(2) by blast
  qed
  show thesis using that[OF send] rec unfolding F_def by blast
qed

interpretation tkip: cipher_channel "tkip_send crc e m hl" "tkip_receive crc d m hl" "tkip_sync e d m TA" "tkip_can_send TA hl"
  for crc e d m hl TA
proof (unfold_locales, goal_cases)
  case (1 n s r f)
  show ?case by (rule tkip_channel_step[OF 1]) blast
next
  case (2 n s r f g s' g')
  show ?case by (rule tkip_channel_step[OF 2(1,2), of crc]) (use 2 in auto)
qed

lemma tkip_set_key_sync:
  assumes "skcipher_ok e d" "michael_ok m" "length KS = 32" "length KR = 32" "take 16 KR = take 16 KS"
    "take 8 (drop 24 KR) = take 8 (drop 16 KS)" "0 \<le> k" "k < 4" "tkip_key_idx s0 = k" "tkip_key_idx r0 = k" "n < 2 ^ 47"
  shows "tkip_sync e d m TA n (fst (rtllib_tkip_set_key KS 32 None s0)) (fst (rtllib_tkip_set_key KR 32 None r0))"
  using assms by (simp add: tkip_sync_def rtllib_tkip_set_key_def tkip_zero_def Let_def tx_cached_def rx_cached_def tsc_def)

text \<open>
  C30: TKIP is a round trip over any sequence of frames of one sender. The two stations
  install keys with the same temporal key, in which the sender's Michael key is the
  receiver's key for that direction; of the cipher and the hash only is used that the
  cipher's directions are inverse and that the code has 8 bytes. Then every frame that is
  sent through the Michael code and the encapsulation comes out of the decapsulation and
  the verification unchanged, in the order of sending, across every wrap of the lower
  half of the counter, where both sides have to renew the cached first phase.
\<close>

theorem tkip_channel_delivers:
  assumes c: "skcipher_ok e d" "michael_ok m"
    and K: "length KS = 32" "length KR = 32" "take 16 KR = take 16 KS" "take 8 (drop 24 KR) = take 8 (drop 16 KS)"
    and k: "0 \<le> k" "k < 4" "tkip_key_idx s0 = k" "tkip_key_idx r0 = k"
    and fs: "\<forall>(f, rx) \<in> set fs. tkip_can_send TA hl f \<and> carries rx" "length fs < 2 ^ 47"
  shows "\<exists>out. channel_run (tkip_send crc e m hl) (tkip_receive crc d m hl) fs
             (fst (rtllib_tkip_set_key KS 32 None s0)) (fst (rtllib_tkip_set_key KR 32 None r0)) = Some out \<and>
           map fst out = map (skb_frame \<circ> fst) fs \<and> (\<forall>(_, code) \<in> set out. 0 \<le> code)"
  using tkip.channel_delivers[OF tkip_set_key_sync[OF c K k fs(2)] fs(1)] .

section \<open>Replayed frames\<close>

definition frame_tsc :: "nat \<Rightarrow> cskb \<Rightarrow> nat" where
  "frame_tsc hl f = tsc (rd_iv32 (payload_from hl f)) (rd_iv16 (payload_from hl f))"

lemma tkip_rx_phase1_fields:
  "tkip_rx_phase1 f hi t = Some t' \<Longrightarrow> rx_iv32 t' = rx_iv32 t \<and> rx_iv16 t' = rx_iv16 t \<and> initialized t' = initialized t"
  by (cases "rdn f 10 6") (auto simp: tkip_rx_phase1_def split: if_splits)

lemma tkip_decrypt_cases:
  assumes "rtllib_tkip_decrypt crc d hw cb0 hl f t = Some (h, t', code)"
  shows "rx_iv32 t' = rx_iv32 t \<and> rx_iv16 t' = rx_iv16 t \<and> (initialized t \<longrightarrow> initialized t') \<and>
    (0 \<le> code \<longrightarrow> tkip_key_idx t = code \<and> rx_iv32_new t' = rd_iv32 (payload_from hl f) \<and> rx_iv16_new t' = rd_iv16 (payload_from hl f) \<and>
       ((hw \<and> \<not> cb0) \<or> (initialized t \<longrightarrow> tsc (rx_iv32 t) (rx_iv16 t) < frame_tsc hl f)))"
proof -
  let ?hi = "rd_iv32 (payload_from hl f)" and ?lo = "rd_iv16 (payload_from hl f)"
  note le = tsc_le[of ?hi "rx_iv32 t" ?lo "rx_iv16 t"]
  show ?thesis
  proof (cases "tkip_rx_phase1 f ?hi (t\<lparr>initialized := True\<rparr>)")
    case None
    then show ?thesis using assms by (auto simp: rtllib_tkip_decrypt_def Let_def split: if_splits)
  next
    case (Some t1)
    then have "rx_iv32 t1 = rx_iv32 t" "rx_iv16 t1 = rx_iv16 t" "initialized t1" using tkip_rx_phase1_fields by fastforce+
    then show ?thesis using assms le Some
      by (auto simp: rtllib_tkip_decrypt_def Let_def frame_tsc_def not_le split: if_splits prod.splits)
  qed
qed

lemma mic_verify_cases:
  assumes "rtllib_michael_mic_verify m hl force f t = Some (h, t', force', code)"
  shows "initialized t' = initialized t \<and> (0 \<le> code \<longrightarrow> rx_iv32 t' = rx_iv32_new t \<and> rx_iv16 t' = rx_iv16_new t) \<and>
    (code < 0 \<longrightarrow> rx_iv32 t' = rx_iv32 t \<and> rx_iv16 t' = rx_iv16 t \<and> rx_phase1_done t' = rx_phase1_done t \<and> rx_ttak t' = rx_ttak t \<and>
       tkip_key t' = tkip_key t)"
  using assms by (cases "michael_hdr_qos hl f") (auto simp: rtllib_michael_mic_verify_def Let_def split: if_splits prod.splits)

lemma tkip_receive_cases:
  assumes "tkip_receive crc d m hl f t = Some (h, t', code)" "initialized t"
  shows "initialized t' \<and> (if 0 \<le> code then tsc (rx_iv32 t) (rx_iv16 t) < frame_tsc hl f \<and> tsc (rx_iv32 t') (rx_iv16 t') = frame_tsc hl f
    else rx_iv32 t' = rx_iv32 t \<and> rx_iv16 t' = rx_iv16 t)"
proof -
  obtain f1 t1 e where d: "rtllib_tkip_decrypt crc d False False hl f t = Some (f1, t1, e)"
    using assms(1) by (cases "rtllib_tkip_decrypt crc d False False hl f t") (auto simp: tkip_receive_def)
  note dc = tkip_decrypt_cases[OF d]
  show ?thesis
  proof (cases "e < 0")
    case True
    then show ?thesis using assms d dc by (simp add: tkip_receive_def)
  next
    case False
    then obtain fc where v: "rtllib_michael_mic_verify m hl False f1 t1 = Some (h, t', fc, code)"
      using assms d by (cases "rtllib_michael_mic_verify m hl False f1 t1") (auto simp: tkip_receive_def)
    then show ?thesis using mic_verify_cases[OF v] dc False assms(2) by (auto simp: frame_tsc_def)
  qed
qed

interpretation tkip_replay: replay_counter "tkip_receive crc d m hl" "frame_tsc hl" "\<lambda>t. tsc (rx_iv32 t) (rx_iv16 t)" initialized
  for crc d m hl
proof (unfold_locales, goal_cases)
  case (1 r f h r' e)
  then show ?case using tkip_receive_cases[OF 1(2,1)] by simp
next
  case (2 r f h r' e)
  then show ?case using tkip_receive_cases[OF 2(2,1)] by simp
next
  case (3 r f h r' e)
  then show ?case using tkip_receive_cases[OF 3(2,1)] by simp
qed


text \<open>
  The counter that is installed with the key is not enforced. Directly after the
  installation no frame is taken for a replay, also when its counter is not above the
  installed one.
\<close>

theorem tkip_installed_counter_ignored:
  assumes "rtllib_tkip_decrypt crc d hw cb0 hl f (fst (rtllib_tkip_set_key K 32 (Some q) t)) = Some (h, t', code)"
  shows "code \<noteq> - 4"
proof -
  define t0 where "t0 = fst (rtllib_tkip_set_key K 32 (Some q) t)"
  have i: "\<not> initialized t0" by (simp add: t0_def rtllib_tkip_set_key_def tkip_zero_def Let_def)
  have idx: "uint (drop_bit 6 (payload_from hl f ! 3)) \<noteq> - 4" by (metis uint_ge_0 neg_0_le_iff_le not_numeral_le_zero)
  show ?thesis
  proof (cases "tkip_rx_phase1 f (rd_iv32 (payload_from hl f)) (t0\<lparr>initialized := True\<rparr>)")
    case None
    then show ?thesis using assms i idx unfolding t0_def[symmetric] by (auto simp: rtllib_tkip_decrypt_def Let_def split: if_splits)
  next
    case (Some t1)
    then show ?thesis using assms i idx unfolding t0_def[symmetric]
      by (auto simp: rtllib_tkip_decrypt_def Let_def split: if_splits prod.splits)
  qed
qed

text \<open>
  A failed Michael code leaves the wrong first phase in the cache. A frame with a new
  upper half of the counter replaces the cached mixing; when its Michael code is wrong, the
  counter stays behind, but the cache keeps the mixing of the bad frame and is taken as
  valid. The next frame with the old upper half, a good one, is decrypted with it.
\<close>

theorem tkip_stale_phase1:
  assumes dec: "rtllib_tkip_decrypt crc d False cb0 hl f t = Some (f1, t1, code)" "0 \<le> code"
    and new: "rd_iv32 (payload_from hl f) \<noteq> rx_iv32 t"
    and bad: "rtllib_michael_mic_verify m hl force f1 t1 = Some (f2, t2, force', - 1)"
  shows "\<exists>TA. rdn f 10 6 = Some TA \<and> rx_iv32 t2 = rx_iv32 t \<and>
    rx_ttak t2 = tkip_mixing_phase1 (tkip_key t) TA (rd_iv32 (payload_from hl f)) \<and>
    tkip_rx_phase1 f' (rx_iv32 t2) t2 = Some t2"
proof (cases "rdn f 10 6")
  case None
  then have "tkip_rx_phase1 f (rd_iv32 (payload_from hl f)) (t\<lparr>initialized := True\<rparr>) = None"
    using new by (simp add: tkip_rx_phase1_def)
  then show ?thesis using dec by (auto simp: rtllib_tkip_decrypt_def Let_def split: if_splits)
next
  case (Some TA)
  define t0 where "t0 = t\<lparr>initialized := True, rx_ttak := tkip_mixing_phase1 (tkip_key t) TA (rd_iv32 (payload_from hl f)), rx_phase1_done := True\<rparr>"
  have "tkip_rx_phase1 f (rd_iv32 (payload_from hl f)) (t\<lparr>initialized := True\<rparr>) = Some t0"
    using new Some by (simp add: tkip_rx_phase1_def t0_def)
  then have "\<exists>a b. t1 = t0\<lparr>rx_iv32_new := a, rx_iv16_new := b\<rparr>"
    using dec by (auto simp: rtllib_tkip_decrypt_def Let_def split: if_splits prod.splits)
  then have "rx_phase1_done t1" "rx_ttak t1 = tkip_mixing_phase1 (tkip_key t) TA (rd_iv32 (payload_from hl f))" "rx_iv32 t1 = rx_iv32 t"
    by (auto simp: t0_def)
  then show ?thesis using mic_verify_cases[OF bad] Some by (simp add: tkip_rx_phase1_def)
qed

section \<open>Keys\<close>

text \<open>
  What is installed is read back, in all three modules. The key comes back with its
  length, and with the counter of a module that has not sent a frame: zero for CCMP. TKIP
  returns the counter of the next frame, 1, although no frame was sent before it.
\<close>

theorem keys_read_back:
  assumes "0 \<le> n" "n \<le> 13" "nat n \<le> length K"
  shows "prism2_wep_get_key n (fst (prism2_wep_set_key K n w)) = (take (nat n) K, n) \<and>
    rtllib_ccmp_get_key 16 True (fst (rtllib_ccmp_set_key K' 16 q c)) = (take 16 K', replicate 6 0, 16) \<and>
    rtllib_tkip_get_key 32 True (fst (rtllib_tkip_set_key K' 32 q' t)) = (take 32 K', [1, 0, 0, 0, 0, 0], 32)"
proof -
  have "uint (word_of_int n :: u8) = n" using assms by (simp add: uint_word_of_int)
  moreover then have "unat (word_of_int n :: u8) = nat n" by (metis nat_uint_eq)
  ultimately have "prism2_wep_get_key n (fst (prism2_wep_set_key K n w)) = (take (nat n) K, n)"
    using assms by (simp add: prism2_wep_get_key_def prism2_wep_set_key_def)
  moreover have "rtllib_ccmp_get_key 16 True (fst (rtllib_ccmp_set_key K' 16 q c)) = (take 16 K', replicate 6 0, 16)"
    by (cases q) (simp_all add: rtllib_ccmp_get_key_def rtllib_ccmp_set_key_def ccmp_zero_def eval_nat_numeral)
  moreover have "rtllib_tkip_get_key 32 True (fst (rtllib_tkip_set_key K' 32 q' t)) = (take 32 K', [1, 0, 0, 0, 0, 0], 32)"
    by (cases q') (simp_all add: rtllib_tkip_get_key_def rtllib_tkip_set_key_def tkip_zero_def put16_def put32_def Let_def)
  ultimately show ?thesis by blast
qed

section \<open>Examples\<close>

definition ex_michael :: michael_fun where
  "ex_michael k h d = (map (\<lambda>i. k ! i + h ! i + sum_list d) [0..<8], 0)"

lemma ex_michael_ok: "michael_ok ex_michael"
  by (simp add: michael_ok_def ex_michael_def)

definition ex_tkip_key :: "u8 list" where
  "ex_tkip_key = replicate 16 5 @ replicate 16 9"

theorem tkip_channel_delivers_witness:
  "\<exists>out. channel_run (tkip_send (\<lambda>_ bs. sum_list (map ucast bs)) ex_arc4 ex_michael 24)
       (tkip_receive (\<lambda>_ bs. sum_list (map ucast bs)) ex_arc4 ex_michael 24)
       [(ex_cskb (replicate 50 8), ex_rx_buffer), (ex_cskb (replicate 40 8), ex_rx_buffer)]
       (fst (rtllib_tkip_set_key ex_tkip_key 32 None tkip_zero)) (fst (rtllib_tkip_set_key ex_tkip_key 32 None tkip_zero)) = Some out \<and>
     map fst out = [replicate 50 8, replicate 40 8]"
  using tkip_channel_delivers[OF ex_arc4_ok ex_michael_ok, of ex_tkip_key ex_tkip_key 0 tkip_zero tkip_zero
      "[(ex_cskb (replicate 50 8), ex_rx_buffer), (ex_cskb (replicate 40 8), ex_rx_buffer)]" "replicate 6 8" 24
      "\<lambda>_ bs. sum_list (map ucast bs)"]
  by (auto simp: tkip_can_send_def can_send_def ex_tkip_key_def tkip_zero_def)


text \<open>A frame with counter 0x606060606060 and a key installed with the highest counter.\<close>

theorem tkip_installed_counter_ignored_witness:
  "\<exists>h t code. rtllib_tkip_decrypt (\<lambda>_ _. 0) ex_arc4 False False 24 (ex_cskb (replicate 60 0x60))
       (fst (rtllib_tkip_set_key ex_tkip_key 32 (Some (replicate 6 0xff)) (tkip_zero\<lparr>tkip_key_idx := 1\<rparr>))) = Some (h, t, code) \<and> code \<noteq> - 4"
proof -
  let ?f = "ex_cskb (replicate 60 0x60)"
  define t where "t = fst (rtllib_tkip_set_key ex_tkip_key 32 (Some (replicate 6 0xff)) (tkip_zero\<lparr>tkip_key_idx := 1\<rparr>))"
  have t: "\<not> initialized t" "\<not> rx_phase1_done t" "tkip_key_set t" "tkip_key_idx t = 1"
    by (simp_all add: t_def rtllib_tkip_set_key_def tkip_zero_def Let_def)
  have pos: "payload_from 24 ?f = replicate 36 0x60" "sk_len ?f = 60" by (simp_all add: payload_from_def)
  have "rdn ?f 10 6 = Some (replicate 6 0x60)" by (simp add: rdn_frame)
  then obtain y where y: "tkip_rx_phase1 ?f (rd_iv32 (replicate 36 0x60)) (t\<lparr>initialized := True\<rparr>) = Some y"
    using t by (simp add: tkip_rx_phase1_def)
  have "rtllib_tkip_decrypt (\<lambda>_ _. 0) ex_arc4 False False 24 ?f t \<noteq> None"
    using t y by (simp add: rtllib_tkip_decrypt_def Let_def pos split: prod.splits)
  then obtain r where "rtllib_tkip_decrypt (\<lambda>_ _. 0) ex_arc4 False False 24 ?f t = Some r" by blast
  then show ?thesis using tkip_installed_counter_ignored[of "\<lambda>_ _. 0" ex_arc4 False False 24 ?f ex_tkip_key "replicate 6 0xff"
      "tkip_zero\<lparr>tkip_key_idx := 1\<rparr>"] unfolding t_def by (metis surj_pair)
qed

text \<open>A frame of zeros with counter 0x100000000 under the identity as cipher, and a hash that never matches.\<close>

definition ex_bad_mic :: cskb where
  "ex_bad_mic = ex_cskb (replicate 24 0 @ [0, 0x20, 0, 0x20, 1, 0, 0, 0] @ replicate 30 0)"

theorem tkip_stale_phase1_witness:
  "\<exists>t2. rx_iv32 t2 = 0 \<and> rx_ttak t2 = tkip_mixing_phase1 ex_tkip_key (replicate 6 0) 1 \<and> tkip_rx_phase1 ex_bad_mic 0 t2 = Some t2"
proof -
  define t where "t = tkip_zero\<lparr>tkip_key := ex_tkip_key, tkip_key_set := True\<rparr>"
  define t0 where "t0 = t\<lparr>initialized := True, rx_ttak := tkip_mixing_phase1 ex_tkip_key (replicate 6 0) 1, rx_phase1_done := True\<rparr>"
  have rd: "rdn ex_bad_mic 10 6 = Some (replicate 6 0)" by (simp add: rdn_frame ex_bad_mic_def drop_replicate)
  have iv: "rd_iv32 (payload_from 24 ex_bad_mic) = 1" "payload_from 24 ex_bad_mic ! 3 = 0x20"
    by (simp_all add: ex_bad_mic_def payload_from_def rd_iv32_def)
  have p1: "tkip_rx_phase1 ex_bad_mic 1 (t\<lparr>initialized := True\<rparr>) = Some t0"
    using rd by (simp add: tkip_rx_phase1_def t0_def t_def tkip_zero_def)
  have pl: "payload_from 32 ex_bad_mic = replicate 30 0" by (simp add: ex_bad_mic_def payload_from_def)
  obtain f1 t1 where d: "rtllib_tkip_decrypt (\<lambda>_ _. NOT 0) (\<lambda>_ p. (p, 0)) False False 24 ex_bad_mic t = Some (f1, t1, 0)"
    and f1: "skb_wf f1" "sk_len f1 = 50" and k1: "tkip_key_set t1"
  proof -
    have "sk_len ex_bad_mic = 62" by (simp add: ex_bad_mic_def)
    moreover have "\<not> initialized t" "tkip_key_set t" "tkip_key_idx t = 0" by (simp_all add: t_def tkip_zero_def)
    moreover have "wep_icv (\<lambda>_ _. NOT 0) x = replicate 4 0" for x by (simp add: wep_icv_def put32_def eval_nat_numeral)
    ultimately have "rtllib_tkip_decrypt (\<lambda>_ _. NOT 0) (\<lambda>_ p. (p, 0)) False False 24 ex_bad_mic t =
        Some (tkip_strip 24 (wr 32 (replicate 30 0) ex_bad_mic), t0\<lparr>rx_iv32_new := 1, rx_iv16_new := rd_iv16 (payload_from 24 ex_bad_mic)\<rparr>, 0)"
      using iv p1 pl by (simp add: rtllib_tkip_decrypt_def Let_def min_def)
    moreover have "skb_wf (tkip_strip 24 (wr 32 (replicate 30 0) ex_bad_mic))" "sk_len (tkip_strip 24 (wr 32 (replicate 30 0) ex_bad_mic)) = 50"
      by (simp_all add: tkip_strip_def skb_trim_def remove_gap_def wr_def skb_wf_def ex_bad_mic_def ex_cskb_def)
    moreover have "tkip_key_set t0" by (simp add: t0_def t_def)
    ultimately show thesis using that by simp
  qed
  have "michael_hdr_qos 24 f1 = Some (michael_block 24 (skb_frame f1))" using f1 by (intro michael_hdr_block) simp_all
  then obtain f2 t2 where "rtllib_michael_mic_verify (\<lambda>_ _ _. (replicate 8 1, 1)) 24 False f1 t1 = Some (f2, t2, False, - 1)"
    using f1 k1 by (simp add: rtllib_michael_mic_verify_def)
  from tkip_stale_phase1[OF d _ _ this, of ex_bad_mic] rd iv show ?thesis
    by (auto simp: t_def tkip_zero_def)
qed

theorem keys_read_back_witness:
  "prism2_wep_get_key 5 (fst (prism2_wep_set_key [1, 2, 3, 4, 5] 5 ex_wep)) = ([1, 2, 3, 4, 5], 5)"
  using keys_read_back[of 5 "[1, 2, 3, 4, 5]" ex_wep] by simp

end
