(* ===== verification/Tx_Data.thy ===== *)
theory Tx_Data
  imports Rx_Data Crypt_Data
begin

text \<open>
  The data of the transmit path of src/src/rtllib_tx.c: the descriptor of a frame for the
  device, the part of the device structure that the path reads, the SNAP header, the
  priorities and the sequence numbers.
\<close>

section \<open>State\<close>

text \<open>The descriptor that travels in the control block of a buffer, with the fields of the path.\<close>

record cb_desc =
  bHwSec :: bool
  queue_index :: u8
  bTxEnableFwCalcDur :: bool
  cb_priority :: u8
  data_rate :: u8
  rts_rate :: u8
  bTxDisableRateFallBack :: bool
  bTxUseDriverAssingedRate :: bool
  RATRIndex :: u8
  bMulticast :: bool
  bBroadcast :: bool
  bUseShortPreamble :: bool
  bUseShortGI :: bool
  bPacketBW :: bool
  bAMPDUEnable :: bool
  ampdu_factor :: u8
  ampdu_density :: u8
  bRTSEnable :: bool
  bCTSEnable :: bool
  bRTSSTBC :: bool
  bRTSUseShortGI :: bool
  bRTSBW :: bool
  RTSSC :: u8
  bdhcp :: bool
  bRTSUseShortPreamble :: bool
  bLastIniPkt :: bool
  bCmdOrInit :: bool
  pkt_size :: u16

definition cb_zero :: cb_desc where
  "cb_zero = \<lparr>bHwSec = False, queue_index = 0, bTxEnableFwCalcDur = False, cb_priority = 0, data_rate = 0, rts_rate = 0,
     bTxDisableRateFallBack = False, bTxUseDriverAssingedRate = False, RATRIndex = 0, bMulticast = False, bBroadcast = False,
     bUseShortPreamble = False, bUseShortGI = False, bPacketBW = False, bAMPDUEnable = False, ampdu_factor = 0, ampdu_density = 0,
     bRTSEnable = False, bCTSEnable = False, bRTSSTBC = False, bRTSUseShortGI = False, bRTSBW = False, RTSSC = 0, bdhcp = False,
     bRTSUseShortPreamble = False, bLastIniPkt = False, bCmdOrInit = False, pkt_size = 0\<rparr>"

text \<open>A fragment: its buffer, the descriptor in it and its priority.\<close>

record tx_frag =
  tf_skb :: cskb
  tf_cb :: cb_desc
  tf_priority :: u8

record rtllib_txb =
  nr_frags :: u8
  encrypted :: bool
  payload_size :: u16
  txb_queue_index :: u8
  fragments :: "tx_frag list"

datatype agg_mode = HT_AGG_AUTO | HT_AGG_FORCE_ENABLE | HT_AGG_FORCE_DISABLE

text \<open>The fields of \<open>RT_HIGH_THROUGHPUT\<close> that are not in the stream component's part of the device.\<close>

record tx_ht =
  bEnableHT :: bool
  CurrentAMPDUFactor :: u8
  CurrentMPDUDensity :: u8
  ForcedAMPDUMode :: agg_mode
  ForcedAMPDUFactor :: u8
  ForcedMPDUDensity :: u8
  bForcedShortGI :: bool
  bCurBW40MHz :: bool
  bCurShortGI40MHz :: bool
  bCurShortGI20MHz :: bool
  bCurTxBW40MHz :: bool
  CurrentOpMode :: u8

text \<open>A key for transmission: the operations on message and frame take the flag for device encryption.\<close>

record 'k tx_crypt =
  encrypt_msdu :: "(bool \<Rightarrow> nat \<Rightarrow> 'k crypt_op) option"
  encrypt_mpdu :: "(bool \<Rightarrow> nat \<Rightarrow> 'k crypt_op) option"
  extra_prefix_len :: nat
  extra_postfix_len :: nat
  tx_priv :: 'k

text \<open>
  The device. A key is None when no algorithm is configured for its index.
  \<open>tx_fresh\<close> is the memory of an allocation of a given size, without the headroom that the
  kernel adds, and \<open>tx_alloc i\<close> says whether the i-th allocation of the call succeeds;
  \<open>tx_live\<close> counts the fragment buffers that are allocated; \<open>hard_start_ok\<close> is the answer
  of the driver's handler for whole frames, and \<open>sent\<close> are the frames handed on.
\<close>

record 'k tx_dev =
  txd :: ts_dev
  ht :: tx_ht
  NmodeSupportBySecCfg :: bool
  wpa_ie_len :: nat
  pairwise_key_NA :: bool
  capability :: u16
  buseprotection :: bool
  wmode :: u32
  rts :: nat
  bforced_tx20Mhz :: bool
  bTxDisableRateFallBack_dev :: bool
  bTxUseDriverAssingedRate_dev :: bool
  basic_rate :: u8
  legacy_rate :: u8
  HTCurrentOperaRate :: u8
  net_rates :: "u8 list"
  seq_ctrl :: "u16 list"
  raw_tx :: bool
  softmac_tx_queue :: bool
  has_hard_start_xmit :: bool
  has_softmac_data_xmit :: bool
  hard_start_ok :: bool
  ieee802_1x :: bool
  drop_unencrypted :: bool
  host_encrypt :: bool
  hwsec_active :: bool
  tx_crypts :: "'k tx_crypt option list"
  tx_keyidx :: nat
  fts :: u16
  reserve_FCS :: bool
  tx_headroom :: nat
  wmm_acm :: u32
  tim_count :: u8
  LPSDelayCnt :: u8
  tx_fresh :: "nat \<Rightarrow> u8 list"
  tx_alloc :: "nat \<Rightarrow> bool"
  tx_live :: int
  tx_discards :: u32
  tx_dropped :: u64
  tx_errors :: u64
  tx_packets :: u64
  tx_bytes :: u64
  netif_stopped :: bool
  sent :: "rtllib_txb list"

section \<open>SNAP header\<close>

definition P802_1H_OUI :: "u8 list" where "P802_1H_OUI = [0x00, 0x00, 0xf8]"
definition RFC1042_OUI :: "u8 list" where "RFC1042_OUI = [0x00, 0x00, 0x00]"

text \<open>The bytes that the function writes; the protocol goes out with its high byte first.\<close>

definition rtllib_put_snap :: "u16 \<Rightarrow> u8 list" where
  "rtllib_put_snap h_proto =
     [0xaa, 0xaa, 0x03] @ (if h_proto = 0x8137 \<or> h_proto = 0x80f3 then P802_1H_OUI else RFC1042_OUI) @
     rev (put16 h_proto)"

section \<open>Priorities\<close>

text \<open>
  The priority of an Ethernet frame from the type of service of its IP header, which the
  network stack has marked as starting behind the Ethernet header.
\<close>

definition rtllib_classify :: "cskb \<Rightarrow> u8 option" where
  "rtllib_classify m = do {
     hi \<leftarrow> rd8 m 12;
     lo \<leftarrow> rd8 m 13;
     if \<not> (hi = 0x08 \<and> lo = 0x00) then Some 0
     else do {
       tos \<leftarrow> rd8 m 15;
       let t = tos AND 0xfc;
       Some (if t = 0x20 then 2 else if t = 0x40 then 1 else if t = 0x60 then 3 else if t = 0x80 then 4
             else if t = 0xa0 then 5 else if t = 0xc0 then 6 else if t = 0xe0 then 7 else 0) } }"

text \<open>The next lower class; None is the result -1.\<close>

definition wme_downgrade_ac :: "u8 \<Rightarrow> u8 option" where
  "wme_downgrade_ac p =
     (if p = 6 \<or> p = 7 then Some 5 else if p = 4 \<or> p = 5 then Some 3 else if p = 0 \<or> p = 3 then Some 1 else None)"

text \<open>The class of a priority in the order of the downgrades.\<close>

definition ac_rank :: "u8 \<Rightarrow> nat" where
  "ac_rank p = (if p = 6 \<or> p = 7 then 3 else if p = 4 \<or> p = 5 then 2 else if p = 0 \<or> p = 3 then 1 else 0)"

lemma wme_downgrade_rank: "wme_downgrade_ac p = Some q \<Longrightarrow> ac_rank q < ac_rank p"
  by (auto simp: wme_downgrade_ac_def ac_rank_def split: if_splits)

text \<open>The loop that lowers the priority while admission control is mandatory for its class.\<close>

function admit_priority :: "u32 \<Rightarrow> u8 \<Rightarrow> u8" where
  "admit_priority acm p =
     (if bit acm (unat p) then (case wme_downgrade_ac p of None \<Rightarrow> p | Some q \<Rightarrow> admit_priority acm q) else p)"
  by pat_completeness auto

termination
  by (relation "measure (\<lambda>(acm, p). ac_rank p)") (auto dest: wme_downgrade_rank)

declare admit_priority.simps [simp del]

section \<open>Rates\<close>

definition rtllib_is_cck_rate :: "u8 \<Rightarrow> bool" where
  "rtllib_is_cck_rate rate \<longleftrightarrow> rate AND NOT 0x80 \<in> {0x02, 0x04, 0x0b, 0x16}"

fun least_ofdm_rate :: "u8 list \<Rightarrow> u8 \<Rightarrow> u8" where
  "least_ofdm_rate [] q = q"
| "least_ofdm_rate (r # rs) q =
     (let b = r AND 0x7f
      in least_ofdm_rate rs (if \<not> rtllib_is_cck_rate b then (if q = 0 then b else if b < q then b else q) else q))"

definition MgntQuery_TxRateExcludeCCKRates :: "'k tx_dev \<Rightarrow> u8" where
  "MgntQuery_TxRateExcludeCCKRates d = (let q = least_ofdm_rate (net_rates d) 0 in if q = 0 then 12 else q)"

text \<open>\<open>CURRENT_RATE\<close>; the legacy modes A, B and G are the lowest three bits of the mode.\<close>

definition CURRENT_RATE :: "u32 \<Rightarrow> u8 \<Rightarrow> u8 \<Rightarrow> u8" where
  "CURRENT_RATE mode legacy ht_rate =
     (if mode AND 0x7 \<noteq> 0 then legacy else if ht_rate = 0 then legacy AND 0x7f else ht_rate)"

end
