(* ===== verification/Tx_Path.thy ===== *)
theory Tx_Path
  imports Tx_Data
begin

text \<open>
  The transmit path of src/src/rtllib_tx.c: the allocation of the fragments, the decisions
  about rates, aggregation and protection, encryption, and \<open>rtllib_xmit\<close>, which turns an
  Ethernet frame into fragments with 802.11 headers. None is a fault: an access behind the
  memory of a buffer, a buffer that overflows, or a list walk that does not end.
\<close>

section \<open>Fragments\<close>

text \<open>
  The loop of the allocation: \<open>i\<close> buffers are there and \<open>n\<close> are missing. At the first failure
  the buffers are freed again.
\<close>

fun alloc_loop :: "(nat \<Rightarrow> bool) \<Rightarrow> nat \<Rightarrow> nat \<Rightarrow> int \<Rightarrow> int \<times> bool" where
  "alloc_loop ok i 0 live = (live, True)"
| "alloc_loop ok i (Suc n) live =
     (if ok (Suc i) then alloc_loop ok (Suc i) n (live + 1) else (live - int i, False))"

definition empty_frag :: "u8 list \<Rightarrow> tx_frag" where
  "empty_frag mem = \<lparr>tf_skb = \<lparr>sk_mem = mem, sk_len = 0, sk_headroom = 0\<rparr>, tf_cb = cb_zero, tf_priority = 0\<rparr>"

definition rtllib_alloc_txb :: "nat \<Rightarrow> nat \<Rightarrow> 'k tx_dev \<Rightarrow> 'k tx_dev \<times> rtllib_txb option" where
  "rtllib_alloc_txb n txb_size d =
     (if \<not> tx_alloc d 0 then (d, None)
      else case alloc_loop (tx_alloc d) 0 n (tx_live d) of
        (live, ok) \<Rightarrow>
          (d\<lparr>tx_live := live\<rparr>,
           if ok then Some \<lparr>nr_frags = of_nat n, encrypted = False, payload_size = 0, txb_queue_index = 0,
                          fragments = replicate n (empty_frag (tx_fresh d txb_size))\<rparr>
           else None))"

text \<open>\<open>skb_put\<close> with a copy into the new space, \<open>skb_reserve\<close> and \<open>skb_pull\<close> of the kernel.\<close>

definition put_bytes :: "u8 list \<Rightarrow> cskb \<Rightarrow> cskb option" where
  "put_bytes bs s = (if length bs \<le> skb_tailroom s then Some (wr (sk_len s) bs (skb_put (length bs) s)) else None)"

definition skb_reserve :: "nat \<Rightarrow> cskb \<Rightarrow> cskb" where
  "skb_reserve n s = s\<lparr>sk_mem := drop n (sk_mem s), sk_headroom := sk_headroom s + n\<rparr>"

definition skb_pull :: "nat \<Rightarrow> cskb \<Rightarrow> cskb" where
  "skb_pull n s =
     (if n \<le> sk_len s then s\<lparr>sk_mem := drop n (sk_mem s), sk_len := sk_len s - n, sk_headroom := sk_headroom s + n\<rparr>
      else s)"

text \<open>
  Encryption of a fragment. The operations on the message run on each fragment, as the
  code has it; the state of the key is kept.
\<close>

definition run_crypt ::
    "(bool \<Rightarrow> nat \<Rightarrow> 'k crypt_op) option \<Rightarrow> bool \<Rightarrow> nat \<Rightarrow> cskb \<times> 'k \<times> int \<Rightarrow> (cskb \<times> 'k \<times> int) option" where
  "run_crypt op hw hdr_len x =
     (case x of (f, k, res) \<Rightarrow>
        case op of Some g \<Rightarrow> (if res = 0 then g hw hdr_len f k else Some x) | None \<Rightarrow> Some x)"

definition tx_seal :: "'k tx_crypt \<Rightarrow> bool \<Rightarrow> nat \<Rightarrow> 'k crypt_op" where
  "tx_seal c hw hdr_len f k = do {
     r \<leftarrow> run_crypt (encrypt_msdu c) hw hdr_len (f, k, 0);
     run_crypt (encrypt_mpdu c) hw hdr_len r }"

definition rtllib_encrypt_fragment :: "tx_frag \<Rightarrow> nat \<Rightarrow> 'k tx_dev \<Rightarrow> (tx_frag \<times> 'k tx_dev \<times> int) option" where
  "rtllib_encrypt_fragment frag hdr_len d =
     (case tx_crypts d ! tx_keyidx d of
        None \<Rightarrow> Some (frag, d, - 1)
      | Some c \<Rightarrow> do {
          (f, k, res) \<leftarrow> tx_seal c (bHwSec (tf_cb frag)) hdr_len (tf_skb frag) (tx_priv c);
          let d1 = d\<lparr>tx_crypts := (tx_crypts d)[tx_keyidx d := Some (c\<lparr>tx_priv := k\<rparr>)]\<rparr>;
          if res < 0 then Some (frag\<lparr>tf_skb := f\<rparr>, d1\<lparr>tx_discards := tx_discards d1 + 1\<rparr>, - 1)
          else Some (frag\<lparr>tf_skb := f\<rparr>, d1, 0) })"

section \<open>Sequence numbers\<close>

definition rtllib_query_seqnum :: "tx_frag \<Rightarrow> mac \<Rightarrow> 'k tx_dev \<Rightarrow> (u16 \<times> 'k tx_dev) option" where
  "rtllib_query_seqnum frag dst d =
     (if is_multicast_ether_addr dst \<or> is_broadcast_ether_addr dst then Some (0, d)
      else do {
        fc \<leftarrow> rd16 (tf_skb frag) 0;
        if \<not> IsQoSDataFrame fc then Some (0, d)
        else do {
          (t, n) \<leftarrow> GetTs (txd d) dst (tf_priority frag) TX_DIR True;
          case n of
            None \<Rightarrow> Some (0, d\<lparr>txd := t\<rparr>)
          | Some n \<Rightarrow>
              let i = node_index n; seq = TxCurSeq (TxTsRecord t ! i)
              in Some (seq, d\<lparr>txd := upd_tx i (\<lambda>r. r\<lparr>TxCurSeq := (seq + 1) mod 4096\<rparr>) t\<rparr>) } })"

text \<open>The counter for frames without a stream, and the step at the end of a frame.\<close>

definition next_seq_ctrl :: "nat \<Rightarrow> u16 list \<Rightarrow> u16 list" where
  "next_seq_ctrl i s = s[i := if s ! i = 0xFFF then 0 else s ! i + 1]"

section \<open>Aggregation\<close>

abbreviation (input) HT_IOT_ACT_PURE_N_MODE :: u32 where "HT_IOT_ACT_PURE_N_MODE \<equiv> 0x100"
abbreviation (input) HT_IOT_ACT_FORCED_CTS2SELF :: u32 where "HT_IOT_ACT_FORCED_CTS2SELF \<equiv> 0x200"
abbreviation (input) HT_IOT_ACT_FORCED_RTS :: u32 where "HT_IOT_ACT_FORCED_RTS \<equiv> 0x400"
abbreviation (input) HT_IOT_ACT_TX_NO_AGGREGATION :: u32 where "HT_IOT_ACT_TX_NO_AGGREGATION \<equiv> 0x00100000"
abbreviation (input) HT_IOT_ACT_WA_IOT_Broadcom :: u32 where "HT_IOT_ACT_WA_IOT_Broadcom \<equiv> 0x04000000"

definition forced_agg_setting :: "tx_ht \<Rightarrow> cb_desc \<Rightarrow> cb_desc" where
  "forced_agg_setting h cb =
     (case ForcedAMPDUMode h of
        HT_AGG_AUTO \<Rightarrow> cb
      | HT_AGG_FORCE_ENABLE \<Rightarrow>
          cb\<lparr>bAMPDUEnable := True, ampdu_density := ForcedMPDUDensity h, ampdu_factor := ForcedAMPDUFactor h\<rparr>
      | HT_AGG_FORCE_DISABLE \<Rightarrow> cb\<lparr>bAMPDUEnable := False, ampdu_density := 0, ampdu_factor := 0\<rparr>)"

text \<open>
  What happens to the stream of the frame: without an agreement one is requested, unless
  the keys of a protected network are still missing, and an agreement is used from its
  starting sequence number on. The second component says that the frame may be aggregated.
\<close>

definition agg_stream :: "bool \<Rightarrow> cb_desc \<Rightarrow> nat \<Rightarrow> ts_dev \<Rightarrow> ts_dev \<times> bool" where
  "agg_stream wpa_pending cb i t =
     (let r = TxTsRecord t ! i in
      if \<not> bValid (TxAdmittedBARecord r) then
        (if wpa_pending \<or> bdhcp cb \<or> bDisable_AddBa r then t else TsStartAddBaProcess i t, False)
      else if bUsingBa r then (t, True)
      else if SN_LESS (get_SeqNum (BaStartSeqCtrl (TxAdmittedBARecord r))) ((TxCurSeq r + 1) mod 4096)
      then (upd_tx i (\<lambda>r. r\<lparr>bUsingBa := True\<rparr>) t, True)
      else (t, False))"

definition rtllib_tx_query_agg_cap :: "tx_frag \<Rightarrow> cb_desc \<Rightarrow> 'k tx_dev \<Rightarrow> (cb_desc \<times> 'k tx_dev) option" where
  "rtllib_tx_query_agg_cap frag cb d =
     (if \<not> bCurrentHTSupport (txd d) \<or> \<not> bEnableHT (ht d) then Some (cb, d)
      else do {
        fc \<leftarrow> rd16 (tf_skb frag) 0;
        addr1 \<leftarrow> rdn (tf_skb frag) 4 6;
        if \<not> IsQoSDataFrame fc \<or> is_multicast_ether_addr addr1 \<or> is_broadcast_ether_addr addr1 \<or>
           IOTAction (txd d) AND HT_IOT_ACT_TX_NO_AGGREGATION \<noteq> 0 \<or> \<not> NmodeSupportBySecCfg d
        then Some (cb, d)
        else if bCurrentAMPDUEnable (txd d) then do {
          (t, n) \<leftarrow> GetTs (txd d) addr1 (tf_priority frag) TX_DIR True;
          case n of
            None \<Rightarrow> Some (cb, d\<lparr>txd := t\<rparr>)
          | Some n \<Rightarrow>
              (case agg_stream (wpa_ie_len d \<noteq> 0 \<and> pairwise_key_NA d) cb (node_index n) t of
                 (t1, agg) \<Rightarrow>
                   let cb1 = (if agg \<and> iw_mode t = IW_MODE_INFRA
                              then cb\<lparr>bAMPDUEnable := True, ampdu_factor := CurrentAMPDUFactor (ht d),
                                     ampdu_density := CurrentMPDUDensity (ht d)\<rparr>
                              else cb)
                   in Some (forced_agg_setting (ht d) cb1, d\<lparr>txd := t1\<rparr>)) }
        else Some (forced_agg_setting (ht d) cb, d) })"

section \<open>Rates and protection\<close>

definition short_preamble_cap :: "'k tx_dev \<Rightarrow> bool" where
  "short_preamble_cap d \<longleftrightarrow> capability d AND 0x20 \<noteq> 0"

definition rtllib_qurey_ShortPreambleMode :: "'k tx_dev \<Rightarrow> cb_desc \<Rightarrow> cb_desc" where
  "rtllib_qurey_ShortPreambleMode d cb =
     cb\<lparr>bUseShortPreamble := data_rate cb \<noteq> 2 \<and> short_preamble_cap d\<rparr>"

definition rtllib_query_HTCapShortGI :: "'k tx_dev \<Rightarrow> cb_desc \<Rightarrow> cb_desc" where
  "rtllib_query_HTCapShortGI d cb =
     (let h = ht d in
      cb\<lparr>bUseShortGI :=
        (bCurrentHTSupport (txd d) \<and> bEnableHT h \<and>
         (bForcedShortGI h \<or> bCurBW40MHz h \<and> bCurShortGI40MHz h \<or> \<not> bCurBW40MHz h \<and> bCurShortGI20MHz h))\<rparr>)"

definition rtllib_query_BandwidthMode :: "'k tx_dev \<Rightarrow> cb_desc \<Rightarrow> cb_desc" where
  "rtllib_query_BandwidthMode d cb =
     (let h = ht d in
      cb\<lparr>bPacketBW :=
        (bCurrentHTSupport (txd d) \<and> bEnableHT h \<and> \<not> bMulticast cb \<and> \<not> bBroadcast cb \<and> data_rate cb AND 0x80 \<noteq> 0 \<and>
         bCurBW40MHz h \<and> bCurTxBW40MHz h \<and> \<not> bforced_tx20Mhz d)\<rparr>)"

abbreviation (input) MGN_1M :: u8 where "MGN_1M \<equiv> 0x02"
abbreviation (input) MGN_24M :: u8 where "MGN_24M \<equiv> 0x30"
abbreviation (input) IEEE_N_24G :: u32 where "IEEE_N_24G \<equiv> 0x10"

definition no_protection :: "cb_desc \<Rightarrow> cb_desc" where
  "no_protection cb = cb\<lparr>bRTSEnable := False, bCTSEnable := False, rts_rate := 0, RTSSC := 0, bRTSBW := False\<rparr>"

text \<open>The body of the loop for 802.11n, which is left in each round; None is the label \<open>NO_PROTECTION\<close>.\<close>

definition ht_protection :: "'k tx_dev \<Rightarrow> nat \<Rightarrow> cb_desc \<Rightarrow> cb_desc option" where
  "ht_protection d len cb =
     (let h = ht d; act = IOTAction (txd d); cb1 = cb\<lparr>rts_rate := MGN_24M, bRTSEnable := True\<rparr> in
      if act AND HT_IOT_ACT_FORCED_CTS2SELF \<noteq> 0 then Some (cb1\<lparr>bCTSEnable := True\<rparr>)
      else if act AND (HT_IOT_ACT_FORCED_RTS OR HT_IOT_ACT_PURE_N_MODE) \<noteq> 0 then Some cb1
      else if buseprotection d then Some (cb1\<lparr>bCTSEnable := True\<rparr>)
      else if bCurrentHTSupport (txd d) \<and> bEnableHT h \<and>
         (bCurBW40MHz h \<and> (CurrentOpMode h = 2 \<or> CurrentOpMode h = 3) \<or> \<not> bCurBW40MHz h \<and> CurrentOpMode h = 3)
      then Some cb1
      else if len > rts d then Some cb1
      else if bAMPDUEnable cb then Some (cb\<lparr>rts_rate := MGN_24M, bRTSEnable := False\<rparr>)
      else None)"

definition rtllib_query_protectionmode :: "tx_frag \<Rightarrow> 'k tx_dev \<Rightarrow> cb_desc \<Rightarrow> cb_desc option" where
  "rtllib_query_protectionmode frag d cb =
     (let cb0 = cb\<lparr>bRTSSTBC := False, bRTSUseShortGI := False, bCTSEnable := False, RTSSC := 0, bRTSBW := False\<rparr>;
          len = sk_len (tf_skb frag)
      in if bBroadcast cb0 \<or> bMulticast cb0 then Some cb0
         else do {
           addr3 \<leftarrow> rdn (tf_skb frag) 16 6;
           Some (if is_broadcast_ether_addr addr3 then cb0
                 else if wmode d < IEEE_N_24G then
                   (if len > rts d then cb0\<lparr>bRTSEnable := True, rts_rate := MGN_24M\<rparr>
                    else if buseprotection d then cb0\<lparr>bRTSEnable := True, bCTSEnable := True, rts_rate := MGN_24M\<rparr>
                    else cb0)
                 else case ht_protection d len cb0 of
                   None \<Rightarrow> no_protection cb0
                 | Some cb1 \<Rightarrow>
                     let cb2 = (if short_preamble_cap d then cb1\<lparr>bUseShortPreamble := True\<rparr> else cb1)
                     in if iw_mode (txd d) = IW_MODE_MASTER then no_protection cb2 else cb2) })"

definition rtllib_txrate_selectmode :: "'k tx_dev \<Rightarrow> cb_desc \<Rightarrow> cb_desc" where
  "rtllib_txrate_selectmode d cb =
     (let cb1 = (if bTxDisableRateFallBack_dev d then cb\<lparr>bTxDisableRateFallBack := True\<rparr> else cb);
          cb2 = (if bTxUseDriverAssingedRate_dev d then cb1\<lparr>bTxUseDriverAssingedRate := True\<rparr> else cb1)
      in if (\<not> bTxDisableRateFallBack cb2 \<or> \<not> bTxUseDriverAssingedRate cb2) \<and> iw_mode (txd d) \<in> {IW_MODE_INFRA, IW_MODE_ADHOC}
         then cb2\<lparr>RATRIndex := 0\<rparr> else cb2)"

end
