(* ===== verification/Tx_Xmit.thy ===== *)
theory Tx_Xmit
  imports Tx_Path
begin

text \<open>
  \<open>rtllib_xmit\<close> of src/src/rtllib_tx.c, up to the hand-over of the fragments. The buffer of
  the network stack is a value: what is left of it goes back to the caller when the
  function asks for the frame to be sent again, and is gone otherwise. The checks of the
  kernel's locks and the debug output are left out.
\<close>

section \<open>The decisions about a frame\<close>

abbreviation (input) ETH_P_IP :: u16 where "ETH_P_IP \<equiv> 0x0800"
abbreviation (input) ETH_P_ARP :: u16 where "ETH_P_ARP \<equiv> 0x0806"
abbreviation (input) ETH_P_PAE :: u16 where "ETH_P_PAE \<equiv> 0x888E"
abbreviation (input) SNAP_LEN :: nat where "SNAP_LEN \<equiv> 8"
abbreviation (input) ETH_HLEN :: nat where "ETH_HLEN \<equiv> 14"
abbreviation (input) MAX_FRAG_THRESHOLD :: nat where "MAX_FRAG_THRESHOLD \<equiv> 2346"
abbreviation (input) RTLLIB_FCTL_WEP :: u16 where "RTLLIB_FCTL_WEP \<equiv> 0x4000"
abbreviation (input) RTLLIB_FCTL_MOREFRAGS :: u16 where "RTLLIB_FCTL_MOREFRAGS \<equiv> 0x0400"
abbreviation (input) RTLLIB_FCTL_TODS :: u16 where "RTLLIB_FCTL_TODS \<equiv> 0x0100"

text \<open>
  A frame of the address configuration: DHCP by its protocol and ports, or an ARP frame of
  that length. Both keep the station awake for a while.
\<close>

definition tx_dhcp :: "u16 \<Rightarrow> cskb \<Rightarrow> 'k tx_dev \<Rightarrow> (bool \<times> 'k tx_dev) option" where
  "tx_dhcp ether_type m d =
     (if sk_len m > 282 then
        if ether_type = ETH_P_IP then do {
          protocol \<leftarrow> rd8 m (14 + 9);
          if protocol \<noteq> 17 then Some (False, d)
          else do {
            vihl \<leftarrow> rd8 m 14;
            let udp = 14 + 4 * unat (vihl AND 0x0f);
            p1 \<leftarrow> rd8 m (udp + 1);
            p3 \<leftarrow> rd8 m (udp + 3);
            if (p1 = 68 \<and> p3 = 67) \<or> (p1 = 67 \<and> p3 = 68) then Some (True, d\<lparr>LPSDelayCnt := 100\<rparr>) else Some (False, d) } }
        else if ether_type = ETH_P_ARP then Some (True, d\<lparr>LPSDelayCnt := tim_count d\<rparr>)
        else Some (False, d)
      else Some (False, d))"

text \<open>The key that encrypts the frame, when it has to be encrypted.\<close>

definition tx_encrypt :: "u16 \<Rightarrow> 'k tx_dev \<Rightarrow> 'k tx_crypt option" where
  "tx_encrypt ether_type d =
     (if \<not> (ether_type = ETH_P_PAE \<and> ieee802_1x d) \<and> host_encrypt d then tx_crypts d ! tx_keyidx d else None)"

text \<open>The header of all fragments: frame control, addresses and the QoS field.\<close>

record tx_header =
  th_fc :: u16
  th_addr1 :: mac
  th_addr2 :: mac
  th_addr3 :: mac
  th_qos :: u16

definition tx_fc :: "bool \<Rightarrow> bool \<Rightarrow> iw_mode \<Rightarrow> u16" where
  "tx_fc encrypt qos mode =
     0x0008 OR (if encrypt then RTLLIB_FCTL_WEP else 0) OR (if qos then 0x0080 else 0) OR
     (if mode = IW_MODE_INFRA then RTLLIB_FCTL_TODS else 0)"

definition tx_addresses :: "ts_dev \<Rightarrow> mac \<Rightarrow> mac \<Rightarrow> mac \<times> mac \<times> mac" where
  "tx_addresses t dest src =
     (case iw_mode t of
        IW_MODE_INFRA \<Rightarrow> (bssid t, src, dest)
      | IW_MODE_ADHOC \<Rightarrow> (dest, src, bssid t)
      | _ \<Rightarrow> (replicate 6 0, replicate 6 0, replicate 6 0))"

definition header_bytes :: "tx_header \<Rightarrow> u16 \<Rightarrow> u16 \<Rightarrow> nat \<Rightarrow> u8 list" where
  "header_bytes h fc seq hdr_len =
     take hdr_len (put16 fc @ put16 0 @ th_addr1 h @ th_addr2 h @ th_addr3 h @ put16 seq @ put16 (th_qos h))"

text \<open>
  What the loop over the fragments works on. \<open>tj_bpf\<close> is the payload of a full fragment and
  \<open>tj_last\<close> that of the last one.
\<close>

record 'k tx_job =
  tj_header :: tx_header
  tj_crypt :: "'k tx_crypt option"
  tj_qos :: bool
  tj_multicast :: bool
  tj_priority :: u8
  tj_ether_type :: u16
  tj_hdr_len :: nat
  tj_bpf :: nat
  tj_last :: nat
  tj_nr :: nat

section \<open>The fragments\<close>

definition frag_seq :: "'k tx_job \<Rightarrow> tx_frag \<Rightarrow> nat \<Rightarrow> 'k tx_dev \<Rightarrow> (u16 \<times> 'k tx_dev) option" where
  "frag_seq j frag i d =
     (if tj_qos j \<and> \<not> tj_multicast j then do {
        (s, d1) \<leftarrow> rtllib_query_seqnum frag (th_addr1 (tj_header j)) d;
        Some (push_bit 4 s OR of_nat i, d1) }
      else Some (push_bit 4 (seq_ctrl d ! 0) OR of_nat i, d))"

text \<open>The space that a key needs, and what the i-th fragment carries.\<close>

definition key_pre :: "'k tx_crypt option \<Rightarrow> nat" where "key_pre c = (case c of None \<Rightarrow> 0 | Some c \<Rightarrow> extra_prefix_len c)"
definition key_post :: "'k tx_crypt option \<Rightarrow> nat" where "key_post c = (case c of None \<Rightarrow> 0 | Some c \<Rightarrow> extra_postfix_len c)"

definition frag_total :: "'k tx_job \<Rightarrow> nat \<Rightarrow> nat" where
  "frag_total j i = (if i \<noteq> tj_nr j - 1 then tj_bpf j else tj_last j)"

definition frag_snap :: "'k tx_job \<Rightarrow> nat \<Rightarrow> u8 list" where
  "frag_snap j i = (if i = 0 then rtllib_put_snap (tj_ether_type j) else [])"

definition frag_fc :: "'k tx_job \<Rightarrow> nat \<Rightarrow> u16" where
  "frag_fc j i = th_fc (tj_header j) OR (if i \<noteq> tj_nr j - 1 then RTLLIB_FCTL_MOREFRAGS else 0)"

text \<open>
  One round of the loop: the header, the SNAP header of the first fragment, the payload
  from the buffer of the stack, the encryption, whose result is not looked at, and the
  space for the check sequence.
\<close>

definition frag_meta :: "'k tx_job \<Rightarrow> 'k tx_dev \<Rightarrow> tx_frag \<Rightarrow> tx_frag" where
  "frag_meta j d f =
     f\<lparr>tf_cb := (tf_cb f)\<lparr>queue_index := (if tj_qos j then UP2AC (tj_priority j) else 1),
                        bHwSec := (tj_crypt j \<noteq> None \<and> hwsec_active d)\<rparr>,
       tf_priority := (if tj_qos j then tj_priority j else 1)\<rparr>"

definition frag_seal :: "'k tx_job \<Rightarrow> tx_frag \<Rightarrow> 'k tx_dev \<Rightarrow> (tx_frag \<times> 'k tx_dev) option" where
  "frag_seal j f d =
     (if tj_crypt j = None then Some (f, d)
      else map_option (\<lambda>(f, d, res). (f, d)) (rtllib_encrypt_fragment f (tj_hdr_len j) d))"

definition frag_one :: "'k tx_job \<Rightarrow> tx_frag \<Rightarrow> nat \<Rightarrow> cskb \<Rightarrow> 'k tx_dev \<Rightarrow> (tx_frag \<times> cskb \<times> 'k tx_dev) option" where
  "frag_one j f0 i m d =
     (let bytes = frag_total j i - length (frag_snap j i)
      in if frag_total j i < length (frag_snap j i) then None
         else do {
           s1 \<leftarrow> put_bytes (header_bytes (tj_header j) (frag_fc j i) 0 (tj_hdr_len j))
                 (skb_reserve (tx_headroom d + key_pre (tj_crypt j)) (tf_skb f0));
           let f1 = frag_meta j d (f0\<lparr>tf_skb := s1\<rparr>);
           (sc, d1) \<leftarrow> frag_seq j f1 i d;
           s2 \<leftarrow> put_bytes (frag_snap j i) (wr 22 (put16 sc) s1);
           payload \<leftarrow> rdn m 0 bytes;
           s3 \<leftarrow> put_bytes payload s2;
           (f4, d2) \<leftarrow> frag_seal j (f1\<lparr>tf_skb := s3\<rparr>) d1;
           s5 \<leftarrow> (if \<not> reserve_FCS d then Some (tf_skb f4)
                  else if 4 \<le> skb_tailroom (tf_skb f4) then Some (skb_put 4 (tf_skb f4)) else None);
           Some (f4\<lparr>tf_skb := s5\<rparr>, skb_pull bytes m, d2) })"

fun frag_loop :: "'k tx_job \<Rightarrow> tx_frag list \<Rightarrow> nat \<Rightarrow> cskb \<Rightarrow> 'k tx_dev \<Rightarrow> (tx_frag list \<times> cskb \<times> 'k tx_dev) option" where
  "frag_loop j [] i m d = Some ([], m, d)"
| "frag_loop j (f # fs) i m d = do {
     (g, m1, d1) \<leftarrow> frag_one j f i m d;
     (gs, m2, d2) \<leftarrow> frag_loop j fs (Suc i) m1 d1;
     Some (g # gs, m2, d2) }"

section \<open>The frame\<close>

text \<open>
  The payload of a fragment, in which header, check sequence and the additions of the
  encryption have to find room; None when nothing is left.
\<close>

definition bytes_per_frag :: "nat \<Rightarrow> nat \<Rightarrow> bool \<Rightarrow> 'k tx_crypt option \<Rightarrow> nat option" where
  "bytes_per_frag tx_size hdr_len fcs c =
     (let used = hdr_len + (if fcs then 4 else 0) + key_pre c + key_post c
      in if used < tx_size then Some (tx_size - used) else None)"

definition frag_counts :: "nat \<Rightarrow> nat \<Rightarrow> nat \<times> nat" where
  "frag_counts bytes bpf = (if bytes mod bpf \<noteq> 0 then (bytes div bpf + 1, bytes mod bpf) else (bytes div bpf, bpf))"

text \<open>
  The result of a stage: the frame in fragments when there is one, the state, the buffer
  of the stack with its priority, and whether the allocation failed.
\<close>

datatype tx_out = TX_DONE "rtllib_txb option" | TX_FAILED

record tx_local =
  tl_addr1 :: mac
  tl_ether_type :: u16
  tl_dhcp :: bool

text \<open>
  The plan for a frame of the given payload: its header, the size of its fragments and
  their number. None stands for a threshold that leaves no room for payload.
\<close>

definition tx_threshold :: "bool \<Rightarrow> 'k tx_dev \<Rightarrow> nat" where
  "tx_threshold multicast d = (if multicast then MAX_FRAG_THRESHOLD else unat (fts d))"

definition tx_plan :: "u16 \<Rightarrow> mac \<Rightarrow> mac \<Rightarrow> u8 \<Rightarrow> nat \<Rightarrow> 'k tx_dev \<Rightarrow> 'k tx_job option" where
  "tx_plan ether_type dest src prio0 bytes d =
     (let crypt = tx_encrypt ether_type d;
          qos = qos_active (txd d) \<noteq> 0;
          (addr1, addr2, addr3) = tx_addresses (txd d) dest src;
          mc = is_broadcast_ether_addr addr1 \<or> is_multicast_ether_addr addr1;
          hdr_len = RTLLIB_3ADDR_LEN + (if qos then 2 else 0);
          prio = (if qos then admit_priority (wmm_acm d) prio0 else prio0);
          qos_ctl = (if mc then 0x20 else 0) OR ucast prio :: u16
      in map_option (\<lambda>bpf.
           \<lparr>tj_header = \<lparr>th_fc = tx_fc (crypt \<noteq> None) qos (iw_mode (txd d)), th_addr1 = addr1, th_addr2 = addr2,
                          th_addr3 = addr3, th_qos = (if qos then qos_ctl AND 0x000f else 0)\<rparr>,
            tj_crypt = crypt, tj_qos = qos, tj_multicast = mc, tj_priority = prio, tj_ether_type = ether_type,
            tj_hdr_len = hdr_len, tj_bpf = bpf, tj_last = snd (frag_counts bytes bpf), tj_nr = fst (frag_counts bytes bpf)\<rparr>)
         (bytes_per_frag (tx_threshold mc d) hdr_len (reserve_FCS d) crypt))"

definition tx_build :: "u16 \<Rightarrow> mac \<Rightarrow> mac \<Rightarrow> u8 \<Rightarrow> cskb \<Rightarrow> 'k tx_dev \<Rightarrow> (tx_out \<times> cskb \<times> u8 \<times> mac \<times> 'k tx_dev) option" where
  "tx_build ether_type dest src prio0 m0 d =
     (let m = skb_pull ETH_HLEN m0; bytes = sk_len m + SNAP_LEN
      in do {
        j \<leftarrow> tx_plan ether_type dest src prio0 bytes d;
        case rtllib_alloc_txb (tj_nr j) (tx_threshold (tj_multicast j) d + tx_headroom d) d of
          (d1, None) \<Rightarrow> Some (TX_FAILED, m, tj_priority j, th_addr1 (tj_header j), d1)
        | (d1, Some txb) \<Rightarrow> do {
            (frags, m1, d2) \<leftarrow> frag_loop j (fragments txb) 0 m d1;
            let ac = UP2AC (tj_priority j);
            let d3 = d2\<lparr>seq_ctrl := next_seq_ctrl (if tj_qos j \<and> \<not> tj_multicast j then unat ac + 1 else 0) (seq_ctrl d2)\<rparr>;
            Some (TX_DONE (Some (txb\<lparr>encrypted := (tj_crypt j \<noteq> None), payload_size := of_nat bytes,
                    txb_queue_index := (if tj_qos j then ac else 1), fragments := frags\<rparr>)),
                  m1, tj_priority j, th_addr1 (tj_header j), d3) } })"

text \<open>A frame in the raw mode goes out as it is.\<close>

definition tx_raw :: "u8 \<Rightarrow> cskb \<Rightarrow> 'k tx_dev \<Rightarrow> (tx_out \<times> cskb \<times> u8 \<times> 'k tx_dev) option" where
  "tx_raw prio m d =
     (if sk_len m < RTLLIB_3ADDR_LEN then Some (TX_DONE None, m, prio, d)
      else case rtllib_alloc_txb 1 (sk_len m) d of
        (d1, None) \<Rightarrow> Some (TX_FAILED, m, prio, d1)
      | (d1, Some txb) \<Rightarrow> do {
          data \<leftarrow> rdn m 0 (sk_len m);
          s \<leftarrow> put_bytes data (tf_skb (fragments txb ! 0));
          Some (TX_DONE (Some (txb\<lparr>payload_size := of_nat (sk_len m),
                  fragments := [(fragments txb ! 0)\<lparr>tf_skb := s\<rparr>]\<rparr>)), m, prio, d1) })"

text \<open>The descriptor of the first fragment.\<close>

definition special_rate :: "'k tx_dev \<Rightarrow> u8 \<Rightarrow> cb_desc \<Rightarrow> cb_desc" where
  "special_rate d rate cb =
     (if IOTAction (txd d) AND HT_IOT_ACT_WA_IOT_Broadcom \<noteq> 0
      then cb\<lparr>data_rate := MgntQuery_TxRateExcludeCCKRates d, bTxDisableRateFallBack := False,
              RATRIndex := 7, bTxUseDriverAssingedRate := True\<rparr>
      else cb\<lparr>data_rate := rate, bTxDisableRateFallBack := True, RATRIndex := 7, bTxUseDriverAssingedRate := True\<rparr>)"

definition tx_describe :: "tx_local \<Rightarrow> u8 \<Rightarrow> tx_frag \<Rightarrow> 'k tx_dev \<Rightarrow> (cb_desc \<times> 'k tx_dev) option" where
  "tx_describe l prio f d =
     (let cb0 = (tf_cb f)\<lparr>bTxEnableFwCalcDur := True, cb_priority := prio\<rparr>
      in if tl_ether_type l = ETH_P_PAE then Some (special_rate d (basic_rate d) cb0, d)
         else
           let cb1 = (if is_multicast_ether_addr (tl_addr1 l) then cb0\<lparr>bMulticast := True\<rparr> else cb0);
               cb2 = (if is_broadcast_ether_addr (tl_addr1 l) then cb1\<lparr>bBroadcast := True\<rparr> else cb1);
               cb3 = rtllib_txrate_selectmode d cb2;
               cb4 = cb3\<lparr>data_rate := (if bMulticast cb3 \<or> bBroadcast cb3 then basic_rate d
                            else CURRENT_RATE (wmode d) (legacy_rate d) (HTCurrentOperaRate d))\<rparr>;
               cb5 = (if tl_dhcp l then special_rate d MGN_1M cb4 else cb4)
           in do {
             (cb6, d1) \<leftarrow> rtllib_tx_query_agg_cap f (rtllib_qurey_ShortPreambleMode d cb5) d;
             cb7 \<leftarrow> rtllib_query_protectionmode f d1 (rtllib_query_BandwidthMode d1 (rtllib_query_HTCapShortGI d1 cb6));
             Some (cb7, d1) })"

text \<open>The hand-over: the queues of the softmac, or the driver's handler for whole frames.\<close>

definition tx_hand_over :: "rtllib_txb \<Rightarrow> 'k tx_dev \<Rightarrow> 'k tx_dev" where
  "tx_hand_over txb d =
     (if softmac_tx_queue d then d\<lparr>sent := sent d @ [txb]\<rparr>
      else if hard_start_ok d
      then d\<lparr>sent := sent d @ [txb], tx_packets := tx_packets d + 1, tx_bytes := tx_bytes d + ucast (payload_size txb)\<rparr>
      else d)"

text \<open>
  The whole function. The result is 0 for a frame that is done with and 1 for one that
  should be sent again, together with what is left of its buffer in that case.
\<close>

definition tx_no_handler :: "'k tx_dev \<Rightarrow> bool" where
  "tx_no_handler d \<longleftrightarrow> (\<not> has_hard_start_xmit d \<and> \<not> softmac_tx_queue d) \<or> (\<not> has_softmac_data_xmit d \<and> softmac_tx_queue d)"

definition tx_success ::
    "tx_local \<Rightarrow> u8 \<Rightarrow> rtllib_txb option \<Rightarrow> 'k tx_dev \<Rightarrow> (int \<times> (cskb \<times> u8) option \<times> 'k tx_dev) option" where
  "tx_success l prio txb d =
     (case txb of
        None \<Rightarrow> Some (0, None, d)
      | Some b \<Rightarrow> do {
          (cb, d1) \<leftarrow> tx_describe l prio (fragments b ! 0) d;
          let b1 = b\<lparr>fragments := (fragments b)[0 := (fragments b ! 0)\<lparr>tf_cb := cb\<rparr>]\<rparr>;
          Some (0, None, tx_hand_over b1 d1) })"

definition tx_failed :: "cskb \<Rightarrow> u8 \<Rightarrow> 'k tx_dev \<Rightarrow> (int \<times> (cskb \<times> u8) option \<times> 'k tx_dev) option" where
  "tx_failed m prio d = Some (1, Some (m, prio), d\<lparr>netif_stopped := True, tx_errors := tx_errors d + 1\<rparr>)"

definition rtllib_xmit :: "cskb \<Rightarrow> u8 \<Rightarrow> 'k tx_dev \<Rightarrow> (int \<times> (cskb \<times> u8) option \<times> 'k tx_dev) option" where
  "rtllib_xmit m prio d =
     (let l0 = \<lparr>tl_addr1 = replicate 6 0, tl_ether_type = 0, tl_dhcp = False\<rparr> in
      if tx_no_handler d then tx_success l0 prio None d
      else if raw_tx d then do {
        (out, m1, prio1, d1) \<leftarrow> tx_raw prio m d;
        case out of TX_FAILED \<Rightarrow> tx_failed m1 prio1 d1 | TX_DONE txb \<Rightarrow> tx_success l0 prio1 txb d1 }
      else if sk_len m < SNAP_LEN then tx_success l0 prio None d
      else do {
        dest \<leftarrow> rdn m 0 6;
        src \<leftarrow> rdn m 6 6;
        hi \<leftarrow> rd8 m 12;
        lo \<leftarrow> rd8 m 13;
        let ether_type = le16 lo hi;
        (dhcp, d1) \<leftarrow> tx_dhcp ether_type m d;
        prio1 \<leftarrow> rtllib_classify m;
        if tx_encrypt ether_type d1 = None \<and> ieee802_1x d1 \<and> drop_unencrypted d1 \<and> ether_type \<noteq> ETH_P_PAE
        then tx_success l0 prio1 None (d1\<lparr>tx_dropped := tx_dropped d1 + 1\<rparr>)
        else do {
          (out, m1, prio2, addr1, d2) \<leftarrow> tx_build ether_type dest src prio1 m d1;
          case out of
            TX_FAILED \<Rightarrow> tx_failed m1 prio2 d2
          | TX_DONE txb \<Rightarrow> tx_success \<lparr>tl_addr1 = addr1, tl_ether_type = ether_type, tl_dhcp = dhcp\<rparr> prio2 txb d2 } })"

end
