(* ===== verification/Tx_Frag.thy ===== *)
theory Tx_Frag
  imports Tx_Xmit BA_Props
begin

text \<open>
  What the transmit path makes of a frame: the buffers of the fragments do not overflow,
  their contents are the headers with the pieces of the frame, and the keys keep to the
  space that their algorithm announces. The last is a contract of the encryption modules.
\<close>

section \<open>Buffers\<close>

lemma put_bytes_ok:
  assumes "skb_wf s" "length bs \<le> skb_tailroom s"
  shows "\<exists>g. put_bytes bs s = Some g \<and> skb_wf g \<and> skb_frame g = skb_frame s @ bs \<and> sk_len g = sk_len s + length bs \<and>
    skb_tailroom g = skb_tailroom s - length bs \<and> sk_headroom g = sk_headroom s"
  using assms
  by (simp add: put_bytes_def skb_wf_def skb_frame_def wr_def skb_put_def skb_tailroom_def drop_take min.absorb1 min.absorb2)

lemma wf_skb_pull: "skb_wf m \<Longrightarrow> skb_wf (skb_pull n m)"
  by (auto simp: skb_pull_def skb_wf_def)

lemma skb_pull_frame:
  "skb_wf m \<Longrightarrow> n \<le> sk_len m \<Longrightarrow> skb_frame (skb_pull n m) = drop n (skb_frame m) \<and> sk_len (skb_pull n m) = sk_len m - n"
  by (simp add: skb_pull_def skb_frame_def skb_wf_def drop_take)

lemma length_put_snap [simp]: "length (rtllib_put_snap et) = 8"
  by (simp add: rtllib_put_snap_def P802_1H_OUI_def RFC1042_OUI_def)

section \<open>Keys\<close>

text \<open>
  The contract: a buffer with the announced space on both sides is sealed, the operation
  uses no more than this space and leaves the header alone.
\<close>

locale tx_cipher =
  fixes seal :: "bool \<Rightarrow> nat \<Rightarrow> 'k crypt_op"
    and pre :: nat and post :: nat
  assumes seals: "can_send hl pre post f \<Longrightarrow> 24 \<le> hl \<Longrightarrow>
    \<exists>g k' res. seal hw hl f k = Some (g, k', res) \<and> skb_wf g \<and> hl \<le> sk_len g \<and>
      sk_len g \<le> sk_len f + pre + post \<and> skb_tailroom f \<le> skb_tailroom g + post \<and>
      take hl (skb_frame g) = take hl (skb_frame f)"
begin

text \<open>Behind the announced space, the room for the check sequence is left.\<close>

lemma room_left:
  assumes "can_send hl pre (post + n) f" "24 \<le> hl" "seal hw hl f k = Some (g, k', res)"
  shows "skb_wf g" "hl \<le> sk_len g" "sk_len g \<le> sk_len f + pre + post" "n \<le> skb_tailroom g"
    "take hl (skb_frame g) = take hl (skb_frame f)"
proof -
  have "can_send hl pre post f" using assms(1) by (simp add: can_send_def)
  from seals[OF this assms(2), of hw k] assms(1,3)
  show "skb_wf g" "hl \<le> sk_len g" "sk_len g \<le> sk_len f + pre + post" "n \<le> skb_tailroom g"
    "take hl (skb_frame g) = take hl (skb_frame f)"
    by (auto simp: can_send_def)
qed

end

text \<open>The key of the device is the one that the frame is encrypted with, up to its state.\<close>

definition key_ready :: "'k tx_crypt option \<Rightarrow> 'k tx_dev \<Rightarrow> bool" where
  "key_ready c d \<longleftrightarrow>
     (case c of
        None \<Rightarrow> True
      | Some c \<Rightarrow> tx_keyidx d < length (tx_crypts d) \<and>
          (\<exists>c'. tx_crypts d ! tx_keyidx d = Some c' \<and> tx_seal c' = tx_seal c) \<and>
          tx_cipher (tx_seal c) (extra_prefix_len c) (extra_postfix_len c))"

text \<open>A fragment made from a plain one with these bytes.\<close>

definition sealed :: "'k tx_crypt option \<Rightarrow> nat \<Rightarrow> u8 list \<Rightarrow> u8 list \<Rightarrow> bool" where
  "sealed c hl plain bs \<longleftrightarrow>
     (case c of
        None \<Rightarrow> bs = plain
      | Some c \<Rightarrow> \<exists>hw f k g k' res. skb_frame f = plain \<and> can_send hl (extra_prefix_len c) (extra_postfix_len c) f \<and>
                   tx_seal c hw hl f k = Some (g, k', res) \<and> skb_frame g = bs)"


text \<open>What the fragments leave alone.\<close>

definition tx_same :: "'k tx_dev \<Rightarrow> 'k tx_dev \<Rightarrow> bool" where
  "tx_same d d' \<longleftrightarrow> (\<exists>t c n. d' = d\<lparr>txd := t, tx_crypts := c, tx_discards := n\<rparr>)"

lemma tx_same_refl [simp]: "tx_same d d"
  unfolding tx_same_def by (intro exI[of _ "txd d"] exI[of _ "tx_crypts d"] exI[of _ "tx_discards d"]) simp

lemma tx_same_trans: "tx_same d d1 \<Longrightarrow> tx_same d1 d2 \<Longrightarrow> tx_same d d2"
  unfolding tx_same_def by (elim exE, simp) blast

lemma tx_same_fields:
  assumes "tx_same d d'"
  shows "seq_ctrl d' = seq_ctrl d" "hwsec_active d' = hwsec_active d" "tx_headroom d' = tx_headroom d"
    "reserve_FCS d' = reserve_FCS d" "sent d' = sent d" "tx_keyidx d' = tx_keyidx d" "tx_live d' = tx_live d"
    "softmac_tx_queue d' = softmac_tx_queue d"
  using assms by (auto simp: tx_same_def)

lemma tx_seal_priv [simp]: "tx_seal (c\<lparr>tx_priv := k\<rparr>) = tx_seal c"
  by (intro ext) (simp add: tx_seal_def)

text \<open>The encryption of a fragment.\<close>

lemma seal_fragment:
  assumes key: "key_ready (Some c) d" and f: "can_send hl (key_pre (Some c)) (key_post (Some c) + n) (tf_skb frag)" "24 \<le> hl"
  shows "\<exists>g d' res. rtllib_encrypt_fragment frag hl d = Some (frag\<lparr>tf_skb := g\<rparr>, d', res) \<and> tx_same d d' \<and> txd d' = txd d \<and>
     key_ready (Some c) d' \<and> sealed (Some c) hl (skb_frame (tf_skb frag)) (skb_frame g) \<and> skb_wf g \<and> hl \<le> sk_len g \<and>
     sk_len g \<le> sk_len (tf_skb frag) + key_pre (Some c) + key_post (Some c) \<and> n \<le> skb_tailroom g \<and>
     take hl (skb_frame g) = take hl (skb_frame (tf_skb frag))"
proof -
  obtain c' where k: "tx_keyidx d < length (tx_crypts d)" "tx_crypts d ! tx_keyidx d = Some c'" "tx_seal c' = tx_seal c"
    "tx_cipher (tx_seal c) (extra_prefix_len c) (extra_postfix_len c)"
    using key by (auto simp: key_ready_def)
  let ?hw = "bHwSec (tf_cb frag)" and ?f = "tf_skb frag"
  have f': "can_send hl (extra_prefix_len c) (extra_postfix_len c + n) ?f" using f(1) by (simp add: key_pre_def key_post_def)
  then have f0: "can_send hl (extra_prefix_len c) (extra_postfix_len c) ?f" by (simp add: can_send_def)
  from tx_cipher.seals[OF k(4) f0 f(2), of ?hw "tx_priv c'"] obtain g k' res where g: "tx_seal c ?hw hl ?f (tx_priv c') = Some (g, k', res)" by blast
  note r = tx_cipher.room_left[OF k(4) f' f(2) g]
  let ?d1 = "d\<lparr>tx_crypts := (tx_crypts d)[tx_keyidx d := Some (c'\<lparr>tx_priv := k'\<rparr>)]\<rparr>"
  let ?d' = "if res < 0 then ?d1\<lparr>tx_discards := tx_discards ?d1 + 1\<rparr> else ?d1"
  have run: "rtllib_encrypt_fragment frag hl d = Some (frag\<lparr>tf_skb := g\<rparr>, ?d', if res < 0 then - 1 else 0)"
    using k(2,3) g by (simp add: rtllib_encrypt_fragment_def)
  have same: "tx_same d ?d'" unfolding tx_same_def
    by (intro exI[of _ "txd d"] exI[of _ "tx_crypts ?d1"] exI[of _ "if res < 0 then tx_discards d + 1 else tx_discards d"]) simp
  have "key_ready (Some c) ?d'" using k by (auto simp: key_ready_def)
  moreover have "sealed (Some c) hl (skb_frame ?f) (skb_frame g)" using f0 g unfolding sealed_def by simp blast
  ultimately show ?thesis using run same r by (auto simp: key_pre_def key_post_def)
qed

section \<open>Sequence numbers\<close>

text \<open>The stream of a unicast frame exists and the streams stay well formed.\<close>

lemma seq_stream_update:
  assumes "ts_system t" "GetTs t a p TX_DIR True = Some (t1, Some n)"
    and "Addr (tx_common r) = Addr (tx_common (TxTsRecord t1 ! node_index n))"
    and "TSInfo (tx_common r) = TSInfo (tx_common (TxTsRecord t1 ! node_index n))"
  defines "t2 \<equiv> t1\<lparr>TxTsRecord := (TxTsRecord t1)[node_index n := r]\<rparr>"
  shows "ts_system t2" "GetTs t2 a p TX_DIR True = Some (t2, Some n)" "node_index n < length (TxTsRecord t1)"
proof -
  have g: "get_stream TX_DIR (a, p) True t = Some (t1, Some n)" using assms(2) by (simp add: get_stream_def)
  have ok: "ts_ok TX_DIR t" by (rule ts_system_ok[OF assms(1)])
  obtain k where k: "stream_key t (a, p) = Some k" "stream_table TX_DIR t1 k = Some n"
    using streams.get_key[OF ok g] by blast
  have s1: "ts_system t1" by (rule GetTs_system[OF assms(1,2)])
  then obtain A P U where sys: "ts_sys t1 A P U" by (auto simp: ts_system_def)
  obtain i where n: "n = TxTs i" using ts_sys_admitted(5)[OF sys k(2)] by (auto simp: ts_node_of_def)
  show "node_index n < length (TxTsRecord t1)"
    using ts_sys_admitted(3)[OF sys k(2)] by (simp add: n ts_valid_def node_index_def)
  have "ts_sys t2 A P U" and tbl: "stream_table TX_DIR t2 = stream_table TX_DIR t1" unfolding t2_def
    by (rule ts_sys_tx_update[OF sys k(2)[unfolded n], where t = r]; use assms(3,4) n in \<open>simp add: node_index_def\<close>)+
  then show s2: "ts_system t2" by (auto simp: ts_system_def)
  have "stream_key t2 = stream_key t1" by (simp add: t2_def stream_key_def GetTs_UP_def fun_eq_iff)
  then have "stream_key t2 (a, p) = Some k" using k(1) streams.key_same[OF ok g, of "(a, p)"] by simp
  then show "GetTs t2 a p TX_DIR True = Some (t2, Some n)"
    using streams.get_hit[OF ts_system_ok[OF s2], where q = "(a, p)" and k = k and v = n and add = True and s = TX_DIR] k(2) tbl by (simp add: get_stream_def)
qed

lemmas seq_stream_step = seq_stream_update(1)

lemma frag_seq_total:
  assumes "ts_system (txd d) \<or> \<not> tj_qos j" and f: "skb_wf (tf_skb frag)" "2 \<le> sk_len (tf_skb frag)"
  shows "\<exists>sc t. frag_seq j frag i d = Some (sc, d\<lparr>txd := t\<rparr>) \<and> (ts_system (txd d) \<longrightarrow> ts_system t) \<and>
     (\<not> tj_qos j \<or> tj_multicast j \<longrightarrow> sc = push_bit 4 (seq_ctrl d ! 0) OR of_nat i \<and> t = txd d)"
proof (cases "tj_qos j \<and> \<not> tj_multicast j")
  case True
  then have sys: "ts_system (txd d)" using assms(1) by simp
  let ?a = "th_addr1 (tj_header j)"
  have fc: "\<exists>fc. rd16 (tf_skb frag) 0 = Some fc" using rd16_frame[OF f(1), of 0] f(2) by auto
  have "\<exists>s t. rtllib_query_seqnum frag ?a d = Some (s, d\<lparr>txd := t\<rparr>) \<and> ts_system t"
  proof (cases "(is_multicast_ether_addr ?a \<or> is_broadcast_ether_addr ?a) \<or> (\<exists>fc. rd16 (tf_skb frag) 0 = Some fc \<and> \<not> IsQoSDataFrame fc)")
    case True
    then show ?thesis using sys fc by (intro exI[of _ 0] exI[of _ "txd d"]) (auto simp: rtllib_query_seqnum_def)
  next
    case False
    obtain t1 r where g: "GetTs (txd d) ?a (tf_priority frag) TX_DIR True = Some (t1, r)" 
      using streams.get_total[OF ts_system_ok[OF sys], of TX_DIR "(?a, tf_priority frag)" True] by (auto simp: get_stream_def)
    have s1: "ts_system t1" by (rule GetTs_system[OF sys g])
    show ?thesis
    proof (cases r)
      case None
      then show ?thesis using False fc g s1 by (auto simp: rtllib_query_seqnum_def)
    next
      case (Some n)
      let ?r = "(TxTsRecord t1 ! node_index n)\<lparr>TxCurSeq := (TxCurSeq (TxTsRecord t1 ! node_index n) + 1) mod 4096\<rparr>"
      have "ts_system (t1\<lparr>TxTsRecord := (TxTsRecord t1)[node_index n := ?r]\<rparr>)"
        by (rule seq_stream_step[OF sys]) (use g Some in simp_all)
      then show ?thesis using False fc g Some by (auto simp: rtllib_query_seqnum_def Let_def)
    qed
  qed
  then obtain s t where "rtllib_query_seqnum frag ?a d = Some (s, d\<lparr>txd := t\<rparr>)" "ts_system t" by blast
  then show ?thesis using True by (auto simp: frag_seq_def)
next
  case False
  then show ?thesis by (intro exI[of _ "push_bit 4 (seq_ctrl d ! 0) OR of_nat i"] exI[of _ "txd d"]) (auto simp: frag_seq_def)
qed

section \<open>One fragment\<close>

definition header_ok :: "tx_header \<Rightarrow> bool" where
  "header_ok h \<longleftrightarrow> length (th_addr1 h) = 6 \<and> length (th_addr2 h) = 6 \<and> length (th_addr3 h) = 6"

lemma length_header_bytes: "header_ok h \<Longrightarrow> hl = 24 \<or> hl = 26 \<Longrightarrow> length (header_bytes h fc sc hl) = hl"
  by (auto simp: header_bytes_def header_ok_def)

lemma header_bytes_seq:
  assumes "header_ok h" "hl = 24 \<or> hl = 26"
  shows "take 22 (header_bytes h fc 0 hl) @ put16 sc @ drop 24 (header_bytes h fc 0 hl) = header_bytes h fc sc hl"
proof -
  obtain a where a: "header_bytes h fc x hl = a @ put16 x @ take (hl - 24) (put16 (th_qos h))" "length a = 22" for x
  proof
    let ?a = "put16 fc @ put16 0 @ th_addr1 h @ th_addr2 h @ th_addr3 h"
    have l: "length ?a = 22" using assms(1) by (simp add: header_ok_def)
    have hl: "hl = length (?a @ put16 x) + (hl - 24)" for x using assms(2) l by auto
    show "header_bytes h fc x hl = ?a @ put16 x @ take (hl - 24) (put16 (th_qos h))" for x
      unfolding header_bytes_def using assms(2) l by auto
    show "length ?a = 22" by (rule l)
  qed
  then show ?thesis by (simp add: a)
qed

definition job_room :: "'k tx_job \<Rightarrow> 'k tx_dev \<Rightarrow> nat" where
  "job_room j d = tx_headroom d + key_pre (tj_crypt j) + tj_hdr_len j + tj_bpf j + key_post (tj_crypt j) + (if reserve_FCS d then 4 else 0)"

text \<open>A fragment on the air: header and piece, sealed by the key, with room for the check sequence.\<close>

definition on_air :: "'k tx_job \<Rightarrow> bool \<Rightarrow> nat \<Rightarrow> u16 \<Rightarrow> u8 list \<Rightarrow> tx_frag \<Rightarrow> bool" where
  "on_air j fcs i sc piece g \<longleftrightarrow>
     (\<exists>bs tail. skb_wf (tf_skb g) \<and> skb_frame (tf_skb g) = bs @ tail \<and> length tail = (if fcs then 4 else 0) \<and>
        sealed (tj_crypt j) (tj_hdr_len j) (header_bytes (tj_header j) (frag_fc j i) sc (tj_hdr_len j) @ piece) bs \<and>
        take (tj_hdr_len j) bs = header_bytes (tj_header j) (frag_fc j i) sc (tj_hdr_len j) \<and>
        length bs \<le> key_pre (tj_crypt j) + tj_hdr_len j + tj_bpf j + key_post (tj_crypt j))"

definition job_ok :: "'k tx_job \<Rightarrow> 'k tx_dev \<Rightarrow> bool" where
  "job_ok j d \<longleftrightarrow> header_ok (tj_header j) \<and> (tj_hdr_len j = 24 \<or> tj_hdr_len j = 26) \<and> tj_last j \<le> tj_bpf j \<and>
     key_ready (tj_crypt j) d \<and> (ts_system (txd d) \<or> \<not> tj_qos j)"

lemma put_tail: "skb_wf g \<Longrightarrow> 4 \<le> skb_tailroom g \<Longrightarrow> skb_wf (skb_put 4 g) \<and> (\<exists>t. skb_frame (skb_put 4 g) = skb_frame g @ t \<and> length t = 4)"
  by (auto simp: skb_wf_def skb_put_def skb_frame_def skb_tailroom_def take_add intro!: exI[of _ "take 4 (drop (sk_len g) (sk_mem g))"])

lemma frag_one_ok:
  assumes j: "job_ok j d" and f0: "tf_skb f0 = \<lparr>sk_mem = mem, sk_len = 0, sk_headroom = 0\<rparr>" "job_room j d \<le> length mem"
    and m: "skb_wf m" "length (frag_snap j i) \<le> frag_total j i" "frag_total j i - length (frag_snap j i) \<le> sk_len m"
  shows "\<exists>g d' sc. frag_one j f0 i m d = Some (g, skb_pull (frag_total j i - length (frag_snap j i)) m, d') \<and> tx_same d d' \<and> job_ok j d' \<and>
     (ts_system (txd d) \<longrightarrow> ts_system (txd d')) \<and>
     (\<not> tj_qos j \<or> tj_multicast j \<longrightarrow> sc = push_bit 4 (seq_ctrl d ! 0) OR of_nat i) \<and>
     on_air j (reserve_FCS d) i sc (frag_snap j i @ take (frag_total j i - length (frag_snap j i)) (skb_frame m)) g \<and>
     tf_priority g = (if tj_qos j then tj_priority j else 1) \<and>
     (\<exists>f. frag_seq j f i d = Some (sc, d\<lparr>txd := txd d'\<rparr>) \<and> skb_wf (tf_skb f) \<and>
        skb_frame (tf_skb f) = header_bytes (tj_header j) (frag_fc j i) 0 (tj_hdr_len j) \<and>
        tf_priority f = (if tj_qos j then tj_priority j else 1))"
proof -
  let ?n = "frag_total j i - length (frag_snap j i)" and ?hl = "tj_hdr_len j" and ?h = "tj_header j" and ?c = "tj_crypt j"
  let ?fcs = "if reserve_FCS d then 4 else 0 :: nat" and ?piece = "frag_snap j i @ take ?n (skb_frame m)"
  have tot: "frag_total j i \<le> tj_bpf j" using j by (auto simp: frag_total_def job_ok_def)
  have h: "header_ok ?h" "?hl = 24 \<or> ?hl = 26" and key: "key_ready ?c d" using j by (auto simp: job_ok_def)
  define s0 where "s0 = skb_reserve (tx_headroom d + key_pre ?c) (tf_skb f0)"
  have s0: "skb_wf s0" "skb_frame s0 = []" "sk_len s0 = 0" "sk_headroom s0 = tx_headroom d + key_pre ?c"
    "?hl + tj_bpf j + key_post ?c + ?fcs \<le> skb_tailroom s0"
    using f0 by (simp_all add: s0_def skb_reserve_def skb_wf_def skb_frame_def skb_tailroom_def job_room_def)
  let ?hb = "\<lambda>sc. header_bytes ?h (frag_fc j i) sc ?hl"
  have lhb: "length (?hb sc) = ?hl" for sc by (rule length_header_bytes[OF h])
  obtain s1 where s1: "put_bytes (?hb 0) s0 = Some s1" "skb_wf s1" "skb_frame s1 = ?hb 0" "sk_len s1 = ?hl"
    "skb_tailroom s1 = skb_tailroom s0 - ?hl" "sk_headroom s1 = sk_headroom s0"
    using put_bytes_ok[OF s0(1), of "?hb 0"] s0 lhb by auto
  define f1 where "f1 = frag_meta j d (f0\<lparr>tf_skb := s1\<rparr>)"
  have f1: "tf_skb f1 = s1" "tf_priority f1 = (if tj_qos j then tj_priority j else 1)"
    by (simp_all add: f1_def frag_meta_def)
  have sys: "ts_system (txd d) \<or> \<not> tj_qos j" using j by (simp add: job_ok_def)
  obtain sc t where sc: "frag_seq j f1 i d = Some (sc, d\<lparr>txd := t\<rparr>)" "ts_system (txd d) \<longrightarrow> ts_system t"
    "\<not> tj_qos j \<or> tj_multicast j \<longrightarrow> sc = push_bit 4 (seq_ctrl d ! 0) OR of_nat i \<and> t = txd d"
    using frag_seq_total[OF sys, of f1 i] s1(2,4) h(2) by (force simp: f1)
  let ?d1 = "d\<lparr>txd := t\<rparr>" and ?w = "wr 22 (put16 sc) s1"
  have w: "skb_wf ?w" "skb_frame ?w = ?hb sc" "sk_len ?w = ?hl" "skb_tailroom ?w = skb_tailroom s1" "sk_headroom ?w = sk_headroom s1"
  proof -
    have i22: "22 + length (put16 sc) \<le> sk_len s1" using s1(4) h(2) by auto
    show "skb_wf ?w" using s1(2) i22 by (intro wf_wr) (auto simp: skb_wf_def)
    show "skb_frame ?w = ?hb sc" using frame_wr[OF s1(2) i22] header_bytes_seq[OF h, of "frag_fc j i" sc] by (simp add: s1(3))
    show "sk_len ?w = ?hl" by (simp add: s1(4))
    show "skb_tailroom ?w = skb_tailroom s1" using s1(2) i22 by (simp add: skb_tailroom_def skb_wf_def)
    show "sk_headroom ?w = sk_headroom s1" by (simp add: wr_def)
  qed
  have l2: "length (frag_snap j i) \<le> skb_tailroom ?w" using w(4) s1(5) s0(5) tot m(2) by linarith
  obtain s2 where s2: "put_bytes (frag_snap j i) ?w = Some s2" "skb_wf s2" "skb_frame s2 = ?hb sc @ frag_snap j i"
    "sk_len s2 = ?hl + length (frag_snap j i)" "skb_tailroom s2 = skb_tailroom s1 - length (frag_snap j i)" "sk_headroom s2 = sk_headroom s1"
    using put_bytes_ok[OF w(1) l2] w by auto
  have pay: "rdn m 0 ?n = Some (take ?n (skb_frame m))" using rdn_frame[OF m(1), of 0 ?n] m(3) by simp
  have lp: "length (take ?n (skb_frame m)) = ?n" using m(1,3) by simp
  have l3: "length (take ?n (skb_frame m)) \<le> skb_tailroom s2" using s2(5) s1(5) s0(5) tot m(2) lp by linarith
  have r3: "key_post ?c + ?fcs \<le> skb_tailroom s2 - ?n" using s2(5) s1(5) s0(5) tot m(2) by linarith
  obtain s3 where s3: "put_bytes (take ?n (skb_frame m)) s2 = Some s3" "skb_wf s3" "skb_frame s3 = ?hb sc @ ?piece"
    "sk_len s3 = ?hl + frag_total j i" "key_post ?c + ?fcs \<le> skb_tailroom s3" "sk_headroom s3 = tx_headroom d + key_pre ?c"
    using put_bytes_ok[OF s2(2) l3] s2(3,4,6) s1(6) s0(4) m(2) lp r3 by auto
  have send: "can_send ?hl (key_pre ?c) (key_post ?c + ?fcs) s3" using s3 by (simp add: can_send_def)
  have hl24: "24 \<le> ?hl" using h(2) by auto
  let ?enc = "frag_seal j (f1\<lparr>tf_skb := s3\<rparr>) ?d1"
  have hd3: "take ?hl (skb_frame s3) = ?hb sc" by (simp add: s3(3) lhb)
  have "\<exists>g d2. ?enc = Some (f1\<lparr>tf_skb := g\<rparr>, d2) \<and> tx_same ?d1 d2 \<and> txd d2 = t \<and> key_ready ?c d2 \<and> sealed ?c ?hl (skb_frame s3) (skb_frame g) \<and>
     skb_wf g \<and> ?hl \<le> sk_len g \<and> sk_len g \<le> sk_len s3 + key_pre ?c + key_post ?c \<and> ?fcs \<le> skb_tailroom g \<and> take ?hl (skb_frame g) = ?hb sc"
  proof (cases ?c)
    case None
    then show ?thesis using s3 hd3 by (intro exI[of _ s3] exI[of _ ?d1]) (simp add: key_ready_def sealed_def frag_seal_def)
  next
    case (Some c)
    have k1: "key_ready (Some c) ?d1" using key Some by (simp add: key_ready_def)
    show ?thesis
      using seal_fragment[OF k1, of ?hl ?fcs "f1\<lparr>tf_skb := s3\<rparr>"] send hl24 hd3 by (auto simp: Some frag_seal_def)
  qed
  then obtain g d2 where g: "?enc = Some (f1\<lparr>tf_skb := g\<rparr>, d2)" "tx_same ?d1 d2" "txd d2 = t" "key_ready ?c d2"
    "sealed ?c ?hl (skb_frame s3) (skb_frame g)" "skb_wf g" "?hl \<le> sk_len g" "sk_len g \<le> sk_len s3 + key_pre ?c + key_post ?c"
    "?fcs \<le> skb_tailroom g" "take ?hl (skb_frame g) = ?hb sc" by blast
  define s5 where "s5 = (if \<not> reserve_FCS d then g else skb_put 4 g)"
  have "\<exists>tail. skb_wf s5 \<and> skb_frame s5 = skb_frame g @ tail \<and> length tail = ?fcs"
    using put_tail[OF g(6)] g(6,9) by (cases "reserve_FCS d") (simp_all add: s5_def)
  then obtain tail where s5: "skb_wf s5" "skb_frame s5 = skb_frame g @ tail" "length tail = ?fcs" by blast
  have run: "frag_one j f0 i m d = Some (f1\<lparr>tf_skb := s5\<rparr>, skb_pull ?n m, d2)"
    using m(2) s1(1) sc(1) s2(1) pay s3(1) g(1,9)
    by (cases "reserve_FCS d") (simp_all add: frag_one_def Let_def s0_def[symmetric] f1_def[symmetric] s5_def)
  have same: "tx_same d d2" using g(2) by (auto simp: tx_same_def)
  have "length (skb_frame g) \<le> key_pre ?c + ?hl + tj_bpf j + key_post ?c" using g(6,8) s3(4) tot by simp
  then have air: "on_air j (reserve_FCS d) i sc ?piece (f1\<lparr>tf_skb := s5\<rparr>)"
    using s5 g(5,10) s3(3) unfolding on_air_def by (intro exI[of _ "skb_frame g"] exI[of _ tail]) simp
  have src: "\<exists>f. frag_seq j f i d = Some (sc, d\<lparr>txd := txd d2\<rparr>) \<and> skb_wf (tf_skb f) \<and> skb_frame (tf_skb f) = ?hb 0 \<and>
    tf_priority f = (if tj_qos j then tj_priority j else 1)"
    by (rule exI[of _ f1]) (simp add: f1 sc(1) g(3) s1(2,3))
  show ?thesis
    using run same air g(3,4) sc(2,3) j src
    by (intro exI[of _ "f1\<lparr>tf_skb := s5\<rparr>"] exI[of _ d2] exI[of _ sc]) (auto simp: job_ok_def f1)
qed

section \<open>All fragments\<close>

text \<open>The i-th piece of the message, which starts with the SNAP header.\<close>

definition msdu_piece :: "'k tx_job \<Rightarrow> u8 list \<Rightarrow> nat \<Rightarrow> u8 list" where
  "msdu_piece j S i = take (frag_total j i) (drop (i * tj_bpf j) S)"

definition counts_ok :: "'k tx_job \<Rightarrow> u8 list \<Rightarrow> bool" where
  "counts_ok j S \<longleftrightarrow> 0 < tj_nr j \<and> length S = (tj_nr j - 1) * tj_bpf j + tj_last j \<and> 8 \<le> tj_bpf j \<and> 8 \<le> length S \<and>
     0 < tj_last j \<and> tj_last j \<le> tj_bpf j"

lemma piece_step:
  assumes c: "counts_ok j S" and i: "i < tj_nr j" and m: "skb_wf m" "frag_snap j i @ skb_frame m = drop (i * tj_bpf j) S"
  defines "n \<equiv> frag_total j i - length (frag_snap j i)"
  shows "length (frag_snap j i) \<le> frag_total j i" "n \<le> sk_len m" "frag_snap j i @ take n (skb_frame m) = msdu_piece j S i"
    "skb_wf (skb_pull n m)" "Suc i < tj_nr j \<Longrightarrow> frag_snap j (Suc i) @ skb_frame (skb_pull n m) = drop (Suc i * tj_bpf j) S"
proof -
  have len: "length (frag_snap j i) + sk_len m = length S - i * tj_bpf j"
    using arg_cong[OF m(2), of length] m(1) by simp
  have tot: "frag_total j i \<le> length S - i * tj_bpf j" "8 \<le> frag_total j i \<or> i \<noteq> 0"
  proof -
    have "frag_total j i + i * tj_bpf j \<le> length S"
    proof (cases "i = tj_nr j - 1")
      case False
      then have "Suc i \<le> tj_nr j - 1" using i by simp
      then have "Suc i * tj_bpf j \<le> (tj_nr j - 1) * tj_bpf j" by (rule mult_le_mono1)
      with False c show ?thesis by (simp add: frag_total_def counts_ok_def)
    qed (use c in \<open>simp add: frag_total_def counts_ok_def\<close>)
    then show "frag_total j i \<le> length S - i * tj_bpf j" by simp
    show "8 \<le> frag_total j i \<or> i \<noteq> 0" using c by (auto simp: frag_total_def counts_ok_def)
  qed
  show l: "length (frag_snap j i) \<le> frag_total j i" using tot(2) by (auto simp: frag_snap_def)
  show n: "n \<le> sk_len m" using tot(1) len unfolding n_def by linarith
  show "frag_snap j i @ take n (skb_frame m) = msdu_piece j S i"
    using l unfolding msdu_piece_def m(2)[symmetric] n_def by simp
  show "skb_wf (skb_pull n m)" by (rule wf_skb_pull[OF m(1)])
  assume i': "Suc i < tj_nr j"
  then have "i \<noteq> tj_nr j - 1" by simp
  then have t: "frag_total j i = tj_bpf j" by (simp add: frag_total_def)
  have "skb_frame (skb_pull n m) = drop (frag_total j i) (frag_snap j i @ skb_frame m)"
    using skb_pull_frame[OF m(1) n] l by (simp add: n_def)
  also have "\<dots> = drop (Suc i * tj_bpf j) S" by (simp add: m(2) t add.commute)
  finally show "frag_snap j (Suc i) @ skb_frame (skb_pull n m) = drop (Suc i * tj_bpf j) S" by (simp add: frag_snap_def)
qed

definition frag_result :: "'k tx_job \<Rightarrow> 'k tx_dev \<Rightarrow> u8 list \<Rightarrow> nat \<Rightarrow> tx_frag \<Rightarrow> bool" where
  "frag_result j d S i g \<longleftrightarrow>
     (\<exists>sc. on_air j (reserve_FCS d) i sc (msdu_piece j S i) g \<and>
        (\<not> tj_qos j \<or> tj_multicast j \<longrightarrow> sc = push_bit 4 (seq_ctrl d ! 0) OR of_nat i)) \<and>
     tf_priority g = (if tj_qos j then tj_priority j else 1)"

lemma frag_loop_ok:
  "job_ok j d \<Longrightarrow> counts_ok j S \<Longrightarrow> tj_nr j = i + n \<Longrightarrow> skb_wf m \<Longrightarrow> job_room j d \<le> length mem \<Longrightarrow>
   (0 < n \<longrightarrow> frag_snap j i @ skb_frame m = drop (i * tj_bpf j) S) \<Longrightarrow>
     \<exists>gs m' d'. frag_loop j (replicate n (empty_frag mem)) i m d = Some (gs, m', d') \<and> tx_same d d' \<and> length gs = n \<and>
       (ts_system (txd d) \<longrightarrow> ts_system (txd d')) \<and> (\<forall>k < n. frag_result j d S (i + k) (gs ! k))"
proof (induction n arbitrary: i m d)
  case 0
  then show ?case by simp
next
  case (Suc n)
  have i: "i < tj_nr j" using Suc.prems(3) by simp
  note st = piece_step[OF Suc.prems(2) i Suc.prems(4)]
  have m: "frag_snap j i @ skb_frame m = drop (i * tj_bpf j) S" using Suc.prems(6) by simp
  let ?b = "frag_total j i - length (frag_snap j i)"
  obtain g d1 sc where g: "frag_one j (empty_frag mem) i m d = Some (g, skb_pull ?b m, d1)" "tx_same d d1" "job_ok j d1"
    "ts_system (txd d) \<longrightarrow> ts_system (txd d1)" "\<not> tj_qos j \<or> tj_multicast j \<longrightarrow> sc = push_bit 4 (seq_ctrl d ! 0) OR of_nat i"
    "on_air j (reserve_FCS d) i sc (frag_snap j i @ take ?b (skb_frame m)) g" "tf_priority g = (if tj_qos j then tj_priority j else 1)"
    using frag_one_ok[OF Suc.prems(1), of "empty_frag mem" mem m i] Suc.prems(4,5) st(1,2)[OF m]
    by (auto simp: empty_frag_def)
  note same = tx_same_fields[OF g(2)]
  have room: "job_room j d1 \<le> length mem" using Suc.prems(5) by (simp add: job_room_def same)
  have nxt: "0 < n \<longrightarrow> frag_snap j (Suc i) @ skb_frame (skb_pull ?b m) = drop (Suc i * tj_bpf j) S"
    using st(5)[OF m] Suc.prems(3) by simp
  have nr: "tj_nr j = Suc i + n" using Suc.prems(3) by simp
  obtain gs m' d' where gs: "frag_loop j (replicate n (empty_frag mem)) (Suc i) (skb_pull ?b m) d1 = Some (gs, m', d')"
    "tx_same d1 d'" "length gs = n" "ts_system (txd d1) \<longrightarrow> ts_system (txd d')" "\<forall>k < n. frag_result j d1 S (Suc i + k) (gs ! k)"
    using Suc.IH[OF g(3) Suc.prems(2) nr st(4)[OF m] room nxt] by blast
  have "frag_result j d S (i + k) ((g # gs) ! k)" if "k < Suc n" for k
  proof (cases k)
    case 0
    then show ?thesis using g(5-7) st(3)[OF m] by (auto simp: frag_result_def)
  next
    case (Suc k')
    then show ?thesis using gs(5) that by (auto simp: frag_result_def same)
  qed
  then show ?case using g(1,4) gs(1,3,4) tx_same_trans[OF g(2) gs(2)] by (intro exI[of _ "g # gs"] exI[of _ m'] exI[of _ d']) auto
qed

lemma frag_counts_ok:
  assumes "0 < bpf" "0 < bytes" "frag_counts bytes bpf = (nr, final)"
  shows "0 < nr \<and> bytes = (nr - 1) * bpf + final \<and> 0 < final \<and> final \<le> bpf \<and> nr = (bytes + bpf - 1) div bpf"
proof (cases "bytes mod bpf = 0")
  case True
  then obtain k where k: "bytes = bpf * k" by blast
  then have "0 < k" using assms(2) by (cases k) auto
  have "(bytes + bpf - 1) div bpf = k" using assms(1) by (intro div_nat_eqI) (auto simp: k)
  moreover have "nr = k" "final = bpf" using assms True by (auto simp: frag_counts_def k)
  moreover have "bytes = (k - 1) * bpf + bpf" using \<open>0 < k\<close> by (cases k) (auto simp: k algebra_simps)
  ultimately show ?thesis using \<open>0 < k\<close> assms(1) by simp
next
  case False
  define q r where "q = bytes div bpf" and "r = bytes mod bpf"
  have qr: "bytes = bpf * q + r" "r < bpf" "0 < r" using assms(1) False by (simp_all add: q_def r_def)
  have "(bytes + bpf - 1) div bpf = q + 1" using qr by (intro div_nat_eqI) auto
  then show ?thesis using assms(3) qr False by (auto simp: frag_counts_def q_def[symmetric] r_def[symmetric])
qed

text \<open>The pieces are the message.\<close>

lemma pieces_concat:
  "counts_ok j S \<Longrightarrow> n < tj_nr j \<Longrightarrow> concat (map (msdu_piece j S) [0..<n]) = take (n * tj_bpf j) S"
proof (induction n)
  case (Suc n)
  then have "msdu_piece j S n = take (tj_bpf j) (drop (n * tj_bpf j) S)" by (simp add: msdu_piece_def frag_total_def)
  moreover have "Suc n * tj_bpf j = n * tj_bpf j + tj_bpf j" by simp
  ultimately show ?case using Suc by (simp only: upt_Suc_append map_append concat_append take_add) (simp add: take_add)
qed simp

lemma pieces_all:
  assumes c: "counts_ok j S"
  shows "concat (map (msdu_piece j S) [0..<tj_nr j]) = S"
proof -
  let ?n = "tj_nr j - 1"
  have n: "tj_nr j = Suc ?n" using c by (simp add: counts_ok_def)
  have last: "msdu_piece j S ?n = drop (?n * tj_bpf j) S"
    using c by (simp add: msdu_piece_def frag_total_def counts_ok_def)
  have "concat (map (msdu_piece j S) [0..<tj_nr j]) = concat (map (msdu_piece j S) [0..<?n]) @ msdu_piece j S ?n"
    by (subst n) simp
  also have "\<dots> = S" using pieces_concat[OF c, of ?n] n last by (simp only: append_take_drop_id)
  finally show ?thesis .
qed

end
