(* ===== verification/Tx_Ciphers.thy ===== *)
theory Tx_Ciphers
  imports Tx_Frag Crypt_TKIP Crypt_CCMP
begin

text \<open>
  The operation tables of rtllib_crypt_wep.c, rtllib_crypt_ccmp.c and rtllib_crypt_tkip.c
  under src/src for transmission. All three modules keep to the space on both sides of the
  frame that their tables announce, whatever the kernel's ciphers do.
\<close>

definition wep_tx :: "crc_fun \<Rightarrow> skcipher \<Rightarrow> prism2_wep_data \<Rightarrow> prism2_wep_data tx_crypt" where
  "wep_tx crc32_le arc4 wep =
     \<lparr>encrypt_msdu = None, encrypt_mpdu = Some (\<lambda>hw hl f k. Some (prism2_wep_encrypt crc32_le arc4 hw hl f k)),
      extra_prefix_len = 4, extra_postfix_len = 4, tx_priv = wep\<rparr>"

definition ccmp_tx :: "block_cipher \<Rightarrow> rtllib_ccmp_data \<Rightarrow> rtllib_ccmp_data tx_crypt" where
  "ccmp_tx aes key =
     \<lparr>encrypt_msdu = None, encrypt_mpdu = Some (rtllib_ccmp_encrypt aes),
      extra_prefix_len = 8, extra_postfix_len = 8, tx_priv = key\<rparr>"

definition tkip_tx :: "crc_fun \<Rightarrow> skcipher \<Rightarrow> michael_fun \<Rightarrow> rtllib_tkip_data \<Rightarrow> rtllib_tkip_data tx_crypt" where
  "tkip_tx crc32_le arc4 michael_mic tkey =
     \<lparr>encrypt_msdu = Some (\<lambda>hw. rtllib_michael_mic_add michael_mic), encrypt_mpdu = Some (rtllib_tkip_encrypt crc32_le arc4),
      extra_prefix_len = 4 + 4, extra_postfix_len = 8 + 4, tx_priv = tkey\<rparr>"

section \<open>The space that is used\<close>

lemma length_wr_ge: "i \<le> length (sk_mem s) \<Longrightarrow> length (sk_mem s) \<le> length (sk_mem (wr i bs s))"
  by (simp add: wr_def)

text \<open>Putting bytes behind the frame and writing from an offset behind the header on.\<close>

lemma put_wr:
  assumes f: "skb_wf f" "n \<le> skb_tailroom f" "hl \<le> i" "i \<le> sk_len f"
  shows "skb_wf (wr i bs (skb_put n f))" "skb_tailroom f \<le> skb_tailroom (wr i bs (skb_put n f)) + n"
    "take hl (skb_frame (wr i bs (skb_put n f))) = take hl (skb_frame f)" "sk_len (wr i bs (skb_put n f)) = sk_len f + n"
proof -
  have len: "length (sk_mem f) \<le> length (sk_mem (wr i bs (skb_put n f)))"
    using length_wr_ge[of i "skb_put n f" bs] f by (simp add: skb_put_def skb_wf_def)
  show "skb_wf (wr i bs (skb_put n f))" "skb_tailroom f \<le> skb_tailroom (wr i bs (skb_put n f)) + n"
    using len f by (auto simp: skb_wf_def skb_tailroom_def)
  show "take hl (skb_frame (wr i bs (skb_put n f))) = take hl (skb_frame f)"
    using f by (simp add: skb_frame_def wr_def skb_put_def skb_wf_def min_def)
  show "sk_len (wr i bs (skb_put n f)) = sk_len f + n" by simp
qed

lemma gap_room:
  assumes "skb_wf f" "hl \<le> sk_len f"
  shows "skb_wf (insert_gap hl bs f)" "skb_tailroom (insert_gap hl bs f) = skb_tailroom f"
    "take hl (skb_frame (insert_gap hl bs f)) = take hl (skb_frame f)" "sk_len (insert_gap hl bs f) = sk_len f + length bs"
  using assms wf_insert_gap[OF assms(1), of hl bs] by (simp_all add: frame_insert_gap skb_wf_def)

text \<open>The two shapes of a sealed frame: a header in the gap, and a written payload behind it.\<close>

lemma gap_sealed:
  assumes "can_send hl pre post f" "length bs = pre" "n \<le> post" "g = insert_gap hl bs f \<or> (\<exists>c. g = wr (hl + pre) c (skb_put n (insert_gap hl bs f)))"
  shows "skb_wf g \<and> hl \<le> sk_len g \<and> sk_len g \<le> sk_len f + pre + post \<and> skb_tailroom f \<le> skb_tailroom g + post \<and>
    take hl (skb_frame g) = take hl (skb_frame f)"
proof -
  have f: "skb_wf f" "hl \<le> sk_len f" "post \<le> skb_tailroom f" using assms(1) by (auto simp: can_send_def)
  note r = gap_room[OF f(1,2), of bs]
  have n: "n \<le> skb_tailroom (insert_gap hl bs f)" "hl + pre \<le> sk_len (insert_gap hl bs f)" using r f assms(2,3) by auto
  note w = put_wr[OF r(1) n(1) _ n(2), of hl]
  from assms(4) show ?thesis
  proof
    assume "g = insert_gap hl bs f"
    then show ?thesis using r f(2) assms(2) by auto
  next
    assume "\<exists>c. g = wr (hl + pre) c (skb_put n (insert_gap hl bs f))"
    then obtain c where g: "g = wr (hl + pre) c (skb_put n (insert_gap hl bs f))" ..
    show ?thesis using w[of c] r f(2) assms(2,3) unfolding g by auto
  qed
qed

section \<open>The modules\<close>

interpretation wep_tx: tx_cipher "tx_seal (wep_tx crc e k0)" "extra_prefix_len (wep_tx crc e k0)" "extra_postfix_len (wep_tx crc e k0)" for crc e k0
proof (unfold_locales, goal_cases)
  case (1 hl f hw k)
  then have ok: "can_send hl 4 4 f" by (simp add: wep_tx_def)
  obtain g k' res where run: "prism2_wep_encrypt crc e hw hl f k = (g, k', res)" by (metis surj_pair)
  have "length (wep_iv_bytes iv @ [x]) = 4" for iv x by (simp add: wep_iv_bytes_def)
  moreover have "\<exists>iv x. g = insert_gap hl (wep_iv_bytes iv @ [x]) f \<or> (\<exists>c. g = wr (hl + 4) c (skb_put 4 (insert_gap hl (wep_iv_bytes iv @ [x]) f)))"
    using run ok by (auto simp: prism2_wep_encrypt_def can_send_def Let_def split: if_splits prod.splits)
  ultimately have "skb_wf g \<and> hl \<le> sk_len g \<and> sk_len g \<le> sk_len f + 4 + 4 \<and> skb_tailroom f \<le> skb_tailroom g + 4 \<and>
      take hl (skb_frame g) = take hl (skb_frame f)"
    using gap_sealed[OF ok, of _ 4 g] by (metis order_refl)
  then show ?case by (simp add: wep_tx_def tx_seal_def run_crypt_def run)
qed

lemma ccmp_init_blocks_reads:
  assumes "40 \<le> length (sk_mem s)"
  shows "\<exists>b0 b s0. ccmp_init_blocks aes s pn n = Some (b0, b, s0)"
proof -
  have "rdn s 0 24 = Some (take 24 (sk_mem s))" "rdn s 24 6 = Some (take 6 (drop 24 (sk_mem s)))"
    "rd8 s 30 = Some (sk_mem s ! 30)" "rd8 s 24 = Some (sk_mem s ! 24)"
    using assms by (simp_all add: rdn_def rd8_def del: rd8_Some)
  then show ?thesis by (simp add: ccmp_init_blocks_def Let_def del: rd8_Some)
qed

interpretation ccmp_tx: tx_cipher "tx_seal (ccmp_tx aes k0)" "extra_prefix_len (ccmp_tx aes k0)" "extra_postfix_len (ccmp_tx aes k0)" for aes k0
proof (unfold_locales, goal_cases)
  case (1 hl f hw k)
  then have ok: "can_send hl 8 8 f" "24 \<le> hl" by (simp_all add: ccmp_tx_def)
  define hdr where "hdr = ccmp_header (ccmp_pn_inc 5 (tx_pn k)) (ccmp_key_idx k)"
  have lh: "length hdr = 8" by (simp add: hdr_def ccmp_header_def)
  have "40 \<le> length (sk_mem (insert_gap hl hdr f))"
    using ok lh by (auto simp: insert_gap_def can_send_def skb_wf_def skb_tailroom_def)
  then obtain b0 b s0 where ib: "ccmp_init_blocks (aes (tfm_key k)) (insert_gap hl hdr f) (ccmp_pn_inc 5 (tx_pn k)) (sk_len f - hl) = Some (b0, b, s0)"
    using ccmp_init_blocks_reads by blast
  have "\<exists>g. rtllib_ccmp_encrypt aes hw hl f k = Some (g, k\<lparr>tx_pn := ccmp_pn_inc 5 (tx_pn k)\<rparr>, 0) \<and>
      (g = insert_gap hl hdr f \<or> (\<exists>c. g = wr (hl + 8) c (skb_put 8 (insert_gap hl hdr f))))"
    using ok ib by (cases hw) (auto simp: rtllib_ccmp_encrypt_def Let_def can_send_def hdr_def[symmetric] split: prod.splits)
  then obtain g where run: "rtllib_ccmp_encrypt aes hw hl f k = Some (g, k\<lparr>tx_pn := ccmp_pn_inc 5 (tx_pn k)\<rparr>, 0)"
    "g = insert_gap hl hdr f \<or> (\<exists>c. g = wr (hl + 8) c (skb_put 8 (insert_gap hl hdr f)))" by blast
  then show ?case using gap_sealed[OF ok(1) lh order_refl run(2)] by (simp add: ccmp_tx_def tx_seal_def run_crypt_def)
qed

lemma michael_hdr_reads:
  assumes "30 \<le> length (sk_mem f)" "hl \<le> length (sk_mem f)" "2 \<le> hl"
  shows "\<exists>h. michael_hdr_qos hl f = Some h"
proof -
  have r: "rdn f i 6 = Some (take 6 (drop i (sk_mem f)))" if "i \<le> 24" for i using assms(1) that by (simp add: rdn_def)
  have "\<exists>h. michael_mic_hdr f = Some h"
    using assms(1) rd16_inside[of 0 f] r by (simp add: michael_mic_hdr_def Let_def)
  moreover have "\<exists>q. rd8 f (hl - 2) = Some q" using assms(2,3) by (simp add: rd8_def)
  ultimately show ?thesis
    using assms(1) rd16_inside[of 0 f] by (auto simp add: michael_hdr_qos_def simp del: rd8_Some)
qed

lemma tkip_encrypt_room:
  assumes ok: "can_send hl 8 4 f" "24 \<le> hl"
  shows "\<exists>g k' res. rtllib_tkip_encrypt crc e hw hl f k = Some (g, k', res) \<and> skb_wf g \<and> hl \<le> sk_len g \<and> sk_len g \<le> sk_len f + 8 + 4 \<and>
    skb_tailroom f \<le> skb_tailroom g + 4 \<and> take hl (skb_frame g) = take hl (skb_frame f)"
proof -
  have f: "\<not> (sk_headroom f < 8 \<or> skb_tailroom f < 4 \<or> sk_len f < hl)" using ok(1) by (auto simp: can_send_def)
  have shape: "length hdr = 8 \<Longrightarrow> g = insert_gap hl hdr f \<or> (\<exists>c. g = wr (hl + 8) c (skb_put 4 (insert_gap hl hdr f))) \<Longrightarrow>
      skb_wf g \<and> hl \<le> sk_len g \<and> sk_len g \<le> sk_len f + 8 + 4 \<and> skb_tailroom f \<le> skb_tailroom g + 4 \<and> take hl (skb_frame g) = take hl (skb_frame f)"
    for hdr g by (rule gap_sealed[OF ok(1) _ order_refl])
  have lh: "length (tkip_header iv3 i hi) = 8" if "length iv3 = 3" for iv3 i hi using that by (simp add: tkip_header_def)
  show ?thesis
  proof (cases hw)
    case True
    let ?f1 = "insert_gap hl (tkip_header [Hi8 (tx_iv16 k), (Hi8 (tx_iv16 k) OR 0x20) AND 0x7f, Lo8 (tx_iv16 k)] (tkip_key_idx k) (tx_iv32 k)) f"
    have "rtllib_tkip_encrypt crc e hw hl f k = Some (?f1, tkip_next_tsc (k\<lparr>tx_phase1_done := True\<rparr>), 0)"
      using True f by (simp add: rtllib_tkip_encrypt_def Let_def)
    moreover have "skb_wf ?f1 \<and> hl \<le> sk_len ?f1 \<and> sk_len ?f1 \<le> sk_len f + 8 + 4 \<and>
        skb_tailroom f \<le> skb_tailroom ?f1 + 4 \<and> take hl (skb_frame ?f1) = take hl (skb_frame f)"
      by (rule shape[OF lh disjI1[OF refl]]) simp
    ultimately show ?thesis by blast
  next
    case False
    have "rdn f 10 6 \<noteq> None" using ok by (simp add: rdn_def can_send_def skb_wf_def)
    then have "tkip_tx_phase1 f k \<noteq> None" by (auto simp: tkip_tx_phase1_def)
    then obtain t where t: "tkip_tx_phase1 f k = Some t" by blast
    have l3: "length (take 3 (tkip_mixing_phase2 K T v)) = 3" for K T v
      by (simp add: tkip_mixing_phase2_def Let_def)
    let ?rk = "tkip_mixing_phase2 (tkip_key t) (tx_ttak t) (tx_iv16 t)"
    let ?f1 = "insert_gap hl (tkip_header (take 3 ?rk) (tkip_key_idx t) (tx_iv32 t)) f"
    obtain c ret where c: "e ?rk (payload_from (hl + 8) ?f1 @ wep_icv crc (payload_from (hl + 8) ?f1)) = (c, ret)" by fastforce
    have "rtllib_tkip_encrypt crc e hw hl f k = Some (wr (hl + 8) c (skb_put 4 ?f1), tkip_next_tsc t, ret)"
      using False f t c by (simp add: rtllib_tkip_encrypt_def Let_def)
    moreover have "skb_wf (wr (hl + 8) c (skb_put 4 ?f1)) \<and> hl \<le> sk_len (wr (hl + 8) c (skb_put 4 ?f1)) \<and>
        sk_len (wr (hl + 8) c (skb_put 4 ?f1)) \<le> sk_len f + 8 + 4 \<and>
        skb_tailroom f \<le> skb_tailroom (wr (hl + 8) c (skb_put 4 ?f1)) + 4 \<and>
        take hl (skb_frame (wr (hl + 8) c (skb_put 4 ?f1))) = take hl (skb_frame f)"
      by (rule shape[OF lh[OF l3]]) blast
    ultimately show ?thesis by blast
  qed
qed

interpretation tkip_tx: tx_cipher "tx_seal (tkip_tx crc e m k0)" "extra_prefix_len (tkip_tx crc e m k0)" "extra_postfix_len (tkip_tx crc e m k0)"
  for crc e m k0
proof (unfold_locales, goal_cases)
  case (1 hl f hw k)
  then have ok: "can_send hl 8 12 f" "24 \<le> hl" by (simp_all add: tkip_tx_def)
  have f: "skb_wf f" "8 \<le> skb_tailroom f" "hl \<le> sk_len f" "8 \<le> sk_headroom f" using ok(1) by (auto simp: can_send_def)
  have len: "30 \<le> length (sk_mem f)" "hl \<le> length (sk_mem f)"
    using ok by (auto simp: can_send_def skb_wf_def skb_tailroom_def)
  obtain h where h: "michael_hdr_qos hl f = Some h" using michael_hdr_reads[OF len] ok(2) by auto
  obtain mic err where m: "m (take 8 (drop 16 (tkip_key k))) h (payload_from hl f) = (mic, err)" by fastforce
  define g where "g = wr (sk_len f) mic (skb_put 8 f)"
  have add: "rtllib_michael_mic_add m hl f k = Some (g, k, if err \<noteq> 0 then - 1 else 0)"
    using f h m by (simp add: rtllib_michael_mic_add_def g_def Let_def)
  have w: "skb_wf g" "skb_tailroom f \<le> skb_tailroom g + 8" "take hl (skb_frame g) = take hl (skb_frame f)" "sk_len g = sk_len f + 8"
    using put_wr[OF f(1,2,3) order_refl, of mic] by (simp_all add: g_def)
  have sg: "can_send hl 8 4 g" using w f ok(1) by (auto simp: can_send_def g_def wr_def skb_put_def)
  obtain g' k' res where enc: "rtllib_tkip_encrypt crc e hw hl g k = Some (g', k', res)" "skb_wf g'" "hl \<le> sk_len g'" "sk_len g' \<le> sk_len g + 8 + 4"
    "skb_tailroom g \<le> skb_tailroom g' + 4" "take hl (skb_frame g') = take hl (skb_frame g)"
    using tkip_encrypt_room[OF sg ok(2)] by blast
  show ?case
  proof (cases "err = 0")
    case True
    then show ?thesis using add enc w by (simp add: tkip_tx_def tx_seal_def run_crypt_def)
  next
    case False
    then show ?thesis using add w f(3) by (simp add: tkip_tx_def tx_seal_def run_crypt_def)
  qed
qed

end
