(* ===== verification/Tx_Props.thy ===== *)
theory Tx_Props
  imports Tx_Ciphers
begin

text \<open>
  The properties of the transmit path: what \<open>rtllib_xmit\<close> hands on for a frame, that nothing
  is lost or overrun on the way, and how it fails.
\<close>

section \<open>Stages\<close>

lemma alloc_loop_ok: "(\<forall>k. ok k) \<Longrightarrow> alloc_loop ok i n live = (live + int n, True)"
  by (induction n arbitrary: i live) auto

lemma alloc_loop_live: "alloc_loop ok i n (live + int i) = (live', r) \<Longrightarrow> live' = (if r then live + int i + int n else live)"
proof (induction n arbitrary: i)
  case (Suc n)
  show ?case
  proof (cases "ok (Suc i)")
    case True
    then have "alloc_loop ok (Suc i) n (live + int (Suc i)) = (live', r)" using Suc.prems by (simp add: algebra_simps)
    from Suc.IH[OF this] show ?thesis by simp
  qed (use Suc.prems in auto)
qed simp

lemma alloc_txb_ok:
  "(\<forall>k. tx_alloc d k) \<Longrightarrow> rtllib_alloc_txb n room d =
     (d\<lparr>tx_live := tx_live d + int n\<rparr>, Some \<lparr>nr_frags = of_nat n, encrypted = False, payload_size = 0, txb_queue_index = 0,
        fragments = replicate n (empty_frag (tx_fresh d room))\<rparr>)"
  by (simp add: rtllib_alloc_txb_def alloc_loop_ok)

lemma tx_dhcp_total:
  assumes "skb_wf m"
  shows "\<exists>b n. tx_dhcp et m d = Some (b, d\<lparr>LPSDelayCnt := n\<rparr>)"
proof -
  have ihl: "unat (b AND 0x0f) < 16" for b :: u8
  proof -
    have "b AND 0x0f \<le> 0x0f" by (rule word_and_le1)
    then show ?thesis by (simp add: word_le_nat_alt)
  qed
  have rd: "\<exists>x. rd8 m i = Some x" if "i < 282" "sk_len m > 282" for i
    using that assms by (simp add: rd8_def skb_wf_def)
  have "\<exists>b. tx_dhcp et m d = Some (b, d) \<or> (\<exists>n. tx_dhcp et m d = Some (b, d\<lparr>LPSDelayCnt := n\<rparr>))"
  proof (cases "sk_len m > 282 \<and> et = ETH_P_IP")
    case True
    then obtain p v where p: "rd8 m 23 = Some p" "rd8 m 14 = Some v" using rd[of 23] rd[of 14] by auto
    have b: "14 + 4 * unat (v AND 0x0f) + 3 < 282" "14 + 4 * unat (v AND 0x0f) + 1 < 282" using ihl[of v] by simp_all
    obtain p1 p3 where q: "rd8 m (14 + 4 * unat (v AND 0x0f) + 1) = Some p1" "rd8 m (14 + 4 * unat (v AND 0x0f) + 3) = Some p3"
      using rd[OF b(1)] rd[OF b(2)] True by blast
    have "tx_dhcp et m d = (if p \<noteq> 17 then Some (False, d)
        else if (p1 = 68 \<and> p3 = 67) \<or> (p1 = 67 \<and> p3 = 68) then Some (True, d\<lparr>LPSDelayCnt := 100\<rparr>) else Some (False, d))"
      using True p q by (cases "p = 17") (simp_all add: tx_dhcp_def Let_def del: rd8_Some split del: if_split)
    then have "tx_dhcp et m d = Some (False, d) \<or> tx_dhcp et m d = Some (True, d\<lparr>LPSDelayCnt := 100\<rparr>)" by argo
    then show ?thesis by blast
  next
    case False
    then have "tx_dhcp et m d = Some (False, d) \<or> tx_dhcp et m d = Some (True, d\<lparr>LPSDelayCnt := tim_count d\<rparr>)"
      unfolding tx_dhcp_def by argo
    then show ?thesis by blast
  qed
  then show ?thesis
  proof (elim exE disjE)
    fix b
    assume "tx_dhcp et m d = Some (b, d)"
    then show ?thesis by (intro exI[of _ b] exI[of _ "LPSDelayCnt d"]) simp
  qed blast
qed

lemma classify_total: "16 \<le> length (sk_mem m) \<Longrightarrow> \<exists>p. rtllib_classify m = Some p"
  by (auto simp: rtllib_classify_def rd8_def Let_def)

lemma agg_stream_keeps:
  assumes "ts_system t" "GetTs t a p TX_DIR True = Some (t1, Some n)" "agg_stream w cb (node_index n) t1 = (t2, agg)"
  shows "ts_system t2"
proof -
  have s1: "ts_system t1" by (rule GetTs_system[OF assms(1,2)])
  have step: "ts_system (upd_tx (node_index n) f t1)" if "\<And>r. tx_common (f r) = tx_common r" for f
    by (rule seq_stream_step[OF assms(1,2)]) (simp_all add: that)
  show ?thesis
    using assms(3) s1 step
    by (auto simp: agg_stream_def TsStartAddBaProcess_def Let_def split: if_splits intro!: step)
qed

lemma query_agg_cap_total:
  assumes "ts_system (txd d)" "24 \<le> length (sk_mem (tf_skb f))"
  shows "\<exists>cb' t. rtllib_tx_query_agg_cap f cb d = Some (cb', d\<lparr>txd := t\<rparr>) \<and> ts_system t"
proof -
  obtain fc where fc: "rd16 (tf_skb f) 0 = Some fc" using rd16_inside[of 0 "tf_skb f"] assms(2) by auto
  obtain a where a: "rdn (tf_skb f) 4 6 = Some a" using rdn_inside[of 4 6 "tf_skb f"] assms(2) by auto
  obtain t1 r where g: "GetTs (txd d) a (tf_priority f) TX_DIR True = Some (t1, r)"
    using streams.get_total[OF ts_system_ok[OF assms(1)], of TX_DIR "(a, tf_priority f)" True] by (auto simp: get_stream_def)
  have s1: "ts_system t1" by (rule GetTs_system[OF assms(1) g])
  have stay: "d\<lparr>txd := txd d\<rparr> = d" by simp
  let ?skip = "\<not> IsQoSDataFrame fc \<or> is_multicast_ether_addr a \<or> is_broadcast_ether_addr a \<or>
    IOTAction (txd d) AND HT_IOT_ACT_TX_NO_AGGREGATION \<noteq> 0 \<or> \<not> NmodeSupportBySecCfg d"
  consider "\<not> bCurrentHTSupport (txd d) \<or> \<not> bEnableHT (ht d) \<or> ?skip \<or> \<not> bCurrentAMPDUEnable (txd d)"
    | "bCurrentHTSupport (txd d)" "bEnableHT (ht d)" "\<not> ?skip" "bCurrentAMPDUEnable (txd d)" by blast
  then show ?thesis
  proof cases
    case 1
    then have "\<exists>cb'. rtllib_tx_query_agg_cap f cb d = Some (cb', d)" using fc a by (auto simp: rtllib_tx_query_agg_cap_def)
    then obtain cb' where "rtllib_tx_query_agg_cap f cb d = Some (cb', d)" by blast
    then show ?thesis using assms(1) stay by (intro exI[of _ cb'] exI[of _ "txd d"]) simp
  next
    case 2
    show ?thesis
    proof (cases r)
      case None
      then show ?thesis using 2 fc a g s1 by (auto simp: rtllib_tx_query_agg_cap_def)
    next
      case (Some n)
      obtain t2 agg where ag: "agg_stream (wpa_ie_len d \<noteq> 0 \<and> pairwise_key_NA d) cb (node_index n) t1 = (t2, agg)" by fastforce
      have "ts_system t2" using agg_stream_keeps[OF assms(1) g[unfolded Some] ag] .
      then show ?thesis using 2 fc a g Some ag by (auto simp: rtllib_tx_query_agg_cap_def Let_def)
    qed
  qed
qed

lemma tx_describe_total:
  fixes d :: "'k tx_dev"
  assumes "ts_system (txd d)" "24 \<le> length (sk_mem (tf_skb f))"
  shows "\<exists>cb t. tx_describe l prio f d = Some (cb, d\<lparr>txd := t\<rparr>) \<and> ts_system t"
proof -
  have stay: "d\<lparr>txd := txd d\<rparr> = d" by simp
  have prot: "\<exists>cb'. rtllib_query_protectionmode f d' cb = Some cb'" for d' :: "'k tx_dev" and cb
    using rdn_inside[of 16 6 "tf_skb f"] assms(2) by (auto simp: rtllib_query_protectionmode_def Let_def)
  show ?thesis
  proof (cases "tl_ether_type l = ETH_P_PAE")
    case True
    then show ?thesis using assms(1) by (intro exI[of _ "special_rate d (basic_rate d) ((tf_cb f)\<lparr>bTxEnableFwCalcDur := True, cb_priority := prio\<rparr>)"]
      exI[of _ "txd d"]) (simp add: tx_describe_def Let_def)
  next
    case False
    obtain c where c: "tx_describe l prio f d = do {
        (cb6, d1) \<leftarrow> rtllib_tx_query_agg_cap f c d;
        cb7 \<leftarrow> rtllib_query_protectionmode f d1 (rtllib_query_BandwidthMode d1 (rtllib_query_HTCapShortGI d1 cb6));
        Some (cb7, d1) }"
      using False unfolding tx_describe_def Let_def by simp
    obtain cb' t where q: "rtllib_tx_query_agg_cap f c d = Some (cb', d\<lparr>txd := t\<rparr>)" "ts_system t"
      using query_agg_cap_total[OF assms] by blast
    obtain x where "rtllib_query_protectionmode f (d\<lparr>txd := t\<rparr>)
        (rtllib_query_BandwidthMode (d\<lparr>txd := t\<rparr>) (rtllib_query_HTCapShortGI (d\<lparr>txd := t\<rparr>) cb')) = Some x"
      using prot by blast
    then show ?thesis using q by (intro exI[of _ x] exI[of _ t]) (simp add: c)
  qed
qed

section \<open>The plan\<close>

lemma tx_addresses_ok:
  "length dest = 6 \<Longrightarrow> length src = 6 \<Longrightarrow> length (bssid t) = 6 \<Longrightarrow> tx_addresses t dest src = (a1, a2, a3) \<Longrightarrow>
     length a1 = 6 \<and> length a2 = 6 \<and> length a3 = 6"
  by (auto simp: tx_addresses_def split: iw_mode.splits)

lemma tx_plan_ok:
  assumes plan: "tx_plan et dest src p bytes d = Some j" and len: "length dest = 6" "length src = 6" "length (bssid (txd d)) = 6"
    and key: "key_ready (tx_encrypt et d) d" and sys: "ts_system (txd d)" and b: "8 \<le> bytes" "8 \<le> tj_bpf j"
  shows "job_ok j d" "tj_crypt j = tx_encrypt et d" "tj_ether_type j = et" "tj_nr j = (bytes + tj_bpf j - 1) div tj_bpf j"
    "length S = bytes \<Longrightarrow> counts_ok j S" "job_room j d = tx_threshold (tj_multicast j) d + tx_headroom d"
    "tx_addresses (txd d) dest src = (th_addr1 (tj_header j), th_addr2 (tj_header j), th_addr3 (tj_header j))"
    "tj_qos j = (qos_active (txd d) \<noteq> 0)"
proof -
  obtain a1 a2 a3 where a: "tx_addresses (txd d) dest src = (a1, a2, a3)" by (metis surj_pair)
  let ?mc = "is_broadcast_ether_addr a1 \<or> is_multicast_ether_addr a1" and ?hl = "24 + (if qos_active (txd d) \<noteq> 0 then 2 else 0)"
  obtain bpf where bpf: "bytes_per_frag (tx_threshold ?mc d) ?hl (reserve_FCS d) (tx_encrypt et d) = Some bpf"
    and h: "th_addr1 (tj_header j) = a1" "th_addr2 (tj_header j) = a2" "th_addr3 (tj_header j) = a3"
    and j: "tj_crypt j = tx_encrypt et d" "tj_qos j = (qos_active (txd d) \<noteq> 0)" "tj_multicast j = ?mc" "tj_ether_type j = et" "tj_hdr_len j = ?hl"
      "tj_bpf j = bpf" "tj_last j = snd (frag_counts bytes bpf)" "tj_nr j = fst (frag_counts bytes bpf)"
    using plan by (auto simp: tx_plan_def a Let_def)
  obtain nr final where c: "frag_counts bytes bpf = (nr, final)" by fastforce
  have bp: "0 < bpf" "0 < bytes" using b j(6) by auto
  have n: "0 < nr" "0 < final" "final \<le> bpf" and nb: "bytes = (nr - 1) * bpf + final" "nr = (bytes + bpf - 1) div bpf"
    using frag_counts_ok[OF bp c] by blast+
  have jl: "tj_last j = final" "tj_nr j = nr" by (simp_all only: j(7,8) c fst_conv snd_conv)
  show "tj_crypt j = tx_encrypt et d" "tj_ether_type j = et" "tj_qos j = (qos_active (txd d) \<noteq> 0)" by (rule j)+
  show "tj_nr j = (bytes + tj_bpf j - 1) div tj_bpf j" using nb(2) by (simp only: j(6,8) c fst_conv)
  show "tx_addresses (txd d) dest src = (th_addr1 (tj_header j), th_addr2 (tj_header j), th_addr3 (tj_header j))"
    by (simp add: a h)
  have "header_ok (tj_header j)" using tx_addresses_ok[OF len a] by (simp add: header_ok_def h)
  then show "job_ok j d" using key sys n by (auto simp: job_ok_def j c)
  show "counts_ok j S" if "length S = bytes" using that n nb(1) b j(6) unfolding counts_ok_def jl by simp
  have "?hl + (if reserve_FCS d then 4 else 0) + key_pre (tx_encrypt et d) + key_post (tx_encrypt et d) + bpf = tx_threshold ?mc d"
    using bpf by (auto simp: bytes_per_frag_def Let_def split: if_splits)
  then show "job_room j d = tx_threshold (tj_multicast j) d + tx_headroom d" by (simp add: job_room_def j(1,3,5,6))
qed

section \<open>What is sent\<close>

lemma tx_build_ok:
  assumes plan: "tx_plan et dest src p (sk_len m - 6) d = Some j" and len: "length dest = 6" "length src = 6" "length (bssid (txd d)) = 6"
    and key: "key_ready (tx_encrypt et d) d" and sys: "ts_system (txd d)" and b: "8 \<le> tj_bpf j"
    and mem: "\<forall>k. tx_alloc d k" "\<forall>k. k \<le> length (tx_fresh d k)" and m: "skb_wf m" "14 \<le> sk_len m"
  defines "S \<equiv> rtllib_put_snap et @ drop 14 (skb_frame m)"
  shows "\<exists>txb m1 d'. tx_build et dest src p m d = Some (TX_DONE (Some txb), m1, tj_priority j, th_addr1 (tj_header j), d') \<and>
     length (fragments txb) = tj_nr j \<and> (\<forall>i < tj_nr j. frag_result j d S i (fragments txb ! i)) \<and>
     concat (map (msdu_piece j S) [0..<tj_nr j]) = S \<and> 0 < tj_nr j \<and> payload_size txb = of_nat (sk_len m - 6) \<and>
     encrypted txb = (tx_encrypt et d \<noteq> None) \<and> ts_system (txd d') \<and> sent d' = sent d \<and> softmac_tx_queue d' = softmac_tx_queue d \<and>
     tx_live d' = tx_live d + int (tj_nr j)"
proof -
  let ?m = "skb_pull 14 m"
  have fr: "skb_frame ?m = drop 14 (skb_frame m)" "sk_len ?m = sk_len m - 14" "skb_wf ?m"
    using skb_pull_frame[OF m(1,2)] wf_skb_pull[OF m(1)] by simp_all
  have bytes: "sk_len ?m + 8 = sk_len m - 6" "8 \<le> sk_len m - 6" using fr m(2) by simp_all
  note pl = tx_plan_ok[OF plan len key sys bytes(2) b]
  have lS: "length S = sk_len m - 6" using m by (simp add: S_def)
  have cnt: "counts_ok j S" by (rule pl(5)[OF lS])
  let ?d1 = "d\<lparr>tx_live := tx_live d + int (tj_nr j)\<rparr>" and ?room = "tx_threshold (tj_multicast j) d + tx_headroom d"
  have j1: "job_ok j ?d1" using pl(1) by (simp add: job_ok_def key_ready_def split: option.splits)
  have room: "job_room j ?d1 \<le> length (tx_fresh d ?room)" proof -
    have "job_room j ?d1 = ?room" using pl(6) by (simp add: job_room_def)
    then show ?thesis using mem(2) by simp
  qed
  have snap: "0 < tj_nr j \<longrightarrow> frag_snap j 0 @ skb_frame ?m = drop (0 * tj_bpf j) S" by (simp add: frag_snap_def fr pl(3) S_def)
  obtain gs m1 d2 where gs: "frag_loop j (replicate (tj_nr j) (empty_frag (tx_fresh d ?room))) 0 ?m ?d1 = Some (gs, m1, d2)"
    "tx_same ?d1 d2" "length gs = tj_nr j" "ts_system (txd d2)" "\<forall>k < tj_nr j. frag_result j ?d1 S k (gs ! k)"
    using frag_loop_ok[OF j1 cnt _ fr(3) room snap] sys by auto
  have res: "frag_result j d S k g \<longleftrightarrow> frag_result j ?d1 S k g" for k g by (simp add: frag_result_def)
  have pay: "word_of_nat (sk_len ?m) + 8 = (word_of_nat (sk_len m - 6) :: u16)"
    using arg_cong[OF bytes(1), of "word_of_nat :: nat \<Rightarrow> u16"] by simp
  show ?thesis
    using gs(1,3-5) pay tx_same_fields[OF gs(2)] pieces_all[OF cnt] cnt
    by (simp add: tx_build_def bytes(1) plan alloc_txb_ok[OF mem(1)] Let_def res pl(2) counts_ok_def)
qed

lemma tx_threshold_frame [simp]: "tx_threshold mc (d\<lparr>LPSDelayCnt := n\<rparr>) = tx_threshold mc d"
  by (cases mc) (simp_all add: tx_threshold_def)

lemma tx_encrypt_frame [simp]: "tx_encrypt et (d\<lparr>LPSDelayCnt := n\<rparr>) = tx_encrypt et d"
  unfolding tx_encrypt_def by (intro if_cong) simp_all

lemma tx_plan_frame [simp]: "tx_plan et dest src p b (d\<lparr>LPSDelayCnt := n\<rparr>) = tx_plan et dest src p b d"
  unfolding tx_plan_def by (cases "qos_active (txd d) = 0") (simp_all add: Let_def)

lemma frag_result_frame [simp]:
  "frag_result j d S i (g\<lparr>tf_cb := cb\<rparr>) = frag_result j d S i g"
  "frag_result j (d\<lparr>LPSDelayCnt := n\<rparr>) S i g = frag_result j d S i g"
  by (simp_all add: frag_result_def on_air_def)

lemma on_air_readable: "on_air j fcs i sc piece g \<Longrightarrow> header_ok (tj_header j) \<Longrightarrow> tj_hdr_len j = 24 \<or> tj_hdr_len j = 26 \<Longrightarrow> 24 \<le> length (sk_mem (tf_skb g))"
proof -
  assume a: "on_air j fcs i sc piece g" and h: "header_ok (tj_header j)" "tj_hdr_len j = 24 \<or> tj_hdr_len j = 26"
  then obtain bs tl where g: "skb_frame (tf_skb g) = bs @ tl"
    "take (tj_hdr_len j) bs = header_bytes (tj_header j) (frag_fc j i) sc (tj_hdr_len j)" by (auto simp: on_air_def)
  have "tj_hdr_len j \<le> length bs" using arg_cong[OF g(2), of length] length_header_bytes[OF h] by simp
  then have "24 \<le> length (skb_frame (tf_skb g))" using g(1) h(2) by auto
  then show ?thesis by (simp add: skb_frame_def)
qed

text \<open>
  C32: in a station of a network, with memory to allocate and a key that keeps to the space
  it announces, \<open>rtllib_xmit\<close> takes any Ethernet frame, never overruns a buffer, and hands on
  exactly one frame. It has as many fragments as the payload behind the SNAP header fills;
  the pieces in them are that payload in order, each behind the header of the plan with
  the flag for more fragments on all but the last, and, outside of QoS unicast traffic,
  numbered with the counter of the device and the number of the fragment.
\<close>

theorem rtllib_xmit_fragments:
  assumes dev: "\<not> tx_no_handler d" "\<not> raw_tx d" "softmac_tx_queue d" "length (bssid (txd d)) = 6" "ts_system (txd d)"
    and mem: "\<forall>k. tx_alloc d k" "\<forall>k. k \<le> length (tx_fresh d k)"
    and m: "skb_wf m" "14 \<le> sk_len m" "16 \<le> length (sk_mem m)"
    and et: "et = le16 (skb_frame m ! 13) (skb_frame m ! 12)" and p: "rtllib_classify m = Some p"
    and key: "key_ready (tx_encrypt et d) d"
    and pass: "tx_encrypt et d \<noteq> None \<or> \<not> (ieee802_1x d \<and> drop_unencrypted d) \<or> et = ETH_P_PAE"
    and plan: "tx_plan et (take 6 (skb_frame m)) (take 6 (drop 6 (skb_frame m))) p (sk_len m - 6) d = Some j" "8 \<le> tj_bpf j"
  shows "\<exists>txb d'. rtllib_xmit m prio d = Some (0, None, d') \<and> sent d' = sent d @ [txb] \<and>
     length (fragments txb) = (sk_len m - 6 + tj_bpf j - 1) div tj_bpf j \<and>
     concat (map (msdu_piece j (rtllib_put_snap et @ drop 14 (skb_frame m))) [0..<length (fragments txb)]) =
       rtllib_put_snap et @ drop 14 (skb_frame m) \<and>
     (\<forall>i < length (fragments txb). frag_result j d (rtllib_put_snap et @ drop 14 (skb_frame m)) i (fragments txb ! i)) \<and>
     encrypted txb = (tx_encrypt et d \<noteq> None) \<and> tx_live d' = tx_live d + int (length (fragments txb)) \<and> ts_system (txd d')"
proof -
  let ?dest = "take 6 (skb_frame m)" and ?src = "take 6 (drop 6 (skb_frame m))" and ?S = "rtllib_put_snap et @ drop 14 (skb_frame m)"
  have addr: "rdn m 0 6 = Some ?dest" "rdn m 6 6 = Some ?src" using rdn_frame[OF m(1)] m(2) by simp_all
  have len: "length ?dest = 6" "length ?src = 6" using m by simp_all
  have ty: "rd8 m 12 = Some (skb_frame m ! 12)" "rd8 m 13 = Some (skb_frame m ! 13)"
    using m by (simp_all add: rd8_def skb_frame_def skb_wf_def del: rd8_Some)
  obtain dhcp n where dh: "tx_dhcp et m d = Some (dhcp, d\<lparr>LPSDelayCnt := n\<rparr>)" using tx_dhcp_total[OF m(1)] by blast
  let ?d1 = "d\<lparr>LPSDelayCnt := n\<rparr>"
  have b: "8 \<le> sk_len m - 6" using m(2) by simp
  note pl = tx_plan_ok[OF plan(1) len dev(4) key dev(5) b plan(2)]
  have key1: "key_ready (tx_encrypt et ?d1) ?d1" using key by (simp add: key_ready_def split: option.splits)
  obtain txb m1 d2 where bu: "tx_build et ?dest ?src p m ?d1 = Some (TX_DONE (Some txb), m1, tj_priority j, th_addr1 (tj_header j), d2)"
    "length (fragments txb) = tj_nr j" "\<forall>i < tj_nr j. frag_result j ?d1 ?S i (fragments txb ! i)"
    "concat (map (msdu_piece j ?S) [0..<tj_nr j]) = ?S" "0 < tj_nr j" "encrypted txb = (tx_encrypt et ?d1 \<noteq> None)"
    "ts_system (txd d2)" "sent d2 = sent ?d1" "softmac_tx_queue d2 = softmac_tx_queue ?d1" "tx_live d2 = tx_live ?d1 + int (tj_nr j)"
    using tx_build_ok[of et ?dest ?src p m ?d1 j] plan len dev(4,5) key1 mem m(1,2) by auto
  let ?l = "\<lparr>tl_addr1 = th_addr1 (tj_header j), tl_ether_type = et, tl_dhcp = dhcp\<rparr>" and ?f0 = "fragments txb ! 0"
  have hdr: "header_ok (tj_header j)" "tj_hdr_len j = 24 \<or> tj_hdr_len j = 26" using pl(1) by (simp_all add: job_ok_def)
  have "24 \<le> length (sk_mem (tf_skb ?f0))"
    using bu(3,5) on_air_readable[OF _ hdr] by (auto simp: frag_result_def)
  then obtain cb t where cb: "tx_describe ?l (tj_priority j) ?f0 d2 = Some (cb, d2\<lparr>txd := t\<rparr>)" "ts_system t"
    using tx_describe_total[OF bu(7)] by blast
  let ?txb = "txb\<lparr>fragments := (fragments txb)[0 := ?f0\<lparr>tf_cb := cb\<rparr>]\<rparr>"
  have ok: "frag_result j d ?S i (fragments ?txb ! i)" if "i < tj_nr j" for i
    using bu(3) that bu(2) by (cases "i = 0") simp_all
  have np: "\<not> (tx_encrypt et d = None \<and> ieee802_1x d \<and> drop_unencrypted d \<and> et \<noteq> ETH_P_PAE)" using pass by blast
  have "rtllib_xmit m prio d = Some (0, None, tx_hand_over ?txb (d2\<lparr>txd := t\<rparr>))"
    using dev(1,2) m(2) np p dh addr ty bu(1) cb(1) et
    by (simp add: rtllib_xmit_def tx_success_def Let_def del: rd8_Some) auto
  then show ?thesis
    using bu ok cb(2) dev(3) pl(4) by (intro exI[of _ ?txb] exI[of _ "tx_hand_over ?txb (d2\<lparr>txd := t\<rparr>)"]) (simp add: tx_hand_over_def)
qed

section \<open>A concrete device\<close>

definition ex_tx_ht :: tx_ht where
  "ex_tx_ht = \<lparr>bEnableHT = True, CurrentAMPDUFactor = 3, CurrentMPDUDensity = 4, ForcedAMPDUMode = HT_AGG_AUTO, ForcedAMPDUFactor = 0,
     ForcedMPDUDensity = 0, bForcedShortGI = False, bCurBW40MHz = False, bCurShortGI40MHz = False, bCurShortGI20MHz = True,
     bCurTxBW40MHz = False, CurrentOpMode = 0\<rparr>"

definition ex_tx_dev :: "'k tx_crypt option \<Rightarrow> ts_dev \<Rightarrow> 'k tx_dev" where
  "ex_tx_dev c t = \<lparr>txd = t, ht = ex_tx_ht, NmodeSupportBySecCfg = True, wpa_ie_len = 0, pairwise_key_NA = False, capability = 0,
     buseprotection = False, wmode = 0x10, rts = 2347, bforced_tx20Mhz = False, bTxDisableRateFallBack_dev = False,
     bTxUseDriverAssingedRate_dev = False, basic_rate = 2, legacy_rate = 0x6c, HTCurrentOperaRate = 0x8f, net_rates = [0x82, 0x8c],
     seq_ctrl = replicate 5 0, raw_tx = False, softmac_tx_queue = True, has_hard_start_xmit = True, has_softmac_data_xmit = True,
     hard_start_ok = True, ieee802_1x = True, drop_unencrypted = True, host_encrypt = True, hwsec_active = False,
     tx_crypts = [c, None, None, None], tx_keyidx = 0, fts = 256, reserve_FCS = False, tx_headroom = 8, wmm_acm = 0, tim_count = 0,
     LPSDelayCnt = 0, tx_fresh = (\<lambda>n. replicate n 0), tx_alloc = (\<lambda>_. True), tx_live = 0, tx_discards = 0, tx_dropped = 0,
     tx_errors = 0, tx_packets = 0, tx_bytes = 0, netif_stopped = False, sent = []\<rparr>"

definition ex_eth :: "mac \<Rightarrow> u8 list \<Rightarrow> cskb" where
  "ex_eth dst payload = ex_cskb (dst @ [0, 2, 2, 2, 2, 2] @ [0x88, 0xb5] @ payload)"

lemma ex_eth_facts:
  assumes "length dst = 6" "2 \<le> length p"
  shows "skb_wf (ex_eth dst p)" "sk_len (ex_eth dst p) = 14 + length p" "16 \<le> length (sk_mem (ex_eth dst p))"
    "take 6 (skb_frame (ex_eth dst p)) = dst" "take 6 (drop 6 (skb_frame (ex_eth dst p))) = [0, 2, 2, 2, 2, 2]"
    "le16 (skb_frame (ex_eth dst p) ! 13) (skb_frame (ex_eth dst p) ! 12) = 0x88b5" "rtllib_classify (ex_eth dst p) = Some 0"
    "drop 14 (skb_frame (ex_eth dst p)) = p"
proof -
  show "16 \<le> length (sk_mem (ex_eth dst p))" using assms by (simp add: ex_eth_def ex_cskb_def)
  have "rd8 (ex_eth dst p) 12 = Some 0x88" "rd8 (ex_eth dst p) 13 = Some 0xb5"
    using assms by (simp_all add: ex_eth_def ex_cskb_def nth_append)
  then show "rtllib_classify (ex_eth dst p) = Some 0" by (simp add: rtllib_classify_def del: rd8_Some)
qed (use assms in \<open>simp_all add: ex_eth_def nth_append le16_def\<close>)

lemma ex_ccmp_key: "key_ready (tx_encrypt et (ex_tx_dev (Some (ccmp_tx aes k)) t)) (ex_tx_dev (Some (ccmp_tx aes k)) t)"
  using ccmp_tx.tx_cipher_axioms[of aes k] by (simp add: tx_encrypt_def key_ready_def ex_tx_dev_def)

lemma ex_plan:
  fixes aes k
  defines "d \<equiv> ex_tx_dev (Some (ccmp_tx aes k)) ex_dev"
  assumes "length dst = 6" "2 \<le> length (replicate 400 (7 :: u8))"
  shows "\<exists>j. tx_plan 0x88b5 dst [0, 2, 2, 2, 2, 2] 0 (sk_len (ex_eth dst (replicate 400 7)) - 6) d = Some j \<and>
     tj_bpf j = 214 \<and> tj_nr j = 2 \<and> tj_priority j = 0"
proof -
  have mode: "iw_mode (txd d) = IW_MODE_INFRA" "bssid (txd d) = [0, 9, 9, 9, 9, 9]" "qos_active (txd d) = 1"
    by (simp_all add: d_def ex_tx_dev_def ex_dev_def)
  have sz: "key_pre (tx_encrypt 0x88b5 d) = 8" "key_post (tx_encrypt 0x88b5 d) = 8" "\<not> reserve_FCS d" "fts d = 256" "wmm_acm d = 0"
    by (simp_all add: d_def tx_encrypt_def ex_tx_dev_def key_pre_def key_post_def ccmp_tx_def)
  have uni: "\<not> is_broadcast_ether_addr [0, 9, 9, 9, 9, 9]" "\<not> is_multicast_ether_addr [0, 9, 9, 9, 9, 9]"
    by code_simp+
  show ?thesis
    using sz ex_eth_facts(2)[OF assms(2,3)]
    by (simp add: tx_plan_def tx_addresses_def mode uni bytes_per_frag_def tx_threshold_def frag_counts_def admit_priority.simps Let_def)
qed

lemma tx_plan_alloc [simp]: "tx_plan et dest src p b (d\<lparr>tx_alloc := a\<rparr>) = tx_plan et dest src p b d"
proof -
  have "tx_threshold mc (d\<lparr>tx_alloc := a\<rparr>) = tx_threshold mc d" for mc by (cases mc) (simp_all add: tx_threshold_def)
  moreover have "tx_encrypt et (d\<lparr>tx_alloc := a\<rparr>) = tx_encrypt et d" unfolding tx_encrypt_def by (intro if_cong) simp_all
  ultimately show ?thesis unfolding tx_plan_def by (cases "qos_active (txd d) = 0") (simp_all add: Let_def)
qed

theorem rtllib_xmit_fragments_witness:
  "\<exists>txb d'. rtllib_xmit (ex_eth [0, 3, 3, 3, 3, 3] (replicate 400 7)) 0 (ex_tx_dev (Some (ccmp_tx (\<lambda>k b. b) ccmp_zero)) ex_dev) = Some (0, None, d') \<and>
     sent d' = [txb] \<and> length (fragments txb) = 2 \<and> encrypted txb"
proof -
  let ?dst = "[0, 3, 3, 3, 3, 3] :: u8 list" and ?d = "ex_tx_dev (Some (ccmp_tx (\<lambda>k b. b) ccmp_zero)) ex_dev"
  let ?m = "ex_eth ?dst (replicate 400 7)"
  have e: "length ?dst = 6" "2 \<le> length (replicate 400 (7 :: u8))" by simp_all
  note f = ex_eth_facts[OF e]
  have dev: "\<not> tx_no_handler ?d" "\<not> raw_tx ?d" "softmac_tx_queue ?d" "length (bssid (txd ?d)) = 6" "ts_system (txd ?d)"
    "\<forall>k. tx_alloc ?d k" "\<forall>k. k \<le> length (tx_fresh ?d k)" "sent ?d = []"
    using ex_dev_system by (simp_all add: tx_no_handler_def ex_tx_dev_def ex_dev_def)
  have key: "key_ready (tx_encrypt 0x88b5 ?d) ?d" by (rule ex_ccmp_key)
  have enc: "tx_encrypt 0x88b5 ?d \<noteq> None" by (simp add: tx_encrypt_def ex_tx_dev_def)
  obtain j where j: "tx_plan 0x88b5 ?dst [0, 2, 2, 2, 2, 2] 0 (sk_len ?m - 6) ?d = Some j" "tj_bpf j = 214"
    using ex_plan[OF e] by auto
  show ?thesis
    using rtllib_xmit_fragments[of ?d ?m "0x88b5" 0 j 0] dev key enc f j by (auto simp: dev(8))
qed

section \<open>Failures\<close>

lemma alloc_loop_fails: "i < k \<Longrightarrow> k \<le> i + n \<Longrightarrow> \<not> ok k \<Longrightarrow> \<not> snd (alloc_loop ok i n live)"
proof (induction n arbitrary: i live)
  case (Suc n)
  then show ?case by (cases "k = Suc i") auto
qed simp

lemma alloc_txb_fails:
  assumes "\<not> tx_alloc d k" "k \<le> n"
  shows "rtllib_alloc_txb n room d = (d, None)"
proof (cases "tx_alloc d 0")
  case True
  then have "0 < k" using assms(1) by (cases k) auto
  obtain live r where l: "alloc_loop (tx_alloc d) 0 n (tx_live d) = (live, r)" by fastforce
  then have "\<not> r" using alloc_loop_fails[of 0 k n "tx_alloc d" "tx_live d"] assms \<open>0 < k\<close> by simp
  moreover have "live = tx_live d" using alloc_loop_live[of "tx_alloc d" 0 n "tx_live d" live r] l \<open>\<not> r\<close> by simp
  moreover have "d\<lparr>tx_live := tx_live d\<rparr> = d" by simp
  ultimately show ?thesis using True l by (simp add: rtllib_alloc_txb_def)
qed (simp add: rtllib_alloc_txb_def)

text \<open>
  when one of the allocations fails, whichever it is, the buffers allocated before it are
  freed, nothing is sent, no sequence number is used up, and the network stack is told to
  send the frame again. But the buffer that it has to send again has lost its Ethernet
  header: the payload is left, and the next attempt reads its first bytes as addresses.
\<close>

theorem rtllib_xmit_no_memory:
  assumes dev: "\<not> tx_no_handler d" "\<not> raw_tx d" and m: "skb_wf m" "14 \<le> sk_len m" "16 \<le> length (sk_mem m)"
    and et: "et = le16 (skb_frame m ! 13) (skb_frame m ! 12)" and p: "rtllib_classify m = Some p"
    and pass: "tx_encrypt et d \<noteq> None \<or> \<not> (ieee802_1x d \<and> drop_unencrypted d) \<or> et = ETH_P_PAE"
    and plan: "tx_plan et (take 6 (skb_frame m)) (take 6 (drop 6 (skb_frame m))) p (sk_len m - 6) d = Some j"
    and fails: "\<not> tx_alloc d k" "k \<le> tj_nr j"
  shows "\<exists>m' d'. rtllib_xmit m prio d = Some (1, Some (m', tj_priority j), d') \<and> skb_frame m' = drop 14 (skb_frame m) \<and>
     tx_live d' = tx_live d \<and> sent d' = sent d \<and> txd d' = txd d \<and> seq_ctrl d' = seq_ctrl d \<and> netif_stopped d' \<and>
     tx_errors d' = tx_errors d + 1"
proof -
  let ?dest = "take 6 (skb_frame m)" and ?src = "take 6 (drop 6 (skb_frame m))"
  have addr: "rdn m 0 6 = Some ?dest" "rdn m 6 6 = Some ?src" using rdn_frame[OF m(1)] m(2) by simp_all
  have ty: "rd8 m 12 = Some (skb_frame m ! 12)" "rd8 m 13 = Some (skb_frame m ! 13)"
    using m by (simp_all add: rd8_def skb_frame_def skb_wf_def del: rd8_Some)
  obtain dhcp n where dh: "tx_dhcp et m d = Some (dhcp, d\<lparr>LPSDelayCnt := n\<rparr>)" using tx_dhcp_total[OF m(1)] by blast
  have fr: "skb_frame (skb_pull 14 m) = drop 14 (skb_frame m)" "sk_len (skb_pull 14 m) + 8 = sk_len m - 6"
    using skb_pull_frame[OF m(1,2)] m(2) by simp_all
  have bu: "tx_build et ?dest ?src p m (d\<lparr>LPSDelayCnt := n\<rparr>) =
      Some (TX_FAILED, skb_pull 14 m, tj_priority j, th_addr1 (tj_header j), d\<lparr>LPSDelayCnt := n\<rparr>)"
    using alloc_txb_fails[of "d\<lparr>LPSDelayCnt := n\<rparr>" k "tj_nr j"] fails
    by (simp add: tx_build_def Let_def fr(2) plan)
  have np: "\<not> (tx_encrypt et d = None \<and> ieee802_1x d \<and> drop_unencrypted d \<and> et \<noteq> ETH_P_PAE)" using pass by blast
  have "rtllib_xmit m prio d = tx_failed (skb_pull 14 m) (tj_priority j) (d\<lparr>LPSDelayCnt := n\<rparr>)"
    using dev m(2) np p dh addr ty bu et by (simp add: rtllib_xmit_def Let_def del: rd8_Some) auto
  then show ?thesis using fr(1) by (simp add: tx_failed_def)
qed

theorem rtllib_xmit_no_memory_witness:
  "\<exists>m' d'. rtllib_xmit (ex_eth [0, 3, 3, 3, 3, 3] (replicate 400 7)) 0
       ((ex_tx_dev (Some (ccmp_tx (\<lambda>k b. b) ccmp_zero)) ex_dev)\<lparr>tx_alloc := \<lambda>k. k < 2\<rparr>) = Some (1, Some (m', 0), d') \<and>
     skb_frame m' = replicate 400 7 \<and> tx_live d' = 0"
proof -
  let ?dst = "[0, 3, 3, 3, 3, 3] :: u8 list" and ?d0 = "ex_tx_dev (Some (ccmp_tx (\<lambda>k b. b) ccmp_zero)) ex_dev"
  let ?d = "?d0\<lparr>tx_alloc := \<lambda>k. k < 2\<rparr>" and ?m = "ex_eth ?dst (replicate 400 7)"
  have e: "length ?dst = 6" "2 \<le> length (replicate 400 (7 :: u8))" by simp_all
  note f = ex_eth_facts[OF e]
  have dev: "\<not> tx_no_handler ?d" "\<not> raw_tx ?d" "tx_live ?d = 0" "\<not> tx_alloc ?d 2"
    by (simp_all add: tx_no_handler_def ex_tx_dev_def)
  obtain j where j: "tx_plan 0x88b5 ?dst [0, 2, 2, 2, 2, 2] 0 (sk_len ?m - 6) ?d0 = Some j" "tj_nr j = 2" "tj_priority j = 0"
    using ex_plan[OF e] by auto
  have plan: "tx_plan 0x88b5 ?dst [0, 2, 2, 2, 2, 2] 0 (sk_len ?m - 6) ?d = Some j" using j(1) by simp
  have enc: "tx_encrypt 0x88b5 ?d \<noteq> None" by (simp add: tx_encrypt_def ex_tx_dev_def)
  show ?thesis
    using rtllib_xmit_no_memory[of ?d ?m "0x88b5" 0 j 2 0] dev enc f plan j(2,3) by auto
qed

section \<open>Aggregation\<close>

text \<open>
  C33: unless aggregation is forced, a frame is marked for aggregation only in a network with
  high throughput, as a QoS frame to one station, and on a stream that has an agreement
  with this station which is in use and was either in use before or has its starting
  sequence number behind it.
\<close>

theorem aggregation_needs_agreement:
  assumes sys: "ts_system (txd d)" and q: "rtllib_tx_query_agg_cap f cb d = Some (cb', d')"
    and auto: "ForcedAMPDUMode (ht d) = HT_AGG_AUTO" "\<not> bAMPDUEnable cb" "bAMPDUEnable cb'"
  shows "\<exists>fc a t n. rd16 (tf_skb f) 0 = Some fc \<and> IsQoSDataFrame fc \<and> rdn (tf_skb f) 4 6 = Some a \<and>
     \<not> is_multicast_ether_addr a \<and> bCurrentHTSupport (txd d) \<and> bEnableHT (ht d) \<and> iw_mode (txd d) = IW_MODE_INFRA \<and>
     GetTs (txd d) a (tf_priority f) TX_DIR True = Some (t, Some n) \<and>
     bValid (TxAdmittedBARecord (TxTsRecord (txd d') ! node_index n)) \<and> bUsingBa (TxTsRecord (txd d') ! node_index n) \<and>
     (bUsingBa (TxTsRecord t ! node_index n) \<or>
      SN_LESS (get_SeqNum (BaStartSeqCtrl (TxAdmittedBARecord (TxTsRecord t ! node_index n))))
        ((TxCurSeq (TxTsRecord t ! node_index n) + 1) mod 4096))"
proof -
  have ht: "bCurrentHTSupport (txd d)" "bEnableHT (ht d)"
    using q auto(2,3) by (auto simp: rtllib_tx_query_agg_cap_def split: if_splits)
  then obtain fc a where fc: "rd16 (tf_skb f) 0 = Some fc" "rdn (tf_skb f) 4 6 = Some a"
    using q by (auto simp: rtllib_tx_query_agg_cap_def bind_eq_Some_conv)
  let ?skip = "\<not> IsQoSDataFrame fc \<or> is_multicast_ether_addr a \<or> is_broadcast_ether_addr a \<or>
    IOTAction (txd d) AND HT_IOT_ACT_TX_NO_AGGREGATION \<noteq> 0 \<or> \<not> NmodeSupportBySecCfg d"
  have forced: "forced_agg_setting (ht d) x = x" for x by (simp add: forced_agg_setting_def auto(1))
  have go: "\<not> ?skip" "bCurrentAMPDUEnable (txd d)"
    using q auto(2,3) ht fc forced by (auto simp: rtllib_tx_query_agg_cap_def split: if_splits)
  obtain t r where g: "GetTs (txd d) a (tf_priority f) TX_DIR True = Some (t, r)"
    using streams.get_total[OF ts_system_ok[OF sys], of TX_DIR "(a, tf_priority f)" True] by (auto simp: get_stream_def)
  obtain n where n: "r = Some n" using q auto(2,3) ht fc go g by (cases r) (auto simp: rtllib_tx_query_agg_cap_def)
  obtain t1 agg where ag: "agg_stream (wpa_ie_len d \<noteq> 0 \<and> pairwise_key_NA d) cb (node_index n) t = (t1, agg)" by fastforce
  have res: "agg" "iw_mode t = IW_MODE_INFRA" "txd d' = t1"
    using q auto(2,3) ht fc go g n ag forced by (auto simp: rtllib_tx_query_agg_cap_def Let_def split: if_splits)
  have mode: "iw_mode t = iw_mode (txd d)"
    using g by (auto simp: GetTs_def Let_def admit_new_ts_frame split: if_splits option.splits)
  have len: "node_index n < length (TxTsRecord t)" using seq_stream_update(3)[OF sys g[unfolded n]] by blast
  have "bValid (TxAdmittedBARecord (TxTsRecord t1 ! node_index n)) \<and> bUsingBa (TxTsRecord t1 ! node_index n) \<and>
     (bUsingBa (TxTsRecord t ! node_index n) \<or>
      SN_LESS (get_SeqNum (BaStartSeqCtrl (TxAdmittedBARecord (TxTsRecord t ! node_index n))))
        ((TxCurSeq (TxTsRecord t ! node_index n) + 1) mod 4096))"
    using ag res(1) len by (auto simp: agg_stream_def Let_def split: if_splits)
  then show ?thesis using fc go ht g n res mode by auto
qed

definition ex_agg_ts :: ts_dev where
  "ex_agg_ts = (let t = admit_new_ts ex_dev ex_peer 0 TX_DIR (TxTs 0); r = TxTsRecord t ! 0
     in t\<lparr>TxTsRecord := (TxTsRecord t)[0 := r\<lparr>TxCurSeq := 5, TxAdmittedBARecord := (TxAdmittedBARecord r)\<lparr>bValid := True, BaStartSeqCtrl := 0\<rparr>\<rparr>]\<rparr>)"

definition ex_agg_frag :: tx_frag where
  "ex_agg_frag = (empty_frag [])\<lparr>tf_skb := ex_cskb (put16 0x0188 @ put16 0 @ ex_peer @ replicate 16 0)\<rparr>"

lemma ex_agg_facts:
  "ts_system ex_agg_ts" "GetTs ex_agg_ts ex_peer 0 TX_DIR True = Some (ex_agg_ts, Some (TxTs 0))"
  "bValid (TxAdmittedBARecord (TxTsRecord ex_agg_ts ! 0))" "BaStartSeqCtrl (TxAdmittedBARecord (TxTsRecord ex_agg_ts ! 0)) = 0"
  "TxCurSeq (TxTsRecord ex_agg_ts ! 0) = 5" "iw_mode ex_agg_ts = IW_MODE_INFRA" "bCurrentHTSupport ex_agg_ts" "bCurrentAMPDUEnable ex_agg_ts"
  "IOTAction ex_agg_ts = 0"
proof -
  let ?t = "admit_new_ts ex_dev ex_peer 0 TX_DIR (TxTs 0)"
  have g: "GetTs ex_dev ex_peer 0 TX_DIR True = Some (?t, Some (TxTs 0))" using ex_dev_GetTs[of TX_DIR] by (simp add: ts_node_of_def)
  let ?r = "(TxTsRecord ?t ! 0)\<lparr>TxCurSeq := 5, TxAdmittedBARecord := (TxAdmittedBARecord (TxTsRecord ?t ! 0))\<lparr>bValid := True, BaStartSeqCtrl := 0\<rparr>\<rparr>"
  have u: "ex_agg_ts = ?t\<lparr>TxTsRecord := (TxTsRecord ?t)[node_index (TxTs 0) := ?r]\<rparr>"
    by (simp add: ex_agg_ts_def Let_def node_index_def)
  note s = seq_stream_update[OF ex_dev_system g, of ?r]
  show "ts_system ex_agg_ts" "GetTs ex_agg_ts ex_peer 0 TX_DIR True = Some (ex_agg_ts, Some (TxTs 0))"
    unfolding u using s(1,2) by (simp_all add: node_index_def)
  have len: "0 < length (TxTsRecord ?t)" using s(3) by (simp add: node_index_def)
  show "bValid (TxAdmittedBARecord (TxTsRecord ex_agg_ts ! 0))" "BaStartSeqCtrl (TxAdmittedBARecord (TxTsRecord ex_agg_ts ! 0)) = 0"
    "TxCurSeq (TxTsRecord ex_agg_ts ! 0) = 5" unfolding u using len by (simp_all add: node_index_def)
  show "iw_mode ex_agg_ts = IW_MODE_INFRA" "bCurrentHTSupport ex_agg_ts" "bCurrentAMPDUEnable ex_agg_ts" "IOTAction ex_agg_ts = 0"
    unfolding u by (simp_all add: admit_new_ts_def reset_ts_def set_common_def AdmitTS_def Let_def node_index_def ex_dev_def)
qed

theorem aggregation_needs_agreement_witness:
  "\<exists>cb' d'. rtllib_tx_query_agg_cap ex_agg_frag cb_zero (ex_tx_dev (None :: unit tx_crypt option) ex_agg_ts) = Some (cb', d') \<and>
     bAMPDUEnable cb' \<and> bUsingBa (TxTsRecord (txd d') ! 0)"
proof -
  let ?d = "ex_tx_dev (None :: unit tx_crypt option) ex_agg_ts"
  have d: "txd ?d = ex_agg_ts" "ht ?d = ex_tx_ht" "NmodeSupportBySecCfg ?d" "wpa_ie_len ?d = 0"
    by (simp_all add: ex_tx_dev_def)
  have h: "ForcedAMPDUMode ex_tx_ht = HT_AGG_AUTO" "bEnableHT ex_tx_ht" by (simp_all add: ex_tx_ht_def)
  have r: "rd16 (tf_skb ex_agg_frag) 0 = Some 0x0188" "rdn (tf_skb ex_agg_frag) 4 6 = Some ex_peer" "tf_priority ex_agg_frag = 0"
    by (simp_all add: ex_agg_frag_def empty_frag_def ex_cskb_def rd16_def rd8_def rdn_def put16_def ex_peer_def le16_def)
  have u: "\<not> is_multicast_ether_addr ex_peer" "\<not> is_broadcast_ether_addr ex_peer" by code_simp+
  have sn: "SN_LESS (get_SeqNum 0) 6" by (simp add: SN_LESS_def get_SeqNum_def bf_get_def)
  have ni: "node_index (TxTs 0) = 0" by (simp add: node_index_def)
  obtain t1 where ag: "agg_stream False cb_zero 0 ex_agg_ts = (t1, True)"
  proof (cases "bUsingBa (TxTsRecord ex_agg_ts ! 0)")
    case True
    then have "agg_stream False cb_zero 0 ex_agg_ts = (ex_agg_ts, True)"
      using ex_agg_facts(3-6) by (simp add: agg_stream_def Let_def)
    then show ?thesis by (rule that)
  next
    case False
    then have "agg_stream False cb_zero 0 ex_agg_ts = (upd_tx 0 (bUsingBa_update (\<lambda>_. True)) ex_agg_ts, True)"
      using ex_agg_facts(3-6) sn by (simp add: agg_stream_def Let_def)
    then show ?thesis by (rule that)
  qed
  obtain cb' d' where run: "rtllib_tx_query_agg_cap ex_agg_frag cb_zero ?d = Some (cb', d')" "bAMPDUEnable cb'"
    by (simp add: rtllib_tx_query_agg_cap_def d h r u IsQoSDataFrame_def forced_agg_setting_def ni ag ex_agg_facts)
  have "\<not> bAMPDUEnable cb_zero" by (simp add: cb_zero_def)
  from aggregation_needs_agreement[OF _ run(1) _ this run(2)] ex_agg_facts(1,2) show ?thesis
    using run d h r by (auto simp: ni)
qed

section \<open>Priorities\<close>

text \<open>
  C35: the loop that lowers the priority ends after at most three rounds, for every set of
  classes with mandatory admission control; it stops at a class that may be used or at
  the lowest class, and the class is never raised.
\<close>

theorem admit_priority_ends:
  "\<exists>n \<le> 3. admit_priority acm p = ((\<lambda>p. the (wme_downgrade_ac p)) ^^ n) p \<and>
     (bit acm (unat (admit_priority acm p)) \<longrightarrow> wme_downgrade_ac (admit_priority acm p) = None) \<and>
     (\<forall>k < n. bit acm (unat (((\<lambda>p. the (wme_downgrade_ac p)) ^^ k) p))) \<and>
     ac_rank (admit_priority acm p) \<le> ac_rank p"
proof -
  have "\<exists>n \<le> ac_rank p. admit_priority acm p = ((\<lambda>p. the (wme_downgrade_ac p)) ^^ n) p \<and>
     (bit acm (unat (admit_priority acm p)) \<longrightarrow> wme_downgrade_ac (admit_priority acm p) = None) \<and>
     (\<forall>k < n. bit acm (unat (((\<lambda>p. the (wme_downgrade_ac p)) ^^ k) p))) \<and>
     ac_rank (admit_priority acm p) \<le> ac_rank p"
  proof (induction acm p rule: admit_priority.induct)
    case (1 acm p)
    show ?case
    proof (cases "bit acm (unat p) \<and> wme_downgrade_ac p \<noteq> None")
      case True
      then obtain q where q: "wme_downgrade_ac p = Some q" by blast
      have e: "admit_priority acm p = admit_priority acm q" using True q by (simp add: admit_priority.simps[of acm p])
      obtain n where n: "n \<le> ac_rank q" "admit_priority acm q = ((\<lambda>p. the (wme_downgrade_ac p)) ^^ n) q"
        "bit acm (unat (admit_priority acm q)) \<longrightarrow> wme_downgrade_ac (admit_priority acm q) = None"
        "\<forall>k < n. bit acm (unat (((\<lambda>p. the (wme_downgrade_ac p)) ^^ k) q))" "ac_rank (admit_priority acm q) \<le> ac_rank q"
        using 1 True q by blast
      have pow: "((\<lambda>p. the (wme_downgrade_ac p)) ^^ Suc m) p = ((\<lambda>p. the (wme_downgrade_ac p)) ^^ m) q" for m
        by (simp only: funpow_Suc_right comp_def q option.sel)
      have "bit acm (unat (((\<lambda>p. the (wme_downgrade_ac p)) ^^ k) p))" if "k < Suc n" for k
        using that n(4) True pow by (cases k) simp_all
      then show ?thesis
        using n wme_downgrade_rank[OF q] pow[of n] by (intro exI[of _ "Suc n"]) (simp add: e del: funpow.simps)
    next
      case False
      then have "admit_priority acm p = p" by (auto simp: admit_priority.simps[of acm p] split: option.split)
      then show ?thesis using False by (intro exI[of _ 0]) simp
    qed
  qed
  moreover have "ac_rank p \<le> 3" by (simp add: ac_rank_def)
  ultimately show ?thesis by (meson order_trans)
qed

theorem admit_priority_ends_witness:
  "admit_priority 0x60 6 = 3 \<and> (\<exists>n \<le> 3. admit_priority 0x60 6 = ((\<lambda>p. the (wme_downgrade_ac p)) ^^ n) 6) \<and>
     ac_rank (admit_priority 0x60 6) \<le> ac_rank 6"
  using admit_priority_ends[of "0x60" 6] by (auto simp: admit_priority.simps wme_downgrade_ac_def)

section \<open>Sequence numbers of fragments\<close>

text \<open>The sequence control field of a fragment.\<close>

definition frag_sc :: "tx_frag \<Rightarrow> u16 option" where
  "frag_sc g = rd16 (tf_skb g) 22"

lemma on_air_sc:
  assumes "on_air j fcs i sc piece g" "header_ok (tj_header j)" "tj_hdr_len j = 24 \<or> tj_hdr_len j = 26"
  shows "frag_sc g = Some sc"
proof -
  let ?hb = "\<lambda>sc. header_bytes (tj_header j) (frag_fc j i) sc (tj_hdr_len j)"
  obtain bs tl where g: "skb_wf (tf_skb g)" "skb_frame (tf_skb g) = bs @ tl" "take (tj_hdr_len j) bs = ?hb sc"
    using assms(1) by (auto simp: on_air_def)
  have l: "length (?hb sc) = tj_hdr_len j" "length (?hb 0) = tj_hdr_len j" by (rule length_header_bytes[OF assms(2,3)])+
  have bs: "bs = ?hb sc @ drop (tj_hdr_len j) bs" unfolding g(3)[symmetric] by simp
  have e: "take 22 (?hb 0) @ put16 sc @ drop 24 (?hb 0) = ?hb sc" by (rule header_bytes_seq[OF assms(2,3)])
  have "skb_frame (tf_skb g) = (take 22 (?hb 0) @ put16 sc @ drop 24 (?hb 0)) @ drop (tj_hdr_len j) bs @ tl"
    unfolding e g(2) using bs by (metis append.assoc)
  then have fr: "skb_frame (tf_skb g) = take 22 (?hb 0) @ put16 sc @ drop 24 (?hb 0) @ drop (tj_hdr_len j) bs @ tl"
    by (simp only: append.assoc)
  have t22: "length (take 22 (?hb 0)) = 22" using l(2) assms(3) by auto
  have "24 \<le> sk_len (tf_skb g)" using arg_cong[OF fr, of length] g(1) t22 by simp
  moreover have "skb_frame (tf_skb g) ! 22 = put16 sc ! 0" "skb_frame (tf_skb g) ! Suc 22 = put16 sc ! 1"
    unfolding fr using t22 by (simp_all add: nth_append)
  ultimately show ?thesis using rd16_frame[OF g(1), of 22] by (simp add: frag_sc_def le16_put16[simplified])
qed

lemma seq_mod_step: "((s + 1) mod 4096 + x) mod 4096 = (s + (x + 1)) mod (4096 :: u16)"
proof -
  have c: "n mod 65536 mod 4096 = n mod (4096 :: int)" for n by (rule mod_mod_cancel) simp
  have "((uint s + 1) mod 4096 + uint x) mod 4096 = (uint s + (uint x + 1)) mod (4096 :: int)" by presburger
  then show ?thesis by (simp add: word_uint_eq_iff uint_mod uint_word_ariths c mod_simps)
qed

lemma and_or_fc: "(fc OR 0x0400) AND 0x0088 = fc AND (0x0088 :: u16)"
  by (simp add: word_ao_dist)

lemma frag_seq_qos:
  assumes j: "tj_qos j" "\<not> tj_multicast j" "IsQoSDataFrame (frag_fc j i)" "\<not> is_multicast_ether_addr (th_addr1 (tj_header j))"
    "\<not> is_broadcast_ether_addr (th_addr1 (tj_header j))" "24 \<le> tj_hdr_len j"
    and f: "skb_wf (tf_skb f)" "skb_frame (tf_skb f) = header_bytes (tj_header j) (frag_fc j i) 0 (tj_hdr_len j)" "tf_priority f = tj_priority j"
    and h: "header_ok (tj_header j)" "tj_hdr_len j = 24 \<or> tj_hdr_len j = 26"
    and g: "GetTs (txd d) (th_addr1 (tj_header j)) (tj_priority j) TX_DIR True = Some (t, Some n)"
  shows "frag_seq j f i d = Some (push_bit 4 (TxCurSeq (TxTsRecord t ! node_index n)) OR of_nat i,
     d\<lparr>txd := upd_tx (node_index n) (\<lambda>r. r\<lparr>TxCurSeq := (TxCurSeq r + 1) mod 4096\<rparr>) t\<rparr>)"
proof -
  have hb: "header_bytes (tj_header j) (frag_fc j i) 0 (tj_hdr_len j) =
    put16 (frag_fc j i) @ take (tj_hdr_len j - 2) (put16 0 @ th_addr1 (tj_header j) @ th_addr2 (tj_header j) @ th_addr3 (tj_header j) @
      put16 0 @ put16 (th_qos (tj_header j)))" using j(6) by (simp add: header_bytes_def)
  have fr: "skb_frame (tf_skb f) ! 0 = put16 (frag_fc j i) ! 0" "skb_frame (tf_skb f) ! Suc 0 = put16 (frag_fc j i) ! Suc 0"
    unfolding f(2) hb by (simp_all add: nth_append)
  have "2 \<le> sk_len (tf_skb f)"
    using arg_cong[OF f(2), of length] length_frame[OF f(1)] length_header_bytes[OF h] j(6) by simp
  note fr = fr this
  have "rd16 (tf_skb f) 0 = Some (frag_fc j i)" using rd16_frame[OF f(1), of 0] fr by (simp add: le16_put16[simplified])
  then show ?thesis using j f(3) g
    by (simp add: frag_seq_def rtllib_query_seqnum_def Let_def)
qed

lemma frag_loop_qos:
  assumes q: "tj_qos j" "\<not> tj_multicast j" "IsQoSDataFrame (th_fc (tj_header j))" "\<not> is_multicast_ether_addr (th_addr1 (tj_header j))"
    "\<not> is_broadcast_ether_addr (th_addr1 (tj_header j))"
  shows "job_ok j d \<Longrightarrow> counts_ok j S \<Longrightarrow> tj_nr j = i + n \<Longrightarrow> skb_wf m \<Longrightarrow> job_room j d \<le> length mem \<Longrightarrow>
   (0 < n \<longrightarrow> frag_snap j i @ skb_frame m = drop (i * tj_bpf j) S) \<Longrightarrow>
   GetTs (txd d) (th_addr1 (tj_header j)) (tj_priority j) TX_DIR True = Some (t, Some ts) \<Longrightarrow>
   TxCurSeq (TxTsRecord t ! node_index ts) < 4096 \<Longrightarrow>
   frag_loop j (replicate n (empty_frag mem)) i m d = Some (gs, m', d') \<Longrightarrow>
     \<forall>k < n. frag_sc (gs ! k) = Some (push_bit 4 ((TxCurSeq (TxTsRecord t ! node_index ts) + of_nat k) mod 4096) OR of_nat (i + k))"
proof (induction n arbitrary: i m d t gs m' d')
  case 0
  then show ?case by simp
next
  case (Suc n)
  let ?s = "TxCurSeq (TxTsRecord t ! node_index ts)"
  have i: "i < tj_nr j" using Suc.prems(3) by simp
  note st = piece_step[OF Suc.prems(2) i Suc.prems(4)]
  have m: "frag_snap j i @ skb_frame m = drop (i * tj_bpf j) S" using Suc.prems(6) by simp
  let ?b = "frag_total j i - length (frag_snap j i)"
  have hdr: "header_ok (tj_header j)" "tj_hdr_len j = 24 \<or> tj_hdr_len j = 26" using Suc.prems(1) by (simp_all add: job_ok_def)
  have fcq: "IsQoSDataFrame (frag_fc j i)" using q(3)
    by (simp add: frag_fc_def IsQoSDataFrame_def and_or_fc)
  obtain g d1 sc f where g: "frag_one j (empty_frag mem) i m d = Some (g, skb_pull ?b m, d1)" "tx_same d d1" "job_ok j d1"
    "on_air j (reserve_FCS d) i sc (frag_snap j i @ take ?b (skb_frame m)) g"
    and f: "frag_seq j f i d = Some (sc, d\<lparr>txd := txd d1\<rparr>)" "skb_wf (tf_skb f)"
      "skb_frame (tf_skb f) = header_bytes (tj_header j) (frag_fc j i) 0 (tj_hdr_len j)" "tf_priority f = tj_priority j"
    using frag_one_ok[OF Suc.prems(1), of "empty_frag mem" mem m i] Suc.prems(4,5) st(1,2)[OF m] q(1)
    by (auto simp: empty_frag_def)
  have hl: "24 \<le> tj_hdr_len j" using hdr(2) by auto
  let ?t2 = "t\<lparr>TxTsRecord := (TxTsRecord t)[node_index ts := (TxTsRecord t ! node_index ts)\<lparr>TxCurSeq := (?s + 1) mod 4096\<rparr>]\<rparr>"
  have "Some (sc, d\<lparr>txd := txd d1\<rparr>) = Some (push_bit 4 ?s OR of_nat i, d\<lparr>txd := ?t2\<rparr>)"
    using f(1) frag_seq_qos[OF q(1,2) fcq q(4,5) hl f(2-4) hdr Suc.prems(7)] by simp
  then have sc: "sc = push_bit 4 ?s OR of_nat i" and "txd (d\<lparr>txd := txd d1\<rparr>) = txd (d\<lparr>txd := ?t2\<rparr>)" by auto
  then have t2: "txd d1 = ?t2" by simp
  have sys: "ts_system (txd d)" using Suc.prems(1) q(1) by (simp add: job_ok_def)
  note up = seq_stream_update[OF sys Suc.prems(7), of "(TxTsRecord t ! node_index ts)\<lparr>TxCurSeq := (?s + 1) mod 4096\<rparr>", simplified]
  have s2: "TxCurSeq (TxTsRecord ?t2 ! node_index ts) = (?s + 1) mod 4096" using up(3) by simp
  note same = tx_same_fields[OF g(2)]
  have room: "job_room j d1 \<le> length mem" using Suc.prems(5) by (simp add: job_room_def same)
  have nxt: "0 < n \<longrightarrow> frag_snap j (Suc i) @ skb_frame (skb_pull ?b m) = drop (Suc i * tj_bpf j) S"
    using st(5)[OF m] Suc.prems(3) by simp
  have nr: "tj_nr j = Suc i + n" using Suc.prems(3) by simp
  obtain gs' where gs: "gs = g # gs'" "frag_loop j (replicate n (empty_frag mem)) (Suc i) (skb_pull ?b m) d1 = Some (gs', m', d')"
    using Suc.prems(9) g(1) by (auto simp: bind_eq_Some_conv)
  have lt: "(?s + 1) mod 4096 < 4096" by (simp add: word_less_nat_alt unat_mod)
  have ih: "\<forall>k < n. frag_sc (gs' ! k) = Some (push_bit 4 (((?s + 1) mod 4096 + of_nat k) mod 4096) OR of_nat (Suc i + k))"
    using Suc.IH[OF g(3) Suc.prems(2) nr st(4)[OF m] room nxt _ _ gs(2), of ?t2] up(2) s2 lt t2 by simp
  have step: "((?s + 1) mod 4096 + of_nat k) mod 4096 = (?s + of_nat (Suc k)) mod 4096" for k
    using seq_mod_step[of ?s "of_nat k"] by (simp add: add.commute)
  have s0: "?s mod 4096 = ?s" using Suc.prems(8) by (simp add: word_less_nat_alt word_arith_nat_mod)
  have "frag_sc (gs ! k) = Some (push_bit 4 ((?s + of_nat k) mod 4096) OR of_nat (i + k))" if "k < Suc n" for k
    using that on_air_sc[OF g(4) hdr] ih step by (cases k) (simp_all add: gs(1) sc s0)
  then show ?case by blast
qed

lemma tx_plan_qos:
  assumes "tx_plan et dest src p bytes d = Some j" "qos_active (txd d) \<noteq> 0"
  shows "IsQoSDataFrame (th_fc (tj_header j))"
    "tj_multicast j = (is_broadcast_ether_addr (th_addr1 (tj_header j)) \<or> is_multicast_ether_addr (th_addr1 (tj_header j)))"
proof -
  have "IsQoSDataFrame (tx_fc e True md)" for e md
    by (simp add: IsQoSDataFrame_def tx_fc_def word_ao_dist)
  then show "IsQoSDataFrame (th_fc (tj_header j))"
    "tj_multicast j = (is_broadcast_ether_addr (th_addr1 (tj_header j)) \<or> is_multicast_ether_addr (th_addr1 (tj_header j)))"
    using assms by (auto simp: tx_plan_def Let_def split: prod.splits)
qed

text \<open>
  C34: the fragments of one unicast frame must carry one sequence number, but
  \<open>rtllib_xmit\<close> asks for a number in each round of its loop: in a QoS network the k-th
  fragment of a frame has the number of the first plus k, so that no receiver can put the
  fragments together again.
\<close>

theorem qos_fragments_renumbered:
  assumes plan: "tx_plan et dest src p (sk_len m - 6) d = Some j" and len: "length dest = 6" "length src = 6" "length (bssid (txd d)) = 6"
    and key: "key_ready (tx_encrypt et d) d" and sys: "ts_system (txd d)" and b: "8 \<le> tj_bpf j"
    and mem: "\<forall>k. tx_alloc d k" "\<forall>k. k \<le> length (tx_fresh d k)" and m: "skb_wf m" "14 \<le> sk_len m"
    and qos: "qos_active (txd d) \<noteq> 0" "\<not> tj_multicast j"
    and g: "GetTs (txd d) (th_addr1 (tj_header j)) (tj_priority j) TX_DIR True = Some (t, Some n)" "TxCurSeq (TxTsRecord t ! node_index n) < 4096"
  shows "\<exists>txb m1 d'. tx_build et dest src p m d = Some (TX_DONE (Some txb), m1, tj_priority j, th_addr1 (tj_header j), d') \<and>
     length (fragments txb) = tj_nr j \<and>
     (\<forall>k < tj_nr j. frag_sc (fragments txb ! k) = Some (push_bit 4 ((TxCurSeq (TxTsRecord t ! node_index n) + of_nat k) mod 4096) OR of_nat k))"
proof -
  let ?S = "rtllib_put_snap et @ drop 14 (skb_frame m)" and ?m = "skb_pull 14 m"
  obtain txb m1 d' where bu: "tx_build et dest src p m d = Some (TX_DONE (Some txb), m1, tj_priority j, th_addr1 (tj_header j), d')"
    "length (fragments txb) = tj_nr j" "0 < tj_nr j"
    using tx_build_ok[OF plan len key sys b mem m] by blast
  have fr: "skb_frame ?m = drop 14 (skb_frame m)" "sk_len ?m + 8 = sk_len m - 6" "skb_wf ?m"
    using skb_pull_frame[OF m(1,2)] wf_skb_pull[OF m(1)] m(2) by simp_all
  have bytes: "8 \<le> sk_len m - 6" using m(2) by simp
  note pl = tx_plan_ok[OF plan len key sys bytes b]
  have cnt: "counts_ok j ?S" using m by (intro pl(5)) simp
  let ?d1 = "d\<lparr>tx_live := tx_live d + int (tj_nr j)\<rparr>" and ?mem = "tx_fresh d (tx_threshold (tj_multicast j) d + tx_headroom d)"
  have j1: "job_ok j ?d1" using pl(1) by (simp add: job_ok_def key_ready_def split: option.splits)
  have "job_room j ?d1 = tx_threshold (tj_multicast j) d + tx_headroom d" using pl(6) by (simp add: job_room_def)
  then have room: "job_room j ?d1 \<le> length ?mem" using mem(2) by simp
  obtain gs m2 d2 where lp: "frag_loop j (replicate (tj_nr j) (empty_frag ?mem)) 0 ?m ?d1 = Some (gs, m2, d2)" "fragments txb = gs"
    using bu(1) by (auto simp: tx_build_def fr(2) plan alloc_txb_ok[OF mem(1)] Let_def bind_eq_Some_conv)
  have "\<forall>k < tj_nr j. frag_sc (gs ! k) = Some (push_bit 4 ((TxCurSeq (TxTsRecord t ! node_index n) + of_nat k) mod 4096) OR of_nat (0 + k))"
    using tx_plan_qos[OF plan qos(1)] qos pl(8) g
    by (intro frag_loop_qos[OF _ _ _ _ _ j1 cnt _ fr(3) room _ _ _ lp(1)]) (simp_all add: frag_snap_def fr(1) pl(3))
  then show ?thesis using bu lp(2) by auto
qed

lemma ex_dev_bss:
  "GetTs ex_dev [0, 9, 9, 9, 9, 9] 0 TX_DIR True = Some (admit_new_ts ex_dev [0, 9, 9, 9, 9, 9] 0 TX_DIR (TxTs 0), Some (TxTs 0))"
  "TxCurSeq (TxTsRecord (admit_new_ts ex_dev [0, 9, 9, 9, 9, 9] 0 TX_DIR (TxTs 0)) ! 0) = 0"
proof -
  have u: "unicast [0, 9, 9, 9, 9, 9]" by code_simp
  have n: "ts_node_of TX_DIR = TxTs" by (auto simp: ts_node_of_def)
  have "ts_nodes TX_DIR = TxTs 0 # map TxTs [1..<TOTAL_TS_NUM]" by (simp add: ts_nodes_def n upt_conv_Cons)
  then have "ts_inv TX_DIR ex_dev [] [] (TxTs 0 # map TxTs [1..<TOTAL_TS_NUM])" using ex_dev_inv[of TX_DIR] by (simp only:)
  then show "GetTs ex_dev [0, 9, 9, 9, 9, 9] 0 TX_DIR True = Some (admit_new_ts ex_dev [0, 9, 9, 9, 9, 9] 0 TX_DIR (TxTs 0), Some (TxTs 0))"
    by (rule GetTs_new(1)) (simp_all add: u GetTs_UP_def UP_of_TID_def ts_tbl_def)
qed (simp add: admit_new_ts_def AdmitTS_def set_common_def reset_ts_def Let_def node_index_def ResetTxTsEntry_def ResetBaEntry_def ex_dev_def)

theorem qos_fragments_renumbered_witness:
  "\<exists>txb m1 d'. tx_build 0x88b5 [0, 3, 3, 3, 3, 3] [0, 2, 2, 2, 2, 2] 0 (ex_eth [0, 3, 3, 3, 3, 3] (replicate 400 7))
       (ex_tx_dev (Some (ccmp_tx (\<lambda>k b. b) ccmp_zero)) ex_dev) = Some (TX_DONE (Some txb), m1, 0, [0, 9, 9, 9, 9, 9], d') \<and>
     map frag_sc (fragments txb) = [Some 0x0000, Some 0x0011]"
proof -
  let ?dst = "[0, 3, 3, 3, 3, 3] :: u8 list" and ?d = "ex_tx_dev (Some (ccmp_tx (\<lambda>k b. b) ccmp_zero)) ex_dev"
  let ?m = "ex_eth ?dst (replicate 400 7)" and ?src = "[0, 2, 2, 2, 2, 2] :: u8 list"
  have e: "length ?dst = 6" "2 \<le> length (replicate 400 (7 :: u8))" "length ?src = 6" by simp_all
  note f = ex_eth_facts[OF e(1,2)]
  have dev: "length (bssid (txd ?d)) = 6" "ts_system (txd ?d)" "\<forall>k. tx_alloc ?d k" "\<forall>k. k \<le> length (tx_fresh ?d k)"
    "txd ?d = ex_dev" "qos_active ex_dev = 1" "iw_mode ex_dev = IW_MODE_INFRA" "bssid ex_dev = [0, 9, 9, 9, 9, 9]"
    using ex_dev_system by (simp_all add: ex_tx_dev_def ex_dev_def)
  have key: "key_ready (tx_encrypt 0x88b5 ?d) ?d" by (rule ex_ccmp_key)
  obtain j where j: "tx_plan 0x88b5 ?dst ?src 0 (sk_len ?m - 6) ?d = Some j" "tj_bpf j = 214" "tj_nr j = 2" "tj_priority j = 0"
    using ex_plan[OF e(1,2)] by auto
  have b: "8 \<le> tj_bpf j" "14 \<le> sk_len ?m" "qos_active (txd ?d) \<noteq> 0" using j(2) f(2) dev(5,6) by simp_all
  have a1: "th_addr1 (tj_header j) = [0, 9, 9, 9, 9, 9]"
    using tx_plan_ok(7)[OF j(1) e(1,3) dev(1) key dev(2) _ b(1)] b(2) by (simp add: dev tx_addresses_def)
  have "\<not> is_broadcast_ether_addr [0, 9, 9, 9, 9, 9]" "\<not> is_multicast_ether_addr [0, 9, 9, 9, 9, 9]" by code_simp+
  then have mc: "\<not> tj_multicast j" using tx_plan_qos(2)[OF j(1) b(3)] a1 by simp
  have g: "GetTs (txd ?d) (th_addr1 (tj_header j)) (tj_priority j) TX_DIR True =
      Some (admit_new_ts ex_dev [0, 9, 9, 9, 9, 9] 0 TX_DIR (TxTs 0), Some (TxTs 0))"
    "TxCurSeq (TxTsRecord (admit_new_ts ex_dev [0, 9, 9, 9, 9, 9] 0 TX_DIR (TxTs 0)) ! node_index (TxTs 0)) < 4096"
    using ex_dev_bss by (simp_all only: a1 j(4) dev(5)) (simp add: node_index_def)
  obtain txb m1 d' where r: "tx_build 0x88b5 ?dst ?src 0 ?m ?d = Some (TX_DONE (Some txb), m1, 0, [0, 9, 9, 9, 9, 9], d')"
    "length (fragments txb) = 2"
    "\<forall>k < 2. frag_sc (fragments txb ! k) = Some (push_bit 4 ((0 + of_nat k) mod 4096) OR of_nat k)"
    using qos_fragments_renumbered[OF j(1) e(1,3) dev(1) key dev(2) b(1) dev(3,4) f(1) b(2,3) mc g] ex_dev_bss(2) j(3,4) a1
    by (auto simp: node_index_def)
  then have "fragments txb = [fragments txb ! 0, fragments txb ! 1]" by (intro nth_equalityI) (auto simp: less_2_cases_iff)
  moreover have "frag_sc (fragments txb ! 0) = Some 0" "frag_sc (fragments txb ! 1) = Some 0x11"
    using r(3) by simp_all
  ultimately have "map frag_sc (fragments txb) = [Some 0x0000, Some 0x0011]" by (metis list.simps(8,9))
  then show ?thesis using r(1) by (intro exI[of _ txb] exI[of _ m1] exI[of _ d'] conjI)
qed

end
