(* ===== verification/Tx_Ring.thy ===== *)
theory Tx_Ring
  imports Tx_Data Frame
begin

text \<open>
  The transmit descriptor rings of src/src/rtl_core.c with the descriptors of
  src/src/rtl8192e.c: nine rings of descriptors, each with the queue of the buffers in it.
  The space in front of a frame that the driver fills for the firmware is a record next to
  the frame, so the length of a buffer in a ring is that of its frame and the headroom.
\<close>

section \<open>State\<close>

abbreviation (input) BK_QUEUE :: nat where "BK_QUEUE \<equiv> 0"
abbreviation (input) BE_QUEUE :: nat where "BE_QUEUE \<equiv> 1"
abbreviation (input) VI_QUEUE :: nat where "VI_QUEUE \<equiv> 2"
abbreviation (input) VO_QUEUE :: nat where "VO_QUEUE \<equiv> 3"
abbreviation (input) HCCA_QUEUE :: nat where "HCCA_QUEUE \<equiv> 4"
abbreviation (input) TXCMD_QUEUE :: nat where "TXCMD_QUEUE \<equiv> 5"
abbreviation (input) MGNT_QUEUE :: nat where "MGNT_QUEUE \<equiv> 6"
abbreviation (input) HIGH_QUEUE :: nat where "HIGH_QUEUE \<equiv> 7"
abbreviation (input) BEACON_QUEUE :: nat where "BEACON_QUEUE \<equiv> 8"
abbreviation (input) MAX_TX_QUEUE_COUNT :: nat where "MAX_TX_QUEUE_COUNT \<equiv> 9"

text \<open>The information for the firmware and the descriptor; bit fields keep the width of the code.\<close>

record tx_fwinfo =
  fi_TxRate :: u8
  fi_CtsEnable :: bool
  fi_RtsRate :: u8
  fi_RtsEnable :: bool
  fi_TxHT :: bool
  fi_Short :: bool
  fi_TxBandwidth :: bool
  fi_TxSubCarrier :: u8
  fi_AllowAggregation :: bool
  fi_RtsHT :: bool
  fi_RtsShort :: bool
  fi_RtsSubcarrier :: u8
  fi_RtsSTBC :: bool
  fi_EnableCPUDur :: bool
  fi_RxMF :: u8
  fi_RxAMD :: u8

record tx_desc =
  OWN :: bool
  LINIP :: bool
  FirstSeg :: bool
  LastSeg :: bool
  CmdInit :: bool
  Offset :: u8
  PktSize :: u16
  TxFWInfoSize :: u8
  RATid :: u8
  DISFB :: bool
  USERATE :: bool
  NoEnc :: bool
  QueueSelect :: u8
  SecCAMID :: u8
  SecType :: u8
  TxBufferSize :: u16
  TxBuffAddr :: u32
  NextDescAddress :: u32

definition desc_zero :: tx_desc where
  "desc_zero = \<lparr>OWN = False, LINIP = False, FirstSeg = False, LastSeg = False, CmdInit = False, Offset = 0, PktSize = 0,
     TxFWInfoSize = 0, RATid = 0, DISFB = False, USERATE = False, NoEnc = False, QueueSelect = 0, SecCAMID = 0, SecType = 0,
     TxBufferSize = 0, TxBuffAddr = 0, NextDescAddress = 0\<rparr>"

text \<open>A buffer in a ring: the frame and what was filled in front of it, which commands do not have.\<close>

record tx_pkt =
  pk_frag :: tx_frag
  pk_fw :: "tx_fwinfo option"

record tx_ring =
  rg_desc :: "tx_desc list"
  rg_idx :: nat
  rg_entries :: nat
  rg_queue :: "tx_pkt list"

datatype key_type = KEY_TYPE_NA | KEY_TYPE_WEP40 | KEY_TYPE_WEP104 | KEY_TYPE_TKIP | KEY_TYPE_CCMP

text \<open>
  The device. \<open>dma_map\<close> is the address that the kernel gives a buffer, \<open>nic_alloc n\<close> the memory
  of an allocation of that size, or None. \<open>completed\<close> are the frames of each queue that the
  interrupt handler has freed after their transmission, \<open>discarded\<close> those that were freed unsent,
  \<open>tppoll\<close> the writes to the polling register, and \<open>tasklet\<close> says that the transmit tasklet
  is scheduled.
\<close>

record tx_nic =
  tx_rings :: "tx_ring list"
  skb_waitQ :: "tx_frag list list"
  queue_stop :: bool
  bHwRadioOff :: bool
  nic_up :: bool
  nic_headroom :: nat
  pairwise_key :: key_type
  bw_20_40 :: bool
  nCur40MhzPrimeSC :: u8
  dma_map :: "cskb \<Rightarrow> u32"
  nic_alloc :: "nat \<Rightarrow> u8 list option"
  txbytesunicast :: u64
  txbytesmulticast :: u64
  txbytesbroadcast :: u64
  stat_tx_bytes :: u64
  stat_tx_packets :: u64
  stat_multicast :: u64
  bAwakePktSent :: bool
  tasklet :: bool
  tppoll :: "u16 list"
  completed :: "tx_frag list list"
  discarded :: "tx_frag list"
  sta_sleep :: int
  ps_polling :: bool
  ack_tx_to_ieee :: bool
  null_data_ps :: bool
  mgnt_cck_6m :: bool
  nic_basic_rate :: u8
  nic_mode :: u32
  bCurSuppCCK :: bool
  nic_seq :: u16
  nic_bssid :: mac
  nic_addr :: mac
  assoc_id :: u16
  single_queue :: bool
  mgmt_queue_ring :: "tx_frag option list"
  mgmt_queue_head :: nat
  mgmt_queue_tail :: nat

section \<open>Rates\<close>

text \<open>The cases of the two switches, in the order of the code; the last row of the first is \<open>0x80 | 0x20\<close>.\<close>

definition mrate_cases :: "(u8 \<times> u8) list" where
  "mrate_cases =
     [(0x02, 0x00), (0x04, 0x01), (0x0b, 0x02), (0x16, 0x03), (0x0c, 0x04), (0x12, 0x05), (0x18, 0x06), (0x24, 0x07),
      (0x30, 0x08), (0x48, 0x09), (0x60, 0x0a), (0x6c, 0x0b),
      (0x80, 0x00), (0x81, 0x01), (0x82, 0x02), (0x83, 0x03), (0x84, 0x04), (0x85, 0x05), (0x86, 0x06), (0x87, 0x07),
      (0x88, 0x08), (0x89, 0x09), (0x8a, 0x0a), (0x8b, 0x0b), (0x8c, 0x0c), (0x8d, 0x0d), (0x8e, 0x0e), (0x8f, 0x0f),
      (0xa0, 0x20)]"

definition MRateToHwRate8190Pci :: "u8 \<Rightarrow> u8" where
  "MRateToHwRate8190Pci rate = (case map_of mrate_cases rate of Some r \<Rightarrow> r | None \<Rightarrow> 0x00)"

definition hwrate_cases :: "(u8 \<times> u8) list" where
  "hwrate_cases =
     [(0x00, 0x02), (0x01, 0x04), (0x02, 0x0b), (0x03, 0x16), (0x04, 0x0c), (0x05, 0x12), (0x06, 0x18), (0x07, 0x24),
      (0x08, 0x30), (0x09, 0x48), (0x0a, 0x60), (0x0b, 0x6c)]"

definition hwrate_ht_cases :: "(u8 \<times> u8) list" where
  "hwrate_ht_cases =
     [(0x00, 0x80), (0x01, 0x81), (0x02, 0x82), (0x03, 0x83), (0x04, 0x84), (0x05, 0x85), (0x06, 0x86), (0x07, 0x87),
      (0x08, 0x88), (0x09, 0x89), (0x0a, 0x8a), (0x0b, 0x8b), (0x0c, 0x8c), (0x0d, 0x8d), (0x0e, 0x8e), (0x0f, 0x8f),
      (0x20, 0xa0)]"

definition HwRateToMRate90 :: "bool \<Rightarrow> u8 \<Rightarrow> u8" where
  "HwRateToMRate90 bIsHT rate =
     (case map_of (if bIsHT then hwrate_ht_cases else hwrate_cases) rate of Some r \<Rightarrow> r | None \<Rightarrow> 0x02)"

definition QueryIsShort :: "bool \<Rightarrow> u8 \<Rightarrow> cb_desc \<Rightarrow> bool" where
  "QueryIsShort TxHT TxRate cb =
     (let s = (if TxHT then bUseShortGI cb else bUseShortPreamble cb)
      in if TxHT \<and> TxRate \<noteq> 0x0f then False else s)"

definition MapHwQueueToFirmwareQueue :: "nat \<Rightarrow> u8" where
  "MapHwQueueToFirmwareQueue q =
     (if q = BE_QUEUE then 0x00 else if q = BK_QUEUE then 0x01 else if q = VO_QUEUE then 0x06 else if q = VI_QUEUE then 0x04
      else if q = MGNT_QUEUE then 0x12 else if q = BEACON_QUEUE then 0x10 else if q = TXCMD_QUEUE then 0x13
      else if q = HIGH_QUEUE then 0x11 else 0x00)"

section \<open>Descriptors\<close>

definition fill_fwinfo :: "tx_nic \<Rightarrow> cb_desc \<Rightarrow> tx_fwinfo" where
  "fill_fwinfo d cb =
     (let TxHT = (data_rate cb AND 0x80 \<noteq> 0); TxRate = MRateToHwRate8190Pci (data_rate cb) AND 0x7f;
          RtsHT = (rts_rate cb AND 0x80 \<noteq> 0); agg = bAMPDUEnable cb
      in \<lparr>fi_TxRate = TxRate, fi_CtsEnable = bCTSEnable cb, fi_RtsRate = MRateToHwRate8190Pci (rts_rate cb) AND 0x7f,
          fi_RtsEnable = bRTSEnable cb, fi_TxHT = TxHT, fi_Short = QueryIsShort TxHT TxRate cb,
          fi_TxBandwidth = (bw_20_40 d \<and> bPacketBW cb),
          fi_TxSubCarrier = (if bw_20_40 d then if bPacketBW cb then 3 else nCur40MhzPrimeSC d AND 3 else 0),
          fi_AllowAggregation = agg, fi_RtsHT = RtsHT,
          fi_RtsShort = (if \<not> RtsHT then bRTSUseShortPreamble cb else bRTSUseShortGI cb),
          fi_RtsSubcarrier = RTSSC cb AND 3, fi_RtsSTBC = bRTSSTBC cb, fi_EnableCPUDur = bTxEnableFwCalcDur cb,
          fi_RxMF = (if agg then ampdu_factor cb AND 3 else 0), fi_RxAMD = (if agg then ampdu_density cb AND 7 else 0)\<rparr>)"

text \<open>The type of the encryption in the device, when the descriptor of the frame asks for it.\<close>

definition sec_type :: "key_type \<Rightarrow> u8" where
  "sec_type k = (case k of KEY_TYPE_WEP40 \<Rightarrow> 1 | KEY_TYPE_WEP104 \<Rightarrow> 1 | KEY_TYPE_TKIP \<Rightarrow> 2 | KEY_TYPE_CCMP \<Rightarrow> 3 | KEY_TYPE_NA \<Rightarrow> 0)"

text \<open>The first twelve bytes of the descriptor are cleared, the owner bit among them; the rest keeps its values.\<close>

definition rtl8192_tx_fill_desc :: "tx_nic \<Rightarrow> cb_desc \<Rightarrow> cskb \<Rightarrow> tx_desc \<Rightarrow> tx_desc \<times> tx_fwinfo" where
  "rtl8192_tx_fill_desc d cb s desc =
     (let sec = (if bHwSec cb then sec_type (pairwise_key d) else 0); len = of_nat (sk_len s + nic_headroom d)
      in (desc_zero\<lparr>CmdInit := True, Offset := 8 + 8, PktSize := len - 8, RATid := RATRIndex cb AND 7,
            NoEnc := (sec = 0), SecType := sec, QueueSelect := MapHwQueueToFirmwareQueue (unat (queue_index cb)),
            TxFWInfoSize := 8, DISFB := bTxDisableRateFallBack cb, USERATE := bTxUseDriverAssingedRate cb,
            FirstSeg := True, LastSeg := True, TxBufferSize := len,
            TxBuffAddr := dma_map d s, NextDescAddress := NextDescAddress desc\<rparr>,
          fill_fwinfo d cb))"

text \<open>A command: \<open>bCmdOrInit\<close> is false for the packets of the initialisation.\<close>

definition rtl8192_tx_fill_cmd_desc :: "tx_nic \<Rightarrow> cb_desc \<Rightarrow> cskb \<Rightarrow> tx_desc \<Rightarrow> tx_desc" where
  "rtl8192_tx_fill_cmd_desc d cb s entry =
     (let e0 = desc_zero\<lparr>NextDescAddress := NextDescAddress entry, LINIP := bLastIniPkt cb, FirstSeg := True, LastSeg := True\<rparr>;
          e1 = (if \<not> bCmdOrInit cb then e0\<lparr>CmdInit := False\<rparr>
                else e0\<lparr>CmdInit := True, Offset := 8 + 8, PktSize := pkt_size cb + 16, QueueSelect := 0x13,
                       TxFWInfoSize := 8, RATid := 0\<rparr>)
      in e1\<lparr>TxBufferSize := of_nat (sk_len s), TxBuffAddr := dma_map d s, OWN := True\<rparr>)"

section \<open>Rings\<close>

text \<open>A new ring. The addresses of the descriptors, of 32 bytes each, form a circle.\<close>

definition rtl8192_alloc_tx_desc_ring :: "u32 \<Rightarrow> nat \<Rightarrow> tx_ring" where
  "rtl8192_alloc_tx_desc_ring dma entries =
     \<lparr>rg_desc = map (\<lambda>i. desc_zero\<lparr>NextDescAddress := dma + of_nat ((i + 1) mod entries) * 32\<rparr>) [0..<entries],
      rg_idx = 0, rg_entries = entries, rg_queue = []\<rparr>"

text \<open>The subtraction is one of unsigned numbers of 32 bits.\<close>

definition check_nic_enough_desc :: "nat \<Rightarrow> tx_nic \<Rightarrow> bool" where
  "check_nic_enough_desc prio d =
     (let r = tx_rings d ! prio in 2 \<le> (of_nat (rg_entries r) - of_nat (length (rg_queue r)) :: u32))"

text \<open>All buffers of a ring are freed.\<close>

fun drain_loop :: "nat \<Rightarrow> tx_pkt list \<Rightarrow> nat \<Rightarrow> nat \<times> tx_frag list" where
  "drain_loop entries [] idx = (idx, [])"
| "drain_loop entries (p # ps) idx =
     (case drain_loop entries ps ((idx + 1) mod entries) of (i, fs) \<Rightarrow> (i, pk_frag p # fs))"

definition rtl8192_free_tx_ring :: "nat \<Rightarrow> tx_nic \<Rightarrow> tx_nic" where
  "rtl8192_free_tx_ring prio d =
     (let r = tx_rings d ! prio in
      case drain_loop (rg_entries r) (rg_queue r) (rg_idx r) of
        (i, fs) \<Rightarrow> d\<lparr>tx_rings := (tx_rings d)[prio := r\<lparr>rg_desc := [], rg_idx := i, rg_queue := []\<rparr>],
                    discarded := discarded d @ fs\<rparr>)"

text \<open>The reset leaves the owner bits of the descriptors as they are.\<close>

definition reset_ring :: "nat \<Rightarrow> tx_nic \<Rightarrow> tx_nic" where
  "reset_ring prio d =
     (let r = tx_rings d ! prio in
      if rg_desc r = [] then d
      else case drain_loop (rg_entries r) (rg_queue r) (rg_idx r) of
        (_, fs) \<Rightarrow> d\<lparr>tx_rings := (tx_rings d)[prio := r\<lparr>rg_idx := 0, rg_queue := []\<rparr>], discarded := discarded d @ fs\<rparr>)"

definition rtl8192_pci_resetdescring :: "tx_nic \<Rightarrow> tx_nic" where
  "rtl8192_pci_resetdescring d = fold reset_ring [0..<MAX_TX_QUEUE_COUNT] d"

text \<open>
  The interrupt handler of a queue. The loop ends at the first descriptor that the device
  still owns, and then the tasklet is not scheduled: the last component says whether the
  loop came to the end of the queue.
\<close>

fun isr_loop :: "bool \<Rightarrow> tx_ring \<Rightarrow> tx_pkt list \<Rightarrow> tx_ring \<times> tx_frag list \<times> bool" where
  "isr_loop beacon r [] = (r\<lparr>rg_queue := []\<rparr>, [], True)"
| "isr_loop beacon r (p # ps) =
     (if \<not> beacon \<and> OWN (rg_desc r ! rg_idx r) then (r\<lparr>rg_queue := p # ps\<rparr>, [], False)
      else case isr_loop beacon (if beacon then r else r\<lparr>rg_idx := (rg_idx r + 1) mod rg_entries r\<rparr>) ps of
        (r', fs, e) \<Rightarrow> (r', pk_frag p # fs, e))"

definition rtl8192_tx_isr :: "nat \<Rightarrow> tx_nic \<Rightarrow> tx_nic" where
  "rtl8192_tx_isr prio d =
     (let r = tx_rings d ! prio in
      case isr_loop (prio = BEACON_QUEUE) r (rg_queue r) of
        (r', fs, e) \<Rightarrow> d\<lparr>tx_rings := (tx_rings d)[prio := r'], completed := (completed d)[prio := completed d ! prio @ fs],
                       tasklet := (tasklet d \<or> e \<and> prio \<noteq> BEACON_QUEUE)\<rparr>)"

section \<open>Sending\<close>

definition count_bytes :: "mac \<Rightarrow> u64 \<Rightarrow> tx_nic \<Rightarrow> tx_nic" where
  "count_bytes a n d =
     (if is_multicast_ether_addr a then d\<lparr>txbytesmulticast := txbytesmulticast d + n\<rparr>
      else if is_broadcast_ether_addr a then d\<lparr>txbytesbroadcast := txbytesbroadcast d + n\<rparr>
      else d\<lparr>txbytesunicast := txbytesunicast d + n\<rparr>)"

text \<open>
  A frame goes behind the buffers that are in the ring, unless the device owns the descriptor
  there; then the length of the buffer comes back as the result.
\<close>

definition rtl8192_tx :: "tx_frag \<Rightarrow> tx_nic \<Rightarrow> (tx_nic \<times> int) option" where
  "rtl8192_tx f d = do {
     addr1 \<leftarrow> rdn (tf_skb f) 4 6;
     let q = unat (queue_index (tf_cb f));
     let len = sk_len (tf_skb f) + nic_headroom d;
     let d1 = count_bytes addr1 (of_nat len - 8) (d\<lparr>bAwakePktSent := True\<rparr>);
     let r = tx_rings d1 ! q;
     let idx = (if q \<noteq> BEACON_QUEUE then (rg_idx r + length (rg_queue r)) mod rg_entries r else 0);
     if OWN (rg_desc r ! idx) \<and> q \<noteq> BEACON_QUEUE then Some (d1, sint (of_nat len :: 16 word))
     else
       let (desc, fw) = rtl8192_tx_fill_desc d1 (tf_cb f) (tf_skb f) (rg_desc r ! idx);
           r' = r\<lparr>rg_desc := (rg_desc r)[idx := desc\<lparr>OWN := True\<rparr>], rg_queue := rg_queue r @ [\<lparr>pk_frag = f, pk_fw = Some fw\<rparr>]\<rparr>
       in Some (d1\<lparr>tx_rings := (tx_rings d1)[q := r'], tppoll := tppoll d1 @ [push_bit q 1]\<rparr>, 0) }"

definition rtl819xE_tx_cmd :: "tx_frag \<Rightarrow> tx_nic \<Rightarrow> tx_nic" where
  "rtl819xE_tx_cmd f d =
     (let r = tx_rings d ! TXCMD_QUEUE; idx = (rg_idx r + length (rg_queue r)) mod rg_entries r;
          r' = r\<lparr>rg_desc := (rg_desc r)[idx := rtl8192_tx_fill_cmd_desc d (tf_cb f) (tf_skb f) (rg_desc r ! idx)],
                 rg_queue := rg_queue r @ [\<lparr>pk_frag = f, pk_fw = None\<rparr>]\<rparr>
      in d\<lparr>tx_rings := (tx_rings d)[TXCMD_QUEUE := r'], tppoll := tppoll d @ [0x20]\<rparr>)"

text \<open>
  Data frames. None is a fault: no headroom for the information in front of the frame, or the
  statistics, which read the length of a buffer that was freed when the ring did not take it.
\<close>

definition rtl8192_hard_data_xmit :: "tx_frag \<Rightarrow> tx_nic \<Rightarrow> tx_nic option" where
  "rtl8192_hard_data_xmit f d =
     (if bHwRadioOff d \<or> \<not> nic_up d then Some (d\<lparr>discarded := discarded d @ [f]\<rparr>)
      else if sk_headroom (tf_skb f) < nic_headroom d then None
      else do {
        (d1, ret) \<leftarrow> rtl8192_tx f d;
        let data = unat (queue_index (tf_cb f)) \<noteq> MGNT_QUEUE;
        if ret \<noteq> 0 then (if data then None else Some (d1\<lparr>discarded := discarded d1 @ [f]\<rparr>))
        else if data then Some (d1\<lparr>stat_tx_bytes := stat_tx_bytes d1 + of_nat (sk_len (tf_skb f)), stat_tx_packets := stat_tx_packets d1 + 1\<rparr>)
        else Some d1 })"

text \<open>Management frames and commands.\<close>

definition rtl8192_hard_start_xmit :: "tx_frag \<Rightarrow> tx_nic \<Rightarrow> (tx_nic \<times> int) option" where
  "rtl8192_hard_start_xmit f d =
     (let q = unat (queue_index (tf_cb f)) in
      if q \<noteq> TXCMD_QUEUE \<and> (bHwRadioOff d \<or> \<not> nic_up d) then Some (d\<lparr>discarded := discarded d @ [f]\<rparr>, 0)
      else if q = TXCMD_QUEUE then Some (rtl819xE_tx_cmd f d, 0)
      else if sk_headroom (tf_skb f) < nic_headroom d then None
      else do {
        let f1 = f\<lparr>tf_cb := (tf_cb f)\<lparr>RATRIndex := 7, bTxDisableRateFallBack := True, bTxUseDriverAssingedRate := True,
                   bTxEnableFwCalcDur := True\<rparr>\<rparr>;
        (d1, ret) \<leftarrow> rtl8192_tx f1 d;
        Some (if ret \<noteq> 0 then d1\<lparr>discarded := discarded d1 @ [f1]\<rparr> else d1, ret) })"

end
