(* ===== verification/Tx_Queue.thy ===== *)
theory Tx_Queue
  imports Tx_Ring Tx_Path
begin

text \<open>
  The queues in front of the rings: the softmac's part in src/src/rtllib_softmac.c, which
  sends a frame at once or lets it wait, the tasklet and the interrupt handler of
  src/src/rtl_core.c, which take the waiting frames further, and the events of a run.
  None is a fault of the driver.
\<close>

section \<open>Management frames\<close>

definition MgntQuery_MgntFrameTxRate :: "tx_nic \<Rightarrow> u8" where
  "MgntQuery_MgntFrameTxRate d =
     (let rate = (if mgnt_cck_6m d then 0x0c else nic_basic_rate d AND 0x7f)
      in if rate = 0
         then if nic_mode d = 0x01 \<or> nic_mode d = 0x20 \<or> (nic_mode d = 0x10 \<and> \<not> bCurSuppCCK d) then 0x0c else 0x02
         else rate)"

definition mgmt_desc :: "nat \<Rightarrow> tx_nic \<Rightarrow> tx_frag \<Rightarrow> tx_frag" where
  "mgmt_desc q d f =
     f\<lparr>tf_cb := (tf_cb f)\<lparr>queue_index := of_nat q, data_rate := MgntQuery_MgntFrameTxRate d, RATRIndex := 7,
                        bTxDisableRateFallBack := True, bTxUseDriverAssingedRate := True\<rparr>\<rparr>"

text \<open>The sequence number is written into the header and the counter goes on.\<close>

definition stamp_seq :: "tx_frag \<Rightarrow> tx_nic \<Rightarrow> (tx_frag \<times> tx_nic) option" where
  "stamp_seq f d =
     (if 24 \<le> length (sk_mem (tf_skb f))
      then Some (f\<lparr>tf_skb := wr 22 (put16 (push_bit 4 (nic_seq d))) (tf_skb f)\<rparr>,
                 d\<lparr>nic_seq := (if nic_seq d = 0xFFF then 0 else nic_seq d + 1)\<rparr>)
      else None)"

text \<open>The ring of waiting management frames that is used with a single queue.\<close>

abbreviation (input) MGMT_QUEUE_NUM :: nat where "MGMT_QUEUE_NUM \<equiv> 5"

definition enqueue_mgmt :: "tx_frag \<Rightarrow> tx_nic \<Rightarrow> tx_nic" where
  "enqueue_mgmt f d =
     (let nh = (mgmt_queue_head d + 1) mod MGMT_QUEUE_NUM
      in d\<lparr>mgmt_queue_head := nh, mgmt_queue_ring := (mgmt_queue_ring d)[nh := Some f]\<rparr>)"

definition dequeue_mgmt :: "tx_nic \<Rightarrow> tx_frag option \<times> tx_nic" where
  "dequeue_mgmt d =
     (if mgmt_queue_tail d = mgmt_queue_head d then (None, d)
      else (mgmt_queue_ring d ! mgmt_queue_tail d, d\<lparr>mgmt_queue_tail := (mgmt_queue_tail d + 1) mod MGMT_QUEUE_NUM\<rparr>))"

definition init_mgmt_queue :: "tx_nic \<Rightarrow> tx_nic" where
  "init_mgmt_queue d = d\<lparr>mgmt_queue_head := 0, mgmt_queue_tail := 0\<rparr>"

section \<open>Power save\<close>

definition mgmt_buffer :: "nat \<Rightarrow> tx_nic \<Rightarrow> u8 list \<Rightarrow> tx_frag option" where
  "mgmt_buffer n d bs =
     (case nic_alloc d (n + nic_headroom d) of
        None \<Rightarrow> None
      | Some mem \<Rightarrow> map_option (\<lambda>s. (empty_frag [])\<lparr>tf_skb := s\<rparr>)
          (put_bytes bs (skb_reserve (nic_headroom d) \<lparr>sk_mem = mem, sk_len = 0, sk_headroom = 0\<rparr>)))"

text \<open>Duration and sequence control are left as the allocation has them; here they are 0.\<close>

definition rtllib_null_func :: "bool \<Rightarrow> tx_nic \<Rightarrow> tx_frag option" where
  "rtllib_null_func pwr d =
     mgmt_buffer RTLLIB_3ADDR_LEN d
       (put16 (0x0008 OR 0x0040 OR 0x0100 OR (if pwr then 0x1000 else 0)) @ put16 0 @ nic_bssid d @ nic_addr d @ nic_bssid d @ put16 0)"

definition rtllib_pspoll_func :: "tx_nic \<Rightarrow> tx_frag option" where
  "rtllib_pspoll_func d =
     mgmt_buffer 16 d (put16 (0x0004 OR 0x00A0 OR 0x1000) @ put16 (assoc_id d OR 0xc000) @ nic_bssid d @ nic_addr d)"

definition softmac_ps_mgmt_xmit :: "tx_frag \<Rightarrow> tx_nic \<Rightarrow> tx_nic option" where
  "softmac_ps_mgmt_xmit f d = do {
     fc \<leftarrow> rd16 (tf_skb f) 0;
     let f1 = mgmt_desc (if WLAN_FC_GET_STYPE fc \<noteq> 0x00A0 then MGNT_QUEUE else HIGH_QUEUE) d f;
     (f2, d1) \<leftarrow> (if WLAN_FC_GET_TYPE fc \<noteq> 0x0004 then stamp_seq f1 d else Some (f1, d));
     if single_queue d then rtl8192_hard_data_xmit f2 d1
     else map_option fst (rtl8192_hard_start_xmit f2 d1) }"

definition rtllib_sta_ps_send_null_frame :: "bool \<Rightarrow> tx_nic \<Rightarrow> tx_nic option" where
  "rtllib_sta_ps_send_null_frame pwr d = (case rtllib_null_func pwr d of None \<Rightarrow> Some d | Some f \<Rightarrow> softmac_ps_mgmt_xmit f d)"

definition rtllib_sta_ps_send_pspoll_frame :: "tx_nic \<Rightarrow> tx_nic option" where
  "rtllib_sta_ps_send_pspoll_frame d = (case rtllib_pspoll_func d of None \<Rightarrow> Some d | Some f \<Rightarrow> softmac_ps_mgmt_xmit f d)"

definition rtllib_sta_wakeup :: "bool \<Rightarrow> tx_nic \<Rightarrow> tx_nic option" where
  "rtllib_sta_wakeup nl d =
     (if sta_sleep d = 0 then
        if nl then
          if null_data_ps d then rtllib_sta_ps_send_null_frame False (d\<lparr>ack_tx_to_ieee := True\<rparr>)
          else rtllib_sta_ps_send_pspoll_frame (d\<lparr>ack_tx_to_ieee := True\<rparr>)
        else Some d
      else if nl then
        if null_data_ps d then rtllib_sta_ps_send_null_frame False (d\<lparr>ack_tx_to_ieee := True\<rparr>)
        else rtllib_sta_ps_send_pspoll_frame (d\<lparr>ack_tx_to_ieee := True, ps_polling := True\<rparr>)
      else Some (d\<lparr>sta_sleep := 0, ps_polling := False\<rparr>))"

definition rtllib_ps_tx_ack :: "bool \<Rightarrow> tx_nic \<Rightarrow> tx_nic option" where
  "rtllib_ps_tx_ack success d =
     (if sta_sleep d = 2 then Some (if success then d\<lparr>sta_sleep := 1\<rparr> else d)
      else if sta_sleep d = 0 \<and> \<not> success then
        if null_data_ps d then rtllib_sta_ps_send_null_frame False d else rtllib_sta_ps_send_pspoll_frame d
      else Some d)"

section \<open>Send or wait\<close>

definition softmac_mgmt_xmit :: "tx_frag \<Rightarrow> tx_nic \<Rightarrow> tx_nic option" where
  "softmac_mgmt_xmit f d0 = do {
     d \<leftarrow> rtllib_sta_wakeup False d0;
     let f1 = mgmt_desc MGNT_QUEUE d f;
     if single_queue d then
       if queue_stop d then Some (enqueue_mgmt f1 d)
       else do {
         (f2, d1) \<leftarrow> stamp_seq f1 d;
         rtl8192_hard_data_xmit f2 d1 }
     else do {
       (f2, d1) \<leftarrow> stamp_seq f1 d;
       if \<not> check_nic_enough_desc MGNT_QUEUE d1 \<or> skb_waitQ d1 ! MGNT_QUEUE \<noteq> [] \<or> queue_stop d1
       then Some (d1\<lparr>skb_waitQ := (skb_waitQ d1)[MGNT_QUEUE := skb_waitQ d1 ! MGNT_QUEUE @ [f2]]\<rparr>)
       else map_option fst (rtl8192_hard_start_xmit f2 d1) } }"

text \<open>One fragment of a frame. Behind 200 waiting ones it is dropped.\<close>

definition softmac_frag :: "nat \<Rightarrow> tx_frag \<Rightarrow> tx_nic \<Rightarrow> tx_nic option" where
  "softmac_frag q f d =
     (let w = skb_waitQ d ! q in
      if w \<noteq> [] \<or> \<not> check_nic_enough_desc q d \<or> queue_stop d then
        Some (if length w < 200 then d\<lparr>skb_waitQ := (skb_waitQ d)[q := w @ [f]]\<rparr> else d\<lparr>discarded := discarded d @ [f]\<rparr>)
      else rtl8192_hard_data_xmit f d)"

fun softmac_frags :: "nat \<Rightarrow> tx_frag list \<Rightarrow> tx_nic \<Rightarrow> tx_nic option" where
  "softmac_frags q [] d = Some d"
| "softmac_frags q (f # fs) d = do { d1 \<leftarrow> softmac_frag q f d; softmac_frags q fs d1 }"

definition rtllib_softmac_xmit :: "rtllib_txb \<Rightarrow> tx_nic \<Rightarrow> tx_nic option" where
  "rtllib_softmac_xmit txb d = do {
     d1 \<leftarrow> rtllib_sta_wakeup False d;
     softmac_frags (unat (txb_queue_index txb)) (fragments txb)
       (if bMulticast (tf_cb (fragments txb ! 0)) then d1\<lparr>stat_multicast := stat_multicast d1 + 1\<rparr> else d1) }"

text \<open>
  The queue as a whole. Waking it up sends the frames of the management ring; the ring has
  five places, so five rounds are enough. Nothing sets \<open>tx_pending\<close>, so its branch is left out.
\<close>

definition rtllib_stop_queue :: "tx_nic \<Rightarrow> tx_nic" where
  "rtllib_stop_queue d = d\<lparr>queue_stop := True\<rparr>"

definition rtllib_reset_queue :: "tx_nic \<Rightarrow> tx_nic" where
  "rtllib_reset_queue d = (init_mgmt_queue d)\<lparr>queue_stop := False\<rparr>"

fun wake_loop :: "nat \<Rightarrow> tx_nic \<Rightarrow> tx_nic option" where
  "wake_loop 0 d = Some d"
| "wake_loop (Suc n) d =
     (case dequeue_mgmt d of
        (None, d1) \<Rightarrow> Some d1
      | (Some f, d1) \<Rightarrow> do {
          (f2, d2) \<leftarrow> stamp_seq f d1;
          d3 \<leftarrow> rtl8192_hard_data_xmit f2 d2;
          wake_loop n d3 })"

definition rtllib_wake_queue :: "tx_nic \<Rightarrow> tx_nic option" where
  "rtllib_wake_queue d =
     (if \<not> queue_stop d then Some d
      else let d1 = d\<lparr>queue_stop := False\<rparr> in if single_queue d then wake_loop MGMT_QUEUE_NUM d1 else Some d1)"

section \<open>Tasklet and interrupts\<close>

text \<open>Waiting frames are taken while the ring has room; the first argument is the queue they wait in.\<close>

fun resume_loop :: "nat \<Rightarrow> tx_frag list \<Rightarrow> tx_nic \<Rightarrow> tx_nic option" where
  "resume_loop q [] d = Some (d\<lparr>skb_waitQ := (skb_waitQ d)[q := []]\<rparr>)"
| "resume_loop q (f # w) d =
     (if check_nic_enough_desc q d then do { d1 \<leftarrow> rtl8192_hard_data_xmit f d; resume_loop q w d1 }
      else Some (d\<lparr>skb_waitQ := (skb_waitQ d)[q := f # w]\<rparr>))"

definition resume_queue :: "nat \<Rightarrow> tx_nic \<Rightarrow> tx_nic option" where
  "resume_queue q d = resume_loop q (skb_waitQ d ! q) d"

fun resume_queues :: "nat list \<Rightarrow> tx_nic \<Rightarrow> tx_nic option" where
  "resume_queues [] d = Some d"
| "resume_queues (q # qs) d = do { d1 \<leftarrow> resume_queue q d; resume_queues qs d1 }"

definition rtl8192_tx_resume :: "tx_nic \<Rightarrow> tx_nic option" where
  "rtl8192_tx_resume d = resume_queues [BK_QUEUE..<TXCMD_QUEUE] d"

definition rtl8192_irq_tx_tasklet :: "tx_nic \<Rightarrow> tx_nic option" where
  "rtl8192_irq_tx_tasklet d = (if tasklet d then rtl8192_tx_resume (d\<lparr>tasklet := False\<rparr>) else Some d)"

definition rtl8192_is_tx_queue_empty :: "tx_nic \<Rightarrow> bool" where
  "rtl8192_is_tx_queue_empty d \<longleftrightarrow>
     (\<forall>i \<in> set [0..<MGNT_QUEUE + 1]. i = TXCMD_QUEUE \<or> i = HCCA_QUEUE \<or> rg_queue (tx_rings d ! i) = [])"

text \<open>The interrupt handler: beacon, management with its acknowledgement, command and high queue, then the data queues.\<close>

definition when_bit :: "u32 \<Rightarrow> u32 \<Rightarrow> (tx_nic \<Rightarrow> tx_nic) \<Rightarrow> tx_nic \<Rightarrow> tx_nic" where
  "when_bit inta m f d = (if inta AND m \<noteq> 0 then f d else d)"

definition tx_irq_mgmt :: "u32 \<Rightarrow> tx_nic \<Rightarrow> tx_nic option" where
  "tx_irq_mgmt inta d = do {
     let d1 = when_bit inta 0x200 (rtl8192_tx_isr BEACON_QUEUE) d;
     d2 \<leftarrow> (if inta AND 0x40 = 0 then Some d1
            else let d' = rtl8192_tx_isr MGNT_QUEUE d1
                 in if ack_tx_to_ieee d' \<and> rtl8192_is_tx_queue_empty d'
                    then rtllib_ps_tx_ack True (d'\<lparr>ack_tx_to_ieee := False\<rparr>) else Some d');
     Some (when_bit inta 0x100 (rtl8192_tx_isr HIGH_QUEUE) (when_bit inta 0x80 (rtl8192_tx_isr TXCMD_QUEUE) d2)) }"

definition tx_irq_data :: "u32 \<Rightarrow> tx_nic \<Rightarrow> tx_nic" where
  "tx_irq_data inta d =
     when_bit inta 0x02 (rtl8192_tx_isr VO_QUEUE) (when_bit inta 0x04 (rtl8192_tx_isr VI_QUEUE)
       (when_bit inta 0x08 (rtl8192_tx_isr BE_QUEUE) (when_bit inta 0x10 (rtl8192_tx_isr BK_QUEUE) d)))"

definition tx_interrupt :: "u32 \<Rightarrow> tx_nic \<Rightarrow> tx_nic option" where
  "tx_interrupt inta d = map_option (tx_irq_data inta) (tx_irq_mgmt inta d)"

section \<open>Runs\<close>

text \<open>
  The device takes the descriptors of a ring in order: it gives back the first one that it
  still owns. A run is any sequence of frames of the stack, management frames, progress of
  the device on a queue, interrupts, and rounds of the tasklet.
\<close>

definition ring_slot :: "tx_ring \<Rightarrow> nat \<Rightarrow> nat" where
  "ring_slot r k = (rg_idx r + k) mod rg_entries r"

definition hw_complete :: "nat \<Rightarrow> tx_nic \<Rightarrow> tx_nic" where
  "hw_complete q d =
     (let r = tx_rings d ! q in
      case List.find (\<lambda>k. OWN (rg_desc r ! ring_slot r k)) [0..<length (rg_queue r)] of
        None \<Rightarrow> d
      | Some k \<Rightarrow> d\<lparr>tx_rings := (tx_rings d)[q := r\<lparr>rg_desc := (rg_desc r)[ring_slot r k := (rg_desc r ! ring_slot r k)\<lparr>OWN := False\<rparr>]\<rparr>]\<rparr>)"

datatype nic_event = Ev_xmit rtllib_txb | Ev_mgmt tx_frag | Ev_hw nat | Ev_irq u32 | Ev_tasklet

fun nic_step :: "nic_event \<Rightarrow> tx_nic \<Rightarrow> tx_nic option" where
  "nic_step (Ev_xmit txb) d = rtllib_softmac_xmit txb d"
| "nic_step (Ev_mgmt f) d = softmac_mgmt_xmit f d"
| "nic_step (Ev_hw q) d = Some (hw_complete q d)"
| "nic_step (Ev_irq inta) d = tx_interrupt inta d"
| "nic_step Ev_tasklet d = rtl8192_irq_tx_tasklet d"

fun nic_run :: "nic_event list \<Rightarrow> tx_nic \<Rightarrow> tx_nic option" where
  "nic_run [] d = Some d"
| "nic_run (e # es) d = do { d1 \<leftarrow> nic_step e d; nic_run es d1 }"

end
