(* ===== verification/Tx_Ring_Spec.thy ===== *)
theory Tx_Ring_Spec
  imports Tx_Queue
begin

text \<open>
  The invariant of the transmit rings and what each operation does to one queue: the frames
  it has finished, those in its ring and those that wait.
\<close>

section \<open>Rings\<close>

text \<open>
  The device owns only descriptors of buffers that are in the ring, and one descriptor is free.
\<close>

definition ring_ok :: "tx_ring \<Rightarrow> bool" where
  "ring_ok r \<longleftrightarrow> 2 \<le> rg_entries r \<and> rg_entries r < 2 ^ 31 \<and> length (rg_desc r) = rg_entries r \<and> rg_idx r < rg_entries r \<and>
     length (rg_queue r) < rg_entries r \<and>
     (\<forall>k < rg_entries r. length (rg_queue r) \<le> k \<longrightarrow> \<not> OWN (rg_desc r ! ring_slot r k))"

lemma mod_shift_inj:
  assumes "(i + k) mod n = (i + l) mod n" "k < n" "l < (n :: nat)"
  shows "k = l"
proof -
  have "a = b" if "(i + a) mod n = (i + b) mod n" "a \<le> b" "b < n" for a b :: nat
  proof -
    have "n dvd (i + b) - (i + a)" using that(1,2) mod_eq_dvd_iff_nat[of "i + a" "i + b" n] by simp
    then show "a = b" using that(2,3) nat_dvd_not_less[of "b - a" n] by (cases "b = a") auto
  qed
  then show ?thesis using assms by (metis le_cases)
qed

lemma slot_inj: "ring_slot r k = ring_slot r l \<Longrightarrow> k < rg_entries r \<Longrightarrow> l < rg_entries r \<Longrightarrow> k = l"
  unfolding ring_slot_def by (rule mod_shift_inj)

lemma slot_less [simp]: "ring_ok r \<Longrightarrow> ring_slot r k < rg_entries r"
  by (simp add: ring_ok_def ring_slot_def)

text \<open>A buffer behind the others, and the first one taken away.\<close>

lemma ring_push:
  assumes "ring_ok r" "length (rg_queue r) + 2 \<le> rg_entries r"
  shows "\<not> OWN (rg_desc r ! ring_slot r (length (rg_queue r)))"
    "ring_ok (r\<lparr>rg_desc := (rg_desc r)[ring_slot r (length (rg_queue r)) := x], rg_queue := rg_queue r @ [p]\<rparr>)"
proof -
  show "\<not> OWN (rg_desc r ! ring_slot r (length (rg_queue r)))" using assms by (simp add: ring_ok_def)
  have "\<not> OWN ((rg_desc r)[ring_slot r (length (rg_queue r)) := x] ! ring_slot r k)" if "k < rg_entries r" "length (rg_queue r) < k" for k
    using assms that slot_inj[of r "length (rg_queue r)" k] by (auto simp: ring_ok_def nth_list_update)
  then show "ring_ok (r\<lparr>rg_desc := (rg_desc r)[ring_slot r (length (rg_queue r)) := x], rg_queue := rg_queue r @ [p]\<rparr>)"
    using assms by (auto simp: ring_ok_def ring_slot_def)
qed

lemma ring_pop:
  assumes "ring_ok r" "rg_queue r = p # ps" "\<not> OWN (rg_desc r ! rg_idx r)"
  shows "ring_ok (r\<lparr>rg_idx := (rg_idx r + 1) mod rg_entries r, rg_queue := ps\<rparr>)"
proof -
  let ?r = "r\<lparr>rg_idx := (rg_idx r + 1) mod rg_entries r, rg_queue := ps\<rparr>"
  have slot: "ring_slot ?r k = ring_slot r (Suc k)" for k by (simp add: ring_slot_def mod_simps)
  have "\<not> OWN (rg_desc r ! ring_slot ?r k)" if "k < rg_entries r" "length ps \<le> k" for k
  proof (cases "Suc k = rg_entries r")
    case True
    then have "ring_slot r (Suc k) = rg_idx r" using assms(1) by (simp add: ring_slot_def ring_ok_def)
    then show ?thesis using assms(3) slot by simp
  next
    case False
    then have "Suc k < rg_entries r" "length (rg_queue r) \<le> Suc k" using that assms(2) by simp_all
    then show ?thesis using assms(1) slot by (simp add: ring_ok_def)
  qed
  then show ?thesis using assms by (auto simp: ring_ok_def)
qed

text \<open>What the handler of an interrupt takes is a front part of the queue.\<close>

lemma isr_loop_ok:
  "ring_ok (r\<lparr>rg_queue := ps\<rparr>) \<Longrightarrow> isr_loop False r ps = (r', fs, e) \<Longrightarrow>
     ring_ok r' \<and> map pk_frag ps = fs @ map pk_frag (rg_queue r') \<and> rg_entries r' = rg_entries r \<and> (e \<longleftrightarrow> rg_queue r' = []) \<and>
     rg_desc r' = rg_desc r"
proof (induction ps arbitrary: r fs)
  case Nil
  then show ?case by auto
next
  case (Cons p ps)
  show ?case
  proof (cases "OWN (rg_desc r ! rg_idx r)")
    case True
    then show ?thesis using Cons.prems by auto
  next
    case False
    let ?r = "r\<lparr>rg_idx := (rg_idx r + 1) mod rg_entries r\<rparr>"
    obtain fs' where fs: "isr_loop False ?r ps = (r', fs', e)" "fs = pk_frag p # fs'"
      using Cons.prems(2) False by (auto split: prod.splits)
    have "ring_ok ((r\<lparr>rg_queue := p # ps\<rparr>)\<lparr>rg_idx := (rg_idx r + 1) mod rg_entries r, rg_queue := ps\<rparr>)"
      using ring_pop[OF Cons.prems(1), of p ps] False by simp
    then have "ring_ok (?r\<lparr>rg_queue := ps\<rparr>)" by simp
    from Cons.IH[OF this fs(1)] show ?thesis using fs(2) by auto
  qed
qed

lemma ring_disown:
  assumes "ring_ok r"
  shows "ring_ok (r\<lparr>rg_desc := (rg_desc r)[i := (rg_desc r ! i)\<lparr>OWN := False\<rparr>]\<rparr>)"
proof -
  have "\<not> OWN ((rg_desc r)[i := (rg_desc r ! i)\<lparr>OWN := False\<rparr>] ! j)" if "\<not> OWN (rg_desc r ! j)" "j < rg_entries r" for j
    using that assms by (cases "i = j") (auto simp: ring_ok_def)
  then show ?thesis using assms by (auto simp: ring_ok_def ring_slot_def)
qed

section \<open>One queue at a time\<close>

text \<open>Nothing but the queue q changes, and there the ring, the finished and the waiting frames are the given ones.\<close>

definition at_queue :: "nat \<Rightarrow> tx_nic \<Rightarrow> tx_nic \<Rightarrow> tx_ring \<Rightarrow> tx_frag list \<Rightarrow> tx_frag list \<Rightarrow> bool" where
  "at_queue q d d' r c w \<longleftrightarrow>
     tx_rings d' = (tx_rings d)[q := r] \<and> completed d' = (completed d)[q := c] \<and> skb_waitQ d' = (skb_waitQ d)[q := w] \<and>
     nic_headroom d' = nic_headroom d \<and> single_queue d' = single_queue d \<and> bHwRadioOff d' = bHwRadioOff d \<and> nic_up d' = nic_up d"

definition radio_on :: "tx_nic \<Rightarrow> bool" where
  "radio_on d \<longleftrightarrow> \<not> bHwRadioOff d \<and> nic_up d"

definition packet_ok :: "nat \<Rightarrow> nat \<Rightarrow> tx_frag \<Rightarrow> bool" where
  "packet_ok h q f \<longleftrightarrow> h \<le> sk_headroom (tf_skb f) \<and> 10 \<le> length (sk_mem (tf_skb f)) \<and> unat (queue_index (tf_cb f)) = q"

lemma count_bytes_frame [simp]:
  "tx_rings (count_bytes a n d) = tx_rings d" "completed (count_bytes a n d) = completed d" "skb_waitQ (count_bytes a n d) = skb_waitQ d"
  "nic_headroom (count_bytes a n d) = nic_headroom d" "single_queue (count_bytes a n d) = single_queue d"
  "bHwRadioOff (count_bytes a n d) = bHwRadioOff d" "nic_up (count_bytes a n d) = nic_up d"
  "tasklet (count_bytes a n d) = tasklet d" "discarded (count_bytes a n d) = discarded d" "queue_stop (count_bytes a n d) = queue_stop d"
  by (simp_all add: count_bytes_def)

lemma enough_desc:
  assumes "ring_ok (tx_rings d ! q)"
  shows "check_nic_enough_desc q d \<longleftrightarrow> length (rg_queue (tx_rings d ! q)) + 2 \<le> rg_entries (tx_rings d ! q)"
proof -
  let ?r = "tx_rings d ! q"
  have "rg_entries ?r < 2 ^ 32" "length (rg_queue ?r) < 2 ^ 32" "length (rg_queue ?r) \<le> rg_entries ?r"
    using assms by (auto simp: ring_ok_def)
  then have "unat (of_nat (rg_entries ?r) - of_nat (length (rg_queue ?r)) :: u32) = rg_entries ?r - length (rg_queue ?r)"
    by (simp add: unat_sub word_le_nat_alt unat_of_nat)
  then show ?thesis by (auto simp: check_nic_enough_desc_def Let_def word_le_nat_alt)
qed

lemma rtl8192_tx_ok:
  assumes "ring_ok (tx_rings d ! q)" "length (rg_queue (tx_rings d ! q)) + 2 \<le> rg_entries (tx_rings d ! q)" "q < length (tx_rings d)"
    and "unat (queue_index (tf_cb f)) = q" "q \<noteq> BEACON_QUEUE" "10 \<le> length (sk_mem (tf_skb f))"
  shows "\<exists>d' r. rtl8192_tx f d = Some (d', 0) \<and> ring_ok r \<and> map pk_frag (rg_queue r) = map pk_frag (rg_queue (tx_rings d ! q)) @ [f] \<and>
     rg_entries r = rg_entries (tx_rings d ! q) \<and> at_queue q d d' r (completed d ! q) (skb_waitQ d ! q) \<and>
     discarded d' = discarded d \<and> queue_stop d' = queue_stop d \<and> tasklet d' = tasklet d"
proof -
  let ?r = "tx_rings d ! q" and ?len = "of_nat (sk_len (tf_skb f) + nic_headroom d) :: u64"
  obtain a where a: "rdn (tf_skb f) 4 6 = Some a" using assms(6) by (simp add: rdn_def)
  let ?i = "ring_slot ?r (length (rg_queue ?r))" and ?d1 = "count_bytes a (?len - 8) (d\<lparr>bAwakePktSent := True\<rparr>)"
  obtain desc fw where fill: "rtl8192_tx_fill_desc ?d1 (tf_cb f) (tf_skb f) (rg_desc ?r ! ?i) = (desc, fw)" by fastforce
  let ?r' = "?r\<lparr>rg_desc := (rg_desc ?r)[?i := desc\<lparr>OWN := True\<rparr>], rg_queue := rg_queue ?r @ [\<lparr>pk_frag = f, pk_fw = Some fw\<rparr>]\<rparr>"
  have "rtl8192_tx f d = Some (?d1\<lparr>tx_rings := (tx_rings d)[q := ?r'], tppoll := tppoll ?d1 @ [push_bit q 1]\<rparr>, 0)"
    using a fill assms(4,5) ring_push(1)[OF assms(1,2)]
    by (simp add: rtl8192_tx_def Let_def ring_slot_def)
  moreover have "ring_ok ?r'" by (rule ring_push(2)[OF assms(1,2)])
  ultimately show ?thesis
    by (intro exI[of _ "?d1\<lparr>tx_rings := (tx_rings d)[q := ?r'], tppoll := tppoll ?d1 @ [push_bit q 1]\<rparr>"] exI[of _ ?r'])
       (simp add: at_queue_def)
qed

text \<open>A data frame that the ring has room for: it is in the ring when the radio is on.\<close>

lemma data_xmit_ok:
  assumes "ring_ok (tx_rings d ! q)" "length (rg_queue (tx_rings d ! q)) + 2 \<le> rg_entries (tx_rings d ! q)" "q < length (tx_rings d)"
    and "packet_ok (nic_headroom d) q f" "q \<noteq> BEACON_QUEUE"
  shows "\<exists>d' r. rtl8192_hard_data_xmit f d = Some d' \<and> ring_ok r \<and>
     map pk_frag (rg_queue r) = map pk_frag (rg_queue (tx_rings d ! q)) @ (if radio_on d then [f] else []) \<and>
     rg_entries r = rg_entries (tx_rings d ! q) \<and> at_queue q d d' r (completed d ! q) (skb_waitQ d ! q) \<and>
     queue_stop d' = queue_stop d \<and> tasklet d' = tasklet d"
proof (cases "radio_on d")
  case False
  then show ?thesis using assms(1)
    by (intro exI[of _ "d\<lparr>discarded := discarded d @ [f]\<rparr>"] exI[of _ "tx_rings d ! q"])
       (auto simp: rtl8192_hard_data_xmit_def at_queue_def radio_on_def)
next
  case True
  obtain d' r where r: "rtl8192_tx f d = Some (d', 0)" "ring_ok r" "map pk_frag (rg_queue r) = map pk_frag (rg_queue (tx_rings d ! q)) @ [f]"
    "rg_entries r = rg_entries (tx_rings d ! q)" "at_queue q d d' r (completed d ! q) (skb_waitQ d ! q)" "queue_stop d' = queue_stop d" "tasklet d' = tasklet d"
    using rtl8192_tx_ok[OF assms(1-3) _ assms(5), of f] assms(4) by (auto simp: packet_ok_def)
  let ?d = "if q \<noteq> MGNT_QUEUE then d'\<lparr>stat_tx_bytes := stat_tx_bytes d' + of_nat (sk_len (tf_skb f)), stat_tx_packets := stat_tx_packets d' + 1\<rparr> else d'"
  have "rtl8192_hard_data_xmit f d = Some ?d"
    using True r(1) assms(4) by (simp add: rtl8192_hard_data_xmit_def packet_ok_def radio_on_def)
  then show ?thesis using True r by (intro exI[of _ ?d] exI[of _ r]) (auto simp: at_queue_def)
qed

lemma start_xmit_ok:
  assumes "ring_ok (tx_rings d ! q)" "length (rg_queue (tx_rings d ! q)) + 2 \<le> rg_entries (tx_rings d ! q)" "q < length (tx_rings d)"
    and "packet_ok (nic_headroom d) q f" "q \<noteq> BEACON_QUEUE" "q \<noteq> TXCMD_QUEUE"
  shows "\<exists>d' r. rtl8192_hard_start_xmit f d = Some (d', 0) \<and> ring_ok r \<and> rg_entries r = rg_entries (tx_rings d ! q) \<and>
     at_queue q d d' r (completed d ! q) (skb_waitQ d ! q)"
proof (cases "radio_on d")
  case False
  then show ?thesis using assms(1,4,6)
    by (intro exI[of _ "d\<lparr>discarded := discarded d @ [f]\<rparr>"] exI[of _ "tx_rings d ! q"])
       (auto simp: rtl8192_hard_start_xmit_def at_queue_def packet_ok_def radio_on_def)
next
  case True
  let ?f = "f\<lparr>tf_cb := (tf_cb f)\<lparr>RATRIndex := 7, bTxDisableRateFallBack := True, bTxUseDriverAssingedRate := True, bTxEnableFwCalcDur := True\<rparr>\<rparr>"
  obtain d' r where r: "rtl8192_tx ?f d = Some (d', 0)" "ring_ok r"
    "rg_entries r = rg_entries (tx_rings d ! q)" "at_queue q d d' r (completed d ! q) (skb_waitQ d ! q)"
    using rtl8192_tx_ok[OF assms(1-3) _ assms(5), of ?f] assms(4) by (auto simp: packet_ok_def)
  have "rtl8192_hard_start_xmit f d = Some (d', 0)"
    using True r(1) assms(4,6) by (simp add: rtl8192_hard_start_xmit_def packet_ok_def radio_on_def)
  then show ?thesis using r by blast
qed

section \<open>The interrupt and the device\<close>

lemma tx_isr_ok:
  assumes "ring_ok (tx_rings d ! q)" "q \<noteq> BEACON_QUEUE"
  shows "\<exists>r fs. ring_ok r \<and> map pk_frag (rg_queue (tx_rings d ! q)) = fs @ map pk_frag (rg_queue r) \<and>
     rg_entries r = rg_entries (tx_rings d ! q) \<and> at_queue q d (rtl8192_tx_isr q d) r (completed d ! q @ fs) (skb_waitQ d ! q) \<and>
     tasklet (rtl8192_tx_isr q d) = (tasklet d \<or> rg_queue r = [])"
proof -
  let ?r = "tx_rings d ! q"
  obtain r fs e where l: "isr_loop False ?r (rg_queue ?r) = (r, fs, e)" by (metis surj_pair)
  have "ring_ok (?r\<lparr>rg_queue := rg_queue ?r\<rparr>)" using assms(1) by simp
  note ok = isr_loop_ok[OF this l]
  have "rtl8192_tx_isr q d = d\<lparr>tx_rings := (tx_rings d)[q := r], completed := (completed d)[q := completed d ! q @ fs],
      tasklet := (tasklet d \<or> e)\<rparr>"
    using l assms(2) by (simp add: rtl8192_tx_isr_def Let_def)
  then show ?thesis using ok by (intro exI[of _ r] exI[of _ fs]) (auto simp: at_queue_def)
qed

lemma hw_complete_ok:
  assumes "ring_ok (tx_rings d ! q)"
  shows "\<exists>r. ring_ok r \<and> rg_queue r = rg_queue (tx_rings d ! q) \<and> rg_entries r = rg_entries (tx_rings d ! q) \<and>
     at_queue q d (hw_complete q d) r (completed d ! q) (skb_waitQ d ! q) \<and> tasklet (hw_complete q d) = tasklet d"
proof -
  let ?r = "tx_rings d ! q"
  show ?thesis
  proof (cases "List.find (\<lambda>k. OWN (rg_desc ?r ! ring_slot ?r k)) [0..<length (rg_queue ?r)]")
    case None
    then show ?thesis using assms by (intro exI[of _ ?r]) (simp add: hw_complete_def at_queue_def)
  next
    case (Some k)
    let ?r' = "?r\<lparr>rg_desc := (rg_desc ?r)[ring_slot ?r k := (rg_desc ?r ! ring_slot ?r k)\<lparr>OWN := False\<rparr>]\<rparr>"
    show ?thesis
      by (rule exI[of _ ?r']) (simp add: hw_complete_def at_queue_def Some Let_def ring_disown[OF assms])
  qed
qed

section \<open>Waiting frames\<close>

lemma at_queue_trans:
  "at_queue q d d1 r1 c1 w1 \<Longrightarrow> at_queue q d1 d2 r2 c2 w2 \<Longrightarrow> at_queue q d d2 r2 c2 w2"
  by (simp add: at_queue_def)

text \<open>The tasklet moves a front part of the waiting frames to the end of the ring, all that there is room for.\<close>

lemma resume_loop_ok:
  assumes "q \<noteq> BEACON_QUEUE"
  shows "ring_ok (tx_rings d ! q) \<Longrightarrow> q < length (tx_rings d) \<Longrightarrow> q < length (skb_waitQ d) \<Longrightarrow> \<forall>f \<in> set w. packet_ok (nic_headroom d) q f \<Longrightarrow>
   \<exists>d' r sent w'. resume_loop q w d = Some d' \<and> ring_ok r \<and> rg_entries r = rg_entries (tx_rings d ! q) \<and> w = sent @ w' \<and>
     at_queue q d d' r (completed d ! q) w' \<and> tasklet d' = tasklet d \<and>
     map pk_frag (rg_queue r) = map pk_frag (rg_queue (tx_rings d ! q)) @ (if radio_on d then sent else []) \<and>
     (w' \<noteq> [] \<longrightarrow> rg_entries r < length (rg_queue r) + 2)"
proof (induction w arbitrary: d)
  case Nil
  then show ?case
    by (intro exI[of _ "d\<lparr>skb_waitQ := (skb_waitQ d)[q := []]\<rparr>"] exI[of _ "tx_rings d ! q"] exI[of _ "[]"]) (simp add: at_queue_def)
next
  case (Cons f w)
  show ?case
  proof (cases "check_nic_enough_desc q d")
    case False
    then show ?thesis using Cons.prems(1) enough_desc[OF Cons.prems(1)]
      by (intro exI[of _ "d\<lparr>skb_waitQ := (skb_waitQ d)[q := f # w]\<rparr>"] exI[of _ "tx_rings d ! q"] exI[of _ "[]"] exI[of _ "f # w"])
         (simp add: at_queue_def)
  next
    case True
    then have room: "length (rg_queue (tx_rings d ! q)) + 2 \<le> rg_entries (tx_rings d ! q)" using enough_desc[OF Cons.prems(1)] by simp
    obtain d1 r1 where x: "rtl8192_hard_data_xmit f d = Some d1" "ring_ok r1"
      "map pk_frag (rg_queue r1) = map pk_frag (rg_queue (tx_rings d ! q)) @ (if radio_on d then [f] else [])"
      "rg_entries r1 = rg_entries (tx_rings d ! q)" "at_queue q d d1 r1 (completed d ! q) (skb_waitQ d ! q)" "tasklet d1 = tasklet d"
      using data_xmit_ok[OF Cons.prems(1) room Cons.prems(2) _ assms, of f] Cons.prems(4) by auto
    have d1: "tx_rings d1 ! q = r1" "q < length (tx_rings d1)" "q < length (skb_waitQ d1)" "nic_headroom d1 = nic_headroom d"
      "completed d1 ! q = completed d ! q" "radio_on d1 = radio_on d"
      using x(5) Cons.prems(2,3) by (auto simp: at_queue_def radio_on_def)
    have "ring_ok (tx_rings d1 ! q)" "\<forall>f \<in> set w. packet_ok (nic_headroom d1) q f" using x(2) d1 Cons.prems(4) by auto
    then obtain d' r sent w' where ih: "resume_loop q w d1 = Some d'" "ring_ok r" "rg_entries r = rg_entries r1" "w = sent @ w'"
      "at_queue q d1 d' r (completed d ! q) w'" "tasklet d' = tasklet d1"
      "map pk_frag (rg_queue r) = map pk_frag (rg_queue r1) @ (if radio_on d then sent else [])"
      "w' \<noteq> [] \<longrightarrow> rg_entries r < length (rg_queue r) + 2"
      using Cons.IH[of d1] d1 by auto
    have "resume_loop q (f # w) d = Some d'" using True x(1) ih(1) by simp
    then show ?thesis using ih x at_queue_trans[OF x(5) ih(5)]
      by (intro exI[of _ d'] exI[of _ r] exI[of _ "f # sent"] exI[of _ w']) auto
  qed
qed

end
