(* ===== verification/Tx_Ring_Moves.thy ===== *)
theory Tx_Ring_Moves
  imports Tx_Ring_Spec "HOL-Library.Sublist"
begin

text \<open>
  The invariant of the whole transmit side, and every event of a run as a move that keeps it:
  seen from a data queue it takes frames in order, seen from the management queue it leaves
  waiting frames where they are.
\<close>

section \<open>The invariant\<close>

definition nic_ok :: "tx_nic \<Rightarrow> bool" where
  "nic_ok d \<longleftrightarrow> length (tx_rings d) = MAX_TX_QUEUE_COUNT \<and> length (skb_waitQ d) = 16 \<and> length (completed d) = MAX_TX_QUEUE_COUNT \<and>
     \<not> single_queue d \<and> (\<forall>q < MAX_TX_QUEUE_COUNT. q \<noteq> TXCMD_QUEUE \<and> q \<noteq> BEACON_QUEUE \<longrightarrow> ring_ok (tx_rings d ! q)) \<and>
     (\<forall>q < TXCMD_QUEUE. \<forall>f \<in> set (skb_waitQ d ! q). packet_ok (nic_headroom d) q f)"

definition nic_static :: "tx_nic \<Rightarrow> tx_nic \<Rightarrow> bool" where
  "nic_static d d' \<longleftrightarrow> nic_headroom d' = nic_headroom d \<and> radio_on d' = radio_on d"

text \<open>The frames of a queue in the order of their arrival: finished, in the ring, waiting.\<close>

definition flow :: "nat \<Rightarrow> tx_nic \<Rightarrow> tx_frag list" where
  "flow q d = completed d ! q @ map pk_frag (rg_queue (tx_rings d ! q)) @ skb_waitQ d ! q"

definition in_device :: "nat \<Rightarrow> tx_nic \<Rightarrow> tx_frag list" where
  "in_device q d = completed d ! q @ map pk_frag (rg_queue (tx_rings d ! q))"

definition takes :: "nat \<Rightarrow> tx_frag list \<Rightarrow> tx_nic \<Rightarrow> tx_nic \<Rightarrow> bool" where
  "takes q off d d' \<longleftrightarrow> length (skb_waitQ d' ! q) \<le> length (skb_waitQ d ! q) + length off \<and>
     (radio_on d \<longrightarrow> (\<exists>acc. subseq acc off \<and> flow q d' = flow q d @ acc \<and>
        (length (skb_waitQ d ! q) + length off \<le> 200 \<longrightarrow> acc = off)))"

definition stuck :: "nat \<Rightarrow> tx_nic \<Rightarrow> tx_nic \<Rightarrow> bool" where
  "stuck n d d' \<longleftrightarrow> skb_waitQ d ! MGNT_QUEUE \<noteq> [] \<longrightarrow>
     (\<exists>acc. skb_waitQ d' ! MGNT_QUEUE = skb_waitQ d ! MGNT_QUEUE @ acc \<and> length acc = n) \<and>
     in_device MGNT_QUEUE d' = in_device MGNT_QUEUE d"

text \<open>One move, seen from a data queue and from the management queue.\<close>

definition nic_move :: "nat \<Rightarrow> tx_frag list \<Rightarrow> nat \<Rightarrow> tx_nic \<Rightarrow> tx_nic \<Rightarrow> bool" where
  "nic_move q off n d d' \<longleftrightarrow> nic_ok d' \<and> nic_static d d' \<and> takes q off d d' \<and> stuck n d d'"

lemma takes_trans: "takes q o1 d d1 \<Longrightarrow> takes q o2 d1 d2 \<Longrightarrow> radio_on d1 = radio_on d \<Longrightarrow> takes q (o1 @ o2) d d2"
  unfolding takes_def
proof (elim conjE, intro conjI impI)
  assume l: "length (skb_waitQ d1 ! q) \<le> length (skb_waitQ d ! q) + length o1" "length (skb_waitQ d2 ! q) \<le> length (skb_waitQ d1 ! q) + length o2"
  then show "length (skb_waitQ d2 ! q) \<le> length (skb_waitQ d ! q) + length (o1 @ o2)" by simp
  assume r: "radio_on d1 = radio_on d" "radio_on d"
    and a: "radio_on d \<longrightarrow> (\<exists>acc. subseq acc o1 \<and> flow q d1 = flow q d @ acc \<and> (length (skb_waitQ d ! q) + length o1 \<le> 200 \<longrightarrow> acc = o1))"
      "radio_on d1 \<longrightarrow> (\<exists>acc. subseq acc o2 \<and> flow q d2 = flow q d1 @ acc \<and> (length (skb_waitQ d1 ! q) + length o2 \<le> 200 \<longrightarrow> acc = o2))"
  obtain a1 a2 where "subseq a1 o1" "flow q d1 = flow q d @ a1" "length (skb_waitQ d ! q) + length o1 \<le> 200 \<longrightarrow> a1 = o1"
    "subseq a2 o2" "flow q d2 = flow q d1 @ a2" "length (skb_waitQ d1 ! q) + length o2 \<le> 200 \<longrightarrow> a2 = o2"
    using r a by blast
  then show "\<exists>acc. subseq acc (o1 @ o2) \<and> flow q d2 = flow q d @ acc \<and> (length (skb_waitQ d ! q) + length (o1 @ o2) \<le> 200 \<longrightarrow> acc = o1 @ o2)"
    using l by (intro exI[of _ "a1 @ a2"]) (auto intro: list_emb_append_mono)
qed

lemma stuck_trans: "stuck n1 d d1 \<Longrightarrow> stuck n2 d1 d2 \<Longrightarrow> stuck (n1 + n2) d d2"
  unfolding stuck_def by (intro impI) force

lemma nic_move_trans: "nic_move q o1 n1 d d1 \<Longrightarrow> nic_move q o2 n2 d1 d2 \<Longrightarrow> nic_move q (o1 @ o2) (n1 + n2) d d2"
  unfolding nic_move_def using takes_trans stuck_trans by (simp add: nic_static_def) blast

lemmas nic_move_then = nic_move_trans[where ?o1.0 = "[]" and ?n1.0 = 0, simplified]

text \<open>Changes outside of the queues.\<close>

lemma nic_move_same:
  assumes "nic_ok d" "tx_rings d' = tx_rings d" "completed d' = completed d" "skb_waitQ d' = skb_waitQ d" "nic_headroom d' = nic_headroom d"
    "single_queue d' = single_queue d" "radio_on d' = radio_on d"
  shows "nic_move q [] 0 d d'"
  using assms by (simp add: nic_move_def nic_ok_def nic_static_def takes_def stuck_def flow_def in_device_def)

lemma at_queue_ok:
  assumes "nic_ok d" "at_queue p d d' r c w" "p < 9" "p \<noteq> TXCMD_QUEUE \<and> p \<noteq> BEACON_QUEUE \<longrightarrow> ring_ok r"
    and "p < TXCMD_QUEUE \<longrightarrow> (\<forall>f \<in> set w. packet_ok (nic_headroom d) p f)"
  shows "nic_ok d' \<and> nic_static d d'"
  using assms unfolding nic_ok_def nic_static_def at_queue_def radio_on_def
  by (auto simp: nth_list_update)

lemma at_queue_other:
  assumes "at_queue p d d' r c w" "p \<noteq> q"
  shows "flow q d' = flow q d" "in_device q d' = in_device q d" "skb_waitQ d' ! q = skb_waitQ d ! q"
  using assms by (simp_all add: at_queue_def flow_def in_device_def)

lemma at_queue_here:
  assumes "nic_ok d" "at_queue q d d' r c w" "q < 9"
  shows "flow q d' = c @ map pk_frag (rg_queue r) @ w" "in_device q d' = c @ map pk_frag (rg_queue r)" "skb_waitQ d' ! q = w"
    "tx_rings d' ! q = r"
  using assms by (simp_all add: at_queue_def flow_def in_device_def nic_ok_def)

text \<open>A move of the data queue q itself, one of the management queue, and one of any other queue.\<close>

lemma move_here:
  assumes "nic_ok d" "at_queue q d d' r c w" "q < TXCMD_QUEUE" "ring_ok r" "\<forall>f \<in> set w. packet_ok (nic_headroom d) q f"
    and "length w \<le> length (skb_waitQ d ! q) + length off"
    and "radio_on d \<Longrightarrow> \<exists>acc. subseq acc off \<and> c @ map pk_frag (rg_queue r) @ w = flow q d @ acc \<and>
        (length (skb_waitQ d ! q) + length off \<le> 200 \<longrightarrow> acc = off)"
  shows "nic_move q off 0 d d'"
proof -
  have "nic_ok d' \<and> nic_static d d'" using assms(1-5) by (intro at_queue_ok) auto
  moreover have "stuck 0 d d'" using at_queue_other[OF assms(2), of MGNT_QUEUE] assms(3) by (simp add: stuck_def)
  ultimately show ?thesis
    using at_queue_here[OF assms(1,2)] assms(3,6,7) by (simp add: nic_move_def takes_def)
qed

lemma move_other:
  assumes "nic_ok d" "at_queue p d d' r c w" "p < 9" "p \<noteq> q" "p \<noteq> MGNT_QUEUE" "p \<noteq> TXCMD_QUEUE \<and> p \<noteq> BEACON_QUEUE \<longrightarrow> ring_ok r"
    and "p < TXCMD_QUEUE \<longrightarrow> (\<forall>f \<in> set w. packet_ok (nic_headroom d) p f)"
  shows "nic_move q [] 0 d d'"
  using at_queue_ok[OF assms(1-3,6,7)] at_queue_other[OF assms(2,4)] at_queue_other[OF assms(2,5)]
  by (simp add: nic_move_def takes_def stuck_def)

lemma move_mgmt:
  assumes "nic_ok d" "at_queue MGNT_QUEUE d d' r c w" "q < TXCMD_QUEUE" "ring_ok r"
    and "skb_waitQ d ! MGNT_QUEUE \<noteq> [] \<Longrightarrow> (\<exists>acc. w = skb_waitQ d ! MGNT_QUEUE @ acc \<and> length acc = n) \<and>
       c @ map pk_frag (rg_queue r) = in_device MGNT_QUEUE d"
  shows "nic_move q [] n d d'"
proof -
  have "nic_ok d' \<and> nic_static d d'" using assms(1,2,4) by (intro at_queue_ok) auto
  then show ?thesis
    using at_queue_other[OF assms(2), of q] assms(3,5) at_queue_here[OF assms(1,2)]
    by (simp add: nic_move_def takes_def stuck_def)
qed

section \<open>Moves\<close>

lemma nic_ring: "nic_ok d \<Longrightarrow> q < 9 \<Longrightarrow> q \<noteq> TXCMD_QUEUE \<Longrightarrow> q \<noteq> BEACON_QUEUE \<Longrightarrow> ring_ok (tx_rings d ! q)"
  by (simp add: nic_ok_def)

lemma nic_lens: "nic_ok d \<Longrightarrow> length (tx_rings d) = 9 \<and> length (skb_waitQ d) = 16 \<and> length (completed d) = 9 \<and> \<not> single_queue d"
  by (simp add: nic_ok_def)

lemma nic_wait: "nic_ok d \<Longrightarrow> q < TXCMD_QUEUE \<Longrightarrow> \<forall>f \<in> set (skb_waitQ d ! q). packet_ok (nic_headroom d) q f"
  by (simp add: nic_ok_def)

lemma wakeup_move:
  assumes "nic_ok d"
  shows "\<exists>d'. rtllib_sta_wakeup False d = Some d' \<and> nic_move q [] 0 d d'"
  using assms by (auto simp: rtllib_sta_wakeup_def radio_on_def intro!: nic_move_same)

lemma frag_move:
  assumes d: "nic_ok d" and p: "p < TXCMD_QUEUE" "packet_ok (nic_headroom d) p f" and q: "q < TXCMD_QUEUE"
  shows "\<exists>d'. softmac_frag p f d = Some d' \<and> nic_move q (if p = q then [f] else []) 0 d d'"
proof -
  let ?w = "skb_waitQ d ! p" and ?r = "tx_rings d ! p" and ?c = "completed d ! p"
  have r: "ring_ok ?r" and w: "\<forall>f \<in> set ?w. packet_ok (nic_headroom d) p f" and len: "p < length (tx_rings d)" "p < 9"
    using nic_ring[OF d, of p] nic_wait[OF d p(1)] nic_lens[OF d] p(1) by auto
  have here: "nic_move q (if p = q then [f] else []) 0 d d'" if "at_queue p d d' r' ?c w'" "ring_ok r'" "\<forall>f \<in> set w'. packet_ok (nic_headroom d) p f"
    "length w' \<le> length ?w + 1" "radio_on d \<Longrightarrow> \<exists>acc. subseq acc [f] \<and> map pk_frag (rg_queue r') @ w' = map pk_frag (rg_queue ?r) @ ?w @ acc \<and>
        (length ?w + 1 \<le> 200 \<longrightarrow> acc = [f])" for d' r' w'
  proof (cases "p = q")
    case True
    have "nic_move p [f] 0 d d'" by (rule move_here[OF d that(1) p(1) that(2,3)]) (use that(4,5) in \<open>auto simp: flow_def\<close>)
    then show ?thesis using True by simp
  next
    case False
    then show ?thesis using that(2,3) p(1) by (simp add: move_other[OF d that(1) len(2)])
  qed
  show ?thesis
  proof (cases "?w \<noteq> [] \<or> \<not> check_nic_enough_desc p d \<or> queue_stop d")
    case True
    show ?thesis
    proof (cases "length ?w < 200")
      case short: True
      let ?d = "d\<lparr>skb_waitQ := (skb_waitQ d)[p := ?w @ [f]]\<rparr>"
      have "nic_move q (if p = q then [f] else []) 0 d ?d"
        by (rule here[of _ ?r "?w @ [f]"]) (use r w p(2) in \<open>auto simp: at_queue_def\<close>)
      then show ?thesis using True short by (auto simp: softmac_frag_def Let_def)
    next
      case False
      let ?d = "d\<lparr>discarded := discarded d @ [f]\<rparr>"
      have "nic_move q (if p = q then [f] else []) 0 d ?d"
        by (rule here[of _ ?r ?w]) (use r w False in \<open>auto simp: at_queue_def\<close>)
      then show ?thesis using True False by (auto simp: softmac_frag_def Let_def)
    qed
  next
    case False
    then have room: "length (rg_queue ?r) + 2 \<le> rg_entries ?r" using enough_desc[OF r] by simp
    obtain d' r' where x: "rtl8192_hard_data_xmit f d = Some d'" "ring_ok r'"
      "map pk_frag (rg_queue r') = map pk_frag (rg_queue ?r) @ (if radio_on d then [f] else [])" "at_queue p d d' r' ?c ?w"
      using data_xmit_ok[OF r room len(1) p(2)] p(1) by auto
    have "nic_move q (if p = q then [f] else []) 0 d d'"
      by (rule here[OF x(4,2) w]) (use x(3) False in \<open>auto intro: exI[of _ "[f]"]\<close>)
    then show ?thesis using False x(1) by (auto simp: softmac_frag_def Let_def)
  qed
qed

lemma frags_move:
  "nic_ok d \<Longrightarrow> p < TXCMD_QUEUE \<Longrightarrow> q < TXCMD_QUEUE \<Longrightarrow> \<forall>f \<in> set fs. packet_ok (nic_headroom d) p f \<Longrightarrow>
     \<exists>d'. softmac_frags p fs d = Some d' \<and> nic_move q (if p = q then fs else []) 0 d d'"
proof (induction fs arbitrary: d)
  case Nil
  then show ?case by (auto intro: nic_move_same)
next
  case (Cons f fs)
  obtain d1 where d1: "softmac_frag p f d = Some d1" "nic_move q (if p = q then [f] else []) 0 d d1"
    using frag_move[OF Cons.prems(1,2) _ Cons.prems(3), of f] Cons.prems(4) by auto
  then have "nic_ok d1" "nic_headroom d1 = nic_headroom d" by (auto simp: nic_move_def nic_static_def)
  then obtain d2 where d2: "softmac_frags p fs d1 = Some d2" "nic_move q (if p = q then fs else []) 0 d1 d2"
    using Cons.IH[of d1] Cons.prems by auto
  show ?case using d1(1) d2(1) nic_move_trans[OF d1(2) d2(2)] by (cases "p = q") auto
qed

definition event_ok :: "nat \<Rightarrow> nic_event \<Rightarrow> bool" where
  "event_ok h e = (case e of
     Ev_xmit txb \<Rightarrow> unat (txb_queue_index txb) < TXCMD_QUEUE \<and> (\<forall>f \<in> set (fragments txb). packet_ok h (unat (txb_queue_index txb)) f)
   | Ev_mgmt f \<Rightarrow> h \<le> sk_headroom (tf_skb f) \<and> 24 \<le> length (sk_mem (tf_skb f))
   | Ev_hw q \<Rightarrow> q < MAX_TX_QUEUE_COUNT
   | _ \<Rightarrow> True)"

definition offered :: "nat \<Rightarrow> nic_event \<Rightarrow> tx_frag list" where
  "offered q e = (case e of Ev_xmit txb \<Rightarrow> if unat (txb_queue_index txb) = q then fragments txb else [] | _ \<Rightarrow> [])"

definition is_mgmt :: "nic_event \<Rightarrow> nat" where
  "is_mgmt e = (case e of Ev_mgmt _ \<Rightarrow> 1 | _ \<Rightarrow> 0)"

lemma softmac_xmit_move:
  assumes "nic_ok d" "event_ok (nic_headroom d) (Ev_xmit txb)" "q < TXCMD_QUEUE"
  shows "\<exists>d'. rtllib_softmac_xmit txb d = Some d' \<and> nic_move q (offered q (Ev_xmit txb)) 0 d d'"
proof -
  obtain d1 where d1: "rtllib_sta_wakeup False d = Some d1" "nic_move q [] 0 d d1" using wakeup_move[OF assms(1)] by blast
  let ?d2 = "if bMulticast (tf_cb (fragments txb ! 0)) then d1\<lparr>stat_multicast := stat_multicast d1 + 1\<rparr> else d1"
  have "nic_ok d1" using d1(2) by (simp add: nic_move_def)
  then have m2: "nic_move q [] 0 d1 ?d2" by (intro nic_move_same) (auto simp: radio_on_def)
  have d2: "nic_ok ?d2" "nic_headroom ?d2 = nic_headroom d" using d1(2) m2 by (auto simp: nic_move_def nic_static_def)
  have "\<forall>f \<in> set (fragments txb). packet_ok (nic_headroom ?d2) (unat (txb_queue_index txb)) f"
    using assms(2) unfolding d2(2) by (simp add: event_ok_def)
  then obtain d' where d': "softmac_frags (unat (txb_queue_index txb)) (fragments txb) ?d2 = Some d'"
    "nic_move q (offered q (Ev_xmit txb)) 0 ?d2 d'"
    using frags_move[OF d2(1) _ assms(3), of "unat (txb_queue_index txb)" "fragments txb"] assms(2)
    by (auto simp: event_ok_def offered_def)
  show ?thesis
    using d1(1) d'(1) nic_move_then[OF d1(2) nic_move_then[OF m2 d'(2)]] by (simp add: rtllib_softmac_xmit_def)
qed

lemma mgmt_move:
  assumes d: "nic_ok d" "event_ok (nic_headroom d) (Ev_mgmt f)" and q: "q < TXCMD_QUEUE"
  shows "\<exists>d'. softmac_mgmt_xmit f d = Some d' \<and> nic_move q [] 1 d d'"
proof -
  obtain d1 where d1: "rtllib_sta_wakeup False d = Some d1" "nic_move q [] 0 d d1" using wakeup_move[OF d(1)] by blast
  have s1: "nic_ok d1" "nic_headroom d1 = nic_headroom d" using d1(2) by (auto simp: nic_move_def nic_static_def)
  obtain f2 d2 where f2: "stamp_seq (mgmt_desc MGNT_QUEUE d1 f) d1 = Some (f2, d2)" "packet_ok (nic_headroom d2) MGNT_QUEUE f2"
    "d2 = d1\<lparr>nic_seq := (if nic_seq d1 = 0xFFF then 0 else nic_seq d1 + 1)\<rparr>"
    using d(2) s1(2) by (auto simp: stamp_seq_def mgmt_desc_def event_ok_def packet_ok_def wr_def)
  have m2: "nic_move q [] 0 d1 d2" using s1(1) f2(3) by (intro nic_move_same) (auto simp: radio_on_def)
  then have d2: "nic_ok d2" by (simp add: nic_move_def)
  let ?w = "skb_waitQ d2 ! MGNT_QUEUE" and ?r = "tx_rings d2 ! MGNT_QUEUE" and ?c = "completed d2 ! MGNT_QUEUE"
  have r: "ring_ok ?r" using nic_ring[OF d2, of MGNT_QUEUE] by simp
  have "\<exists>d'. (if \<not> check_nic_enough_desc MGNT_QUEUE d2 \<or> ?w \<noteq> [] \<or> queue_stop d2
       then Some (d2\<lparr>skb_waitQ := (skb_waitQ d2)[MGNT_QUEUE := ?w @ [f2]]\<rparr>)
       else map_option fst (rtl8192_hard_start_xmit f2 d2)) = Some d' \<and> nic_move q [] 1 d2 d'"
  proof (cases "\<not> check_nic_enough_desc MGNT_QUEUE d2 \<or> ?w \<noteq> [] \<or> queue_stop d2")
    case True
    have "nic_move q [] 1 d2 (d2\<lparr>skb_waitQ := (skb_waitQ d2)[MGNT_QUEUE := ?w @ [f2]]\<rparr>)"
      by (rule move_mgmt[OF d2 _ q r, of _ ?c "?w @ [f2]"]) (simp_all add: at_queue_def in_device_def)
    then show ?thesis using True by simp
  next
    case False
    then have room: "length (rg_queue ?r) + 2 \<le> rg_entries ?r" using enough_desc[OF r] by simp
    obtain d' r' where x: "rtl8192_hard_start_xmit f2 d2 = Some (d', 0)" "ring_ok r'" "at_queue MGNT_QUEUE d2 d' r' ?c ?w"
      using start_xmit_ok[OF r room _ f2(2)] nic_lens[OF d2] by auto
    have "nic_move q [] 1 d2 d'" by (rule move_mgmt[OF d2 x(3) q x(2)]) (use False in simp)
    then show ?thesis using False x(1) by simp
  qed
  then obtain d' where d': "(if \<not> check_nic_enough_desc MGNT_QUEUE d2 \<or> ?w \<noteq> [] \<or> queue_stop d2
       then Some (d2\<lparr>skb_waitQ := (skb_waitQ d2)[MGNT_QUEUE := ?w @ [f2]]\<rparr>)
       else map_option fst (rtl8192_hard_start_xmit f2 d2)) = Some d'" "nic_move q [] 1 d2 d'" by blast
  have "softmac_mgmt_xmit f d = Some d'"
    using d1(1) f2(1) d'(1) nic_lens[OF s1(1)] by (simp add: softmac_mgmt_xmit_def Let_def)
  then show ?thesis using nic_move_then[OF d1(2) nic_move_then[OF m2 d'(2)]] by blast
qed

text \<open>The two queues that no event fills, the one for commands and the one for beacons, may be in any state.\<close>

lemma hw_move:
  assumes d: "nic_ok d" and p: "p < 9" and q: "q < TXCMD_QUEUE"
  shows "nic_move q [] 0 d (hw_complete p d)"
proof (cases "p = TXCMD_QUEUE \<or> p = BEACON_QUEUE")
  case True
  have "\<exists>r. at_queue p d (hw_complete p d) r (completed d ! p) (skb_waitQ d ! p)"
    by (auto simp: hw_complete_def at_queue_def Let_def split: option.split intro: exI[of _ "tx_rings d ! p"])
  then show ?thesis using True move_other[OF d _ p, of _ _ _ _ q] q by auto
next
  case False
  then have r: "ring_ok (tx_rings d ! p)" using nic_ring[OF d p] by simp
  obtain r' where h: "ring_ok r'" "rg_queue r' = rg_queue (tx_rings d ! p)"
    "at_queue p d (hw_complete p d) r' (completed d ! p) (skb_waitQ d ! p)" using hw_complete_ok[OF r] by blast
  consider "p = MGNT_QUEUE" | "p = q" | "p \<noteq> MGNT_QUEUE" "p \<noteq> q" by blast
  then show ?thesis
  proof cases
    case 1
    then show ?thesis using h move_mgmt[OF d _ q h(1), of _ "completed d ! p" "skb_waitQ d ! p" 0] by (auto simp: in_device_def)
  next
    case 2
    then show ?thesis using h nic_wait[OF d q] move_here[OF d _ q h(1), of _ "completed d ! q" "skb_waitQ d ! q" "[]"] by (auto simp: flow_def)
  next
    case 3
    show ?thesis by (rule move_other[OF d h(3) p 3(2,1)]) (use h(1) nic_wait[OF d] in auto)
  qed
qed

lemma isr_move:
  assumes d: "nic_ok d" and p: "p < 9" and q: "q < TXCMD_QUEUE"
  shows "nic_move q [] 0 d (rtl8192_tx_isr p d)"
proof (cases "p = TXCMD_QUEUE \<or> p = BEACON_QUEUE")
  case True
  have "\<exists>r c. at_queue p d (rtl8192_tx_isr p d) r c (skb_waitQ d ! p)"
    by (cases "isr_loop (p = BEACON_QUEUE) (tx_rings d ! p) (rg_queue (tx_rings d ! p))")
       (auto simp: rtl8192_tx_isr_def at_queue_def Let_def)
  then show ?thesis using True move_other[OF d _ p, of _ _ _ _ q] q by auto
next
  case False
  then have r: "ring_ok (tx_rings d ! p)" using nic_ring[OF d p] by simp
  obtain r' fs where h: "ring_ok r'" "map pk_frag (rg_queue (tx_rings d ! p)) = fs @ map pk_frag (rg_queue r')"
    "at_queue p d (rtl8192_tx_isr p d) r' (completed d ! p @ fs) (skb_waitQ d ! p)" using tx_isr_ok[OF r] False by blast
  consider "p = MGNT_QUEUE" | "p = q" | "p \<noteq> MGNT_QUEUE" "p \<noteq> q" by blast
  then show ?thesis
  proof cases
    case 1
    then show ?thesis using h move_mgmt[OF d _ q h(1), of _ "completed d ! p @ fs" "skb_waitQ d ! p" 0] by (auto simp: in_device_def)
  next
    case 2
    then show ?thesis using h nic_wait[OF d q] move_here[OF d _ q h(1), of _ "completed d ! q @ fs" "skb_waitQ d ! q" "[]"] by (auto simp: flow_def)
  next
    case 3
    show ?thesis by (rule move_other[OF d h(3) p 3(2,1)]) (use h(1) nic_wait[OF d] in auto)
  qed
qed

lemma when_bit_move:
  "nic_ok d \<Longrightarrow> p < 9 \<Longrightarrow> q < TXCMD_QUEUE \<Longrightarrow> nic_move q [] 0 d (when_bit inta m (rtl8192_tx_isr p) d)"
  by (simp add: when_bit_def isr_move nic_move_same)

lemma nic_moveD: "nic_move q off n d d' \<Longrightarrow> nic_ok d'"
  by (simp add: nic_move_def)

lemma irq_move:
  assumes d: "nic_ok d" and q: "q < TXCMD_QUEUE"
  shows "\<exists>d'. tx_interrupt inta d = Some d' \<and> nic_move q [] 0 d d'"
proof -
  define d1 where "d1 = when_bit inta 0x200 (rtl8192_tx_isr BEACON_QUEUE) d"
  have m1: "nic_move q [] 0 d d1" unfolding d1_def by (rule when_bit_move[OF d _ q]) simp
  define d' where "d' = rtl8192_tx_isr MGNT_QUEUE d1"
  have m': "nic_move q [] 0 d1 d'" unfolding d'_def by (rule isr_move[OF nic_moveD[OF m1] _ q]) simp
  obtain d2 where d2: "(if inta AND 0x40 = 0 then Some d1
      else if ack_tx_to_ieee d' \<and> rtl8192_is_tx_queue_empty d' then rtllib_ps_tx_ack True (d'\<lparr>ack_tx_to_ieee := False\<rparr>) else Some d') = Some d2"
    "nic_move q [] 0 d1 d2"
  proof (cases "inta AND 0x40 = 0")
    case True
    show ?thesis by (rule that[of d1]) (use True nic_moveD[OF m1] in \<open>simp_all add: nic_move_same\<close>)
  next
    case False
    show ?thesis
    proof (cases "ack_tx_to_ieee d' \<and> rtl8192_is_tx_queue_empty d'")
      case True
      let ?d2 = "if sta_sleep d' = 2 then d'\<lparr>ack_tx_to_ieee := False, sta_sleep := 1\<rparr> else d'\<lparr>ack_tx_to_ieee := False\<rparr>"
      have "nic_move q [] 0 d' ?d2" by (rule nic_move_same[OF nic_moveD[OF m']]) (auto simp: radio_on_def)
      then show ?thesis using False True nic_move_then[OF m'] that[of ?d2] by (simp add: rtllib_ps_tx_ack_def)
    next
      case False
      then show ?thesis using \<open>inta AND 0x40 \<noteq> 0\<close> m' that[of d'] by auto
    qed
  qed
  define d3 where "d3 = when_bit inta 0x80 (rtl8192_tx_isr TXCMD_QUEUE) d2"
  have m3: "nic_move q [] 0 d2 d3" unfolding d3_def by (rule when_bit_move[OF nic_moveD[OF d2(2)] _ q]) simp
  define d4 where "d4 = when_bit inta 0x100 (rtl8192_tx_isr HIGH_QUEUE) d3"
  have m4: "nic_move q [] 0 d3 d4" unfolding d4_def by (rule when_bit_move[OF nic_moveD[OF m3] _ q]) simp
  define d5 where "d5 = when_bit inta 0x10 (rtl8192_tx_isr BK_QUEUE) d4"
  have m5: "nic_move q [] 0 d4 d5" unfolding d5_def by (rule when_bit_move[OF nic_moveD[OF m4] _ q]) simp
  define d6 where "d6 = when_bit inta 0x08 (rtl8192_tx_isr BE_QUEUE) d5"
  have m6: "nic_move q [] 0 d5 d6" unfolding d6_def by (rule when_bit_move[OF nic_moveD[OF m5] _ q]) simp
  define d7 where "d7 = when_bit inta 0x04 (rtl8192_tx_isr VI_QUEUE) d6"
  have m7: "nic_move q [] 0 d6 d7" unfolding d7_def by (rule when_bit_move[OF nic_moveD[OF m6] _ q]) simp
  define d8 where "d8 = when_bit inta 0x02 (rtl8192_tx_isr VO_QUEUE) d7"
  have m8: "nic_move q [] 0 d7 d8" unfolding d8_def by (rule when_bit_move[OF nic_moveD[OF m7] _ q]) simp
  have "tx_irq_mgmt inta d = Some d4"
    unfolding tx_irq_mgmt_def Let_def d1_def[symmetric] d'_def[symmetric] d2(1) by (simp add: d3_def d4_def)
  then have "tx_interrupt inta d = Some d8" by (simp add: tx_interrupt_def tx_irq_data_def d5_def d6_def d7_def d8_def)
  moreover have "nic_move q [] 0 d d8"
    by (rule nic_move_then[OF m1 nic_move_then[OF d2(2) nic_move_then[OF m3 nic_move_then[OF m4 nic_move_then[OF m5
          nic_move_then[OF m6 nic_move_then[OF m7 m8]]]]]]])
  ultimately show ?thesis by blast
qed

lemma resume_move:
  assumes d: "nic_ok d" and p: "p < TXCMD_QUEUE" and q: "q < TXCMD_QUEUE"
  shows "\<exists>d'. resume_queue p d = Some d' \<and> nic_move q [] 0 d d'"
proof -
  have r: "ring_ok (tx_rings d ! p)" and len: "p < length (tx_rings d)" "p < length (skb_waitQ d)" "p \<noteq> BEACON_QUEUE" "p < 9"
    using nic_ring[OF d, of p] nic_lens[OF d] p by auto
  obtain d' r' sent w' where x: "resume_queue p d = Some d'" "ring_ok r'" "skb_waitQ d ! p = sent @ w'"
    "at_queue p d d' r' (completed d ! p) w'"
    "map pk_frag (rg_queue r') = map pk_frag (rg_queue (tx_rings d ! p)) @ (if radio_on d then sent else [])"
    using resume_loop_ok[OF len(3) r len(1,2) nic_wait[OF d p]] unfolding resume_queue_def by blast
  have w: "\<forall>f \<in> set w'. packet_ok (nic_headroom d) p f" using nic_wait[OF d p] x(3) by simp
  have "nic_move q [] 0 d d'"
  proof (cases "p = q")
    case True
    then show ?thesis using x(3,5) w move_here[OF d x(4) p x(2), of "[]"] by (auto simp: flow_def)
  next
    case False
    then show ?thesis using x(2) w p by (simp add: move_other[OF d x(4) len(4)])
  qed
  then show ?thesis using x(1) by blast
qed

lemma resume_queues_move:
  "nic_ok d \<Longrightarrow> q < TXCMD_QUEUE \<Longrightarrow> \<forall>p \<in> set ps. p < TXCMD_QUEUE \<Longrightarrow> \<exists>d'. resume_queues ps d = Some d' \<and> nic_move q [] 0 d d'"
proof (induction ps arbitrary: d)
  case Nil
  then show ?case by (auto intro: nic_move_same)
next
  case (Cons p ps)
  obtain d1 where d1: "resume_queue p d = Some d1" "nic_move q [] 0 d d1" using resume_move[OF Cons.prems(1) _ Cons.prems(2)] Cons.prems(3) by force
  obtain d2 where "resume_queues ps d1 = Some d2" "nic_move q [] 0 d1 d2" using Cons.IH[OF nic_moveD[OF d1(2)]] Cons.prems by auto
  then show ?case using d1 nic_move_then by auto
qed

lemma tasklet_move:
  assumes "nic_ok d" "q < TXCMD_QUEUE"
  shows "\<exists>d'. rtl8192_irq_tx_tasklet d = Some d' \<and> nic_move q [] 0 d d'"
proof (cases "tasklet d")
  case True
  have m: "nic_move q [] 0 d (d\<lparr>tasklet := False\<rparr>)" using assms(1) by (intro nic_move_same) (auto simp: radio_on_def)
  obtain d' where "rtl8192_tx_resume (d\<lparr>tasklet := False\<rparr>) = Some d'" "nic_move q [] 0 (d\<lparr>tasklet := False\<rparr>) d'"
    using resume_queues_move[OF nic_moveD[OF m] assms(2), of "[BK_QUEUE..<TXCMD_QUEUE]"] by (auto simp: rtl8192_tx_resume_def)
  then show ?thesis using True nic_move_then[OF m] by (auto simp: rtl8192_irq_tx_tasklet_def)
next
  case False
  then show ?thesis using assms(1) by (auto simp: rtl8192_irq_tx_tasklet_def intro: nic_move_same)
qed

lemma step_move:
  assumes d: "nic_ok d" and e: "event_ok (nic_headroom d) e" and q: "q < TXCMD_QUEUE"
  shows "\<exists>d'. nic_step e d = Some d' \<and> nic_move q (offered q e) (is_mgmt e) d d'"
proof (cases e)
  case (Ev_xmit txb)
  then show ?thesis using softmac_xmit_move[OF d _ q] e by (simp add: is_mgmt_def)
next
  case (Ev_mgmt f)
  then show ?thesis using mgmt_move[OF d _ q] e by (simp add: is_mgmt_def offered_def)
next
  case (Ev_hw p)
  then show ?thesis using hw_move[OF d _ q] e by (simp add: is_mgmt_def offered_def event_ok_def)
next
  case (Ev_irq inta)
  then show ?thesis using irq_move[OF d q] by (simp add: is_mgmt_def offered_def)
next
  case Ev_tasklet
  then show ?thesis using tasklet_move[OF d q] by (simp add: is_mgmt_def offered_def)
qed

lemma run_move:
  "nic_ok d \<Longrightarrow> \<forall>e \<in> set es. event_ok (nic_headroom d) e \<Longrightarrow> q < TXCMD_QUEUE \<Longrightarrow>
     \<exists>d'. nic_run es d = Some d' \<and> nic_move q (concat (map (offered q) es)) (sum_list (map is_mgmt es)) d d'"
proof (induction es arbitrary: d)
  case Nil
  then show ?case by (auto intro: nic_move_same)
next
  case (Cons e es)
  obtain d1 where d1: "nic_step e d = Some d1" "nic_move q (offered q e) (is_mgmt e) d d1"
    using step_move[OF Cons.prems(1) _ Cons.prems(3)] Cons.prems(2) by auto
  then have "nic_ok d1" "nic_headroom d1 = nic_headroom d" by (auto simp: nic_move_def nic_static_def)
  then obtain d2 where "nic_run es d1 = Some d2" "nic_move q (concat (map (offered q) es)) (sum_list (map is_mgmt es)) d1 d2"
    using Cons.IH[of d1] Cons.prems(2,3) by auto
  then show ?case using d1 nic_move_trans[OF d1(2)] by auto
qed

end
