(* ===== verification/Tx_Ring_Props.thy ===== *)
theory Tx_Ring_Props
  imports Tx_Ring_Moves
begin

text \<open>
  The properties of the queues and rings over whole runs: no fault and no overrun, first in
  first out for every data queue, delivery of everything that waits, the management
  queue, which does not recover from a full ring, and the reset of the rings.
\<close>

section \<open>Runs\<close>

text \<open>
  C36: every run of frames of the stack, management frames, progress of the device, interrupts
  and tasklets goes through without a fault and keeps the invariant: no ring overflows, the
  driver never writes a descriptor that the device owns, and a freed buffer is never read.
\<close>

theorem tx_rings_safe:
  assumes "nic_ok d" "\<forall>e \<in> set es. event_ok (nic_headroom d) e"
  shows "\<exists>d'. nic_run es d = Some d' \<and> nic_ok d'"
  using run_move[OF assms, of BE_QUEUE] by (auto simp: nic_move_def)

text \<open>
  C37: a data queue is first in, first out. With the radio on, the frames that a run adds to the
  finished, the queued and the waiting ones are offered ones in their order, and all of them
  as long as at most 200 can wait.
\<close>

theorem tx_queue_fifo:
  assumes "nic_ok d" "radio_on d" "\<forall>e \<in> set es. event_ok (nic_headroom d) e" "q < TXCMD_QUEUE"
  shows "\<exists>d' acc. nic_run es d = Some d' \<and> subseq acc (concat (map (offered q) es)) \<and>
     completed d' ! q @ map pk_frag (rg_queue (tx_rings d' ! q)) @ skb_waitQ d' ! q =
       completed d ! q @ map pk_frag (rg_queue (tx_rings d ! q)) @ skb_waitQ d ! q @ acc \<and>
     (length (skb_waitQ d ! q) + length (concat (map (offered q) es)) \<le> 200 \<longrightarrow> acc = concat (map (offered q) es))"
proof -
  let ?off = "concat (map (offered q) es)"
  obtain d' where d': "nic_run es d = Some d'" "nic_move q ?off (sum_list (map is_mgmt es)) d d'"
    using run_move[OF assms(1,3,4)] by blast
  then obtain acc where "subseq acc ?off" "flow q d' = flow q d @ acc" "length (skb_waitQ d ! q) + length ?off \<le> 200 \<longrightarrow> acc = ?off"
    using assms(2) unfolding nic_move_def takes_def by blast
  then show ?thesis using d'(1) by (intro exI[of _ d'] exI[of _ acc]) (simp add: flow_def)
qed

text \<open>
  C39: once a management frame waits, the queue of management frames never recovers: in every
  run, all management frames join the waiting ones and none of them reaches the ring.
\<close>

theorem mgmt_queue_stuck:
  assumes "nic_ok d" "\<forall>e \<in> set es. event_ok (nic_headroom d) e" "skb_waitQ d ! MGNT_QUEUE \<noteq> []"
  shows "\<exists>d' acc. nic_run es d = Some d' \<and> skb_waitQ d' ! MGNT_QUEUE = skb_waitQ d ! MGNT_QUEUE @ acc \<and>
     length acc = length (filter (\<lambda>e. \<exists>f. e = Ev_mgmt f) es) \<and>
     completed d' ! MGNT_QUEUE @ map pk_frag (rg_queue (tx_rings d' ! MGNT_QUEUE)) =
       completed d ! MGNT_QUEUE @ map pk_frag (rg_queue (tx_rings d ! MGNT_QUEUE))"
proof -
  have n: "sum_list (map is_mgmt es) = length (filter (\<lambda>e. \<exists>f. e = Ev_mgmt f) es)" for es
    by (induction es) (auto simp: is_mgmt_def split: nic_event.split)
  obtain d' where d': "nic_run es d = Some d'" "stuck (length (filter (\<lambda>e. \<exists>f. e = Ev_mgmt f) es)) d d'"
    using run_move[OF assms(1,2), of BE_QUEUE] by (auto simp: nic_move_def n)
  then obtain acc where "skb_waitQ d' ! MGNT_QUEUE = skb_waitQ d ! MGNT_QUEUE @ acc"
    "length acc = length (filter (\<lambda>e. \<exists>f. e = Ev_mgmt f) es)" "in_device MGNT_QUEUE d' = in_device MGNT_QUEUE d"
    using assms(3) unfolding stuck_def by blast
  then show ?thesis using d'(1) by (intro exI[of _ d'] exI[of _ acc]) (simp add: in_device_def)
qed

section \<open>A concrete device\<close>

lemma alloc_ring_ok: "2 \<le> n \<Longrightarrow> n < 2 ^ 31 \<Longrightarrow> ring_ok (rtl8192_alloc_tx_desc_ring dma n)"
  by (simp add: ring_ok_def rtl8192_alloc_tx_desc_ring_def ring_slot_def desc_zero_def)

definition ex_nic :: tx_nic where
  "ex_nic = \<lparr>tx_rings = replicate 9 (rtl8192_alloc_tx_desc_ring 0x1000 64), skb_waitQ = replicate 16 [], queue_stop = False,
     bHwRadioOff = False, nic_up = True, nic_headroom = 8, pairwise_key = KEY_TYPE_NA, bw_20_40 = False, nCur40MhzPrimeSC = 0,
     dma_map = (\<lambda>_. 0), nic_alloc = (\<lambda>_. None), txbytesunicast = 0, txbytesmulticast = 0, txbytesbroadcast = 0,
     stat_tx_bytes = 0, stat_tx_packets = 0, stat_multicast = 0, bAwakePktSent = False, tasklet = False, tppoll = [],
     completed = replicate 9 [], discarded = [], sta_sleep = 0, ps_polling = False, ack_tx_to_ieee = False, null_data_ps = False,
     mgnt_cck_6m = False, nic_basic_rate = 2, nic_mode = 0x10, bCurSuppCCK = True, nic_seq = 0, nic_bssid = [0, 9, 9, 9, 9, 9],
     nic_addr = [0, 1, 1, 1, 1, 1], assoc_id = 1, single_queue = False, mgmt_queue_ring = replicate 5 None,
     mgmt_queue_head = 0, mgmt_queue_tail = 0\<rparr>"

definition ex_pkt :: "u8 \<Rightarrow> tx_frag" where
  "ex_pkt b = \<lparr>tf_skb = \<lparr>sk_mem = replicate 24 b @ replicate 8 0, sk_len = 24, sk_headroom = 8\<rparr>, tf_cb = cb_zero\<lparr>queue_index := 1\<rparr>, tf_priority = 0\<rparr>"

definition ex_txb :: "u8 list \<Rightarrow> rtllib_txb" where
  "ex_txb bs = \<lparr>nr_frags = of_nat (length bs), encrypted = False, payload_size = 24, txb_queue_index = 1, fragments = map ex_pkt bs\<rparr>"

lemma ex_nic_ok: "nic_ok ex_nic" "radio_on ex_nic" "nic_headroom ex_nic = 8"
  using alloc_ring_ok[of 64 "0x1000"] by (simp_all add: nic_ok_def ex_nic_def radio_on_def nth_replicate)

lemma ex_event_ok: "event_ok 8 (Ev_xmit (ex_txb bs))" "event_ok 8 (Ev_mgmt (ex_pkt b))" "event_ok 8 (Ev_irq i)" "event_ok 8 Ev_tasklet"
  "q < 9 \<Longrightarrow> event_ok 8 (Ev_hw q)"
  by (simp_all add: event_ok_def ex_txb_def ex_pkt_def packet_ok_def)

theorem tx_rings_safe_witness:
  "\<exists>d'. nic_run [Ev_xmit (ex_txb [1, 3]), Ev_mgmt (ex_pkt 2), Ev_hw 1, Ev_irq 0x48, Ev_tasklet] ex_nic = Some d' \<and> nic_ok d'"
  by (rule tx_rings_safe[OF ex_nic_ok(1)]) (simp add: ex_nic_ok(3) ex_event_ok)

theorem tx_queue_fifo_witness:
  "\<exists>d'. nic_run [Ev_xmit (ex_txb [1, 3]), Ev_hw 1, Ev_irq 0x08, Ev_xmit (ex_txb [5]), Ev_tasklet] ex_nic = Some d' \<and>
     completed d' ! 1 @ map pk_frag (rg_queue (tx_rings d' ! 1)) @ skb_waitQ d' ! 1 = [ex_pkt 1, ex_pkt 3, ex_pkt 5]"
proof -
  let ?es = "[Ev_xmit (ex_txb [1, 3]), Ev_hw 1, Ev_irq 0x08, Ev_xmit (ex_txb [5]), Ev_tasklet]"
  have e: "\<forall>e \<in> set ?es. event_ok (nic_headroom ex_nic) e" using ex_event_ok by (simp add: ex_nic_ok(3))
  have o: "concat (map (offered BE_QUEUE) ?es) = [ex_pkt 1, ex_pkt 3, ex_pkt 5]" by (simp add: offered_def ex_txb_def)
  have z: "completed ex_nic ! 1 = []" "rg_queue (tx_rings ex_nic ! 1) = []" "skb_waitQ ex_nic ! 1 = []"
    by (simp_all add: ex_nic_def rtl8192_alloc_tx_desc_ring_def nth_replicate)
  obtain d' acc where "nic_run ?es ex_nic = Some d'"
    "completed d' ! BE_QUEUE @ map pk_frag (rg_queue (tx_rings d' ! BE_QUEUE)) @ skb_waitQ d' ! BE_QUEUE = acc"
    "acc = [ex_pkt 1, ex_pkt 3, ex_pkt 5]"
    using tx_queue_fifo[OF ex_nic_ok(1,2) e, of BE_QUEUE] unfolding o z by auto
  then show ?thesis by blast
qed

text \<open>A management frame waits after the driver's queue was stopped for a while.\<close>

definition ex_stuck_nic :: tx_nic where
  "ex_stuck_nic = ex_nic\<lparr>skb_waitQ := (skb_waitQ ex_nic)[MGNT_QUEUE := [ex_pkt 2]]\<rparr>"

theorem mgmt_queue_stuck_witness:
  "\<exists>d'. nic_run [Ev_mgmt (ex_pkt 2), Ev_hw 6, Ev_irq 0x40, Ev_tasklet, Ev_mgmt (ex_pkt 2)] ex_stuck_nic = Some d' \<and>
     length (skb_waitQ d' ! 6) = 3 \<and> rg_queue (tx_rings d' ! 6) = [] \<and> completed d' ! 6 = []"
proof -
  let ?es = "[Ev_mgmt (ex_pkt 2), Ev_hw 6, Ev_irq 0x40, Ev_tasklet, Ev_mgmt (ex_pkt 2)]"
  have z: "skb_waitQ ex_stuck_nic ! 6 = [ex_pkt 2]" "completed ex_stuck_nic ! 6 = []" "rg_queue (tx_rings ex_stuck_nic ! 6) = []" "nic_headroom ex_stuck_nic = 8"
    by (simp_all add: ex_stuck_nic_def ex_nic_def rtl8192_alloc_tx_desc_ring_def nth_replicate)
  have ok: "nic_ok ex_stuck_nic" using ex_nic_ok(1) by (simp add: ex_stuck_nic_def nic_ok_def)
  have e: "\<forall>e \<in> set ?es. event_ok (nic_headroom ex_stuck_nic) e" using ex_event_ok by (simp add: z)
  show ?thesis using mgmt_queue_stuck[OF ok e] by (auto simp: z)
qed

end
