(* ===== verification/Tx_Ring_Drain.thy ===== *)
theory Tx_Ring_Drain
  imports Tx_Ring_Props
begin

text \<open>
  Delivery: rounds in which the device works through a ring, its interrupt is handled and the
  tasklet runs send everything that waits for a data queue. And the reset of the rings, which
  breaks this when the device still owns a descriptor.
\<close>

section \<open>The device works through a ring\<close>

lemma nic_run_append: "nic_run (es @ fs) d = do { d1 \<leftarrow> nic_run es d; nic_run fs d1 }"
proof (induction es arbitrary: d)
  case (Cons e es)
  then show ?case by (cases "nic_step e d") simp_all
qed simp

definition given_back :: "tx_ring \<Rightarrow> nat \<Rightarrow> bool" where
  "given_back r j \<longleftrightarrow> (\<forall>k < length (rg_queue r). k < j \<longrightarrow> \<not> OWN (rg_desc r ! ring_slot r k))"

lemma hw_complete_next:
  assumes "ring_ok (tx_rings d ! q)" "q < length (tx_rings d)" "given_back (tx_rings d ! q) j"
  shows "given_back (tx_rings (hw_complete q d) ! q) (Suc j)"
proof -
  let ?r = "tx_rings d ! q" and ?P = "\<lambda>k. OWN (rg_desc (tx_rings d ! q) ! ring_slot (tx_rings d ! q) k)"
  have len: "length (rg_queue ?r) < rg_entries ?r" "length (rg_desc ?r) = rg_entries ?r" using assms(1) by (auto simp: ring_ok_def)
  show ?thesis
  proof (cases "List.find ?P [0..<length (rg_queue ?r)]")
    case None
    then have "hw_complete q d = d" by (simp add: hw_complete_def Let_def)
    moreover have "\<forall>k < length (rg_queue ?r). \<not> ?P k" using None by (simp add: find_None_iff)
    ultimately show ?thesis by (simp add: given_back_def)
  next
    case (Some k)
    then have k: "k < length (rg_queue ?r)" "?P k" "\<forall>i < k. \<not> ?P i" by (auto simp: find_Some_iff)
    let ?r' = "?r\<lparr>rg_desc := (rg_desc ?r)[ring_slot ?r k := (rg_desc ?r ! ring_slot ?r k)\<lparr>OWN := False\<rparr>]\<rparr>"
    have "tx_rings (hw_complete q d) ! q = ?r'" using Some assms(2) by (simp add: hw_complete_def Let_def)
    moreover have "j \<le> k" using assms(3) k(1,2) by (meson given_back_def not_le_imp_less)
    moreover have "\<not> OWN (rg_desc ?r' ! ring_slot ?r' i)" if "i < length (rg_queue ?r)" "i < Suc j" for i
    proof (cases "i = k")
      case True
      have "ring_slot ?r k < length (rg_desc ?r)" using assms(1) len(2) by simp
      then show ?thesis using True by (simp add: ring_slot_def)
    next
      case False
      then have "i < k" using that(2) \<open>j \<le> k\<close> by simp
      moreover have "ring_slot ?r i \<noteq> ring_slot ?r k" using False that(1) k(1) len(1) slot_inj by fastforce
      ultimately show ?thesis using k(3) by (simp add: ring_slot_def)
    qed
    ultimately show ?thesis by (simp add: given_back_def)
  qed
qed

text \<open>What a move leaves of the queue that it is about.\<close>

definition kept :: "nat \<Rightarrow> tx_nic \<Rightarrow> tx_nic \<Rightarrow> bool" where
  "kept q d d' \<longleftrightarrow> nic_ok d' \<and> nic_static d d' \<and> rg_queue (tx_rings d' ! q) = rg_queue (tx_rings d ! q) \<and>
     rg_entries (tx_rings d' ! q) = rg_entries (tx_rings d ! q) \<and> skb_waitQ d' ! q = skb_waitQ d ! q \<and> completed d' ! q = completed d ! q"

lemma hw_run:
  "nic_ok d \<Longrightarrow> q < TXCMD_QUEUE \<Longrightarrow> given_back (tx_rings d ! q) j \<Longrightarrow>
     \<exists>d'. nic_run (replicate n (Ev_hw q)) d = Some d' \<and> kept q d d' \<and> given_back (tx_rings d' ! q) (n + j)"
proof (induction n arbitrary: d j)
  case 0
  then show ?case by (simp add: kept_def nic_static_def)
next
  case (Suc n)
  let ?d = "hw_complete q d"
  have r: "ring_ok (tx_rings d ! q)" and l: "q < length (tx_rings d)" "q < 9"
    using nic_ring[OF Suc.prems(1), of q] nic_lens[OF Suc.prems(1)] Suc.prems(2) by auto
  obtain r' where h: "rg_queue r' = rg_queue (tx_rings d ! q)" "rg_entries r' = rg_entries (tx_rings d ! q)"
    "at_queue q d ?d r' (completed d ! q) (skb_waitQ d ! q)" using hw_complete_ok[OF r] by blast
  have m: "nic_ok ?d \<and> nic_static d ?d" using hw_move[OF Suc.prems(1) l(2) Suc.prems(2)] by (simp add: nic_move_def)
  have "kept q d ?d" using m h l nic_lens[OF Suc.prems(1)] by (simp add: kept_def at_queue_def)
  moreover obtain d' where "nic_run (replicate n (Ev_hw q)) ?d = Some d'" "kept q ?d d'" "given_back (tx_rings d' ! q) (n + Suc j)"
    using Suc.IH[of ?d "Suc j"] m Suc.prems(2) hw_complete_next[OF r l(1) Suc.prems(3)] by auto
  ultimately show ?case by (auto simp: kept_def nic_static_def)
qed

lemma isr_loop_all:
  "\<forall>k < length ps. \<not> OWN (rg_desc r ! ring_slot r k) \<Longrightarrow> rg_idx r < rg_entries r \<Longrightarrow>
     \<exists>i. isr_loop False r ps = (r\<lparr>rg_idx := i, rg_queue := []\<rparr>, map pk_frag ps, True)"
proof (induction ps arbitrary: r)
  case Nil
  show ?case by (rule exI[of _ "rg_idx r"]) simp
next
  case (Cons p ps)
  let ?r = "r\<lparr>rg_idx := (rg_idx r + 1) mod rg_entries r\<rparr>"
  have slot: "ring_slot ?r k = ring_slot r (Suc k)" for k by (simp add: ring_slot_def mod_simps)
  have "\<not> OWN (rg_desc r ! rg_idx r)" using Cons.prems(1)[rule_format, of 0] Cons.prems(2) by (simp add: ring_slot_def)
  moreover have "\<forall>k < length ps. \<not> OWN (rg_desc ?r ! ring_slot ?r k)" using Cons.prems(1) unfolding slot by auto
  then obtain i where "isr_loop False ?r ps = (?r\<lparr>rg_idx := i, rg_queue := []\<rparr>, map pk_frag ps, True)"
    using Cons.IH[of ?r] Cons.prems(2) by auto
  ultimately show ?case by (intro exI[of _ i]) simp
qed

text \<open>The interrupt of a data queue alone.\<close>

definition irq_bit :: "nat \<Rightarrow> u32" where
  "irq_bit q = push_bit (4 - q) 1"

lemma irq_bit_isr: "q < HCCA_QUEUE \<Longrightarrow> tx_interrupt (irq_bit q) d = Some (rtl8192_tx_isr q d)"
proof -
  assume "q < HCCA_QUEUE"
  then consider "q = 0" | "q = 1" | "q = 2" | "q = 3" by fastforce
  then show ?thesis by cases (simp_all add: tx_interrupt_def tx_irq_mgmt_def tx_irq_data_def when_bit_def irq_bit_def)
qed

lemma isr_all:
  assumes "nic_ok d" "q < HCCA_QUEUE" "given_back (tx_rings d ! q) (length (rg_queue (tx_rings d ! q)))"
  defines "d' \<equiv> rtl8192_tx_isr q d"
  shows "rg_queue (tx_rings d' ! q) = []" "rg_entries (tx_rings d' ! q) = rg_entries (tx_rings d ! q)" "tasklet d'"
    "skb_waitQ d' ! q = skb_waitQ d ! q" "nic_ok d'" "nic_static d d'"
proof -
  let ?r = "tx_rings d ! q"
  have r: "ring_ok ?r" and l: "q < length (tx_rings d)" "q < 9"
    using nic_ring[OF assms(1), of q] nic_lens[OF assms(1)] assms(2) by auto
  obtain i where "isr_loop False ?r (rg_queue ?r) = (?r\<lparr>rg_idx := i, rg_queue := []\<rparr>, map pk_frag (rg_queue ?r), True)"
    using isr_loop_all[of "rg_queue ?r" ?r] assms(3) r by (auto simp: given_back_def ring_ok_def)
  then show "rg_queue (tx_rings d' ! q) = []" "rg_entries (tx_rings d' ! q) = rg_entries (tx_rings d ! q)" "tasklet d'"
    "skb_waitQ d' ! q = skb_waitQ d ! q"
    using assms(2) l by (simp_all add: d'_def rtl8192_tx_isr_def Let_def)
  show "nic_ok d'" "nic_static d d'" using isr_move[OF assms(1) l(2), of q] assms(2) by (simp_all add: d'_def nic_move_def)
qed

section \<open>The tasklet\<close>

lemma resume_others:
  "nic_ok d \<Longrightarrow> q < TXCMD_QUEUE \<Longrightarrow> \<forall>p \<in> set ps. p < TXCMD_QUEUE \<and> p \<noteq> q \<Longrightarrow> \<exists>d'. resume_queues ps d = Some d' \<and> kept q d d'"
proof (induction ps arbitrary: d)
  case Nil
  then show ?case by (simp add: kept_def nic_static_def)
next
  case (Cons p ps)
  have p: "p < TXCMD_QUEUE" "p \<noteq> q" using Cons.prems(3) by auto
  have r: "ring_ok (tx_rings d ! p)" "p < length (tx_rings d)" "p < length (skb_waitQ d)" "p \<noteq> BEACON_QUEUE"
    using nic_ring[OF Cons.prems(1), of p] nic_lens[OF Cons.prems(1)] p by auto
  obtain d1 r' w' where x: "resume_queue p d = Some d1" "at_queue p d d1 r' (completed d ! p) w'"
    using resume_loop_ok[OF r(4,1-3) nic_wait[OF Cons.prems(1) p(1)]] unfolding resume_queue_def by blast
  obtain d2 where m: "resume_queue p d = Some d2" "nic_move q [] 0 d d2" using resume_move[OF Cons.prems(1) p(1) Cons.prems(2)] by blast
  then have ok: "nic_ok d1" "nic_static d d1" using x(1) by (auto simp: nic_move_def)
  have k: "kept q d d1" using ok x(2) p(2) by (simp add: kept_def at_queue_def)
  obtain d3 where "resume_queues ps d1 = Some d3" "kept q d1 d3" using Cons.IH[OF ok(1) Cons.prems(2)] Cons.prems(3) by auto
  then show ?case using x(1) k by (auto simp: kept_def nic_static_def)
qed

lemma resume_queues_append: "resume_queues (ps @ qs) d = do { d1 \<leftarrow> resume_queues ps d; resume_queues qs d1 }"
proof (induction ps arbitrary: d)
  case (Cons p ps)
  then show ?case by (cases "resume_queue p d") simp_all
qed simp

lemma tasklet_fills:
  assumes d: "nic_ok d" "radio_on d" "tasklet d" and q: "q < HCCA_QUEUE" and e: "rg_queue (tx_rings d ! q) = []"
  shows "\<exists>d' sent. rtl8192_irq_tx_tasklet d = Some d' \<and> nic_ok d' \<and> nic_static d d' \<and> skb_waitQ d ! q = sent @ skb_waitQ d' ! q \<and>
     map pk_frag (rg_queue (tx_rings d' ! q)) = sent \<and> (skb_waitQ d' ! q \<noteq> [] \<longrightarrow> sent \<noteq> []) \<and>
     rg_entries (tx_rings d' ! q) = rg_entries (tx_rings d ! q)"
proof -
  let ?d0 = "d\<lparr>tasklet := False\<rparr>" and ?ps = "[BK_QUEUE..<q]" and ?qs = "[Suc q..<TXCMD_QUEUE]"
  have q5: "q < TXCMD_QUEUE" using q by simp
  have qs: "[BK_QUEUE..<TXCMD_QUEUE] = ?ps @ q # ?qs" using upt_add_eq_append[of 0 q "TXCMD_QUEUE - q"] q5 by (simp add: upt_conv_Cons)
  have d0: "nic_ok ?d0" "nic_static d ?d0" using d(1) by (simp_all add: nic_ok_def nic_static_def radio_on_def)
  obtain d1 where d1: "resume_queues ?ps ?d0 = Some d1" "kept q ?d0 d1" using resume_others[OF d0(1) q5, of ?ps] q by auto
  have ok1: "nic_ok d1" "radio_on d1" using d1(2) d(2) d0(2) by (auto simp: kept_def nic_static_def)
  have r: "ring_ok (tx_rings d1 ! q)" "q < length (tx_rings d1)" "q < length (skb_waitQ d1)" "q \<noteq> BEACON_QUEUE"
    using nic_ring[OF ok1(1), of q] nic_lens[OF ok1(1)] q by auto
  obtain d2 r2 sent w' where x: "resume_queue q d1 = Some d2" "ring_ok r2" "rg_entries r2 = rg_entries (tx_rings d1 ! q)"
    "skb_waitQ d1 ! q = sent @ w'" "at_queue q d1 d2 r2 (completed d1 ! q) w'"
    "map pk_frag (rg_queue r2) = map pk_frag (rg_queue (tx_rings d1 ! q)) @ (if radio_on d1 then sent else [])"
    "w' \<noteq> [] \<longrightarrow> rg_entries r2 < length (rg_queue r2) + 2"
    using resume_loop_ok[OF r(4,1-3) nic_wait[OF ok1(1) q5]] unfolding resume_queue_def by blast
  obtain d2' where "resume_queue q d1 = Some d2'" "nic_move q [] 0 d1 d2'" using resume_move[OF ok1(1) q5 q5] by blast
  then have ok2: "nic_ok d2" "nic_static d1 d2" using x(1) by (auto simp: nic_move_def)
  have at2: "tx_rings d2 ! q = r2" "skb_waitQ d2 ! q = w'" using x(5) r(2,3) by (simp_all add: at_queue_def)
  obtain d3 where d3: "resume_queues ?qs d2 = Some d3" "kept q d2 d3" using resume_others[OF ok2(1) q5, of ?qs] by auto
  have run: "rtl8192_irq_tx_tasklet d = Some d3"
    using d(3) d1(1) x(1) d3(1) by (simp add: rtl8192_irq_tx_tasklet_def rtl8192_tx_resume_def qs resume_queues_append)
  have sent: "map pk_frag (rg_queue r2) = sent" using x(6) ok1(2) d1(2) e by (simp add: kept_def)
  have "w' \<noteq> [] \<longrightarrow> sent \<noteq> []" using x(2,7) sent by (auto simp: ring_ok_def)
  then show ?thesis
    using run d3(2) d1(2) at2 sent x(3,4) ok2(2) d0(2)
    by (intro exI[of _ d3] exI[of _ sent]) (auto simp: kept_def nic_static_def)
qed

section \<open>Rounds\<close>

definition drain_round :: "nat \<Rightarrow> nat \<Rightarrow> nic_event list" where
  "drain_round q n = replicate n (Ev_hw q) @ [Ev_irq (irq_bit q), Ev_tasklet]"

lemma drain_round_ok:
  assumes "nic_ok d" "radio_on d" "q < HCCA_QUEUE" "rg_entries (tx_rings d ! q) \<le> n"
  shows "\<exists>d'. nic_run (drain_round q n) d = Some d' \<and> nic_ok d' \<and> radio_on d' \<and> rg_entries (tx_rings d' ! q) \<le> n \<and>
     length (skb_waitQ d' ! q) \<le> length (skb_waitQ d ! q) - 1 \<and> (skb_waitQ d ! q = [] \<longrightarrow> rg_queue (tx_rings d' ! q) = [])"
proof -
  have q5: "q < TXCMD_QUEUE" using assms(3) by simp
  obtain d1 where d1: "nic_run (replicate n (Ev_hw q)) d = Some d1" "kept q d d1" "given_back (tx_rings d1 ! q) n"
    using hw_run[OF assms(1) q5, of 0 n] by (auto simp: given_back_def)
  have ok1: "nic_ok d1" "radio_on d1" using d1(2) assms(2) by (auto simp: kept_def nic_static_def)
  have "length (rg_queue (tx_rings d1 ! q)) \<le> n" using nic_ring[OF ok1(1), of q] assms(3,4) d1(2) by (auto simp: kept_def ring_ok_def)
  then have done_all: "given_back (tx_rings d1 ! q) (length (rg_queue (tx_rings d1 ! q)))" using d1(3) by (auto simp: given_back_def)
  let ?d2 = "rtl8192_tx_isr q d1"
  note i = isr_all[OF ok1(1) assms(3) done_all]
  have r2: "radio_on ?d2" using i(6) ok1(2) by (simp add: nic_static_def)
  obtain d3 sent where d3: "rtl8192_irq_tx_tasklet ?d2 = Some d3" "nic_ok d3" "nic_static ?d2 d3" "skb_waitQ ?d2 ! q = sent @ skb_waitQ d3 ! q"
    "map pk_frag (rg_queue (tx_rings d3 ! q)) = sent" "skb_waitQ d3 ! q \<noteq> [] \<longrightarrow> sent \<noteq> []"
    "rg_entries (tx_rings d3 ! q) = rg_entries (tx_rings ?d2 ! q)"
    using tasklet_fills[OF i(5) r2 i(3) assms(3) i(1)] by blast
  have run: "nic_run (drain_round q n) d = Some d3"
    using d1(1) d3(1) irq_bit_isr[OF assms(3)] by (simp add: drain_round_def nic_run_append)
  have w: "skb_waitQ d ! q = sent @ skb_waitQ d3 ! q" using d3(4) i(4) d1(2) by (simp add: kept_def)
  have "length (skb_waitQ d3 ! q) \<le> length (skb_waitQ d ! q) - 1" using w d3(6) by (cases sent) auto
  then show ?thesis using run d3 w i(2) d1(2) assms(4) r2 by (auto simp: kept_def nic_static_def)
qed

lemma drain_rounds_empty:
  "nic_ok d \<Longrightarrow> radio_on d \<Longrightarrow> q < HCCA_QUEUE \<Longrightarrow> rg_entries (tx_rings d ! q) \<le> n \<Longrightarrow> length (skb_waitQ d ! q) < m \<Longrightarrow>
     \<exists>d'. nic_run (concat (replicate m (drain_round q n))) d = Some d' \<and> skb_waitQ d' ! q = [] \<and> rg_queue (tx_rings d' ! q) = []"
proof (induction m arbitrary: d)
  case 0
  then show ?case by simp
next
  case (Suc m)
  obtain d1 where d1: "nic_run (drain_round q n) d = Some d1" "nic_ok d1" "radio_on d1" "rg_entries (tx_rings d1 ! q) \<le> n"
    "length (skb_waitQ d1 ! q) \<le> length (skb_waitQ d ! q) - 1" "skb_waitQ d ! q = [] \<longrightarrow> rg_queue (tx_rings d1 ! q) = []"
    using drain_round_ok[OF Suc.prems(1-4)] by blast
  show ?case
  proof (cases m)
    case 0
    then have "skb_waitQ d ! q = []" using Suc.prems(5) by simp
    then show ?thesis using 0 d1 by simp
  next
    case (Suc m')
    then have "length (skb_waitQ d1 ! q) < m" using d1(5) Suc.prems(5) by simp
    then show ?thesis using Suc.IH[OF d1(2,3) Suc.prems(3) d1(4)] d1(1) by (simp add: nic_run_append)
  qed
qed

text \<open>
  C38: everything that is queued for a data queue is sent. After one more round than frames
  wait, in each of which the device works through its ring, its interrupt is handled and the
  tasklet runs, all frames of the ring and of the wait queue have been finished in their order.
\<close>

theorem tx_queue_drains:
  assumes "nic_ok d" "radio_on d" "q < HCCA_QUEUE" "rg_entries (tx_rings d ! q) \<le> n" "length (skb_waitQ d ! q) < m"
  shows "\<exists>d'. nic_run (concat (replicate m (drain_round q n))) d = Some d' \<and> rg_queue (tx_rings d' ! q) = [] \<and> skb_waitQ d' ! q = [] \<and>
     completed d' ! q = completed d ! q @ map pk_frag (rg_queue (tx_rings d ! q)) @ skb_waitQ d ! q"
proof -
  let ?es = "concat (replicate m (drain_round q n))"
  obtain d' where d': "nic_run ?es d = Some d'" "skb_waitQ d' ! q = []" "rg_queue (tx_rings d' ! q) = []"
    using drain_rounds_empty[OF assms] by blast
  have mem: "\<forall>e \<in> set ?es. event_ok (nic_headroom d) e \<and> offered q e = []"
    using assms(3) by (auto simp: drain_round_def event_ok_def offered_def)
  then have off: "concat (map (offered q) ?es) = []" by (simp only: concat_eq_Nil_conv) auto
  have "takes q (concat (map (offered q) ?es)) d d'" using run_move[OF assms(1), of ?es q] mem d'(1) assms(3) by (auto simp: nic_move_def)
  then have "takes q [] d d'" unfolding off .
  then have "flow q d' = flow q d" using assms(2) by (auto simp: takes_def dest: list_emb_Nil2)
  then show ?thesis using d' by (auto simp: flow_def)
qed

text \<open>The radio went off line for a while and two frames wait for the best effort queue.\<close>

definition ex_wait_nic :: tx_nic where
  "ex_wait_nic = ex_nic\<lparr>skb_waitQ := (skb_waitQ ex_nic)[BE_QUEUE := [ex_pkt 1, ex_pkt 3]]\<rparr>"

theorem tx_queue_drains_witness:
  "\<exists>d'. nic_run (concat (replicate 3 (drain_round 1 64))) ex_wait_nic = Some d' \<and> rg_queue (tx_rings d' ! 1) = [] \<and> skb_waitQ d' ! 1 = [] \<and>
     completed d' ! 1 = [ex_pkt 1, ex_pkt 3]"
proof -
  have z: "skb_waitQ ex_wait_nic ! 1 = [ex_pkt 1, ex_pkt 3]" "completed ex_wait_nic ! 1 = []" "rg_queue (tx_rings ex_wait_nic ! 1) = []"
    "rg_entries (tx_rings ex_wait_nic ! 1) = 64" "radio_on ex_wait_nic"
    by (simp_all add: ex_wait_nic_def ex_nic_def rtl8192_alloc_tx_desc_ring_def nth_replicate radio_on_def)
  have ok: "nic_ok ex_wait_nic"
    using ex_nic_ok(1) by (auto simp: ex_wait_nic_def nic_ok_def nth_list_update packet_ok_def ex_pkt_def ex_nic_ok(3))
  show ?thesis using tx_queue_drains[OF ok z(5), of BE_QUEUE 64 3] z(1-4) by simp
qed

section \<open>Reset\<close>

lemma reset_ring_at:
  "p < length (tx_rings d) \<Longrightarrow> tx_rings (reset_ring p d) = (tx_rings d)[p := (if rg_desc (tx_rings d ! p) = [] then tx_rings d ! p
     else (tx_rings d ! p)\<lparr>rg_idx := 0, rg_queue := []\<rparr>)]"
  "nic_headroom (reset_ring p d) = nic_headroom d" "radio_on (reset_ring p d) = radio_on d"
  by (auto simp: reset_ring_def Let_def radio_on_def split: prod.splits)

lemma reset_rings_at:
  "distinct ps \<Longrightarrow> \<forall>p \<in> set ps. p < length (tx_rings d) \<Longrightarrow> q \<in> set ps \<Longrightarrow> rg_desc (tx_rings d ! q) \<noteq> [] \<Longrightarrow>
     tx_rings (fold reset_ring ps d) ! q = (tx_rings d ! q)\<lparr>rg_idx := 0, rg_queue := []\<rparr> \<and>
     nic_headroom (fold reset_ring ps d) = nic_headroom d \<and> radio_on (fold reset_ring ps d) = radio_on d"
proof (induction ps arbitrary: d)
  case (Cons p ps)
  have p: "p < length (tx_rings d)" using Cons.prems(2) by simp
  have len: "length (tx_rings (reset_ring p d)) = length (tx_rings d)" using reset_ring_at(1)[OF p] by simp
  show ?case
  proof (cases "p = q")
    case True
    then have "q \<notin> set ps" using Cons.prems(1) by simp
    moreover have keep: "q \<notin> set ps \<Longrightarrow> \<forall>p \<in> set ps. p < length (tx_rings e) \<Longrightarrow> tx_rings (fold reset_ring ps e) ! q = tx_rings e ! q \<and>
        nic_headroom (fold reset_ring ps e) = nic_headroom e \<and> radio_on (fold reset_ring ps e) = radio_on e" for ps e
      by (induction ps arbitrary: e) (auto simp: reset_ring_at)
    ultimately show ?thesis using keep[of ps "reset_ring p d"] True p Cons.prems(2,4) len by (simp add: reset_ring_at)
  next
    case False
    then show ?thesis using Cons.IH[of "reset_ring p d"] Cons.prems p len by (simp add: reset_ring_at)
  qed
qed simp

lemma sint_zero: "sint w = 0 \<Longrightarrow> w = (0 :: 16 word)"
  using signed_word_eqI[of w "0 :: 16 word"] by simp

text \<open>
  C40: the reset of the rings leaves the owner bits as they are. If the device still owns the
  first descriptor of a data queue at that time, the next data frame of this queue is refused
  and freed, and the statistics read the freed buffer; a management frame is dropped.
\<close>

theorem reset_keeps_owner:
  assumes d: "nic_ok d" "radio_on d" "q < MAX_TX_QUEUE_COUNT" "q \<noteq> BEACON_QUEUE" "q \<noteq> TXCMD_QUEUE" "OWN (rg_desc (tx_rings d ! q) ! 0)"
    and f: "packet_ok (nic_headroom d) q f" "sk_len (tf_skb f) + nic_headroom d < 2 ^ 15" "0 < sk_len (tf_skb f)"
  defines "d' \<equiv> rtl8192_pci_resetdescring d"
  shows "rg_queue (tx_rings d' ! q) = [] \<and> check_nic_enough_desc q d' \<and>
     (if q = MGNT_QUEUE then \<exists>d'' ret f'. rtl8192_hard_start_xmit f d' = Some (d'', ret) \<and> discarded d'' = discarded d' @ [f'] \<and>
          tf_skb f' = tf_skb f \<and> rg_queue (tx_rings d'' ! q) = []
      else rtl8192_hard_data_xmit f d' = None)"
proof -
  let ?r = "tx_rings d ! q"
  have r: "ring_ok ?r" using nic_ring[OF d(1,3,5,4)] .
  then have "rg_desc ?r \<noteq> []" by (auto simp: ring_ok_def)
  then have e: "tx_rings d' ! q = ?r\<lparr>rg_idx := 0, rg_queue := []\<rparr>" "nic_headroom d' = nic_headroom d" "radio_on d'"
    using reset_rings_at[of "[0..<MAX_TX_QUEUE_COUNT]" d q] nic_lens[OF d(1)] d(2,3) unfolding d'_def rtl8192_pci_resetdescring_def
    by (simp_all del: upt_Suc upt_conv_Cons)
  let ?len = "sk_len (tf_skb f) + nic_headroom d"
  have ret: "sint (of_nat ?len :: 16 word) \<noteq> 0"
  proof
    assume "sint (of_nat ?len :: 16 word) = 0"
    then have "(of_nat ?len :: 16 word) = 0" using sint_zero by blast
    then show False using f(2,3) by (simp only: word_of_nat_eq_0_iff) (auto dest: dvd_imp_le)
  qed
  have tx: "\<exists>d''. rtl8192_tx g d' = Some (d'', sint (of_nat ?len :: 16 word)) \<and> discarded d'' = discarded d' \<and> tx_rings d'' = tx_rings d'"
    if g: "tf_skb g = tf_skb f" "queue_index (tf_cb g) = queue_index (tf_cb f)" for g
  proof -
    obtain a where a: "rdn (tf_skb f) 4 6 = Some a" using f(1) by (simp add: rdn_def packet_ok_def)
    have "0 < rg_entries ?r" using r by (simp add: ring_ok_def)
    then show ?thesis using g a e(1,2) d(4,6) f(1) by (simp add: rtl8192_tx_def Let_def packet_ok_def)
  qed
  have "check_nic_enough_desc q d'" using r e(1) by (simp add: check_nic_enough_desc_def Let_def ring_ok_def word_le_nat_alt unat_of_nat)
  moreover have "rtl8192_hard_data_xmit f d' = None" if "q \<noteq> MGNT_QUEUE"
    using tx[of f] ret that e(2,3) f(1) by (auto simp: rtl8192_hard_data_xmit_def radio_on_def packet_ok_def)
  moreover have "\<exists>d'' ret f'. rtl8192_hard_start_xmit f d' = Some (d'', ret) \<and> discarded d'' = discarded d' @ [f'] \<and>
      tf_skb f' = tf_skb f \<and> rg_queue (tx_rings d'' ! q) = []"
  proof -
    let ?f = "f\<lparr>tf_cb := (tf_cb f)\<lparr>RATRIndex := 7, bTxDisableRateFallBack := True, bTxUseDriverAssingedRate := True, bTxEnableFwCalcDur := True\<rparr>\<rparr>"
    obtain d'' where "rtl8192_tx ?f d' = Some (d'', sint (of_nat ?len :: 16 word))" "discarded d'' = discarded d'" "tx_rings d'' = tx_rings d'"
      using tx[of ?f] by auto
    then have "rtl8192_hard_start_xmit f d' = Some (d''\<lparr>discarded := discarded d'' @ [?f]\<rparr>, sint (of_nat ?len :: 16 word)) \<and>
        discarded (d''\<lparr>discarded := discarded d'' @ [?f]\<rparr>) = discarded d' @ [?f] \<and> rg_queue (tx_rings (d''\<lparr>discarded := discarded d'' @ [?f]\<rparr>) ! q) = []"
      using ret e f(1) d(5) by (auto simp: rtl8192_hard_start_xmit_def radio_on_def packet_ok_def)
    then show ?thesis by (intro exI[of _ "d''\<lparr>discarded := discarded d'' @ [?f]\<rparr>"] exI[of _ "sint (of_nat ?len :: 16 word)"] exI[of _ ?f]) simp
  qed
  ultimately show ?thesis using e(1) by (cases "q = MGNT_QUEUE") auto
qed

text \<open>The device has not finished the first frame when the rings are reset.\<close>

theorem reset_keeps_owner_witness:
  "\<exists>d. nic_run [Ev_xmit (ex_txb [1])] ex_nic = Some d \<and> rtl8192_hard_data_xmit (ex_pkt 3) (rtl8192_pci_resetdescring d) = None"
proof -
  have ev: "event_ok (nic_headroom ex_nic) (Ev_xmit (ex_txb [1]))" unfolding ex_nic_ok(3) by (rule ex_event_ok(1))
  obtain d where d: "nic_run [Ev_xmit (ex_txb [1])] ex_nic = Some d" "nic_move BE_QUEUE [ex_pkt 1] 0 ex_nic d"
    using run_move[OF ex_nic_ok(1), of "[Ev_xmit (ex_txb [1])]" BE_QUEUE] ev by (auto simp: offered_def ex_txb_def is_mgmt_def)
  then have ok: "nic_ok d" "radio_on d" "nic_headroom d = 8" using ex_nic_ok by (auto simp: nic_move_def nic_static_def)
  have own: "OWN (rg_desc (tx_rings d ! 1) ! 0)"
    using d(1) by (auto simp: rtllib_softmac_xmit_def rtllib_sta_wakeup_def ex_nic_def ex_txb_def ex_pkt_def cb_zero_def softmac_frag_def
        check_nic_enough_desc_def rtl8192_alloc_tx_desc_ring_def nth_replicate rtl8192_hard_data_xmit_def rtl8192_tx_def rdn_def
        Let_def count_bytes_def split: prod.splits if_splits)
  have "packet_ok (nic_headroom d) BE_QUEUE (ex_pkt 3)" by (simp add: ok(3) packet_ok_def ex_pkt_def)
  then show ?thesis
    using reset_keeps_owner[OF ok(1,2), of BE_QUEUE "ex_pkt 3"] own d(1) ok(3) by (auto simp: ex_pkt_def)
qed

end
