(* ===== verification/HT_Data.thy ===== *)
theory HT_Data
  imports Prelude
begin

text \<open>
  The data of the high throughput (802.11n) negotiation of src/src/rtl819x_HTProc.c and
  src/src/rtl819x_HT.h: the rate table, the two elements as packed bit-fields, the driver's
  settings and the part of the device and of the network that the negotiation uses.
\<close>

section \<open>Rates\<close>

definition MCS_FILTER_ALL :: "u8 list" where
  "MCS_FILTER_ALL = [0xff, 0xff, 0xff, 0xff, 0xff, 0xff, 0xff, 0xff, 0xff, 0x1f, 0x00, 0x00, 0x00, 0x00, 0x00, 0x00]"

definition MCS_FILTER_1SS :: "u8 list" where
  "MCS_FILTER_1SS = [0xff, 0x00, 0x00, 0x01, 0x00, 0x00, 0x00, 0x00, 0x00, 0x00, 0x00, 0x00, 0x00, 0x00, 0x00, 0x00]"

text \<open>
  The data rate in units of 500 kb/s by width, guard interval and index. The source gives 76 of
  the 77 values of the first row, so C sets the last one to 0.
\<close>

definition MCS_DATA_RATE :: "u16 list list list" where
  "MCS_DATA_RATE =
    [[[13, 26, 39, 52, 78, 104, 117, 130, 26, 52, 78, 104, 156, 208, 234, 260,
       39, 78, 117, 234, 312, 351, 390, 52, 104, 156, 208, 312, 416, 468, 520,
       0, 78, 104, 130, 117, 156, 195, 104, 130, 130, 156, 182, 182, 208, 156, 195,
       195, 234, 273, 273, 312, 130, 156, 181, 156, 181, 208, 234, 208, 234, 260, 260,
       286, 195, 234, 273, 234, 273, 312, 351, 312, 351, 390, 390, 429, 0],
      [14, 29, 43, 58, 87, 116, 130, 144, 29, 58, 87, 116, 173, 231, 260, 289,
       43, 87, 130, 173, 260, 347, 390, 433, 58, 116, 173, 231, 347, 462, 520, 578,
       0, 87, 116, 144, 130, 173, 217, 116, 144, 144, 173, 202, 202, 231, 173, 217,
       217, 260, 303, 303, 347, 144, 173, 202, 173, 202, 231, 260, 231, 260, 289, 289,
       318, 217, 260, 303, 260, 303, 347, 390, 347, 390, 433, 433, 477]],
     [[27, 54, 81, 108, 162, 216, 243, 270, 54, 108, 162, 216, 324, 432, 486, 540,
       81, 162, 243, 324, 486, 648, 729, 810, 108, 216, 324, 432, 648, 864, 972, 1080,
       12, 162, 216, 270, 243, 324, 405, 216, 270, 270, 324, 378, 378, 432, 324, 405,
       405, 486, 567, 567, 648, 270, 324, 378, 324, 378, 432, 486, 432, 486, 540, 540,
       594, 405, 486, 567, 486, 567, 648, 729, 648, 729, 810, 810, 891],
      [30, 60, 90, 120, 180, 240, 270, 300, 60, 120, 180, 240, 360, 480, 540, 600,
       90, 180, 270, 360, 540, 720, 810, 900, 120, 240, 360, 480, 720, 960, 1080, 1200,
       13, 180, 240, 300, 270, 360, 450, 240, 300, 300, 360, 420, 420, 480, 360, 450,
       450, 540, 630, 630, 720, 300, 360, 420, 360, 420, 480, 540, 480, 540, 600, 600,
       660, 450, 540, 630, 540, 630, 720, 810, 720, 810, 900, 900, 990]]]"

definition mcs_rate :: "bool \<Rightarrow> bool \<Rightarrow> nat \<Rightarrow> u16 option" where
  "mcs_rate is40MHz isShortGI i =
     (let row = MCS_DATA_RATE ! of_bool is40MHz ! of_bool isShortGI
      in if i < length row then Some (row ! i) else None)"

text \<open>A rate set has one bit per index, eight to a byte.\<close>

definition mcs_in :: "u8 list \<Rightarrow> nat \<Rightarrow> bool" where
  "mcs_in s k \<longleftrightarrow> k < 8 * length s \<and> bit (s ! (k div 8)) (k mod 8)"

section \<open>Elements\<close>

text \<open>
  The capability element is a packed structure of 26 bytes, the information element one of
  22 bytes; the code reads and writes them in place in byte buffers. A field is a bit range
  of one byte.
\<close>

record ht_capability_ele =
  AdvCoding :: u8
  ChlWidth :: u8
  MimoPwrSave :: u8
  GreenField :: u8
  ShortGI20Mhz :: u8
  ShortGI40Mhz :: u8
  TxSTBC :: u8
  RxSTBC :: u8
  DelayBA :: u8
  MaxAMSDUSize :: u8
  DssCCk :: u8
  PSMP :: u8
  LSigTxopProtect :: u8
  MaxRxAMPDUFactor :: u8
  MPDUDensity :: u8
  MCS :: "u8 list"
  ExtHTCapInfo :: "u8 list"
  TxBFCap :: "u8 list"
  ASCap :: u8

definition cap_get :: "u8 list \<Rightarrow> ht_capability_ele" where
  "cap_get b =
     \<lparr>AdvCoding = bf_get 0 1 (b ! 0), ChlWidth = bf_get 1 1 (b ! 0), MimoPwrSave = bf_get 2 2 (b ! 0),
      GreenField = bf_get 4 1 (b ! 0), ShortGI20Mhz = bf_get 5 1 (b ! 0), ShortGI40Mhz = bf_get 6 1 (b ! 0),
      TxSTBC = bf_get 7 1 (b ! 0), RxSTBC = bf_get 0 2 (b ! 1), DelayBA = bf_get 2 1 (b ! 1),
      MaxAMSDUSize = bf_get 3 1 (b ! 1), DssCCk = bf_get 4 1 (b ! 1), PSMP = bf_get 5 1 (b ! 1),
      LSigTxopProtect = bf_get 7 1 (b ! 1), MaxRxAMPDUFactor = bf_get 0 2 (b ! 2), MPDUDensity = bf_get 2 3 (b ! 2),
      MCS = take 16 (drop 3 b), ExtHTCapInfo = take 2 (drop 19 b), TxBFCap = take 4 (drop 21 b), ASCap = b ! 25\<rparr>"

definition cap_put :: "ht_capability_ele \<Rightarrow> u8 list" where
  "cap_put c =
     [bf_put 0 1 (AdvCoding c) (bf_put 1 1 (ChlWidth c) (bf_put 2 2 (MimoPwrSave c) (bf_put 4 1 (GreenField c)
        (bf_put 5 1 (ShortGI20Mhz c) (bf_put 6 1 (ShortGI40Mhz c) (bf_put 7 1 (TxSTBC c) 0)))))),
      bf_put 0 2 (RxSTBC c) (bf_put 2 1 (DelayBA c) (bf_put 3 1 (MaxAMSDUSize c) (bf_put 4 1 (DssCCk c)
        (bf_put 5 1 (PSMP c) (bf_put 7 1 (LSigTxopProtect c) 0))))),
      bf_put 0 2 (MaxRxAMPDUFactor c) (bf_put 2 3 (MPDUDensity c) 0)]
     @ MCS c @ ExtHTCapInfo c @ TxBFCap c @ [ASCap c]"

text \<open>The fields of the information element that the driver writes and reads.\<close>

record ht_information_ele =
  ControlChl :: u8
  ExtChlOffset :: u8
  RecommemdedTxWidth :: u8
  RIFS :: u8
  PSMPAccessOnly :: u8
  SrvIntGranularity :: u8
  OptMode :: u8
  NonGFDevPresent :: u8
  DualBeacon :: u8
  SecondaryBeacon :: u8
  LSigTxopProtectFull :: u8
  PcoActive :: u8
  PcoPhase :: u8
  BasicMSC :: "u8 list"

definition info_get :: "u8 list \<Rightarrow> ht_information_ele" where
  "info_get b =
     \<lparr>ControlChl = b ! 0, ExtChlOffset = bf_get 0 2 (b ! 1), RecommemdedTxWidth = bf_get 2 1 (b ! 1),
      RIFS = bf_get 3 1 (b ! 1), PSMPAccessOnly = bf_get 4 1 (b ! 1), SrvIntGranularity = bf_get 5 3 (b ! 1),
      OptMode = bf_get 0 2 (b ! 2), NonGFDevPresent = bf_get 2 1 (b ! 2), DualBeacon = bf_get 6 1 (b ! 4),
      SecondaryBeacon = bf_get 0 1 (b ! 5), LSigTxopProtectFull = bf_get 1 1 (b ! 5), PcoActive = bf_get 2 1 (b ! 5),
      PcoPhase = bf_get 3 1 (b ! 5), BasicMSC = take 16 (drop 6 b)\<rparr>"

definition info_put :: "ht_information_ele \<Rightarrow> u8 list" where
  "info_put f =
     [ControlChl f,
      bf_put 0 2 (ExtChlOffset f) (bf_put 2 1 (RecommemdedTxWidth f) (bf_put 3 1 (RIFS f)
        (bf_put 4 1 (PSMPAccessOnly f) (bf_put 5 3 (SrvIntGranularity f) 0)))),
      bf_put 0 2 (OptMode f) (bf_put 2 1 (NonGFDevPresent f) 0),
      0,
      bf_put 6 1 (DualBeacon f) 0,
      bf_put 0 1 (SecondaryBeacon f) (bf_put 1 1 (LSigTxopProtectFull f) (bf_put 2 1 (PcoActive f) (bf_put 3 1 (PcoPhase f) 0)))]
     @ BasicMSC f"

section \<open>State\<close>

datatype ht_channel_width = HT_CHANNEL_WIDTH_20 | HT_CHANNEL_WIDTH_20_40

datatype ht_extchnl_offset =
  HT_EXTCHNL_OFFSET_NO_EXT | HT_EXTCHNL_OFFSET_UPPER | HT_EXTCHNL_OFFSET_NO_DEF | HT_EXTCHNL_OFFSET_LOWER

datatype ht_spec_ver = HT_SPEC_VER_IEEE | HT_SPEC_VER_EWC

datatype chnlop = CHNLOP_NONE | CHNLOP_SCAN | CHNLOP_SWBW | CHNLOP_SWCHNL

datatype ht_iot_peer =
  HT_IOT_PEER_UNKNOWN | HT_IOT_PEER_REALTEK | HT_IOT_PEER_REALTEK_92SE | HT_IOT_PEER_BROADCOM | HT_IOT_PEER_RALINK
| HT_IOT_PEER_ATHEROS | HT_IOT_PEER_CISCO | HT_IOT_PEER_MARVELL | HT_IOT_PEER_92U_SOFTAP | HT_IOT_PEER_SELF_SOFTAP

definition MIMO_PS_STATIC :: u8 where "MIMO_PS_STATIC = 0"
definition HT_AGG_SIZE_32K :: u8 where "HT_AGG_SIZE_32K = 2"
definition HT_AGG_SIZE_64K :: u8 where "HT_AGG_SIZE_64K = 3"
definition HT_EXTCHNL_of :: "u8 \<Rightarrow> ht_extchnl_offset" where
  "HT_EXTCHNL_of v = (if v = 0 then HT_EXTCHNL_OFFSET_NO_EXT else if v = 1 then HT_EXTCHNL_OFFSET_UPPER
     else if v = 2 then HT_EXTCHNL_OFFSET_NO_DEF else HT_EXTCHNL_OFFSET_LOWER)"

definition HT_IOT_ACT_DISABLE_MCS14 :: u32 where "HT_IOT_ACT_DISABLE_MCS14 = 0x4"
definition HT_IOT_ACT_DISABLE_MCS15 :: u32 where "HT_IOT_ACT_DISABLE_MCS15 = 0x8"
definition HT_IOT_ACT_DISABLE_ALL_2SS :: u32 where "HT_IOT_ACT_DISABLE_ALL_2SS = 0x10"
definition HT_IOT_ACT_DISABLE_EDCA_TURBO :: u32 where "HT_IOT_ACT_DISABLE_EDCA_TURBO = 0x20"
definition HT_IOT_ACT_MGNT_USE_CCK_6M :: u32 where "HT_IOT_ACT_MGNT_USE_CCK_6M = 0x40"
definition HT_IOT_ACT_CDD_FSYNC :: u32 where "HT_IOT_ACT_CDD_FSYNC = 0x80"
definition HT_IOT_ACT_AMSDU_ENABLE :: u32 where "HT_IOT_ACT_AMSDU_ENABLE = 0x800"
definition HT_IOT_RAFUNC_DISABLE_ALL :: u8 where "HT_IOT_RAFUNC_DISABLE_ALL = 0"
definition HT_IOT_RAFUNC_PEER_1R :: u8 where "HT_IOT_RAFUNC_PEER_1R = 1"
definition HT_IOT_RAFUNC_TX_AMSDU :: u8 where "HT_IOT_RAFUNC_TX_AMSDU = 2"
definition RT_HT_CAP_USE_SOFTAP :: u8 where "RT_HT_CAP_USE_SOFTAP = 0x10"
definition RT_HT_CAP_USE_92SE :: u8 where "RT_HT_CAP_USE_92SE = 0x20"

text \<open>The negotiation state \<open>RT_HIGH_THROUGHPUT\<close>; the fields for forced modes are read elsewhere.\<close>

record rt_high_throughput =
  bEnableHT :: bool
  bCurrentHTSupport :: bool
  bRegBW40MHz :: bool
  bCurBW40MHz :: bool
  bRegShortGI40MHz :: bool
  bCurShortGI40MHz :: bool
  bRegShortGI20MHz :: bool
  bCurShortGI20MHz :: bool
  bRegSuppCCK :: bool
  bCurSuppCCK :: bool
  ePeerHTSpecVer :: ht_spec_ver
  SelfHTCap :: "u8 list"
  SelfHTInfo :: "u8 list"
  PeerHTCapBuf :: "u8 list"
  PeerHTInfoBuf :: "u8 list"
  bAMSDU_Support :: bool
  nAMSDU_MaxSize :: u16
  bCurrent_AMSDU_Support :: bool
  nCurrent_AMSDU_MaxSize :: u16
  bAMPDUEnable :: bool
  bCurrentAMPDUEnable :: bool
  AMPDU_Factor :: u8
  CurrentAMPDUFactor :: u8
  MPDU_Density :: u8
  CurrentMPDUDensity :: u8
  bForcedShortGI :: bool
  CurrentOpMode :: u8
  SelfMimoPs :: u8
  PeerMimoPs :: u8
  CurSTAExtChnlOffset :: ht_extchnl_offset
  bCurTxBW40MHz :: bool
  bSwBwInProgress :: bool
  ChnlOp :: chnlop
  bRegRT2RTAggregation :: bool
  RT2RT_HT_Mode :: u8
  bCurrentRT2RTAggregation :: bool
  bCurrentRT2RTLongSlotTime :: bool
  szRT2RTAggBuffer :: "u8 list"
  bRegRxReorderEnable :: bool
  bCurRxReorderEnable :: bool
  RxReorderWinSize :: u8
  RxReorderPendingTime :: u8
  IOTPeer :: ht_iot_peer
  IOTAction :: u32
  IOTRaFunc :: u8

record bss_ht =
  bdSupportHT :: bool
  bdHTCapBuf :: "u8 list"
  bdHTCapLen :: u16
  bdHTInfoBuf :: "u8 list"
  bdHTInfoLen :: u16
  bdHTSpecVer :: ht_spec_ver
  bdBandWidth :: ht_channel_width
  bdRT2RTAggregation :: bool
  bdRT2RTLongSlotTime :: bool
  bd_RT2RT_HT_Mode :: u8
  bdHT1R :: bool

text \<open>The part of a network that the negotiation reads.\<close>

record ht_net =
  ht_bssid :: mac
  ht_channel :: u8
  bssht :: bss_ht
  ralink_cap_exist :: bool
  broadcom_cap_exist :: bool
  atheros_cap_exist :: bool
  cisco_cap_exist :: bool
  marvell_cap_exist :: bool

text \<open>What the driver is told to do with the radio.\<close>

datatype radio_op = SetChan int | SetBWMode ht_channel_width ht_extchnl_offset

definition IEEE_A :: u32 where "IEEE_A = 1"
definition IEEE_B :: u32 where "IEEE_B = 2"
definition IEEE_G :: u32 where "IEEE_G = 4"
definition IEEE_N_24G :: u32 where "IEEE_N_24G = 16"
definition IEEE_N_5G :: u32 where "IEEE_N_5G = 32"

text \<open>
  The device. \<open>halfN\<close> is \<open>bHalfWirelessN24GMode\<close>, which the driver's handler
  \<open>GetHalfNmodeSupportByAPs819xPci\<close> returns; \<open>ap_sec_type\<close> is the answer of
  \<open>rtllib_ap_sec_type\<close>, and \<open>may_beacon\<close> says whether \<open>iw_mode\<close> is that of an ad hoc or a
  master device.
\<close>

record ht_dev =
  hti :: rt_high_throughput
  cur_net :: ht_net
  ht_mode :: u32
  halfN :: bool
  may_beacon :: bool
  key_NA :: bool
  ap_sec_type :: u8
  bSupportRemoteWakeUp :: bool
  RegHTSuppRateSet :: "u8 list"
  Regdot11HTOperationalRateSet :: "u8 list"
  Regdot11TxHTOperationalRateSet :: "u8 list"
  dot11HTOperationalRateSet :: "u8 list"
  HTHighestOperaRate :: u8
  HTCurrentOperaRate :: u8
  bTxDisableRateFallBack :: bool
  bTxUseDriverAssingedRate :: bool
  bTxEnableFwCalcDur :: bool
  radio_ops :: "radio_op list"

abbreviation upd_ht :: "(rt_high_throughput \<Rightarrow> rt_high_throughput) \<Rightarrow> ht_dev \<Rightarrow> ht_dev" where
  "upd_ht f d \<equiv> d\<lparr>hti := f (hti d)\<rparr>"

end
