(* ===== verification/HT_Proc.thy ===== *)
theory HT_Proc
  imports HT_Data
begin

text \<open>
  The operations of src/src/rtl819x_HTProc.c: settings, rates, the elements that are sent, the
  recognition of access points, the negotiation after association and the change of the channel
  width; and the choice of the wireless mode in src/src/rtl_core.c. None is a fault.
\<close>

section \<open>Settings\<close>

definition HTUpdateDefaultSetting :: "ht_dev \<Rightarrow> ht_dev" where
  "HTUpdateDefaultSetting d =
     (upd_ht (\<lambda>h. h\<lparr>bRegShortGI20MHz := True, bRegShortGI40MHz := True, bRegBW40MHz := True, bRegSuppCCK := True,
        nAMSDU_MaxSize := 7935, bAMSDU_Support := False, bAMPDUEnable := True, AMPDU_Factor := 2, MPDU_Density := 0,
        SelfMimoPs := 3, bRegRT2RTAggregation := True, bRegRxReorderEnable := True, RxReorderWinSize := 64,
        RxReorderPendingTime := 30\<rparr>) d)
     \<lparr>bTxDisableRateFallBack := False, bTxUseDriverAssingedRate := False, bTxEnableFwCalcDur := True\<rparr>"

definition HTInitializeHTInfo :: "ht_dev \<Rightarrow> ht_dev" where
  "HTInitializeHTInfo d =
     (let d' = upd_ht (\<lambda>h. h\<lparr>bCurrentHTSupport := False, bCurBW40MHz := False, bCurTxBW40MHz := False,
        bCurShortGI20MHz := False, bCurShortGI40MHz := False, bForcedShortGI := False, bCurSuppCCK := True,
        bCurrent_AMSDU_Support := False, nCurrent_AMSDU_MaxSize := nAMSDU_MaxSize h,
        CurrentMPDUDensity := MPDU_Density h, CurrentAMPDUFactor := AMPDU_Factor h,
        SelfHTCap := replicate 26 0, SelfHTInfo := replicate 22 0,
        PeerHTCapBuf := replicate 32 0, PeerHTInfoBuf := replicate 32 0,
        bSwBwInProgress := False, ChnlOp := CHNLOP_NONE, ePeerHTSpecVer := HT_SPEC_VER_IEEE,
        bCurrentRT2RTAggregation := False, bCurrentRT2RTLongSlotTime := False, RT2RT_HT_Mode := 0,
        IOTPeer := HT_IOT_PEER_UNKNOWN, IOTAction := 0, IOTRaFunc := 0\<rparr>) d
      in d'\<lparr>RegHTSuppRateSet := (RegHTSuppRateSet d')[0 := 0xFF, 1 := 0xFF, 4 := 0x01]\<rparr>)"

definition HTInitializeBssDesc :: "bss_ht \<Rightarrow> bss_ht" where
  "HTInitializeBssDesc b =
     b\<lparr>bdSupportHT := False, bdHTCapBuf := replicate 32 0, bdHTCapLen := 0, bdHTInfoBuf := replicate 32 0, bdHTInfoLen := 0,
       bdHTSpecVer := HT_SPEC_VER_IEEE, bdRT2RTAggregation := False, bdRT2RTLongSlotTime := False, bd_RT2RT_HT_Mode := 0\<rparr>"

definition HTResetIOTSetting :: "rt_high_throughput \<Rightarrow> rt_high_throughput" where
  "HTResetIOTSetting h = h\<lparr>IOTAction := 0, IOTPeer := HT_IOT_PEER_UNKNOWN, IOTRaFunc := 0\<rparr>"

section \<open>Rates\<close>

definition IsHTHalfNmode40Bandwidth :: "ht_dev \<Rightarrow> bool" where
  "IsHTHalfNmode40Bandwidth d \<longleftrightarrow>
     bCurrentHTSupport (hti d) \<and> bRegBW40MHz (hti d) \<and> halfN d \<and> ChlWidth (cap_get (PeerHTCapBuf (hti d))) \<noteq> 0"

definition IsHTHalfNmodeSGI :: "ht_dev \<Rightarrow> bool \<Rightarrow> bool" where
  "IsHTHalfNmodeSGI d is40MHz \<longleftrightarrow>
     bCurrentHTSupport (hti d) \<and> halfN d \<and>
     (if is40MHz then ShortGI40Mhz (cap_get (PeerHTCapBuf (hti d))) \<noteq> 0
      else ShortGI20Mhz (cap_get (PeerHTCapBuf (hti d))) \<noteq> 0)"

definition HTHalfMcsToDataRate :: "ht_dev \<Rightarrow> u8 \<Rightarrow> u16 option" where
  "HTHalfMcsToDataRate d nMcsRate =
     (let is40MHz = IsHTHalfNmode40Bandwidth d
      in mcs_rate is40MHz (IsHTHalfNmodeSGI d is40MHz) (unat (nMcsRate AND 0x7f)))"

definition HTMcsToDataRate :: "ht_dev \<Rightarrow> u8 \<Rightarrow> u16 option" where
  "HTMcsToDataRate d nMcsRate =
     mcs_rate (bCurBW40MHz (hti d))
       (if bCurBW40MHz (hti d) then bCurShortGI40MHz (hti d) else bCurShortGI20MHz (hti d))
       (unat (nMcsRate AND 0x7f))"

definition CCKOFDMRate :: "u16 list" where
  "CCKOFDMRate = [0x02, 0x04, 0x0b, 0x16, 0x0c, 0x12, 0x18, 0x24, 0x30, 0x48, 0x60, 0x6c]"

definition TxCountToDataRate :: "u8 \<Rightarrow> u16 option" where
  "TxCountToDataRate nDataRate =
     (if nDataRate < 12 then Some (CCKOFDMRate ! unat nDataRate)
      else if 0x10 \<le> nDataRate \<and> nDataRate \<le> 0x1f then mcs_rate False False (unat (nDataRate AND 0xf))
      else if 0x20 \<le> nDataRate \<and> nDataRate \<le> 0x2f then mcs_rate True False (unat (nDataRate AND 0xf))
      else if 0x30 \<le> nDataRate \<and> nDataRate \<le> 0x3f then mcs_rate False True (unat (nDataRate AND 0xf))
      else if 0x40 \<le> nDataRate \<and> nDataRate \<le> 0x4f then mcs_rate True True (unat (nDataRate AND 0xf))
      else mcs_rate False False (unat (nDataRate AND 0xf)))"

definition HT_PickMCSRate :: "u32 \<Rightarrow> u8 list \<Rightarrow> u8 list" where
  "HT_PickMCSRate m s =
     (if m = IEEE_A \<or> m = IEEE_B \<or> m = IEEE_G then fill 0 16 0 s
      else if m = IEEE_N_24G \<or> m = IEEE_N_5G then
        s[0 := s ! 0 AND 0xFF, 1 := s ! 1 AND 0xF0, 3 := s ! 3 AND 0x01]
      else s)"

definition HTFilterMCSRate :: "ht_dev \<Rightarrow> u8 list \<Rightarrow> u8 list" where
  "HTFilterMCSRate d pSupportMCS =
     (let s1 = HT_PickMCSRate (ht_mode d) (map2 (AND) (take 16 (Regdot11TxHTOperationalRateSet d)) (take 16 pSupportMCS));
          s2 = (if halfN d then s1[1 := 0] else s1)
      in fill 2 14 0 s2)"

text \<open>
  The search for the index of highest rate: \<open>bit_loop\<close> goes through the \<open>n\<close> bits left of
  a byte, \<open>byte_loop\<close> through the bytes. Every set bit looks up two rates.
\<close>

fun bit_loop :: "ht_dev \<Rightarrow> nat \<Rightarrow> nat \<Rightarrow> u8 \<Rightarrow> u8 \<Rightarrow> u8 option" where
  "bit_loop d k 0 bitMap mcsRate = Some mcsRate"
| "bit_loop d k (Suc n) bitMap mcsRate =
     (if bitMap mod 2 \<noteq> 0 then do {
        a \<leftarrow> HTMcsToDataRate d (of_nat k);
        b \<leftarrow> HTMcsToDataRate d mcsRate;
        bit_loop d (Suc k) n (drop_bit 1 bitMap) (if b < a then of_nat k else mcsRate) }
      else bit_loop d (Suc k) n (drop_bit 1 bitMap) mcsRate)"

fun byte_loop :: "ht_dev \<Rightarrow> nat \<Rightarrow> u8 list \<Rightarrow> u8 \<Rightarrow> u8 option" where
  "byte_loop d i [] mcsRate = Some mcsRate"
| "byte_loop d i (b # bs) mcsRate =
     (if b \<noteq> 0 then do { m \<leftarrow> bit_loop d (8 * i) 8 b mcsRate; byte_loop d (Suc i) bs m }
      else byte_loop d (Suc i) bs mcsRate)"

definition HTGetHighestMCSRate :: "ht_dev \<Rightarrow> u8 list \<Rightarrow> u8 list \<Rightarrow> u8 option" where
  "HTGetHighestMCSRate d pMCSRateSet pMCSFilter =
     (let availableMcsRate = map2 (AND) (take 16 pMCSRateSet) (take 16 pMCSFilter)
      in if \<forall>b \<in> set availableMcsRate. b = 0 then Some 0
         else map_option (\<lambda>m. m OR 0x80) (byte_loop d 0 availableMcsRate 0))"

section \<open>Access points that need care\<close>

definition UNKNOWN_BORADCOM :: mac where "UNKNOWN_BORADCOM = [0x00, 0x14, 0xbf]"
definition LINKSYSWRT330_LINKSYSWRT300_BROADCOM :: mac where "LINKSYSWRT330_LINKSYSWRT300_BROADCOM = [0x00, 0x1a, 0x70]"
definition LINKSYSWRT350_LINKSYSWRT150_BROADCOM :: mac where "LINKSYSWRT350_LINKSYSWRT150_BROADCOM = [0x00, 0x1d, 0x7e]"
definition BELKINF5D8233V1_RALINK :: mac where "BELKINF5D8233V1_RALINK = [0x00, 0x17, 0x3f]"
definition BELKINF5D82334V3_RALINK :: mac where "BELKINF5D82334V3_RALINK = [0x00, 0x1c, 0xdf]"
definition PCI_RALINK :: mac where "PCI_RALINK = [0x00, 0x90, 0xcc]"
definition EDIMAX_RALINK :: mac where "EDIMAX_RALINK = [0x00, 0x0e, 0x2e]"
definition AIRLINK_RALINK :: mac where "AIRLINK_RALINK = [0x00, 0x18, 0x02]"
definition DLINK_ATHEROS_1 :: mac where "DLINK_ATHEROS_1 = [0x00, 0x1c, 0xf0]"
definition DLINK_ATHEROS_2 :: mac where "DLINK_ATHEROS_2 = [0x00, 0x21, 0x91]"
definition CISCO_BROADCOM :: mac where "CISCO_BROADCOM = [0x00, 0x17, 0x94]"
definition LINKSYS_MARVELL_4400N :: mac where "LINKSYS_MARVELL_4400N = [0x00, 0x14, 0xa4]"

definition vendor_is :: "ht_net \<Rightarrow> mac \<Rightarrow> bool" where
  "vendor_is net oui \<longleftrightarrow> take 3 (ht_bssid net) = oui"

definition IsHTHalfNmodeAPs :: "ht_dev \<Rightarrow> bool" where
  "IsHTHalfNmodeAPs d =
     (let net = cur_net d
      in if vendor_is net BELKINF5D8233V1_RALINK \<or> vendor_is net BELKINF5D82334V3_RALINK \<or> vendor_is net PCI_RALINK
            \<or> vendor_is net EDIMAX_RALINK \<or> vendor_is net AIRLINK_RALINK \<or> ralink_cap_exist net then True
         else if vendor_is net UNKNOWN_BORADCOM \<or> vendor_is net LINKSYSWRT330_LINKSYSWRT300_BROADCOM
            \<or> vendor_is net LINKSYSWRT350_LINKSYSWRT150_BROADCOM \<or> broadcom_cap_exist net then True
         else bdRT2RTAggregation (bssht net))"

definition HTIOTPeerDetermine :: "ht_net \<Rightarrow> ht_iot_peer" where
  "HTIOTPeerDetermine net =
     (if bdRT2RTAggregation (bssht net) then
        (if bd_RT2RT_HT_Mode (bssht net) AND RT_HT_CAP_USE_SOFTAP \<noteq> 0 then HT_IOT_PEER_92U_SOFTAP
         else if bd_RT2RT_HT_Mode (bssht net) AND RT_HT_CAP_USE_92SE \<noteq> 0 then HT_IOT_PEER_REALTEK_92SE
         else HT_IOT_PEER_REALTEK)
      else if broadcom_cap_exist net then HT_IOT_PEER_BROADCOM
      else if vendor_is net UNKNOWN_BORADCOM \<or> vendor_is net LINKSYSWRT330_LINKSYSWRT300_BROADCOM
           \<or> vendor_is net LINKSYSWRT350_LINKSYSWRT150_BROADCOM then HT_IOT_PEER_BROADCOM
      else if vendor_is net BELKINF5D8233V1_RALINK \<or> vendor_is net BELKINF5D82334V3_RALINK \<or> vendor_is net PCI_RALINK
           \<or> vendor_is net EDIMAX_RALINK \<or> vendor_is net AIRLINK_RALINK \<or> ralink_cap_exist net then HT_IOT_PEER_RALINK
      else if atheros_cap_exist net \<or> vendor_is net DLINK_ATHEROS_1 \<or> vendor_is net DLINK_ATHEROS_2 then HT_IOT_PEER_ATHEROS
      else if vendor_is net CISCO_BROADCOM \<or> cisco_cap_exist net then HT_IOT_PEER_CISCO
      else if vendor_is net LINKSYS_MARVELL_4400N \<or> marvell_cap_exist net then HT_IOT_PEER_MARVELL
      else HT_IOT_PEER_UNKNOWN)"

definition HTIOTActIsDisableMCS14 :: "ht_dev \<Rightarrow> mac \<Rightarrow> bool" where "HTIOTActIsDisableMCS14 d addr = False"
definition HTIOTActIsDisableMCS15 :: "ht_dev \<Rightarrow> bool" where "HTIOTActIsDisableMCS15 d = False"
definition HTIOTActIsDisableMCSTwoSpatialStream :: "ht_dev \<Rightarrow> bool" where "HTIOTActIsDisableMCSTwoSpatialStream d = False"
definition HTIOTActIsDisableEDCATurbo :: "ht_dev \<Rightarrow> mac \<Rightarrow> bool" where "HTIOTActIsDisableEDCATurbo d addr = False"

definition HTIOTActIsMgntUseCCK6M :: "ht_dev \<Rightarrow> bool" where
  "HTIOTActIsMgntUseCCK6M d \<longleftrightarrow> IOTPeer (hti d) = HT_IOT_PEER_BROADCOM"

definition HTIOTActIsCCDFsync :: "ht_dev \<Rightarrow> bool" where
  "HTIOTActIsCCDFsync d \<longleftrightarrow> IOTPeer (hti d) = HT_IOT_PEER_BROADCOM"

definition HTIOTActDetermineRaFunc :: "ht_dev \<Rightarrow> bool \<Rightarrow> ht_dev" where
  "HTIOTActDetermineRaFunc d bPeerRx2ss =
     (let h = hti d; f0 = IOTRaFunc h AND HT_IOT_RAFUNC_DISABLE_ALL;
          f1 = (if IOTPeer h = HT_IOT_PEER_RALINK \<and> \<not> bPeerRx2ss then f0 OR HT_IOT_RAFUNC_PEER_1R else f0);
          f2 = (if IOTAction h AND HT_IOT_ACT_AMSDU_ENABLE \<noteq> 0 then f1 OR HT_IOT_RAFUNC_TX_AMSDU else f1)
      in upd_ht (\<lambda>h. h\<lparr>IOTRaFunc := f2\<rparr>) d)"

section \<open>Elements that are sent\<close>

text \<open>Writing bytes at a position of a buffer; a write beyond its end is a fault.\<close>

definition buf_write :: "nat \<Rightarrow> u8 list \<Rightarrow> u8 list \<Rightarrow> u8 list option" where
  "buf_write pos bytes buf =
     (if pos + length bytes \<le> length buf then Some (take pos buf @ bytes @ drop (pos + length bytes) buf) else None)"

definition self_mcs :: "ht_dev \<Rightarrow> u8 list" where
  "self_mcs d =
     (let s0 = take 16 (Regdot11HTOperationalRateSet d);
          s1 = (if IOTAction (hti d) AND HT_IOT_ACT_DISABLE_MCS15 \<noteq> 0 then s0[1 := s0 ! 1 AND 0x7f] else s0);
          s2 = (if IOTAction (hti d) AND HT_IOT_ACT_DISABLE_MCS14 \<noteq> 0 then s1[1 := s1 ! 1 AND 0xbf] else s1);
          s3 = (if IOTAction (hti d) AND HT_IOT_ACT_DISABLE_ALL_2SS \<noteq> 0 then s2[1 := 0] else s2)
      in if halfN d then fill 1 15 0 s3 else s3)"

definition self_cap :: "ht_dev \<Rightarrow> bool \<Rightarrow> ht_capability_ele" where
  "self_cap d IsEncrypt =
     \<lparr>AdvCoding = 0, ChlWidth = (if halfN d then 0 else of_bool (bRegBW40MHz (hti d))), MimoPwrSave = SelfMimoPs (hti d),
      GreenField = 0, ShortGI20Mhz = 1, ShortGI40Mhz = 1, TxSTBC = 1, RxSTBC = 0, DelayBA = 0, MaxAMSDUSize = 1,
      DssCCk = of_bool (bRegBW40MHz (hti d) \<and> bRegSuppCCK (hti d)), PSMP = 0, LSigTxopProtect = 0,
      MaxRxAMPDUFactor = (if IsEncrypt then 2 else 3), MPDUDensity = (if IsEncrypt then 7 else 0),
      MCS = self_mcs d, ExtHTCapInfo = [0, 0], TxBFCap = [0, 0, 0, 0], ASCap = 0\<rparr>"

definition EWC11NHTCap :: "u8 list" where "EWC11NHTCap = [0x00, 0x90, 0x4c, 0x33]"
definition EWC11NHTInfo :: "u8 list" where "EWC11NHTInfo = [0x00, 0x90, 0x4c, 0x34]"

text \<open>\<open>buf\<close> is the caller's array; the result is its contents and the length.\<close>

definition HTConstructCapabilityElement :: "ht_dev \<Rightarrow> u8 list \<Rightarrow> u8 \<Rightarrow> bool \<Rightarrow> (u8 list \<times> u8) option" where
  "HTConstructCapabilityElement d buf len IsEncrypt = do {
     b0 \<leftarrow> buf_write 0 (replicate (unat len) 0) buf;
     if ePeerHTSpecVer (hti d) = HT_SPEC_VER_EWC then do {
       b1 \<leftarrow> buf_write 0 EWC11NHTCap b0;
       b2 \<leftarrow> buf_write 4 (cap_put (self_cap d IsEncrypt)) b1;
       Some (b2, 30 + 2) }
     else do {
       b2 \<leftarrow> buf_write 0 (cap_put (self_cap d IsEncrypt)) b0;
       Some (b2, 26 + 2) } }"

definition self_info :: "ht_dev \<Rightarrow> ht_information_ele" where
  "self_info d =
     \<lparr>ControlChl = ht_channel (cur_net d),
      ExtChlOffset = (if \<not> bRegBW40MHz (hti d) then 0 else if ht_channel (cur_net d) \<le> 6 then 1 else 3),
      RecommemdedTxWidth = of_bool (bRegBW40MHz (hti d)), RIFS = 0, PSMPAccessOnly = 0, SrvIntGranularity = 0,
      OptMode = CurrentOpMode (hti d), NonGFDevPresent = 0, DualBeacon = 0, SecondaryBeacon = 0,
      LSigTxopProtectFull = 0, PcoActive = 0, PcoPhase = 0, BasicMSC = replicate 16 0\<rparr>"

definition HTConstructInfoElement :: "ht_dev \<Rightarrow> u8 list \<Rightarrow> u8 \<Rightarrow> (u8 list \<times> u8) option" where
  "HTConstructInfoElement d buf len = do {
     b0 \<leftarrow> buf_write 0 (replicate (unat len) 0) buf;
     if may_beacon d then do { b1 \<leftarrow> buf_write 0 (info_put (self_info d)) b0; Some (b1, 22 + 2) }
     else Some (b0, 0) }"

definition HTConstructRT2RTAggElement :: "ht_dev \<Rightarrow> u8 list \<Rightarrow> u8 \<Rightarrow> (u8 list \<times> u8) option" where
  "HTConstructRT2RTAggElement d buf len = do {
     b0 \<leftarrow> buf_write 0 (replicate (unat len) 0) buf;
     b1 \<leftarrow> buf_write 0 [0x00, 0xe0, 0x4c, 0x02, 0x01, if bSupportRemoteWakeUp d then 0x10 OR 0x08 else 0x10] b0;
     Some (b1, 6 + 2) }"

section \<open>Channel width\<close>

definition HTSetConnectBwModeCallback :: "ht_dev \<Rightarrow> ht_dev" where
  "HTSetConnectBwModeCallback d =
     (let ch = uint (ht_channel (cur_net d)); h = hti d;
          ops = (if bCurBW40MHz h then
                   [if CurSTAExtChnlOffset h = HT_EXTCHNL_OFFSET_UPPER then SetChan (ch + 2)
                    else if CurSTAExtChnlOffset h = HT_EXTCHNL_OFFSET_LOWER then SetChan (ch - 2)
                    else SetChan ch,
                    SetBWMode HT_CHANNEL_WIDTH_20_40 (CurSTAExtChnlOffset h)]
                 else [SetChan ch, SetBWMode HT_CHANNEL_WIDTH_20 HT_EXTCHNL_OFFSET_NO_EXT])
      in upd_ht (\<lambda>h. h\<lparr>bSwBwInProgress := False\<rparr>) (d\<lparr>radio_ops := radio_ops d @ ops\<rparr>))"

definition HTSetConnectBwMode :: "ht_dev \<Rightarrow> ht_channel_width \<Rightarrow> ht_extchnl_offset \<Rightarrow> ht_dev" where
  "HTSetConnectBwMode d Bandwidth Offset =
     (if \<not> bRegBW40MHz (hti d) then d
      else let bw = (if halfN d then HT_CHANNEL_WIDTH_20 else Bandwidth) in
        if bSwBwInProgress (hti d) then d
        else let off = (if ht_channel (cur_net d) < 2 \<and> Offset = HT_EXTCHNL_OFFSET_LOWER then HT_EXTCHNL_OFFSET_NO_EXT else Offset);
                 d1 = (if bw = HT_CHANNEL_WIDTH_20_40 \<and> (off = HT_EXTCHNL_OFFSET_UPPER \<or> off = HT_EXTCHNL_OFFSET_LOWER)
                       then upd_ht (\<lambda>h. h\<lparr>bCurBW40MHz := True, CurSTAExtChnlOffset := off\<rparr>) d
                       else upd_ht (\<lambda>h. h\<lparr>bCurBW40MHz := False, CurSTAExtChnlOffset := HT_EXTCHNL_OFFSET_NO_EXT\<rparr>) d)
             in HTSetConnectBwModeCallback (upd_ht (\<lambda>h. h\<lparr>bSwBwInProgress := True\<rparr>) d1))"

section \<open>Negotiation\<close>

text \<open>Where the element starts in the saved copy of what the peer sent.\<close>

definition cap_start :: "u8 list \<Rightarrow> nat" where
  "cap_start buf = (if take 4 buf = EWC11NHTCap then 4 else 0)"

definition info_start :: "u8 list \<Rightarrow> nat" where
  "info_start buf = (if take 4 buf = EWC11NHTInfo then 4 else 0)"

definition peer_cap :: "ht_dev \<Rightarrow> ht_capability_ele" where
  "peer_cap d = cap_get (drop (cap_start (PeerHTCapBuf (hti d))) (PeerHTCapBuf (hti d)))"

definition peer_info :: "ht_dev \<Rightarrow> ht_information_ele" where
  "peer_info d = info_get (drop (info_start (PeerHTInfoBuf (hti d))) (PeerHTInfoBuf (hti d)))"

definition assoc_aggregation :: "ht_dev \<Rightarrow> ht_capability_ele \<Rightarrow> rt_high_throughput \<Rightarrow> rt_high_throughput" where
  "assoc_aggregation d cap h =
     (let amsdu = (if MaxAMSDUSize cap = 0 then 3839 else 7935);
          h1 = h\<lparr>bCurrent_AMSDU_Support := bAMSDU_Support h,
                 nCurrent_AMSDU_MaxSize := (if amsdu < nAMSDU_MaxSize h then amsdu else nAMSDU_MaxSize h),
                 bCurrentAMPDUEnable := bAMPDUEnable h\<rparr>;
          h2 = (if ap_sec_type d AND 3 \<noteq> 0 \<and> (IOTPeer h1 = HT_IOT_PEER_ATHEROS \<or> IOTPeer h1 = HT_IOT_PEER_UNKNOWN)
                then h1\<lparr>bCurrentAMPDUEnable := False\<rparr> else h1);
          factor = (if \<not> bRegRT2RTAggregation h2 then
                      (if MaxRxAMPDUFactor cap < AMPDU_Factor h2 then MaxRxAMPDUFactor cap else AMPDU_Factor h2)
                    else if bdRT2RTAggregation (bssht (cur_net d)) then
                      (if \<not> key_NA d then MaxRxAMPDUFactor cap else HT_AGG_SIZE_64K)
                    else if MaxRxAMPDUFactor cap < HT_AGG_SIZE_32K then MaxRxAMPDUFactor cap else HT_AGG_SIZE_32K)
      in h2\<lparr>CurrentAMPDUFactor := factor,
            CurrentMPDUDensity := (if MPDUDensity cap < MPDU_Density h2 then MPDU_Density h2 else MPDUDensity cap),
            bCurRxReorderEnable := bRegRxReorderEnable h2\<rparr>)"

definition assoc_rates :: "ht_dev \<Rightarrow> ht_dev option" where
  "assoc_rates d =
     (let off = cap_start (PeerHTCapBuf (hti d)); buf = PeerHTCapBuf (hti d);
          d1 = (if buf ! (off + 3) = 0 then upd_ht (\<lambda>h. h\<lparr>PeerHTCapBuf := buf[off + 3 := 0xff]\<rparr>) d else d);
          cap = cap_get (drop off (PeerHTCapBuf (hti d1)));
          d2 = HTIOTActDetermineRaFunc d1 (MCS cap ! 1 \<noteq> 0);
          d3 = d2\<lparr>dot11HTOperationalRateSet := HTFilterMCSRate d2 (MCS cap)\<rparr>;
          d4 = upd_ht (\<lambda>h. h\<lparr>PeerMimoPs := MimoPwrSave cap\<rparr>) d3
      in do {
        r \<leftarrow> HTGetHighestMCSRate d4 (dot11HTOperationalRateSet d4)
               (if PeerMimoPs (hti d4) = MIMO_PS_STATIC then MCS_FILTER_1SS else MCS_FILTER_ALL);
        Some (d4\<lparr>HTHighestOperaRate := r, HTCurrentOperaRate := r\<rparr>) })"

definition HTOnAssocRsp :: "ht_dev \<Rightarrow> ht_dev option" where
  "HTOnAssocRsp d =
     (if \<not> bCurrentHTSupport (hti d) then Some d
      else let cap = peer_cap d; info = peer_info d;
        d1 = HTSetConnectBwMode d (if ChlWidth cap = 1 then HT_CHANNEL_WIDTH_20_40 else HT_CHANNEL_WIDTH_20)
               (HT_EXTCHNL_of (ExtChlOffset info));
        d2 = upd_ht (\<lambda>h. h\<lparr>bCurTxBW40MHz := RecommemdedTxWidth info = 1,
               bCurShortGI20MHz := bRegShortGI20MHz h \<and> ShortGI20Mhz cap = 1,
               bCurShortGI40MHz := bRegShortGI40MHz h \<and> ShortGI40Mhz cap = 1,
               bCurSuppCCK := bRegSuppCCK h \<and> DssCCk cap = 1\<rparr>) d1;
        d3 = upd_ht (assoc_aggregation d2 cap) d2
      in do {
        d4 \<leftarrow> assoc_rates d3;
        Some (upd_ht (\<lambda>h. h\<lparr>CurrentOpMode := OptMode info\<rparr>) d4) })"

text \<open>The handler that saves the peer's elements copies only what fits its buffers.\<close>

definition save_element :: "u8 list \<Rightarrow> u8 list \<Rightarrow> u16 \<Rightarrow> u8 list" where
  "save_element buf ele len = (if 0 < len \<and> len \<le> 32 then take (unat len) ele @ drop (unat len) buf else buf)"

definition iot_action :: "ht_dev \<Rightarrow> mac \<Rightarrow> u32" where
  "iot_action d addr =
     (let a1 = (if HTIOTActIsDisableMCS14 d addr then 0 OR HT_IOT_ACT_DISABLE_MCS14 else 0);
          a2 = (if HTIOTActIsDisableMCS15 d then a1 OR HT_IOT_ACT_DISABLE_MCS15 else a1);
          a3 = (if HTIOTActIsDisableMCSTwoSpatialStream d then a2 OR HT_IOT_ACT_DISABLE_ALL_2SS else a2);
          a4 = (if HTIOTActIsDisableEDCATurbo d addr then a3 OR HT_IOT_ACT_DISABLE_EDCA_TURBO else a3);
          a5 = (if HTIOTActIsMgntUseCCK6M d then a4 OR HT_IOT_ACT_MGNT_USE_CCK_6M else a4)
      in if HTIOTActIsCCDFsync d then a5 OR HT_IOT_ACT_CDD_FSYNC else a5)"

definition HTResetSelfAndSavePeerSetting :: "ht_dev \<Rightarrow> ht_net \<Rightarrow> ht_dev" where
  "HTResetSelfAndSavePeerSetting d net =
     (let b = bssht net in
      if bdSupportHT b then
        (let d1 = upd_ht (\<lambda>h. h\<lparr>bCurrentHTSupport := True, ePeerHTSpecVer := bdHTSpecVer b,
                    PeerHTCapBuf := save_element (PeerHTCapBuf h) (bdHTCapBuf b) (bdHTCapLen b),
                    PeerHTInfoBuf := save_element (PeerHTInfoBuf h) (bdHTInfoBuf b) (bdHTInfoLen b)\<rparr>) d;
             d2 = (if bRegRT2RTAggregation (hti d1) then
                     upd_ht (\<lambda>h. h\<lparr>bCurrentRT2RTAggregation := bdRT2RTAggregation b,
                       bCurrentRT2RTLongSlotTime := bdRT2RTLongSlotTime b, RT2RT_HT_Mode := bd_RT2RT_HT_Mode b\<rparr>) d1
                   else upd_ht (\<lambda>h. h\<lparr>bCurrentRT2RTAggregation := False, bCurrentRT2RTLongSlotTime := False,
                          RT2RT_HT_Mode := 0\<rparr>) d1);
             d3 = upd_ht (\<lambda>h. h\<lparr>IOTPeer := HTIOTPeerDetermine (cur_net d2)\<rparr>) d2
         in upd_ht (\<lambda>h. h\<lparr>IOTAction := iot_action d3 (ht_bssid net)\<rparr>) d3)
      else upd_ht (\<lambda>h. h\<lparr>bCurrentHTSupport := False, bCurrentRT2RTAggregation := False, bCurrentRT2RTLongSlotTime := False,
             RT2RT_HT_Mode := 0, IOTAction := 0, IOTRaFunc := 0\<rparr>) d)"

definition HTUpdateSelfAndPeerSetting :: "ht_dev \<Rightarrow> ht_net \<Rightarrow> ht_dev" where
  "HTUpdateSelfAndPeerSetting d net =
     (if bCurrentHTSupport (hti d) \<and> bdHTInfoLen (bssht net) \<noteq> 0
      then upd_ht (\<lambda>h. h\<lparr>CurrentOpMode := OptMode (info_get (bdHTInfoBuf (bssht net)))\<rparr>) d else d)"

definition HTUseDefaultSetting :: "ht_dev \<Rightarrow> ht_dev option" where
  "HTUseDefaultSetting d =
     (if bEnableHT (hti d) then
        (let d1 = upd_ht (\<lambda>h. h\<lparr>bCurrentHTSupport := True, bCurSuppCCK := bRegSuppCCK h, bCurBW40MHz := bRegBW40MHz h,
                    bCurShortGI20MHz := bRegShortGI20MHz h, bCurShortGI40MHz := bRegShortGI40MHz h,
                    bCurrent_AMSDU_Support := bAMSDU_Support h, nCurrent_AMSDU_MaxSize := nAMSDU_MaxSize h,
                    bCurrentAMPDUEnable := bAMPDUEnable h, CurrentAMPDUFactor := AMPDU_Factor h,
                    CurrentMPDUDensity := CurrentMPDUDensity h\<rparr>) d;
             d2 = d1\<lparr>dot11HTOperationalRateSet := HTFilterMCSRate d1 (Regdot11TxHTOperationalRateSet d1)\<rparr>
         in do {
           r \<leftarrow> HTGetHighestMCSRate d2 (dot11HTOperationalRateSet d2) MCS_FILTER_ALL;
           Some (d2\<lparr>HTHighestOperaRate := r, HTCurrentOperaRate := r\<rparr>) })
      else Some (upd_ht (\<lambda>h. h\<lparr>bCurrentHTSupport := False\<rparr>) d))"

section \<open>Wireless mode\<close>

datatype rf_chip = RF_8225 | RF_8256 | RF_8258 | RF_6052 | RF_PSEUDO_11N | RF_other

definition rtl8192_getSupportedWireleeMode :: "rf_chip \<Rightarrow> u8" where
  "rtl8192_getSupportedWireleeMode c =
     (if c = RF_8225 \<or> c = RF_8256 \<or> c = RF_6052 \<or> c = RF_PSEUDO_11N then 0x10 OR 0x04 OR 0x02
      else if c = RF_8258 then 0x01 OR 0x20 else 0x02)"

definition rtl8192_refresh_supportrate :: "ht_dev \<Rightarrow> ht_dev" where
  "rtl8192_refresh_supportrate d =
     (if ht_mode d = IEEE_N_24G \<or> ht_mode d = IEEE_N_5G then
        d\<lparr>Regdot11HTOperationalRateSet := take 16 (RegHTSuppRateSet d),
          Regdot11TxHTOperationalRateSet := take 16 (RegHTSuppRateSet d)\<rparr>
      else d\<lparr>Regdot11HTOperationalRateSet := replicate 16 0\<rparr>)"

definition pick_wireless_mode :: "u8 \<Rightarrow> u8 \<Rightarrow> u8" where
  "pick_wireless_mode bSupportMode wireless_mode =
     (let m1 = (if wireless_mode = 0x08 \<or> wireless_mode AND bSupportMode = 0 then
                  (if bSupportMode AND 0x10 \<noteq> 0 then 0x10
                   else if bSupportMode AND 0x20 \<noteq> 0 then 0x20
                   else if bSupportMode AND 0x01 \<noteq> 0 then 0x01
                   else if bSupportMode AND 0x04 \<noteq> 0 then 0x04
                   else 0x02)
                else wireless_mode)
      in if m1 AND 0x06 = 0x06 then 0x04 else m1)"

definition rtl8192_SetWirelessMode :: "ht_dev \<Rightarrow> rf_chip \<Rightarrow> u8 \<Rightarrow> ht_dev" where
  "rtl8192_SetWirelessMode d chip wireless_mode =
     (let m = pick_wireless_mode (rtl8192_getSupportedWireleeMode chip) wireless_mode;
          d1 = d\<lparr>ht_mode := ucast m\<rparr>;
          d2 = upd_ht (\<lambda>h. h\<lparr>bEnableHT := m = 0x10 \<or> m = 0x20\<rparr>) d1
      in rtl8192_refresh_supportrate d2)"

end
