(* ===== verification/HT_Rates.thy ===== *)
theory HT_Rates
  imports HT_Proc
begin

text \<open>
  The rate table and the search for the highest rate: the search returns the first index with
  the highest rate among those that the set and the filter allow; and the first row of the
  table, which has one value less than its length.
\<close>

section \<open>The table\<close>

definition rate_row :: "ht_dev \<Rightarrow> u16 list" where
  "rate_row d = MCS_DATA_RATE ! of_bool (bCurBW40MHz (hti d)) !
     of_bool (if bCurBW40MHz (hti d) then bCurShortGI40MHz (hti d) else bCurShortGI20MHz (hti d))"

lemma rows: "length (MCS_DATA_RATE ! of_bool a ! of_bool b) = 77"
  by (induction a; induction b; code_simp)

lemma rows_min:
  "list_all (\<lambda>k. MCS_DATA_RATE ! of_bool a ! of_bool b ! 0 < MCS_DATA_RATE ! of_bool a ! of_bool b ! k) [1..<31]"
  by (induction a; induction b; code_simp)

lemma length_rate_row [simp]: "length (rate_row d) = 77"
  by (simp only: rate_row_def rows)

lemma rate_row_min: "0 < k \<Longrightarrow> k < 31 \<Longrightarrow> rate_row d ! 0 < rate_row d ! k"
  using rows_min[of "bCurBW40MHz (hti d)" "if bCurBW40MHz (hti d) then bCurShortGI40MHz (hti d) else bCurShortGI20MHz (hti d)"]
  unfolding rate_row_def list_all_iff by simp

lemma mcs_rate_row: "mcs_rate a b i = (if i < 77 then Some (MCS_DATA_RATE ! of_bool a ! of_bool b ! i) else None)"
  by (simp add: mcs_rate_def rows)

lemma HTMcsToDataRate_row:
  assumes "unat m < 77" shows "HTMcsToDataRate d m = Some (rate_row d ! unat m)"
proof -
  have "m AND 0x7f = m"
  proof -
    have "unat (take_bit 7 m) = unat m"
      using assms by (simp only: unsigned_take_bit_eq) (simp add: take_bit_nat_eq_self)
    moreover have "m AND 0x7f = take_bit 7 m" by (simp add: take_bit_eq_mask mask_eq_exp_minus_1)
    ultimately show ?thesis by (simp add: unsigned_word_eqI)
  qed
  with assms show ?thesis
    by (simp add: HTMcsToDataRate_def mcs_rate_row rate_row_def)
qed

section \<open>The search\<close>

text \<open>\<open>best R S a b\<close>: \<open>b\<close> is the first of highest rate in \<open>S\<close>, or \<open>a\<close> when none in \<open>S\<close> has a higher one.\<close>

definition best :: "(nat \<Rightarrow> u16) \<Rightarrow> nat set \<Rightarrow> nat \<Rightarrow> nat \<Rightarrow> bool" where
  "best R S a b \<longleftrightarrow> (b = a \<or> b \<in> S \<and> R a < R b \<and> (\<forall>k \<in> S. k < b \<longrightarrow> R k < R b)) \<and> (\<forall>k \<in> S. R k \<le> R b)"

lemma best_empty: "best R {} a a"
  by (simp add: best_def)

lemma best_single: "best R {k} a (if R a < R k then k else a)"
  by (auto simp: best_def)

lemma best_trans:
  assumes "best R S a b" "best R T b c" "\<forall>s \<in> S. \<forall>t \<in> T. s < t"
  shows "best R (S \<union> T) a c"
  unfolding best_def
proof (intro conjI)
  from assms have 1: "b = a \<or> b \<in> S \<and> R a < R b \<and> (\<forall>k \<in> S. k < b \<longrightarrow> R k < R b)" "\<forall>k \<in> S. R k \<le> R b"
    and 2: "c = b \<or> c \<in> T \<and> R b < R c \<and> (\<forall>k \<in> T. k < c \<longrightarrow> R k < R c)" "\<forall>k \<in> T. R k \<le> R c"
    by (auto simp: best_def)
  from 2 have bc: "R b \<le> R c" by auto
  with 1 2 show "\<forall>k \<in> S \<union> T. R k \<le> R c" using order_trans by blast
  show "c = a \<or> c \<in> S \<union> T \<and> R a < R c \<and> (\<forall>k \<in> S \<union> T. k < c \<longrightarrow> R k < R c)"
  proof (cases "c = b")
    case True
    then show ?thesis using 1(1) assms(3) by (metis Un_iff less_asym')
  next
    case False
    with 2(1) have c: "c \<in> T" "R b < R c" "\<forall>k \<in> T. k < c \<longrightarrow> R k < R c" by auto
    moreover have "R a \<le> R b" using 1(1) by auto
    moreover have "\<forall>k \<in> S. R k < R c" using 1(2) c(2) by (meson order_le_less_trans)
    ultimately show ?thesis by (meson Un_iff order_le_less_trans)
  qed
qed

lemma shift_bits: "{j. k \<le> j \<and> j < k + Suc n \<and> bit (w::u8) (j - k)} =
   (if odd w then {k} else {}) \<union> {j. Suc k \<le> j \<and> j < Suc k + n \<and> bit (drop_bit 1 w) (j - Suc k)}"
proof -
  have *: "bit w (j - k) \<longleftrightarrow> (if j = k then odd w else bit (drop_bit 1 w) (j - Suc k))" if "k \<le> j" for j
    using that by (auto simp: bit_0 bit_simps Suc_diff_Suc le_less)
  show ?thesis by (auto simp: * bit_0 split: if_splits)
qed

lemma odd_mod_2: "(w::u8) mod 2 \<noteq> 0 \<longleftrightarrow> odd w"
  by (metis even_iff_mod_2_eq_zero)

lemma bit_loop_best:
  assumes "\<forall>j. k \<le> j \<and> j < k + n \<and> bit b (j - k) \<longrightarrow> j < 77" "unat m < 77"
  shows "\<exists>m'. bit_loop d k n b m = Some m' \<and> unat m' < 77 \<and>
     best ((!) (rate_row d)) {j. k \<le> j \<and> j < k + n \<and> bit b (j - k)} (unat m) (unat m')"
  using assms
proof (induction n arbitrary: k b m)
  case 0
  then have "{j. k \<le> j \<and> j < k + 0 \<and> bit b (j - k)} = {}" by auto
  with 0 show ?case by (simp only:) (simp add: best_empty)
next
  case (Suc n)
  note S = shift_bits[of k n b]
  have rest: "\<forall>j. Suc k \<le> j \<and> j < Suc k + n \<and> bit (drop_bit 1 b) (j - Suc k) \<longrightarrow> j < 77"
    using Suc.prems(1) S by auto
  show ?case
  proof (cases "odd b")
    case True
    let ?m = "if rate_row d ! unat m < rate_row d ! k then of_nat k else m"
    have k: "k < 77" using Suc.prems(1) True by (auto simp: bit_0)
    then have uk: "unat (of_nat k :: u8) = k" by (simp add: unat_of_nat)
    then have um: "unat ?m = (if rate_row d ! unat m < rate_row d ! k then k else unat m)" by simp
    with k Suc.prems(2) have "unat ?m < 77" by simp
    from Suc.IH[OF rest this] obtain m' where m': "bit_loop d (Suc k) n (drop_bit 1 b) ?m = Some m'" "unat m' < 77"
      "best ((!) (rate_row d)) {j. Suc k \<le> j \<and> j < Suc k + n \<and> bit (drop_bit 1 b) (j - Suc k)} (unat ?m) (unat m')"
      by blast
    have "best ((!) (rate_row d)) ({k} \<union> {j. Suc k \<le> j \<and> j < Suc k + n \<and> bit (drop_bit 1 b) (j - Suc k)}) (unat m) (unat m')"
      by (rule best_trans[OF best_single]) (use m'(3) in \<open>auto simp: um\<close>)
    moreover have "bit_loop d k (Suc n) b m = Some m'"
      using odd_mod_2[of b] True k uk Suc.prems(2) m'(1) by (simp add: HTMcsToDataRate_row)
    ultimately show ?thesis using m'(2) True unfolding S by auto
  next
    case False
    then have "b mod 2 = 0" using odd_mod_2[of b] by blast
    with Suc.IH[OF rest Suc.prems(2)] False show ?thesis unfolding S by auto
  qed
qed

lemma mcs_in_Cons_shift:
  "{j. 8 * i \<le> j \<and> mcs_in (b # bs) (j - 8 * i)} =
   {j. 8 * i \<le> j \<and> j < 8 * i + 8 \<and> bit b (j - 8 * i)} \<union> {j. 8 * Suc i \<le> j \<and> mcs_in bs (j - 8 * Suc i)}"
proof -
  have *: "mcs_in (b # bs) k \<longleftrightarrow> (if k < 8 then bit b k else mcs_in bs (k - 8))" for k
    by (auto simp: mcs_in_def nth_Cons' le_div_geq le_mod_geq)
  show ?thesis by (auto simp: * add.commute split: if_splits)
qed

lemma byte_loop_best:
  assumes "\<forall>j. 8 * i \<le> j \<and> mcs_in bs (j - 8 * i) \<longrightarrow> j < 77" "unat m < 77"
  shows "\<exists>m'. byte_loop d i bs m = Some m' \<and> unat m' < 77 \<and>
     best ((!) (rate_row d)) {j. 8 * i \<le> j \<and> mcs_in bs (j - 8 * i)} (unat m) (unat m')"
  using assms
proof (induction bs arbitrary: i m)
  case Nil
  then show ?case by (simp add: best_empty mcs_in_def)
next
  case (Cons b bs)
  note S = mcs_in_Cons_shift[of i b bs]
  let ?T = "{j. 8 * Suc i \<le> j \<and> mcs_in bs (j - 8 * Suc i)}"
  have rest: "\<forall>j. 8 * Suc i \<le> j \<and> mcs_in bs (j - 8 * Suc i) \<longrightarrow> j < 77"
    and first: "\<forall>j. 8 * i \<le> j \<and> j < 8 * i + 8 \<and> bit b (j - 8 * i) \<longrightarrow> j < 77"
    using Cons.prems(1) S by auto
  from bit_loop_best[OF first Cons.prems(2)] obtain m1 where m1: "bit_loop d (8 * i) 8 b m = Some m1" "unat m1 < 77"
    "best ((!) (rate_row d)) {j. 8 * i \<le> j \<and> j < 8 * i + 8 \<and> bit b (j - 8 * i)} (unat m) (unat m1)" by blast
  from Cons.IH[OF rest m1(2)] obtain m2 where m2: "byte_loop d (Suc i) bs m1 = Some m2" "unat m2 < 77"
    "best ((!) (rate_row d)) ?T (unat m1) (unat m2)" by blast
  from Cons.IH[OF rest Cons.prems(2)] obtain m3 where m3: "byte_loop d (Suc i) bs m = Some m3" "unat m3 < 77"
    "best ((!) (rate_row d)) ?T (unat m) (unat m3)" by blast
  show ?case
  proof (cases "b = 0")
    case True
    with m3 show ?thesis unfolding S by (auto simp del: mult_Suc_right)
  next
    case False
    have "best ((!) (rate_row d)) ({j. 8 * i \<le> j \<and> j < 8 * i + 8 \<and> bit b (j - 8 * i)} \<union> ?T) (unat m) (unat m2)"
      by (rule best_trans[OF m1(3) m2(3)]) auto
    with False m1(1) m2(1,2) show ?thesis unfolding S by (auto simp del: mult_Suc_right)
  qed
qed

lemma mcs_in_and:
  assumes "length a = 16" "length b = 16"
  shows "mcs_in (map2 (AND) (take 16 a) (take 16 b)) k \<longleftrightarrow> mcs_in a k \<and> mcs_in b k"
  using assms by (auto simp: mcs_in_def bit_simps)

lemma mcs_in_none: "(\<forall>b \<in> set s. b = 0) \<Longrightarrow> \<not> mcs_in s k"
  by (auto simp: mcs_in_def) (metis bit_0_eq bot_apply bot_bool_def less_mult_imp_div_less mult.commute nth_mem)

end
