(* ===== verification/HT_Elements.thy ===== *)
theory HT_Elements
  imports HT_Rates
begin

text \<open>
  Round trips of the packed elements, and the facts on the rate sets that the elements carry
  and that the filter lets through.
\<close>

section \<open>Fields\<close>

lemmas bf_get_put = bf_get_put_same bf_get_put_disjoint

lemma take_bit_small: "(v::u8) < 2 ^ n \<Longrightarrow> n < 8 \<Longrightarrow> take_bit n v = v"
  by (metis less_mask_eq take_bit_eq_mask len_bit0)

definition cap_ok :: "ht_capability_ele \<Rightarrow> bool" where
  "cap_ok c \<longleftrightarrow>
     AdvCoding c < 2 \<and> ChlWidth c < 2 \<and> MimoPwrSave c < 4 \<and> GreenField c < 2 \<and> ShortGI20Mhz c < 2 \<and>
     ShortGI40Mhz c < 2 \<and> TxSTBC c < 2 \<and> RxSTBC c < 4 \<and> DelayBA c < 2 \<and> MaxAMSDUSize c < 2 \<and> DssCCk c < 2 \<and>
     PSMP c < 2 \<and> LSigTxopProtect c < 2 \<and> MaxRxAMPDUFactor c < 4 \<and> MPDUDensity c < 8 \<and>
     length (MCS c) = 16 \<and> length (ExtHTCapInfo c) = 2 \<and> length (TxBFCap c) = 4"

lemma bits_1: "(v::u8) < 2 \<Longrightarrow> v mod 2 = v"
  using take_bit_small[of v 1] by simp

lemma bits_2: "(v::u8) < 4 \<Longrightarrow> take_bit 2 v = v"
  using take_bit_small[of v 2] by simp

lemma bits_3: "(v::u8) < 8 \<Longrightarrow> take_bit 3 v = v"
  using take_bit_small[of v 3] by simp

lemma length_cap_put: "cap_ok c \<Longrightarrow> length (cap_put c) = 26"
  by (simp add: cap_put_def cap_ok_def)

lemma cap_get_put: "cap_ok c \<Longrightarrow> cap_get (cap_put c @ rest) = c"
  by (simp add: cap_get_def cap_put_def cap_ok_def bf_get_put bits_1 bits_2 bits_3 nth_append
      numeral_2_eq_2[symmetric])

lemma info_put_length: "length (BasicMSC f) = 16 \<Longrightarrow> length (info_put f) = 22"
  by (simp add: info_put_def)

lemma self_cap_ok: "SelfMimoPs (hti d) < 4 \<Longrightarrow> length (Regdot11HTOperationalRateSet d) = 16 \<Longrightarrow> cap_ok (self_cap d e)"
  by (simp add: cap_ok_def self_cap_def self_mcs_def Let_def)

lemma bf_get_less:
  "bf_get k (Suc 0) (w::u8) < 2" "bf_get k 1 (w::u8) < 2" "bf_get k 2 (w::u8) < 4" "bf_get k 3 (w::u8) < 8"
  using take_bit_nat_less_exp[of 1 "unat (drop_bit k w)"] take_bit_nat_less_exp[of 2 "unat (drop_bit k w)"]
    take_bit_nat_less_exp[of 3 "unat (drop_bit k w)"]
  by (simp_all add: bf_get_def word_less_nat_alt flip: unsigned_take_bit_eq)

lemma cap_get_ok: "26 \<le> length b \<Longrightarrow> cap_ok (cap_get b)"
  by (simp add: cap_ok_def cap_get_def bf_get_less)

section \<open>Buffers\<close>

lemma length_buf_write: "buf_write p xs b = Some b' \<Longrightarrow> length b' = length b"
  by (auto simp: buf_write_def split: if_splits)

lemma buf_write_exact: "length xs \<le> length b \<Longrightarrow> buf_write 0 xs b = Some (xs @ drop (length xs) b)"
  by (simp add: buf_write_def)

end
