(* ===== verification/HT_Props.thy ===== *)
theory HT_Props
  imports HT_Elements
begin

text \<open>
  The properties of the negotiation: the highest rate, what is agreed after association, the
  invariant of every sequence of operations, the delivery of the capability element, and the
  rate that the table misses.
\<close>

section \<open>Rate sets\<close>

lemma mcs_in_fill:
  "length s = 16 \<Longrightarrow> mcs_in (fill 2 14 0 s) k \<longleftrightarrow> k < 16 \<and> mcs_in s k"
  by (auto simp: mcs_in_def nth_fill less_mult_imp_div_less split: if_splits)

lemma mcs_in_map2:
  "length a = 16 \<Longrightarrow> length b = 16 \<Longrightarrow> mcs_in (map2 (AND) a b) k \<longleftrightarrow> mcs_in a k \<and> mcs_in b k"
  using mcs_in_and[of a b k] by simp

lemma mcs_in_shrink: "\<lbrakk>mcs_in (s[i := v]) k; \<And>n. bit v n \<Longrightarrow> bit (s ! i) n\<rbrakk> \<Longrightarrow> mcs_in s k"
  by (cases "k div 8 = i") (auto simp: mcs_in_def less_mult_imp_div_less mult.commute)

lemma HT_PickMCSRate_shrink: "length s = 16 \<Longrightarrow> mcs_in (HT_PickMCSRate m s) k \<Longrightarrow> mcs_in s k"
  unfolding HT_PickMCSRate_def
  by (auto simp: mcs_in_def nth_list_update nth_fill bit_simps split: if_splits)

lemma length_HT_PickMCSRate [simp]: "length (HT_PickMCSRate m s) = length s"
  by (simp add: HT_PickMCSRate_def)

lemma length_HTFilterMCSRate:
  "length (Regdot11TxHTOperationalRateSet d) = 16 \<Longrightarrow> length s = 16 \<Longrightarrow> length (HTFilterMCSRate d s) = 16"
  by (simp add: HTFilterMCSRate_def Let_def)

lemma mcs_in_clear1: "mcs_in (s[Suc 0 := 0]) k \<Longrightarrow> k < 16 \<Longrightarrow> 2 \<le> length s \<Longrightarrow> k < 8"
  by (cases "k div 8 = 1") (auto simp: mcs_in_def)

lemma HTFilterMCSRate_in:
  assumes len: "length (Regdot11TxHTOperationalRateSet d) = 16" "length s = 16"
    and k: "mcs_in (HTFilterMCSRate d s) k"
  shows "k < 16" "mcs_in (Regdot11TxHTOperationalRateSet d) k" "mcs_in s k" "halfN d \<Longrightarrow> k < 8"
proof -
  let ?s0 = "map2 (AND) (Regdot11TxHTOperationalRateSet d) s"
  let ?s1 = "HT_PickMCSRate (ht_mode d) ?s0"
  let ?s2 = "if halfN d then ?s1[1 := 0] else ?s1"
  have l: "length ?s0 = 16" "length ?s2 = 16" using len by simp_all
  have *: "HTFilterMCSRate d s = fill 2 14 0 ?s2" using len by (simp add: HTFilterMCSRate_def Let_def)
  with k l have k2: "k < 16" "mcs_in ?s2 k" by (simp_all add: mcs_in_fill)
  then show "k < 16" by simp
  from k2 have "mcs_in ?s1 k" by (auto split: if_splits dest: mcs_in_shrink)
  then have "mcs_in ?s0 k" by (rule HT_PickMCSRate_shrink[OF l(1)])
  then show "mcs_in (Regdot11TxHTOperationalRateSet d) k" "mcs_in s k" using len by (simp_all add: mcs_in_map2)
  show "k < 8" if "halfN d" using k2 that len mcs_in_clear1[of ?s1 k] by simp
qed

section \<open>The highest rate\<close>

definition available :: "u8 list \<Rightarrow> u8 list \<Rightarrow> nat set" where
  "available s f = {k. mcs_in s k \<and> mcs_in f k}"

lemma highest_rate:
  assumes len: "length s = 16" "length f = 16" and "\<forall>k \<in> available s f. k < 77"
    and low: "\<exists>k \<in> available s f. k < 31"
  shows "\<exists>m. HTGetHighestMCSRate d s f = Some (of_nat m OR 0x80) \<and> m < 77 \<and> m \<in> available s f \<and>
     (\<forall>k \<in> available s f. rate_row d ! k \<le> rate_row d ! m \<and> (k < m \<longrightarrow> rate_row d ! k < rate_row d ! m))"
proof -
  let ?a = "map2 (AND) (take 16 s) (take 16 f)"
  have a: "{j. 8 * 0 \<le> j \<and> mcs_in ?a (j - 8 * 0)} = available s f"
    using mcs_in_and[OF len] by (auto simp: available_def)
  then have "\<forall>j. 8 * 0 \<le> j \<and> mcs_in ?a (j - 8 * 0) \<longrightarrow> j < 77" using assms(3) by blast
  from byte_loop_best[OF this, of 0 d] obtain m where m: "byte_loop d 0 ?a 0 = Some m" "unat m < 77"
    "best ((!) (rate_row d)) (available s f) 0 (unat m)" unfolding a by auto
  have "\<not> (\<forall>b \<in> set ?a. b = 0)"
    using low mcs_in_none[of ?a] mcs_in_and[OF len] by (auto simp: available_def)
  then have "HTGetHighestMCSRate d s f = Some (of_nat (unat m) OR 0x80)"
    unfolding HTGetHighestMCSRate_def Let_def by (subst if_not_P) (simp_all add: m(1))
  moreover have "unat m \<in> available s f"
  proof (cases "unat m = 0")
    case True
    obtain k where k: "k \<in> available s f" "k < 31" using low by blast
    with m(3) True have "rate_row d ! k \<le> rate_row d ! 0" by (auto simp: best_def)
    with rate_row_min[of k d] k(2) have "k = 0" by force
    with k True show ?thesis by simp
  next
    case False
    with m(3) show ?thesis by (auto simp: best_def)
  qed
  moreover have "\<forall>k \<in> available s f. rate_row d ! k \<le> rate_row d ! unat m \<and> (k < unat m \<longrightarrow> rate_row d ! k < rate_row d ! unat m)"
    using m(3) by (auto simp: best_def)
  ultimately show ?thesis using m(2) by blast
qed

lemma highest_none:
  assumes "length s = 16" "length f = 16" "available s f = {}"
  shows "HTGetHighestMCSRate d s f = Some 0"
proof -
  have "b = 0" if "b \<in> set (map2 (AND) (take 16 s) (take 16 f))" for b
  proof (rule bit_word_eqI)
    fix n assume n: "n < LENGTH(8)"
    from that obtain i where i: "i < 16" "b = s ! i AND f ! i"
      using assms(1,2) by (auto simp: set_zip)
    have "\<not> mcs_in s (8 * i + n) \<or> \<not> mcs_in f (8 * i + n)" using assms(3) by (auto simp: available_def)
    with i(1) n assms(1,2) show "bit b n = bit 0 n" by (auto simp: mcs_in_def i(2) bit_simps)
  qed
  then show ?thesis by (simp add: HTGetHighestMCSRate_def Let_def)
qed

lemma filter_in:
  "k < 16 \<Longrightarrow> mcs_in MCS_FILTER_ALL k" "mcs_in MCS_FILTER_ALL k \<Longrightarrow> k < 77"
  "k < 16 \<Longrightarrow> mcs_in MCS_FILTER_1SS k \<longleftrightarrow> k < 8"
proof -
  have "list_all (\<lambda>k. mcs_in MCS_FILTER_ALL k = (k < 77)) [0..<128]" by code_simp
  then have "mcs_in MCS_FILTER_ALL k = (k < 77)" if "k < 128" using that by (simp only: list_all_iff set_upt) auto
  moreover have "mcs_in MCS_FILTER_ALL k \<Longrightarrow> k < 128" by (simp add: mcs_in_def MCS_FILTER_ALL_def)
  ultimately show "k < 16 \<Longrightarrow> mcs_in MCS_FILTER_ALL k" "mcs_in MCS_FILTER_ALL k \<Longrightarrow> k < 77" by auto
  have "list_all (\<lambda>k. mcs_in MCS_FILTER_1SS k = (k < 8)) [0..<16]" by code_simp
  then show "k < 16 \<Longrightarrow> mcs_in MCS_FILTER_1SS k \<longleftrightarrow> k < 8" by (simp only: list_all_iff set_upt) auto
qed

lemma length_filters [simp]: "length MCS_FILTER_ALL = 16" "length MCS_FILTER_1SS = 16"
  by (simp_all add: MCS_FILTER_ALL_def MCS_FILTER_1SS_def)

section \<open>Well-formed devices\<close>

text \<open>An operating rate is none, or one of the first sixteen indices marked as such.\<close>

definition rate_ok :: "u8 \<Rightarrow> bool" where
  "rate_ok r \<longleftrightarrow> r = 0 \<or> (\<exists>m<16. r = of_nat m OR 0x80)"

definition ht_info_wf :: "rt_high_throughput \<Rightarrow> bool" where
  "ht_info_wf h \<longleftrightarrow>
     length (PeerHTCapBuf h) = 32 \<and> length (PeerHTInfoBuf h) = 32 \<and> length (SelfHTCap h) = 26 \<and>
     length (SelfHTInfo h) = 22 \<and> length (szRT2RTAggBuffer h) = 10 \<and> \<not> bSwBwInProgress h \<and>
     AMPDU_Factor h < 4 \<and> CurrentAMPDUFactor h < 4 \<and> MPDU_Density h < 8 \<and> CurrentMPDUDensity h < 8 \<and>
     nAMSDU_MaxSize h \<le> 7935 \<and> nCurrent_AMSDU_MaxSize h \<le> 7935 \<and>
     SelfMimoPs h < 4 \<and> PeerMimoPs h < 4 \<and> CurrentOpMode h < 4 \<and> (bCurBW40MHz h \<longrightarrow> bRegBW40MHz h)"

definition ht_wf :: "ht_dev \<Rightarrow> bool" where
  "ht_wf d \<longleftrightarrow>
     ht_info_wf (hti d) \<and> length (RegHTSuppRateSet d) = 16 \<and> length (Regdot11HTOperationalRateSet d) = 16 \<and>
     length (Regdot11TxHTOperationalRateSet d) = 16 \<and> length (dot11HTOperationalRateSet d) = 16 \<and>
     (\<forall>k. mcs_in (dot11HTOperationalRateSet d) k \<longrightarrow> k < 16) \<and>
     rate_ok (HTHighestOperaRate d) \<and> rate_ok (HTCurrentOperaRate d)"

definition ht_net_wf :: "ht_net \<Rightarrow> bool" where
  "ht_net_wf net \<longleftrightarrow> length (bdHTCapBuf (bssht net)) = 32 \<and> length (bdHTInfoBuf (bssht net)) = 32"

lemma rate_ok_0 [simp]: "rate_ok 0"
  by (simp add: rate_ok_def)

lemma cap_start_le: "cap_start b \<le> 4"
  by (simp add: cap_start_def)

lemma peer_cap_ok: "length (PeerHTCapBuf (hti d)) = 32 \<Longrightarrow> cap_ok (peer_cap d)"
  unfolding peer_cap_def using cap_start_le[of "PeerHTCapBuf (hti d)"] by (intro cap_get_ok) simp

lemma OptMode_less: "OptMode (info_get b) < 4"
  by (simp add: info_get_def bf_get_less)

text \<open>The rates after the peer's set has been filtered.\<close>

definition highest_of :: "ht_dev \<Rightarrow> u8 list \<Rightarrow> u8 list \<Rightarrow> u8 \<Rightarrow> bool" where
  "highest_of d s f r \<longleftrightarrow>
     (if available s f = {} then r = 0
      else \<exists>m \<in> available s f. r = of_nat m OR 0x80 \<and>
        (\<forall>k \<in> available s f. rate_row d ! k \<le> rate_row d ! m \<and> (k < m \<longrightarrow> rate_row d ! k < rate_row d ! m)))"

lemma highest_of_exists:
  assumes "length s = 16" "length f = 16" "\<forall>k. mcs_in s k \<longrightarrow> k < 16"
  shows "\<exists>r. HTGetHighestMCSRate d s f = Some r \<and> highest_of d s f r"
proof (cases "available s f = {}")
  case True
  with highest_none[OF assms(1,2)] show ?thesis by (simp add: highest_of_def)
next
  case False
  have "\<forall>k \<in> available s f. k < 77" "\<exists>k \<in> available s f. k < 31"
    using assms(3) False by (force simp: available_def)+
  from highest_rate[OF assms(1,2) this, of d] False show ?thesis by (auto simp: highest_of_def)
qed

lemma highest_of_rate_ok: "highest_of d s f r \<Longrightarrow> \<forall>k. mcs_in s k \<longrightarrow> k < 16 \<Longrightarrow> rate_ok r"
  by (auto simp: highest_of_def rate_ok_def available_def split: if_splits)

lemma rate_row_cong:
  "bCurBW40MHz (hti a) = bCurBW40MHz (hti b) \<Longrightarrow> bCurShortGI40MHz (hti a) = bCurShortGI40MHz (hti b) \<Longrightarrow>
   bCurShortGI20MHz (hti a) = bCurShortGI20MHz (hti b) \<Longrightarrow> rate_row a = rate_row b"
  by (simp add: rate_row_def)

text \<open>The peer's set as the negotiation uses it: an empty first byte counts as all of the first eight.\<close>

definition peer_mcs :: "ht_capability_ele \<Rightarrow> u8 list" where
  "peer_mcs cap = (if MCS cap ! 0 = 0 then (MCS cap)[0 := 0xff] else MCS cap)"

definition mimo_filter :: "ht_capability_ele \<Rightarrow> u8 list" where
  "mimo_filter cap = (if MimoPwrSave cap = MIMO_PS_STATIC then MCS_FILTER_1SS else MCS_FILTER_ALL)"

lemma assoc_rates_ok:
  assumes "length (PeerHTCapBuf (hti d)) = 32" "length (Regdot11TxHTOperationalRateSet d) = 16"
  shows "\<exists>B F r. assoc_rates d =
       Some (d\<lparr>dot11HTOperationalRateSet := HTFilterMCSRate d (peer_mcs (peer_cap d)),
               hti := (hti d)\<lparr>PeerHTCapBuf := B, IOTRaFunc := F, PeerMimoPs := MimoPwrSave (peer_cap d)\<rparr>,
               HTHighestOperaRate := r, HTCurrentOperaRate := r\<rparr>) \<and>
     length B = 32 \<and> highest_of d (HTFilterMCSRate d (peer_mcs (peer_cap d))) (mimo_filter (peer_cap d)) r"
proof -
  define off where "off = cap_start (PeerHTCapBuf (hti d))"
  define B where "B = (if PeerHTCapBuf (hti d) ! (off + 3) = 0 then (PeerHTCapBuf (hti d))[off + 3 := 0xff] else PeerHTCapBuf (hti d))"
  have off: "off \<le> 4" by (simp add: off_def cap_start_le)
  have len: "length B = 32" using assms(1) by (simp add: B_def)
  have pc: "peer_cap d = cap_get (drop off (PeerHTCapBuf (hti d)))" by (simp add: peer_cap_def off_def)
  have cap: "cap_get (drop off B) = (peer_cap d)\<lparr>MCS := peer_mcs (peer_cap d)\<rparr>"
    using assms(1) off by (simp add: B_def pc cap_get_def peer_mcs_def drop_update_swap take_update_swap nth_drop add.commute[of off 3])
  define d1 where "d1 = (if PeerHTCapBuf (hti d) ! (off + 3) = 0
    then upd_ht (\<lambda>h. h\<lparr>PeerHTCapBuf := (PeerHTCapBuf (hti d))[off + 3 := 0xff]\<rparr>) d else d)"
  have d1: "d1 = d\<lparr>hti := (hti d)\<lparr>PeerHTCapBuf := B\<rparr>\<rparr>" by (simp add: d1_def B_def)
  define S where "S = HTFilterMCSRate d (peer_mcs (peer_cap d))"
  have mlen: "length (peer_mcs (peer_cap d)) = 16"
    using peer_cap_ok[OF assms(1)] by (simp add: peer_mcs_def cap_ok_def)
  have S: "length S = 16" "\<forall>k. mcs_in S k \<longrightarrow> k < 16"
    using length_HTFilterMCSRate[OF assms(2) mlen] HTFilterMCSRate_in(1)[OF assms(2) mlen] by (auto simp: S_def)
  define d2 where "d2 = HTIOTActDetermineRaFunc d1 (peer_mcs (peer_cap d) ! 1 \<noteq> 0)"
  obtain F where d2: "d2 = d\<lparr>hti := (hti d)\<lparr>PeerHTCapBuf := B, IOTRaFunc := F\<rparr>\<rparr>"
    unfolding d2_def HTIOTActDetermineRaFunc_def d1 Let_def by simp
  have d2': "HTIOTActDetermineRaFunc (d\<lparr>hti := (hti d)\<lparr>PeerHTCapBuf := B\<rparr>\<rparr>) (peer_mcs (peer_cap d) ! Suc 0 \<noteq> 0) =
     d\<lparr>hti := (hti d)\<lparr>PeerHTCapBuf := B, IOTRaFunc := F\<rparr>\<rparr>" using d2 unfolding d2_def d1 by simp
  define d4 where "d4 = d\<lparr>dot11HTOperationalRateSet := S,
     hti := (hti d)\<lparr>PeerHTCapBuf := B, IOTRaFunc := F, PeerMimoPs := MimoPwrSave (peer_cap d)\<rparr>\<rparr>"
  have fS: "HTFilterMCSRate d2 (peer_mcs (peer_cap d)) = S" by (simp add: S_def d2 HTFilterMCSRate_def Let_def)
  have "length (mimo_filter (peer_cap d)) = 16" by (simp add: mimo_filter_def)
  from highest_of_exists[OF S(1) this S(2), of d4] obtain r where
    r: "HTGetHighestMCSRate d4 S (mimo_filter (peer_cap d)) = Some r" "highest_of d4 S (mimo_filter (peer_cap d)) r" by blast
  have "rate_row d4 = rate_row d" by (rule rate_row_cong) (simp_all add: d4_def)
  with r(2) have "highest_of d S (mimo_filter (peer_cap d)) r" by (simp add: highest_of_def cong: if_cong)
  moreover have "assoc_rates d = Some (d4\<lparr>HTHighestOperaRate := r, HTCurrentOperaRate := r\<rparr>)"
    unfolding assoc_rates_def Let_def off_def[symmetric] d1_def[symmetric]
    using r(1) by (cases "MimoPwrSave (peer_cap d) = MIMO_PS_STATIC")
      (simp_all add: d1 cap d2' fS[unfolded d2] d4_def mimo_filter_def)
  ultimately show ?thesis using len unfolding d4_def S_def by auto
qed

end
