(* ===== verification/HT_Assoc.thy ===== *)
theory HT_Assoc
  imports HT_Props
begin

text \<open>
  What the negotiation guarantees: the agreed settings stay within both sides' capabilities,
  the element of one device is what the other reads, every sequence of operations keeps the
  device well formed, and the rate that the table misses.
\<close>

section \<open>Agreement\<close>

lemma HTSetConnectBwMode_eq:
  "\<not> bSwBwInProgress (hti d) \<Longrightarrow>
   HTSetConnectBwMode d bw off =
     d\<lparr>hti := (hti d)\<lparr>bCurBW40MHz := bCurBW40MHz (hti (HTSetConnectBwMode d bw off)),
                     CurSTAExtChnlOffset := CurSTAExtChnlOffset (hti (HTSetConnectBwMode d bw off))\<rparr>,
       radio_ops := radio_ops (HTSetConnectBwMode d bw off)\<rparr>"
  by (cases "bRegBW40MHz (hti d)") (simp_all add: HTSetConnectBwMode_def HTSetConnectBwModeCallback_def Let_def)

lemma two_bits: "(v::u8) < 4 \<Longrightarrow> v = 0 \<or> v = 1 \<or> v = 2 \<or> v = 3"
proof -
  assume "v < 4"
  then have "unat v = 0 \<or> unat v = 1 \<or> unat v = 2 \<or> unat v = 3" by (simp add: word_less_nat_alt) arith
  moreover have "v = of_nat n" if "unat v = n" for n
    unfolding that[symmetric] by simp
  ultimately show ?thesis by fastforce
qed

definition width_agreed :: "ht_dev \<Rightarrow> ht_channel_width \<Rightarrow> ht_extchnl_offset \<Rightarrow> bool" where
  "width_agreed d bw off \<longleftrightarrow>
     bRegBW40MHz (hti d) \<and> \<not> halfN d \<and> bw = HT_CHANNEL_WIDTH_20_40 \<and>
     (off = HT_EXTCHNL_OFFSET_UPPER \<or> off = HT_EXTCHNL_OFFSET_LOWER \<and> 2 \<le> ht_channel (cur_net d))"

lemma HTSetConnectBwMode_width:
  assumes "\<not> bSwBwInProgress (hti d)" "bCurBW40MHz (hti d) \<longrightarrow> bRegBW40MHz (hti d)"
  shows "bCurBW40MHz (hti (HTSetConnectBwMode d bw off)) \<longleftrightarrow> width_agreed d bw off"
  using assms by (auto simp: HTSetConnectBwMode_def HTSetConnectBwModeCallback_def Let_def width_agreed_def)

lemma HTOnAssocRsp_ok:
  assumes wf: "ht_info_wf (hti d)" "length (Regdot11TxHTOperationalRateSet d) = 16"
    and on: "bCurrentHTSupport (hti d)"
  defines "cap \<equiv> peer_cap d" and "info \<equiv> peer_info d"
  defines "bw \<equiv> if ChlWidth cap = 1 then HT_CHANNEL_WIDTH_20_40 else HT_CHANNEL_WIDTH_20"
    and "off \<equiv> HT_EXTCHNL_of (ExtChlOffset info)"
  shows "\<exists>h r d'. HTOnAssocRsp d = Some d' \<and>
     d' = d\<lparr>hti := h, radio_ops := radio_ops d', dot11HTOperationalRateSet := HTFilterMCSRate d (peer_mcs cap),
            HTHighestOperaRate := r, HTCurrentOperaRate := r\<rparr> \<and>
     h = (assoc_aggregation d cap (hti d))\<lparr>bCurBW40MHz := width_agreed d bw off, CurSTAExtChnlOffset := CurSTAExtChnlOffset h,
           bCurTxBW40MHz := RecommemdedTxWidth info = 1,
           bCurShortGI20MHz := bRegShortGI20MHz (hti d) \<and> ShortGI20Mhz cap = 1,
           bCurShortGI40MHz := bRegShortGI40MHz (hti d) \<and> ShortGI40Mhz cap = 1,
           bCurSuppCCK := bRegSuppCCK (hti d) \<and> DssCCk cap = 1,
           PeerHTCapBuf := PeerHTCapBuf h, IOTRaFunc := IOTRaFunc h, PeerMimoPs := MimoPwrSave cap, CurrentOpMode := OptMode info\<rparr> \<and>
     length (PeerHTCapBuf h) = 32 \<and>
     highest_of d' (HTFilterMCSRate d (peer_mcs cap)) (mimo_filter cap) r"
proof -
  let ?b = "width_agreed d bw off"
  have "bCurBW40MHz (hti (HTSetConnectBwMode d bw off)) = ?b"
    using wf(1) HTSetConnectBwMode_width[of d bw off] by (simp add: ht_info_wf_def)
  then obtain w R where d1: "HTSetConnectBwMode d bw off =
      d\<lparr>hti := (hti d)\<lparr>bCurBW40MHz := ?b, CurSTAExtChnlOffset := w\<rparr>, radio_ops := R\<rparr>"
    using HTSetConnectBwMode_eq[of d bw off] wf(1) by (simp add: ht_info_wf_def)
  define h2 where "h2 = (hti d)\<lparr>bCurBW40MHz := ?b, CurSTAExtChnlOffset := w, bCurTxBW40MHz := RecommemdedTxWidth info = 1,
           bCurShortGI20MHz := bRegShortGI20MHz (hti d) \<and> ShortGI20Mhz cap = 1,
           bCurShortGI40MHz := bRegShortGI40MHz (hti d) \<and> ShortGI40Mhz cap = 1,
           bCurSuppCCK := bRegSuppCCK (hti d) \<and> DssCCk cap = 1\<rparr>"
  define d3 where "d3 = d\<lparr>radio_ops := R, hti := assoc_aggregation d cap h2\<rparr>"
  have agg: "assoc_aggregation (d\<lparr>radio_ops := y, hti := x\<rparr>) cap = assoc_aggregation d cap" for x y
    by (rule ext) (simp add: assoc_aggregation_def Let_def)
  have keep: "PeerHTCapBuf (assoc_aggregation d cap h2) = PeerHTCapBuf (hti d)"
    by (simp add: assoc_aggregation_def Let_def h2_def)
  then have pc: "peer_cap d3 = cap" by (simp add: peer_cap_def d3_def cap_def)
  have fil: "HTFilterMCSRate d3 s = HTFilterMCSRate d s" for s by (simp add: d3_def HTFilterMCSRate_def Let_def)
  have "length (PeerHTCapBuf (hti d3)) = 32" "length (Regdot11TxHTOperationalRateSet d3) = 16"
    using wf keep by (simp_all add: d3_def ht_info_wf_def)
  from assoc_rates_ok[OF this] obtain B F r where
    ar: "assoc_rates d3 = Some (d3\<lparr>dot11HTOperationalRateSet := HTFilterMCSRate d (peer_mcs cap),
               hti := (hti d3)\<lparr>PeerHTCapBuf := B, IOTRaFunc := F, PeerMimoPs := MimoPwrSave cap\<rparr>,
               HTHighestOperaRate := r, HTCurrentOperaRate := r\<rparr>)"
    and B: "length B = 32" and hi: "highest_of d3 (HTFilterMCSRate d (peer_mcs cap)) (mimo_filter cap) r"
    unfolding pc fil by blast
  define h where "h = (assoc_aggregation d cap h2)\<lparr>PeerHTCapBuf := B, IOTRaFunc := F, PeerMimoPs := MimoPwrSave cap,
    CurrentOpMode := OptMode info\<rparr>"
  define d' where "d' = d\<lparr>hti := h, radio_ops := R, dot11HTOperationalRateSet := HTFilterMCSRate d (peer_mcs cap),
            HTHighestOperaRate := r, HTCurrentOperaRate := r\<rparr>"
  have "HTOnAssocRsp d = Some d'"
    unfolding HTOnAssocRsp_def Let_def cap_def[symmetric] info_def[symmetric] bw_def[symmetric] off_def[symmetric]
    using on ar unfolding d1
    by (simp add: agg h2_def[symmetric] d3_def d'_def h_def)
  moreover have "h = (assoc_aggregation d cap (hti d))\<lparr>bCurBW40MHz := ?b, CurSTAExtChnlOffset := CurSTAExtChnlOffset h,
           bCurTxBW40MHz := RecommemdedTxWidth info = 1,
           bCurShortGI20MHz := bRegShortGI20MHz (hti d) \<and> ShortGI20Mhz cap = 1,
           bCurShortGI40MHz := bRegShortGI40MHz (hti d) \<and> ShortGI40Mhz cap = 1,
           bCurSuppCCK := bRegSuppCCK (hti d) \<and> DssCCk cap = 1,
           PeerHTCapBuf := PeerHTCapBuf h, IOTRaFunc := IOTRaFunc h, PeerMimoPs := MimoPwrSave cap, CurrentOpMode := OptMode info\<rparr>"
    by (simp add: h_def h2_def assoc_aggregation_def Let_def)
  moreover have "rate_row d' = rate_row d3"
    by (rule rate_row_cong) (simp_all add: d'_def h_def d3_def)
  then have "highest_of d' (HTFilterMCSRate d (peer_mcs cap)) (mimo_filter cap) r"
    using hi by (simp add: highest_of_def cong: if_cong)
  moreover have "length (PeerHTCapBuf h) = 32" using B by (simp add: h_def)
  moreover have "d' = d\<lparr>hti := h, radio_ops := radio_ops d', dot11HTOperationalRateSet := HTFilterMCSRate d (peer_mcs cap),
            HTHighestOperaRate := r, HTCurrentOperaRate := r\<rparr>" by (simp add: d'_def)
  ultimately show ?thesis by blast
qed

section \<open>Sequences of operations\<close>

text \<open>\<open>Join\<close> is the softmac's choice of a network, which sets the network and the half mode.\<close>

datatype ht_op =
  DefaultSetting | InitializeInfo | ResetIOT | SavePeer ht_net | UpdatePeer ht_net | UseDefault
| ConnectBw ht_channel_width ht_extchnl_offset | AssocRsp | BuildElements bool | SetMode rf_chip u8 | Join ht_net bool

fun ht_step :: "ht_op \<Rightarrow> ht_dev \<Rightarrow> ht_dev option" where
  "ht_step DefaultSetting d = Some (HTUpdateDefaultSetting d)"
| "ht_step InitializeInfo d = Some (HTInitializeHTInfo d)"
| "ht_step ResetIOT d = Some (upd_ht HTResetIOTSetting d)"
| "ht_step (SavePeer net) d = Some (HTResetSelfAndSavePeerSetting d net)"
| "ht_step (UpdatePeer net) d = Some (HTUpdateSelfAndPeerSetting d net)"
| "ht_step UseDefault d = HTUseDefaultSetting d"
| "ht_step (ConnectBw bw off) d = Some (HTSetConnectBwMode d bw off)"
| "ht_step AssocRsp d = HTOnAssocRsp d"
| "ht_step (BuildElements e) d = do {
     c \<leftarrow> HTConstructCapabilityElement d (SelfHTCap (hti d)) 26 e;
     i \<leftarrow> HTConstructInfoElement d (SelfHTInfo (hti d)) 22;
     r \<leftarrow> HTConstructRT2RTAggElement d (szRT2RTAggBuffer (hti d)) 10;
     Some (upd_ht (\<lambda>h. h\<lparr>SelfHTCap := fst c, SelfHTInfo := fst i, szRT2RTAggBuffer := fst r\<rparr>) d) }"
| "ht_step (SetMode chip m) d = Some (rtl8192_SetWirelessMode d chip m)"
| "ht_step (Join net half) d = Some (d\<lparr>cur_net := net, halfN := half\<rparr>)"

definition ht_op_ok :: "ht_op \<Rightarrow> bool" where
  "ht_op_ok e \<longleftrightarrow> (case e of SavePeer net \<Rightarrow> ht_net_wf net \<and> bdHTSpecVer (bssht net) = HT_SPEC_VER_IEEE | _ \<Rightarrow> True)"

definition ht_inv :: "ht_dev \<Rightarrow> bool" where
  "ht_inv d \<longleftrightarrow> ht_wf d \<and> ePeerHTSpecVer (hti d) = HT_SPEC_VER_IEEE"

named_theorems ht_preserves \<open>operations that keep the device well formed\<close>

lemma wf_facts:
  assumes "ht_inv d"
  shows "ht_info_wf (hti d)" "length (Regdot11TxHTOperationalRateSet d) = 16" "length (Regdot11HTOperationalRateSet d) = 16"
    "ePeerHTSpecVer (hti d) = HT_SPEC_VER_IEEE" "length (RegHTSuppRateSet d) = 16"
  using assms by (auto simp: ht_inv_def ht_wf_def)

lemma inv_hti: "ht_inv d \<Longrightarrow> ht_info_wf h \<Longrightarrow> ePeerHTSpecVer h = HT_SPEC_VER_IEEE \<Longrightarrow> ht_inv (d\<lparr>hti := h\<rparr>)"
  by (auto simp: ht_inv_def ht_wf_def)

lemma inv_same [simp]:
  "ht_inv (d\<lparr>radio_ops := r\<rparr>) = ht_inv d" "ht_inv (d\<lparr>cur_net := n\<rparr>) = ht_inv d" "ht_inv (d\<lparr>halfN := b\<rparr>) = ht_inv d"
  "ht_inv (d\<lparr>ht_mode := m\<rparr>) = ht_inv d" "ht_inv (d\<lparr>bTxDisableRateFallBack := b\<rparr>) = ht_inv d"
  "ht_inv (d\<lparr>bTxUseDriverAssingedRate := b\<rparr>) = ht_inv d" "ht_inv (d\<lparr>bTxEnableFwCalcDur := b\<rparr>) = ht_inv d"
  by (simp_all add: ht_inv_def ht_wf_def)

lemma inv_default [ht_preserves]: "ht_inv d \<Longrightarrow> ht_inv (HTUpdateDefaultSetting d)"
  unfolding HTUpdateDefaultSetting_def
  by (simp, rule inv_hti) (use wf_facts in \<open>auto simp: ht_info_wf_def\<close>)

lemma inv_init [ht_preserves]: assumes "ht_inv d" shows "ht_inv (HTInitializeHTInfo d)"
proof -
  have "ht_inv (d\<lparr>hti := h, RegHTSuppRateSet := s\<rparr>)"
    if "ht_info_wf h" "ePeerHTSpecVer h = HT_SPEC_VER_IEEE" "length s = 16" for h s
    using assms that by (auto simp: ht_inv_def ht_wf_def)
  then show ?thesis unfolding HTInitializeHTInfo_def Let_def
    using wf_facts[OF assms] by (simp add: ht_info_wf_def)
qed

lemma inv_iot [ht_preserves]: "ht_inv d \<Longrightarrow> ht_inv (upd_ht HTResetIOTSetting d)"
  by (rule inv_hti) (use wf_facts in \<open>auto simp: ht_info_wf_def HTResetIOTSetting_def\<close>)

lemma length_save_element: "length b = 32 \<Longrightarrow> length e = 32 \<Longrightarrow> length (save_element b e n) = 32"
  by (auto simp: save_element_def word_le_nat_alt min_def)

lemma HTResetSelfAndSavePeerSetting_hti:
  "HTResetSelfAndSavePeerSetting d net = d\<lparr>hti := hti (HTResetSelfAndSavePeerSetting d net)\<rparr>"
  by (simp add: HTResetSelfAndSavePeerSetting_def Let_def)

lemma inv_save [ht_preserves]:
  assumes "ht_inv d" "ht_net_wf net" "bdHTSpecVer (bssht net) = HT_SPEC_VER_IEEE"
  shows "ht_inv (HTResetSelfAndSavePeerSetting d net)"
proof (subst HTResetSelfAndSavePeerSetting_hti, rule inv_hti[OF assms(1)])
  note w = wf_facts[OF assms(1)]
  show "ht_info_wf (hti (HTResetSelfAndSavePeerSetting d net))"
    using w assms(2) by (simp add: HTResetSelfAndSavePeerSetting_def Let_def ht_info_wf_def ht_net_wf_def length_save_element)
  show "ePeerHTSpecVer (hti (HTResetSelfAndSavePeerSetting d net)) = HT_SPEC_VER_IEEE"
    using w assms(3) by (simp add: HTResetSelfAndSavePeerSetting_def Let_def)
qed

lemma inv_update [ht_preserves]: "ht_inv d \<Longrightarrow> ht_inv (HTUpdateSelfAndPeerSetting d net)"
  unfolding HTUpdateSelfAndPeerSetting_def
  by (auto intro!: inv_hti dest: wf_facts simp: ht_info_wf_def OptMode_less)

lemma inv_bw [ht_preserves]: "ht_inv d \<Longrightarrow> ht_inv (HTSetConnectBwMode d bw off)"
  unfolding HTSetConnectBwMode_def HTSetConnectBwModeCallback_def Let_def
  by (auto intro!: inv_hti dest: wf_facts simp: ht_info_wf_def)

lemma inv_mode [ht_preserves]: assumes "ht_inv d" shows "ht_inv (rtl8192_SetWirelessMode d chip m)"
proof -
  have rates: "ht_inv (rtl8192_refresh_supportrate d')" if "ht_inv d'" for d'
    using that by (auto simp: rtl8192_refresh_supportrate_def ht_inv_def ht_wf_def)
  have "ht_inv (d\<lparr>ht_mode := x, hti := (hti d)\<lparr>bEnableHT := b\<rparr>\<rparr>)" for x b
    using assms by (simp add: ht_inv_def ht_wf_def ht_info_wf_def)
  then show ?thesis by (auto simp: rtl8192_SetWirelessMode_def Let_def intro!: rates)
qed

lemma inv_build [ht_preserves]:
  assumes "ht_inv d" shows "\<exists>d'. ht_step (BuildElements e) d = Some d' \<and> ht_inv d'"
proof -
  note w = wf_facts[OF assms]
  have "length (cap_put (self_cap d e)) = 26" using w by (intro length_cap_put self_cap_ok) (simp_all add: ht_info_wf_def)
  moreover have "length (info_put (self_info d)) = 22" by (intro info_put_length) (simp add: self_info_def)
  ultimately obtain c i r where *: "HTConstructCapabilityElement d (SelfHTCap (hti d)) 26 e = Some c" "length (fst c) = 26"
    "HTConstructInfoElement d (SelfHTInfo (hti d)) 22 = Some i" "length (fst i) = 22"
    "HTConstructRT2RTAggElement d (szRT2RTAggBuffer (hti d)) 10 = Some r" "length (fst r) = 10"
    using w by (cases "may_beacon d") (simp_all add: HTConstructCapabilityElement_def HTConstructInfoElement_def
      HTConstructRT2RTAggElement_def ht_info_wf_def buf_write_exact)
  then have "ht_inv (upd_ht (\<lambda>h. h\<lparr>SelfHTCap := fst c, SelfHTInfo := fst i, szRT2RTAggBuffer := fst r\<rparr>) d)"
    using w by (intro inv_hti[OF assms]) (auto simp: ht_info_wf_def)
  with * show ?thesis by simp
qed

lemma inv_rates:
  assumes "ht_inv (d\<lparr>dot11HTOperationalRateSet := s', HTHighestOperaRate := r', HTCurrentOperaRate := r''\<rparr>)"
    and "length s = 16" "\<forall>k. mcs_in s k \<longrightarrow> k < 16" "highest_of d' s f r"
  shows "ht_inv (d\<lparr>dot11HTOperationalRateSet := s, HTHighestOperaRate := r, HTCurrentOperaRate := r\<rparr>)"
  using assms highest_of_rate_ok[OF assms(4,3)] by (simp add: ht_inv_def ht_wf_def)

lemma filtered_wf:
  assumes "length (Regdot11TxHTOperationalRateSet d) = 16" "length s = 16"
  shows "length (HTFilterMCSRate d s) = 16" "\<forall>k. mcs_in (HTFilterMCSRate d s) k \<longrightarrow> k < 16"
  using length_HTFilterMCSRate[OF assms] HTFilterMCSRate_in(1)[OF assms] by auto

lemma inv_use_default [ht_preserves]:
  assumes "ht_inv d" shows "\<exists>d'. HTUseDefaultSetting d = Some d' \<and> ht_inv d'"
proof (cases "bEnableHT (hti d)")
  case False
  have "ht_inv (upd_ht (\<lambda>h. h\<lparr>bCurrentHTSupport := False\<rparr>) d)"
    using wf_facts[OF assms] by (intro inv_hti[OF assms]) (simp_all add: ht_info_wf_def)
  with False show ?thesis by (simp add: HTUseDefaultSetting_def)
next
  case True
  define h where "h = (hti d)\<lparr>bCurrentHTSupport := True, bCurSuppCCK := bRegSuppCCK (hti d), bCurBW40MHz := bRegBW40MHz (hti d),
    bCurShortGI20MHz := bRegShortGI20MHz (hti d), bCurShortGI40MHz := bRegShortGI40MHz (hti d),
    bCurrent_AMSDU_Support := bAMSDU_Support (hti d), nCurrent_AMSDU_MaxSize := nAMSDU_MaxSize (hti d),
    bCurrentAMPDUEnable := bAMPDUEnable (hti d), CurrentAMPDUFactor := AMPDU_Factor (hti d),
    CurrentMPDUDensity := CurrentMPDUDensity (hti d)\<rparr>"
  let ?d1 = "d\<lparr>hti := h\<rparr>" and ?s = "Regdot11TxHTOperationalRateSet d"
  have d1: "ht_inv ?d1"
    using wf_facts[OF assms] by (intro inv_hti[OF assms]) (simp_all add: ht_info_wf_def h_def)
  define S where "S = HTFilterMCSRate ?d1 ?s"
  have S: "length S = 16" "\<forall>k. mcs_in S k \<longrightarrow> k < 16"
    using filtered_wf[of ?d1 ?s] wf_facts(2)[OF assms] by (simp_all add: S_def)
  from highest_of_exists[OF S(1) _ S(2), of MCS_FILTER_ALL "?d1\<lparr>dot11HTOperationalRateSet := S\<rparr>"] obtain r where
    r: "HTGetHighestMCSRate (?d1\<lparr>dot11HTOperationalRateSet := S\<rparr>) S MCS_FILTER_ALL = Some r"
       "highest_of (?d1\<lparr>dot11HTOperationalRateSet := S\<rparr>) S MCS_FILTER_ALL r" by auto
  have "HTUseDefaultSetting d = Some (?d1\<lparr>dot11HTOperationalRateSet := S, HTHighestOperaRate := r, HTCurrentOperaRate := r\<rparr>)"
    using True r(1) by (simp add: HTUseDefaultSetting_def Let_def h_def[symmetric] S_def[symmetric])
  moreover have "ht_inv (?d1\<lparr>dot11HTOperationalRateSet := S, HTHighestOperaRate := r, HTCurrentOperaRate := r\<rparr>)"
    using d1 S highest_of_rate_ok[OF r(2) S(2)] by (simp add: ht_inv_def ht_wf_def)
  ultimately show ?thesis by blast
qed

lemma aggregation_bounds:
  assumes "cap_ok cap" "AMPDU_Factor h < 4" "MPDU_Density h < 8" "nAMSDU_MaxSize h \<le> 7935"
  shows "CurrentAMPDUFactor (assoc_aggregation d cap h) < 4" "CurrentMPDUDensity (assoc_aggregation d cap h) < 8"
    "nCurrent_AMSDU_MaxSize (assoc_aggregation d cap h) \<le> 7935"
  using assms by (auto simp: assoc_aggregation_def Let_def cap_ok_def HT_AGG_SIZE_32K_def HT_AGG_SIZE_64K_def)

lemma inv_assoc [ht_preserves]:
  assumes "ht_inv d" shows "\<exists>d'. HTOnAssocRsp d = Some d' \<and> ht_inv d'"
proof (cases "bCurrentHTSupport (hti d)")
  case False
  with assms show ?thesis by (simp add: HTOnAssocRsp_def)
next
  case True
  note w = wf_facts[OF assms]
  from HTOnAssocRsp_ok[OF w(1,2) True] obtain h r d' where *: "HTOnAssocRsp d = Some d'"
    "d' = d\<lparr>hti := h, radio_ops := radio_ops d', dot11HTOperationalRateSet := HTFilterMCSRate d (peer_mcs (peer_cap d)),
            HTHighestOperaRate := r, HTCurrentOperaRate := r\<rparr>"
    and h: "h = (assoc_aggregation d (peer_cap d) (hti d))\<lparr>bCurBW40MHz := width_agreed d (if ChlWidth (peer_cap d) = 1 then HT_CHANNEL_WIDTH_20_40 else HT_CHANNEL_WIDTH_20)
             (HT_EXTCHNL_of (ExtChlOffset (peer_info d))), CurSTAExtChnlOffset := CurSTAExtChnlOffset h,
           bCurTxBW40MHz := RecommemdedTxWidth (peer_info d) = 1,
           bCurShortGI20MHz := bRegShortGI20MHz (hti d) \<and> ShortGI20Mhz (peer_cap d) = 1,
           bCurShortGI40MHz := bRegShortGI40MHz (hti d) \<and> ShortGI40Mhz (peer_cap d) = 1,
           bCurSuppCCK := bRegSuppCCK (hti d) \<and> DssCCk (peer_cap d) = 1,
           PeerHTCapBuf := PeerHTCapBuf h, IOTRaFunc := IOTRaFunc h, PeerMimoPs := MimoPwrSave (peer_cap d),
           CurrentOpMode := OptMode (peer_info d)\<rparr>"
    and len: "length (PeerHTCapBuf h) = 32"
    and hi: "highest_of d' (HTFilterMCSRate d (peer_mcs (peer_cap d))) (mimo_filter (peer_cap d)) r" by blast
  have cap: "cap_ok (peer_cap d)" using w by (intro peer_cap_ok) (simp add: ht_info_wf_def)
  have "length (peer_mcs (peer_cap d)) = 16" using cap by (simp add: peer_mcs_def cap_ok_def)
  note S = filtered_wf[OF w(2) this]
  have keep: "length (PeerHTInfoBuf x) = 32 \<and> length (SelfHTCap x) = 26 \<and> length (SelfHTInfo x) = 22 \<and>
      length (szRT2RTAggBuffer x) = 10 \<and> \<not> bSwBwInProgress x \<and> AMPDU_Factor x < 4 \<and> MPDU_Density x < 8 \<and>
      nAMSDU_MaxSize x \<le> 7935 \<and> SelfMimoPs x < 4 \<and> bRegBW40MHz x = bRegBW40MHz (hti d) \<and> ePeerHTSpecVer x = HT_SPEC_VER_IEEE"
    if "x = assoc_aggregation d (peer_cap d) (hti d)" for x
    using w unfolding that by (simp add: assoc_aggregation_def Let_def ht_info_wf_def)
  have "ht_info_wf h \<and> ePeerHTSpecVer h = HT_SPEC_VER_IEEE"
    using keep[OF refl] len cap aggregation_bounds[OF cap, of "hti d" d] w(1)
    by (subst (1 2) h) (simp add: ht_info_wf_def cap_ok_def peer_info_def OptMode_less width_agreed_def)
  then have "ht_inv d'"
    using assms S highest_of_rate_ok[OF hi S(2)] by (subst *(2)) (simp add: ht_inv_def ht_wf_def)
  with *(1) show ?thesis by blast
qed

section \<open>Properties\<close>

text \<open>
  The search for the highest rate. When some allowed index is below 31 and all allowed
  indices are in the table, \<open>HTGetHighestMCSRate\<close> reads the table in bounds and returns an allowed
  index whose rate, at the current width and guard interval, no other allowed index exceeds; it
  is the lowest of those.
\<close>
theorem HTGetHighestMCSRate_best:
  assumes "length s = 16" "length f = 16"
    and "\<And>k. mcs_in s k \<Longrightarrow> mcs_in f k \<Longrightarrow> k < 77"
    and "mcs_in s k0" "mcs_in f k0" "k0 < 31"
  shows "\<exists>m. HTGetHighestMCSRate d s f = Some (of_nat m OR 0x80) \<and> mcs_in s m \<and> mcs_in f m \<and>
     (\<forall>k. mcs_in s k \<and> mcs_in f k \<longrightarrow>
        (\<exists>a b. HTMcsToDataRate d (of_nat k) = Some a \<and> HTMcsToDataRate d (of_nat m) = Some b \<and>
               (if k < m then a < b else a \<le> b)))"
proof -
  have "\<forall>k \<in> available s f. k < 77" "\<exists>k \<in> available s f. k < 31"
    using assms(3-6) by (auto simp: available_def)
  from highest_rate[OF assms(1,2) this, of d] obtain m where
    m: "HTGetHighestMCSRate d s f = Some (of_nat m OR 0x80)" "m < 77" "m \<in> available s f"
    "\<forall>k \<in> available s f. rate_row d ! k \<le> rate_row d ! m \<and> (k < m \<longrightarrow> rate_row d ! k < rate_row d ! m)" by blast
  have row: "HTMcsToDataRate d (of_nat k) = Some (rate_row d ! k)" if "k < 77" for k
    using HTMcsToDataRate_row[of "of_nat k" d] that by (simp add: unat_of_nat)
  show ?thesis
    using m assms(3) by (intro exI[of _ m]) (simp add: available_def row)
qed



text \<open>
  C21: The capability element arrives as it was built. When the peer uses the format of the
  standard, the element fits the driver's array and a device that saves it from the network's
  description reads exactly the fields that the sender chose. When the peer uses the older
  vendor format, the prefix makes the element overflow the array.
\<close>
theorem ht_capability_delivered:
  assumes "ht_wf a" "length (PeerHTCapBuf (hti b)) = 32"
  shows "(ePeerHTSpecVer (hti a) = HT_SPEC_VER_IEEE \<longrightarrow>
       (\<exists>buf. HTConstructCapabilityElement a (SelfHTCap (hti a)) 26 e = Some (buf, 28) \<and>
          (\<forall>net. bdSupportHT (bssht net) \<and> length (bdHTCapBuf (bssht net)) = 32 \<and> bdHTCapLen (bssht net) = 28 - 2 \<and>
             take 26 (bdHTCapBuf (bssht net)) = buf \<longrightarrow>
             peer_cap (HTResetSelfAndSavePeerSetting b net) = self_cap a e))) \<and>
     (ePeerHTSpecVer (hti a) = HT_SPEC_VER_EWC \<longrightarrow>
        HTConstructCapabilityElement a (SelfHTCap (hti a)) 26 e = None)"
proof -
  have a: "length (SelfHTCap (hti a)) = 26" "cap_ok (self_cap a e)"
    using assms(1) by (auto simp: ht_wf_def ht_info_wf_def intro!: self_cap_ok)
  note len = length_cap_put[OF a(2)]
  have first: "cap_put (self_cap a e) ! 0 \<noteq> 0"
  proof
    assume 0: "cap_put (self_cap a e) ! 0 = 0"
    have "TxSTBC (cap_get (cap_put (self_cap a e) @ [])) = 1" using cap_get_put[OF a(2), of "[]"] by (simp add: self_cap_def)
    with 0 show False by (simp add: cap_get_def bf_get_def)
  qed
  have "peer_cap (HTResetSelfAndSavePeerSetting b net) = self_cap a e"
    if net: "bdSupportHT (bssht net)" "length (bdHTCapBuf (bssht net)) = 32" "bdHTCapLen (bssht net) = 28 - 2"
      "take 26 (bdHTCapBuf (bssht net)) = cap_put (self_cap a e)" for net
  proof -
    have buf: "PeerHTCapBuf (hti (HTResetSelfAndSavePeerSetting b net)) = cap_put (self_cap a e) @ drop 26 (PeerHTCapBuf (hti b))"
      using net by (simp add: HTResetSelfAndSavePeerSetting_def Let_def save_element_def)
    have "cap_start (cap_put (self_cap a e) @ drop 26 (PeerHTCapBuf (hti b))) = 0"
      using first len by (cases "cap_put (self_cap a e)") (auto simp: cap_start_def EWC11NHTCap_def)
    with buf show ?thesis by (simp add: peer_cap_def cap_get_put[OF a(2)])
  qed
  moreover have "HTConstructCapabilityElement a (SelfHTCap (hti a)) 26 e = Some (cap_put (self_cap a e), 28)"
    if "ePeerHTSpecVer (hti a) = HT_SPEC_VER_IEEE"
    using that a(1) len by (simp add: HTConstructCapabilityElement_def buf_write_exact)
  moreover have "HTConstructCapabilityElement a (SelfHTCap (hti a)) 26 e = None"
    if "ePeerHTSpecVer (hti a) = HT_SPEC_VER_EWC"
    using that a(1) len by (simp add: HTConstructCapabilityElement_def buf_write_exact EWC11NHTCap_def) (simp add: buf_write_def)
  ultimately show ?thesis by blast
qed

lemma table_40: "list_all (\<lambda>n. list_all (\<lambda>k. MCS_DATA_RATE ! 1 ! of_bool g ! (8 * n + k) = of_nat (Suc n) * MCS_DATA_RATE ! 1 ! of_bool g ! k) [0..<8]) [0..<4]"
  by (induction g; code_simp)

lemma table_20: "list_all (\<lambda>n. list_all (\<lambda>k. MCS_DATA_RATE ! 0 ! 0 ! (8 * n + k) = of_nat (Suc n) * MCS_DATA_RATE ! 0 ! 0 ! k) [0..<8]) [0..<2]"
  by code_simp

lemma table_gap:
  "list_all (\<lambda>k. MCS_DATA_RATE ! 0 ! 0 ! (15 + k) = 3 * MCS_DATA_RATE ! 0 ! 0 ! k \<and>
     MCS_DATA_RATE ! 0 ! 0 ! (23 + k) = 4 * MCS_DATA_RATE ! 0 ! 0 ! k) [4..<8]"
  "MCS_DATA_RATE ! 0 ! 0 ! 19 = 234" "MCS_DATA_RATE ! 0 ! 0 ! 3 = 52" "MCS_DATA_RATE ! 0 ! 0 ! 31 = 0" "MCS_DATA_RATE ! 0 ! 0 ! 76 = 0"
  by code_simp+

text \<open>
  A rate is missing in the table. At 40 MHz the rates of two, three and four streams are
  the multiples of those of one stream. At 20 MHz with the long guard interval, where this still
  holds for two streams, the row for three streams leaves out its fourth value: index 19 yields 117 in
  place of 78 Mb/s, the indices up to 30 yield the rate of their successor, and indices 31 and 76 yield 0.
\<close>
theorem mcs_table_misses_a_rate:
  assumes "bCurBW40MHz (hti a)" "\<not> bCurBW40MHz (hti b)" "\<not> bCurShortGI20MHz (hti b)"
  shows "(\<forall>n<4. \<forall>k<8. \<exists>r. HTMcsToDataRate a (of_nat k) = Some r \<and> HTMcsToDataRate a (of_nat (8 * n + k)) = Some (of_nat (Suc n) * r)) \<and>
     (\<forall>n<2. \<forall>k<8. \<exists>r. HTMcsToDataRate b (of_nat k) = Some r \<and> HTMcsToDataRate b (of_nat (8 * n + k)) = Some (of_nat (Suc n) * r)) \<and>
     (\<forall>k. 4 \<le> k \<and> k < 8 \<longrightarrow> (\<exists>r. HTMcsToDataRate b (of_nat k) = Some r \<and>
        HTMcsToDataRate b (of_nat (15 + k)) = Some (3 * r) \<and> HTMcsToDataRate b (of_nat (23 + k)) = Some (4 * r))) \<and>
     HTMcsToDataRate b 3 = Some 52 \<and> HTMcsToDataRate b 19 = Some 234 \<and>
     HTMcsToDataRate b 31 = Some 0 \<and> HTMcsToDataRate b 76 = Some 0"
proof -
  have row: "HTMcsToDataRate d (of_nat j) = Some (rate_row d ! j)" if "j < 77" for d j
    using HTMcsToDataRate_row[of "of_nat j" d] that by (simp add: unat_of_nat)
  have a: "rate_row a = MCS_DATA_RATE ! 1 ! of_bool (bCurShortGI40MHz (hti a))" and b: "rate_row b = MCS_DATA_RATE ! 0 ! 0"
    using assms by (simp_all add: rate_row_def)
  have 1: "\<exists>r. HTMcsToDataRate a (of_nat k) = Some r \<and> HTMcsToDataRate a (of_nat (8 * n + k)) = Some (of_nat (Suc n) * r)"
    if "n < 4" "k < 8" for n k
  proof -
    have "rate_row a ! (8 * n + k) = of_nat (Suc n) * rate_row a ! k"
      using table_40 that unfolding a list_all_iff by (simp only: set_upt) auto
    with that show ?thesis by (simp only: row) blast
  qed
  have 2: "\<exists>r. HTMcsToDataRate b (of_nat k) = Some r \<and> HTMcsToDataRate b (of_nat (8 * n + k)) = Some (of_nat (Suc n) * r)"
    if "n < 2" "k < 8" for n k
  proof -
    have "rate_row b ! (8 * n + k) = of_nat (Suc n) * rate_row b ! k"
      using table_20 that unfolding b list_all_iff by (simp only: set_upt) auto
    with that show ?thesis by (simp only: row) blast
  qed
  have 3: "\<exists>r. HTMcsToDataRate b (of_nat k) = Some r \<and>
        HTMcsToDataRate b (of_nat (15 + k)) = Some (3 * r) \<and> HTMcsToDataRate b (of_nat (23 + k)) = Some (4 * r)"
    if "4 \<le> k" "k < 8" for k
  proof -
    have "rate_row b ! (15 + k) = 3 * rate_row b ! k \<and> rate_row b ! (23 + k) = 4 * rate_row b ! k"
      using table_gap(1) that unfolding b list_all_iff by (simp only: set_upt) auto
    with that show ?thesis by (simp only: row) blast
  qed
  have 4: "HTMcsToDataRate b 3 = Some 52" "HTMcsToDataRate b 19 = Some 234" "HTMcsToDataRate b 31 = Some 0" "HTMcsToDataRate b 76 = Some 0"
    using row[of 3 b] row[of 19 b] row[of 31 b] row[of 76 b] by (simp_all add: b table_gap)
  show ?thesis using 1 2 3 4 by blast
qed

section \<open>Witnesses\<close>

definition ex_ht_info :: rt_high_throughput where
  "ex_ht_info = \<lparr>bEnableHT = True, bCurrentHTSupport = True, bRegBW40MHz = True, bCurBW40MHz = False, bRegShortGI40MHz = True,
     bCurShortGI40MHz = False, bRegShortGI20MHz = True, bCurShortGI20MHz = False, bRegSuppCCK = True, bCurSuppCCK = True,
     ePeerHTSpecVer = HT_SPEC_VER_IEEE, SelfHTCap = replicate 26 0, SelfHTInfo = replicate 22 0,
     PeerHTCapBuf = [0xff, 0x1f, 0x17, 0xff, 0xff] @ replicate 27 0, PeerHTInfoBuf = [6, 0x05, 0x03] @ replicate 29 0,
     bAMSDU_Support = False, nAMSDU_MaxSize = 7935, bCurrent_AMSDU_Support = False, nCurrent_AMSDU_MaxSize = 7935,
     bAMPDUEnable = True, bCurrentAMPDUEnable = False, AMPDU_Factor = 2, CurrentAMPDUFactor = 2, MPDU_Density = 0,
     CurrentMPDUDensity = 0, bForcedShortGI = False, CurrentOpMode = 0, SelfMimoPs = 3, PeerMimoPs = 0,
     CurSTAExtChnlOffset = HT_EXTCHNL_OFFSET_NO_EXT, bCurTxBW40MHz = False, bSwBwInProgress = False, ChnlOp = CHNLOP_NONE,
     bRegRT2RTAggregation = True, RT2RT_HT_Mode = 0, bCurrentRT2RTAggregation = False, bCurrentRT2RTLongSlotTime = False,
     szRT2RTAggBuffer = replicate 10 0, bRegRxReorderEnable = True, bCurRxReorderEnable = False, RxReorderWinSize = 64,
     RxReorderPendingTime = 30, IOTPeer = HT_IOT_PEER_UNKNOWN, IOTAction = 0, IOTRaFunc = 0\<rparr>"

definition ex_ht_net :: ht_net where
  "ex_ht_net = \<lparr>ht_bssid = [0x00, 0x14, 0xbf, 1, 2, 3], ht_channel = 6,
     bssht = \<lparr>bdSupportHT = True, bdHTCapBuf = [0xff, 0x1f, 0x17, 0xff, 0xff] @ replicate 27 0, bdHTCapLen = 26,
              bdHTInfoBuf = [6, 0x05, 0x03] @ replicate 29 0, bdHTInfoLen = 22, bdHTSpecVer = HT_SPEC_VER_IEEE,
              bdBandWidth = HT_CHANNEL_WIDTH_20_40, bdRT2RTAggregation = False, bdRT2RTLongSlotTime = False, bd_RT2RT_HT_Mode = 0, bdHT1R = False\<rparr>,
     ralink_cap_exist = False, broadcom_cap_exist = True, atheros_cap_exist = False, cisco_cap_exist = False, marvell_cap_exist = False\<rparr>"

definition ex_ht_dev :: ht_dev where
  "ex_ht_dev = \<lparr>hti = ex_ht_info, cur_net = ex_ht_net, ht_mode = IEEE_N_24G, halfN = False, may_beacon = False, key_NA = False,
     ap_sec_type = 4, bSupportRemoteWakeUp = False, RegHTSuppRateSet = [0xff, 0xff, 0, 0, 1] @ replicate 11 0,
     Regdot11HTOperationalRateSet = [0xff, 0xff, 0, 0, 1] @ replicate 11 0,
     Regdot11TxHTOperationalRateSet = [0xff, 0xff, 0, 0, 1] @ replicate 11 0, dot11HTOperationalRateSet = replicate 16 0,
     HTHighestOperaRate = 0, HTCurrentOperaRate = 0, bTxDisableRateFallBack = False, bTxUseDriverAssingedRate = False,
     bTxEnableFwCalcDur = True, radio_ops = []\<rparr>"

lemma ex_ht_dev_wf: "ht_inv ex_ht_dev"
proof -
  have "\<not> mcs_in (replicate 16 0) k" for k by (rule mcs_in_none) simp
  then show ?thesis by (simp add: ht_inv_def ht_wf_def ht_info_wf_def ex_ht_dev_def ex_ht_info_def)
qed

lemma ex_ht_net_wf: "ht_net_wf ex_ht_net"
  by (simp add: ht_net_wf_def ex_ht_net_def)

lemma HTGetHighestMCSRate_best_witness:
  "\<exists>m. HTGetHighestMCSRate ex_ht_dev ([0xff, 0xf0] @ replicate 14 0) MCS_FILTER_ALL = Some (of_nat m OR 0x80) \<and>
     mcs_in ([0xff, 0xf0] @ replicate 14 0) m"
proof -
  have "mcs_in MCS_FILTER_ALL k \<Longrightarrow> k < 77" for k by (rule filter_in(2))
  moreover have "mcs_in ([0xff, 0xf0] @ replicate 14 0) 0" "mcs_in MCS_FILTER_ALL 0" by code_simp+
  ultimately show ?thesis
    using HTGetHighestMCSRate_best[of "[0xff, 0xf0] @ replicate 14 0" MCS_FILTER_ALL 0 ex_ht_dev] by auto
qed



lemma ht_capability_delivered_witness:
  "\<exists>buf. HTConstructCapabilityElement ex_ht_dev (SelfHTCap (hti ex_ht_dev)) 26 True = Some (buf, 28) \<and>
     HTConstructCapabilityElement (ex_ht_dev\<lparr>hti := ex_ht_info\<lparr>ePeerHTSpecVer := HT_SPEC_VER_EWC\<rparr>\<rparr>) (SelfHTCap ex_ht_info) 26 True = None"
proof -
  let ?e = "ex_ht_dev\<lparr>hti := ex_ht_info\<lparr>ePeerHTSpecVer := HT_SPEC_VER_EWC\<rparr>\<rparr>"
  have w: "ht_wf ex_ht_dev" "length (PeerHTCapBuf (hti ex_ht_dev)) = 32" "ePeerHTSpecVer (hti ex_ht_dev) = HT_SPEC_VER_IEEE"
    using ex_ht_dev_wf by (simp_all add: ht_inv_def ht_wf_def ht_info_wf_def)
  have "hti ex_ht_dev = ex_ht_info" by (simp add: ex_ht_dev_def)
  with w(1) have "ht_wf ?e" by (simp add: ht_wf_def ht_info_wf_def)
  from ht_capability_delivered[OF this w(2), of True] ht_capability_delivered[OF w(1,2), of True] w(3)
  show ?thesis by auto
qed

lemma mcs_table_misses_a_rate_witness: "HTMcsToDataRate ex_ht_dev 19 = Some 234"
  using mcs_table_misses_a_rate[of "upd_ht (\<lambda>h. h\<lparr>bCurBW40MHz := True\<rparr>) ex_ht_dev" ex_ht_dev]
  by (simp add: ex_ht_dev_def ex_ht_info_def)

end
