(* ===== verification/Net_Data.thy ===== *)
theory Net_Data
  imports Tx_Data Dot11d HT_Assoc
begin

text \<open>
  The description of a network, \<open>struct rtllib_network\<close> of src/src/rtllib.h, the part of the
  device that scanning and association use, and the copies into the fixed arrays of the
  description. A copy that does not fit its array and a read beyond the memory of a frame are
  faults, the value None.
\<close>

section \<open>Networks\<close>

record rtllib_qos_data =
  cw_min :: "u16 list"
  cw_max :: "u16 list"
  aifs :: "u8 list"
  qos_flag :: "u8 list"
  tx_op_limit :: "u16 list"
  qos_wmm_acm :: u32
  qos_active :: bool
  qos_support :: bool
  param_count :: u8
  old_param_count :: u8

record rtllib_network = ht_net +
  ssid :: "u8 list"
  ssid_len :: u8
  hidden_ssid :: "u8 list"
  hidden_ssid_len :: u8
  qos_data :: rtllib_qos_data
  bWithAironetIE :: bool
  bCkipSupported :: bool
  bCcxRmEnable :: bool
  CcxRmState :: "u16 list"
  bMBssidValid :: bool
  MBssidMask :: u8
  MBssid :: mac
  bWithCcxVerNum :: bool
  BssCcxVerNumber :: u8
  net_signal :: u8
  net_noise :: u8
  net_capability :: u16
  rates :: "u8 list"
  rates_len :: u8
  rates_ex :: "u8 list"
  rates_ex_len :: u8
  last_scanned :: u64
  net_mode :: u8
  net_flags :: u32
  last_associate :: u32
  time_stamp :: "u32 list"
  beacon_interval :: u16
  listen_interval :: u16
  atim_window :: u16
  erp_value :: u8
  wpa_ie :: "u8 list"
  wpa_ie_len :: nat
  rsn_ie :: "u8 list"
  rsn_ie_len :: nat
  wzc_ie :: "u8 list"
  wzc_ie_len :: nat
  tim_count :: u8
  tim_period :: u8
  dtim_period :: u8
  dtim_data :: u8
  last_dtim_sta_time :: "u32 list"
  wmm_info :: u8
  wmm_param :: "u8 list"
  QoS_Enable :: bool
  Turbo_Enable :: bool
  net_CountryIeLen :: u16
  net_CountryIeBuf :: "u8 list"
  realtek_cap_exit :: bool
  unknown_cap_exist :: bool
  berp_info_valid :: bool
  buseprotection :: bool
  SignalStrength :: u8
  RSSI :: u8

definition qos_zero :: rtllib_qos_data where
  "qos_zero = \<lparr>cw_min = replicate 4 0, cw_max = replicate 4 0, aifs = replicate 4 0, qos_flag = replicate 4 0,
     tx_op_limit = replicate 4 0, qos_wmm_acm = 0, qos_active = False, qos_support = False, param_count = 0, old_param_count = 0\<rparr>"

definition bssht_zero :: bss_ht where
  "bssht_zero = \<lparr>bdSupportHT = False, bdHTCapBuf = replicate 32 0, bdHTCapLen = 0, bdHTInfoBuf = replicate 32 0, bdHTInfoLen = 0,
     bdHTSpecVer = HT_SPEC_VER_IEEE, bdBandWidth = HT_CHANNEL_WIDTH_20, bdRT2RTAggregation = False,
     bdRT2RTLongSlotTime = False, bd_RT2RT_HT_Mode = 0, bdHT1R = False\<rparr>"

text \<open>What \<open>kzalloc\<close> returns for a network.\<close>

definition net_zero :: rtllib_network where
  "net_zero = \<lparr>ht_bssid = replicate 6 0, ht_channel = 0, bssht = bssht_zero, ralink_cap_exist = False, broadcom_cap_exist = False,
     atheros_cap_exist = False, cisco_cap_exist = False, marvell_cap_exist = False,
     ssid = replicate 33 0, ssid_len = 0, hidden_ssid = replicate 33 0, hidden_ssid_len = 0, qos_data = qos_zero,
     bWithAironetIE = False, bCkipSupported = False, bCcxRmEnable = False, CcxRmState = [0, 0], bMBssidValid = False, MBssidMask = 0,
     MBssid = replicate 6 0, bWithCcxVerNum = False, BssCcxVerNumber = 0, net_signal = 0, net_noise = 0, net_capability = 0,
     rates = replicate 12 0, rates_len = 0, rates_ex = replicate 16 0, rates_ex_len = 0, last_scanned = 0, net_mode = 0,
     net_flags = 0, last_associate = 0, time_stamp = [0, 0], beacon_interval = 0, listen_interval = 0, atim_window = 0,
     erp_value = 0, wpa_ie = replicate 64 0, wpa_ie_len = 0, rsn_ie = replicate 64 0, rsn_ie_len = 0, wzc_ie = replicate 256 0,
     wzc_ie_len = 0, tim_count = 0, tim_period = 0, dtim_period = 0, dtim_data = 0, last_dtim_sta_time = [0, 0], wmm_info = 0,
     wmm_param = replicate 16 0, QoS_Enable = False, Turbo_Enable = False, net_CountryIeLen = 0, net_CountryIeBuf = replicate 255 0,
     realtek_cap_exit = False, unknown_cap_exist = False, berp_info_valid = False, buseprotection = False,
     SignalStrength = 0, RSSI = 0\<rparr>"

definition NETWORK_EMPTY_ESSID :: u32 where "NETWORK_EMPTY_ESSID = 1"
definition NETWORK_HAS_OFDM :: u32 where "NETWORK_HAS_OFDM = 2"
definition NETWORK_HAS_CCK :: u32 where "NETWORK_HAS_CCK = 4"
definition NETWORK_HAS_QOS_PARAMETERS :: u32 where "NETWORK_HAS_QOS_PARAMETERS = 8"
definition NETWORK_HAS_QOS_INFORMATION :: u32 where "NETWORK_HAS_QOS_INFORMATION = 16"
definition NETWORK_HAS_ERP_VALUE :: u32 where "NETWORK_HAS_ERP_VALUE = 1024"

definition WLAN_CAPABILITY_ESS :: u16 where "WLAN_CAPABILITY_ESS = 1"
definition WLAN_CAPABILITY_IBSS :: u16 where "WLAN_CAPABILITY_IBSS = 2"

definition rtllib_is_ofdm_rate :: "u8 \<Rightarrow> bool" where
  "rtllib_is_ofdm_rate rate \<longleftrightarrow> rate AND NOT 0x80 \<in> {0x0c, 0x12, 0x18, 0x24, 0x30, 0x48, 0x60, 0x6c}"

definition rtllib_is_empty_essid :: "u8 list \<Rightarrow> bool" where
  "rtllib_is_empty_essid essid \<longleftrightarrow> length essid = 1 \<and> essid ! 0 = 0x20 \<or> (\<forall>b \<in> set essid. b = 0)"

text \<open>Copying the first \<open>n\<close> bytes of one array over another.\<close>

definition memcpy_arr :: "nat \<Rightarrow> 'b list \<Rightarrow> 'b list \<Rightarrow> 'b list option" where
  "memcpy_arr n src dst = (if n \<le> length src \<and> n \<le> length dst then Some (take n src @ drop n dst) else None)"

section \<open>The device\<close>

datatype rtllib_state =
  RTLLIB_NOLINK | RTLLIB_ASSOCIATING | RTLLIB_ASSOCIATING_RETRY | RTLLIB_ASSOCIATING_AUTHENTICATING
| RTLLIB_ASSOCIATING_AUTHENTICATED | RTLLIB_LINKED | RTLLIB_LINKED_SCANNING

text \<open>The order of the enumeration, which the code compares by.\<close>

definition state_index :: "rtllib_state \<Rightarrow> nat" where
  "state_index s = (case s of RTLLIB_NOLINK \<Rightarrow> 0 | RTLLIB_ASSOCIATING \<Rightarrow> 1 | RTLLIB_ASSOCIATING_RETRY \<Rightarrow> 2
     | RTLLIB_ASSOCIATING_AUTHENTICATING \<Rightarrow> 3 | RTLLIB_ASSOCIATING_AUTHENTICATED \<Rightarrow> 4 | RTLLIB_LINKED \<Rightarrow> 5 | RTLLIB_LINKED_SCANNING \<Rightarrow> 6)"

text \<open>
  Registers of the chip that these parts write, and what is done to the hardware, in order.
\<close>

datatype hw_reg =
  BSSIDR | BSSIDR_4 | ATIMWND | BCN_DMATIME | BCN_INTERVAL | BCN_DRV_EARLY_INT | BCN_ERR_THRESH | BCN_TCFG
| RRSR | SLOT_TIME | EDCAPARA_BE | EDCAPARA_BK | EDCAPARA_VI | EDCAPARA_VO | RATR0 | UFWP | MSR | RCR | SECR | REG_173

datatype hw_event = SetReg hw_reg u32 | SetChannel int

record mlme_stats =
  no_auth_rs :: u32
  no_ass_rs :: u32
  tx_auth_rq :: u32
  tx_ass_rq :: u32
  rx_ass_ok :: u32
  rx_ass_err :: u32
  rx_auth_rs_ok :: u32
  rx_auth_rs_err :: u32
  rx_probe_rq :: u32
  tx_probe_rs :: u32
  tx_probe_rq :: u32
  rx_auth_rq :: u32
  rx_ass_rq :: u32
  reassoc :: u32
  tx_beacons :: u32

text \<open>
  The device as scanning and association see it. The network in \<open>m_ht\<close> is not used: the
  operations of the high throughput component are run on the view of \<open>current_network\<close>.
  The fields \<open>wq_\<dots>\<close> say whether a work item is queued and \<open>assoc_timer\<close> whether the
  association timer is pending. \<open>alloc_ok\<close> is the answer to the allocations of a handler,
  \<open>uninit\<close> the content of the memory that an allocation returns, and \<open>mgmt_sent\<close> are the
  management frames handed to \<open>softmac_mgmt_xmit\<close>.
\<close>

record mlme =
  m_ht :: ht_dev
  m_d11 :: dot11d_dev
  m_tsd :: ts_dev
  current_network :: rtllib_network
  network_list :: "rtllib_network list"
  network_free :: nat
  m_state :: rtllib_state
  m_iw_mode :: iw_mode
  wap_set :: bool
  ssid_set :: bool
  feat_associate :: bool
  feat_scan :: bool
  feat_proberq :: bool
  feat_probers :: bool
  feat_beacons :: bool
  feat_tx_queue :: bool
  active_scan :: bool
  scan_age :: u64
  m_jiffies :: u64
  m_assoc_id :: u16
  m_aggregation :: bool
  m_qos_support :: bool
  m_wmm_acm :: u32
  m_rate :: nat
  ofdm_modulation :: bool
  cck_modulation :: bool
  chip :: rf_chip
  one_tx :: bool
  NumRecvBcnInPeriod :: u32
  NumRecvDataInPeriod :: u32
  SlotNum :: u16
  bBusyTraffic :: bool
  LpsIdleCount :: u8
  m_open_wep :: bool
  auth_mode :: nat
  host_encrypt :: bool
  tx_crypt :: "bool option"
  m_wpa_ie :: "u8 list"
  wps_ie :: "u8 list"
  PMKIDList :: "(bool \<times> mac \<times> u8 list) list"
  bForcedBgMode :: bool
  short_slot :: bool
  pairwise_key_type :: u8
  hwwep :: bool
  hwsec_active :: bool
  beacon_seq :: u16
  proto_started :: bool
  proto_stoppping :: bool
  ieee_up :: bool
  rf_off :: bool
  m_scanning :: bool
  actscanning :: bool
  be_scan_inprogress :: bool
  scan_watch_dog :: u16
  sync_scan_hurryup :: bool
  wq_procedure :: bool
  wq_retry :: bool
  wq_start_ibss :: bool
  wq_link_change :: bool
  wq_scan :: bool
  wq_complete :: bool
  wq_beacon :: bool
  wq_qos :: bool
  assoc_timer :: bool
  beacon_timer :: bool
  associate_seq :: u16
  AsocRetryCount :: nat
  is_roaming :: bool
  is_set_key :: bool
  is_silent_reset :: bool
  raw_tx :: bool
  carrier :: bool
  beacon_txing :: bool
  m_sta_sleep :: bool
  ps_enabled :: bool
  ps_tasks :: nat
  last_rx_ps :: u64
  alloc_ok :: bool
  uninit :: "nat \<Rightarrow> u8"
  m_stats :: mlme_stats
  mgmt_sent :: "skb list"
  assocreq_ies :: "u8 list"
  assocresp_ies :: "u8 list"
  ap_mac_addr :: mac
  wx_events :: nat
  basic_rate :: u32
  short_preamble :: bool
  m_slot_time :: u8
  reg_msr :: u8
  reg_rcr :: u32
  hw_log :: "hw_event list"

abbreviation hw :: "hw_event \<Rightarrow> mlme \<Rightarrow> mlme" where
  "hw e m \<equiv> m\<lparr>hw_log := hw_log m @ [e]\<rparr>"

abbreviation own_addr :: "mlme \<Rightarrow> mac" where
  "own_addr m \<equiv> dev_addr (m_tsd m)"

abbreviation upd_stats :: "(mlme_stats \<Rightarrow> mlme_stats) \<Rightarrow> mlme \<Rightarrow> mlme" where
  "upd_stats f m \<equiv> m\<lparr>m_stats := f (m_stats m)\<rparr>"

abbreviation upd_cur :: "(rtllib_network \<Rightarrow> rtllib_network) \<Rightarrow> mlme \<Rightarrow> mlme" where
  "upd_cur f m \<equiv> m\<lparr>current_network := f (current_network m)\<rparr>"

text \<open>Running an operation of the high throughput component on the device.\<close>

definition ht_view :: "mlme \<Rightarrow> ht_dev" where
  "ht_view m = (m_ht m)\<lparr>cur_net := ht_net.truncate (current_network m)\<rparr>"

abbreviation on_ht :: "(ht_dev \<Rightarrow> ht_dev) \<Rightarrow> mlme \<Rightarrow> mlme" where
  "on_ht f m \<equiv> m\<lparr>m_ht := f (ht_view m)\<rparr>"

end
