(* ===== verification/Net_Parse.thy ===== *)
theory Net_Parse
  imports Net_Data
begin

text \<open>
  The information elements of a management frame: \<open>rtllib_parse_info_param\<close> of
  src/src/rtllib_rx.c and the QoS elements below it. \<open>s\<close> is the received buffer and \<open>p\<close> the
  position of an element's data in it; the identifier and the length are the two bytes before.
\<close>

section \<open>Reading\<close>

definition rd32 :: "'a skb_scheme \<Rightarrow> nat \<Rightarrow> u32 option" where
  "rd32 s i = do { lo \<leftarrow> rd16 s i; hi \<leftarrow> rd16 s (i + 2); Some (ucast lo OR push_bit 16 (ucast hi)) }"

text \<open>Comparing bytes one after the other, as a conjunction of the code does.\<close>

fun bytes_are :: "'a skb_scheme \<Rightarrow> nat \<Rightarrow> u8 list \<Rightarrow> bool option" where
  "bytes_are s p [] = Some True"
| "bytes_are s p (b # bs) = do { x \<leftarrow> rd8 s p; if x = b then bytes_are s (Suc p) bs else Some False }"

definition vendor_ie :: "'a skb_scheme \<Rightarrow> nat \<Rightarrow> nat \<Rightarrow> u8 list \<Rightarrow> bool option" where
  "vendor_ie s p len bs = (if length bs \<le> len then bytes_are s p bs else Some False)"

section \<open>QoS elements\<close>

definition rtllib_verify_qos_info :: "u8 list \<Rightarrow> u8 \<Rightarrow> bool" where
  "rtllib_verify_qos_info b sub_type \<longleftrightarrow> b ! 4 = sub_type \<and> take 3 b = [0x00, 0x50, 0xF2] \<and> b ! 3 = 2 \<and> b ! 5 = 1"

definition rtllib_read_qos_info_element :: "'a skb_scheme \<Rightarrow> nat \<Rightarrow> nat \<Rightarrow> u8 list option option" where
  "rtllib_read_qos_info_element s p len =
     (if len = 7 then do { b \<leftarrow> rdn s p 7; Some (if rtllib_verify_qos_info b 0 then Some b else None) } else Some None)"

definition rtllib_read_qos_param_element :: "'a skb_scheme \<Rightarrow> nat \<Rightarrow> nat \<Rightarrow> u8 list option option" where
  "rtllib_read_qos_param_element s p len =
     (if len = 24 then do { b \<leftarrow> rdn s p 24; Some (if rtllib_verify_qos_info b 1 then Some b else None) } else Some None)"

text \<open>One record of four bytes for an access category.\<close>

definition convert_ac :: "u8 list \<Rightarrow> rtllib_qos_data \<Rightarrow> rtllib_qos_data" where
  "convert_ac r q =
     (let aci = unat (drop_bit 5 (r ! 0 AND 0x60)); acm = r ! 0 AND 0x10 \<noteq> 0; n = r ! 0 AND 0x0f
      in q\<lparr>qos_wmm_acm := (if acm then qos_wmm_acm q OR [0x06, 0x09, 0x30, 0xc0] ! aci else qos_wmm_acm q),
           aifs := (aifs q)[aci := if n < 2 then 2 else n],
           cw_min := (cw_min q)[aci := ucast (r ! 1 AND 0x0F)],
           cw_max := (cw_max q)[aci := ucast (drop_bit 4 (r ! 1 AND 0xF0))],
           qos_flag := (qos_flag q)[aci := if acm then 1 else 0],
           tx_op_limit := (tx_op_limit q)[aci := le16 (r ! 2) (r ! 3)]\<rparr>)"

definition rtllib_qos_convert_ac_to_parameters :: "u8 list \<Rightarrow> rtllib_qos_data \<Rightarrow> rtllib_qos_data" where
  "rtllib_qos_convert_ac_to_parameters b q =
     fold (\<lambda>i. convert_ac (take 4 (drop (8 + 4 * i) b))) [0..<4] (q\<lparr>qos_wmm_acm := 0\<rparr>)"

text \<open>The Boolean is True where the function returns 0.\<close>

definition rtllib_parse_qos_info_param_IE ::
  "'a skb_scheme \<Rightarrow> nat \<Rightarrow> nat \<Rightarrow> rtllib_network \<Rightarrow> (bool \<times> rtllib_network) option" where
  "rtllib_parse_qos_info_param_IE s p len net = do {
     i \<leftarrow> rtllib_read_qos_info_element s p len;
     case i of
       Some b \<Rightarrow> Some (True, net\<lparr>net_flags := net_flags net OR NETWORK_HAS_QOS_INFORMATION,
                   qos_data := (qos_data net)\<lparr>param_count := b ! 6 AND 0x0F, qos_support := True\<rparr>\<rparr>)
     | None \<Rightarrow> do {
         q \<leftarrow> rtllib_read_qos_param_element s p len;
         case q of
           Some b \<Rightarrow> Some (True, net\<lparr>net_flags := net_flags net OR NETWORK_HAS_QOS_PARAMETERS,
                       qos_data := (rtllib_qos_convert_ac_to_parameters b (qos_data net))
                          \<lparr>param_count := b ! 6 AND 0x0F, qos_support := True\<rparr>\<rparr>)
         | None \<Rightarrow> Some (False, net) } }"

section \<open>The elements\<close>

text \<open>
  What the parser reads of the device, and its state: the network, the regulatory domain and
  the local variables, of which the buffer for the aggregation element starts with whatever is
  on the stack.
\<close>

record parse_env =
  pe_linked :: bool
  pe_assoc_id :: u16
  pe_aggregation :: bool
  pe_jiffies :: u64
  pe_mac_time1 :: u32

record parse_st =
  ps_d11 :: dot11d_dev
  ps_net :: rtllib_network
  tmp_htcap_len :: u16
  tmp_htinfo_len :: u16
  ht_realtek_agg_len :: u16
  ht_realtek_agg_buf :: "u8 list"

abbreviation upd_net :: "(rtllib_network \<Rightarrow> rtllib_network) \<Rightarrow> parse_st \<Rightarrow> parse_st" where
  "upd_net f st \<equiv> st\<lparr>ps_net := f (ps_net st)\<rparr>"

abbreviation upd_bss :: "(bss_ht \<Rightarrow> bss_ht) \<Rightarrow> parse_st \<Rightarrow> parse_st" where
  "upd_bss f st \<equiv> upd_net (\<lambda>n. n\<lparr>bssht := f (bssht n)\<rparr>) st"

definition ie_ssid :: "'a skb_scheme \<Rightarrow> nat \<Rightarrow> nat \<Rightarrow> parse_st \<Rightarrow> parse_st option" where
  "ie_ssid s p len st = do {
     b \<leftarrow> rdn s p len;
     let net = ps_net st;
     if rtllib_is_empty_essid b then Some (upd_net (\<lambda>n. n\<lparr>net_flags := net_flags n OR NETWORK_EMPTY_ESSID\<rparr>) st)
     else do {
       let n = min len 32;
       a \<leftarrow> memcpy_arr n b (ssid net);
       a' \<leftarrow> (if n < 32 then buf_write n (replicate (32 - n) 0) a else Some a);
       Some (upd_net (\<lambda>m. m\<lparr>ssid_len := of_nat n, ssid := a'\<rparr>) st) } }"

definition rate_flags :: "bool \<Rightarrow> u8 \<Rightarrow> u32 \<Rightarrow> u32" where
  "rate_flags cck r f =
     (let f1 = (if rtllib_is_ofdm_rate r then
                  (if r AND 0x80 \<noteq> 0 then (f OR NETWORK_HAS_OFDM) AND NOT NETWORK_HAS_CCK else f OR NETWORK_HAS_OFDM) else f)
      in if cck \<and> rtllib_is_cck_rate r then f1 OR NETWORK_HAS_CCK else f1)"

definition ie_rates :: "'a skb_scheme \<Rightarrow> nat \<Rightarrow> nat \<Rightarrow> parse_st \<Rightarrow> parse_st option" where
  "ie_rates s p len st = do {
     let n = min len 12;
     b \<leftarrow> rdn s p n;
     a \<leftarrow> buf_write 0 b (rates (ps_net st));
     Some (upd_net (\<lambda>m. m\<lparr>rates_len := of_nat n, rates := a, net_flags := fold (rate_flags True) b (net_flags m)\<rparr>) st) }"

definition ie_rates_ex :: "'a skb_scheme \<Rightarrow> nat \<Rightarrow> nat \<Rightarrow> parse_st \<Rightarrow> parse_st option" where
  "ie_rates_ex s p len st = do {
     let n = min len 16;
     b \<leftarrow> rdn s p n;
     a \<leftarrow> buf_write 0 b (rates_ex (ps_net st));
     Some (upd_net (\<lambda>m. m\<lparr>rates_ex_len := of_nat n, rates_ex := a, net_flags := fold (rate_flags False) b (net_flags m)\<rparr>) st) }"

definition ie_tim :: "parse_env \<Rightarrow> 'a skb_scheme \<Rightarrow> nat \<Rightarrow> nat \<Rightarrow> parse_st \<Rightarrow> parse_st option" where
  "ie_tim e s p len st =
     (if len < 4 then Some st else do {
        d0 \<leftarrow> rd8 s p;
        d1 \<leftarrow> rd8 s (p + 1);
        let st1 = upd_net (\<lambda>m. m\<lparr>tim_count := d0, tim_period := d1, dtim_period := d1\<rparr>) st;
        if \<not> pe_linked e then Some st1 else do {
          d2 \<leftarrow> rd8 s (p + 2);
          let dt = (if d2 AND 1 \<noteq> 0 then 1 OR 4 else 1);
          let st2 = upd_net (\<lambda>m. m\<lparr>last_dtim_sta_time := [ucast (pe_jiffies e), pe_mac_time1 e], dtim_data := dt\<rparr>) st1;
          let off = unat (drop_bit 1 d2) * 2;
          let aid = unat (pe_assoc_id e);
          if aid < 8 * off \<or> 8 * (off + len - 3) < aid then Some st2 else do {
            b \<leftarrow> rd8 s (p + 3 + (aid div 8 - off));
            let dt' = (if bit b (aid mod 8) then dt OR 2 else dt);
            Some (upd_net (\<lambda>m. m\<lparr>dtim_data := dt', listen_interval := ucast (dtim_period m)\<rparr>) st2) } } })"

definition ht_cap_copy :: "'a skb_scheme \<Rightarrow> nat \<Rightarrow> nat \<Rightarrow> bss_ht \<Rightarrow> bss_ht option" where
  "ht_cap_copy s p len b = do {
     let n = min len 32;
     x \<leftarrow> rdn s p n;
     a \<leftarrow> buf_write 0 x (bdHTCapBuf b);
     Some (b\<lparr>bdHTSpecVer := HT_SPEC_VER_EWC, bdHTCapLen := of_nat n, bdHTCapBuf := a\<rparr>) }"

definition ht_info_copy :: "ht_spec_ver \<Rightarrow> 'a skb_scheme \<Rightarrow> nat \<Rightarrow> nat \<Rightarrow> bss_ht \<Rightarrow> bss_ht option" where
  "ht_info_copy v s p len b = do {
     let n = min len 32;
     x \<leftarrow> rdn s p n;
     a \<leftarrow> buf_write 0 x (bdHTInfoBuf b);
     Some (b\<lparr>bdHTSpecVer := v, bdHTInfoLen := of_nat n, bdHTInfoBuf := a\<rparr>) }"

definition ie_ht_cap :: "'a skb_scheme \<Rightarrow> nat \<Rightarrow> nat \<Rightarrow> parse_st \<Rightarrow> parse_st option" where
  "ie_ht_cap s p len st =
     (let st0 = st\<lparr>tmp_htcap_len := of_nat len\<rparr> in
      if len \<noteq> 0 then do {
        b \<leftarrow> ht_cap_copy s p len (bssht (ps_net st0));
        let c = cap_get (bdHTCapBuf b);
        Some (upd_bss (\<lambda>_. b\<lparr>bdSupportHT := True, bdHT1R := MCS c ! 1 = 0,
                bdBandWidth := (if ChlWidth c = 1 then HT_CHANNEL_WIDTH_20_40 else HT_CHANNEL_WIDTH_20)\<rparr>) st0) }
      else Some (upd_bss (\<lambda>b. b\<lparr>bdSupportHT := False, bdHT1R := False, bdBandWidth := HT_CHANNEL_WIDTH_20\<rparr>) st0))"

definition ie_ht_info :: "'a skb_scheme \<Rightarrow> nat \<Rightarrow> nat \<Rightarrow> parse_st \<Rightarrow> parse_st option" where
  "ie_ht_info s p len st =
     (let st0 = st\<lparr>tmp_htinfo_len := of_nat len\<rparr> in
      if len \<noteq> 0 then do {
        b \<leftarrow> ht_info_copy HT_SPEC_VER_IEEE s p len (bssht (ps_net st0));
        Some (upd_bss (\<lambda>_. b) st0) }
      else Some st0)"

text \<open>The vendor elements, one step per test of the code.\<close>

definition gen_ht_cap :: "'a skb_scheme \<Rightarrow> nat \<Rightarrow> nat \<Rightarrow> parse_st \<Rightarrow> parse_st option" where
  "gen_ht_cap s p len st =
     (if tmp_htcap_len st \<noteq> 0 then Some st else do {
        v \<leftarrow> vendor_ie s p len [0x00, 0x90, 0x4c, 0x33];
        if v then do {
          b \<leftarrow> ht_cap_copy s p len (bssht (ps_net st));
          Some (upd_bss (\<lambda>_. b\<lparr>bdSupportHT := True, bdHT1R := MCS (cap_get (bdHTCapBuf b)) ! 1 = 0\<rparr>)
                 (st\<lparr>tmp_htcap_len := of_nat len\<rparr>)) }
        else Some (upd_bss (\<lambda>b. b\<lparr>bdSupportHT := False, bdHT1R := False\<rparr>) st) })"

definition gen_ht_info :: "'a skb_scheme \<Rightarrow> nat \<Rightarrow> nat \<Rightarrow> parse_st \<Rightarrow> parse_st option" where
  "gen_ht_info s p len st =
     (if tmp_htinfo_len st \<noteq> 0 then Some st else do {
        v \<leftarrow> vendor_ie s p len [0x00, 0x90, 0x4c, 0x34];
        if v then do {
          b \<leftarrow> ht_info_copy HT_SPEC_VER_EWC s p len (bssht (ps_net st));
          Some (upd_bss (\<lambda>_. b) (st\<lparr>tmp_htinfo_len := of_nat len\<rparr>)) }
        else Some st })"

definition gen_realtek :: "parse_env \<Rightarrow> 'a skb_scheme \<Rightarrow> nat \<Rightarrow> nat \<Rightarrow> parse_st \<Rightarrow> parse_st option" where
  "gen_realtek e s p len st =
     (if \<not> pe_aggregation e then Some st else do {
        st1 \<leftarrow> (if bdSupportHT (bssht (ps_net st)) then do {
            v \<leftarrow> vendor_ie s p len [0x00, 0xe0, 0x4c, 0x02];
            st0 \<leftarrow> (if v then do { b \<leftarrow> rdn s p len; a \<leftarrow> buf_write 0 b (ht_realtek_agg_buf st);
                       Some (st\<lparr>ht_realtek_agg_len := of_nat len, ht_realtek_agg_buf := a\<rparr>) } else Some st);
            let b4 = ht_realtek_agg_buf st0 ! 4;
            let b5 = ht_realtek_agg_buf st0 ! 5;
            Some (if 5 \<le> ht_realtek_agg_len st0 then
                upd_net (\<lambda>n. n\<lparr>realtek_cap_exit := True, bssht := (bssht n)\<lparr>bdRT2RTAggregation := True,
                  bdRT2RTLongSlotTime := bdRT2RTLongSlotTime (bssht n) \<or> b4 = 1 \<and> b5 AND 0x02 \<noteq> 0,
                  bd_RT2RT_HT_Mode := (if b4 = 1 \<and> b5 AND RT_HT_CAP_USE_92SE \<noteq> 0
                     then bd_RT2RT_HT_Mode (bssht n) OR RT_HT_CAP_USE_92SE else bd_RT2RT_HT_Mode (bssht n))\<rparr>\<rparr>) st0
              else st0) }
          else Some st);
        Some (if 5 \<le> ht_realtek_agg_len st1 \<and> ht_realtek_agg_buf st1 ! 5 AND RT_HT_CAP_USE_SOFTAP \<noteq> 0
          then upd_bss (\<lambda>b. b\<lparr>bd_RT2RT_HT_Mode := bd_RT2RT_HT_Mode b OR RT_HT_CAP_USE_SOFTAP\<rparr>) st1 else st1) })"

definition gen_vendors :: "'a skb_scheme \<Rightarrow> nat \<Rightarrow> nat \<Rightarrow> parse_st \<Rightarrow> parse_st option" where
  "gen_vendors s p len st = do {
     b1 \<leftarrow> vendor_ie s p len [0x00, 0x05, 0xb5];
     b2 \<leftarrow> vendor_ie s p len [0x00, 0x0a, 0xf7];
     b3 \<leftarrow> vendor_ie s p len [0x00, 0x10, 0x18];
     r \<leftarrow> vendor_ie s p len [0x00, 0x0c, 0x43];
     a1 \<leftarrow> vendor_ie s p len [0x00, 0x03, 0x7f];
     a2 \<leftarrow> vendor_ie s p len [0x00, 0x13, 0x74];
     m \<leftarrow> vendor_ie s p len [0x00, 0x50, 0x43];
     c \<leftarrow> vendor_ie s p len [0x00, 0x40, 0x96];
     Some (upd_net (\<lambda>n. n\<lparr>broadcom_cap_exist := broadcom_cap_exist n \<or> b1 \<or> b2 \<or> b3,
        ralink_cap_exist := ralink_cap_exist n \<or> r, atheros_cap_exist := atheros_cap_exist n \<or> a1 \<or> a2,
        marvell_cap_exist := marvell_cap_exist n \<or> m, cisco_cap_exist := cisco_cap_exist n \<or> c\<rparr>) st) }"

text \<open>
  The radio measurement state is copied from \<open>info_element[4]\<close>, which is eight bytes behind
  the start of the element, into the first of two 16-bit values.
\<close>

definition gen_ccx_rm :: "'a skb_scheme \<Rightarrow> nat \<Rightarrow> nat \<Rightarrow> parse_st \<Rightarrow> parse_st option" where
  "gen_ccx_rm s p len st = do {
     v \<leftarrow> (if 4 < len then vendor_ie s p len [0x00, 0x40, 0x96, 0x01] else Some False);
     if \<not> v then Some st
     else if len = 6 then do {
       x \<leftarrow> rd16 s (p + 6);
       let n = ps_net st;
       let rm = (CcxRmState n)[0 := x];
       let mask = (ucast (rm ! 1) :: u8) AND 0x07;
       let n1 = n\<lparr>CcxRmState := rm, bCcxRmEnable := rm ! 0 \<noteq> 0, MBssidMask := mask\<rparr>;
       Some (upd_net (\<lambda>_. if mask \<noteq> 0 then
           (let mk = push_bit (unat mask) 0xff in n1\<lparr>bMBssidValid := True, MBssidMask := mk,
              MBssid := (ht_bssid n)[5 := ht_bssid n ! 5 AND mk]\<rparr>)
         else n1\<lparr>bMBssidValid := False\<rparr>) st) }
     else Some (upd_net (\<lambda>n. n\<lparr>bCcxRmEnable := False\<rparr>) st) }"

definition gen_ccx_ver :: "'a skb_scheme \<Rightarrow> nat \<Rightarrow> nat \<Rightarrow> parse_st \<Rightarrow> parse_st option" where
  "gen_ccx_ver s p len st = do {
     v \<leftarrow> (if 4 < len then vendor_ie s p len [0x00, 0x40, 0x96, 0x03] else Some False);
     if \<not> v then Some st
     else if len = 5 then do { x \<leftarrow> rd8 s (p + 4); Some (upd_net (\<lambda>n. n\<lparr>bWithCcxVerNum := True, BssCcxVerNumber := x\<rparr>) st) }
     else Some (upd_net (\<lambda>n. n\<lparr>bWithCcxVerNum := False, BssCcxVerNumber := 0\<rparr>) st) }"

definition gen_wzc :: "'a skb_scheme \<Rightarrow> nat \<Rightarrow> nat \<Rightarrow> parse_st \<Rightarrow> parse_st option" where
  "gen_wzc s p len st = do {
     v \<leftarrow> (if 4 < len then vendor_ie s p len [0x00, 0x50, 0xf2, 0x04] else Some False);
     if \<not> v then Some st else do {
       let n = min (len + 2) 256;
       b \<leftarrow> rdn s (p - 2) n;
       a \<leftarrow> buf_write 0 b (wzc_ie (ps_net st));
       Some (upd_net (\<lambda>m. m\<lparr>wzc_ie_len := n, wzc_ie := a\<rparr>) st) } }"

definition ie_generic :: "parse_env \<Rightarrow> 'a skb_scheme \<Rightarrow> nat \<Rightarrow> nat \<Rightarrow> parse_st \<Rightarrow> parse_st option" where
  "ie_generic e s p len st = do {
     (q, net) \<leftarrow> rtllib_parse_qos_info_param_IE s p len (ps_net st);
     if q then Some (st\<lparr>ps_net := net\<rparr>) else do {
       w \<leftarrow> vendor_ie s p len [0x00, 0x50, 0xf2, 0x01];
       if w then do {
         let n = min (len + 2) 64;
         b \<leftarrow> rdn s (p - 2) n;
         a \<leftarrow> buf_write 0 b (wpa_ie (ps_net st));
         Some (upd_net (\<lambda>m. m\<lparr>wpa_ie_len := n, wpa_ie := a\<rparr>) st) }
       else do {
         t \<leftarrow> (if len = 7 then vendor_ie s p len [0x00, 0xe0, 0x4c, 0x01, 0x02] else Some False);
         st1 \<leftarrow> gen_ht_cap s p len (if t then upd_net (\<lambda>m. m\<lparr>Turbo_Enable := True\<rparr>) st else st);
         st2 \<leftarrow> gen_ht_info s p len st1;
         st3 \<leftarrow> gen_realtek e s p len st2;
         st4 \<leftarrow> gen_vendors s p len st3;
         st5 \<leftarrow> gen_ccx_rm s p len st4;
         st6 \<leftarrow> gen_ccx_ver s p len st5;
         gen_wzc s p len st6 } } }"

definition ie_rsn :: "'a skb_scheme \<Rightarrow> nat \<Rightarrow> nat \<Rightarrow> parse_st \<Rightarrow> parse_st option" where
  "ie_rsn s p len st = do {
     let n = min (len + 2) 64;
     b \<leftarrow> rdn s (p - 2) n;
     a \<leftarrow> buf_write 0 b (rsn_ie (ps_net st));
     Some (upd_net (\<lambda>m. m\<lparr>rsn_ie_len := n, rsn_ie := a\<rparr>) st) }"

definition ie_aironet :: "'a skb_scheme \<Rightarrow> nat \<Rightarrow> nat \<Rightarrow> parse_st \<Rightarrow> parse_st option" where
  "ie_aironet s p len st =
     (if 8 < len then do {
        x \<leftarrow> rd8 s (p + 8);
        Some (upd_net (\<lambda>n. n\<lparr>bWithAironetIE := True, bCkipSupported := x AND 0x18 \<noteq> 0\<rparr>) st) }
      else Some (upd_net (\<lambda>n. n\<lparr>bWithAironetIE := False, bCkipSupported := False\<rparr>) st))"

definition ie_country :: "'a skb_scheme \<Rightarrow> nat \<Rightarrow> nat \<Rightarrow> parse_st \<Rightarrow> parse_st option" where
  "ie_country s p len st = do {
     (d, buf, n) \<leftarrow> rtllib_extract_country_ie (ps_d11 st) (of_nat len) (drop p (sk_mem s))
                      (net_CountryIeBuf (ps_net st), net_CountryIeLen (ps_net st)) (ht_bssid (ps_net st));
     Some ((upd_net (\<lambda>m. m\<lparr>net_CountryIeBuf := buf, net_CountryIeLen := n\<rparr>) st)\<lparr>ps_d11 := d\<rparr>) }"

definition parse_element :: "parse_env \<Rightarrow> 'a skb_scheme \<Rightarrow> nat \<Rightarrow> nat \<Rightarrow> u8 \<Rightarrow> parse_st \<Rightarrow> parse_st option" where
  "parse_element e s p len eid st =
     (if eid = 0 then ie_ssid s p len st
      else if eid = 1 then ie_rates s p len st
      else if eid = 50 then ie_rates_ex s p len st
      else if eid = 3 then do { x \<leftarrow> rd8 s p; Some (upd_net (\<lambda>n. n\<lparr>ht_channel := x\<rparr>) st) }
      else if eid = 5 then ie_tim e s p len st
      else if eid = 42 then do { x \<leftarrow> rd8 s p;
             Some (upd_net (\<lambda>n. n\<lparr>erp_value := x, net_flags := net_flags n OR NETWORK_HAS_ERP_VALUE\<rparr>) st) }
      else if eid = 6 then do { x \<leftarrow> rd8 s p; Some (upd_net (\<lambda>n. n\<lparr>atim_window := ucast x\<rparr>) st) }
      else if eid = 221 then ie_generic e s p len st
      else if eid = 48 then ie_rsn s p len st
      else if eid = 45 then ie_ht_cap s p len st
      else if eid = 61 then ie_ht_info s p len st
      else if eid = 133 then ie_aironet s p len st
      else if eid = 7 then ie_country s p len st
      else Some st)"

text \<open>
  The walk over the elements: \<open>p\<close> is the position of an element and \<open>left\<close> the bytes left.
  An element that is longer than what is left ends the walk.
\<close>

function parse_loop :: "parse_env \<Rightarrow> 'a skb_scheme \<Rightarrow> nat \<Rightarrow> nat \<Rightarrow> parse_st \<Rightarrow> parse_st option" where
  "parse_loop e s p left st =
     (if left < 2 then Some st else
      case (rd8 s p, rd8 s (Suc p)) of
        (Some eid, Some len) \<Rightarrow>
          if left < 2 + unat len then Some st
          else (case parse_element e s (p + 2) (unat len) eid st of
                  None \<Rightarrow> None
                | Some st' \<Rightarrow> parse_loop e s (p + 2 + unat len) (left - (2 + unat len)) st')
      | _ \<Rightarrow> None)"
  by pat_completeness auto
termination by (relation "measure (\<lambda>(e, s, p, left, st). left)") auto

declare parse_loop.simps [simp del]

definition rtllib_parse_info_param ::
  "parse_env \<Rightarrow> 'a skb_scheme \<Rightarrow> nat \<Rightarrow> u16 \<Rightarrow> u8 list \<Rightarrow> dot11d_dev \<Rightarrow> rtllib_network \<Rightarrow> (dot11d_dev \<times> rtllib_network) option" where
  "rtllib_parse_info_param e s p left stack d11 net = do {
     st \<leftarrow> parse_loop e s p (unat left)
            \<lparr>ps_d11 = d11, ps_net = net, tmp_htcap_len = 0, tmp_htinfo_len = 0, ht_realtek_agg_len = 0, ht_realtek_agg_buf = stack\<rparr>;
     let n = ps_net st;
     Some (ps_d11 st, n\<lparr>unknown_cap_exist := \<not> atheros_cap_exist n \<and> \<not> broadcom_cap_exist n \<and> \<not> cisco_cap_exist n \<and>
                \<not> ralink_cap_exist n \<and> \<not> bdRT2RTAggregation (bssht n)\<rparr>) }"

end
