(* ===== verification/Net_Hw.thy ===== *)
theory Net_Hw
  imports Net_Data
begin

text \<open>
  What the driver tells the chip about the link: the response rates, the rate table, the media
  status, the EDCA parameters and the hardware encryption of src/src/rtl_core.c,
  src/src/rtl8192e.c and src/src/rtl_cam.c, and the QoS part of a beacon of the access point.
\<close>

section \<open>Rates\<close>

definition rrsr_bit :: "u8 \<Rightarrow> u16 option" where
  "rrsr_bit r =
     map_of [(0x02, 0x001), (0x04, 0x002), (0x0b, 0x004), (0x16, 0x008), (0x0c, 0x010), (0x12, 0x020),
             (0x18, 0x040), (0x24, 0x080), (0x30, 0x100), (0x48, 0x200), (0x60, 0x400), (0x6c, 0x800)] (r AND 0x7f)"

definition add_rate :: "u8 \<Rightarrow> u16 \<Rightarrow> u16" where
  "add_rate r c = (case rrsr_bit r of Some b \<Rightarrow> c OR b | None \<Rightarrow> c)"

definition rtl8192_config_rate :: "rtllib_network \<Rightarrow> u16 \<Rightarrow> u16" where
  "rtl8192_config_rate net c =
     fold add_rate (take (unat (rates_ex_len net)) (rates_ex net)) (fold add_rate (take (unat (rates_len net)) (rates net)) c)"

definition ratr_mask :: "u32 \<Rightarrow> bool \<Rightarrow> u8 \<Rightarrow> u32" where
  "ratr_mask mode onetx mimo =
     (if mode = IEEE_A then 0xFF0
      else if mode = IEEE_B then 0xF
      else if mode = IEEE_G then 0xFF7
      else if mode = IEEE_N_24G \<or> mode = IEEE_N_5G then
        (if mimo = MIMO_PS_STATIC then 0x7F007 else if onetx then 0xFF007 else 0xF81F007)
      else 0xFFFFFFFF)"

definition rtl8192_update_ratr_table :: "mlme \<Rightarrow> mlme" where
  "rtl8192_update_ratr_table m =
     (let mcs = dot11HTOperationalRateSet (m_ht m); h = hti (m_ht m);
          v0 = ucast (rtl8192_config_rate (current_network m) 0) OR push_bit 12 (ucast (le16 (mcs ! 0) (mcs ! 1)));
          v1 = v0 AND ratr_mask (ht_mode (m_ht m)) (one_tx m) (PeerMimoPs h) AND 0x0FFFFFFF;
          v2 = (if bCurTxBW40MHz h \<and> bCurShortGI40MHz h \<or> \<not> bCurTxBW40MHz h \<and> bCurShortGI20MHz h then v1 OR 0x80000000 else v1)
      in hw (SetReg UFWP 1) (hw (SetReg RATR0 v2) m))"

section \<open>Link\<close>

definition rtl8192_net_update :: "mlme \<Rightarrow> mlme" where
  "rtl8192_net_update m =
     (let net = current_network m; a = ht_bssid net;
          m1 = m\<lparr>basic_rate := ucast (rtl8192_config_rate net 0 AND 0x15f)\<rparr>;
          m2 = hw (SetReg BSSIDR (ucast (le16 (a ! 0) (a ! 1)) OR push_bit 16 (ucast (le16 (a ! 2) (a ! 3))))) m1;
          m3 = hw (SetReg BSSIDR_4 (ucast (le16 (a ! 4) (a ! 5)))) m2
      in if m_iw_mode m = IW_MODE_ADHOC then
           hw (SetReg BCN_TCFG 0x60f) (hw (SetReg BCN_ERR_THRESH 100) (hw (SetReg BCN_DRV_EARLY_INT 10)
             (hw (SetReg BCN_INTERVAL (ucast (beacon_interval net))) (hw (SetReg BCN_DMATIME 256) (hw (SetReg ATIMWND 2) m3)))))
         else m3)"

definition rtl8192_update_msr :: "mlme \<Rightarrow> mlme" where
  "rtl8192_update_msr m =
     (let linked = (m_state m = RTLLIB_LINKED);
          bits = (case m_iw_mode m of IW_MODE_INFRA \<Rightarrow> if linked then 2 else 0 | IW_MODE_ADHOC \<Rightarrow> if linked then 1 else 0
                    | IW_MODE_MASTER \<Rightarrow> if linked then 3 else 0 | _ \<Rightarrow> 0);
          msr = (reg_msr m AND NOT 3) OR bits
      in hw (SetReg MSR (ucast msr)) (m\<lparr>reg_msr := msr\<rparr>))"

definition HT_IOT_ACT_PURE_N_MODE :: u32 where "HT_IOT_ACT_PURE_N_MODE = 0x100"

definition EnableHWSecurityConfig8192 :: "mlme \<Rightarrow> mlme" where
  "EnableHWSecurityConfig8192 m =
     (let wep = pairwise_key_type m \<in> {1, 5};
          s0 = (if wep \<and> auth_mode m \<noteq> 2 \<or> \<not> (wep \<and> auth_mode m \<noteq> 2) \<and> m_iw_mode m = IW_MODE_ADHOC \<and> pairwise_key_type m AND 6 \<noteq> 0
                then 0x0f else 0x0c :: u32);
          sw = (IOTAction (hti (m_ht m)) AND HT_IOT_ACT_PURE_N_MODE \<noteq> 0 \<or> \<not> hwwep m)
      in hw (SetReg SECR (if sw then s0 AND NOT 0x08 else s0)) (m\<lparr>hwsec_active := \<not> sw\<rparr>))"

definition RCR_CBSSID :: u32 where "RCR_CBSSID = push_bit 23 1"

definition rtl8192_link_change :: "mlme \<Rightarrow> mlme" where
  "rtl8192_link_change m =
     (let m1 = (if m_state m = RTLLIB_LINKED then
                  (let m1 = rtl8192_update_ratr_table (rtl8192_net_update m)
                   in if pairwise_key_type m1 \<in> {1, 5} then EnableHWSecurityConfig8192 m1 else m1)
                else hw (SetReg REG_173 0) m);
          m2 = rtl8192_update_msr m1
      in if m_iw_mode m = IW_MODE_INFRA \<or> m_iw_mode m = IW_MODE_ADHOC then
           (let r = (if m_state m = RTLLIB_LINKED then reg_rcr m2 OR RCR_CBSSID else reg_rcr m2 AND NOT RCR_CBSSID)
            in hw (SetReg RCR r) (m2\<lparr>reg_rcr := r\<rparr>))
         else m2)"

section \<open>Capabilities and QoS\<close>

definition rtl8192_update_cap :: "u16 \<Rightarrow> mlme \<Rightarrow> mlme" where
  "rtl8192_update_cap cap m =
     (let sp = (cap AND 0x20 \<noteq> 0);
          m1 = hw (SetReg RRSR (if sp then basic_rate m OR push_bit 23 1 else basic_rate m)) (m\<lparr>short_preamble := sp\<rparr>)
      in if net_mode (current_network m) AND ucast (IEEE_G OR IEEE_N_24G) \<noteq> 0 then
           (let st = (if cap AND 0x400 \<noteq> 0 \<and> \<not> bCurrentRT2RTLongSlotTime (hti (m_ht m)) then 9 else 20)
            in hw (SetReg SLOT_TIME (ucast st)) (m1\<lparr>m_slot_time := st\<rparr>))
         else m1)"

definition def_qos_parameters :: "rtllib_qos_data \<Rightarrow> rtllib_qos_data" where
  "def_qos_parameters q =
     q\<lparr>cw_min := replicate 4 3, cw_max := replicate 4 7, aifs := replicate 4 2, qos_flag := replicate 4 0, tx_op_limit := replicate 4 0\<rparr>"

definition rtl8192_update_beacon :: "mlme \<Rightarrow> mlme" where
  "rtl8192_update_beacon m =
     (let net = current_network m;
          m1 = (if bCurrentHTSupport (hti (m_ht m)) then on_ht (\<lambda>h. HTUpdateSelfAndPeerSetting h (ht_net.truncate net)) m else m);
          m2 = on_ht (upd_ht (\<lambda>h. h\<lparr>bCurrentRT2RTLongSlotTime := bdRT2RTLongSlotTime (bssht net),
                 RT2RT_HT_Mode := bd_RT2RT_HT_Mode (bssht net)\<rparr>)) m1
      in rtl8192_update_cap (net_capability net) (m2\<lparr>wq_beacon := False\<rparr>))"

definition qos_aifs :: "u8 \<Rightarrow> u8 \<Rightarrow> u8" where
  "qos_aifs mode a =
     a * (if mode AND ucast (IEEE_G OR IEEE_N_24G) \<noteq> 0 then 9 else 20)
     + (if mode \<in> {ucast IEEE_A, ucast IEEE_N_24G, ucast IEEE_N_5G} then 16 else 10)"

definition edca_param :: "u8 \<Rightarrow> rtllib_qos_data \<Rightarrow> nat \<Rightarrow> u32" where
  "edca_param mode q i =
     push_bit 16 (ucast (tx_op_limit q ! i)) OR push_bit 12 (ucast (cw_max q ! i)) OR push_bit 8 (ucast (cw_min q ! i))
     OR ucast (qos_aifs mode (aifs q ! i))"

definition rtl8192_qos_activate :: "mlme \<Rightarrow> mlme" where
  "rtl8192_qos_activate m =
     (let m0 = m\<lparr>wq_qos := False\<rparr>; net = current_network m in
      if m_state m \<noteq> RTLLIB_LINKED then m0
      else fold (\<lambda>(r, i). hw (SetReg r (edca_param (net_mode net) (qos_data net) i)))
             [(EDCAPARA_BE, 0), (EDCAPARA_BK, 1), (EDCAPARA_VI, 2), (EDCAPARA_VO, 3)] m0)"

definition rtl8192_qos_handle_probe_response :: "mlme \<Rightarrow> mlme" where
  "rtl8192_qos_handle_probe_response m =
     (let net = current_network m; q = qos_data net;
          set = (\<lambda>q m. m\<lparr>current_network := (current_network m)\<lparr>qos_data := q\<rparr>\<rparr>);
          params = (net_flags net AND NETWORK_HAS_QOS_PARAMETERS \<noteq> 0)
      in if m_state m \<noteq> RTLLIB_LINKED \<or> m_iw_mode m \<noteq> IW_MODE_INFRA then m
         else if net_flags net AND (NETWORK_HAS_QOS_PARAMETERS OR NETWORK_HAS_QOS_INFORMATION) \<noteq> 0 then
           (let q1 = (if params then q\<lparr>qos_active := qos_support q\<rparr> else q)
            in if qos_active q1 \<and> params \<and> old_param_count q1 \<noteq> param_count q1
               then set (q1\<lparr>old_param_count := param_count q1\<rparr>) (m\<lparr>m_wmm_acm := qos_wmm_acm q1, wq_qos := True\<rparr>)
               else set q1 m)
         else set ((def_qos_parameters q)\<lparr>qos_active := False, qos_support := False\<rparr>)
                (if qos_active q then m\<lparr>wq_qos := True\<rparr> else m))"

definition rtl8192_handle_beacon :: "mlme \<Rightarrow> mlme" where
  "rtl8192_handle_beacon m = (rtl8192_qos_handle_probe_response m)\<lparr>wq_beacon := True\<rparr>"

text \<open>The QoS part of an association response; \<open>net\<close> is what the response contains.\<close>

definition rtl8192_qos_association_resp :: "mlme \<Rightarrow> rtllib_network \<Rightarrow> mlme" where
  "rtl8192_qos_association_resp m net =
     (if m_state m \<noteq> RTLLIB_LINKED \<or> m_iw_mode m \<noteq> IW_MODE_INFRA then m
      else let q = qos_data (current_network m); nq = qos_data net in
        if net_flags net AND NETWORK_HAS_QOS_PARAMETERS \<noteq> 0 then
          m\<lparr>current_network := (current_network m)\<lparr>qos_data := q\<lparr>cw_min := cw_min nq, cw_max := cw_max nq, aifs := aifs nq,
               qos_flag := qos_flag nq, tx_op_limit := tx_op_limit nq, qos_active := True,
               old_param_count := param_count q, param_count := param_count nq\<rparr>\<rparr>,
             m_wmm_acm := qos_wmm_acm nq, wq_qos := True\<rparr>
        else m\<lparr>current_network := (current_network m)\<lparr>qos_data := (def_qos_parameters q)\<lparr>qos_active := False, qos_support := False\<rparr>\<rparr>,
               wq_qos := True\<rparr>)"

end
