(* ===== verification/Net_Scan.thy ===== *)
theory Net_Scan
  imports Net_Parse Net_Hw
begin

text \<open>
  What a beacon or probe response does: the description of its network, the comparison and
  the update of descriptions, the list of known networks, and the choice of a network to join,
  \<open>rtllib_softmac_new_net\<close> of src/src/rtllib_softmac.c.
\<close>

section \<open>Description of a network\<close>

text \<open>The statistics of a received frame that the description uses.\<close>

record rx_signal =
  stats_len :: u16
  band52 :: bool
  received_channel :: u8
  rx_strength :: u8
  mac_time1 :: u32

definition rtllib_SignalStrengthTranslate :: "u8 \<Rightarrow> u8" where
  "rtllib_SignalStrengthTranslate c =
     (if 71 \<le> c \<and> c \<le> 100 then 90 + (c - 70) div 3
      else if 41 \<le> c \<and> c \<le> 70 then 78 + (c - 40) div 3
      else if 31 \<le> c \<and> c \<le> 40 then 66 + (c - 30)
      else if 21 \<le> c \<and> c \<le> 30 then 54 + (c - 20)
      else if 5 \<le> c \<and> c \<le> 20 then 42 + (c - 5) * 2 div 3
      else if c = 4 then 36 else if c = 3 then 27 else if c = 2 then 18 else if c = 1 then 9 else c)"

definition rtllib_translate_todbm :: "u8 \<Rightarrow> int" where
  "rtllib_translate_todbm i = (uint i + 1) div 2 - 95"

definition parse_env_of :: "mlme \<Rightarrow> rx_signal \<Rightarrow> parse_env" where
  "parse_env_of m stats = \<lparr>pe_linked = (m_state m = RTLLIB_LINKED), pe_assoc_id = m_assoc_id m, pe_aggregation = m_aggregation m,
     pe_jiffies = m_jiffies m, pe_mac_time1 = mac_time1 stats\<rparr>"

text \<open>
  The fixed part of a beacon has 36 bytes; the length of the elements is computed in 16 bits.
  \<open>stack\<close> is the initial content of the parser's local buffer. The result is None for a
  fault, and the network is None when it is filtered out.
\<close>

definition init_fixed :: "mlme \<Rightarrow> skb \<Rightarrow> rx_signal \<Rightarrow> rtllib_network option" where
  "init_fixed m s stats = do {
     addr3 \<leftarrow> rdn s 16 6;
     t0 \<leftarrow> rd32 s 24;
     t1 \<leftarrow> rd32 s 28;
     bi \<leftarrow> rd16 s 32;
     cap \<leftarrow> rd16 s 34;
     let n = net_zero;
     Some (n\<lparr>qos_data := qos_zero, ht_bssid := addr3, net_capability := cap, last_scanned := m_jiffies m, time_stamp := [t0, t1],
       beacon_interval := bi, listen_interval := 0x0A, erp_value := (if cap AND WLAN_CAPABILITY_IBSS \<noteq> 0 then 3 else 0),
       SignalStrength := rx_strength stats, RSSI := rx_strength stats, bssht := HTInitializeBssDesc (bssht n),
       ht_channel := (if band52 stats then received_channel stats else ht_channel n),
       net_flags := (if band52 stats then 0 else NETWORK_HAS_CCK)\<rparr>) }"

definition init_mode :: "bool \<Rightarrow> rtllib_network \<Rightarrow> u8" where
  "init_mode b52 n =
     (let m = (if b52 then ucast IEEE_A
               else (if net_flags n AND NETWORK_HAS_OFDM \<noteq> 0 then ucast IEEE_G else 0)
                 OR (if net_flags n AND NETWORK_HAS_CCK \<noteq> 0 then ucast IEEE_B else 0))
      in if m \<noteq> 0 \<and> bdSupportHT (bssht n) then
           (if m = ucast IEEE_A then ucast IEEE_N_5G else if m AND ucast (IEEE_G OR IEEE_B) \<noteq> 0 then ucast IEEE_N_24G else m)
         else m)"

definition rtllib_network_init ::
  "mlme \<Rightarrow> skb \<Rightarrow> rx_signal \<Rightarrow> u8 list \<Rightarrow> (dot11d_dev \<times> rtllib_network option) option" where
  "rtllib_network_init m s stats stack = do {
     n0 \<leftarrow> init_fixed m s stats;
     (d, n1) \<leftarrow> rtllib_parse_info_param (parse_env_of m stats) s 36 (stats_len stats - 36) stack (m_d11 m) n0;
     let md = init_mode (band52 stats) n1;
     Some (if md = 0 then (d, None) else
       (let n2 = n1\<lparr>net_mode := md\<rparr>;
            n3 = (if rtllib_is_empty_essid (take (unat (ssid_len n2)) (ssid n2))
                  then n2\<lparr>net_flags := net_flags n2 OR NETWORK_EMPTY_ESSID\<rparr> else n2);
            sig = of_int (30 + uint (rx_strength stats) * 70 div 100)
        in (d, Some (n3\<lparr>net_signal := sig,
                        net_noise := of_int (rtllib_translate_todbm (of_int (100 - uint sig)) - 25)\<rparr>)))) }"

section \<open>Known networks\<close>

definition is_same_network :: "rtllib_network \<Rightarrow> rtllib_network \<Rightarrow> bool \<Rightarrow> bool" where
  "is_same_network src dst ssidbroad \<longleftrightarrow>
     (ssid_len src = ssid_len dst \<or> \<not> ssidbroad) \<and>
     ht_channel src = ht_channel dst \<and>
     take 6 (ht_bssid src) = take 6 (ht_bssid dst) \<and>
     (take (unat (ssid_len src)) (ssid src) = take (unat (ssid_len src)) (ssid dst) \<or> \<not> ssidbroad) \<and>
     net_capability src AND WLAN_CAPABILITY_IBSS = net_capability dst AND WLAN_CAPABILITY_IBSS \<and>
     net_capability src AND WLAN_CAPABILITY_ESS = net_capability dst AND WLAN_CAPABILITY_ESS"

definition update_bssht :: "bss_ht \<Rightarrow> bss_ht \<Rightarrow> bss_ht option" where
  "update_bssht dst src = do {
     c \<leftarrow> memcpy_arr (unat (bdHTCapLen src)) (bdHTCapBuf src) (bdHTCapBuf dst);
     i \<leftarrow> memcpy_arr (unat (bdHTInfoLen src)) (bdHTInfoBuf src) (bdHTInfoBuf dst);
     Some (dst\<lparr>bdSupportHT := bdSupportHT src, bdRT2RTAggregation := bdRT2RTAggregation src, bdHTCapLen := bdHTCapLen src,
       bdHTCapBuf := c, bdHTInfoLen := bdHTInfoLen src, bdHTInfoBuf := i, bdHTSpecVer := bdHTSpecVer src,
       bdRT2RTLongSlotTime := bdRT2RTLongSlotTime src\<rparr>) }"

definition update_ssid :: "rtllib_network \<Rightarrow> rtllib_network \<Rightarrow> rtllib_network option" where
  "update_ssid dst src =
     (if 0 < ssid_len src then
        (if ssid_len dst = 0 then do {
           h \<leftarrow> memcpy_arr (unat (ssid_len src)) (ssid src) (replicate (length (hidden_ssid dst)) 0);
           Some (dst\<lparr>hidden_ssid := h, hidden_ssid_len := ssid_len src\<rparr>) }
         else do {
           z \<leftarrow> buf_write 0 (replicate (unat (ssid_len dst)) 0) (ssid dst);
           a \<leftarrow> memcpy_arr (unat (ssid_len src)) (ssid src) z;
           Some (dst\<lparr>ssid := a, ssid_len := ssid_len src\<rparr>) })
      else Some dst)"

definition update_qos :: "rtllib_network \<Rightarrow> rtllib_network \<Rightarrow> rtllib_network" where
  "update_qos dst src =
     (let active = qos_active (qos_data dst); old = param_count (qos_data dst);
          q1 = (qos_data dst)\<lparr>qos_support := qos_support (qos_data src)\<rparr>;
          q2 = (if net_flags dst AND NETWORK_HAS_QOS_PARAMETERS \<noteq> 0 then qos_data src else q1)
      in dst\<lparr>QoS_Enable := QoS_Enable dst \<or> qos_support q2, qos_data := q2\<lparr>qos_active := active, old_param_count := old\<rparr>\<rparr>)"

text \<open>The update also marks the source when it has a value for the protection; both are returned.\<close>

definition update_network :: "u64 \<Rightarrow> rtllib_network \<Rightarrow> rtllib_network \<Rightarrow> (rtllib_network \<times> rtllib_network) option" where
  "update_network jif dst src = do {
     r \<leftarrow> memcpy_arr (unat (rates_len src)) (rates src) (rates dst);
     rx \<leftarrow> memcpy_arr (unat (rates_ex_len src)) (rates_ex src) (rates_ex dst);
     d1 \<leftarrow> update_ssid (dst\<lparr>net_signal := net_signal src, net_noise := net_noise src, net_capability := net_capability src,
             rates := r, rates_len := rates_len src, rates_ex := rx, rates_ex_len := rates_ex_len src\<rparr>) src;
     let erp = net_flags src AND NETWORK_HAS_ERP_VALUE \<noteq> 0;
     let src1 = (if erp then src\<lparr>berp_info_valid := True\<rparr> else src);
     let d2 = (if erp then d1\<lparr>erp_value := erp_value src, berp_info_valid := True\<rparr> else d1);
     b \<leftarrow> update_bssht (bssht dst) (bssht src);
     w \<leftarrow> memcpy_arr (wpa_ie_len src) (wpa_ie src) (wpa_ie dst);
     rsn \<leftarrow> memcpy_arr (rsn_ie_len src) (rsn_ie src) (rsn_ie dst);
     wzc \<leftarrow> memcpy_arr (wzc_ie_len src) (wzc_ie src) (wzc_ie dst);
     c \<leftarrow> memcpy_arr (unat (net_CountryIeLen src)) (net_CountryIeBuf src) (net_CountryIeBuf dst);
     let d3 = d2\<lparr>net_mode := net_mode src, net_flags := net_flags src, time_stamp := time_stamp src,
             beacon_interval := beacon_interval src, listen_interval := listen_interval src, atim_window := atim_window src,
             dtim_period := dtim_period src, dtim_data := dtim_data src, last_dtim_sta_time := last_dtim_sta_time src,
             tim_count := tim_count src, tim_period := tim_period src, bssht := b,
             broadcom_cap_exist := broadcom_cap_exist src, ralink_cap_exist := ralink_cap_exist src,
             atheros_cap_exist := atheros_cap_exist src, realtek_cap_exit := realtek_cap_exit src,
             marvell_cap_exist := marvell_cap_exist src, cisco_cap_exist := cisco_cap_exist src,
             unknown_cap_exist := unknown_cap_exist src, wpa_ie := w, wpa_ie_len := wpa_ie_len src,
             rsn_ie := rsn, rsn_ie_len := rsn_ie_len src, wzc_ie := wzc, wzc_ie_len := wzc_ie_len src, last_scanned := jif\<rparr>;
     let d4 = update_qos d3 src;
     let ac = (\<lambda>i. wmm_param src ! (4 * i) \<noteq> 0);
     Some (d4\<lparr>wmm_info := wmm_info src, wmm_param := (if ac 0 \<or> ac 1 \<or> ac 2 \<or> ac 1 then wmm_param src else wmm_param d4),
             SignalStrength := SignalStrength src, RSSI := RSSI src, Turbo_Enable := Turbo_Enable src,
             net_CountryIeLen := net_CountryIeLen src, net_CountryIeBuf := c, bWithAironetIE := bWithAironetIE src,
             bCkipSupported := bCkipSupported src, CcxRmState := (CcxRmState d4)[0 := CcxRmState src ! 0],
             bCcxRmEnable := bCcxRmEnable src, MBssidMask := MBssidMask src, bMBssidValid := bMBssidValid src,
             MBssid := MBssid src, bWithCcxVerNum := bWithCcxVerNum src, BssCcxVerNumber := BssCcxVerNumber src\<rparr>, src1) }"

section \<open>Choosing a network\<close>

text \<open>
  Comparing two names up to a length, as \<open>strncmp\<close> does: up to the first zero byte in both.
\<close>

fun strneq :: "nat \<Rightarrow> u8 list \<Rightarrow> u8 list \<Rightarrow> bool" where
  "strneq (Suc n) (a # as) (b # bs) = (a = b \<and> (a = 0 \<or> strneq n as bs))"
| "strneq n as bs = True"

text \<open>The kernel's \<open>strncpy\<close>: copies up to a zero byte and fills the rest with zeros.\<close>

definition strncpy_arr :: "nat \<Rightarrow> u8 list \<Rightarrow> u8 list \<Rightarrow> u8 list" where
  "strncpy_arr n src dst =
     (let t = takeWhile (\<lambda>b. b \<noteq> 0) (take n src) in t @ replicate (n - length t) 0 @ drop n dst)"

text \<open>Which of the four combinations of user settings and network lets the device join.\<close>

definition join_wanted :: "bool \<Rightarrow> bool \<Rightarrow> bool \<Rightarrow> bool \<Rightarrow> bool \<Rightarrow> bool" where
  "join_wanted apset apmatch ssidset ssidbroad ssidmatch \<longleftrightarrow>
     apset \<and> apmatch \<and> (ssidset \<and> ssidbroad \<and> ssidmatch \<or> ssidbroad \<and> \<not> ssidset \<or> \<not> ssidbroad \<and> ssidset)
     \<or> \<not> apset \<and> ssidset \<and> ssidbroad \<and> ssidmatch"

definition rtllib_is_54g :: "rtllib_network \<Rightarrow> bool" where
  "rtllib_is_54g n \<longleftrightarrow> 0 < rates_ex_len n \<or> 4 < rates_len n"

definition join_infra :: "mlme \<Rightarrow> mlme" where
  "join_infra m =
     (let net = current_network m;
          m1 = m\<lparr>AsocRetryCount := 0\<rparr>;
          m2 = (if qos_support (qos_data net) \<and> bdSupportHT (bssht net)
                then on_ht (\<lambda>h. HTResetSelfAndSavePeerSetting h (ht_net.truncate net)) m1
                else on_ht (upd_ht (\<lambda>h. h\<lparr>bCurrentHTSupport := False\<rparr>)) m1)
      in m2\<lparr>m_state := RTLLIB_ASSOCIATING, wq_procedure := True\<rparr>)"

definition join_ibss :: "mlme \<Rightarrow> mlme" where
  "join_ibss m =
     (let g = rtllib_is_54g (current_network m) \<and> ofdm_modulation m;
          m1 = on_ht (\<lambda>h. rtl8192_SetWirelessMode h (chip m) (if g then ucast IEEE_G else ucast IEEE_B)) (m\<lparr>m_rate := if g then 108 else 22\<rparr>)
      in m1\<lparr>m_ht := (m_ht m1)\<lparr>dot11HTOperationalRateSet := replicate 16 0\<rparr>, m_state := RTLLIB_LINKED\<rparr>)"

text \<open>The network passed in may get its hidden name; it is returned with the device.\<close>

definition rtllib_softmac_new_net :: "mlme \<Rightarrow> rtllib_network \<Rightarrow> mlme \<times> rtllib_network" where
  "rtllib_softmac_new_net m net =
     (if m_state m \<noteq> RTLLIB_NOLINK then (m, net)
      else if m_iw_mode m = IW_MODE_INFRA \<and> net_capability net AND WLAN_CAPABILITY_ESS = 0 then (m, net)
      else if m_iw_mode m = IW_MODE_ADHOC \<and> net_capability net AND WLAN_CAPABILITY_IBSS = 0 then (m, net)
      else if m_iw_mode m = IW_MODE_ADHOC \<and> ibss_maxjoin_chal (m_d11 m) < ht_channel net then (m, net)
      else if m_iw_mode m = IW_MODE_INFRA \<or> m_iw_mode m = IW_MODE_ADHOC then
        (let cur = current_network m;
             broad = \<not> (ssid_len net = 0 \<or> ssid net ! 0 = 0);
             apmatch = take 6 (ht_bssid cur) = take 6 (ht_bssid net);
             ssidmatch = (if broad then ssid_len cur = ssid_len net \<and> strneq (unat (ssid_len net)) (ssid cur) (ssid net)
                          else ssid_len cur = hidden_ssid_len net \<and>
                               strneq (unat (hidden_ssid_len net)) (ssid cur) (hidden_ssid net));
             hid = \<not> broad \<and> 0 < hidden_ssid_len net;
             net1 = (if hid then net\<lparr>ssid := strncpy_arr (unat (hidden_ssid_len net)) (hidden_ssid net) (ssid net),
                                     ssid_len := hidden_ssid_len net\<rparr> else net);
             broad1 = (broad \<or> hid)
         in if join_wanted (wap_set m) apmatch (ssid_set m) broad1 ssidmatch then
              (let cur1 = (if broad1 then net1
                           else net1\<lparr>ssid := strncpy_arr 32 (strncpy_arr 32 (ssid cur) (ssid cur)) (ssid net1), ssid_len := ssid_len cur\<rparr>);
                   m1 = on_ht (upd_ht HTResetIOTSetting) (m\<lparr>current_network := cur1\<rparr>);
                   m2 = m1\<lparr>m_wmm_acm := 0\<rparr>
               in (if m_iw_mode m = IW_MODE_INFRA then join_infra m2 else join_ibss m2, net1))
            else (m, net1))
      else (m, net))"

fun check_nets :: "rtllib_network list \<Rightarrow> mlme \<Rightarrow> mlme \<times> rtllib_network list" where
  "check_nets [] m = (m, [])"
| "check_nets (t # ts) m =
     (if m_state m \<noteq> RTLLIB_NOLINK then (m, t # ts)
      else (let (m1, t1) = (if scan_age m = 0 \<or> time_after (last_scanned t + scan_age m) (m_jiffies m)
                            then rtllib_softmac_new_net m t else (m, t));
                (m2, ts2) = check_nets ts m1
            in (m2, t1 # ts2)))"

definition rtllib_softmac_check_all_nets :: "mlme \<Rightarrow> mlme" where
  "rtllib_softmac_check_all_nets m = (let (m1, l) = check_nets (network_list m) m in m1\<lparr>network_list := l\<rparr>)"

section \<open>Beacons and probe responses\<close>

text \<open>The walk over the list: the index of the first match and of the oldest entry before it.\<close>

fun find_net :: "rtllib_network \<Rightarrow> nat \<Rightarrow> rtllib_network list \<Rightarrow> (nat \<times> rtllib_network) option \<Rightarrow> nat option \<times> nat option" where
  "find_net net i [] oldest = (None, map_option fst oldest)"
| "find_net net i (t # ts) oldest =
     (if is_same_network t net (ssid_len t \<noteq> 0) then (Some i, map_option fst oldest)
      else find_net net (Suc i) ts
             (case oldest of None \<Rightarrow> Some (i, t) | Some (j, o') \<Rightarrow> if last_scanned t < last_scanned o' then Some (i, t) else oldest))"

definition channel_wanted :: "dot11d_dev \<Rightarrow> bool \<Rightarrow> u8 \<Rightarrow> bool" where
  "channel_wanted d probe_resp ch \<longleftrightarrow>
     IsLegalChannel d ch \<and>
     (bGlobalDomain d \<longrightarrow>
        (if 0 < CountryIeLen (pDot11dInfo d) then IsLegalChannel d ch else if probe_resp then ch \<le> 11 else ch \<le> 14))"

definition refresh_current :: "bool \<Rightarrow> mlme \<Rightarrow> rtllib_network \<Rightarrow> (mlme \<times> rtllib_network) option" where
  "refresh_current beacon m net =
     (if is_same_network (current_network m) net (ssid_len net \<noteq> 0) then do {
        (cur, net1) \<leftarrow> update_network (m_jiffies m) (current_network m) net;
        let cur1 = (if (net_mode cur = ucast IEEE_N_24G \<or> net_mode cur = ucast IEEE_G) \<and> berp_info_valid cur
                    then cur\<lparr>buseprotection := erp_value cur AND 2 \<noteq> 0\<rparr> else cur);
        let m1 = m\<lparr>current_network := cur1\<rparr>;
        Some (if beacon \<and> m_state m = RTLLIB_LINKED then m1\<lparr>NumRecvBcnInPeriod := NumRecvBcnInPeriod m + 1\<rparr> else m1, net1) }
      else Some (m, net))"

definition add_network :: "mlme \<Rightarrow> rtllib_network \<Rightarrow> nat option \<Rightarrow> (mlme \<times> rtllib_network) option" where
  "add_network m net oldest = do {
     m1 \<leftarrow> (if network_free m = 0 then
              (case oldest of None \<Rightarrow> None
               | Some j \<Rightarrow> Some (m\<lparr>network_list := take j (network_list m) @ drop (Suc j) (network_list m)\<rparr>))
            else Some (m\<lparr>network_free := network_free m - 1\<rparr>));
     let m2 = m1\<lparr>network_list := network_list m1 @ [net]\<rparr>;
     Some (if feat_associate m then rtllib_softmac_new_net m2 net else (m2, net)) }"

definition renew_network :: "mlme \<Rightarrow> rtllib_network \<Rightarrow> nat \<Rightarrow> (mlme \<times> rtllib_network) option" where
  "renew_network m net i = do {
     let t = network_list m ! i;
     let renew = (\<not> time_after (last_scanned t + scan_age m) (m_jiffies m)
        \<or> ssid_len t = 0 \<and>
          (0 < ssid_len net \<and> hidden_ssid_len t = 0
           \<or> ssid_len (current_network m) = ssid_len net \<and> strneq (unat (ssid_len net)) (ssid (current_network m)) (ssid net)
             \<and> m_state m = RTLLIB_NOLINK));
     (t1, net1) \<leftarrow> update_network (m_jiffies m) t net;
     let m1 = m\<lparr>network_list := (network_list m)[i := t1]\<rparr>;
     Some (if renew \<and> feat_associate m then rtllib_softmac_new_net m1 net1 else (m1, net1)) }"

definition rtllib_process_probe_response :: "mlme \<Rightarrow> skb \<Rightarrow> rx_signal \<Rightarrow> u8 list \<Rightarrow> mlme option" where
  "rtllib_process_probe_response m s stats stack =
     (if \<not> alloc_ok m then Some m else do {
        fc \<leftarrow> rd16 s 0;
        (d, n) \<leftarrow> rtllib_network_init m s stats stack;
        let m0 = m\<lparr>m_d11 := d\<rparr>;
        case n of None \<Rightarrow> Some m0
        | Some net \<Rightarrow>
            if \<not> channel_wanted d (WLAN_FC_GET_STYPE fc = 0x50) (ht_channel net) then Some m0
            else do {
              let beacon = (WLAN_FC_GET_STYPE fc = 0x80);
              (m1, net1) \<leftarrow> refresh_current beacon m0 net;
              (m2, net2) \<leftarrow> (case find_net net1 0 (network_list m1) None of
                   (None, oldest) \<Rightarrow> add_network m1 net1 oldest
                 | (Some i, _) \<Rightarrow> renew_network m1 net1 i);
              Some (if beacon \<and> is_same_network (current_network m2) net2 (ssid_len net2 \<noteq> 0) \<and> m_state m2 = RTLLIB_LINKED
                    then rtl8192_handle_beacon m2 else m2) } })"

end
