(* ===== verification/Net_Safe.thy ===== *)
theory Net_Safe
  imports Net_Scan
begin

text \<open>
  Memory safety of the element parser and of the handling of beacons: well-formed networks stay
  well formed, no array of a description overflows, and no byte further than two behind the
  frame is read.
\<close>

section \<open>Well-formed descriptions\<close>

definition bss_wf :: "bss_ht \<Rightarrow> bool" where
  "bss_wf b \<longleftrightarrow> length (bdHTCapBuf b) = 32 \<and> length (bdHTInfoBuf b) = 32 \<and> bdHTCapLen b \<le> 32 \<and> bdHTInfoLen b \<le> 32"

definition qos_wf :: "rtllib_qos_data \<Rightarrow> bool" where
  "qos_wf q \<longleftrightarrow> length (cw_min q) = 4 \<and> length (cw_max q) = 4 \<and> length (aifs q) = 4 \<and> length (qos_flag q) = 4 \<and> length (tx_op_limit q) = 4"

definition net_wf :: "rtllib_network \<Rightarrow> bool" where
  "net_wf n \<longleftrightarrow>
     bss_wf (bssht n) \<and> qos_wf (qos_data n) \<and>
     length (ht_bssid n) = 6 \<and> length (MBssid n) = 6 \<and> length (CcxRmState n) = 2 \<and> length (wmm_param n) = 16 \<and>
     length (ssid n) = 33 \<and> ssid_len n \<le> 32 \<and> length (hidden_ssid n) = 33 \<and> hidden_ssid_len n \<le> 32 \<and>
     length (rates n) = 12 \<and> rates_len n \<le> 12 \<and> length (rates_ex n) = 16 \<and> rates_ex_len n \<le> 16 \<and>
     length (wpa_ie n) = 64 \<and> wpa_ie_len n \<le> 64 \<and> length (rsn_ie n) = 64 \<and> rsn_ie_len n \<le> 64 \<and>
     length (wzc_ie n) = 256 \<and> wzc_ie_len n \<le> 256 \<and>
     length (net_CountryIeBuf n) = 255 \<and> net_CountryIeLen n \<le> 255"

definition parse_wf :: "parse_st \<Rightarrow> bool" where
  "parse_wf st \<longleftrightarrow> net_wf (ps_net st) \<and> dot11d_wf (ps_d11 st) \<and> length (ht_realtek_agg_buf st) = 255"

lemma net_zero_wf: "net_wf net_zero"
  by (simp add: net_wf_def net_zero_def bss_wf_def bssht_zero_def qos_wf_def qos_zero_def)

named_theorems ie_ok \<open>steps of the parser that succeed and keep the state well formed\<close>

text \<open>The result is there and satisfies a predicate.\<close>

definition succeeds :: "('b \<Rightarrow> bool) \<Rightarrow> 'b option \<Rightarrow> bool" where
  "succeeds P r \<longleftrightarrow> (\<exists>x. r = Some x \<and> P x)"

lemma succeeds_Some [simp]: "succeeds P (Some x) = P x"
  by (simp add: succeeds_def)

lemma succeeds_bind: "succeeds Q r \<Longrightarrow> (\<And>x. Q x \<Longrightarrow> r = Some x \<Longrightarrow> succeeds P (f x)) \<Longrightarrow> succeeds P (r \<bind> f)"
  by (auto simp: succeeds_def)

lemma succeeds_if: "(c \<Longrightarrow> succeeds P a) \<Longrightarrow> (\<not> c \<Longrightarrow> succeeds P b) \<Longrightarrow> succeeds P (if c then a else b)"
  by simp

lemma succeeds_mono: "succeeds Q r \<Longrightarrow> (\<And>x. Q x \<Longrightarrow> P x) \<Longrightarrow> succeeds P r"
  by (auto simp: succeeds_def)

lemma succ_rdn: "p + n \<le> length (sk_mem s) \<Longrightarrow> succeeds (\<lambda>b. length b = n) (rdn s p n)"
  by (simp add: rdn_def)

lemma succ_rd8: "p < length (sk_mem s) \<Longrightarrow> succeeds (\<lambda>b. True) (rd8 s p)"
  by (simp add: rd8_def)

lemma succ_rd16: "Suc p < length (sk_mem s) \<Longrightarrow> succeeds (\<lambda>b. True) (rd16 s p)"
  by (simp add: rd16_inside)

lemma succ_buf_write: "p + length b \<le> length a \<Longrightarrow> succeeds (\<lambda>c. length c = length a) (buf_write p b a)"
  by (simp add: buf_write_def)

lemma succ_memcpy: "n \<le> length a \<Longrightarrow> n \<le> length b \<Longrightarrow> succeeds (\<lambda>c. length c = length b) (memcpy_arr n a b)"
  by (simp add: memcpy_arr_def)

lemma succ_bytes_are: "p + length bs \<le> length (sk_mem s) \<Longrightarrow> succeeds (\<lambda>b. True) (bytes_are s p bs)"
proof (induction bs arbitrary: p)
  case (Cons b bs)
  then have "succeeds (\<lambda>b. True) (bytes_are s (Suc p) bs)" by simp
  with Cons.prems show ?case by (simp add: rd8_def)
qed simp

lemma succ_vendor: "p + len \<le> length (sk_mem s) \<Longrightarrow> succeeds (\<lambda>b. True) (vendor_ie s p len bs)"
  using succ_bytes_are[of p bs s] by (simp add: vendor_ie_def)

lemma of_nat_le_word: "n \<le> 255 \<Longrightarrow> m \<le> 255 \<Longrightarrow> (of_nat n :: u8) \<le> of_nat m \<longleftrightarrow> n \<le> m"
  by (simp add: word_le_nat_alt unat_of_nat)

lemma of_nat_le_word16: "n \<le> 255 \<Longrightarrow> m \<le> 255 \<Longrightarrow> (of_nat n :: u16) \<le> of_nat m \<longleftrightarrow> n \<le> m"
  by (simp add: word_le_nat_alt unat_of_nat)

lemma min_word: "(of_nat (min n 32) :: u8) \<le> 32" "(of_nat (min n 12) :: u8) \<le> 12" "(of_nat (min n 16) :: u8) \<le> 16"
  "(of_nat (min n 32) :: u16) \<le> 32"
  using of_nat_le_word[of "min n 32" 32] of_nat_le_word[of "min n 12" 12] of_nat_le_word[of "min n 16" 16]
    of_nat_le_word16[of "min n 32" 32] by simp_all

lemma le_32: "n < 32 \<Longrightarrow> (of_nat n :: u8) \<le> 32"
  using of_nat_le_word[of n 32] by simp

section \<open>Elements\<close>

lemma upd_net_wf: "parse_wf st \<Longrightarrow> net_wf (f (ps_net st)) \<Longrightarrow> parse_wf (upd_net f st)"
  by (simp add: parse_wf_def)

lemma parse_wfD: "parse_wf st \<Longrightarrow> net_wf (ps_net st)" "parse_wf st \<Longrightarrow> dot11d_wf (ps_d11 st)"
  "parse_wf st \<Longrightarrow> length (ht_realtek_agg_buf st) = 255"
  by (simp_all add: parse_wf_def)

lemma ie_ssid_ok [ie_ok]:
  assumes "parse_wf st" "p + len \<le> length (sk_mem s)" shows "succeeds parse_wf (ie_ssid s p len st)"
  unfolding ie_ssid_def Let_def using assms parse_wfD(1)[OF assms(1)]
  by (intro succeeds_bind[OF succ_rdn] succeeds_if succeeds_bind[OF succ_memcpy])
    (auto intro!: upd_net_wf simp: net_wf_def buf_write_def min_word le_32)

lemma ie_rates_ok [ie_ok]:
  assumes "parse_wf st" "p + len \<le> length (sk_mem s)"
  shows "succeeds parse_wf (ie_rates s p len st)" "succeeds parse_wf (ie_rates_ex s p len st)"
  unfolding ie_rates_def ie_rates_ex_def Let_def using assms parse_wfD(1)[OF assms(1)]
  by (intro succeeds_bind[OF succ_rdn] succeeds_bind[OF succ_buf_write];
      force intro!: upd_net_wf simp: net_wf_def min_word)+

lemma ie_tim_ok [ie_ok]:
  assumes "parse_wf st" "p + len < length (sk_mem s)" shows "succeeds parse_wf (ie_tim e s p len st)"
proof (cases "len < 4")
  case False
  have wf: "parse_wf (upd_net f st)" if "\<And>n. net_wf n \<Longrightarrow> net_wf (f n)" for f
    using assms(1) that by (auto intro: upd_net_wf dest: parse_wfD)
  have *: "p + 3 + (aid div 8 - off) < length (sk_mem s)" if "\<not> 8 * (off + len - 3) < aid" "\<not> aid < 8 * off" for aid off :: nat
    using that assms(2) False by linarith
  show ?thesis
    unfolding ie_tim_def Let_def using False assms
    by (auto simp: rd8_def * intro!: wf) (auto simp: net_wf_def parse_wf_def)
qed (simp add: ie_tim_def assms)

lemma upd_bss_wf: "parse_wf st \<Longrightarrow> bss_wf (f (bssht (ps_net st))) \<Longrightarrow> parse_wf (upd_bss f st)"
  by (simp add: parse_wf_def net_wf_def)

lemma parse_wf_locals [simp]:
  "parse_wf (st\<lparr>tmp_htcap_len := n\<rparr>) = parse_wf st" "parse_wf (st\<lparr>tmp_htinfo_len := n\<rparr>) = parse_wf st"
  "parse_wf (st\<lparr>ht_realtek_agg_len := n\<rparr>) = parse_wf st"
  by (simp_all add: parse_wf_def)

lemma bss_of: "parse_wf st \<Longrightarrow> bss_wf (bssht (ps_net st))"
  by (simp add: parse_wf_def net_wf_def)

lemma ht_copies_ok:
  assumes "bss_wf b" "p + len \<le> length (sk_mem s)"
  shows "succeeds bss_wf (ht_cap_copy s p len b)" "succeeds bss_wf (ht_info_copy v s p len b)"
  unfolding ht_cap_copy_def ht_info_copy_def Let_def using assms
  by (intro succeeds_bind[OF succ_rdn] succeeds_bind[OF succ_buf_write]; force simp: bss_wf_def min_word)+

lemma ie_ht_ok [ie_ok]:
  assumes "parse_wf st" "p + len \<le> length (sk_mem s)"
  shows "succeeds parse_wf (ie_ht_cap s p len st)" "succeeds parse_wf (ie_ht_info s p len st)"
    "succeeds parse_wf (gen_ht_cap s p len st)" "succeeds parse_wf (gen_ht_info s p len st)"
proof -
  note b = bss_of[OF assms(1)]
  show "succeeds parse_wf (ie_ht_cap s p len st)"
    unfolding ie_ht_cap_def Let_def
    by (intro succeeds_if succeeds_bind[OF ht_copies_ok(1)])
      (use assms b in \<open>auto simp: bss_wf_def parse_wf_def net_wf_def\<close>)
  show "succeeds parse_wf (ie_ht_info s p len st)"
    unfolding ie_ht_info_def Let_def
    by (intro succeeds_if succeeds_bind[OF ht_copies_ok(2)])
      (use assms b in \<open>auto simp: bss_wf_def parse_wf_def net_wf_def\<close>)
  show "succeeds parse_wf (gen_ht_cap s p len st)"
    unfolding gen_ht_cap_def Let_def
    by (intro succeeds_if succeeds_bind[OF succ_vendor] succeeds_bind[OF ht_copies_ok(1)])
      (use assms b in \<open>auto simp: bss_wf_def parse_wf_def net_wf_def\<close>)
  show "succeeds parse_wf (gen_ht_info s p len st)"
    unfolding gen_ht_info_def Let_def
    by (intro succeeds_if succeeds_bind[OF succ_vendor] succeeds_bind[OF ht_copies_ok(2)])
      (use assms b in \<open>auto simp: bss_wf_def parse_wf_def net_wf_def\<close>)
qed

lemma gen_realtek_ok [ie_ok]:
  assumes "parse_wf st" "p + len \<le> length (sk_mem s)" "len < 256"
  shows "succeeds parse_wf (gen_realtek e s p len st)"
proof -
  have net: "parse_wf (upd_net f st')" if "parse_wf st'" "\<And>n. net_wf n \<Longrightarrow> net_wf (f n)" for st' f
    using that by (simp add: parse_wf_def)
  have cp: "parse_wf (st\<lparr>ht_realtek_agg_len := n, ht_realtek_agg_buf := a\<rparr>)" if "length a = length (ht_realtek_agg_buf st)" for n a
    using assms(1) that by (simp add: parse_wf_def)
  have st0: "succeeds parse_wf (if v then do { b \<leftarrow> rdn s p len; a \<leftarrow> buf_write 0 b (ht_realtek_agg_buf st);
                       Some (st\<lparr>ht_realtek_agg_len := of_nat len, ht_realtek_agg_buf := a\<rparr>) } else Some st)" for v
    by (intro succeeds_if succeeds_bind[OF succ_rdn] succeeds_bind[OF succ_buf_write])
      (use assms parse_wfD(3)[OF assms(1)] in \<open>auto intro!: cp\<close>)
  show ?thesis
    unfolding gen_realtek_def Let_def
    by (intro succeeds_if succeeds_bind[of parse_wf] succeeds_bind[OF succ_vendor] st0)
      (use assms in \<open>auto intro!: net simp: net_wf_def bss_wf_def\<close>)
qed

lemma gen_vendors_ok [ie_ok]:
  assumes "parse_wf st" "p + len \<le> length (sk_mem s)" shows "succeeds parse_wf (gen_vendors s p len st)"
  unfolding gen_vendors_def
  by (intro succeeds_bind[OF succ_vendor]) (use assms in \<open>auto simp: parse_wf_def net_wf_def\<close>)

lemma succ_vendor_long: "p + len \<le> length (sk_mem s) \<Longrightarrow> succeeds (\<lambda>b. True) (if c then vendor_ie s p len bs else Some False)"
  using succ_vendor by auto

lemma gen_ccx_rm_ok [ie_ok]:
  assumes "parse_wf st" "p + len + 2 \<le> length (sk_mem s)" shows "succeeds parse_wf (gen_ccx_rm s p len st)"
proof -
  have net: "parse_wf (upd_net f st)" if "net_wf (f (ps_net st))" for f
    using that assms(1) by (simp add: parse_wf_def)
  show ?thesis
    unfolding gen_ccx_rm_def Let_def
    by (intro succeeds_bind[OF succ_vendor_long] succeeds_if succeeds_bind[OF succ_rd16])
      (use assms parse_wfD(1)[OF assms(1)] in \<open>auto intro!: net simp: net_wf_def\<close>)
qed

lemma gen_ccx_ver_ok [ie_ok]:
  assumes "parse_wf st" "p + len \<le> length (sk_mem s)" shows "succeeds parse_wf (gen_ccx_ver s p len st)"
  unfolding gen_ccx_ver_def Let_def
  by (intro succeeds_bind[OF succ_vendor_long] succeeds_if succeeds_bind[OF succ_rd8])
    (use assms in \<open>auto simp: parse_wf_def net_wf_def\<close>)

lemma ie_header_ok [ie_ok]:
  assumes "parse_wf st" "p + len \<le> length (sk_mem s)" "2 \<le> p"
  shows "succeeds parse_wf (gen_wzc s p len st)" "succeeds parse_wf (ie_rsn s p len st)"
proof -
  show "succeeds parse_wf (gen_wzc s p len st)"
    unfolding gen_wzc_def Let_def
    by (intro succeeds_bind[OF succ_vendor_long] succeeds_if succeeds_bind[OF succ_rdn] succeeds_bind[OF succ_buf_write])
      (use assms in \<open>auto simp: parse_wf_def net_wf_def\<close>)
  show "succeeds parse_wf (ie_rsn s p len st)"
    unfolding ie_rsn_def Let_def
    by (intro succeeds_bind[OF succ_rdn] succeeds_bind[OF succ_buf_write])
      (use assms in \<open>auto simp: parse_wf_def net_wf_def\<close>)
qed

lemma ie_aironet_ok [ie_ok]:
  assumes "parse_wf st" "p + len \<le> length (sk_mem s)" shows "succeeds parse_wf (ie_aironet s p len st)"
  unfolding ie_aironet_def
  by (intro succeeds_if succeeds_bind[OF succ_rd8]) (use assms in \<open>auto simp: parse_wf_def net_wf_def\<close>)

lemma convert_ac_wf: "qos_wf q \<Longrightarrow> qos_wf (convert_ac r q)"
  by (simp add: convert_ac_def qos_wf_def Let_def)

lemma fold_convert_wf: "qos_wf q \<Longrightarrow> qos_wf (fold (\<lambda>i. convert_ac (f i)) is q)"
  by (induction "is" arbitrary: q) (auto simp: convert_ac_wf)

lemma qos_element_ok:
  assumes "net_wf n" "p + len \<le> length (sk_mem s)"
  shows "succeeds (\<lambda>(q, n'). net_wf n') (rtllib_parse_qos_info_param_IE s p len n)"
proof -
  have q: "qos_wf (rtllib_qos_convert_ac_to_parameters b (qos_data n))" for b
    unfolding rtllib_qos_convert_ac_to_parameters_def using assms(1)
    by (intro fold_convert_wf) (simp add: net_wf_def qos_wf_def)
  have "succeeds (\<lambda>_. True) (rtllib_read_qos_info_element s p len)" "succeeds (\<lambda>_. True) (rtllib_read_qos_param_element s p len)"
    using assms(2) by (simp_all add: rtllib_read_qos_info_element_def rtllib_read_qos_param_element_def rdn_def)
  then show ?thesis
    using assms(1) q by (auto simp: rtllib_parse_qos_info_param_IE_def succeeds_def net_wf_def qos_wf_def split: option.splits)
qed

lemma ie_generic_ok [ie_ok]:
  assumes "parse_wf st" "p + len + 2 \<le> length (sk_mem s)" "2 \<le> p" "len < 256"
  shows "succeeds parse_wf (ie_generic e s p len st)"
proof -
  have pl: "p + len \<le> length (sk_mem s)" using assms(2) by simp
  have wpa: "succeeds parse_wf (do {
         b \<leftarrow> rdn s (p - 2) (min (len + 2) 64);
         a \<leftarrow> buf_write 0 b (wpa_ie (ps_net st));
         Some (upd_net (\<lambda>m. m\<lparr>wpa_ie_len := min (len + 2) 64, wpa_ie := a\<rparr>) st) })"
    by (intro succeeds_bind[OF succ_rdn] succeeds_bind[OF succ_buf_write])
      (use assms in \<open>auto simp: parse_wf_def net_wf_def\<close>)
  have turbo: "parse_wf (upd_net (\<lambda>m. m\<lparr>Turbo_Enable := True\<rparr>) st)"
    using assms(1) by (simp add: parse_wf_def net_wf_def)
  have rest: "succeeds parse_wf (do {
         t \<leftarrow> (if len = 7 then vendor_ie s p len [0x00, 0xe0, 0x4c, 0x01, 0x02] else Some False);
         st1 \<leftarrow> gen_ht_cap s p len (if t then upd_net (\<lambda>m. m\<lparr>Turbo_Enable := True\<rparr>) st else st);
         st2 \<leftarrow> gen_ht_info s p len st1;
         st3 \<leftarrow> gen_realtek e s p len st2;
         st4 \<leftarrow> gen_vendors s p len st3;
         st5 \<leftarrow> gen_ccx_rm s p len st4;
         st6 \<leftarrow> gen_ccx_ver s p len st5;
         gen_wzc s p len st6 })"
    by (intro succeeds_bind[OF succ_vendor_long[OF pl]] succeeds_bind[of parse_wf])
      (use assms pl turbo in \<open>auto intro!: ie_ok\<close>)
  have body: "succeeds parse_wf (vendor_ie s p len [0x00, 0x50, 0xf2, 0x01] \<bind> (\<lambda>w. if w then f else g))"
    if "succeeds parse_wf f" "succeeds parse_wf g" for f g
    using that by (intro succeeds_bind[OF succ_vendor[OF pl]]) simp
  show ?thesis
    unfolding ie_generic_def Let_def
  proof (rule succeeds_bind[OF qos_element_ok[OF parse_wfD(1)[OF assms(1)] pl]], split prod.split, intro allI impI succeeds_if)
    fix x q n
    assume "case x of (q, n') \<Rightarrow> net_wf n'" "x = (q, n)" q
    then show "succeeds parse_wf (Some (st\<lparr>ps_net := n\<rparr>))" using assms(1) by (simp add: parse_wf_def)
  next
    show "succeeds parse_wf (vendor_ie s p len [0x00, 0x50, 0xf2, 0x01] \<bind> (\<lambda>w. if w then
          rdn s (p - 2) (min (len + 2) 64) \<bind> (\<lambda>b. buf_write 0 b (wpa_ie (ps_net st)) \<bind>
            (\<lambda>a. Some (upd_net (\<lambda>m. m\<lparr>wpa_ie_len := min (len + 2) 64, wpa_ie := a\<rparr>) st)))
        else (if len = 7 then vendor_ie s p len [0x00, 0xe0, 0x4c, 0x01, 0x02] else Some False) \<bind>
          (\<lambda>t. gen_ht_cap s p len (if t then upd_net (\<lambda>m. m\<lparr>Turbo_Enable := True\<rparr>) st else st) \<bind>
            (\<lambda>st1. gen_ht_info s p len st1 \<bind> (\<lambda>st2. gen_realtek e s p len st2 \<bind> (\<lambda>st3. gen_vendors s p len st3 \<bind>
              (\<lambda>st4. gen_ccx_rm s p len st4 \<bind> (\<lambda>st5. gen_ccx_ver s p len st5 \<bind> gen_wzc s p len))))))))"
      by (rule body[OF wpa rest])
  qed
qed

lemma byte_le: "unat (w :: u8) \<le> 255"
proof -
  have "unat w < 256" using unsigned_less[of w, where ?'a = nat] by simp
  then show ?thesis by simp
qed

lemma unat_byte16 [simp]: "unat (ucast (w :: u8) :: u16) = unat w"
proof -
  have "unat w < 256" using unsigned_less[of w, where ?'a = nat] by simp
  then show ?thesis by (simp add: unsigned_ucast_eq take_bit_nat_eq_self)
qed

lemma country_total:
  assumes "dot11d_wf d" "unat len \<le> length data" "length (fst net) = 255"
  shows "succeeds (\<lambda>(d', b', n'). dot11d_wf d' \<and> length b' = 255 \<and> (n' = snd net \<or> n' = ucast len))
           (rtllib_extract_country_ie d len data net ta)"
proof -
  have upd: "\<exists>d'. Dot11d_UpdateCountryIe d ta (ucast len) data = Some d'" if "len \<noteq> 0"
  proof -
    have n: "3 * unat (num_triples (ucast len)) \<le> length (drop 3 data)"
    proof (cases "3 \<le> unat len")
      case True
      then have "unat (num_triples (ucast len)) = (unat len - 3) div 3"
        using unat_num_triples[of "ucast len"] byte_le[of len] by simp
      then show ?thesis using assms(2) by auto
    next
      case False
      moreover have "unat len \<noteq> 0" using that by (simp add: unsigned_eq_0_iff)
      ultimately have "unat len = 1 \<or> unat len = 2" by linarith
      moreover have "len = of_nat (unat len)" by simp
      ultimately have "len = 1 \<or> len = 2" by (elim disjE) (simp_all only: of_nat_1 of_nat_numeral simp_thms)
      then show ?thesis by (elim disjE) (simp_all add: num_triples_def signed_divide_int_def)
    qed
    from walk_triples_spec[OF n, of "replicate (MAX_CHANNEL_NUMBER + 1) 0" "replicate (MAX_CHANNEL_NUMBER + 1) 0xff" 0]
    obtain ok cm pw where "walk_triples (unat (num_triples (ucast len))) (drop 3 data) 0
        (replicate (MAX_CHANNEL_NUMBER + 1) 0) (replicate (MAX_CHANNEL_NUMBER + 1) 0xff) = Some (ok, cm, pw)" by auto
    with assms(2) byte_le[of len] show ?thesis by (simp add: Dot11d_UpdateCountryIe_def Let_def)
  qed
  have "\<exists>d' b' n'. rtllib_extract_country_ie d len data net ta = Some (d', b', n') \<and> length b' = 255 \<and> (n' = snd net \<or> n' = ucast len)"
    using upd assms(2,3) byte_le[of len] by (cases net; cases "len = 0") (auto simp: rtllib_extract_country_ie_def Let_def)
  then obtain d' b' n' where *: "rtllib_extract_country_ie d len data net ta = Some (d', b', n')" "length b' = 255" "n' = snd net \<or> n' = ucast len"
    by blast
  with rtllib_extract_country_ie_wf[OF assms(1) *(1)] show ?thesis by simp
qed

lemma ie_country_ok [ie_ok]:
  assumes "parse_wf st" "p + len \<le> length (sk_mem s)" "len < 256" shows "succeeds parse_wf (ie_country s p len st)"
proof -
  have u: "unat (of_nat len :: u8) = len" using assms(3) by (simp add: unat_of_nat)
  have le: "(ucast (of_nat len :: u8) :: u16) \<le> 255"
    using u assms(3) by (simp add: word_le_nat_alt)
  show ?thesis
    unfolding ie_country_def
    by (rule succeeds_bind[OF country_total[OF parse_wfD(2)[OF assms(1)]]])
      (use assms u le in \<open>auto simp: parse_wf_def net_wf_def\<close>)
qed

section \<open>The walk\<close>

lemma parse_element_ok:
  assumes "parse_wf st" "p + len + 2 \<le> length (sk_mem s)" "2 \<le> p" "len < 256"
  shows "succeeds parse_wf (parse_element e s p len eid st)"
proof -
  have one: "succeeds parse_wf (do { x \<leftarrow> rd8 s p; Some (upd_net (f x) st) })" if "\<And>x n. net_wf n \<Longrightarrow> net_wf (f x n)" for f
    by (rule succeeds_bind[OF succ_rd8]) (use assms(1,2) that in \<open>auto simp: parse_wf_def\<close>)
  show ?thesis
    unfolding parse_element_def
    by (intro succeeds_if ie_ok one) (use assms in \<open>auto simp: net_wf_def\<close>)
qed

lemma parse_loop_ok:
  assumes "parse_wf st" "p + left + 2 \<le> length (sk_mem s)"
  shows "succeeds parse_wf (parse_loop e s p left st)"
  using assms
proof (induction left arbitrary: p st rule: less_induct)
  case (less left)
  show ?case
  proof (cases "left < 2")
    case True
    with less.prems show ?thesis by (simp add: parse_loop.simps)
  next
    case False
    with less.prems have r: "rd8 s p = Some (sk_mem s ! p)" "rd8 s (Suc p) = Some (sk_mem s ! Suc p)" by (simp_all add: rd8_def)
    let ?len = "unat (sk_mem s ! Suc p)"
    have l: "?len < 256" using byte_le[of "sk_mem s ! Suc p"] by simp
    show ?thesis
    proof (cases "left < 2 + ?len")
      case True
      with False r less.prems show ?thesis by (subst parse_loop.simps) (simp del: rd8_Some)
    next
      case in_range: False
      have "succeeds parse_wf (parse_element e s (p + 2) ?len (sk_mem s ! p) st)"
        by (rule parse_element_ok) (use less.prems in_range l in auto)
      then obtain st' where st': "parse_element e s (p + 2) ?len (sk_mem s ! p) st = Some st'" "parse_wf st'"
        by (auto simp: succeeds_def)
      have "succeeds parse_wf (parse_loop e s (p + 2 + ?len) (left - (2 + ?len)) st')"
        by (rule less.IH) (use st' less.prems in_range in auto)
      with False r in_range st'(1) show ?thesis by (subst parse_loop.simps) (simp del: rd8_Some)
    qed
  qed
qed

end
