(* ===== verification/Net_Props.thy ===== *)
theory Net_Props
  imports Net_Safe TS_Props
begin

text \<open>
  What the handling of beacons and probe responses guarantees: it never faults when the frame
  is complete, it keeps the list of networks within the entries allocated for it, and it joins
  only the networks that the user's settings allow. A frame shorter than the fixed part of a
  beacon breaks it.
\<close>

section \<open>Descriptions stay well formed\<close>

definition MAX_NETWORK_COUNT :: nat where "MAX_NETWORK_COUNT = 96"

definition mlme_wf :: "mlme \<Rightarrow> bool" where
  "mlme_wf m \<longleftrightarrow> net_wf (current_network m) \<and> (\<forall>n \<in> set (network_list m). net_wf n) \<and> dot11d_wf (m_d11 m) \<and>
     length (network_list m) + network_free m = MAX_NETWORK_COUNT"

lemma init_fixed_ok: "36 \<le> length (sk_mem s) \<Longrightarrow> succeeds net_wf (init_fixed m s stats)"
  unfolding init_fixed_def rd32_def Let_def
  by (intro succeeds_bind[OF succ_rdn] succeeds_bind[OF succ_rd16] succeeds_bind[of "\<lambda>_. True"])
    (auto simp: net_wf_def net_zero_def bss_wf_def HTInitializeBssDesc_def qos_wf_def qos_zero_def bssht_zero_def)

lemma network_init_ok:
  assumes "36 \<le> unat (stats_len stats)" "unat (stats_len stats) + 2 \<le> length (sk_mem s)" "length stack = 255" "dot11d_wf (m_d11 m)"
  shows "succeeds (\<lambda>(d, n). dot11d_wf d \<and> pred_option net_wf n) (rtllib_network_init m s stats stack)"
proof -
  have u: "unat (stats_len stats - 36) = unat (stats_len stats) - 36"
    using assms(1) by (simp add: unat_sub word_le_nat_alt)
  have p: "succeeds (\<lambda>(d, n). dot11d_wf d \<and> net_wf n)
     (rtllib_parse_info_param e s 36 (stats_len stats - 36) stack (m_d11 m) n)" if "net_wf n" for e n
    unfolding rtllib_parse_info_param_def Let_def u
    by (intro succeeds_bind[OF parse_loop_ok]) (use assms that in \<open>auto simp: parse_wf_def net_wf_def\<close>)
  show ?thesis
    unfolding rtllib_network_init_def Let_def
    by (intro succeeds_bind[OF init_fixed_ok] succeeds_bind[OF p])
      (use assms p in \<open>auto simp: net_wf_def\<close>)
qed

lemma update_bssht_ok: "bss_wf d \<Longrightarrow> bss_wf b \<Longrightarrow> succeeds bss_wf (update_bssht d b)"
  unfolding update_bssht_def
  by (intro succeeds_bind[OF succ_memcpy]) (auto simp: bss_wf_def word_le_nat_alt)

lemma update_ssid_ok: "net_wf d \<Longrightarrow> net_wf n \<Longrightarrow> succeeds net_wf (update_ssid d n)"
  unfolding update_ssid_def
  by (intro succeeds_if succeeds_bind[OF succ_memcpy] succeeds_bind[OF succ_buf_write])
    (auto simp: net_wf_def word_le_nat_alt)

lemma update_qos_ok: "net_wf d \<Longrightarrow> net_wf n \<Longrightarrow> net_wf (update_qos d n)"
  by (auto simp: update_qos_def Let_def net_wf_def qos_wf_def)

lemma update_middle_wf:
  assumes "net_wf d" "net_wf n" "bss_wf b" "length w = 64" "length rsn = 64" "length wzc = 256"
  shows "net_wf (d\<lparr>net_mode := x1, net_flags := x2, time_stamp := x3,
             beacon_interval := x4, listen_interval := x5, atim_window := x6,
             dtim_period := x7, dtim_data := x8, last_dtim_sta_time := x9,
             tim_count := x10, tim_period := x11, bssht := b,
             broadcom_cap_exist := x12, ralink_cap_exist := x13,
             atheros_cap_exist := x14, realtek_cap_exit := x15,
             marvell_cap_exist := x16, cisco_cap_exist := x17,
             unknown_cap_exist := x18, wpa_ie := w, wpa_ie_len := wpa_ie_len n,
             rsn_ie := rsn, rsn_ie_len := rsn_ie_len n, wzc_ie := wzc, wzc_ie_len := wzc_ie_len n, last_scanned := x19\<rparr>)"
  using assms by (simp add: net_wf_def)

lemma update_tail_wf:
  assumes "net_wf d" "net_wf n" "length c = 255"
  shows "net_wf (d\<lparr>wmm_info := x1, wmm_param := (if q then wmm_param n else wmm_param d),
             SignalStrength := x2, RSSI := x3, Turbo_Enable := x4,
             net_CountryIeLen := net_CountryIeLen n, net_CountryIeBuf := c, bWithAironetIE := x5,
             bCkipSupported := x6, CcxRmState := (CcxRmState d)[0 := x7],
             bCcxRmEnable := x8, MBssidMask := x9, bMBssidValid := x10,
             MBssid := MBssid n, bWithCcxVerNum := x11, BssCcxVerNumber := x12\<rparr>)"
  using assms by (simp add: net_wf_def)

lemma update_network_ok:
  assumes "net_wf d" "net_wf n"
  shows "succeeds (\<lambda>(d', n'). net_wf d' \<and> net_wf n') (update_network j d n)"
proof -
  have b: "succeeds bss_wf (update_bssht (bssht d) (bssht n))"
    using assms by (intro update_bssht_ok) (simp_all add: net_wf_def)
  have head: "net_wf (d\<lparr>net_signal := x1, net_noise := x2, net_capability := x3,
             rates := r, rates_len := rates_len n, rates_ex := rx, rates_ex_len := rates_ex_len n\<rparr>)"
    if "length r = length (rates d)" "length rx = length (rates_ex d)" for x1 x2 x3 r rx
    using assms that by (simp add: net_wf_def)
  have erp: "net_wf (if e then d1\<lparr>erp_value := x, berp_info_valid := True\<rparr> else d1)" if "net_wf d1" for e d1 x
    using that by (simp add: net_wf_def)
  have n1: "net_wf (if e then n\<lparr>berp_info_valid := True\<rparr> else n)" for e
    using assms(2) by (simp add: net_wf_def)
  note len = assms[unfolded net_wf_def word_le_nat_alt, simplified]
  show ?thesis
    unfolding update_network_def Let_def
    by (intro succeeds_bind[OF succ_memcpy] succeeds_bind[OF update_ssid_ok] succeeds_bind[OF b] head assms;
        (use len in \<open>simp; fail\<close>)?)
      (simp only: succeeds_Some split_conv,
        rule conjI[OF update_tail_wf[OF update_qos_ok[OF update_middle_wf[OF erp]]] n1]; use len assms in simp)
qed

lemma strncpy_length: "n \<le> length dst \<Longrightarrow> length (strncpy_arr n src dst) = length dst"
proof -
  have "length (takeWhile (\<lambda>b. b \<noteq> 0) (take n src)) \<le> n"
    by (rule order_trans[OF length_takeWhile_le]) simp
  then show "n \<le> length dst \<Longrightarrow> ?thesis" by (simp add: strncpy_arr_def Let_def)
qed

lemma join_frame:
  "current_network (join_infra m) = current_network m" "network_list (join_infra m) = network_list m"
  "m_d11 (join_infra m) = m_d11 m" "network_free (join_infra m) = network_free m"
  "current_network (join_ibss m) = current_network m" "network_list (join_ibss m) = network_list m"
  "m_d11 (join_ibss m) = m_d11 m" "network_free (join_ibss m) = network_free m"
  by (simp_all add: join_infra_def join_ibss_def Let_def)

definition new_net_post :: "mlme \<Rightarrow> mlme \<times> rtllib_network \<Rightarrow> bool" where
  "new_net_post m r \<longleftrightarrow> net_wf (current_network (fst r)) \<and> net_wf (snd r) \<and> network_list (fst r) = network_list m \<and>
     m_d11 (fst r) = m_d11 m \<and> network_free (fst r) = network_free m"

lemma new_net_post:
  assumes "net_wf (current_network m)" "net_wf n"
  shows "new_net_post m (rtllib_softmac_new_net m n)"
proof -
  have keep: "new_net_post m (m, n)" using assms by (simp add: new_net_post_def)
  have hid: "net_wf (if h then n\<lparr>ssid := strncpy_arr (unat (hidden_ssid_len n)) (hidden_ssid n) (ssid n), ssid_len := hidden_ssid_len n\<rparr> else n)" for h
    using assms(2) by (simp add: net_wf_def strncpy_length word_le_nat_alt)
  have ren: "net_wf (if b then k else k\<lparr>ssid := strncpy_arr 32 x (ssid k), ssid_len := ssid_len (current_network m)\<rparr>)"
    if "net_wf k" for b k x
    using assms(1) that by (simp add: net_wf_def strncpy_length)
  have join: "new_net_post m (if i then join_infra (m2\<lparr>m_wmm_acm := w\<rparr>) else join_ibss (m2\<lparr>m_wmm_acm := w\<rparr>), k)"
    if "m2 = m\<lparr>current_network := c, m_ht := h\<rparr>" "net_wf c" "net_wf k" for i c k h w m2
    using that by (simp add: new_net_post_def join_frame)
  have stay: "new_net_post m (m, k)" if "net_wf k" for k using assms that by (simp add: new_net_post_def)
  have ite: "new_net_post m (if c then x else y)" if "new_net_post m x" "new_net_post m y" for c x y using that by simp
  show ?thesis
    unfolding rtllib_softmac_new_net_def Let_def
    by (intro ite keep stay hid; (rule join, rule refl))
      (intro ren hid)+
qed

lemma new_net_wf:
  assumes "mlme_wf m" "net_wf n"
  shows "mlme_wf (fst (rtllib_softmac_new_net m n))" "net_wf (snd (rtllib_softmac_new_net m n))"
  using new_net_post[OF _ assms(2), of m] assms(1) by (simp_all add: mlme_wf_def new_net_post_def)

section \<open>The list of networks\<close>

lemma find_net_index:
  "find_net n i l old = (r, j) \<Longrightarrow> (\<forall>k. r = Some k \<longrightarrow> i \<le> k \<and> k < i + length l)"
proof (induction l arbitrary: i old)
  case (Cons t l)
  show ?case using Cons.prems Cons.IH[of "Suc i"] by (fastforce split: if_splits)
qed simp

lemma find_net_oldest:
  assumes "find_net n i l old = (None, j)" "pred_option (\<lambda>(k, t). k < i) old"
  shows "(old \<noteq> None \<or> l \<noteq> []) \<longrightarrow> (\<exists>k. j = Some k \<and> k < i + length l)"
  using assms
proof (induction l arbitrary: i old)
  case (Cons t l)
  let ?old = "case old of None \<Rightarrow> Some (i, t) | Some (j, o') \<Rightarrow> if last_scanned t < last_scanned o' then Some (i, t) else old"
  have "find_net n (Suc i) l ?old = (None, j)" using Cons.prems(1) by (simp split: if_splits)
  moreover have "pred_option (\<lambda>(k, t). k < Suc i) ?old" "?old \<noteq> None"
    using Cons.prems(2) by (auto split: option.splits)
  ultimately show ?case using Cons.IH[of "Suc i" ?old] by simp
qed auto

lemma refresh_ok:
  assumes "mlme_wf m" "net_wf n"
  shows "succeeds (\<lambda>(m', n'). mlme_wf m' \<and> net_wf n' \<and> network_list m' = network_list m \<and> network_free m' = network_free m)
           (refresh_current b m n)"
proof -
  have c: "net_wf (current_network m)" using assms(1) by (simp add: mlme_wf_def)
  have buse: "net_wf (if e then d\<lparr>buseprotection := x\<rparr> else d)" if "net_wf d" for e d x using that by (simp add: net_wf_def)
  show ?thesis
    unfolding refresh_current_def Let_def
    by (intro succeeds_if succeeds_bind[OF update_network_ok[OF c assms(2)]])
      (use assms buse in \<open>auto simp: mlme_wf_def\<close>)
qed

lemma add_network_ok:
  assumes "mlme_wf m" "net_wf n" "network_free m = 0 \<Longrightarrow> \<exists>k. j = Some k \<and> k < length (network_list m)"
  shows "succeeds (\<lambda>(m', n'). mlme_wf m' \<and> net_wf n') (add_network m n j)"
proof -
  have wf: "mlme_wf (m1\<lparr>network_list := network_list m1 @ [n]\<rparr>)"
    if "net_wf (current_network m1)" "\<forall>n \<in> set (network_list m1). net_wf n" "dot11d_wf (m_d11 m1)"
      "Suc (length (network_list m1)) + network_free m1 = MAX_NETWORK_COUNT" for m1
    using that assms(2) by (simp add: mlme_wf_def)
  show ?thesis
  proof (cases "network_free m = 0")
    case True
    then obtain k where k: "j = Some k" "k < length (network_list m)" using assms(3) by blast
    let ?l = "take k (network_list m) @ drop (Suc k) (network_list m)"
    have "mlme_wf ((m\<lparr>network_list := ?l\<rparr>)\<lparr>network_list := network_list (m\<lparr>network_list := ?l\<rparr>) @ [n]\<rparr>)"
      using True k assms(1) by (intro wf) (auto simp: mlme_wf_def dest: in_set_takeD in_set_dropD)
    from this new_net_wf[OF this assms(2)] show ?thesis
      using True k assms(2) by (auto simp: add_network_def Let_def split_beta)
  next
    case False
    let ?m = "m\<lparr>network_free := network_free m - 1\<rparr>"
    have "mlme_wf (?m\<lparr>network_list := network_list ?m @ [n]\<rparr>)"
      using False assms(1) by (intro wf) (auto simp: mlme_wf_def)
    from this new_net_wf[OF this assms(2)] show ?thesis
      using False assms(2) by (auto simp: add_network_def Let_def split_beta)
  qed
qed

lemma renew_network_ok:
  assumes "mlme_wf m" "net_wf n" "i < length (network_list m)"
  shows "succeeds (\<lambda>(m', n'). mlme_wf m' \<and> net_wf n') (renew_network m n i)"
proof -
  have t: "net_wf (network_list m ! i)" using assms(1,3) by (simp add: mlme_wf_def)
  have wf: "mlme_wf (m\<lparr>network_list := (network_list m)[i := t']\<rparr>)" if "net_wf t'" for t'
    using assms(1) that by (auto simp: mlme_wf_def dest: set_update_subset_insert[THEN subsetD])
  show ?thesis
    unfolding renew_network_def Let_def
    by (intro succeeds_bind[OF update_network_ok[OF t assms(2)]])
      (use wf new_net_wf in \<open>auto simp: split_beta\<close>)
qed

lemma handle_beacon_wf: "mlme_wf m \<Longrightarrow> mlme_wf (rtl8192_handle_beacon m)"
  by (auto simp: rtl8192_handle_beacon_def rtl8192_qos_handle_probe_response_def def_qos_parameters_def mlme_wf_def net_wf_def
      qos_wf_def Let_def)

text \<open>
  C8: a complete beacon or probe response is always handled without a fault, whatever its bytes
  are, and the device stays well formed: every known network fits its arrays, and the networks
  known and the free entries together are the 96 that were allocated. The frame is complete when
  the length in its statistics covers the fixed part and the memory reaches two bytes behind it.
\<close>

theorem probe_response_safe:
  assumes "mlme_wf m" "length stack = 255"
    and "36 \<le> unat (stats_len stats)" "unat (stats_len stats) + 2 \<le> length (sk_mem s)"
  shows "\<exists>m'. rtllib_process_probe_response m s stats stack = Some m' \<and> mlme_wf m'"
proof -
  have init: "succeeds (\<lambda>(d, n). dot11d_wf d \<and> pred_option net_wf n) (rtllib_network_init m s stats stack)"
    using assms by (intro network_init_ok) (simp_all add: mlme_wf_def)
  have d11: "mlme_wf (m\<lparr>m_d11 := d\<rparr>)" if "dot11d_wf d" for d using assms(1) that by (simp add: mlme_wf_def)
  have list: "succeeds (\<lambda>(m2, n2). mlme_wf m2 \<and> net_wf n2)
      (case find_net n 0 (network_list m1) None of (None, j) \<Rightarrow> add_network m1 n j | (Some i, _) \<Rightarrow> renew_network m1 n i)"
    if "mlme_wf m1" "net_wf n" for m1 n
  proof (cases "find_net n 0 (network_list m1) None")
    case (Pair r j)
    show ?thesis
    proof (cases r)
      case None
      have "network_list m1 \<noteq> []" if "network_free m1 = 0"
        using that \<open>mlme_wf m1\<close> by (auto simp: mlme_wf_def MAX_NETWORK_COUNT_def)
      then have "network_free m1 = 0 \<Longrightarrow> \<exists>k. j = Some k \<and> k < length (network_list m1)"
        using find_net_oldest[of n 0 "network_list m1" None j] Pair None by auto
      from add_network_ok[OF that this] show ?thesis using Pair None by simp
    next
      case (Some i)
      have "i < length (network_list m1)" using find_net_index[OF Pair] Some by auto
      from renew_network_ok[OF that this] show ?thesis using Pair Some by simp
    qed
  qed
  have "succeeds mlme_wf (rtllib_process_probe_response m s stats stack)"
    unfolding rtllib_process_probe_response_def Let_def
  proof (intro succeeds_if succeeds_bind[OF succ_rd16] succeeds_bind[OF init], goal_cases)
    case (3 fc r)
    then show ?case
      by (auto split: option.splits simp: d11 intro!: succeeds_bind[OF refresh_ok] succeeds_bind[OF list] handle_beacon_wf)
  qed (use assms in auto)
  then show ?thesis by (auto simp: succeeds_def)
qed

section \<open>A concrete device\<close>

definition ex_d11 :: dot11d_dev where
  "ex_d11 = \<lparr>pDot11dInfo = \<lparr>bEnabled = False, CountryIeLen = 0, CountryIeBuf = replicate MAX_IE_LEN 0, CountryIeSrcAddr = replicate 6 0,
     CountryIeWatchdog = 0, channel_map = (replicate (MAX_CHANNEL_NUMBER + 1) 0)[1 := 1, 6 := 1, 11 := 1],
     MaxTxPwrDbmList = replicate (MAX_CHANNEL_NUMBER + 1) 0xff, dot11d_State = DOT11D_STATE_NONE\<rparr>,
     bGlobalDomain = False, IbssStartChnl = 11, ibss_maxjoin_chal = 11\<rparr>"

definition ex_stats :: mlme_stats where
  "ex_stats = \<lparr>no_auth_rs = 0, no_ass_rs = 0, tx_auth_rq = 0, tx_ass_rq = 0, rx_ass_ok = 0, rx_ass_err = 0, rx_auth_rs_ok = 0,
     rx_auth_rs_err = 0, rx_probe_rq = 0, tx_probe_rs = 0, tx_probe_rq = 0, rx_auth_rq = 0, rx_ass_rq = 0, reassoc = 0, tx_beacons = 0\<rparr>"

definition ex_mlme :: "iw_mode \<Rightarrow> mlme" where
  "ex_mlme mode = \<lparr>m_ht = ex_ht_dev, m_d11 = ex_d11, m_tsd = ex_dev,
     current_network = net_zero\<lparr>ssid := [0x68, 0x69] @ replicate 31 0, ssid_len := 2, ht_channel := 1\<rparr>,
     network_list = [], network_free = MAX_NETWORK_COUNT, m_state = RTLLIB_NOLINK, m_iw_mode = mode, wap_set = False,
     ssid_set = True, feat_associate = True, feat_scan = True, feat_proberq = True, feat_probers = True, feat_beacons = False,
     feat_tx_queue = True, active_scan = True, scan_age = 0, m_jiffies = 1000, m_assoc_id = 0, m_aggregation = True, m_qos_support = True,
     m_wmm_acm = 0, m_rate = 22, ofdm_modulation = True, cck_modulation = True, chip = RF_8256, one_tx = True,
     NumRecvBcnInPeriod = 0, NumRecvDataInPeriod = 0, SlotNum = 2, bBusyTraffic = False, LpsIdleCount = 0,
     m_open_wep = True, auth_mode = 0, host_encrypt = True, tx_crypt = None, m_wpa_ie = [], wps_ie = [],
     PMKIDList = replicate 16 (False, replicate 6 0, replicate 16 0), bForcedBgMode = False, short_slot = True, pairwise_key_type = 0,
     hwwep = True, hwsec_active = False, beacon_seq = 0, proto_started = True, proto_stoppping = False, ieee_up = True, rf_off = False,
     m_scanning = True, actscanning = True, be_scan_inprogress = False, scan_watch_dog = 0, sync_scan_hurryup = False,
     wq_procedure = False, wq_retry = False, wq_start_ibss = False, wq_link_change = False, wq_scan = True, wq_complete = False,
     wq_beacon = False, wq_qos = False, assoc_timer = False, beacon_timer = False, associate_seq = 0, AsocRetryCount = 0,
     is_roaming = False, is_set_key = False, is_silent_reset = False, raw_tx = False, carrier = False, beacon_txing = False,
     m_sta_sleep = False, ps_enabled = False, ps_tasks = 0, last_rx_ps = 0, alloc_ok = True, uninit = (\<lambda>_. 0), m_stats = ex_stats,
     mgmt_sent = [], assocreq_ies = [], assocresp_ies = [], ap_mac_addr = replicate 6 0, wx_events = 0, basic_rate = 0,
     short_preamble = False, m_slot_time = 9, reg_msr = 0, reg_rcr = 0, hw_log = []\<rparr>"

lemma ex_d11_wf: "dot11d_wf ex_d11"
  by (simp add: ex_d11_def dot11d_wf_def dot11d_info_wf_def nth_list_update)

lemma ex_mlme_wf: "mlme_wf (ex_mlme mode)"
  using net_zero_wf by (simp add: mlme_wf_def ex_mlme_def ex_d11_wf net_wf_def)

definition ex_beacon :: skb where
  "ex_beacon = \<lparr>sk_mem = [0x80, 0, 0, 0] @ replicate 6 0xff @ [0, 20, 0xbf, 1, 2, 3, 0, 20, 0xbf, 1, 2, 3, 0, 0] @ replicate 8 0 @
     [100, 0, 1, 0] @ [0, 2, 0x68, 0x69] @ [1, 4, 0x82, 0x84, 0x8b, 0x96] @ [3, 1, 6] @ [0, 0, 0, 0], sk_len = 53\<rparr>"

definition ex_signal :: "u16 \<Rightarrow> rx_signal" where
  "ex_signal n = \<lparr>stats_len = n, band52 = False, received_channel = 6, rx_strength = 50, mac_time1 = 0\<rparr>"

lemma probe_response_safe_witness:
  "\<exists>m'. rtllib_process_probe_response (ex_mlme IW_MODE_INFRA) ex_beacon (ex_signal 49) (replicate 255 0) = Some m' \<and> mlme_wf m'"
  by (rule probe_response_safe) (simp_all add: ex_mlme_wf ex_signal_def ex_beacon_def)

section \<open>Short frames\<close>

lemma parse_zeros_fault:
  assumes "p \<le> length (sk_mem s)" "length (sk_mem s) + 2 \<le> p + left" "\<forall>i \<ge> p. i < length (sk_mem s) \<longrightarrow> sk_mem s ! i = 0"
  shows "parse_loop e s p left st = None"
  using assms
proof (induction left arbitrary: p st rule: less_induct)
  case (less left)
  have l: "\<not> left < 2" using less.prems(1,2) by simp
  show ?case
  proof (cases "Suc p < length (sk_mem s)")
    case True
    with less.prems(3) have r: "rd8 s p = Some 0" "rd8 s (Suc p) = Some 0" by (simp_all add: rd8_def)
    have "parse_element e s (p + 2) 0 0 st = Some (upd_net (\<lambda>n. n\<lparr>net_flags := net_flags n OR NETWORK_EMPTY_ESSID\<rparr>) st)"
      using True by (simp add: parse_element_def ie_ssid_def rdn_def rtllib_is_empty_essid_def Let_def)
    moreover have "parse_loop e s (p + 2) (left - 2) st' = None" for st'
      by (rule less.IH) (use less.prems True l in auto)
    ultimately show ?thesis using l r by (subst parse_loop.simps) (simp del: rd8_Some)
  next
    case False
    then have "rd8 s (Suc p) = None" by (simp add: rd8_def)
    with l show ?thesis
      by (subst parse_loop.simps, cases "rd8 s p") (simp_all only: if_False prod.case option.case)
  qed
qed

text \<open>
  C22: a beacon whose length in the statistics is below the 36 bytes of the fixed part makes the
  16-bit length of the elements wrap to at least 65500, so the walk over the elements leaves the
  received buffer; with zeros behind the fixed part this is a read outside the memory for every
  buffer of up to 65534 bytes.
\<close>

theorem short_beacon_overruns:
  assumes "alloc_ok m" "unat (stats_len stats) < 36" "36 \<le> length (sk_mem s)" "length (sk_mem s) \<le> 65534"
    and "\<forall>i \<ge> 36. i < length (sk_mem s) \<longrightarrow> sk_mem s ! i = 0"
  shows "rtllib_process_probe_response m s stats stack = None"
proof -
  have "65500 \<le> unat (stats_len stats - 36)"
    using assms(2) by (simp add: unat_sub_if_size word_size)
  then have "parse_loop e s 36 (unat (stats_len stats - 36)) st = None" for e st
    using assms by (intro parse_zeros_fault) auto
  then have "rtllib_parse_info_param e s 36 (stats_len stats - 36) stack d n = None" for e d n
    by (simp add: rtllib_parse_info_param_def)
  then show ?thesis
    using assms(1) by (simp add: rtllib_process_probe_response_def rtllib_network_init_def)
qed

lemma short_beacon_overruns_witness:
  "rtllib_process_probe_response (ex_mlme IW_MODE_INFRA) \<lparr>sk_mem = [0x80, 0, 0, 0] @ replicate 9096 0, sk_len = 28\<rparr>
     (ex_signal 28) (replicate 255 0) = None"
proof (rule short_beacon_overruns)
  have "sk_mem \<lparr>sk_mem = [0x80, 0, 0, 0] @ replicate 9096 0, sk_len = 28\<rparr> ! i = 0" if "36 \<le> i" "i < 9100" for i
    using that by (simp add: nth_append)
  then show "\<forall>i \<ge> 36. i < length (sk_mem \<lparr>sk_mem = [0x80, 0, 0, 0] @ replicate 9096 (0 :: u8), sk_len = 28\<rparr>) \<longrightarrow>
      sk_mem \<lparr>sk_mem = [0x80, 0, 0, 0] @ replicate 9096 (0 :: u8), sk_len = 28\<rparr> ! i = 0"
    by simp
qed (simp_all add: ex_mlme_def ex_signal_def)

section \<open>The network that is joined\<close>

lemma strneq_strncpy: "length b \<ge> n \<Longrightarrow> strneq n a b \<Longrightarrow> strneq n a (strncpy_arr n b c)"
proof (induction n a b arbitrary: c rule: strneq.induct)
  case (1 n a as b bs)
  show ?case
  proof (cases "b = 0")
    case False
    have "strncpy_arr (Suc n) (b # bs) c = b # strncpy_arr n bs (tl c)"
      using False by (cases c) (simp_all add: strncpy_arr_def Let_def)
    with False 1 show ?thesis by auto
  next
    case True
    with 1 show ?thesis by (simp add: strncpy_arr_def)
  qed
qed (auto simp: strncpy_arr_def)

lemma strneq_refl: "strneq n a a"
proof (induction a arbitrary: n)
  case (Cons x a)
  then show ?case by (cases n) auto
qed simp

lemma strneq_le: "strneq n a b \<Longrightarrow> k \<le> n \<Longrightarrow> strneq k a b"
proof (induction n a b arbitrary: k rule: strneq.induct)
  case (1 n a as b bs)
  then show ?case by (cases k) auto
qed (auto split: nat.split list.split)

lemma join_state:
  "m_state (join_infra m) = RTLLIB_ASSOCIATING" "wq_procedure (join_infra m)"
  "m_state (join_ibss m) = RTLLIB_LINKED"
  by (simp_all add: join_infra_def join_ibss_def Let_def)

definition joins_wanted :: "mlme \<Rightarrow> rtllib_network \<Rightarrow> mlme \<times> rtllib_network \<Rightarrow> bool" where
  "joins_wanted m n r \<longleftrightarrow> (m_state (fst r) \<noteq> m_state m \<longrightarrow>
    (m_iw_mode m = IW_MODE_INFRA \<and> net_capability n AND WLAN_CAPABILITY_ESS \<noteq> 0 \<and> m_state (fst r) = RTLLIB_ASSOCIATING \<and> wq_procedure (fst r)
     \<or> m_iw_mode m = IW_MODE_ADHOC \<and> net_capability n AND WLAN_CAPABILITY_IBSS \<noteq> 0 \<and> ht_channel n \<le> ibss_maxjoin_chal (m_d11 m) \<and>
       m_state (fst r) = RTLLIB_LINKED) \<and>
    ht_bssid (current_network (fst r)) = ht_bssid n \<and> ht_channel (current_network (fst r)) = ht_channel n \<and>
    (wap_set m \<or> ssid_set m) \<and> (wap_set m \<longrightarrow> ht_bssid (current_network m) = ht_bssid n) \<and>
    (ssid_set m \<longrightarrow> ssid_len (current_network (fst r)) = ssid_len (current_network m) \<and>
       strneq (unat (ssid_len (current_network m))) (ssid (current_network m)) (ssid (current_network (fst r)))))"

lemma joins_wanted_if:
  "(c \<Longrightarrow> joins_wanted m n x) \<Longrightarrow> (\<not> c \<Longrightarrow> joins_wanted m n y) \<Longrightarrow> joins_wanted m n (if c then x else y)"
  by simp

lemma joins_wanted_same: "joins_wanted m n (m, k)"
  by (simp add: joins_wanted_def)

lemma new_net_joins:
  assumes wf: "mlme_wf m" "net_wf n"
  shows "joins_wanted m n (rtllib_softmac_new_net m n)"
proof -
  have len: "length (ht_bssid (current_network m)) = 6" "length (ht_bssid n) = 6" "unat (hidden_ssid_len n) \<le> length (hidden_ssid n)"
    "unat (ssid_len (current_network m)) \<le> 32" "length (ssid (current_network m)) = 33"
    using wf by (simp_all add: mlme_wf_def net_wf_def word_le_nat_alt)
  have cfg: "strneq (unat (ssid_len (current_network m))) (ssid (current_network m))
      (strncpy_arr 32 (strncpy_arr 32 (ssid (current_network m)) (ssid (current_network m))) d)" for d
    using len(4,5) by (intro strneq_le[OF strneq_strncpy[OF _ strneq_strncpy[OF _ strneq_refl]]]) (simp_all add: strncpy_length)
  have join: "joins_wanted m n (if m_iw_mode m = IW_MODE_INFRA then join_infra (m2\<lparr>m_wmm_acm := w\<rparr>) else join_ibss (m2\<lparr>m_wmm_acm := w\<rparr>), k)"
    if "m2 = m\<lparr>current_network := c, m_ht := h\<rparr>" "ht_bssid c = ht_bssid n" "ht_channel c = ht_channel n"
      "m_iw_mode m = IW_MODE_INFRA \<or> m_iw_mode m = IW_MODE_ADHOC"
      "\<not> (m_iw_mode m = IW_MODE_INFRA \<and> net_capability n AND WLAN_CAPABILITY_ESS = 0)"
      "\<not> (m_iw_mode m = IW_MODE_ADHOC \<and> net_capability n AND WLAN_CAPABILITY_IBSS = 0)"
      "\<not> (m_iw_mode m = IW_MODE_ADHOC \<and> ibss_maxjoin_chal (m_d11 m) < ht_channel n)"
      "wap_set m \<or> ssid_set m" "wap_set m \<longrightarrow> ht_bssid (current_network m) = ht_bssid n"
      "ssid_set m \<longrightarrow> ssid_len c = ssid_len (current_network m) \<and>
         strneq (unat (ssid_len (current_network m))) (ssid (current_network m)) (ssid c)" for m2 c h w k
    using that by (auto simp: joins_wanted_def join_state join_frame)
  show ?thesis
    unfolding rtllib_softmac_new_net_def Let_def
    by (intro joins_wanted_if joins_wanted_same, rule join, rule refl;
        (cases "ssid_len n \<noteq> 0 \<and> ssid n ! 0 \<noteq> 0"; cases "0 < hidden_ssid_len n")?)
      (use len cfg strneq_strncpy in \<open>auto simp: join_wanted_def\<close>)
qed

text \<open>
  C11: when a network leads to a change of the state, the device was not linked, the network is
  of the kind of the mode and the state becomes the first of an association, with the procedure
  queued, or LINKED for an ad hoc network. The user has chosen an access point or a name: a
  chosen access point is the one joined, and a chosen name is the name of the network that the
  device has afterwards, also for a network that hides its name.
\<close>

theorem new_net_joins_wanted:
  assumes wf: "mlme_wf m" "net_wf n" and joined: "rtllib_softmac_new_net m n = (m', n')" "m_state m' \<noteq> m_state m"
  shows "m_state m = RTLLIB_NOLINK \<and>
    (m_iw_mode m = IW_MODE_INFRA \<and> net_capability n AND WLAN_CAPABILITY_ESS \<noteq> 0 \<and> m_state m' = RTLLIB_ASSOCIATING \<and> wq_procedure m'
     \<or> m_iw_mode m = IW_MODE_ADHOC \<and> net_capability n AND WLAN_CAPABILITY_IBSS \<noteq> 0 \<and> ht_channel n \<le> ibss_maxjoin_chal (m_d11 m) \<and>
       m_state m' = RTLLIB_LINKED) \<and>
    ht_bssid (current_network m') = ht_bssid n \<and> ht_channel (current_network m') = ht_channel n \<and>
    (wap_set m \<or> ssid_set m) \<and>
    (wap_set m \<longrightarrow> ht_bssid (current_network m) = ht_bssid n) \<and>
    (ssid_set m \<longrightarrow> ssid_len (current_network m') = ssid_len (current_network m) \<and>
       strneq (unat (ssid_len (current_network m))) (ssid (current_network m)) (ssid (current_network m')))"
  using new_net_joins[OF wf] joined
  by (cases "m_state m = RTLLIB_NOLINK") (auto simp: joins_wanted_def rtllib_softmac_new_net_def)

definition ex_net :: rtllib_network where
  "ex_net = net_zero\<lparr>ht_bssid := [0, 20, 0xbf, 1, 2, 3], ht_channel := 6, ssid := [0x68, 0x69] @ replicate 31 0, ssid_len := 2,
     net_capability := WLAN_CAPABILITY_ESS\<rparr>"

lemma ex_net_sel:
  "ht_bssid ex_net = [0, 20, 0xbf, 1, 2, 3]" "ht_channel ex_net = 6" "ssid ex_net = [0x68, 0x69] @ replicate 31 0"
  "ssid_len ex_net = 2" "net_capability ex_net AND WLAN_CAPABILITY_ESS \<noteq> 0"
  by (simp_all add: ex_net_def net_zero_def WLAN_CAPABILITY_ESS_def)

lemma ex_mlme_sel:
  "m_state (ex_mlme md) = RTLLIB_NOLINK" "m_iw_mode (ex_mlme md) = md" "\<not> wap_set (ex_mlme md)" "ssid_set (ex_mlme md)"
  "ssid (current_network (ex_mlme md)) = [0x68, 0x69] @ replicate 31 0" "ssid_len (current_network (ex_mlme md)) = 2"
  by (simp_all add: ex_mlme_def)

lemma new_net_joins_wanted_witness:
  "\<exists>m' n'. rtllib_softmac_new_net (ex_mlme IW_MODE_INFRA) ex_net = (m', n') \<and> m_state m' = RTLLIB_ASSOCIATING \<and> wq_procedure m' \<and>
     ht_channel (current_network m') = 6 \<and> strneq 2 (ssid ex_net) (ssid (current_network m'))"
proof -
  obtain m' n' where j: "rtllib_softmac_new_net (ex_mlme IW_MODE_INFRA) ex_net = (m', n')" by (rule prod.exhaust)
  have "net_wf ex_net" using net_zero_wf by (simp add: ex_net_def net_wf_def)
  moreover have "m_state (fst (rtllib_softmac_new_net (ex_mlme IW_MODE_INFRA) ex_net)) \<noteq> m_state (ex_mlme IW_MODE_INFRA)"
    by (simp add: rtllib_softmac_new_net_def Let_def join_wanted_def join_state ex_mlme_sel ex_net_sel strneq_refl)
  ultimately show ?thesis
    using new_net_joins_wanted[OF ex_mlme_wf _ j] j by (simp add: ex_mlme_sel ex_net_sel)
qed

section \<open>Elements one after the other\<close>

text \<open>An element as it stands in a frame, and the walk as a fold over the elements.\<close>

definition element_bytes :: "u8 \<times> u8 list \<Rightarrow> u8 list" where
  "element_bytes el = fst el # of_nat (length (snd el)) # snd el"

fun parse_elements :: "parse_env \<Rightarrow> skb \<Rightarrow> nat \<Rightarrow> (u8 \<times> u8 list) list \<Rightarrow> parse_st \<Rightarrow> parse_st option" where
  "parse_elements e s p [] st = Some st"
| "parse_elements e s p (el # els) st = do {
     st' \<leftarrow> parse_element e s (p + 2) (length (snd el)) (fst el) st;
     parse_elements e s (p + 2 + length (snd el)) els st' }"

lemma nth_at:
  assumes "take (length xs) (drop p m) = xs" "i < length xs" shows "m ! (p + i) = xs ! i"
proof -
  have "p \<le> length m" using assms by (cases "p \<le> length m") auto
  moreover have "xs ! i = drop p m ! i" using assms by (metis nth_take)
  ultimately show ?thesis by simp
qed

lemma parse_loop_elements:
  assumes "p + length (concat (map element_bytes els)) \<le> length (sk_mem s)"
    "take (length (concat (map element_bytes els))) (drop p (sk_mem s)) = concat (map element_bytes els)"
    "\<forall>el \<in> set els. length (snd el) < 256"
  shows "parse_loop e s p (length (concat (map element_bytes els))) st = parse_elements e s p els st"
  using assms
proof (induction els arbitrary: p st)
  case Nil
  then show ?case by (simp add: parse_loop.simps)
next
  case (Cons el els)
  let ?b = "concat (map element_bytes els)"
  obtain eid d where el: "el = (eid, d)" by (cases el)
  have d: "length d < 256" using Cons.prems(3) el by simp
  have eb: "element_bytes el = eid # of_nat (length d) # d" by (simp add: el element_bytes_def)
  have m: "take (2 + length d + length ?b) (drop p (sk_mem s)) = eid # of_nat (length d) # d @ ?b"
    using Cons.prems(2) by (simp add: eb)
  then have r: "rd8 s p = Some eid" "rd8 s (Suc p) = Some (of_nat (length d))"
    using Cons.prems(1) nth_at[of "eid # of_nat (length d) # d @ ?b" p "sk_mem s" 0]
      nth_at[of "eid # of_nat (length d) # d @ ?b" p "sk_mem s" 1]
    by (simp_all add: rd8_def eb)
  have rest: "take (length ?b) (drop (p + 2 + length d) (sk_mem s)) = ?b"
    using arg_cong[OF m, of "drop (2 + length d)"] by (simp add: drop_take add.commute add.left_commute)
  have "parse_loop e s (p + 2 + length d) (length ?b) st' = parse_elements e s (p + 2 + length d) els st'" for st'
    by (rule Cons.IH) (use Cons.prems rest in \<open>auto simp: eb\<close>)
  with r d show ?case
    by (subst parse_loop.simps) (auto simp: eb[unfolded el] el unat_of_nat simp del: rd8_Some split: option.split)
qed

end
