(* ===== verification/Net_Frames.thy ===== *)
theory Net_Frames
  imports Net_Props
begin

text \<open>
  The management frames that the softmac builds, src/src/rtllib_softmac.c: requests and
  responses, beacons, and the elements in them. The memory of a new buffer is not cleared, so
  bytes that are not written have the content \<open>uninit\<close>. A copy beyond an array and a put beyond
  the allocated size are faults, the value None; without memory the frame is None.
\<close>

section \<open>Buffers\<close>

definition junk :: "mlme \<Rightarrow> nat \<Rightarrow> nat \<Rightarrow> u8 list" where
  "junk m p n = map (uninit m) [p..<p + n]"

definition three_addr :: "mlme \<Rightarrow> u16 \<Rightarrow> u16 option \<Rightarrow> mac \<Rightarrow> mac \<Rightarrow> mac \<Rightarrow> u8 list" where
  "three_addr m fc dur a1 a2 a3 =
     put16 fc @ (case dur of None \<Rightarrow> junk m 2 2 | Some d \<Rightarrow> put16 d) @ take 6 a1 @ take 6 a2 @ take 6 a3 @ junk m 22 2"

definition arr_take :: "nat \<Rightarrow> 'b list \<Rightarrow> 'b list option" where
  "arr_take n a = (if n \<le> length a then Some (take n a) else None)"

definition put_all :: "nat \<Rightarrow> u8 list \<Rightarrow> skb option" where
  "put_all room bs = (if length bs \<le> room then Some \<lparr>sk_mem = bs, sk_len = length bs\<rparr> else None)"

abbreviation mgmt_xmit :: "skb \<Rightarrow> mlme \<Rightarrow> mlme" where
  "mgmt_xmit s m \<equiv> m\<lparr>mgmt_sent := mgmt_sent m @ [s]\<rparr>"

definition tx_encrypts :: "mlme \<Rightarrow> bool" where
  "tx_encrypts m \<longleftrightarrow> host_encrypt m \<and> (case tx_crypt m of None \<Rightarrow> False | Some wep \<Rightarrow> wep \<or> m_wpa_ie m \<noteq> [])"

abbreviation broadcast :: mac where "broadcast \<equiv> replicate 6 0xff"

section \<open>Elements\<close>

definition rtllib_MFIE_rate_len :: "mlme \<Rightarrow> nat" where
  "rtllib_MFIE_rate_len m = (if cck_modulation m then 4 + 2 else 0) + (if ofdm_modulation m then 8 + 2 else 0)"

definition rtllib_MFIE_Brate :: "mlme \<Rightarrow> u8 list" where
  "rtllib_MFIE_Brate m = (if cck_modulation m then [1, 4, 0x82, 0x84, 0x8b, 0x96] else [])"

definition rtllib_MFIE_Grate :: "mlme \<Rightarrow> u8 list" where
  "rtllib_MFIE_Grate m = (if ofdm_modulation m then [50, 8, 0x8c, 0x92, 0x98, 0xa4, 0xb0, 0xc8, 0xe0, 0xec] else [])"

definition rtllib_WMM_Info :: "u8 list" where
  "rtllib_WMM_Info = [221, 7, 0x00, 0x50, 0xf2, 0x02, 0x00, 0x01, 0x00]"

definition rtllib_TURBO_Info :: "u8 list" where
  "rtllib_TURBO_Info = [221, 7, 0x00, 0xe0, 0x4c, 0x01, 0x02, 0x11, 0x00]"

section \<open>Requests\<close>

definition rtllib_probe_req :: "mlme \<Rightarrow> skb option option" where
  "rtllib_probe_req m =
     (if \<not> alloc_ok m then Some None else do {
        let net = current_network m;
        name \<leftarrow> arr_take (unat (ssid_len net)) (ssid net);
        s \<leftarrow> put_all (24 + 2 + unat (ssid_len net) + rtllib_MFIE_rate_len m)
               (three_addr m 0x40 (Some 0) broadcast (own_addr m) broadcast @ [0, ssid_len net] @ name
                @ rtllib_MFIE_Brate m @ rtllib_MFIE_Grate m);
        Some (Some s) })"

text \<open>
  \<open>challengelen\<close> is the length of the challenge element that the caller adds; with it the frame
  is marked encrypted. The sequence number goes on.
\<close>

definition rtllib_authentication_req :: "mlme \<Rightarrow> nat \<Rightarrow> mlme \<times> u8 list option" where
  "rtllib_authentication_req m challengelen =
     (if \<not> alloc_ok m then (m, None)
      else let a = ht_bssid (current_network m);
               alg = (if auth_mode m = 0 \<or> auth_mode m = 2 then put16 0 else if auth_mode m = 1 then put16 1 else junk m 24 2)
           in (m\<lparr>associate_seq := associate_seq m + 1\<rparr>,
               Some (three_addr m (if challengelen = 0 then 0xB0 else 0x40B0) (Some 0x013a) a (own_addr m) a
                     @ alg @ put16 (associate_seq m) @ put16 0)))"

text \<open>The security of the network as the settings of the user show it; None reads beyond the element.\<close>

definition rtllib_ap_sec_type :: "mlme \<Rightarrow> u8 option" where
  "rtllib_ap_sec_type m =
     (let w = m_wpa_ie m;
          encrypt = (net_capability (current_network m) AND 0x10 \<noteq> 0 \<or> host_encrypt m \<and> tx_crypt m = Some True)
      in if w = [] then Some (if encrypt then 1 else 0)
         else if w ! 0 = 0xdd then
           (if 18 \<le> length w then Some (if take 4 (drop 14 w) = [0x00, 0x50, 0xf2, 0x04] then 4 else 2) else None)
         else if w ! 0 = 0x30 then
           (if 14 \<le> length w then Some (if take 4 (drop 10 w) = [0x00, 0x0f, 0xac, 0x04] then 4 else 2) else None)
         else Some 2)"

definition SecIsInPMKIDList :: "mlme \<Rightarrow> mac \<Rightarrow> u8 list option" where
  "SecIsInPMKIDList m a =
     map_option (\<lambda>(u, b, k). k) (find (\<lambda>(used, b, k). used \<and> take 6 b = take 6 a) (take 16 (PMKIDList m)))"

text \<open>The elements of the high throughput component, built into its buffers.\<close>

definition build_ht_cap :: "mlme \<Rightarrow> (mlme \<times> u8 list \<times> nat) option" where
  "build_ht_cap m = do {
     (b, n) \<leftarrow> HTConstructCapabilityElement (ht_view m) (SelfHTCap (hti (m_ht m))) 26 (tx_encrypts m);
     Some (on_ht (upd_ht (\<lambda>h. h\<lparr>SelfHTCap := b\<rparr>)) m, b, unat n) }"

definition build_agg :: "mlme \<Rightarrow> (mlme \<times> u8 list \<times> nat) option" where
  "build_agg m = do {
     (b, n) \<leftarrow> HTConstructRT2RTAggElement (ht_view m) (szRT2RTAggBuffer (hti (m_ht m))) 10;
     Some (on_ht (upd_ht (\<lambda>h. h\<lparr>szRT2RTAggBuffer := b\<rparr>)) m, b, unat n) }"

text \<open>What the request needs of the high throughput component: the two elements, if they are sent.\<close>

definition assoc_ht :: "mlme \<Rightarrow> (mlme \<times> (u8 list \<times> nat) option \<times> (u8 list \<times> nat) option) option" where
  "assoc_ht m = do {
     sec \<leftarrow> rtllib_ap_sec_type m;
     let m0 = (if sec AND 2 \<noteq> 0 \<or> bForcedBgMode m
               then on_ht (\<lambda>h. (upd_ht (\<lambda>i. i\<lparr>bEnableHT := False\<rparr>) h)\<lparr>ht_mode := IEEE_G\<rparr>) m else m);
     if bCurrentHTSupport (hti (m_ht m0)) \<and> bEnableHT (hti (m_ht m0)) then do {
       (m1, c, n) \<leftarrow> build_ht_cap m0;
       if bCurrentRT2RTAggregation (hti (m_ht m1)) then do {
         (m2, r, k) \<leftarrow> build_agg m1;
         Some (m2, Some (c, n), Some (r, k)) }
       else Some (m1, Some (c, n), None) }
     else Some (m0, None, None) }"

definition assoc_capability :: "mlme \<Rightarrow> u16" where
  "assoc_capability m =
     (let c = net_capability (current_network m)
      in WLAN_CAPABILITY_ESS OR (if c AND 0x10 \<noteq> 0 then 0x10 else 0) OR (if c AND 0x20 \<noteq> 0 then 0x20 else 0)
         OR (if short_slot m \<and> c AND 0x400 \<noteq> 0 then 0x400 else 0))"

definition ccx_elements :: "rtllib_network \<Rightarrow> u8 list" where
  "ccx_elements net =
     (if bCkipSupported net then [133, 30, 0x00, 0x01, 0x66] @ replicate 5 0 @ [0x18] @ replicate 21 0 else [])
     @ (if bCcxRmEnable net then [221, 6, 0x00, 0x40, 0x96, 0x01, 0x01, 0x00] else [])
     @ (if 2 \<le> BssCcxVerNumber net then [221, 5, 0x00, 0x40, 0x96, 0x03, BssCcxVerNumber net] else [])"

definition ht_element :: "u8 \<Rightarrow> u8 list \<times> nat \<Rightarrow> u8 list option" where
  "ht_element eid x = do { b \<leftarrow> arr_take (snd x - 2) (fst x); Some ([eid, of_nat (snd x - 2)] @ b) }"

definition opt_element :: "bool \<Rightarrow> u8 \<Rightarrow> (u8 list \<times> nat) option \<Rightarrow> u8 list option" where
  "opt_element c eid x = (case x of Some y \<Rightarrow> if c then ht_element eid y else Some [] | None \<Rightarrow> Some [])"

definition rtllib_association_req :: "mlme \<Rightarrow> (mlme \<times> skb option) option" where
  "rtllib_association_req m = do {
     (m1, cap, agg) \<leftarrow> assoc_ht m;
     let net = current_network m;
     let pmk = SecIsInPMKIDList m (ht_bssid net);
     let room = 28 + 2 + unat (ssid_len net)
                + (if rates_len net \<noteq> 0 then unat (rates_len net) + 2 else 0)
                + (if rates_ex_len net \<noteq> 0 then unat (rates_ex_len net) + 2 else 0)
                + length (m_wpa_ie m) + (if pmk \<noteq> None then 18 else 0) + length (wps_ie m)
                + (if qos_support (qos_data net) then 9 else 0) + (if Turbo_Enable net then 9 else 0)
                + (case cap of Some (c, n) \<Rightarrow> n | None \<Rightarrow> 0) + (case agg of Some (c, n) \<Rightarrow> n | None \<Rightarrow> 0)
                + (if bCkipSupported net then 32 else 0) + (if bCcxRmEnable net then 8 else 0)
                + (if 2 \<le> BssCcxVerNumber net then 7 else 0);
     if \<not> alloc_ok m then Some (m1, None) else do {
       let ewc = (ePeerHTSpecVer (hti (m_ht m1)) = HT_SPEC_VER_EWC);
       name \<leftarrow> arr_take (unat (ssid_len net)) (ssid net);
       r \<leftarrow> arr_take (unat (rates_len net)) (rates net);
       rx \<leftarrow> arr_take (unat (rates_ex_len net)) (rates_ex net);
       h1 \<leftarrow> opt_element (\<not> ewc) 45 cap;
       h2 \<leftarrow> opt_element ewc 221 cap;
       a \<leftarrow> opt_element True 221 agg;
       s \<leftarrow> put_all room
         (three_addr m 0 (Some 37) (ht_bssid net) (own_addr m) (ht_bssid net)
          @ put16 (assoc_capability m) @ put16 (listen_interval net) @ [0, ssid_len net] @ name
          @ (if rates_len net \<noteq> 0 then [1, rates_len net] @ r else [])
          @ (if rates_ex_len net \<noteq> 0 then [50, rates_ex_len net] @ rx else [])
          @ ccx_elements net @ h1 @ m_wpa_ie m @ (case pmk of Some k \<Rightarrow> [1, 0] @ take 16 k | None \<Rightarrow> [])
          @ (if qos_support (qos_data net) then rtllib_WMM_Info else []) @ wps_ie m
          @ (if Turbo_Enable net then rtllib_TURBO_Info else []) @ h2 @ a);
       Some (m1\<lparr>ap_mac_addr := ht_bssid net, assocreq_ies := drop 28 (sk_mem s)\<rparr>, Some s) } }"

section \<open>Responses and beacons\<close>

definition rtllib_assoc_resp :: "mlme \<Rightarrow> mac \<Rightarrow> mlme \<times> skb option" where
  "rtllib_assoc_resp m dest =
     (if \<not> alloc_ok m then (m, None)
      else let cap = (if m_iw_mode m = IW_MODE_MASTER then WLAN_CAPABILITY_ESS else WLAN_CAPABILITY_IBSS)
                     OR (if short_slot m then 0x400 else 0) OR (if host_encrypt m \<and> tx_crypt m \<noteq> None then 0x10 else 0)
           in (m\<lparr>m_assoc_id := (if m_assoc_id m = 0x2007 then 0 else m_assoc_id m + 1)\<rparr>,
               put_all (30 + rtllib_MFIE_rate_len m)
                 (three_addr m 0x10 None dest (own_addr m) (own_addr m) @ put16 cap @ put16 0 @ put16 (m_assoc_id m)
                  @ rtllib_MFIE_Brate m @ rtllib_MFIE_Grate m)))"

text \<open>The length is set to 30 before \<open>skb_put\<close> adds 30 to it.\<close>

definition rtllib_auth_resp :: "mlme \<Rightarrow> u16 \<Rightarrow> mac \<Rightarrow> skb option" where
  "rtllib_auth_resp m status dest =
     (if \<not> alloc_ok m then None
      else Some \<lparr>sk_mem = three_addr m 0xB0 None dest (own_addr m) (own_addr m) @ put16 0 @ put16 2 @ put16 status @ junk m 30 1,
                 sk_len = 30 + 30\<rparr>)"

definition rtllib_disauth_skb :: "mlme \<Rightarrow> u16 \<Rightarrow> skb option" where
  "rtllib_disauth_skb m asRsn =
     (if \<not> alloc_ok m then None
      else let a = ht_bssid (current_network m) in put_all 26 (three_addr m 0xC0 (Some 0) a (own_addr m) a @ put16 asRsn))"

definition rtllib_disassociate_skb :: "mlme \<Rightarrow> u16 \<Rightarrow> skb option" where
  "rtllib_disassociate_skb m asRsn =
     (if \<not> alloc_ok m then None
      else let a = ht_bssid (current_network m) in put_all 26 (three_addr m 0xA0 (Some 0) a (own_addr m) a @ put16 asRsn))"

definition SendDisassociation :: "mlme \<Rightarrow> bool \<Rightarrow> u16 \<Rightarrow> mlme" where
  "SendDisassociation m deauth asRsn =
     (case (if deauth then rtllib_disauth_skb m asRsn else rtllib_disassociate_skb m asRsn) of
        Some s \<Rightarrow> mgmt_xmit s m | None \<Rightarrow> m)"

text \<open>The elements of the high throughput component are built for a response, but not put into it.\<close>

definition probe_ht :: "mlme \<Rightarrow> mlme option" where
  "probe_ht m =
     (if \<not> bCurrentHTSupport (hti (m_ht m)) then Some m else do {
        (m1, _) \<leftarrow> build_ht_cap m;
        (b, n) \<leftarrow> HTConstructInfoElement (ht_view m1) (SelfHTInfo (hti (m_ht m1))) 22;
        let m2 = on_ht (upd_ht (\<lambda>h. h\<lparr>SelfHTInfo := b\<rparr>)) m1;
        if bRegRT2RTAggregation (hti (m_ht m2)) then map_option fst (build_agg m2) else Some m2 })"

definition resp_capability :: "mlme \<Rightarrow> u16" where
  "resp_capability m =
     (let c = net_capability (current_network m)
      in (c AND WLAN_CAPABILITY_IBSS) OR (c AND 0x20) OR (if short_slot m \<and> c AND 0x400 \<noteq> 0 then 0x400 else 0)
         OR (if tx_encrypts m then 0x10 else 0))"

definition ibss_wpa_ie :: "mlme \<Rightarrow> mlme option" where
  "ibss_wpa_ie m =
     (if m_wpa_ie m \<noteq> [] \<and> m_iw_mode m = IW_MODE_ADHOC
      then do { a \<leftarrow> buf_write 14 (take 4 (drop 8 (m_wpa_ie m))) (m_wpa_ie m); if 12 \<le> length (m_wpa_ie m) then Some (m\<lparr>m_wpa_ie := a\<rparr>) else None }
      else Some m)"

definition resp_elements :: "mlme \<Rightarrow> u8 list option" where
  "resp_elements m = do {
     let net = current_network m;
     name \<leftarrow> arr_take (unat (ssid_len net)) (ssid net);
     r \<leftarrow> arr_take (unat (rates_len net)) (rates net);
     rx \<leftarrow> arr_take (unat (rates_ex_len net)) (rates_ex net);
     Some ([0, ssid_len net] @ name @ [1, rates_len net] @ r @ [3, 1, ht_channel net]
       @ (if net_capability net AND WLAN_CAPABILITY_IBSS \<noteq> 0 then [6, 2] @ put16 (atim_window net) else [])
       @ (if net_mode net = ucast IEEE_G \<or> net_mode net = ucast IEEE_N_24G \<and> bCurSuppCCK (hti (m_ht m))
          then [42, 1, if buseprotection net then 2 else 0] else [])
       @ (if rates_ex_len net \<noteq> 0 then [50, rates_ex_len net] @ rx else [])) }"

definition rtllib_probe_resp :: "mlme \<Rightarrow> u16 \<Rightarrow> mac \<Rightarrow> (mlme \<times> skb option) option" where
  "rtllib_probe_resp m fc dest = do {
     m1 \<leftarrow> probe_ht m;
     if \<not> alloc_ok m then Some (m1, None) else do {
       let net = current_network m;
       els \<leftarrow> resp_elements m1;
       m2 \<leftarrow> ibss_wpa_ie m1;
       let bs = three_addr m fc (Some 0) dest (own_addr m) (ht_bssid net) @ junk m 24 8
                @ put16 (beacon_interval net) @ put16 (resp_capability m) @ els @ m_wpa_ie m2;
       Some (m2, Some \<lparr>sk_mem = bs, sk_len = length bs\<rparr>) } }"

definition rtllib_get_beacon0 :: "mlme \<Rightarrow> (mlme \<times> skb option) option" where
  "rtllib_get_beacon0 m = rtllib_probe_resp m 0x80 broadcast"

definition rtllib_get_beacon :: "mlme \<Rightarrow> (mlme \<times> skb option) option" where
  "rtllib_get_beacon m = do {
     (m1, b) \<leftarrow> rtllib_get_beacon0 m;
     case b of None \<Rightarrow> Some (m1, None)
     | Some s \<Rightarrow> Some (m1\<lparr>beacon_seq := (if beacon_seq m1 = 0xFFF then 0 else beacon_seq m1 + 1)\<rparr>,
                     Some (s\<lparr>sk_mem := take 22 (sk_mem s) @ put16 (push_bit 4 (beacon_seq m1)) @ drop 24 (sk_mem s)\<rparr>)) }"

definition rtllib_send_beacon :: "mlme \<Rightarrow> mlme option" where
  "rtllib_send_beacon m =
     (if \<not> ieee_up m then Some m else do {
        (m1, b) \<leftarrow> rtllib_get_beacon0 m;
        let m2 = (case b of None \<Rightarrow> m1
                  | Some s \<Rightarrow> upd_stats (\<lambda>t. t\<lparr>tx_beacons := tx_beacons t + 1\<rparr>) (mgmt_xmit s m1));
        Some (if beacon_txing m2 then m2\<lparr>beacon_timer := True\<rparr> else m2) })"

definition rtllib_send_probe :: "mlme \<Rightarrow> mlme option" where
  "rtllib_send_probe m = do {
     b \<leftarrow> rtllib_probe_req m;
     Some (case b of None \<Rightarrow> m | Some s \<Rightarrow> upd_stats (\<lambda>t. t\<lparr>tx_probe_rq := tx_probe_rq t + 1\<rparr>) (mgmt_xmit s m)) }"

definition rtllib_send_probe_requests :: "mlme \<Rightarrow> mlme option" where
  "rtllib_send_probe_requests m =
     (if active_scan m \<and> feat_proberq m then do { m1 \<leftarrow> rtllib_send_probe m; rtllib_send_probe m1 } else Some m)"

definition rtllib_resp_to_assoc_rq :: "mlme \<Rightarrow> mac \<Rightarrow> mlme" where
  "rtllib_resp_to_assoc_rq m dest = (case rtllib_assoc_resp m dest of (m1, Some s) \<Rightarrow> mgmt_xmit s m1 | (m1, None) \<Rightarrow> m1)"

definition rtllib_resp_to_auth :: "mlme \<Rightarrow> u16 \<Rightarrow> mac \<Rightarrow> mlme" where
  "rtllib_resp_to_auth m st dest = (case rtllib_auth_resp m st dest of Some s \<Rightarrow> mgmt_xmit s m | None \<Rightarrow> m)"

definition rtllib_resp_to_probe :: "mlme \<Rightarrow> mac \<Rightarrow> mlme option" where
  "rtllib_resp_to_probe m dest = do {
     (m1, b) \<leftarrow> rtllib_probe_resp m 0x50 dest;
     Some (case b of Some s \<Rightarrow> mgmt_xmit s m1 | None \<Rightarrow> m1) }"

end
