(* ===== verification/Net_Roundtrip.thy ===== *)
theory Net_Roundtrip
  imports Net_Frames
begin

text \<open>
  What the frames of the driver mean to a station that runs the same code: the beacon of an ad
  hoc cell gives the receiver the name, the rates and the channel of the cell; and which frames
  of the driver break the rules of its own buffers.
\<close>

section \<open>Elements in a buffer\<close>

definition els_at :: "skb \<Rightarrow> nat \<Rightarrow> (u8 \<times> u8 list) list \<Rightarrow> bool" where
  "els_at s p els \<longleftrightarrow> (\<exists>xs ys. sk_mem s = xs @ concat (map element_bytes els) @ ys \<and> length xs = p)"

lemma els_at_tl: "els_at s p (el # els) \<Longrightarrow> els_at s (p + 2 + length (snd el)) els"
proof -
  assume "els_at s p (el # els)"
  then obtain xs ys where "sk_mem s = (xs @ element_bytes el) @ concat (map element_bytes els) @ ys" "length xs = p"
    by (auto simp: els_at_def)
  then show ?thesis unfolding els_at_def by (intro exI[of _ "xs @ element_bytes el"] exI[of _ ys]) (simp add: element_bytes_def)
qed

lemma els_at_data: "els_at s p (el # els) \<Longrightarrow> rdn s (p + 2) (length (snd el)) = Some (snd el)"
  by (auto simp: els_at_def element_bytes_def rdn_def)

lemma els_at_take: "els_at s p (el # els) \<Longrightarrow> k \<le> length (snd el) \<Longrightarrow> rdn s (p + 2) k = Some (take k (snd el))"
  by (auto simp: els_at_def element_bytes_def rdn_def)

lemma els_at_hd: "els_at s p ((eid, x # d) # els) \<Longrightarrow> rd8 s (p + 2) = Some x"
  by (auto simp: els_at_def element_bytes_def rd8_def nth_append)

lemma parse_loop_els_at:
  assumes "els_at s p els" "\<forall>el \<in> set els. length (snd el) < 256"
  shows "parse_loop e s p (length (concat (map element_bytes els))) st = parse_elements e s p els st"
proof (rule parse_loop_elements)
  obtain xs ys where *: "sk_mem s = xs @ concat (map element_bytes els) @ ys" "length xs = p"
    using assms(1) by (auto simp: els_at_def)
  show "p + length (concat (map element_bytes els)) \<le> length (sk_mem s)" using * by simp
  show "take (length (concat (map element_bytes els))) (drop p (sk_mem s)) = concat (map element_bytes els)" using * by simp
qed (rule assms(2))

section \<open>Steps of the parser\<close>

lemma step_ssid:
  assumes "els_at s p ((0, d) # els)" "length d \<le> 32" "\<not> rtllib_is_empty_essid d" "length (ssid (ps_net st)) = 33"
  shows "parse_elements e s p ((0, d) # els) st =
    parse_elements e s (p + 2 + length d) els
      (upd_net (\<lambda>m. m\<lparr>ssid_len := of_nat (length d), ssid := d @ replicate (32 - length d) 0 @ drop 32 (ssid (ps_net st))\<rparr>) st)"
proof -
  have "ie_ssid s (p + 2) (length d) st = Some (upd_net (\<lambda>m. m\<lparr>ssid_len := of_nat (length d),
      ssid := d @ replicate (32 - length d) 0 @ drop 32 (ssid (ps_net st))\<rparr>) st)"
    using assms(2-4) els_at_data[OF assms(1)]
    by (cases "length d = 32") (auto simp: ie_ssid_def Let_def memcpy_arr_def buf_write_def)
  then show ?thesis by (simp add: parse_element_def)
qed

lemma step_rates:
  assumes "els_at s p ((1, d) # els)" "length d \<le> 12" "length (rates (ps_net st)) = 12"
  shows "parse_elements e s p ((1, d) # els) st =
    parse_elements e s (p + 2 + length d) els
      (upd_net (\<lambda>m. m\<lparr>rates_len := of_nat (length d), rates := d @ drop (length d) (rates (ps_net st)),
         net_flags := fold (rate_flags True) d (net_flags m)\<rparr>) st)"
proof -
  have "ie_rates s (p + 2) (length d) st = Some (upd_net (\<lambda>m. m\<lparr>rates_len := of_nat (length d),
      rates := d @ drop (length d) (rates (ps_net st)), net_flags := fold (rate_flags True) d (net_flags m)\<rparr>) st)"
    using assms(2,3) els_at_data[OF assms(1)] by (simp add: ie_rates_def Let_def buf_write_def)
  then show ?thesis by (simp add: parse_element_def)
qed

lemma step_rates_ex:
  assumes "els_at s p ((50, d) # els)" "length d \<le> 16" "length (rates_ex (ps_net st)) = 16"
  shows "parse_elements e s p ((50, d) # els) st =
    parse_elements e s (p + 2 + length d) els
      (upd_net (\<lambda>m. m\<lparr>rates_ex_len := of_nat (length d), rates_ex := d @ drop (length d) (rates_ex (ps_net st)),
         net_flags := fold (rate_flags False) d (net_flags m)\<rparr>) st)"
proof -
  have "ie_rates_ex s (p + 2) (length d) st = Some (upd_net (\<lambda>m. m\<lparr>rates_ex_len := of_nat (length d),
      rates_ex := d @ drop (length d) (rates_ex (ps_net st)), net_flags := fold (rate_flags False) d (net_flags m)\<rparr>) st)"
    using assms(2,3) els_at_data[OF assms(1)] by (simp add: ie_rates_ex_def Let_def buf_write_def)
  then show ?thesis by (simp add: parse_element_def)
qed

lemma step_byte:
  assumes "els_at s p ((eid, x # d) # els)"
  shows "eid = 3 \<Longrightarrow> parse_elements e s p ((eid, x # d) # els) st =
      parse_elements e s (p + 2 + length (x # d)) els (upd_net (\<lambda>n. n\<lparr>ht_channel := x\<rparr>) st)"
    "eid = 6 \<Longrightarrow> parse_elements e s p ((eid, x # d) # els) st =
      parse_elements e s (p + 2 + length (x # d)) els (upd_net (\<lambda>n. n\<lparr>atim_window := ucast x\<rparr>) st)"
    "eid = 42 \<Longrightarrow> parse_elements e s p ((eid, x # d) # els) st =
      parse_elements e s (p + 2 + length (x # d)) els
        (upd_net (\<lambda>n. n\<lparr>erp_value := x, net_flags := net_flags n OR NETWORK_HAS_ERP_VALUE\<rparr>) st)"
  using els_at_hd[OF assms] by (simp_all add: parse_element_def del: rd8_Some)

text \<open>A network keeps one of the two kinds of rates, so its mode is never empty.\<close>

definition has_rates :: "u32 \<Rightarrow> bool" where
  "has_rates f \<longleftrightarrow> bit f 1 \<or> bit f 2"

lemma flag_bits:
  "f AND NETWORK_HAS_OFDM \<noteq> 0 \<longleftrightarrow> bit f 1" "f AND NETWORK_HAS_CCK \<noteq> 0 \<longleftrightarrow> bit f 2" for f :: u32
  using and_exp_eq_0_iff_not_bit[of f 1] and_exp_eq_0_iff_not_bit[of f 2]
  by (auto simp: NETWORK_HAS_OFDM_def NETWORK_HAS_CCK_def)

lemma const_bits:
  "bit NETWORK_HAS_OFDM 1" "\<not> bit NETWORK_HAS_CCK 1" "bit NETWORK_HAS_CCK 2"
  unfolding NETWORK_HAS_OFDM_def NETWORK_HAS_CCK_def by code_simp+

lemma has_rates_or: "has_rates f \<Longrightarrow> has_rates (f OR g)"
  by (auto simp: has_rates_def bit_or_iff)

lemma has_rates_step: "has_rates f \<Longrightarrow> has_rates (rate_flags c r f)"
  using const_bits by (auto simp: rate_flags_def Let_def has_rates_def bit_or_iff bit_and_iff bit_not_iff)

lemma has_rates_fold: "has_rates f \<Longrightarrow> has_rates (fold (rate_flags c) d f)"
  by (induction d arbitrary: f) (auto simp: has_rates_step)

lemma init_mode_rates: "has_rates (net_flags n) \<Longrightarrow> init_mode False n \<noteq> 0"
  unfolding init_mode_def Let_def flag_bits has_rates_def
  by (auto simp: IEEE_G_def IEEE_B_def IEEE_A_def IEEE_N_24G_def)

section \<open>The elements of a beacon\<close>

definition ibss_els :: "rtllib_network \<Rightarrow> (u8 \<times> u8 list) list" where
  "ibss_els net = (if net_capability net AND WLAN_CAPABILITY_IBSS \<noteq> 0 then [(6, put16 (atim_window net))] else [])"

definition erp_els :: "mlme \<Rightarrow> (u8 \<times> u8 list) list" where
  "erp_els m = (let net = current_network m in
     if net_mode net = ucast IEEE_G \<or> net_mode net = ucast IEEE_N_24G \<and> bCurSuppCCK (hti (m_ht m))
     then [(42, [if buseprotection net then 2 else 0])] else [])"

definition ex_els :: "rtllib_network \<Rightarrow> (u8 \<times> u8 list) list" where
  "ex_els net = (if rates_ex_len net \<noteq> 0 then [(50, take (unat (rates_ex_len net)) (rates_ex net))] else [])"

definition resp_els :: "mlme \<Rightarrow> (u8 \<times> u8 list) list" where
  "resp_els m = (let net = current_network m in
     [(0, take (unat (ssid_len net)) (ssid net)), (1, take (unat (rates_len net)) (rates net)), (3, [ht_channel net])]
     @ ibss_els net @ erp_els m @ ex_els net)"

lemma net_wf_lengths:
  assumes "net_wf n"
  shows "unat (ssid_len n) \<le> 32" "length (ssid n) = 33" "unat (rates_len n) \<le> 12" "length (rates n) = 12"
    "unat (rates_ex_len n) \<le> 16" "length (rates_ex n) = 16" "length (ht_bssid n) = 6"
  using assms by (simp_all add: net_wf_def word_le_nat_alt)

lemma resp_elements_eq:
  assumes "net_wf (current_network m)"
  shows "resp_elements m = Some (concat (map element_bytes (resp_els m)))"
  using net_wf_lengths[OF assms]
  by (simp add: resp_elements_def arr_take_def resp_els_def ibss_els_def erp_els_def ex_els_def element_bytes_def Let_def put16_def)

lemma resp_els_short:
  assumes "net_wf (current_network m)" shows "\<forall>el \<in> set (resp_els m). length (snd el) < 256"
  using net_wf_lengths[OF assms] by (auto simp: resp_els_def ibss_els_def erp_els_def ex_els_def Let_def put16_def)

definition heard :: "rtllib_network \<Rightarrow> rtllib_network \<Rightarrow> bool" where
  "heard net n \<longleftrightarrow> ssid_len n = ssid_len net \<and> take (unat (ssid_len net)) (ssid n) = take (unat (ssid_len net)) (ssid net) \<and>
     rates_len n = rates_len net \<and> take (unat (rates_len net)) (rates n) = take (unat (rates_len net)) (rates net) \<and>
     ht_channel n = ht_channel net"

definition fixed_same :: "rtllib_network \<Rightarrow> rtllib_network \<Rightarrow> bool" where
  "fixed_same n0 n \<longleftrightarrow> ht_bssid n = ht_bssid n0 \<and> net_capability n = net_capability n0 \<and> beacon_interval n = beacon_interval n0"

definition mid :: "rtllib_network \<Rightarrow> rtllib_network \<Rightarrow> parse_st \<Rightarrow> bool" where
  "mid net n0 st \<longleftrightarrow> heard net (ps_net st) \<and> fixed_same n0 (ps_net st) \<and> has_rates (net_flags (ps_net st)) \<and>
     rates_ex (ps_net st) = replicate 16 0 \<and> rates_ex_len (ps_net st) = 0"

definition done_ok :: "rtllib_network \<Rightarrow> rtllib_network \<Rightarrow> parse_st \<Rightarrow> bool" where
  "done_ok net n0 st \<longleftrightarrow> heard net (ps_net st) \<and> fixed_same n0 (ps_net st) \<and> has_rates (net_flags (ps_net st)) \<and>
     rates_ex_len (ps_net st) = rates_ex_len net \<and>
     take (unat (rates_ex_len net)) (rates_ex (ps_net st)) = take (unat (rates_ex_len net)) (rates_ex net)"

lemma parse_ex:
  assumes "els_at s p (ex_els net)" "mid net n0 st" "net_wf net"
  shows "succeeds (done_ok net n0) (parse_elements e s p (ex_els net) st)"
proof (cases "rates_ex_len net = 0")
  case True
  with assms(2) show ?thesis by (simp add: ex_els_def mid_def done_ok_def)
next
  case False
  let ?d = "take (unat (rates_ex_len net)) (rates_ex net)"
  have d: "length ?d = unat (rates_ex_len net)" "length ?d \<le> 16" using net_wf_lengths[OF assms(3)] by auto
  have e: "els_at s p [(50, ?d)]" using assms(1) False by (simp add: ex_els_def)
  have "length (rates_ex (ps_net st)) = 16" using assms(2) by (simp add: mid_def)
  from step_rates_ex[OF e d(2) this] show ?thesis
    using False assms(2) d by (simp add: ex_els_def mid_def done_ok_def heard_def fixed_same_def has_rates_fold)
qed

lemma parse_erp:
  assumes "els_at s p (erp_els m @ ex_els net)" "mid net n0 st" "net_wf net"
  shows "succeeds (done_ok net n0) (parse_elements e s p (erp_els m @ ex_els net) st)"
proof (cases "erp_els m")
  case Nil
  with parse_ex[of s p net n0 st] assms show ?thesis by simp
next
  case (Cons el els)
  then obtain x where x: "erp_els m = [(42, [x])]" by (auto simp: erp_els_def Let_def split: if_splits)
  with assms(1) have at: "els_at s p ((42, [x]) # ex_els net)" by simp
  let ?st = "upd_net (\<lambda>n. n\<lparr>erp_value := x, net_flags := net_flags n OR NETWORK_HAS_ERP_VALUE\<rparr>) st"
  have "mid net n0 ?st" using assms(2) by (simp add: mid_def heard_def fixed_same_def has_rates_or)
  from parse_ex[OF els_at_tl[OF at] this assms(3), of e] step_byte(3)[OF at refl, of e st] x
  show ?thesis by simp
qed

lemma parse_ibss:
  assumes "els_at s p (ibss_els k @ erp_els m @ ex_els net)" "mid net n0 st" "net_wf net"
  shows "succeeds (done_ok net n0) (parse_elements e s p (ibss_els k @ erp_els m @ ex_els net) st)"
proof (cases "ibss_els k")
  case Nil
  with parse_erp[of s p m net n0 st] assms show ?thesis by simp
next
  case (Cons el els)
  then obtain x y where x: "ibss_els k = [(6, [x, y])]" by (auto simp: ibss_els_def put16_def split: if_splits)
  with assms(1) have at: "els_at s p ((6, [x, y]) # erp_els m @ ex_els net)" by simp
  let ?st = "upd_net (\<lambda>n. n\<lparr>atim_window := ucast x\<rparr>) st"
  have "mid net n0 ?st" using assms(2) by (simp add: mid_def heard_def fixed_same_def)
  from parse_erp[OF els_at_tl[OF at] this assms(3), of e] step_byte(2)[OF at refl, of e st] x
  show ?thesis by simp
qed

lemma parse_resp:
  assumes "els_at s p (resp_els m)" "net_wf (current_network m)" "\<not> rtllib_is_empty_essid (take (unat (ssid_len (current_network m))) (ssid (current_network m)))"
    "length (ssid (ps_net st)) = 33" "length (rates (ps_net st)) = 12" "rates_ex (ps_net st) = replicate 16 0" "rates_ex_len (ps_net st) = 0"
    "has_rates (net_flags (ps_net st))"
  shows "succeeds (done_ok (current_network m) (ps_net st)) (parse_elements e s p (resp_els m) st)"
proof -
  let ?net = "current_network m"
  let ?d0 = "take (unat (ssid_len ?net)) (ssid ?net)" and ?d1 = "take (unat (rates_len ?net)) (rates ?net)"
  note len = net_wf_lengths[OF assms(2)]
  let ?tl = "ibss_els ?net @ erp_els m @ ex_els ?net"
  have els: "resp_els m = (0, ?d0) # (1, ?d1) # (3, [ht_channel ?net]) # ?tl" by (simp add: resp_els_def Let_def)
  note at0 = assms(1)[unfolded els]
  note at1 = els_at_tl[OF at0] and at2 = els_at_tl[OF els_at_tl[OF at0]]
  note at3 = els_at_tl[OF at2]
  let ?s0 = "upd_net (\<lambda>m. m\<lparr>ssid_len := of_nat (length ?d0), ssid := ?d0 @ replicate (32 - length ?d0) 0 @ drop 32 (ssid (ps_net st))\<rparr>) st"
  let ?s1 = "upd_net (\<lambda>m. m\<lparr>rates_len := of_nat (length ?d1), rates := ?d1 @ drop (length ?d1) (rates (ps_net ?s0)),
         net_flags := fold (rate_flags True) ?d1 (net_flags m)\<rparr>) ?s0"
  let ?s2 = "upd_net (\<lambda>n. n\<lparr>ht_channel := ht_channel ?net\<rparr>) ?s1"
  have "parse_elements e s p (resp_els m) st = parse_elements e s (p + 2 + length ?d0 + 2 + length ?d1 + 2 + length [ht_channel ?net]) ?tl ?s2"
    unfolding els
    using step_ssid[OF at0 _ assms(3,4), of e] step_rates[OF at1, of ?s0 e] step_byte(1)[OF at2 refl, of e ?s1] len assms(5)
    by simp
  moreover have "mid ?net (ps_net st) ?s2"
    using len assms(6-8) by (simp add: mid_def heard_def fixed_same_def has_rates_fold)
  ultimately show ?thesis using parse_ibss[OF at3 _ assms(2), of "ps_net st" ?s2 e] by simp
qed

section \<open>The beacon of a cell\<close>

lemma put16_length [simp]: "length (put16 w) = 2"
  by (simp add: put16_def)

lemma three_addr_length: "length a1 = 6 \<Longrightarrow> length a2 = 6 \<Longrightarrow> length a3 = 6 \<Longrightarrow> length (three_addr m fc d a1 a2 a3) = 24"
  by (simp add: three_addr_def junk_def split: option.split)

text \<open>The first 36 bytes, as far as the receiver looks at them.\<close>

definition fixed_part :: "u8 list \<Rightarrow> mlme \<Rightarrow> bool" where
  "fixed_part h m \<longleftrightarrow> length h = 36 \<and> take 6 (drop 16 h) = ht_bssid (current_network m) \<and>
     le16 (h ! 32) (h ! 33) = beacon_interval (current_network m) \<and> le16 (h ! 34) (h ! 35) = resp_capability m"

lemma probe_ht_frame:
  assumes "probe_ht m = Some k"
  shows "current_network k = current_network m" "m_wpa_ie k = m_wpa_ie m" "bCurSuppCCK (hti (m_ht k)) = bCurSuppCCK (hti (m_ht m))"
    "m_iw_mode k = m_iw_mode m"
proof -
  have "current_network k = current_network m \<and> m_wpa_ie k = m_wpa_ie m \<and> bCurSuppCCK (hti (m_ht k)) = bCurSuppCCK (hti (m_ht m)) \<and>
      m_iw_mode k = m_iw_mode m"
    using assms
    by (auto simp: probe_ht_def build_ht_cap_def build_agg_def ht_view_def bind_eq_Some_conv Let_def split: if_splits)
  then show "current_network k = current_network m" "m_wpa_ie k = m_wpa_ie m" "bCurSuppCCK (hti (m_ht k)) = bCurSuppCCK (hti (m_ht m))"
    "m_iw_mode k = m_iw_mode m" by blast+
qed

lemma fixed_part_parts:
  assumes "length hh = 16" "length (ht_bssid (current_network m)) = 6" "length sq = 2" "length j = 8"
  shows "fixed_part (hh @ ht_bssid (current_network m) @ sq @ j @ put16 (beacon_interval (current_network m)) @ put16 (resp_capability m)) m"
  using assms
  by (simp add: fixed_part_def nth_append put16_def le16_put16[unfolded put16_def, simplified])

lemma fixed_part_bytes:
  assumes "length a1 = 6" "length (own_addr m) = 6" "length (ht_bssid (current_network m)) = 6" "length sq = 2"
    "b0 = three_addr m fc d a1 (own_addr m) (ht_bssid (current_network m)) @ junk m 24 8 @ put16 (beacon_interval (current_network m))
      @ put16 (resp_capability m)"
  shows "fixed_part (take 22 b0 @ sq @ drop 24 b0) m"
proof -
  have l: "length (three_addr m fc d a1 (own_addr m) (ht_bssid (current_network m))) = 24" by (rule three_addr_length) (use assms in auto)
  obtain x y where sq: "sq = [x, y]" using assms(4) by (metis length_0_conv length_Suc_conv numeral_2_eq_2)
  have ta: "three_addr m fc d a1 (own_addr m) (ht_bssid (current_network m)) = (put16 fc @ (case d of None \<Rightarrow> junk m 2 2 | Some d \<Rightarrow> put16 d)
      @ a1 @ own_addr m) @ ht_bssid (current_network m) @ junk m 22 2"
    using assms by (simp add: three_addr_def)
  have hd: "length (put16 fc @ (case d of None \<Rightarrow> junk m 2 2 | Some d \<Rightarrow> put16 d) @ a1 @ own_addr m) = 16"
    using assms by (simp add: junk_def split: option.split)
  let ?hd = "put16 fc @ (case d of None \<Rightarrow> junk m 2 2 | Some d \<Rightarrow> put16 d) @ a1 @ own_addr m"
  let ?tl = "junk m 24 8 @ put16 (beacon_interval (current_network m)) @ put16 (resp_capability m)"
  have t: "take 22 b0 = ?hd @ ht_bssid (current_network m)" "drop 24 b0 = ?tl"
    unfolding assms(5) ta using hd assms(3) by (simp_all add: junk_def)
  show ?thesis
    using fixed_part_parts[OF hd assms(3,4), of "junk m 24 8"] unfolding t by (simp add: junk_def)
qed

lemma get_beacon_bytes:
  assumes "rtllib_get_beacon m = Some (m', Some s)" "net_wf (current_network m)" "length (own_addr m) = 6" "m_wpa_ie m = []"
  shows "\<exists>h. sk_mem s = h @ concat (map element_bytes (resp_els m)) \<and> fixed_part h m"
proof -
  obtain k s0 where s0: "rtllib_get_beacon0 m = Some (k, Some s0)"
    and s: "sk_mem s = take 22 (sk_mem s0) @ put16 (push_bit 4 (beacon_seq k)) @ drop 24 (sk_mem s0)"
    using assms(1) by (auto simp: rtllib_get_beacon_def bind_eq_Some_conv split: option.splits)
  then obtain m1 els m2 where m1: "probe_ht m = Some m1" and els: "resp_elements m1 = Some els" and m2: "ibss_wpa_ie m1 = Some m2"
    and mem: "sk_mem s0 = (three_addr m 0x80 (Some 0) broadcast (own_addr m) (ht_bssid (current_network m)) @ junk m 24 8
        @ put16 (beacon_interval (current_network m)) @ put16 (resp_capability m)) @ els @ m_wpa_ie m2"
    by (auto simp: rtllib_get_beacon0_def rtllib_probe_resp_def bind_eq_Some_conv Let_def split: if_splits)
  let ?b0 = "three_addr m 0x80 (Some 0) broadcast (own_addr m) (ht_bssid (current_network m)) @ junk m 24 8
        @ put16 (beacon_interval (current_network m)) @ put16 (resp_capability m)"
  note fr = probe_ht_frame[OF m1]
  have "resp_els m1 = resp_els m" using fr by (simp add: resp_els_def erp_els_def Let_def)
  then have e: "els = concat (map element_bytes (resp_els m))"
    using els resp_elements_eq[of m1] fr assms(2) by simp
  have w: "m_wpa_ie m2 = []" using m2 fr assms(4) by (simp add: ibss_wpa_ie_def)
  have l: "length ?b0 = 36" using net_wf_lengths[OF assms(2)] assms(3) by (simp add: three_addr_length junk_def)
  have "fixed_part (take 22 ?b0 @ put16 (push_bit 4 (beacon_seq k)) @ drop 24 ?b0) m"
    by (rule fixed_part_bytes) (use net_wf_lengths[OF assms(2)] assms(3) in simp_all)
  moreover have "sk_mem s = (take 22 ?b0 @ put16 (push_bit 4 (beacon_seq k)) @ drop 24 ?b0) @ els"
    unfolding s mem w using l by (simp only: take_append drop_append append_Nil2 append_assoc) simp
  ultimately show ?thesis using e by blast
qed

lemma resp_capability_ibss:
  "resp_capability m AND WLAN_CAPABILITY_IBSS = net_capability (current_network m) AND WLAN_CAPABILITY_IBSS"
  unfolding resp_capability_def Let_def WLAN_CAPABILITY_IBSS_def
  by (simp add: bit.conj_disj_distrib2 and.assoc)

lemma network_init_result:
  assumes "init_fixed b r stats = Some n0"
    "rtllib_parse_info_param (parse_env_of b stats) r 36 (stats_len stats - 36) stack (m_d11 b) n0 = Some (d, n1)"
    "init_mode (band52 stats) n1 \<noteq> 0"
  shows "\<exists>n. rtllib_network_init b r stats stack = Some (d, Some n) \<and> ssid_len n = ssid_len n1 \<and> ssid n = ssid n1 \<and>
    rates_len n = rates_len n1 \<and> rates n = rates n1 \<and> rates_ex_len n = rates_ex_len n1 \<and> rates_ex n = rates_ex n1 \<and>
    ht_channel n = ht_channel n1 \<and> fixed_same n1 n"
  using assms by (simp add: rtllib_network_init_def Let_def fixed_same_def)

text \<open>
  C4: what an ad hoc cell announces is what another station learns. When a station without an
  element of a security protocol makes its beacon, and a station that runs the same code receives
  its bytes, followed by anything, the description of the network has the name, the rates, the
  extended rates, the channel, the address, the interval and the ad hoc capability of the cell;
  the bytes of the buffer that are not written do not matter.
\<close>

theorem beacon_delivers_network:
  assumes "rtllib_get_beacon a = Some (a', Some s)" "net_wf (current_network a)" "length (own_addr a) = 6" "m_wpa_ie a = []"
    and name: "\<not> rtllib_is_empty_essid (take (unat (ssid_len (current_network a))) (ssid (current_network a)))"
    and rx: "sk_mem r = sk_mem s @ rest" "unat (stats_len stats) = length (sk_mem s)" "\<not> band52 stats"
  shows "\<exists>d n. rtllib_network_init b r stats stack = Some (d, Some n) \<and> heard (current_network a) n \<and>
    rates_ex_len n = rates_ex_len (current_network a) \<and>
    take (unat (rates_ex_len n)) (rates_ex n) = take (unat (rates_ex_len n)) (rates_ex (current_network a)) \<and>
    ht_bssid n = ht_bssid (current_network a) \<and> beacon_interval n = beacon_interval (current_network a) \<and>
    net_capability n AND WLAN_CAPABILITY_IBSS = net_capability (current_network a) AND WLAN_CAPABILITY_IBSS"
proof -
  obtain h where h: "sk_mem s = h @ concat (map element_bytes (resp_els a))" "fixed_part h a"
    using get_beacon_bytes[OF assms(1-4)] by blast
  let ?els = "concat (map element_bytes (resp_els a))"
  have h36: "length h = 36" using h(2) by (simp add: fixed_part_def)
  have mem: "sk_mem r = h @ ?els @ rest" using rx(1) h(1) by simp
  have at: "els_at r 36 (resp_els a)" unfolding els_at_def using mem h36 by blast
  have left: "unat (stats_len stats - 36) = length ?els"
    using rx(2) h(1) h36 by (simp add: unat_sub_if_size word_size)
  have nth: "sk_mem r ! i = h ! i" if "i < 36" for i using mem h36 that by (simp add: nth_append)
  obtain n0 where n0: "init_fixed b r stats = Some n0"
    and f0: "ht_bssid n0 = ht_bssid (current_network a)" "beacon_interval n0 = beacon_interval (current_network a)"
      "net_capability n0 = resp_capability a" "length (ssid n0) = 33" "length (rates n0) = 12" "rates_ex n0 = replicate 16 0"
      "rates_ex_len n0 = 0" "has_rates (net_flags n0)"
  proof -
    have len: "36 \<le> length (sk_mem r)" using mem h36 by simp
    have a3: "rdn r 16 6 = Some (ht_bssid (current_network a))" using h(2) len mem h36 by (simp add: rdn_def fixed_part_def)
    have w: "rd16 r 32 = Some (beacon_interval (current_network a))" "rd16 r 34 = Some (resp_capability a)"
      using h(2) len nth by (simp_all add: rd16_inside fixed_part_def)
    obtain t0 t1 where t: "rd32 r 24 = Some t0" "rd32 r 28 = Some t1" using len by (simp add: rd32_def rd16_inside)
    have "init_fixed b r stats \<noteq> None" using a3 w t by (simp add: init_fixed_def Let_def)
    then obtain n0 where n0: "init_fixed b r stats = Some n0" by blast
    show thesis
      by (rule that[OF n0]) (use n0 a3 w t rx(3) const_bits in \<open>auto simp: init_fixed_def Let_def net_zero_def has_rates_def\<close>)
  qed
  let ?st0 = "\<lparr>ps_d11 = m_d11 b, ps_net = n0, tmp_htcap_len = 0, tmp_htinfo_len = 0, ht_realtek_agg_len = 0, ht_realtek_agg_buf = stack\<rparr>"
  have "succeeds (done_ok (current_network a) n0) (parse_elements (parse_env_of b stats) r 36 (resp_els a) ?st0)"
    using parse_resp[OF at assms(2) name, of ?st0] f0 by simp
  then obtain st' where st': "parse_elements (parse_env_of b stats) r 36 (resp_els a) ?st0 = Some st'" "done_ok (current_network a) n0 st'"
    by (auto simp: succeeds_def)
  have loop: "parse_loop (parse_env_of b stats) r 36 (unat (stats_len stats - 36)) ?st0 = Some st'"
    using parse_loop_els_at[OF at resp_els_short[OF assms(2)]] st'(1) left by simp
  define n1 where "n1 = (ps_net st')\<lparr>unknown_cap_exist := \<not> atheros_cap_exist (ps_net st') \<and> \<not> broadcom_cap_exist (ps_net st') \<and>
      \<not> cisco_cap_exist (ps_net st') \<and> \<not> ralink_cap_exist (ps_net st') \<and> \<not> bdRT2RTAggregation (bssht (ps_net st'))\<rparr>"
  have par: "rtllib_parse_info_param (parse_env_of b stats) r 36 (stats_len stats - 36) stack (m_d11 b) n0 = Some (ps_d11 st', n1)"
    using loop by (simp add: rtllib_parse_info_param_def Let_def n1_def)
  have ok: "done_ok (current_network a) n0 st'" "has_rates (net_flags n1)" using st'(2) by (simp_all add: n1_def done_ok_def)
  have md: "init_mode False n1 \<noteq> 0" by (rule init_mode_rates[OF ok(2)])
  have cap: "resp_capability a AND WLAN_CAPABILITY_IBSS = net_capability (current_network a) AND WLAN_CAPABILITY_IBSS"
    by (rule resp_capability_ibss)
  have "ssid_len n1 = ssid_len (ps_net st')" "ssid n1 = ssid (ps_net st')" "rates_len n1 = rates_len (ps_net st')"
    "rates n1 = rates (ps_net st')" "rates_ex_len n1 = rates_ex_len (ps_net st')" "rates_ex n1 = rates_ex (ps_net st')"
    "ht_channel n1 = ht_channel (ps_net st')" "fixed_same (ps_net st') n1"
    by (simp_all add: n1_def fixed_same_def)
  note n1_sel = this
  have md': "init_mode (band52 stats) n1 \<noteq> 0" using md rx(3) by simp
  from network_init_result[OF n0 par md'] obtain n where n: "rtllib_network_init b r stats stack = Some (ps_d11 st', Some n)"
    "ssid_len n = ssid_len n1" "ssid n = ssid n1" "rates_len n = rates_len n1" "rates n = rates n1"
    "rates_ex_len n = rates_ex_len n1" "rates_ex n = rates_ex n1" "ht_channel n = ht_channel n1" "fixed_same n1 n" by blast
  have he: "heard (current_network a) n" using n(2-5,8) ok(1) n1_sel by (simp add: done_ok_def heard_def)
  have ex: "rates_ex_len n = rates_ex_len (current_network a)"
      "take (unat (rates_ex_len n)) (rates_ex n) = take (unat (rates_ex_len n)) (rates_ex (current_network a))"
    using n(6,7) ok(1) n1_sel by (simp_all add: done_ok_def)
  have fx: "fixed_same n0 n" using n(9) n1_sel(8) ok(1) by (simp add: fixed_same_def done_ok_def)
  show ?thesis
    by (intro exI conjI, rule n(1)) (use he ex fx f0(1-3) cap in \<open>simp_all add: fixed_same_def\<close>)
qed

definition ex_cell :: mlme where
  "ex_cell = (ex_mlme IW_MODE_ADHOC)\<lparr>m_ht := upd_ht (\<lambda>h. h\<lparr>bCurrentHTSupport := False\<rparr>) ex_ht_dev,
     current_network := net_zero\<lparr>ht_bssid := [2, 1, 1, 1, 1, 1], ssid := [0x68, 0x69] @ replicate 31 0, ssid_len := 2, ht_channel := 11,
       rates := [0x82, 0x84, 0x8b, 0x96] @ replicate 8 0, rates_len := 4, net_capability := WLAN_CAPABILITY_IBSS, beacon_interval := 100,
       net_mode := ucast IEEE_G\<rparr>\<rparr>"

lemma ex_cell_beacon:
  "\<exists>a' s. rtllib_get_beacon ex_cell = Some (a', Some s) \<and> length (sk_mem s) = 36 + 4 + 6 + 3 + 4 + 3"
proof -
  have "net_wf (current_network ex_cell)" using net_zero_wf by (simp add: ex_cell_def net_wf_def)
  then show ?thesis
    by (simp add: rtllib_get_beacon_def rtllib_get_beacon0_def rtllib_probe_resp_def probe_ht_def resp_elements_def arr_take_def
        ibss_wpa_ie_def ex_cell_def ex_mlme_def ex_dev_def net_zero_def three_addr_def junk_def put16_def WLAN_CAPABILITY_IBSS_def Let_def)
qed

lemma beacon_delivers_network_witness:
  "\<exists>d n. rtllib_network_init (ex_mlme IW_MODE_ADHOC) \<lparr>sk_mem = sk_mem (the (snd (the (rtllib_get_beacon ex_cell)))) @ [0, 0, 0, 0], sk_len = 60\<rparr>
      (ex_signal 56) (replicate 255 0) = Some (d, Some n) \<and>
     ssid_len n = 2 \<and> ht_channel n = 11 \<and> rates_len n = 4"
proof -
  obtain a' s where s: "rtllib_get_beacon ex_cell = Some (a', Some s)" "length (sk_mem s) = 56" using ex_cell_beacon by auto
  have "net_wf (current_network ex_cell)" using net_zero_wf by (simp add: ex_cell_def net_wf_def)
  moreover have "length (own_addr ex_cell) = 6" "m_wpa_ie ex_cell = []"
    by (simp_all add: ex_cell_def ex_mlme_def ex_dev_def)
  moreover have "\<not> rtllib_is_empty_essid (take (unat (ssid_len (current_network ex_cell))) (ssid (current_network ex_cell)))"
    by (simp add: ex_cell_def rtllib_is_empty_essid_def)
  ultimately obtain d n where
    "rtllib_network_init (ex_mlme IW_MODE_ADHOC) \<lparr>sk_mem = sk_mem s @ [0, 0, 0, 0], sk_len = 60\<rparr> (ex_signal 56) (replicate 255 0) =
      Some (d, Some n)" "heard (current_network ex_cell) n"
    using beacon_delivers_network[OF s(1), where r = "\<lparr>sk_mem = sk_mem s @ [0, 0, 0, 0], sk_len = 60\<rparr>" and rest = "[0, 0, 0, 0]"
        and stats = "ex_signal 56" and b = "ex_mlme IW_MODE_ADHOC" and stack = "replicate 255 0"] s(2)
    by (force simp: ex_signal_def)
  then show ?thesis using s(1) by (auto simp: heard_def ex_cell_def)
qed

end
