(* ===== verification/Assoc_Steps.thy ===== *)
theory Assoc_Steps
  imports Net_Frames
begin

text \<open>
  Scanning, authentication and association: the operations and work items of
  src/src/rtllib_softmac.c with the registers they set through src/src/rtl8192e.c. An operation
  maps the device to the device; None is a fault, a read or copy outside a buffer. Work items and
  timers are the flags \<open>wq_\<dots>\<close>, \<open>assoc_timer\<close> and \<open>beacon_timer\<close>.
\<close>

section \<open>Hardware settings\<close>

datatype rt_op_mode = RT_OP_MODE_AP | RT_OP_MODE_INFRASTRUCTURE | RT_OP_MODE_IBSS | RT_OP_MODE_NO_LINK | RT_OP_MODE_UNKNOWN

definition set_media_status :: "rt_op_mode \<Rightarrow> mlme \<Rightarrow> mlme" where
  "set_media_status op m =
     (let b = (reg_msr m AND 0xfc) OR (case op of RT_OP_MODE_INFRASTRUCTURE \<Rightarrow> 2 | RT_OP_MODE_IBSS \<Rightarrow> 1 | RT_OP_MODE_AP \<Rightarrow> 3 | _ \<Rightarrow> 0)
      in hw (SetReg MSR (ucast b)) (m\<lparr>reg_msr := b\<rparr>))"

text \<open>The association state, read as a mode of operation: the two enumerations start with 0.\<close>

definition op_mode_of_state :: "rtllib_state \<Rightarrow> rt_op_mode" where
  "op_mode_of_state s = (case s of RTLLIB_NOLINK \<Rightarrow> RT_OP_MODE_AP | RTLLIB_ASSOCIATING \<Rightarrow> RT_OP_MODE_INFRASTRUCTURE
     | RTLLIB_ASSOCIATING_RETRY \<Rightarrow> RT_OP_MODE_IBSS | RTLLIB_ASSOCIATING_AUTHENTICATING \<Rightarrow> RT_OP_MODE_NO_LINK | _ \<Rightarrow> RT_OP_MODE_UNKNOWN)"

definition set_check_bssid :: "bool \<Rightarrow> mlme \<Rightarrow> mlme" where
  "set_check_bssid on m =
     (let r = (if on then reg_rcr m OR RCR_CBSSID else reg_rcr m AND NOT RCR_CBSSID) in hw (SetReg RCR r) (m\<lparr>reg_rcr := r\<rparr>))"

section \<open>Scanning\<close>

definition rtllib_softmac_stop_scan :: "mlme \<Rightarrow> mlme" where
  "rtllib_softmac_stop_scan m =
     (if m_scanning m then m\<lparr>scan_watch_dog := 0, m_scanning := False, wq_scan := False\<rparr> else m\<lparr>scan_watch_dog := 0\<rparr>)"

definition rtllib_stop_scan :: "mlme \<Rightarrow> mlme" where
  "rtllib_stop_scan m = (if feat_scan m then rtllib_softmac_stop_scan m else m)"

definition reset_cie_watchdog :: "mlme \<Rightarrow> mlme" where
  "reset_cie_watchdog m =
     (let i = pDot11dInfo (m_d11 m)
      in if bEnabled i \<and> 0 < CountryIeLen i then m\<lparr>m_d11 := (m_d11 m)\<lparr>pDot11dInfo := i\<lparr>CountryIeWatchdog := 0\<rparr>\<rparr>\<rparr> else m)"

definition rtllib_start_scan :: "mlme \<Rightarrow> mlme" where
  "rtllib_start_scan m =
     (let m1 = reset_cie_watchdog m
      in if feat_scan m1 \<and> \<not> m_scanning m1 then m1\<lparr>m_scanning := True, wq_scan := True\<rparr> else m1)"

text \<open>
  The search for the next channel of a scan. The Boolean is False when the watchdog ends the
  search; the counter of the watchdog is returned as the code leaves it.
\<close>

function scan_next :: "u8 list \<Rightarrow> u8 \<Rightarrow> u16 \<Rightarrow> bool \<times> u8 \<times> u16" where
  "scan_next cm ch wd =
     (let ch1 = of_nat ((unat ch + 1) mod MAX_CHANNEL_NUMBER) in
      if MAX_CHANNEL_NUMBER < unat wd then (False, if cm ! unat ch1 = 0 then 6 else ch1, wd + 1)
      else if cm ! unat ch1 = 0 then scan_next cm ch1 (wd + 1)
      else (True, ch1, wd + 1))"
  by pat_completeness auto
termination
proof (relation "measure (\<lambda>(cm, ch, wd). 65536 - unat wd)", goal_cases)
  case (2 cm ch wd x)
  then have "unat wd \<le> 161" by simp
  then have "unat (wd + 1) = unat wd + 1" by (simp add: unat_add_lem[THEN iffD1] unat_word_ariths)
  with \<open>unat wd \<le> 161\<close> show ?case by simp
qed simp

declare scan_next.simps [simp del]

definition scan_end :: "u8 \<Rightarrow> mlme \<Rightarrow> mlme" where
  "scan_end lastc m =
     (let m1 = (if bEnabled (pDot11dInfo (m_d11 m)) then m\<lparr>m_d11 := DOT11D_ScanComplete (m_d11 m)\<rparr> else m)
      in upd_cur (\<lambda>n. n\<lparr>ht_channel := lastc\<rparr>) (m1\<lparr>actscanning := False, scan_watch_dog := 0, m_scanning := False\<rparr>))"

definition rtllib_softmac_scan_wq :: "mlme \<Rightarrow> mlme option" where
  "rtllib_softmac_scan_wq m0 =
     (let m = m0\<lparr>wq_scan := False\<rparr>; lastc = ht_channel (current_network m); cm = channel_map (pDot11dInfo (m_d11 m)) in
      if \<not> ieee_up m then Some m
      else if rf_off m then Some (m\<lparr>actscanning := False, scan_watch_dog := 0, m_scanning := False\<rparr>)
      else if be_scan_inprogress m then Some m
      else (case scan_next cm lastc (scan_watch_dog m) of (good, ch, wd) \<Rightarrow>
        (let m1 = upd_cur (\<lambda>n. n\<lparr>ht_channel := ch\<rparr>) (m\<lparr>scan_watch_dog := wd\<rparr>) in
         if \<not> good \<or> \<not> m_scanning m1 then Some (scan_end lastc m1)
         else do {
           m2 \<leftarrow> (let m2 = hw (SetChannel (uint ch)) m1 in if cm ! unat ch = 1 then rtllib_send_probe_requests m2 else Some m2);
           Some (m2\<lparr>wq_scan := True\<rparr>) })))"

text \<open>
  The scan that blocks its caller. \<open>during\<close> is what happens to the device while it listens on
  a channel.
\<close>

fun scan_channels :: "(nat \<Rightarrow> mlme \<Rightarrow> mlme option) \<Rightarrow> u8 list \<Rightarrow> nat list \<Rightarrow> mlme \<Rightarrow> mlme option" where
  "scan_channels during cm [] m = Some m"
| "scan_channels during cm (ch # chs) m =
     (if cm ! ch = 0 then scan_channels during cm chs m
      else if m_state m = RTLLIB_LINKED \<or> sync_scan_hurryup m then Some m
      else do {
        m1 \<leftarrow> (let m1 = hw (SetChannel (int ch)) m in if cm ! ch = 1 then rtllib_send_probe_requests m1 else Some m1);
        m2 \<leftarrow> during ch m1;
        scan_channels during cm chs m2 })"

definition rtllib_softmac_scan_syncro :: "(nat \<Rightarrow> mlme \<Rightarrow> mlme option) \<Rightarrow> mlme \<Rightarrow> mlme option" where
  "rtllib_softmac_scan_syncro during m = do {
     m1 \<leftarrow> scan_channels during (channel_map (pDot11dInfo (m_d11 m))) [1..<MAX_CHANNEL_NUMBER + 1] (m\<lparr>be_scan_inprogress := True\<rparr>);
     let m2 = (if 5 \<le> state_index (m_state m1) \<and> bEnabled (pDot11dInfo (m_d11 m1))
               then m1\<lparr>m_d11 := DOT11D_ScanComplete (m_d11 m1)\<rparr> else m1);
     Some (m2\<lparr>sync_scan_hurryup := False, actscanning := False, be_scan_inprogress := False, wx_events := Suc (wx_events m2)\<rparr>) }"

definition rtllib_start_scan_syncro :: "(nat \<Rightarrow> mlme \<Rightarrow> mlme option) \<Rightarrow> mlme \<Rightarrow> mlme option" where
  "rtllib_start_scan_syncro during m =
     (let m1 = (reset_cie_watchdog m)\<lparr>sync_scan_hurryup := False\<rparr>
      in if feat_scan m1 then rtllib_softmac_scan_syncro during m1 else Some m1)"

definition rtllib_stop_send_beacons :: "mlme \<Rightarrow> mlme" where
  "rtllib_stop_send_beacons m = (if feat_beacons m then m\<lparr>beacon_txing := False, beacon_timer := False\<rparr> else m)"

definition rtl8192_start_beacon :: "mlme \<Rightarrow> mlme" where
  "rtl8192_start_beacon m =
     hw (SetReg BCN_TCFG 0x60f) (hw (SetReg BCN_ERR_THRESH 100) (hw (SetReg BCN_DMATIME 256) (hw (SetReg BCN_DRV_EARLY_INT 10)
       (hw (SetReg BCN_INTERVAL (ucast (beacon_interval (current_network m)))) (hw (SetReg ATIMWND 2) m)))))"

definition rtllib_start_send_beacons :: "mlme \<Rightarrow> mlme option" where
  "rtllib_start_send_beacons m0 =
     (let m = rtl8192_start_beacon m0 in if feat_beacons m then rtllib_send_beacon (m\<lparr>beacon_txing := True\<rparr>) else Some m)"

section \<open>Authentication and association\<close>

definition rtllib_associate_abort :: "mlme \<Rightarrow> mlme" where
  "rtllib_associate_abort m =
     (let m1 = m\<lparr>associate_seq := associate_seq m + 1\<rparr>;
          m2 = (if m_state m1 = RTLLIB_ASSOCIATING_AUTHENTICATING
                then upd_stats (\<lambda>t. t\<lparr>no_auth_rs := no_auth_rs t + 1\<rparr>) m1 else upd_stats (\<lambda>t. t\<lparr>no_ass_rs := no_ass_rs t + 1\<rparr>) m1)
      in m2\<lparr>m_state := RTLLIB_ASSOCIATING_RETRY, wq_retry := True\<rparr>)"

definition rtllib_associate_step1 :: "mlme \<Rightarrow> mlme" where
  "rtllib_associate_step1 m =
     (let m1 = upd_stats (\<lambda>t. t\<lparr>tx_auth_rq := tx_auth_rq t + 1\<rparr>) m
      in case rtllib_authentication_req m1 0 of
           (m2, None) \<Rightarrow> rtllib_associate_abort m2
         | (m2, Some bs) \<Rightarrow> (mgmt_xmit \<lparr>sk_mem = bs, sk_len = length bs\<rparr> (m2\<lparr>m_state := RTLLIB_ASSOCIATING_AUTHENTICATING\<rparr>))
                             \<lparr>assoc_timer := True\<rparr>)"

text \<open>\<open>enc\<close> is the encryption of the frame with the current key.\<close>

definition rtllib_auth_challenge :: "(skb \<Rightarrow> skb) \<Rightarrow> u8 list \<Rightarrow> mlme \<Rightarrow> mlme" where
  "rtllib_auth_challenge enc challenge m =
     (let m1 = upd_stats (\<lambda>t. t\<lparr>tx_auth_rq := tx_auth_rq t + 1\<rparr>) (m\<lparr>associate_seq := associate_seq m + 1\<rparr>)
      in case rtllib_authentication_req m1 (length challenge + 2) of
           (m2, None) \<Rightarrow> rtllib_associate_abort m2
         | (m2, Some bs) \<Rightarrow>
             (let b = bs @ [16, of_nat (length challenge)] @ challenge
              in (mgmt_xmit (enc \<lparr>sk_mem = b, sk_len = length b\<rparr>) m2)\<lparr>assoc_timer := True\<rparr>))"

definition rtllib_associate_step2 :: "mlme \<Rightarrow> mlme option" where
  "rtllib_associate_step2 m = do {
     (m1, b) \<leftarrow> rtllib_association_req (upd_stats (\<lambda>t. t\<lparr>tx_ass_rq := tx_ass_rq t + 1\<rparr>) (m\<lparr>assoc_timer := False\<rparr>));
     Some (case b of None \<Rightarrow> rtllib_associate_abort m1 | Some s \<Rightarrow> (mgmt_xmit s m1)\<lparr>assoc_timer := True\<rparr>) }"

definition assoc_view :: "mlme \<Rightarrow> u8 \<Rightarrow> ht_dev" where
  "assoc_view m sec = (ht_view m)\<lparr>ap_sec_type := sec, key_NA := (pairwise_key_type m = 0)\<rparr>"

definition rtllib_associate_complete_wq :: "mlme \<Rightarrow> mlme option" where
  "rtllib_associate_complete_wq m0 = do {
     let m = m0\<lparr>wq_complete := False\<rparr>;
     let m1 = (if is_silent_reset m then m else m\<lparr>wx_events := Suc (wx_events m)\<rparr>);
     let m2 = m1\<lparr>carrier := True, is_roaming := False,
                m_rate := (if rtllib_is_54g (current_network m) \<and> ofdm_modulation m then 108 else 22)\<rparr>;
     sec \<leftarrow> rtllib_ap_sec_type m2;
     m3 \<leftarrow> (if bCurrentHTSupport (hti (m_ht m2)) \<and> bEnableHT (hti (m_ht m2))
            then do { h \<leftarrow> HTOnAssocRsp (assoc_view m2 sec); Some (m2\<lparr>m_ht := h\<rparr>) }
            else Some (m2\<lparr>m_ht := (m_ht m2)\<lparr>dot11HTOperationalRateSet := replicate 16 0\<rparr>\<rparr>));
     let m4 = m3\<lparr>SlotNum := 2 * (1 + beacon_interval (current_network m3) div 500)\<rparr>;
     let m5 = (if NumRecvBcnInPeriod m4 = 0 \<or> NumRecvDataInPeriod m4 = 0
               then m4\<lparr>NumRecvBcnInPeriod := 1, NumRecvDataInPeriod := 1\<rparr> else m4);
     Some ((rtl8192_link_change (m5\<lparr>LpsIdleCount := 0\<rparr>))\<lparr>is_silent_reset := False\<rparr>) }"

definition rtllib_associate_complete :: "mlme \<Rightarrow> mlme" where
  "rtllib_associate_complete m = m\<lparr>assoc_timer := False, m_state := RTLLIB_LINKED, wq_complete := True\<rparr>"

definition rtllib_associate_procedure_wq :: "mlme \<Rightarrow> mlme" where
  "rtllib_associate_procedure_wq m0 =
     (let m = rtllib_stop_scan (m0\<lparr>wq_procedure := False, sync_scan_hurryup := True\<rparr>);
          m1 = on_ht (\<lambda>h. HTSetConnectBwMode h HT_CHANNEL_WIDTH_20 HT_EXTCHNL_OFFSET_NO_EXT) m
      in if rf_off m1 then m1 else rtllib_associate_step1 (m1\<lparr>associate_seq := 1\<rparr>))"

definition rtllib_disassociate :: "mlme \<Rightarrow> mlme" where
  "rtllib_disassociate m =
     (let m1 = m\<lparr>carrier := False\<rparr>;
          m2 = (if bEnabled (pDot11dInfo (m_d11 m1)) then m1\<lparr>m_d11 := Dot11d_Reset (m_d11 m1)\<rparr> else m1)
      in m2\<lparr>m_state := RTLLIB_NOLINK, is_set_key := False, wap_set := False, wq_link_change := True, wx_events := Suc (wx_events m2)\<rparr>)"

definition rtllib_associate_retry_wq :: "mlme \<Rightarrow> mlme" where
  "rtllib_associate_retry_wq m0 =
     (let m = m0\<lparr>wq_retry := False\<rparr> in
      if \<not> proto_started m \<or> m_state m \<noteq> RTLLIB_ASSOCIATING_RETRY then m
      else let m1 = rtllib_softmac_check_all_nets (m\<lparr>m_state := RTLLIB_NOLINK\<rparr>)
           in if m_state m1 = RTLLIB_NOLINK then rtllib_start_scan (m1\<lparr>actscanning := True\<rparr>) else m1)"

definition rtllib_link_change_wq :: "mlme \<Rightarrow> mlme" where
  "rtllib_link_change_wq m = rtl8192_link_change (m\<lparr>wq_link_change := False\<rparr>)"

end
