(* ===== verification/Assoc_Frames.thy ===== *)
theory Assoc_Frames
  imports Assoc_Steps BA_Rx
begin

text \<open>
  Management frames that arrive, \<open>rtllib_rx_frame_mgmt\<close> of src/src/rtllib_rx.c and the
  handlers of src/src/rtllib_softmac.c, and the start and stop of the protocol. None is a fault.
\<close>

section \<open>Parsing\<close>

definition ERR_SHORT :: u16 where "ERR_SHORT = 0xcafe"

text \<open>
  The status of an authentication response and its challenge. Two bytes less than the fixed part
  are accepted, and the challenge is copied without a look at the length of the frame.
\<close>

definition auth_parse :: "bool \<Rightarrow> skb \<Rightarrow> (u16 \<times> u8 list option) option" where
  "auth_parse alloc s =
     (if sk_len s < 30 - 2 then Some (ERR_SHORT, None) else do {
        ch \<leftarrow> (if 30 + 3 < sk_len s then do {
            t \<leftarrow> rd8 s 30;
            if t = 16 then do { n \<leftarrow> rd8 s 31; c \<leftarrow> (if alloc \<or> n = 0 then rdn s 32 (unat n) else None); Some (Some c) }
            else Some None }
          else Some None);
        st \<leftarrow> rd16 s 28;
        Some (st, ch) })"

text \<open>The result of a request: None for a short one, otherwise the status and the sender.\<close>

definition auth_rq_parse :: "skb \<Rightarrow> (u16 \<times> mac) option option" where
  "auth_rq_parse s =
     (if sk_len s < 30 - 2 then Some None else do {
        a \<leftarrow> rdn s 10 6;
        alg \<leftarrow> rd16 s 24;
        Some (Some (if alg \<noteq> 0 then 13 else 0, a)) })"

definition assoc_rq_parse :: "skb \<Rightarrow> mac option option" where
  "assoc_rq_parse s = (if sk_len s < 28 - 2 then Some None else do { a \<leftarrow> rdn s 10 6; Some (Some a) })"

text \<open>The walk to the element with the name; the result is its position and length.\<close>

function probe_ssid :: "skb \<Rightarrow> nat \<Rightarrow> (nat \<times> nat) option option" where
  "probe_ssid s p =
     (if Suc p < sk_len s then
        (case (rd8 s p, rd8 s (Suc p)) of
           (Some t, Some n) \<Rightarrow> if t = 0 then Some (Some (p + 2, unat n)) else probe_ssid s (p + 2 + unat n)
         | _ \<Rightarrow> None)
      else Some None)"
  by pat_completeness auto
termination by (relation "measure (\<lambda>(s, p). sk_len s - p)") auto

declare probe_ssid.simps [simp del]

text \<open>Comparing the memory of the frame with an array, up to a difference or a zero byte.\<close>

fun strn_same :: "skb \<Rightarrow> nat \<Rightarrow> u8 list \<Rightarrow> nat \<Rightarrow> bool option" where
  "strn_same s p as 0 = Some True"
| "strn_same s p [] (Suc n) = None"
| "strn_same s p (a # as) (Suc n) =
     do { x \<leftarrow> rd8 s p; if x \<noteq> a then Some False else if x = 0 then Some True else strn_same s (Suc p) as n }"

text \<open>The code of the result: negative, 0 or 1, and the sender.\<close>

definition probe_rq_parse :: "mlme \<Rightarrow> skb \<Rightarrow> (int \<times> mac) option" where
  "probe_rq_parse m s =
     (if sk_len s < 24 then Some (-1, []) else do {
        a3 \<leftarrow> rdn s 16 6;
        if a3 \<noteq> take 6 (ht_bssid (current_network m)) \<and> a3 \<noteq> broadcast then Some (-1, [])
        else do {
          src \<leftarrow> rdn s 10 6;
          w \<leftarrow> probe_ssid s 24;
          case w of
            None \<Rightarrow> Some (1, src)
          | Some (p, n) \<Rightarrow>
              if n = 0 then Some (1, src)
              else do { e \<leftarrow> strn_same s p (ssid (current_network m)) n; Some (if e then 1 else 0, src) } } })"

text \<open>The status and the identifier of an association response, and the counter of refusals.\<close>

definition assoc_parse :: "mlme \<Rightarrow> skb \<Rightarrow> (mlme \<times> u16 \<times> u16) option" where
  "assoc_parse m s =
     (if sk_len s < 30 then Some (m, ERR_SHORT, 0) else do {
        st \<leftarrow> rd16 s 26;
        aid \<leftarrow> rd16 s 28;
        let m1 = (if (st = 18 \<or> st = 10) \<and> ht_mode (m_ht m) = IEEE_G \<and> net_mode (current_network m) = ucast IEEE_N_24G
                  then (if AsocRetryCount m < 5 - 1
                        then (on_ht (upd_ht (\<lambda>h. h\<lparr>IOTAction := IOTAction h OR HT_IOT_ACT_PURE_N_MODE\<rparr>)) m)
                               \<lparr>AsocRetryCount := AsocRetryCount m + 1\<rparr>
                        else m\<lparr>AsocRetryCount := 0\<rparr>)
                  else m\<lparr>AsocRetryCount := 0\<rparr>);
        Some (m1, st, aid AND 0x3fff) })"

section \<open>Requests to this device\<close>

definition rtllib_rx_probe_rq :: "mlme \<Rightarrow> skb \<Rightarrow> mlme option" where
  "rtllib_rx_probe_rq m s = do {
     let m1 = upd_stats (\<lambda>t. t\<lparr>rx_probe_rq := rx_probe_rq t + 1\<rparr>) m;
     (r, dest) \<leftarrow> probe_rq_parse m1 s;
     if 0 < r then rtllib_resp_to_probe (upd_stats (\<lambda>t. t\<lparr>tx_probe_rs := tx_probe_rs t + 1\<rparr>) m1) dest else Some m1 }"

definition rtllib_rx_auth_rq :: "mlme \<Rightarrow> skb \<Rightarrow> mlme option" where
  "rtllib_rx_auth_rq m s = do {
     let m1 = upd_stats (\<lambda>t. t\<lparr>rx_auth_rq := rx_auth_rq t + 1\<rparr>) m;
     r \<leftarrow> auth_rq_parse s;
     Some (case r of None \<Rightarrow> m1 | Some (st, dest) \<Rightarrow> rtllib_resp_to_auth m1 st dest) }"

definition rtllib_rx_assoc_rq :: "mlme \<Rightarrow> skb \<Rightarrow> mlme option" where
  "rtllib_rx_assoc_rq m s = do {
     let m1 = upd_stats (\<lambda>t. t\<lparr>rx_ass_rq := rx_ass_rq t + 1\<rparr>) m;
     r \<leftarrow> assoc_rq_parse s;
     Some (case r of None \<Rightarrow> m1 | Some dest \<Rightarrow> rtllib_resp_to_assoc_rq m1 dest) }"

text \<open>The block ack component on the device.\<close>

definition ts_view :: "mlme \<Rightarrow> ts_dev" where
  "ts_view m = (m_tsd m)\<lparr>iw_mode := m_iw_mode m, bssid := ht_bssid (current_network m),
     qos_supported := (if qos_support (qos_data (current_network m)) then 1 else 0),
     ts_dev.qos_active := (if rtllib_qos_data.qos_active (qos_data (current_network m)) then 1 else 0),
     ts_dev.bHalfWirelessN24GMode := halfN (m_ht m),
     ts_dev.bCurrentHTSupport := rt_high_throughput.bCurrentHTSupport (hti (m_ht m)),
     ts_dev.IOTAction := rt_high_throughput.IOTAction (hti (m_ht m))\<rparr>"

section \<open>Responses\<close>

text \<open>What an accepted response contains; \<open>stack\<close> is the parser's uninitialised buffer.\<close>

definition assoc_accepted :: "mlme \<Rightarrow> skb \<Rightarrow> rx_signal \<Rightarrow> u8 list \<Rightarrow> mlme option" where
  "assoc_accepted m s stats stack = do {
     m1 \<leftarrow> (if m_qos_support m then do {
         (d, net) \<leftarrow> rtllib_parse_info_param (parse_env_of m stats) s 30 (stats_len stats - 30) stack (m_d11 m) net_zero;
         c \<leftarrow> memcpy_arr (unat (bdHTCapLen (bssht net))) (bdHTCapBuf (bssht net)) (PeerHTCapBuf (hti (m_ht m)));
         i \<leftarrow> memcpy_arr (unat (bdHTInfoLen (bssht net))) (bdHTInfoBuf (bssht net)) (PeerHTInfoBuf (hti (m_ht m)));
         Some (rtl8192_qos_association_resp (on_ht (upd_ht (\<lambda>h. h\<lparr>PeerHTCapBuf := c, PeerHTInfoBuf := i\<rparr>)) (m\<lparr>m_d11 := d\<rparr>)) net) }
       else Some m);
     ies \<leftarrow> rdn s 30 (sk_len s - 30);
     Some (rtllib_associate_complete (m1\<lparr>assocresp_ies := ies\<rparr>)) }"

definition rx_assoc_response :: "mlme \<Rightarrow> skb \<Rightarrow> rx_signal \<Rightarrow> u8 list \<Rightarrow> mlme option" where
  "rx_assoc_response m s stats stack =
     (if feat_associate m \<and> m_state m = RTLLIB_ASSOCIATING_AUTHENTICATED \<and> m_iw_mode m = IW_MODE_INFRA then do {
        (m1, errcode, aid) \<leftarrow> assoc_parse m s;
        if errcode = 0 then
          (if \<not> alloc_ok m1 then Some m1
           else assoc_accepted (upd_stats (\<lambda>t. t\<lparr>rx_ass_ok := rx_ass_ok t + 1\<rparr>) (m1\<lparr>m_state := RTLLIB_LINKED, m_assoc_id := aid\<rparr>))
                  s stats stack)
        else
          (let m2 = upd_stats (\<lambda>t. t\<lparr>rx_ass_err := rx_ass_err t + 1\<rparr>) m1
           in Some (if AsocRetryCount m2 < 5 then m2\<lparr>wq_procedure := True\<rparr> else rtllib_associate_abort m2)) }
      else Some m)"

text \<open>The wireless mode for an access point that let the station authenticate.\<close>

definition auth_accepted :: "mlme \<Rightarrow> mlme option" where
  "auth_accepted m0 = do {
     let m = upd_stats (\<lambda>t. t\<lparr>rx_auth_rs_ok := rx_auth_rs_ok t + 1\<rparr>) (m0\<lparr>m_state := RTLLIB_ASSOCIATING_AUTHENTICATED\<rparr>);
     sec \<leftarrow> rtllib_ap_sec_type m;
     let pure = (rt_high_throughput.IOTAction (hti (m_ht m)) AND HT_IOT_ACT_PURE_N_MODE \<noteq> 0);
     let half = (\<not> pure \<and> sec AND 3 \<noteq> 0 \<and> IsHTHalfNmodeAPs (ht_view m));
     let nmode = (pure \<or> sec AND 3 = 0 \<or> half);
     let m1 = on_ht (\<lambda>h. rtl8192_SetWirelessMode h (chip m) (if nmode then net_mode (current_network m) else ucast IEEE_G)) m;
     let m2 = m1\<lparr>m_ht := (m_ht m1)\<lparr>halfN := net_mode (current_network m) = ucast IEEE_N_24G \<and> half\<rparr>\<rparr>;
     rtllib_associate_step2 m2 }"

definition rx_auth :: "(skb \<Rightarrow> skb) \<Rightarrow> mlme \<Rightarrow> skb \<Rightarrow> mlme option" where
  "rx_auth enc m s =
     (if \<not> feat_associate m then Some m
      else if m_state m = RTLLIB_ASSOCIATING_AUTHENTICATING \<and> m_iw_mode m = IW_MODE_INFRA then do {
        (errcode, challenge) \<leftarrow> auth_parse (alloc_ok m) s;
        if errcode = 0 then
          (case challenge of
             Some c \<Rightarrow> if m_open_wep m then auth_accepted m else Some (rtllib_auth_challenge enc c m)
           | None \<Rightarrow> auth_accepted m)
        else Some (rtllib_associate_abort (upd_stats (\<lambda>t. t\<lparr>rx_auth_rs_err := rx_auth_rs_err t + 1\<rparr>) m)) }
      else if m_iw_mode m = IW_MODE_MASTER then rtllib_rx_auth_rq m s
      else Some m)"

definition rx_deauth :: "mlme \<Rightarrow> skb \<Rightarrow> mlme option" where
  "rx_deauth m s = do {
     a3 \<leftarrow> rdn s 16 6;
     if a3 \<noteq> take 6 (ht_bssid (current_network m)) then Some m
     else if feat_associate m \<and> m_state m = RTLLIB_LINKED \<and> m_iw_mode m = IW_MODE_INFRA then do {
       a2 \<leftarrow> rdn s 10 6;
       let m1 = rtllib_disassociate (upd_stats (\<lambda>t. t\<lparr>reassoc := reassoc t + 1\<rparr>)
                  (m\<lparr>m_state := RTLLIB_ASSOCIATING, is_roaming := True, bBusyTraffic := False\<rparr>));
       d \<leftarrow> RemovePeerTS a2 (ts_view m1);
       Some (m1\<lparr>m_tsd := d, wq_procedure := True\<rparr>) }
     else Some m }"

definition rtllib_rx_frame_softmac :: "(skb \<Rightarrow> skb) \<Rightarrow> mlme \<Rightarrow> skb \<Rightarrow> rx_signal \<Rightarrow> u8 list \<Rightarrow> mlme option" where
  "rtllib_rx_frame_softmac enc m s stats stack =
     (if \<not> proto_started m then Some m else do {
        fc \<leftarrow> rd16 s 0;
        let st = WLAN_FC_GET_STYPE fc;
        if st = 0x10 \<or> st = 0x30 then rx_assoc_response m s stats stack
        else if st = 0x00 \<or> st = 0x20 then
          (if feat_associate m \<and> m_iw_mode m = IW_MODE_MASTER then rtllib_rx_assoc_rq m s else Some m)
        else if st = 0xB0 then rx_auth enc m s
        else if st = 0xA0 \<or> st = 0xC0 then rx_deauth m s
        else if st = 0xD0 then map_option (\<lambda>d. m\<lparr>m_tsd := d\<rparr>) (rtllib_process_action (ts_view m) s)
        else Some m })"

definition rtllib_rx_mgt :: "mlme \<Rightarrow> skb \<Rightarrow> rx_signal \<Rightarrow> u8 list \<Rightarrow> mlme option" where
  "rtllib_rx_mgt m0 s stats stack = do {
     fc \<leftarrow> rd16 s 0;
     let st = WLAN_FC_GET_STYPE fc;
     let m = (if st \<noteq> 0x50 \<and> st \<noteq> 0x80 then m0\<lparr>last_rx_ps := m_jiffies m0\<rparr> else m0);
     if st = 0x80 then do {
       m1 \<leftarrow> rtllib_process_probe_response m s stats stack;
       Some (if m_sta_sleep m1 \<or> ps_enabled m1 \<and> m_iw_mode m1 = IW_MODE_INFRA \<and> m_state m1 = RTLLIB_LINKED
             then m1\<lparr>ps_tasks := Suc (ps_tasks m1)\<rparr> else m1) }
     else if st = 0x50 then rtllib_process_probe_response m s stats stack
     else if st = 0x40 then
       (if feat_probers m \<and> (m_iw_mode m = IW_MODE_ADHOC \<or> m_iw_mode m = IW_MODE_MASTER) \<and> m_state m = RTLLIB_LINKED
        then rtllib_rx_probe_rq m s else Some m)
     else Some m }"

text \<open>The length in the statistics becomes that of the frame.\<close>

definition rtllib_rx_frame_mgmt :: "(skb \<Rightarrow> skb) \<Rightarrow> mlme \<Rightarrow> skb \<Rightarrow> rx_signal \<Rightarrow> u8 list \<Rightarrow> mlme option" where
  "rtllib_rx_frame_mgmt enc m s stats0 stack = do {
     let stats = stats0\<lparr>stats_len := of_nat (sk_len s)\<rparr>;
     m1 \<leftarrow> rtllib_rx_mgt m s stats stack;
     a1 \<leftarrow> rdn s 4 6;
     if a1 \<noteq> take 6 (own_addr m1) then Some m1 else rtllib_rx_frame_softmac enc m1 s stats stack }"

section \<open>Starting and stopping\<close>

text \<open>The name a cell gets without one: \<open>Penguin\<close>.\<close>

definition default_essid :: "u8 list" where
  "default_essid = [0x50, 0x65, 0x6e, 0x67, 0x75, 0x69, 0x6e]"

definition default_name :: "nat \<Rightarrow> mlme \<Rightarrow> mlme" where
  "default_name n m =
     (if ssid_len (current_network m) = 0
      then (upd_cur (\<lambda>k. k\<lparr>ssid := default_essid @ replicate (n - 7) 0 @ drop n (ssid k), ssid_len := 7\<rparr>) m)\<lparr>ssid_set := True\<rparr> else m)"

definition rtllib_start_master_bss :: "mlme \<Rightarrow> mlme" where
  "rtllib_start_master_bss m =
     (let m1 = upd_cur (\<lambda>n. n\<lparr>ht_bssid := take 6 (own_addr m)\<rparr>) (default_name 32 (m\<lparr>m_assoc_id := 1\<rparr>));
          m2 = hw (SetChannel (uint (ht_channel (current_network m1)))) m1;
          m3 = rtl8192_link_change (m2\<lparr>m_state := RTLLIB_LINKED\<rparr>)
      in m3\<lparr>wx_events := Suc (wx_events m3), carrier := True\<rparr>)"

definition rtllib_start_monitor_mode :: "mlme \<Rightarrow> mlme" where
  "rtllib_start_monitor_mode m = (if raw_tx m then m\<lparr>carrier := True\<rparr> else m)"

definition rtllib_randomize_cell :: "mac \<Rightarrow> mlme \<Rightarrow> mlme" where
  "rtllib_randomize_cell rnd m =
     upd_cur (\<lambda>n. n\<lparr>ht_bssid := take 6 (rnd[0 := (rnd ! 0 AND NOT 0x01) OR 0x02])\<rparr>) m"

definition new_cell :: "mac \<Rightarrow> mlme \<Rightarrow> mlme" where
  "new_cell rnd m =
     (let m1 = upd_cur (\<lambda>n. n\<lparr>ht_channel := IbssStartChnl (m_d11 m)\<rparr>) m;
          m2 = (if wap_set m1 then m1 else rtllib_randomize_cell rnd m1);
          m3 = upd_cur (\<lambda>n. if cck_modulation m2 then n\<lparr>rates_len := 4, rates := [0x82, 0x84, 0x8b, 0x96] @ drop 4 (rates n)\<rparr>
                            else n\<lparr>rates_len := 0\<rparr>) m2;
          m4 = (if ofdm_modulation m3 then
                  (upd_cur (\<lambda>n. n\<lparr>rates_ex_len := 8,
                     rates_ex := [0x0c, 0x12, 0x18, 0x24, 0x30, 0x48, 0x60, 0x6c] @ drop 8 (rates_ex n)\<rparr>) m3)\<lparr>m_rate := 108\<rparr>
                else (upd_cur (\<lambda>n. n\<lparr>rates_ex_len := 0\<rparr>) m3)\<lparr>m_rate := 22\<rparr>);
          m5 = upd_cur (\<lambda>n. n\<lparr>QoS_Enable := False\<rparr>) m4;
          m6 = on_ht (\<lambda>h. rtl8192_SetWirelessMode h (chip m5) (ucast IEEE_G)) m5
      in upd_cur (\<lambda>n. n\<lparr>net_mode := ucast (ht_mode (m_ht m6)), atim_window := 0, net_capability := WLAN_CAPABILITY_IBSS\<rparr>) m6)"

text \<open>\<open>during\<close> is what happens while the scan listens, \<open>rnd\<close> the random bytes.\<close>

definition rtllib_start_ibss_wq :: "(nat \<Rightarrow> mlme \<Rightarrow> mlme option) \<Rightarrow> mac \<Rightarrow> mlme \<Rightarrow> mlme option" where
  "rtllib_start_ibss_wq during rnd m0 =
     (let m = m0\<lparr>wq_start_ibss := False\<rparr> in
      if \<not> proto_started m then Some m else do {
        let m1 = rtllib_softmac_check_all_nets (default_name 8 m);
        m2 \<leftarrow> (if m_state m1 = RTLLIB_NOLINK then rtllib_start_scan_syncro during m1 else Some m1);
        let m3 = (if m_state m2 = RTLLIB_NOLINK then new_cell rnd m2 else m2);
        m4 \<leftarrow> (if ht_mode (m_ht m3) = IEEE_N_24G \<or> ht_mode (m_ht m3) = IEEE_N_5G
               then do { h \<leftarrow> HTUseDefaultSetting (ht_view m3); Some (m3\<lparr>m_ht := h\<rparr>) } else Some m3);
        let m5 = set_media_status (op_mode_of_state (m_state m4)) m4;
        let m6 = rtl8192_link_change (m5\<lparr>m_state := RTLLIB_LINKED\<rparr>);
        let m7 = on_ht (\<lambda>h. HTSetConnectBwMode h HT_CHANNEL_WIDTH_20 HT_EXTCHNL_OFFSET_NO_EXT) m6;
        m8 \<leftarrow> rtllib_start_send_beacons m7;
        Some (m8\<lparr>wx_events := Suc (wx_events m8), carrier := True\<rparr>) })"

definition rtllib_start_bss :: "mlme \<Rightarrow> mlme" where
  "rtllib_start_bss m =
     (let i = pDot11dInfo (m_d11 m) in
      if bEnabled i \<and> \<not> 0 < CountryIeLen i \<and> \<not> bGlobalDomain (m_d11 m) then m
      else let m1 = rtllib_softmac_check_all_nets m
           in if m_state m1 = RTLLIB_NOLINK then rtllib_start_scan (m1\<lparr>actscanning := True\<rparr>) else m1)"

definition rtllib_stop_protocol :: "bool \<Rightarrow> mlme \<Rightarrow> mlme option" where
  "rtllib_stop_protocol shutdown m0 =
     (if \<not> proto_started m0 then Some m0 else do {
        let m1 = (if shutdown then m0\<lparr>proto_started := False, proto_stoppping := True\<rparr> else m0);
        let m2 = (rtllib_stop_send_beacons m1)\<lparr>assoc_timer := False, wq_retry := False, wq_start_ibss := False, wq_link_change := False\<rparr>;
        let m3 = rtllib_stop_scan m2;
        let m4 = (if state_index (m_state m3) \<le> 4 then m3\<lparr>m_state := RTLLIB_NOLINK\<rparr> else m3);
        let m5 = (if m_state m4 = RTLLIB_LINKED then rtllib_disassociate (SendDisassociation m4 True 3) else m4);
        m6 \<leftarrow> (if shutdown then do { d \<leftarrow> RemoveAllTS (ts_view m5); Some (m5\<lparr>m_tsd := d, proto_stoppping := False\<rparr>) } else Some m5);
        Some (m6\<lparr>assocreq_ies := [], assocresp_ies := []\<rparr>) })"

definition rtllib_softmac_stop_protocol :: "bool \<Rightarrow> mlme \<Rightarrow> mlme option" where
  "rtllib_softmac_stop_protocol shutdown m = rtllib_stop_protocol shutdown (m\<lparr>sync_scan_hurryup := True\<rparr>)"

text \<open>The first channel of the regulatory domain, when none is set.\<close>

definition first_channel :: "mlme \<Rightarrow> mlme option" where
  "first_channel m =
     (if ht_channel (current_network m) \<noteq> 0 then Some m
      else (case find (\<lambda>c. channel_map (pDot11dInfo (m_d11 m)) ! c \<noteq> 0) [1..<MAX_CHANNEL_NUMBER + 1] of
              None \<Rightarrow> None | Some c \<Rightarrow> Some (upd_cur (\<lambda>n. n\<lparr>ht_channel := of_nat c\<rparr>) m)))"

definition rtllib_start_protocol :: "mlme \<Rightarrow> mlme" where
  "rtllib_start_protocol m0 =
     (if proto_started m0 then m0
      else case first_channel (m0\<lparr>proto_started := True\<rparr>) of
        None \<Rightarrow> m0\<lparr>proto_started := True\<rparr>
      | Some m \<Rightarrow>
          (let m1 = upd_cur (\<lambda>n. if beacon_interval n = 0 then n\<lparr>beacon_interval := 100\<rparr> else n) m;
               m2 = m1\<lparr>m_wmm_acm := 0\<rparr>
           in case m_iw_mode m2 of
                IW_MODE_INFRA \<Rightarrow> rtllib_start_bss m2
              | IW_MODE_ADHOC \<Rightarrow> m2\<lparr>wq_start_ibss := True\<rparr>
              | IW_MODE_MASTER \<Rightarrow> rtllib_start_master_bss m2
              | IW_MODE_MONITOR \<Rightarrow> rtllib_start_monitor_mode m2
              | IW_MODE_OTHER \<Rightarrow> m2))"

definition rtllib_softmac_start_protocol :: "mlme \<Rightarrow> mlme" where
  "rtllib_softmac_start_protocol m = rtllib_start_protocol (m\<lparr>sync_scan_hurryup := False\<rparr>)"

section \<open>Runs\<close>

text \<open>
  What can happen to the device: a management frame, a timer, a work item that is queued, or a
  call of the user. A work item or a timer that is not pending does nothing.
\<close>

datatype mlme_event =
  EvFrame skb rx_signal | EvAssocTimer | EvBeaconTimer | EvProcedure | EvRetry | EvScan | EvComplete | EvIbss mac
| EvLinkChange | EvUpdateBeacon | EvQos | EvStart | EvStop bool | EvDisassociate | EvTick u64

fun mlme_step :: "(skb \<Rightarrow> skb) \<Rightarrow> (nat \<Rightarrow> mlme \<Rightarrow> mlme option) \<Rightarrow> u8 list \<Rightarrow> mlme_event \<Rightarrow> mlme \<Rightarrow> mlme option" where
  "mlme_step enc during stack (EvFrame s stats) m = rtllib_rx_frame_mgmt enc m s stats stack"
| "mlme_step enc during stack EvAssocTimer m = Some (if assoc_timer m then rtllib_associate_abort (m\<lparr>assoc_timer := False\<rparr>) else m)"
| "mlme_step enc during stack EvBeaconTimer m = (if beacon_timer m then rtllib_send_beacon (m\<lparr>beacon_timer := False\<rparr>) else Some m)"
| "mlme_step enc during stack EvProcedure m = Some (if wq_procedure m then rtllib_associate_procedure_wq m else m)"
| "mlme_step enc during stack EvRetry m = Some (if wq_retry m then rtllib_associate_retry_wq m else m)"
| "mlme_step enc during stack EvScan m = (if wq_scan m then rtllib_softmac_scan_wq m else Some m)"
| "mlme_step enc during stack EvComplete m = (if wq_complete m then rtllib_associate_complete_wq m else Some m)"
| "mlme_step enc during stack (EvIbss rnd) m = (if wq_start_ibss m then rtllib_start_ibss_wq during rnd m else Some m)"
| "mlme_step enc during stack EvLinkChange m = Some (if wq_link_change m then rtllib_link_change_wq m else m)"
| "mlme_step enc during stack EvUpdateBeacon m = Some (if wq_beacon m then rtl8192_update_beacon m else m)"
| "mlme_step enc during stack EvQos m = Some (if wq_qos m then rtl8192_qos_activate m else m)"
| "mlme_step enc during stack EvStart m = Some (rtllib_softmac_start_protocol m)"
| "mlme_step enc during stack (EvStop shutdown) m = rtllib_softmac_stop_protocol shutdown m"
| "mlme_step enc during stack EvDisassociate m = Some (rtllib_disassociate m)"
| "mlme_step enc during stack (EvTick t) m = Some (m\<lparr>m_jiffies := t\<rparr>)"

fun mlme_run :: "(skb \<Rightarrow> skb) \<Rightarrow> (nat \<Rightarrow> mlme \<Rightarrow> mlme option) \<Rightarrow> u8 list \<Rightarrow> mlme_event list \<Rightarrow> mlme \<Rightarrow> mlme option" where
  "mlme_run enc during stack [] m = Some m"
| "mlme_run enc during stack (ev # evs) m = do { m1 \<leftarrow> mlme_step enc during stack ev m; mlme_run enc during stack evs m1 }"

end
