(* ===== verification/Assoc_Props.thy ===== *)
theory Assoc_Props
  imports Assoc_Frames
begin

text \<open>
  What holds of every run of the association machine: an association in progress always has a
  timer or a work item that takes it on, and without an answer these end the attempt and start the
  next one.
\<close>

section \<open>Progress\<close>

text \<open>The part of the device that decides whether something is still to come.\<close>

definition rest_same :: "mlme \<Rightarrow> mlme \<Rightarrow> bool" where
  "rest_same m m' \<longleftrightarrow> wq_retry m' = wq_retry m \<and> assoc_timer m' = assoc_timer m \<and> wq_start_ibss m' = wq_start_ibss m \<and>
     proto_started m' = proto_started m \<and> rf_off m' = rf_off m \<and> m_iw_mode m' = m_iw_mode m"

definition prog_same :: "mlme \<Rightarrow> mlme \<Rightarrow> bool" where
  "prog_same m m' \<longleftrightarrow> rest_same m m' \<and> m_state m' = m_state m \<and> wq_procedure m' = wq_procedure m"

definition pending :: "mlme \<Rightarrow> bool" where
  "pending m \<longleftrightarrow> (m_state m = RTLLIB_ASSOCIATING \<longrightarrow> wq_procedure m) \<and> (m_state m = RTLLIB_ASSOCIATING_RETRY \<longrightarrow> wq_retry m) \<and>
     (m_state m = RTLLIB_ASSOCIATING_AUTHENTICATING \<or> m_state m = RTLLIB_ASSOCIATING_AUTHENTICATED \<longrightarrow> assoc_timer m \<or> wq_procedure m)"

definition station_up :: "mlme \<Rightarrow> bool" where
  "station_up m \<longleftrightarrow> m_iw_mode m = IW_MODE_INFRA \<and> proto_started m \<and> \<not> rf_off m \<and> \<not> wq_start_ibss m \<and> pending m"

lemma station_up_same: "prog_same m m' \<Longrightarrow> station_up m \<Longrightarrow> station_up m'"
  by (simp add: prog_same_def rest_same_def station_up_def pending_def)

text \<open>An operation leaves the part alone or starts an association.\<close>

definition joins_or_keeps :: "mlme \<Rightarrow> mlme \<Rightarrow> bool" where
  "joins_or_keeps m m' \<longleftrightarrow> rest_same m m' \<and>
     (m_state m' = m_state m \<and> wq_procedure m' = wq_procedure m
      \<or> m_state m = RTLLIB_NOLINK \<and> m_state m' = RTLLIB_ASSOCIATING \<and> wq_procedure m'
      \<or> m_state m = RTLLIB_NOLINK \<and> m_iw_mode m = IW_MODE_ADHOC \<and> m_state m' = RTLLIB_LINKED \<and> wq_procedure m' = wq_procedure m)"

lemma joins_or_keeps_up: "joins_or_keeps m m' \<Longrightarrow> station_up m \<Longrightarrow> station_up m'"
  by (auto simp: joins_or_keeps_def station_up_def rest_same_def pending_def)

lemma joins_or_keeps_refl: "joins_or_keeps m m" "prog_same m m' \<Longrightarrow> joins_or_keeps m m'"
  by (simp_all add: joins_or_keeps_def prog_same_def rest_same_def)

lemma joins_or_keeps_trans: "joins_or_keeps a b \<Longrightarrow> joins_or_keeps b c \<Longrightarrow> joins_or_keeps a c"
  unfolding joins_or_keeps_def rest_same_def by (elim conjE disjE) simp_all

lemma joins_or_keeps_if:
  "(c \<Longrightarrow> joins_or_keeps m (fst x)) \<Longrightarrow> (\<not> c \<Longrightarrow> joins_or_keeps m (fst y)) \<Longrightarrow> joins_or_keeps m (fst (if c then x else y))"
  by simp

lemma new_net_prog: "joins_or_keeps m (fst (rtllib_softmac_new_net m n))"
proof -
  have join: "joins_or_keeps m (if m_iw_mode m = IW_MODE_INFRA then join_infra (m2\<lparr>m_wmm_acm := w\<rparr>) else join_ibss (m2\<lparr>m_wmm_acm := w\<rparr>))"
    if "m2 = m\<lparr>current_network := c, m_ht := h\<rparr>" "m_state m = RTLLIB_NOLINK" "m_iw_mode m = IW_MODE_INFRA \<or> m_iw_mode m = IW_MODE_ADHOC" for m2 c h w
    using that by (auto simp: joins_or_keeps_def rest_same_def join_infra_def join_ibss_def Let_def)
  show ?thesis
    unfolding rtllib_softmac_new_net_def Let_def
    by (intro joins_or_keeps_if; simp only: fst_conv joins_or_keeps_refl(1); (rule join, rule refl, simp, simp))
qed

lemma check_nets_prog: "joins_or_keeps m (fst (check_nets l m))"
proof (induction l arbitrary: m)
  case (Cons t ts)
  obtain m1 t1 where 1: "(if scan_age m = 0 \<or> time_after (last_scanned t + scan_age m) (m_jiffies m)
      then rtllib_softmac_new_net m t else (m, t)) = (m1, t1)" by (rule prod.exhaust)
  obtain m2 ts2 where 2: "check_nets ts m1 = (m2, ts2)" by (rule prod.exhaust)
  have "joins_or_keeps m m1"
    using new_net_prog[of m t] 1 joins_or_keeps_refl(1)[of m] by (simp split: if_splits)
  moreover have "joins_or_keeps m1 m2" using Cons.IH[of m1] 2 by simp
  ultimately have "joins_or_keeps m m2" by (rule joins_or_keeps_trans)
  then show ?case using 1 2 joins_or_keeps_refl(1)[of m] by simp
qed (simp add: joins_or_keeps_refl)

lemma check_all_nets_prog: "joins_or_keeps m (rtllib_softmac_check_all_nets m)"
proof -
  obtain m1 l where 1: "check_nets (network_list m) m = (m1, l)" by (rule prod.exhaust)
  have "joins_or_keeps m1 (m1\<lparr>network_list := l\<rparr>)" by (simp add: joins_or_keeps_def rest_same_def)
  with check_nets_prog[of m "network_list m"] 1 show ?thesis
    by (simp add: rtllib_softmac_check_all_nets_def joins_or_keeps_trans[where a = m and b = m1])
qed

lemma prog_same_refl: "prog_same m m"
  by (simp add: prog_same_def rest_same_def)

text \<open>What an operation yields, if it yields something.\<close>

definition yields :: "('b \<Rightarrow> bool) \<Rightarrow> 'b option \<Rightarrow> bool" where
  "yields P r \<longleftrightarrow> (\<forall>x. r = Some x \<longrightarrow> P x)"

lemma yieldsD: "yields P r \<Longrightarrow> r = Some x \<Longrightarrow> P x"
  by (simp add: yields_def)

lemma yields_Some [simp]: "yields P (Some x) = P x" and yields_None [simp]: "yields P None"
  by (simp_all add: yields_def)

lemma yields_bind: "yields Q r \<Longrightarrow> (\<And>x. Q x \<Longrightarrow> r = Some x \<Longrightarrow> yields P (f x)) \<Longrightarrow> yields P (r \<bind> f)"
  by (cases r) (auto simp: yields_def)

lemma yields_bind_any: "(\<And>x. r = Some x \<Longrightarrow> yields P (f x)) \<Longrightarrow> yields P (r \<bind> f)"
  by (cases r) auto

lemma yields_if: "(c \<Longrightarrow> yields P a) \<Longrightarrow> (\<not> c \<Longrightarrow> yields P b) \<Longrightarrow> yields P (if c then a else b)"
  by simp

lemma yields_pair: "(\<And>a b. x = (a, b) \<Longrightarrow> yields P (f a b)) \<Longrightarrow> yields P (case x of (a, b) \<Rightarrow> f a b)"
  by (cases x) simp

lemma yields_option: "(x = None \<Longrightarrow> yields P a) \<Longrightarrow> (\<And>y. x = Some y \<Longrightarrow> yields P (f y)) \<Longrightarrow>
    yields P (case x of None \<Rightarrow> a | Some y \<Rightarrow> f y)"
  by (cases x) simp_all

lemmas yields_intro = yields_if yields_pair yields_option

lemma after_new_net: "prog_same m m2 \<Longrightarrow> joins_or_keeps m (fst (if c then rtllib_softmac_new_net m2 n else (m2, n)))"
  using new_net_prog[of m2 n] joins_or_keeps_trans[OF joins_or_keeps_refl(2)] joins_or_keeps_refl(2) by simp

lemma add_network_prog: "yields (\<lambda>r. joins_or_keeps m (fst r)) (add_network m n j)"
  unfolding add_network_def Let_def
  by (rule yields_bind[of "prog_same m"], intro yields_intro)
    (simp_all add: prog_same_def rest_same_def after_new_net del: fst_conv)

lemma renew_network_prog: "yields (\<lambda>r. joins_or_keeps m (fst r)) (renew_network m n i)"
  unfolding renew_network_def Let_def
  by (intro yields_bind_any yields_intro) (simp only: yields_Some, rule after_new_net, simp add: prog_same_def rest_same_def)

lemma refresh_prog: "yields (\<lambda>r. prog_same m (fst r)) (refresh_current b m n)"
  unfolding refresh_current_def Let_def
  by (intro yields_intro yields_bind_any) (simp_all add: prog_same_def rest_same_def)

lemma handle_beacon_prog: "prog_same m (rtl8192_handle_beacon m)"
  by (simp add: rtl8192_handle_beacon_def rtl8192_qos_handle_probe_response_def Let_def prog_same_def rest_same_def)

lemma joins_then_keeps: "joins_or_keeps a b \<Longrightarrow> prog_same b c \<Longrightarrow> joins_or_keeps a c"
  using joins_or_keeps_refl(2) joins_or_keeps_trans by blast

lemma keeps_then_joins: "prog_same a b \<Longrightarrow> joins_or_keeps b c \<Longrightarrow> joins_or_keeps a c"
  using joins_or_keeps_refl(2) joins_or_keeps_trans by blast

lemma found_net_prog:
  "yields (\<lambda>r. joins_or_keeps m (fst r)) (case p of (None, old) \<Rightarrow> add_network m n old | (Some i, old) \<Rightarrow> renew_network m n i)"
  using add_network_prog renew_network_prog by (cases p) (auto split: option.split)

lemma probe_response_prog: "yields (joins_or_keeps m) (rtllib_process_probe_response m s stats stack)"
proof -
  have tail: "yields (joins_or_keeps m) (do {
      (m1, net1) \<leftarrow> refresh_current b (m\<lparr>m_d11 := d\<rparr>) net;
      (m2, net2) \<leftarrow> (case find_net net1 0 (network_list m1) None of
           (None, oldest) \<Rightarrow> add_network m1 net1 oldest | (Some i, _) \<Rightarrow> renew_network m1 net1 i);
      Some (if c m2 net2 then rtl8192_handle_beacon m2 else m2) })" for b d net c
  proof (rule yields_bind[OF refresh_prog], rule yields_pair, rule yields_bind[OF found_net_prog], rule yields_pair)
    fix x m1 net1 y m2 and net2 :: rtllib_network
    assume "prog_same (m\<lparr>m_d11 := d\<rparr>) (fst x)" "x = (m1, net1)" "joins_or_keeps m1 (fst y)" "y = (m2, net2)"
    then have "prog_same m m1" "joins_or_keeps m1 m2" by (simp_all add: prog_same_def rest_same_def)
    then have "joins_or_keeps m m2" by (rule keeps_then_joins)
    then show "yields (joins_or_keeps m) (Some (if c m2 net2 then rtl8192_handle_beacon m2 else m2))"
      using handle_beacon_prog joins_then_keeps by simp
  qed
  have m0: "joins_or_keeps m (m\<lparr>m_d11 := d\<rparr>)" for d by (simp add: joins_or_keeps_def rest_same_def)
  show ?thesis
    unfolding rtllib_process_probe_response_def Let_def
    by (rule yields_if, simp add: joins_or_keeps_refl, rule yields_bind_any, rule yields_bind_any, rule yields_pair,
        rule yields_option, simp add: m0, rule yields_if, simp add: m0, rule tail)
qed

section \<open>Operations that do not touch it\<close>

named_theorems prog "operations that leave the progress of the association alone"

lemma prog_same_if: "(c \<Longrightarrow> prog_same m a) \<Longrightarrow> (\<not> c \<Longrightarrow> prog_same m b) \<Longrightarrow> prog_same m (if c then a else b)"
  by simp

lemma prog_same_trans: "prog_same a b \<Longrightarrow> prog_same b c \<Longrightarrow> prog_same a c"
  by (simp add: prog_same_def rest_same_def)

lemma yields_same_trans: "yields (prog_same m1) r \<Longrightarrow> prog_same m m1 \<Longrightarrow> yields (prog_same m) r"
  by (cases r) (auto intro: prog_same_trans)

lemmas prog_defs = prog_same_def rest_same_def

lemma mgmt_xmit_prog: "prog_same m (mgmt_xmit s m)"
  by (simp add: mgmt_xmit_def prog_defs)

lemma build_prog: "yields (\<lambda>r. prog_same m (fst r)) (build_ht_cap m)" "yields (\<lambda>r. prog_same m (fst r)) (build_agg m)"
  unfolding build_ht_cap_def build_agg_def
  by (intro yields_bind_any yields_pair; simp add: prog_defs)+

lemma build_from:
  assumes "prog_same m m1"
  shows "yields (\<lambda>r. prog_same m (fst r)) (build_ht_cap m1)" "yields (\<lambda>r. prog_same m (fst r)) (build_agg m1)"
  using build_prog[of m1] prog_same_trans[OF assms] by (auto simp: yields_def)

lemma probe_ht_prog: "yields (prog_same m) (probe_ht m)"
proof -
  have agg: "yields (prog_same m) (if b then map_option fst (build_agg m2) else Some m2)" if "prog_same m m2" for b m2
    using build_from(2)[OF that] that by (auto simp: yields_def)
  show ?thesis
    unfolding probe_ht_def Let_def
    by (rule yields_if, simp add: prog_same_refl, rule yields_bind[OF build_prog(1)], rule yields_pair,
        rule yields_bind_any, rule yields_pair, rule agg) (simp add: prog_defs)
qed

lemma ibss_wpa_ie_prog: "yields (prog_same m) (ibss_wpa_ie m)"
  unfolding ibss_wpa_ie_def by (intro yields_if yields_bind_any) (simp_all add: prog_defs)

lemma probe_resp_prog: "yields (\<lambda>r. prog_same m (fst r)) (rtllib_probe_resp m fc dest)"
  unfolding rtllib_probe_resp_def Let_def
proof (rule yields_bind[OF probe_ht_prog], intro yields_if yields_bind_any)
  fix x els x'
  assume "prog_same m x" "ibss_wpa_ie x = Some x'"
  then have "prog_same m x'" using yieldsD[OF ibss_wpa_ie_prog] prog_same_trans by blast
  then show "yields (\<lambda>r. prog_same m (fst r))
    (Some (x', Some \<lparr>sk_mem = three_addr m fc (Some 0) dest (own_addr m) (ht_bssid (current_network m)) @ junk m 24 8 @
       put16 (beacon_interval (current_network m)) @ put16 (resp_capability m) @ els @ m_wpa_ie x',
       sk_len = length (three_addr m fc (Some 0) dest (own_addr m) (ht_bssid (current_network m)) @ junk m 24 8 @
       put16 (beacon_interval (current_network m)) @ put16 (resp_capability m) @ els @ m_wpa_ie x')\<rparr>))" by simp
qed simp

lemma send_beacon_prog: "yields (prog_same m) (rtllib_send_beacon m)"
  unfolding rtllib_send_beacon_def Let_def rtllib_get_beacon0_def
  apply (rule yields_if, simp add: prog_same_refl)
  apply (rule yields_bind[OF probe_resp_prog], rule yields_pair)
  apply (auto simp: prog_defs mgmt_xmit_def split: option.split)
  done

lemma send_probe_prog: "yields (prog_same m) (rtllib_send_probe m)"
  unfolding rtllib_send_probe_def
  by (rule yields_bind_any) (auto simp: prog_defs mgmt_xmit_def split: option.split)

lemma probe_requests_prog: "yields (prog_same m) (rtllib_send_probe_requests m)"
  unfolding rtllib_send_probe_requests_def
  by (intro yields_if yields_bind[OF send_probe_prog]) (simp_all add: prog_same_refl yields_same_trans[OF send_probe_prog])

lemma scan_wq_prog: "yields (prog_same m) (rtllib_softmac_scan_wq m)"
proof -
  have probe: "yields (prog_same m) (do { m2 \<leftarrow> if b then rtllib_send_probe_requests m1 else Some m1; Some (m2\<lparr>wq_scan := True\<rparr>) })"
    if "prog_same m m1" for b m1
    by (rule yields_bind[of "prog_same m"]) (use that yields_same_trans[OF probe_requests_prog] in \<open>auto simp: prog_defs\<close>)
  show ?thesis
    unfolding rtllib_softmac_scan_wq_def Let_def scan_end_def
    by (intro yields_if yields_pair probe) (simp_all add: prog_defs)
qed

lemma link_change_prog: "prog_same m (rtl8192_link_change m)"
  by (simp add: rtl8192_link_change_def rtl8192_net_update_def rtl8192_update_ratr_table_def rtl8192_update_msr_def
      EnableHWSecurityConfig8192_def prog_defs Let_def)

lemma update_beacon_prog: "prog_same m (rtl8192_update_beacon m)"
  by (simp add: rtl8192_update_beacon_def rtl8192_update_cap_def prog_defs Let_def)

lemma qos_activate_prog: "prog_same m (rtl8192_qos_activate m)"
  by (simp add: rtl8192_qos_activate_def prog_defs Let_def)

lemma qos_association_prog: "prog_same m (rtl8192_qos_association_resp m n)"
  by (simp add: rtl8192_qos_association_resp_def prog_defs Let_def)

lemma complete_prog: "yields (prog_same m) (rtllib_associate_complete_wq m)"
proof -
  have tail: "prog_same m ((rtl8192_link_change (m5\<lparr>LpsIdleCount := 0\<rparr>))\<lparr>is_silent_reset := False\<rparr>)" if "prog_same m m5" for m5
    using that link_change_prog[of "m5\<lparr>LpsIdleCount := 0\<rparr>"] by (simp add: prog_defs)
  show ?thesis
    unfolding rtllib_associate_complete_wq_def Let_def
    apply (rule yields_bind_any)
    apply (rule yields_bind[of "prog_same m"])
     apply (intro yields_if yields_bind_any; simp add: prog_defs)
    apply (subst yields_Some, rule tail, simp add: prog_defs)
    done
qed


section \<open>The steps of an association\<close>

lemma station_keeps: "yields (prog_same m) r \<Longrightarrow> station_up m \<Longrightarrow> yields station_up r"
  by (cases r) (auto intro: station_up_same)

lemma station_joins: "yields (joins_or_keeps m) r \<Longrightarrow> station_up m \<Longrightarrow> yields station_up r"
  by (cases r) (auto intro: joins_or_keeps_up)

lemma abort_up: "rest_same m m1 \<Longrightarrow> station_up m \<Longrightarrow> station_up (rtllib_associate_abort m1)"
  by (simp add: rtllib_associate_abort_def station_up_def rest_same_def pending_def Let_def)

lemma step1_up:
  assumes "rest_same m m1" "station_up m"
  shows "station_up (rtllib_associate_step1 m1)"
proof (cases "alloc_ok m1")
  case True
  then show ?thesis using assms
    by (simp add: rtllib_associate_step1_def rtllib_authentication_req_def mgmt_xmit_def station_up_def rest_same_def pending_def Let_def)
next
  case False
  then show ?thesis using assms
    by (simp add: rtllib_associate_step1_def rtllib_authentication_req_def station_up_def rest_same_def pending_def Let_def
        rtllib_associate_abort_def)
qed

lemma procedure_up:
  assumes "station_up m"
  shows "station_up (rtllib_associate_procedure_wq m)"
proof -
  have *: "rest_same m (on_ht f (rtllib_stop_scan (m\<lparr>wq_procedure := False, sync_scan_hurryup := True\<rparr>))\<lparr>associate_seq := 1\<rparr>)" for f
    by (simp add: rest_same_def rtllib_stop_scan_def rtllib_softmac_stop_scan_def)
  then have "\<not> rf_off (on_ht f (rtllib_stop_scan (m\<lparr>wq_procedure := False, sync_scan_hurryup := True\<rparr>)))" for f
    using assms by (simp add: rest_same_def station_up_def)
  with step1_up[OF * assms] show ?thesis by (simp add: rtllib_associate_procedure_wq_def Let_def)
qed

lemma start_scan_prog: "prog_same m (rtllib_start_scan m)"
  by (simp add: rtllib_start_scan_def reset_cie_watchdog_def prog_defs Let_def)

lemma retry_up:
  assumes "station_up m"
  shows "station_up (rtllib_associate_retry_wq m)"
proof (cases "m_state m = RTLLIB_ASSOCIATING_RETRY")
  case True
  let ?n = "m\<lparr>wq_retry := False, m_state := RTLLIB_NOLINK\<rparr>"
  have "station_up ?n" using assms by (simp add: station_up_def pending_def)
  then have 1: "station_up (rtllib_softmac_check_all_nets ?n)" by (rule joins_or_keeps_up[OF check_all_nets_prog])
  then have "station_up (rtllib_start_scan (rtllib_softmac_check_all_nets ?n\<lparr>actscanning := True\<rparr>))"
    by (rule station_up_same[rotated]) (rule prog_same_trans[OF _ start_scan_prog], simp add: prog_defs)
  with 1 True assms show ?thesis by (simp add: rtllib_associate_retry_wq_def Let_def station_up_def)
next
  case False
  then show ?thesis using assms by (simp add: rtllib_associate_retry_wq_def Let_def station_up_def pending_def)
qed

lemma assoc_ht_prog: "yields (\<lambda>r. prog_same m (fst r)) (assoc_ht m)"
proof -
  have ht: "yields (\<lambda>r. prog_same m (fst r)) (do {
       (m1, c, n) \<leftarrow> build_ht_cap m0;
       if b m1 then do { (m2, r, k) \<leftarrow> build_agg m1; Some (m2, Some (c, n), Some (r, k)) } else Some (m1, Some (c, n), None) })"
    if "prog_same m m0" for b m0
  proof (rule yields_bind[OF build_from(1)[OF that]], intro yields_pair yields_if)
    fix x m1 y and c :: "u8 list" and n :: nat
    assume "prog_same m (fst x)" "x = (m1, y)"
    then have 1: "prog_same m m1" by simp
    show "yields (\<lambda>r. prog_same m (fst r)) (do { (m2, r, k) \<leftarrow> build_agg m1; Some (m2, Some (c, n), Some (r, k)) })"
      by (rule yields_bind[OF build_from(2)[OF 1]]) (auto simp: yields_def)
    show "yields (\<lambda>r. prog_same m (fst r)) (Some (m1, Some (c, n), None))" using 1 by simp
  qed
  show ?thesis
    unfolding assoc_ht_def Let_def
    by (rule yields_bind_any, rule yields_if, rule ht) (simp_all add: prog_defs)
qed

lemma association_req_prog: "yields (\<lambda>r. prog_same m (fst r)) (rtllib_association_req m)"
  unfolding rtllib_association_req_def Let_def
  by (rule yields_bind[OF assoc_ht_prog], intro yields_pair yields_if yields_bind_any) (simp_all add: prog_defs)

lemma step2_up:
  assumes "rest_same m m1" "station_up m" "m_state m1 = RTLLIB_ASSOCIATING_AUTHENTICATED"
  shows "yields station_up (rtllib_associate_step2 m1)"
proof -
  let ?m = "upd_stats (\<lambda>t. t\<lparr>tx_ass_rq := tx_ass_rq t + 1\<rparr>) (m1\<lparr>assoc_timer := False\<rparr>)"
  have "station_up (case b of None \<Rightarrow> rtllib_associate_abort m2 | Some s \<Rightarrow> mgmt_xmit s m2\<lparr>assoc_timer := True\<rparr>)"
    if "prog_same ?m m2" for m2 b
    using that assms by (cases b) (simp_all add: prog_defs station_up_def pending_def rtllib_associate_abort_def mgmt_xmit_def Let_def)
  then show ?thesis
    unfolding rtllib_associate_step2_def
    by (intro yields_bind[OF association_req_prog] yields_pair) simp
qed

lemma auth_accepted_up: "station_up m \<Longrightarrow> yields station_up (auth_accepted m)"
  unfolding auth_accepted_def Let_def
  by (rule yields_bind_any, rule step2_up[of m]) (simp_all add: rest_same_def)

lemma challenge_up:
  assumes "station_up m" "m_state m = RTLLIB_ASSOCIATING_AUTHENTICATING"
  shows "station_up (rtllib_auth_challenge enc c m)"
  using assms by (cases "alloc_ok m")
    (simp_all add: rtllib_auth_challenge_def rtllib_authentication_req_def Let_def rtllib_associate_abort_def
      mgmt_xmit_def station_up_def pending_def)

lemma rx_auth_up:
  assumes "station_up m"
  shows "yields station_up (rx_auth enc m s)"
proof -
  have abort: "station_up (rtllib_associate_abort (upd_stats f m))" for f
    by (rule abort_up[OF _ assms]) (simp add: rest_same_def)
  have "m_iw_mode m \<noteq> IW_MODE_MASTER" using assms by (simp add: station_up_def)
  then show ?thesis
    unfolding rx_auth_def using assms
    by (intro yields_if yields_bind_any yields_pair yields_option) (simp_all add: abort auth_accepted_up challenge_up)
qed

lemma assoc_parse_prog: "yields (\<lambda>r. prog_same m (fst r)) (assoc_parse m s)"
  unfolding assoc_parse_def Let_def
  by (intro yields_if yields_bind_any) (simp_all add: prog_defs)

lemma assoc_accepted_up:
  assumes "rest_same m m1" "station_up m"
  shows "yields station_up (assoc_accepted m1 s stats stack)"
proof -
  let ?P = "\<lambda>a. rest_same m a"
  have 1: "yields ?P (if b then do { (d, net) \<leftarrow> r; c \<leftarrow> f d net; i \<leftarrow> g d net c;
      Some (rtl8192_qos_association_resp (on_ht (h c i) (m1\<lparr>m_d11 := d\<rparr>)) net) } else Some m1)" for b r f g h
  proof (intro yields_if yields_bind_any yields_pair)
    fix d net c i
    show "yields ?P (Some (rtl8192_qos_association_resp (on_ht (h c i) (m1\<lparr>m_d11 := d\<rparr>)) net))"
      using qos_association_prog[of "on_ht (h c i) (m1\<lparr>m_d11 := d\<rparr>)" net] assms(1) by (simp add: prog_defs)
  qed (use assms(1) in simp)
  have 2: "station_up (rtllib_associate_complete (a\<lparr>assocresp_ies := i\<rparr>))" if "rest_same m a" for a i
    using that assms(2) by (simp add: rtllib_associate_complete_def station_up_def rest_same_def pending_def)
  show ?thesis
    unfolding assoc_accepted_def
    by (rule yields_bind[OF 1], rule yields_bind_any) (simp add: 2)
qed

lemma assoc_response_up:
  assumes "station_up m"
  shows "yields station_up (rx_assoc_response m s stats stack)"
proof -
  have ok: "yields station_up (if \<not> alloc_ok a then Some a
      else assoc_accepted (upd_stats f (a\<lparr>m_state := RTLLIB_LINKED, m_assoc_id := aid\<rparr>)) s stats stack)"
    if "prog_same m a" for a aid f
    using that station_up_same[OF that assms] assoc_accepted_up[OF _ assms] by (simp add: prog_defs)
  have refused: "yields station_up (Some (if b then upd_stats f a\<lparr>wq_procedure := True\<rparr> else rtllib_associate_abort (upd_stats f a)))"
    if "prog_same m a" for a b f
  proof -
    have "rest_same m (upd_stats f a)" using that by (simp add: prog_defs)
    with assms have "station_up (rtllib_associate_abort (upd_stats f a))" by (rule abort_up[rotated])
    moreover have "station_up (upd_stats f a\<lparr>wq_procedure := True\<rparr>)"
      using that assms by (simp add: prog_defs station_up_def pending_def)
    ultimately show ?thesis by simp
  qed
  show ?thesis
    unfolding rx_assoc_response_def Let_def
  proof (rule yields_if, rule yields_bind[OF assoc_parse_prog], rule yields_pair, rule yields_pair, rule yields_if)
    fix x a y e aid assume "prog_same m (fst x)" "x = (a, y)"
    then have "prog_same m a" by simp
    then show "yields station_up (if \<not> alloc_ok a then Some a
      else assoc_accepted (upd_stats (\<lambda>t. t\<lparr>rx_ass_ok := rx_ass_ok t + 1\<rparr>) (a\<lparr>m_state := RTLLIB_LINKED, m_assoc_id := aid\<rparr>)) s stats stack)"
      "yields station_up (Some (if AsocRetryCount (upd_stats (\<lambda>t. t\<lparr>rx_ass_err := rx_ass_err t + 1\<rparr>) a) < 5
         then upd_stats (\<lambda>t. t\<lparr>rx_ass_err := rx_ass_err t + 1\<rparr>) a\<lparr>wq_procedure := True\<rparr>
         else rtllib_associate_abort (upd_stats (\<lambda>t. t\<lparr>rx_ass_err := rx_ass_err t + 1\<rparr>) a)))"
      by (rule ok, rule refused)
  qed (use assms in simp)
qed

lemma disassociate_up: "rest_same m m1 \<Longrightarrow> station_up m \<Longrightarrow> station_up (rtllib_disassociate m1)"
  by (simp add: rtllib_disassociate_def station_up_def rest_same_def pending_def Let_def)

lemma deauth_up:
  assumes "station_up m"
  shows "yields station_up (rx_deauth m s)"
proof -
  have *: "station_up (rtllib_disassociate (upd_stats f (m\<lparr>m_state := st, is_roaming := r, bBusyTraffic := b\<rparr>))\<lparr>m_tsd := d, wq_procedure := True\<rparr>)"
    for f st r b d
    using assms by (simp add: rtllib_disassociate_def station_up_def rest_same_def pending_def Let_def)
  show ?thesis
    unfolding rx_deauth_def Let_def
    by (rule yields_bind_any, rule yields_if, simp add: assms, rule yields_if, rule yields_bind_any, rule yields_bind_any,
        subst yields_Some, rule *, simp add: assms)
qed

lemma action_prog: "yields (prog_same m) (map_option (\<lambda>d. m\<lparr>m_tsd := d\<rparr>) r)"
  by (cases r) (simp_all add: prog_defs)

lemma softmac_up: "station_up m \<Longrightarrow> yields station_up (rtllib_rx_frame_softmac enc m s stats stack)"
  unfolding rtllib_rx_frame_softmac_def Let_def
  by (intro yields_if yields_bind_any)
    (simp_all add: rx_auth_up assoc_response_up deauth_up station_keeps[OF action_prog] station_up_def)


section \<open>Every step\<close>

lemma rx_probe_rq_prog: "yields (prog_same m) (rtllib_rx_probe_rq m s)"
proof -
  have "yields (prog_same m) (rtllib_resp_to_probe (upd_stats f (upd_stats g m)) d)" for f g d
    unfolding rtllib_resp_to_probe_def
    by (intro yields_bind[OF probe_resp_prog] yields_pair) (auto simp: prog_defs mgmt_xmit_def split: option.split)
  then show ?thesis
    unfolding rtllib_rx_probe_rq_def Let_def
    by (intro yields_bind_any yields_pair yields_if) (simp_all add: prog_defs)
qed

lemma rx_mgt_prog: "yields (joins_or_keeps m) (rtllib_rx_mgt m s stats stack)"
proof -
  have probe: "yields (joins_or_keeps m) (rtllib_process_probe_response m1 s stats stack)" if "prog_same m m1" for m1
    using probe_response_prog[of m1 s stats stack] keeps_then_joins[OF that] by (auto simp: yields_def)
  have beacon: "yields (joins_or_keeps m) (do { a \<leftarrow> rtllib_process_probe_response m1 s stats stack;
      Some (if b a then a\<lparr>ps_tasks := Suc (ps_tasks a)\<rparr> else a) })" if "prog_same m m1" for m1 b
    by (rule yields_bind[OF probe[OF that]]) (simp add: joins_or_keeps_def rest_same_def)
  have rq: "yields (joins_or_keeps m) (rtllib_rx_probe_rq m1 s)" if "prog_same m m1" for m1
    using rx_probe_rq_prog[of m1 s] joins_or_keeps_refl(2) prog_same_trans[OF that] by (auto simp: yields_def)
  have keep: "yields (joins_or_keeps m) (Some (if c then m\<lparr>last_rx_ps := t\<rparr> else m))" for c t
    by (simp add: joins_or_keeps_def rest_same_def)
  have base: "prog_same m (if c then m\<lparr>last_rx_ps := t\<rparr> else m)" for c t by (simp add: prog_defs)
  show ?thesis
    unfolding rtllib_rx_mgt_def Let_def
    by (rule yields_bind_any, intro yields_if beacon probe rq keep base)
qed

lemma frame_up:
  assumes "station_up m"
  shows "yields station_up (rtllib_rx_frame_mgmt enc m s stats stack)"
  unfolding rtllib_rx_frame_mgmt_def Let_def
  by (rule yields_bind[OF station_joins[OF rx_mgt_prog assms]], rule yields_bind_any, rule yields_if)
    (simp_all add: softmac_up)

lemma station_step:
  assumes "station_up m" "\<And>b. ev \<noteq> EvStop b"
  shows "yields station_up (mlme_step enc during stack ev m)"
proof (cases ev)
  case (EvFrame s stats)
  then show ?thesis by (simp add: frame_up assms)
next
  case EvAssocTimer
  have "station_up (rtllib_associate_abort (m\<lparr>assoc_timer := False\<rparr>))"
    using assms(1) by (simp add: rtllib_associate_abort_def station_up_def pending_def Let_def)
  then show ?thesis using EvAssocTimer assms by simp
next
  case EvBeaconTimer
  have "yields (prog_same m) (rtllib_send_beacon (m\<lparr>beacon_timer := False\<rparr>))"
    by (rule yields_same_trans[OF send_beacon_prog]) (simp add: prog_defs)
  then show ?thesis using EvBeaconTimer assms by (simp add: station_keeps)
next
  case EvScan
  then show ?thesis using station_keeps[OF scan_wq_prog assms(1)] assms by simp
next
  case EvComplete
  then show ?thesis using station_keeps[OF complete_prog assms(1)] assms by simp
next
  case EvLinkChange
  have "rest_same m (m\<lparr>wq_link_change := False\<rparr>)" by (simp add: rest_same_def)
  have "prog_same m (rtllib_link_change_wq m)"
    unfolding rtllib_link_change_wq_def by (rule prog_same_trans[OF _ link_change_prog]) (simp add: prog_defs)
  then show ?thesis using EvLinkChange assms by (simp add: station_up_same)
next
  case EvUpdateBeacon
  then show ?thesis using station_up_same[OF update_beacon_prog assms(1)] assms by simp
next
  case EvQos
  then show ?thesis using station_up_same[OF qos_activate_prog assms(1)] assms by simp
next
  case EvStart
  then show ?thesis using assms
    by (simp add: rtllib_softmac_start_protocol_def rtllib_start_protocol_def station_up_def pending_def)
next
  case EvDisassociate
  have "station_up (rtllib_disassociate m)" by (rule disassociate_up[OF _ assms(1)]) (simp add: rest_same_def)
  then show ?thesis using EvDisassociate by simp
next
  case (EvTick t)
  then show ?thesis using assms by (simp add: station_up_def pending_def)
next
  case (EvIbss r)
  then show ?thesis using assms by (simp add: station_up_def)
next
  case (EvStop b)
  then show ?thesis using assms(2) by simp
qed (use assms in \<open>simp_all add: procedure_up retry_up\<close>)

lemma station_run:
  "station_up m \<Longrightarrow> \<forall>b. EvStop b \<notin> set evs \<Longrightarrow> mlme_run enc during stack evs m = Some m' \<Longrightarrow> station_up m'"
proof (induction evs arbitrary: m)
  case (Cons ev evs)
  from Cons.prems(3) obtain m1 where 1: "mlme_step enc during stack ev m = Some m1" "mlme_run enc during stack evs m1 = Some m'"
    by (auto split: option.splits bind_splits)
  have "station_up m1" using yieldsD[OF station_step[OF Cons.prems(1)] 1(1)] Cons.prems(2) by auto
  with Cons.IH 1(2) Cons.prems(2) show ?case by simp
qed simp

lemma step1_result:
  "m_state (rtllib_associate_step1 m) = RTLLIB_ASSOCIATING_AUTHENTICATING \<and> assoc_timer (rtllib_associate_step1 m)
   \<or> m_state (rtllib_associate_step1 m) = RTLLIB_ASSOCIATING_RETRY \<and> wq_retry (rtllib_associate_step1 m)"
  by (cases "alloc_ok m") (simp_all add: rtllib_associate_step1_def rtllib_authentication_req_def rtllib_associate_abort_def Let_def)

lemma procedure_result:
  assumes "\<not> rf_off m"
  shows "m_state (rtllib_associate_procedure_wq m) = RTLLIB_ASSOCIATING_AUTHENTICATING \<and> assoc_timer (rtllib_associate_procedure_wq m)
   \<or> m_state (rtllib_associate_procedure_wq m) = RTLLIB_ASSOCIATING_RETRY \<and> wq_retry (rtllib_associate_procedure_wq m)"
proof -
  have "\<not> rf_off (rtllib_stop_scan (m\<lparr>wq_procedure := False, sync_scan_hurryup := True\<rparr>))"
    using assms by (simp add: rtllib_stop_scan_def rtllib_softmac_stop_scan_def)
  with step1_result show ?thesis by (simp add: rtllib_associate_procedure_wq_def Let_def)
qed

lemma check_all_nets_state:
  "m_state m = RTLLIB_NOLINK \<Longrightarrow> m_iw_mode m = IW_MODE_INFRA \<Longrightarrow>
   m_state (rtllib_softmac_check_all_nets m) = RTLLIB_NOLINK \<or>
   m_state (rtllib_softmac_check_all_nets m) = RTLLIB_ASSOCIATING \<and> wq_procedure (rtllib_softmac_check_all_nets m)"
  using check_all_nets_prog[of m] by (auto simp: joins_or_keeps_def)

lemma start_scan_result:
  "m_state (rtllib_start_scan m) = m_state m" "feat_scan (rtllib_start_scan m) \<longrightarrow> m_scanning (rtllib_start_scan m)"
  by (simp_all add: rtllib_start_scan_def reset_cie_watchdog_def Let_def)

text \<open>What an attempt that gets no answer comes to: the next network, or a scan.\<close>

definition tries_again :: "mlme \<Rightarrow> bool" where
  "tries_again m \<longleftrightarrow> m_state m = RTLLIB_ASSOCIATING \<and> wq_procedure m
     \<or> m_state m = RTLLIB_NOLINK \<and> (feat_scan m \<longrightarrow> m_scanning m)"

lemma retry_result:
  assumes "station_up m" "m_state m = RTLLIB_ASSOCIATING_RETRY"
  shows "tries_again (rtllib_associate_retry_wq m)"
proof -
  let ?n = "m\<lparr>wq_retry := False, m_state := RTLLIB_NOLINK\<rparr>"
  have "m_iw_mode ?n = IW_MODE_INFRA" "proto_started m" using assms(1) by (simp_all add: station_up_def)
  with check_all_nets_state[of ?n] start_scan_result assms(2) show ?thesis
    by (auto simp: rtllib_associate_retry_wq_def Let_def tries_again_def)
qed

lemma unfinished_pending: "station_up m \<Longrightarrow> state_index (m_state m) \<in> {1..4} \<Longrightarrow> wq_procedure m \<or> assoc_timer m \<or> wq_retry m"
  by (cases "m_state m") (simp_all add: station_up_def pending_def state_index_def, blast+)

lemma unanswered_ends:
  assumes up: "station_up m" and unfinished: "state_index (m_state m) \<in> {1..4}"
  shows "\<exists>m'. mlme_run enc during stack [EvProcedure, EvAssocTimer, EvRetry] m = Some m' \<and> tries_again m'"
proof -
  define m1 where "m1 = (if wq_procedure m then rtllib_associate_procedure_wq m else m)"
  define m2 where "m2 = (if assoc_timer m1 then rtllib_associate_abort (m1\<lparr>assoc_timer := False\<rparr>) else m1)"
  have up1: "station_up m1" using up procedure_up by (simp add: m1_def)
  have "m_state m1 = RTLLIB_ASSOCIATING_RETRY \<or> assoc_timer m1"
    using procedure_result[of m] up unfinished
    by (cases "m_state m") (auto simp: m1_def station_up_def pending_def state_index_def)
  then have st2: "m_state m2 = RTLLIB_ASSOCIATING_RETRY"
    by (auto simp: m2_def rtllib_associate_abort_def Let_def)
  have s1: "mlme_step enc during stack EvProcedure m = Some m1" by (simp add: m1_def)
  have s2: "mlme_step enc during stack EvAssocTimer m1 = Some m2" by (simp add: m2_def)
  have up2: "station_up m2" using station_step[OF up1, of EvAssocTimer enc during stack] s2 by simp
  then have "wq_retry m2" using st2 by (simp add: station_up_def pending_def)
  then have s3: "mlme_step enc during stack EvRetry m2 = Some (rtllib_associate_retry_wq m2)" by simp
  have "mlme_run enc during stack [EvProcedure, EvAssocTimer, EvRetry] m = Some (rtllib_associate_retry_wq m2)"
    by (simp only: mlme_run.simps s1 s2 s3 bind.bind_lunit)
  with retry_result[OF up2 st2] show ?thesis by blast
qed



end
