(* ===== verification/Assoc_Safe.thy ===== *)
theory Assoc_Safe
  imports Assoc_Props BA_Props
begin

text \<open>
  When a station gets the state LINKED, which channels a scan uses, and a station that is stopped
  in the middle of an association.
\<close>

section \<open>Linked\<close>

text \<open>An operation that does not link a station.\<close>

definition no_link :: "mlme \<Rightarrow> mlme \<Rightarrow> bool" where
  "no_link m m' \<longleftrightarrow> m_iw_mode m' = m_iw_mode m \<and> (m_iw_mode m = IW_MODE_INFRA \<longrightarrow> m_state m' = RTLLIB_LINKED \<longrightarrow> m_state m = RTLLIB_LINKED)"

lemma no_link_prog: "prog_same m m' \<Longrightarrow> no_link m m'" "joins_or_keeps m m' \<Longrightarrow> no_link m m'"
  by (auto simp: no_link_def joins_or_keeps_def prog_same_def rest_same_def)

lemma no_link_trans: "no_link a b \<Longrightarrow> no_link b c \<Longrightarrow> no_link a c"
  by (auto simp: no_link_def)

lemma no_link_abort: "m_iw_mode m1 = m_iw_mode m \<Longrightarrow> no_link m (rtllib_associate_abort m1)"
  by (simp add: no_link_def rtllib_associate_abort_def Let_def)

lemma no_link_step1: "m_iw_mode m1 = m_iw_mode m \<Longrightarrow> no_link m (rtllib_associate_step1 m1)"
  by (cases "alloc_ok m1")
    (simp_all add: no_link_def rtllib_associate_step1_def rtllib_authentication_req_def rtllib_associate_abort_def Let_def)

lemma no_link_procedure: "no_link m (rtllib_associate_procedure_wq m)"
proof -
  have *: "m_iw_mode (rtllib_stop_scan (m\<lparr>wq_procedure := False, sync_scan_hurryup := True\<rparr>)) = m_iw_mode m"
    "m_state (rtllib_stop_scan (m\<lparr>wq_procedure := False, sync_scan_hurryup := True\<rparr>)) = m_state m"
    by (simp_all add: rtllib_stop_scan_def rtllib_softmac_stop_scan_def)
  with no_link_step1 show ?thesis by (simp add: rtllib_associate_procedure_wq_def Let_def) (simp add: no_link_def)
qed

lemma no_link_retry: "no_link m (rtllib_associate_retry_wq m)"
proof -
  let ?n = "m\<lparr>wq_retry := False, m_state := RTLLIB_NOLINK\<rparr>"
  have 1: "no_link ?n (rtllib_softmac_check_all_nets ?n)" by (rule no_link_prog(2)[OF check_all_nets_prog])
  have 2: "no_link m ?n" by (simp add: no_link_def)
  have 3: "no_link (rtllib_softmac_check_all_nets ?n) (rtllib_start_scan (rtllib_softmac_check_all_nets ?n\<lparr>actscanning := True\<rparr>))"
    by (rule no_link_prog(1), rule prog_same_trans[OF _ start_scan_prog]) (simp add: prog_defs)
  have "no_link m (m\<lparr>wq_retry := False\<rparr>)" by (simp add: no_link_def)
  with no_link_trans[OF 2 1] no_link_trans[OF no_link_trans[OF 2 1] 3] show ?thesis
    by (simp add: rtllib_associate_retry_wq_def Let_def)
qed

lemma no_link_step2: "m_iw_mode m1 = m_iw_mode m \<Longrightarrow> m_state m1 = RTLLIB_ASSOCIATING_AUTHENTICATED \<Longrightarrow>
    yields (no_link m) (rtllib_associate_step2 m1)"
  unfolding rtllib_associate_step2_def
  by (intro yields_bind[OF association_req_prog] yields_pair)
    (auto simp: no_link_def prog_defs rtllib_associate_abort_def Let_def split: option.splits)

lemma no_link_auth_accepted: "yields (no_link m) (auth_accepted m)"
  unfolding auth_accepted_def Let_def
  by (rule yields_bind_any, rule no_link_step2) simp_all

lemma no_link_challenge: "no_link m (rtllib_auth_challenge enc c m)"
  by (cases "alloc_ok m")
    (simp_all add: no_link_def rtllib_auth_challenge_def rtllib_authentication_req_def Let_def rtllib_associate_abort_def)

lemma no_link_rx_auth:
  assumes "m_iw_mode m = IW_MODE_INFRA"
  shows "yields (no_link m) (rx_auth enc m s)"
  unfolding rx_auth_def using assms
  by (intro yields_if yields_bind_any yields_pair yields_option)
    (simp_all add: no_link_prog prog_same_refl no_link_auth_accepted no_link_challenge no_link_abort)

lemma no_link_deauth: "yields (no_link m) (rx_deauth m s)"
proof -
  have *: "no_link m (rtllib_disassociate m1\<lparr>m_tsd := d, wq_procedure := True\<rparr>)" if "m_iw_mode m1 = m_iw_mode m" for m1 d
    using that by (simp add: no_link_def rtllib_disassociate_def Let_def)
  show ?thesis
    unfolding rx_deauth_def Let_def
    by (rule yields_bind_any, rule yields_if, simp add: no_link_prog prog_same_refl, rule yields_if, rule yields_bind_any,
        rule yields_bind_any, subst yields_Some, rule *, simp, simp add: no_link_prog prog_same_refl)
qed

text \<open>The response that links a station.\<close>

definition accepts :: "mlme \<Rightarrow> skb \<Rightarrow> bool" where
  "accepts m s \<longleftrightarrow> m_state m = RTLLIB_ASSOCIATING_AUTHENTICATED \<and> 30 \<le> sk_len s \<and> rd16 s 26 = Some 0"

lemma assoc_parse_accepts: "assoc_parse m s = Some (m1, 0, aid) \<Longrightarrow> 30 \<le> sk_len s \<and> rd16 s 26 = Some 0"
  by (auto simp: assoc_parse_def ERR_SHORT_def Let_def split: if_splits bind_splits)

lemma response_links:
  assumes "rx_assoc_response m s stats stack = Some m'" "m_state m' = RTLLIB_LINKED" "m_state m \<noteq> RTLLIB_LINKED"
  shows "accepts m s"
proof (cases "feat_associate m \<and> m_state m = RTLLIB_ASSOCIATING_AUTHENTICATED \<and> m_iw_mode m = IW_MODE_INFRA")
  case True
  with assms(1) obtain m1 e aid where p: "assoc_parse m s = Some (m1, e, aid)"
    by (auto simp: rx_assoc_response_def split: bind_splits)
  have "m_state m1 = m_state m" using yieldsD[OF assoc_parse_prog p] by (simp add: prog_defs)
  have "e = 0"
  proof (rule ccontr)
    assume "e \<noteq> 0"
    then have "m_state m' \<noteq> RTLLIB_LINKED" using assms(1) True p \<open>m_state m1 = m_state m\<close>
      by (auto simp: rx_assoc_response_def rtllib_associate_abort_def Let_def split: if_splits)
    with assms(2) show False by simp
  qed
  then show ?thesis using True assoc_parse_accepts p by (auto simp: accepts_def)
next
  case False
  with assms show ?thesis by (simp only: rx_assoc_response_def if_False option.inject simp_thms)
qed


lemma no_link_start_bss: "no_link m (rtllib_start_bss m)"
proof -
  have 1: "no_link m (rtllib_softmac_check_all_nets m)" by (rule no_link_prog(2)[OF check_all_nets_prog])
  have 2: "no_link (rtllib_softmac_check_all_nets m) (rtllib_start_scan (rtllib_softmac_check_all_nets m\<lparr>actscanning := True\<rparr>))"
    by (rule no_link_prog(1), rule prog_same_trans[OF _ start_scan_prog]) (simp add: prog_defs)
  show ?thesis using 1 no_link_trans[OF 1 2] no_link_prog(1)[OF prog_same_refl]
    by (simp add: rtllib_start_bss_def Let_def)
qed

lemma first_channel_prog: "yields (prog_same m) (first_channel m)"
  by (auto simp: first_channel_def prog_defs split: option.split)

lemma no_link_start:
  assumes "m_iw_mode m = IW_MODE_INFRA"
  shows "no_link m (rtllib_softmac_start_protocol m)"
proof (cases "proto_started m")
  case True
  then show ?thesis by (simp add: rtllib_softmac_start_protocol_def rtllib_start_protocol_def no_link_def)
next
  case False
  let ?m0 = "m\<lparr>sync_scan_hurryup := False, proto_started := True\<rparr>"
  have "no_link m (rtllib_start_bss (upd_cur f m1\<lparr>m_wmm_acm := 0\<rparr>)) \<and> m_iw_mode m1 = IW_MODE_INFRA" if "first_channel ?m0 = Some m1" for m1 f
  proof -
    have "prog_same ?m0 m1" using first_channel_prog[of ?m0] that by (rule yieldsD)
    then have 1: "m_iw_mode m1 = m_iw_mode m" "m_state m1 = m_state m" by (simp_all add: prog_defs)
    then have "no_link m (upd_cur f m1\<lparr>m_wmm_acm := 0\<rparr>)" by (simp add: no_link_def)
    then show ?thesis using no_link_trans[OF _ no_link_start_bss] 1 assms by simp
  qed
  moreover have "no_link m ?m0" by (simp add: no_link_def)
  ultimately show ?thesis using False assms
    by (cases "first_channel ?m0") (simp_all add: rtllib_softmac_start_protocol_def rtllib_start_protocol_def)
qed

lemma stop_mode:
  "m_iw_mode (rtllib_stop_scan m) = m_iw_mode m" "m_iw_mode (rtllib_stop_send_beacons m) = m_iw_mode m"
  "m_iw_mode (rtllib_disassociate m) = m_iw_mode m" "m_iw_mode (SendDisassociation m d r) = m_iw_mode m"
  by (simp_all add: rtllib_disassociate_def Let_def SendDisassociation_def rtllib_stop_scan_def rtllib_softmac_stop_scan_def
      rtllib_stop_send_beacons_def split: option.split)

lemma stop_unlinks: "m_state (if m_state a = RTLLIB_LINKED then rtllib_disassociate b else a) \<noteq> RTLLIB_LINKED"
  by (simp add: rtllib_disassociate_def Let_def)

lemma no_link_stop:
  assumes "m_iw_mode m = IW_MODE_INFRA"
  shows "yields (no_link m) (rtllib_softmac_stop_protocol b m)"
proof -
  have tail: "yields (no_link m) (do { m6 \<leftarrow> if b then do { d \<leftarrow> r m5; Some (m5\<lparr>m_tsd := d, proto_stoppping := False\<rparr>) } else Some m5;
      Some (m6\<lparr>assocreq_ies := [], assocresp_ies := []\<rparr>) })" if "m_state m5 \<noteq> RTLLIB_LINKED" "m_iw_mode m5 = m_iw_mode m" for m5 r
    by (rule yields_bind[of "\<lambda>a. m_state a \<noteq> RTLLIB_LINKED \<and> m_iw_mode a = m_iw_mode m"], intro yields_if yields_bind_any)
      (use that in \<open>simp_all add: no_link_def\<close>)
  have keep: "no_link m (m\<lparr>sync_scan_hurryup := True\<rparr>)" by (simp add: no_link_def)
  show ?thesis
    unfolding rtllib_softmac_stop_protocol_def rtllib_stop_protocol_def Let_def
    by (rule yields_if, simp add: keep, rule tail, rule stop_unlinks) (simp add: stop_mode if_distrib[of m_iw_mode])
qed

lemma softmac_links:
  assumes "rtllib_rx_frame_softmac enc m s stats stack = Some m'" "m_state m' = RTLLIB_LINKED" "m_state m \<noteq> RTLLIB_LINKED"
    and "m_iw_mode m = IW_MODE_INFRA"
  shows "proto_started m \<and> accepts m s \<and> (\<exists>fc. rd16 s 0 = Some fc \<and> WLAN_FC_GET_STYPE fc \<in> {0x10, 0x30})"
proof -
  have no: "r \<noteq> Some m'" if "yields (no_link m) r" for r
    using that assms(2-4) by (auto simp: no_link_def yields_def)
  have others: "rx_deauth m s \<noteq> Some m'" "rx_auth enc m s \<noteq> Some m'" "m \<noteq> m'" "\<forall>d. m\<lparr>m_tsd := d\<rparr> \<noteq> m'"
    using no[OF no_link_deauth] no[OF no_link_rx_auth[OF assms(4)]] no[of "Some m"] no[of "Some (m\<lparr>m_tsd := _\<rparr>)"]
    by (simp_all add: no_link_def)
  have st: "proto_started m" using assms(1-3) by (auto simp: rtllib_rx_frame_softmac_def split: if_splits)
  then obtain fc where fc: "rd16 s 0 = Some fc" using assms(1) by (auto simp: rtllib_rx_frame_softmac_def split: bind_splits)
  have "WLAN_FC_GET_STYPE fc \<in> {0x10, 0x30}"
  proof (rule ccontr)
    assume a: "WLAN_FC_GET_STYPE fc \<notin> {0x10, 0x30}"
    have "rtllib_rx_frame_softmac enc m s stats stack \<noteq> Some m'"
      unfolding rtllib_rx_frame_softmac_def Let_def using st fc a assms(4) others by (simp del: rd8_Some)
    with assms(1) show False by simp
  qed
  moreover from this have "rx_assoc_response m s stats stack = Some m'"
    using assms(1) st fc by (auto simp: rtllib_rx_frame_softmac_def)
  ultimately show ?thesis using response_links assms(2,3) st fc by blast
qed

lemma rx_mgt_other:
  "rd16 s 0 = Some fc \<Longrightarrow> WLAN_FC_GET_STYPE fc \<in> {0x10, 0x30} \<Longrightarrow> rtllib_rx_mgt m s stats stack = Some (m\<lparr>last_rx_ps := m_jiffies m\<rparr>)"
  by (auto simp: rtllib_rx_mgt_def)

lemma frame_links:
  assumes "rtllib_rx_frame_mgmt enc m s stats stack = Some m'" "m_iw_mode m = IW_MODE_INFRA" "m_state m \<noteq> RTLLIB_LINKED" "m_state m' = RTLLIB_LINKED"
  shows "rdn s 4 6 = Some (take 6 (own_addr m)) \<and> proto_started m \<and> accepts m s \<and> (\<exists>fc. rd16 s 0 = Some fc \<and> WLAN_FC_GET_STYPE fc \<in> {0x10, 0x30})"
proof -
  let ?st = "stats\<lparr>stats_len := of_nat (sk_len s)\<rparr>"
  from assms(1) obtain m1 a1 where 1: "rtllib_rx_mgt m s ?st stack = Some m1" "rdn s 4 6 = Some a1"
    "(if a1 \<noteq> take 6 (own_addr m1) then Some m1 else rtllib_rx_frame_softmac enc m1 s ?st stack) = Some m'"
    by (auto simp: rtllib_rx_frame_mgmt_def Let_def split: bind_splits)
  have "no_link m m1" using yieldsD[OF rx_mgt_prog 1(1)] by (rule no_link_prog(2))
  then have m1: "m_state m1 \<noteq> RTLLIB_LINKED" "m_iw_mode m1 = IW_MODE_INFRA" using assms(2,3) by (auto simp: no_link_def)
  have own: "a1 = take 6 (own_addr m1)" using 1(3) m1 assms(4) by (auto split: if_splits)
  have soft: "rtllib_rx_frame_softmac enc m1 s ?st stack = Some m'" using 1(3) own by simp
  from softmac_links[OF soft assms(4) m1] obtain fc where
    fc: "proto_started m1" "accepts m1 s" "rd16 s 0 = Some fc" "WLAN_FC_GET_STYPE fc \<in> {0x10, 0x30}" by blast
  have "m1 = m\<lparr>last_rx_ps := m_jiffies m\<rparr>" using rx_mgt_other[OF fc(3,4)] 1(1) by simp
  with own fc 1(2) show ?thesis by (auto simp: accepts_def)
qed

lemma other_steps:
  assumes "m_iw_mode m = IW_MODE_INFRA" "\<not> wq_start_ibss m" "\<And>s stats. ev \<noteq> EvFrame s stats"
  shows "yields (no_link m) (mlme_step enc during stack ev m)"
proof -
  have refl: "no_link m m" by (simp add: no_link_def)
  have same: "yields (no_link m) r" if "yields (prog_same m) r" for r
    using that no_link_prog(1) by (auto simp: yields_def)
  have beacon: "yields (prog_same m) (rtllib_send_beacon (m\<lparr>beacon_timer := False\<rparr>))"
    by (rule yields_same_trans[OF send_beacon_prog]) (simp add: prog_defs)
  have change: "prog_same m (rtllib_link_change_wq m)"
    unfolding rtllib_link_change_wq_def by (rule prog_same_trans[OF _ link_change_prog]) (simp add: prog_defs)
  have dis: "no_link m (rtllib_disassociate m)" by (simp add: no_link_def rtllib_disassociate_def Let_def)
  have tick: "no_link m (m\<lparr>m_jiffies := t\<rparr>)" for t by (simp add: no_link_def)
  show ?thesis
  proof (cases ev)
    case (EvFrame s stats)
    with assms(3) show ?thesis by blast
  qed (use assms(1,2) in \<open>simp_all add: refl dis tick same[OF beacon] same[OF scan_wq_prog] same[OF complete_prog] no_link_abort
        no_link_procedure no_link_retry no_link_start no_link_stop no_link_prog(1)[OF change]
        no_link_prog(1)[OF update_beacon_prog] no_link_prog(1)[OF qos_activate_prog]\<close>)
qed

text \<open>
  C5: a station becomes linked in one way only. When a step of a station that is not linked and
  has no ad hoc start queued ends in the state LINKED, the step is the arrival of an association
  or reassociation response that is addressed to the station and long enough, whose status is
  success, while the protocol runs and the station has been authenticated; no timer, work item,
  call or other frame links it.
\<close>

theorem linked_by_response:
  assumes "mlme_step enc during stack ev m = Some m'" "m_iw_mode m = IW_MODE_INFRA" "\<not> wq_start_ibss m"
    and "m_state m \<noteq> RTLLIB_LINKED" "m_state m' = RTLLIB_LINKED"
  shows "\<exists>s stats fc. ev = EvFrame s stats \<and> rd16 s 0 = Some fc \<and> WLAN_FC_GET_STYPE fc \<in> {0x10, 0x30} \<and>
    rdn s 4 6 = Some (take 6 (own_addr m)) \<and> proto_started m \<and> m_state m = RTLLIB_ASSOCIATING_AUTHENTICATED \<and>
    30 \<le> sk_len s \<and> rd16 s 26 = Some 0"
proof (cases "\<exists>s stats. ev = EvFrame s stats")
  case True
  then obtain s stats where ev: "ev = EvFrame s stats" by blast
  with assms(1) have "rtllib_rx_frame_mgmt enc m s stats stack = Some m'" by simp
  from frame_links[OF this assms(2,4,5)] ev show ?thesis by (auto simp: accepts_def)
next
  case False
  then have "no_link m m'" using yieldsD[OF other_steps[OF assms(2,3)] assms(1)] by blast
  with assms(2,4,5) show ?thesis by (simp add: no_link_def)
qed

definition ex_waiting :: mlme where
  "ex_waiting = (ex_mlme IW_MODE_INFRA)\<lparr>m_state := RTLLIB_ASSOCIATING_AUTHENTICATED, m_qos_support := False, assoc_timer := True\<rparr>"

definition ex_response :: skb where
  "ex_response = \<lparr>sk_mem = [0x10, 0, 0, 0] @ own_addr ex_waiting @ replicate 14 0 @ [1, 0, 0, 0, 1, 0xc0], sk_len = 30\<rparr>"

lemma ex_response_links:
  "\<exists>m'. mlme_step (\<lambda>s. s) (\<lambda>_. Some) [] (EvFrame ex_response (ex_signal 30)) ex_waiting = Some m' \<and> m_state m' = RTLLIB_LINKED"
proof -
  let ?m = "ex_waiting\<lparr>last_rx_ps := m_jiffies ex_waiting\<rparr>"
  have reads: "rd16 ex_response 0 = Some 0x10" "rd16 ex_response 26 = Some 0" "rd16 ex_response 28 = Some 0xc001"
    "rdn ex_response 4 6 = Some (take 6 (own_addr ex_waiting))" "rdn ex_response 30 0 = Some []" "sk_len ex_response = 30"
    by (simp_all add: ex_response_def rd16_def rd8_def rdn_def le16_def ex_waiting_def ex_mlme_def ex_dev_def nth_append del: rd8_Some)
  have ready: "feat_associate ?m" "m_state ?m = RTLLIB_ASSOCIATING_AUTHENTICATED" "m_iw_mode ?m = IW_MODE_INFRA"
    "proto_started ?m" "alloc_ok ?m" "\<not> m_qos_support ?m"
    by (simp_all add: ex_waiting_def ex_mlme_def)
  have "rtllib_rx_mgt ex_waiting ex_response st [] = Some ?m" for st
    by (rule rx_mgt_other[OF reads(1)]) (simp add: WLAN_FC_GET_STYPE_def)
  moreover have "rtllib_rx_frame_softmac (\<lambda>s. s) ?m ex_response st [] = rx_assoc_response ?m ex_response st []" for st
    using ready reads by (simp add: rtllib_rx_frame_softmac_def WLAN_FC_GET_STYPE_def)
  moreover have "\<exists>m'. rx_assoc_response ?m ex_response st [] = Some m' \<and> m_state m' = RTLLIB_LINKED" for st
    unfolding rx_assoc_response_def using ready reads
    by (simp add: assoc_parse_def assoc_accepted_def rtllib_associate_complete_def)
  ultimately show ?thesis using reads(4) by (simp add: rtllib_rx_frame_mgmt_def)
qed

lemma linked_by_response_witness:
  "\<exists>s stats fc. EvFrame ex_response (ex_signal 30) = EvFrame s stats \<and> rd16 s 0 = Some fc \<and> WLAN_FC_GET_STYPE fc \<in> {0x10, 0x30} \<and>
    rdn s 4 6 = Some (take 6 (own_addr ex_waiting)) \<and> proto_started ex_waiting \<and>
    m_state ex_waiting = RTLLIB_ASSOCIATING_AUTHENTICATED \<and> 30 \<le> sk_len s \<and> rd16 s 26 = Some 0"
proof -
  obtain m' where m': "mlme_step (\<lambda>s. s) (\<lambda>_. Some) [] (EvFrame ex_response (ex_signal 30)) ex_waiting = Some m'" "m_state m' = RTLLIB_LINKED"
    using ex_response_links by blast
  show ?thesis
    by (rule linked_by_response[OF m'(1) _ _ _ m'(2)]) (simp_all add: ex_waiting_def ex_mlme_def)
qed

section \<open>A station that is stopped in the middle\<close>

definition halted :: "mlme \<Rightarrow> bool" where
  "halted m \<longleftrightarrow> m_state m = RTLLIB_ASSOCIATING_RETRY \<and> proto_started m \<and> m_iw_mode m = IW_MODE_INFRA \<and>
     \<not> wq_procedure m \<and> \<not> assoc_timer m \<and> \<not> wq_retry m \<and> \<not> wq_start_ibss m"

lemma halted_prog: "prog_same m m' \<Longrightarrow> halted m \<Longrightarrow> halted m'" "joins_or_keeps m m' \<Longrightarrow> halted m \<Longrightarrow> halted m'"
  by (auto simp: halted_def joins_or_keeps_def prog_same_def rest_same_def)

lemma halted_yields: "yields (prog_same m) r \<Longrightarrow> halted m \<Longrightarrow> yields halted r"
  by (cases r) (auto intro: halted_prog)

lemma halted_softmac:
  assumes "halted m"
  shows "yields halted (rtllib_rx_frame_softmac enc m s stats stack)"
proof -
  have st: "m_state m = RTLLIB_ASSOCIATING_RETRY" "m_iw_mode m = IW_MODE_INFRA" using assms by (simp_all add: halted_def)
  have "rx_assoc_response m s stats stack = Some m" "rx_auth enc m s = Some m" using st
    by (simp_all add: rx_assoc_response_def rx_auth_def)
  moreover have "yields halted (rx_deauth m s)"
    unfolding rx_deauth_def by (rule yields_bind_any) (simp add: st assms)
  ultimately show ?thesis
    unfolding rtllib_rx_frame_softmac_def Let_def
    by (intro yields_if yields_bind_any) (simp_all add: st assms halted_yields[OF action_prog])
qed

lemma halted_frame:
  assumes "halted m"
  shows "yields halted (rtllib_rx_frame_mgmt enc m s stats stack)"
  unfolding rtllib_rx_frame_mgmt_def Let_def
proof (rule yields_bind[OF rx_mgt_prog], rule yields_bind_any, rule yields_if)
  fix m1 assume "joins_or_keeps m m1"
  then have "halted m1" using assms by (rule halted_prog(2))
  then show "yields halted (Some m1)" "yields halted (rtllib_rx_frame_softmac enc m1 s (stats\<lparr>stats_len := word_of_nat (sk_len s)\<rparr>) stack)"
    by (simp_all add: halted_softmac)
qed

lemma halted_step:
  assumes "halted m" "ev \<noteq> EvDisassociate" "\<And>b. ev \<noteq> EvStop b"
  shows "yields halted (mlme_step enc during stack ev m)"
proof -
  have beacon: "yields (prog_same m) (rtllib_send_beacon (m\<lparr>beacon_timer := False\<rparr>))"
    by (rule yields_same_trans[OF send_beacon_prog]) (simp add: prog_defs)
  have change: "prog_same m (rtllib_link_change_wq m)"
    unfolding rtllib_link_change_wq_def by (rule prog_same_trans[OF _ link_change_prog]) (simp add: prog_defs)
  have start: "rtllib_softmac_start_protocol m = m\<lparr>sync_scan_hurryup := False\<rparr>"
    using assms(1) by (simp add: rtllib_softmac_start_protocol_def rtllib_start_protocol_def halted_def)
  have "halted (m\<lparr>sync_scan_hurryup := False\<rparr>)" "halted (m\<lparr>m_jiffies := t\<rparr>)" for t using assms(1) by (simp_all add: halted_def)
  moreover have "\<not> wq_procedure m" "\<not> assoc_timer m" "\<not> wq_retry m" "\<not> wq_start_ibss m" using assms(1) by (simp_all add: halted_def)
  ultimately show ?thesis
  proof (cases ev)
    case (EvStop b)
    with assms(3) show ?thesis by blast
  qed (use assms(1,2) in \<open>simp_all add: halted_frame start halted_yields[OF beacon] halted_yields[OF scan_wq_prog]
        halted_yields[OF complete_prog] halted_prog(1)[OF change] halted_prog(1)[OF update_beacon_prog]
        halted_prog(1)[OF qos_activate_prog]\<close>)
qed

lemma halted_run:
  "halted m \<Longrightarrow> EvDisassociate \<notin> set evs \<Longrightarrow> \<forall>b. EvStop b \<notin> set evs \<Longrightarrow> mlme_run enc during stack evs m = Some m' \<Longrightarrow> halted m'"
proof (induction evs arbitrary: m)
  case (Cons ev evs)
  from Cons.prems(4) obtain m1 where 1: "mlme_step enc during stack ev m = Some m1" "mlme_run enc during stack evs m1 = Some m'"
    by (auto split: option.splits bind_splits)
  have "halted m1" using yieldsD[OF halted_step[OF Cons.prems(1)] 1(1)] Cons.prems(2,3) by auto
  with Cons.IH 1(2) Cons.prems(2,3) show ?case by simp
qed simp

lemma mlme_run_append:
  "mlme_run enc during stack (as @ bs) m = (mlme_run enc during stack as m \<bind> mlme_run enc during stack bs)"
  by (induction as arbitrary: m) (auto split: bind_split)

text \<open>What stopping leaves: the work item of the procedure is not cancelled.\<close>

definition stopped :: "mlme \<Rightarrow> bool" where
  "stopped m \<longleftrightarrow> \<not> proto_started m \<and> wq_procedure m \<and> m_iw_mode m = IW_MODE_INFRA \<and> \<not> rf_off m \<and> \<not> wq_start_ibss m"

lemma stop_frame:
  "wq_procedure (rtllib_stop_scan m) = wq_procedure m" "wq_procedure (rtllib_stop_send_beacons m) = wq_procedure m"
  "wq_procedure (rtllib_disassociate m) = wq_procedure m" "wq_procedure (SendDisassociation m d r) = wq_procedure m"
  "proto_started (rtllib_stop_scan m) = proto_started m" "proto_started (rtllib_stop_send_beacons m) = proto_started m"
  "proto_started (rtllib_disassociate m) = proto_started m" "proto_started (SendDisassociation m d r) = proto_started m"
  "rf_off (rtllib_stop_scan m) = rf_off m" "rf_off (rtllib_stop_send_beacons m) = rf_off m"
  "rf_off (rtllib_disassociate m) = rf_off m" "rf_off (SendDisassociation m d r) = rf_off m"
  "wq_start_ibss (rtllib_stop_scan m) = wq_start_ibss m"
  "wq_start_ibss (rtllib_disassociate m) = wq_start_ibss m" "wq_start_ibss (SendDisassociation m d r) = wq_start_ibss m"
  by (simp_all add: rtllib_disassociate_def Let_def SendDisassociation_def rtllib_stop_scan_def rtllib_softmac_stop_scan_def
      rtllib_stop_send_beacons_def split: option.split)

lemma stop_leaves:
  assumes "m_iw_mode m = IW_MODE_INFRA" "proto_started m" "\<not> rf_off m" "wq_procedure m"
  shows "yields stopped (rtllib_softmac_stop_protocol True m)"
proof -
  have tail: "yields stopped (do { m6 \<leftarrow> if True then do { d \<leftarrow> r m5; Some (m5\<lparr>m_tsd := d, proto_stoppping := False\<rparr>) } else Some m5;
      Some (m6\<lparr>assocreq_ies := [], assocresp_ies := []\<rparr>) })" if "stopped m5" for m5 r
    by (rule yields_bind[of stopped], intro yields_if yields_bind_any) (use that in \<open>simp_all add: stopped_def\<close>)
  have closed: "stopped (if b then rtllib_disassociate (SendDisassociation a d r) else a)" if "stopped a" for a b d r
    using that by (simp add: stopped_def stop_frame stop_mode)
  have unlinked: "stopped (if b then a\<lparr>m_state := st\<rparr> else a)" if "stopped a" for a b st
    using that by (simp add: stopped_def)
  have scan: "stopped (rtllib_stop_scan a)" if "stopped a" for a
    using that by (simp add: stopped_def stop_frame stop_mode)
  have timers: "stopped (rtllib_stop_send_beacons (if True then m\<lparr>sync_scan_hurryup := True, proto_started := False, proto_stoppping := True\<rparr>
        else m\<lparr>sync_scan_hurryup := True\<rparr>)\<lparr>assoc_timer := False, wq_retry := False, wq_start_ibss := False, wq_link_change := False\<rparr>)"
    using assms by (simp add: stopped_def stop_frame stop_mode)
  show ?thesis
    unfolding rtllib_softmac_stop_protocol_def rtllib_stop_protocol_def Let_def
    by (rule yields_if, use assms(2) in simp, rule tail, rule closed, rule unlinked, rule scan, rule timers)
qed

lemma rest_step1: "rest_same m m1 \<Longrightarrow> \<not> wq_procedure m1 \<Longrightarrow>
   m_iw_mode (rtllib_associate_step1 m1) = m_iw_mode m \<and> proto_started (rtllib_associate_step1 m1) = proto_started m \<and>
   wq_start_ibss (rtllib_associate_step1 m1) = wq_start_ibss m \<and> \<not> wq_procedure (rtllib_associate_step1 m1)"
  by (cases "alloc_ok m1")
    (simp_all add: rtllib_associate_step1_def rtllib_authentication_req_def rtllib_associate_abort_def Let_def rest_same_def)

lemma procedure_rest:
  "m_iw_mode (rtllib_associate_procedure_wq m) = m_iw_mode m \<and> proto_started (rtllib_associate_procedure_wq m) = proto_started m \<and>
   wq_start_ibss (rtllib_associate_procedure_wq m) = wq_start_ibss m \<and> \<not> wq_procedure (rtllib_associate_procedure_wq m)"
proof -
  let ?m = "on_ht (\<lambda>h. HTSetConnectBwMode h HT_CHANNEL_WIDTH_20 HT_EXTCHNL_OFFSET_NO_EXT)
    (rtllib_stop_scan (m\<lparr>wq_procedure := False, sync_scan_hurryup := True\<rparr>))"
  have rest: "rest_same m ?m" "\<not> wq_procedure ?m"
    by (simp_all add: rest_same_def rtllib_stop_scan_def rtllib_softmac_stop_scan_def)
  then have "rest_same m (?m\<lparr>associate_seq := 1\<rparr>)" "\<not> wq_procedure (?m\<lparr>associate_seq := 1\<rparr>)" by (simp_all add: rest_same_def)
  note step = rest_step1[OF this]
  show ?thesis
  proof (cases "rf_off ?m")
    case True
    then have "rtllib_associate_procedure_wq m = ?m" by (simp only: rtllib_associate_procedure_wq_def Let_def if_True)
    with rest show ?thesis by (simp add: rest_same_def)
  next
    case False
    then have "rtllib_associate_procedure_wq m = rtllib_associate_step1 (?m\<lparr>associate_seq := 1\<rparr>)"
      by (simp only: rtllib_associate_procedure_wq_def Let_def if_False)
    with step show ?thesis by simp
  qed
qed

lemma start_halts:
  assumes "halted (m\<lparr>proto_started := True\<rparr>)" "\<not> proto_started m"
  shows "halted (rtllib_softmac_start_protocol m)"
proof -
  let ?m0 = "m\<lparr>sync_scan_hurryup := False, proto_started := True\<rparr>"
  have h0: "halted ?m0" using assms(1) by (simp add: halted_def)
  have bss: "halted (rtllib_start_bss a)" if a: "halted a" for a
  proof -
    have n: "halted (rtllib_softmac_check_all_nets a)" by (rule halted_prog(2)[OF check_all_nets_prog a])
    then have "m_state (rtllib_softmac_check_all_nets a) = RTLLIB_ASSOCIATING_RETRY" by (simp add: halted_def)
    with n a show ?thesis by (simp add: rtllib_start_bss_def Let_def)
  qed
  have "halted (rtllib_start_bss (upd_cur f m1\<lparr>m_wmm_acm := 0\<rparr>)) \<and> m_iw_mode m1 = IW_MODE_INFRA" if "first_channel ?m0 = Some m1" for m1 f
  proof -
    have "halted m1" using yieldsD[OF first_channel_prog that] h0 by (rule halted_prog(1))
    then show ?thesis using bss[of "upd_cur f m1\<lparr>m_wmm_acm := 0\<rparr>"] by (simp add: halted_def)
  qed
  with h0 show ?thesis using assms(2)
    by (cases "first_channel ?m0") (simp_all add: rtllib_softmac_start_protocol_def rtllib_start_protocol_def)
qed

lemma stopped_halts:
  assumes "stopped m"
  shows "yields halted (mlme_run enc during stack [EvProcedure, EvAssocTimer, EvRetry, EvStart] m)"
proof -
  define m1 where "m1 = rtllib_associate_procedure_wq m"
  define m2 where "m2 = (if assoc_timer m1 then rtllib_associate_abort (m1\<lparr>assoc_timer := False\<rparr>) else m1)"
  define m3 where "m3 = (if wq_retry m2 then rtllib_associate_retry_wq m2 else m2)"
  have 1: "\<not> proto_started m1 \<and> m_iw_mode m1 = IW_MODE_INFRA \<and> \<not> wq_start_ibss m1 \<and> \<not> wq_procedure m1"
    using procedure_rest[of m] assms by (simp add: m1_def stopped_def)
  have "m_state m1 = RTLLIB_ASSOCIATING_RETRY \<or> assoc_timer m1"
    using procedure_result[of m] assms by (auto simp: m1_def stopped_def)
  then have 2: "m_state m2 = RTLLIB_ASSOCIATING_RETRY \<and> \<not> assoc_timer m2 \<and> \<not> proto_started m2 \<and> m_iw_mode m2 = IW_MODE_INFRA \<and>
      \<not> wq_start_ibss m2 \<and> \<not> wq_procedure m2"
    using 1 by (auto simp: m2_def rtllib_associate_abort_def Let_def)
  then have 3: "halted (m3\<lparr>proto_started := True\<rparr>) \<and> \<not> proto_started m3"
    by (auto simp: m3_def rtllib_associate_retry_wq_def Let_def halted_def)
  have "mlme_step enc during stack EvProcedure m = Some m1" using assms by (simp add: m1_def stopped_def)
  moreover have "mlme_step enc during stack EvAssocTimer m1 = Some m2" by (simp add: m2_def)
  moreover have "mlme_step enc during stack EvRetry m2 = Some m3" by (simp add: m3_def)
  moreover have "mlme_step enc during stack EvStart m3 = Some (rtllib_softmac_start_protocol m3)" by simp
  ultimately have "mlme_run enc during stack [EvProcedure, EvAssocTimer, EvRetry, EvStart] m = Some (rtllib_softmac_start_protocol m3)"
    by (simp only: mlme_run.simps bind.bind_lunit)
  then show ?thesis using 3 start_halts by simp
qed

text \<open>
  C17: stopping the protocol while the work item of an association procedure is queued leaves the
  station stuck. The work item runs after the stop, its time-out puts the station into the retry
  state, and the retry is dropped because the protocol is stopped. When the protocol is started
  again nothing is pending and the state is not the unlinked one, so whatever frames, time-outs
  and starts follow, the station stays in the retry state, until the user stops the protocol or
  disassociates.
\<close>

theorem stop_strands_station:
  assumes "m_iw_mode m = IW_MODE_INFRA" "proto_started m" "\<not> rf_off m" "wq_procedure m"
    and "mlme_run enc during stack ([EvStop True, EvProcedure, EvAssocTimer, EvRetry, EvStart] @ evs) m = Some m'"
    and "EvDisassociate \<notin> set evs" "\<forall>b. EvStop b \<notin> set evs"
  shows "m_state m' = RTLLIB_ASSOCIATING_RETRY \<and> proto_started m' \<and> \<not> wq_procedure m' \<and> \<not> assoc_timer m' \<and> \<not> wq_retry m'"
proof -
  from assms(5) obtain m1 m2 where 1: "rtllib_softmac_stop_protocol True m = Some m1"
    "mlme_run enc during stack [EvProcedure, EvAssocTimer, EvRetry, EvStart] m1 = Some m2" "mlme_run enc during stack evs m2 = Some m'"
    by (auto simp: mlme_run_append simp del: append_Cons split: bind_splits)
  have "stopped m1" using stop_leaves[OF assms(1-4)] 1(1) by (rule yieldsD)
  then have "halted m2" using yieldsD[OF stopped_halts 1(2)] by blast
  then have "halted m'" using assms(6,7) 1(3) by (rule halted_run)
  then show ?thesis by (simp add: halted_def)
qed

definition ex_stopping :: mlme where
  "ex_stopping = (ex_mlme IW_MODE_INFRA)\<lparr>m_state := RTLLIB_ASSOCIATING, wq_procedure := True,
     current_network := net_zero\<lparr>qos_data := qos_zero\<lparr>qos_support := True\<rparr>\<rparr>\<rparr>"

lemma ex_stopping_streams:
  assumes "m_tsd m = ex_dev" "m_iw_mode m = IW_MODE_INFRA" "qos_support (qos_data (current_network m))"
  shows "\<exists>d. RemoveAllTS (ts_view m) = Some d"
proof -
  obtain A P U where "ts_sys ex_dev A P U" using ex_dev_system by (auto simp: ts_system_def)
  then have "ts_sys (ts_view m) A P U"
    by (rule ts_sys_records) (use assms in \<open>simp_all add: ts_view_def ex_dev_def\<close>)
  then have "ts_system (ts_view m)" by (auto simp: ts_system_def)
  then show ?thesis using RemoveAllTS_spec by blast
qed

lemma ex_stopping_stops: "\<exists>m1. rtllib_softmac_stop_protocol True ex_stopping = Some m1"
proof -
  have "\<exists>d. RemoveAllTS (ts_view (ex_stopping\<lparr>sync_scan_hurryup := True, proto_started := False, proto_stoppping := True,
      assoc_timer := False, wq_retry := False, wq_start_ibss := False, wq_link_change := False, scan_watch_dog := 0,
      m_scanning := False, wq_scan := False, m_state := RTLLIB_NOLINK\<rparr>)) = Some d"
    by (rule ex_stopping_streams) (simp_all add: ex_stopping_def ex_mlme_def)
  then show ?thesis
    by (auto simp: rtllib_softmac_stop_protocol_def rtllib_stop_protocol_def Let_def rtllib_stop_scan_def rtllib_softmac_stop_scan_def
        rtllib_stop_send_beacons_def ex_stopping_def ex_mlme_def state_index_def)
qed

lemma stop_strands_station_witness:
  "\<exists>m'. mlme_run (\<lambda>s. s) (\<lambda>_. Some) [] ([EvStop True, EvProcedure, EvAssocTimer, EvRetry, EvStart] @ [EvTick 2000, EvStart]) ex_stopping
       = Some m' \<and>
     m_state m' = RTLLIB_ASSOCIATING_RETRY \<and> proto_started m' \<and> \<not> wq_procedure m' \<and> \<not> assoc_timer m' \<and> \<not> wq_retry m'"
proof -
  obtain m1 where "rtllib_softmac_stop_protocol True ex_stopping = Some m1" using ex_stopping_stops by blast
  then obtain m' where m': "mlme_run (\<lambda>s. s) (\<lambda>_. Some) []
      ([EvStop True, EvProcedure, EvAssocTimer, EvRetry, EvStart] @ [EvTick 2000, EvStart]) ex_stopping = Some m'"
    by simp
  have "m_state m' = RTLLIB_ASSOCIATING_RETRY \<and> proto_started m' \<and> \<not> wq_procedure m' \<and> \<not> assoc_timer m' \<and> \<not> wq_retry m'"
    by (rule stop_strands_station[OF _ _ _ _ m']) (simp_all add: ex_stopping_def ex_mlme_def)
  with m' show ?thesis by blast
qed

section \<open>The channels of a scan\<close>

lemma scan_next_allowed: "scan_next cm ch wd = (True, c, wd') \<Longrightarrow> cm ! unat c \<noteq> 0 \<and> unat c < MAX_CHANNEL_NUMBER"
proof (induction cm ch wd rule: scan_next.induct)
  case (1 cm ch wd)
  let ?c = "of_nat ((unat ch + 1) mod MAX_CHANNEL_NUMBER) :: u8"
  have "unat ?c < MAX_CHANNEL_NUMBER" by (simp add: unat_of_nat)
  with 1 show ?case by (subst (asm) (2) scan_next.simps) (auto simp: Let_def split: if_splits)
qed

text \<open>What a scan step may do to the air and to the tuner.\<close>

definition scan_effect :: "mlme \<Rightarrow> mlme \<Rightarrow> bool" where
  "scan_effect m m' \<longleftrightarrow> hw_log m' = hw_log m \<and> mgmt_sent m' = mgmt_sent m
     \<or> (\<exists>c < MAX_CHANNEL_NUMBER. channel_map (pDot11dInfo (m_d11 m)) ! c \<noteq> 0 \<and> hw_log m' = hw_log m @ [SetChannel (int c)] \<and>
          (mgmt_sent m' = mgmt_sent m \<or> channel_map (pDot11dInfo (m_d11 m)) ! c = 1 \<and> active_scan m))"

lemma probe_requests_log:
  "yields (\<lambda>m'. hw_log m' = hw_log m \<and> (mgmt_sent m' = mgmt_sent m \<or> active_scan m)) (rtllib_send_probe_requests m)"
proof -
  have probe: "yields (\<lambda>m'. hw_log m' = hw_log m) (rtllib_send_probe m)" for m
    unfolding rtllib_send_probe_def by (rule yields_bind_any) (simp split: option.split)
  have "yields (\<lambda>m'. hw_log m' = hw_log m) (do { m1 \<leftarrow> rtllib_send_probe m; rtllib_send_probe m1 })"
    by (rule yields_bind[OF probe]) (use probe in \<open>auto simp: yields_def\<close>)
  then show ?thesis
    by (auto simp: rtllib_send_probe_requests_def yields_def)
qed

text \<open>
  C13: a background scan keeps to the regulatory domain. Every run of its work item either leaves
  the tuner and the air alone or tunes to one channel that the channel map allows, and sends
  probe requests only on a channel that the map marks for active scanning and only when active
  scanning is on. The last channel of the map, 161, is never used. The search for the channel
  ends for every map.
\<close>

theorem scan_keeps_domain:
  assumes "rtllib_softmac_scan_wq m = Some m'"
  shows "hw_log m' = hw_log m \<and> mgmt_sent m' = mgmt_sent m
     \<or> (\<exists>c < 161. channel_map (pDot11dInfo (m_d11 m)) ! c \<noteq> 0 \<and> hw_log m' = hw_log m @ [SetChannel (int c)] \<and>
          (mgmt_sent m' = mgmt_sent m \<or> channel_map (pDot11dInfo (m_d11 m)) ! c = 1 \<and> active_scan m))"
proof -
  let ?m = "m\<lparr>wq_scan := False\<rparr>"
  let ?cm = "channel_map (pDot11dInfo (m_d11 ?m))"
  obtain good ch wd where nx: "scan_next ?cm (ht_channel (current_network ?m)) (scan_watch_dog ?m) = (good, ch, wd)"
    by (metis prod_cases3)
  have tuned: "yields (scan_effect m) (do { m2 \<leftarrow> if ?cm ! unat ch = 1 then rtllib_send_probe_requests m1 else Some m1; Some (m2\<lparr>wq_scan := True\<rparr>) })"
    if "hw_log m1 = hw_log m @ [SetChannel (uint ch)]" "mgmt_sent m1 = mgmt_sent m" "active_scan m1 = active_scan m" good for m1
  proof (rule yields_bind[of "\<lambda>a. hw_log a = hw_log m1 \<and> (mgmt_sent a = mgmt_sent m1 \<or> ?cm ! unat ch = 1 \<and> active_scan m1)"])
    have "good = True" using that(4) by simp
    with scan_next_allowed nx have "?cm ! unat ch \<noteq> 0 \<and> unat ch < MAX_CHANNEL_NUMBER" by blast
    then show "yields (scan_effect m) (Some (a\<lparr>wq_scan := True\<rparr>))"
      if "hw_log a = hw_log m1 \<and> (mgmt_sent a = mgmt_sent m1 \<or> ?cm ! unat ch = 1 \<and> active_scan m1)" for a
      using that \<open>hw_log m1 = _\<close> \<open>mgmt_sent m1 = _\<close> \<open>active_scan m1 = _\<close>
      by (auto simp: scan_effect_def intro!: exI[of _ "unat ch"])
  qed (use probe_requests_log[of m1] in \<open>auto simp: yields_def\<close>)
  have quiet: "yields (scan_effect m) (Some a)" if "hw_log a = hw_log m" "mgmt_sent a = mgmt_sent m" for a
    using that by (simp add: scan_effect_def)
  have "yields (scan_effect m) (rtllib_softmac_scan_wq m)"
    unfolding rtllib_softmac_scan_wq_def Let_def nx prod.case
    by (rule yields_if, rule quiet, simp, simp, rule yields_if, rule quiet, simp, simp, rule yields_if, rule quiet, simp, simp,
        rule yields_if, rule quiet, simp add: scan_end_def Let_def, simp add: scan_end_def Let_def, rule tuned, simp_all)
  with assms show ?thesis by (simp add: yields_def scan_effect_def)
qed

definition ex_scanning :: mlme where
  "ex_scanning = upd_cur (\<lambda>n. n\<lparr>ht_channel := 5\<rparr>) (ex_mlme IW_MODE_INFRA)"

lemma ex_scanning_step: "scan_next (channel_map (pDot11dInfo (m_d11 ex_scanning))) 5 0 = (True, 6, 1)"
  by (subst scan_next.simps) (simp add: ex_scanning_def ex_mlme_def ex_d11_def nth_list_update Let_def)

lemma ex_scanning_probe:
  assumes "length (ssid (current_network m)) = 33" "ssid_len (current_network m) = 2" "length (own_addr m) = 6"
    "cck_modulation m" "ofdm_modulation m"
  shows "\<exists>s. rtllib_probe_req m = Some s"
  using assms by (simp add: rtllib_probe_req_def arr_take_def put_all_def three_addr_def junk_def
      rtllib_MFIE_rate_len_def rtllib_MFIE_Brate_def rtllib_MFIE_Grate_def put16_def)

lemma ex_scanning_probes:
  assumes "length (ssid (current_network m)) = 33" "ssid_len (current_network m) = 2" "length (own_addr m) = 6"
    "cck_modulation m" "ofdm_modulation m"
  shows "\<exists>m'. rtllib_send_probe_requests m = Some m'"
proof -
  obtain s where s: "rtllib_probe_req m = Some s" using ex_scanning_probe[OF assms] by blast
  let ?m = "case s of None \<Rightarrow> m | Some b \<Rightarrow> upd_stats (\<lambda>t. t\<lparr>tx_probe_rq := tx_probe_rq t + 1\<rparr>) (mgmt_xmit b m)"
  have "\<exists>t. rtllib_probe_req ?m = Some t" by (rule ex_scanning_probe) (use assms in \<open>simp_all split: option.split\<close>)
  with s show ?thesis by (auto simp: rtllib_send_probe_requests_def rtllib_send_probe_def)
qed

lemma scan_keeps_domain_witness:
  "\<exists>m'. rtllib_softmac_scan_wq ex_scanning = Some m' \<and>
     (hw_log m' = hw_log ex_scanning \<and> mgmt_sent m' = mgmt_sent ex_scanning
     \<or> (\<exists>c < 161. channel_map (pDot11dInfo (m_d11 ex_scanning)) ! c \<noteq> 0 \<and> hw_log m' = hw_log ex_scanning @ [SetChannel (int c)] \<and>
          (mgmt_sent m' = mgmt_sent ex_scanning \<or> channel_map (pDot11dInfo (m_d11 ex_scanning)) ! c = 1 \<and> active_scan ex_scanning)))"
proof -
  let ?m = "upd_cur (\<lambda>n. n\<lparr>ht_channel := 6\<rparr>) (ex_scanning\<lparr>wq_scan := False, scan_watch_dog := 1\<rparr>)"
  have "\<exists>m'. rtllib_send_probe_requests (hw (SetChannel 6) ?m) = Some m'"
    by (rule ex_scanning_probes) (simp_all add: ex_scanning_def ex_mlme_def net_zero_def ex_dev_def)
  moreover have "ieee_up ex_scanning" "\<not> rf_off ex_scanning" "\<not> be_scan_inprogress ex_scanning" "m_scanning ex_scanning"
    "ht_channel (current_network ex_scanning) = 5" "scan_watch_dog ex_scanning = 0"
    by (simp_all add: ex_scanning_def ex_mlme_def net_zero_def)
  moreover have "channel_map (pDot11dInfo (m_d11 ex_scanning)) ! 6 = 1"
    by (simp add: ex_scanning_def ex_mlme_def ex_d11_def nth_list_update)
  ultimately have "\<exists>m'. rtllib_softmac_scan_wq ex_scanning = Some m'"
    by (auto simp: rtllib_softmac_scan_wq_def Let_def ex_scanning_step)
  then show ?thesis using scan_keeps_domain by blast
qed

end
