(* ===== verification/Spec2Isabelle.thy ===== *)
theory Spec2Isabelle
  imports Dot11d Rx_Reorder_Run BA_Props Rx_Props Crypt_WEP Crypt_CCMP_Props Crypt_TKIP_Props Tx_Props Tx_Ring_Drain HT_Assoc
    Net_Roundtrip Assoc_Safe
begin

text \<open>
  A model of the Linux driver of the RTL8190P wireless chip with what makes it correct.

  \<^bold>\<open>The driver.\<close> The upper half of the driver, the rtllib files under src/src, is an 802.11 station
  in software: it parses the frames that arrive, keeps the list of the networks it hears, joins one
  of them, and turns Ethernet frames into 802.11 frames. The lower half, the rtl and r819xE files,
  drives the chip: registers, descriptor rings and interrupts. Between the two stand the extensions
  of 802.11e and 802.11n: traffic streams, block acknowledgements, the reordering of received
  frames, aggregates and the negotiation of the rates. The files share one large structure,
  \<open>struct rtllib_device\<close>; each component of the model has a record with the fields that the
  component uses.

  \<^bold>\<open>How the parts work together.\<close> A received data frame goes through \<open>rtllib_rx\<close>, which finds its
  traffic stream (\<open>GetTs\<close>), decrypts it with one of three modules, puts fragments together, splits
  an aggregate and gives the result to the network stack, or to the reordering buffer of the stream
  when a block ack is in force. A received management frame goes through \<open>rtllib_rx_mgt\<close>: beacons
  update the list of networks and may start an association, responses move the association on,
  action frames go to the block ack handlers. A frame of the stack goes through \<open>rtllib_xmit\<close>,
  which makes fragments, chooses rates and starts block acks; the softmac sends the fragments or
  lets them wait; \<open>rtl8192_tx\<close> puts them on a ring, and the interrupt takes them off again.

  \<^bold>\<open>Theories, and the files they model.\<close>
  \<^item> Prelude: machine integers, byte buffers, socket buffers, timers and list lemmas; Frame: frame
    control and header lengths of rtllib.h; Kernel_List: the circular lists of the kernel as a
    store of links.
  \<^item> Dot11d: dot11d.c with the walk over country elements of rtllib_rx.c. The state holds the
    channel map and the power list; the abstract domain is the set of legal channels.
  \<^item> TS_Types, TS_Proc, TS_Spec, TS_Remove, TS_Init, TS_Props: rtl819x_TSProc.c. The records stay in
    their arrays and on linked lists; the abstract state is a table from peers and priorities to
    records, which lookup, admission and removal refine; and what the initialisation really builds.
  \<^item> BA_Proc, BA_Rx, BA_Props: rtl819x_BAProc.c, the records, frames, timers and handlers of block
    ack agreements, and the handshake of two devices.
  \<^item> Rx_Reorder, Rx_Reorder_Spec, Rx_Reorder_Run: the window and the pending list of a stream in
    rtllib_rx.c and the time-out in rtl819x_TSProc.c; they refine a receiver that numbers packets
    by unbounded integers.
  \<^item> Rx_Data, Rx_Path, Rx_Subframes, Rx_Fragments, Rx_Props: \<open>rtllib_rx\<close> of rtllib_rx.c with
    duplicates, fragments, aggregates and the owner of every buffer.
  \<^item> Crypt_Data with Crypt_WEP, Crypt_CCMP, Crypt_CCMP_Spec, Crypt_CCMP_Props, Crypt_TKIP and
    Crypt_TKIP_Props: the modules rtllib_crypt_wep.c, rtllib_crypt_ccmp.c and rtllib_crypt_tkip.c.
  \<^item> Tx_Data, Tx_Path, Tx_Xmit, Tx_Frag, Tx_Ciphers, Tx_Props: rtllib_tx.c, from the Ethernet frame
    to the fragments with their descriptors.
  \<^item> Tx_Ring, Tx_Queue, Tx_Ring_Spec, Tx_Ring_Moves, Tx_Ring_Props, Tx_Ring_Drain: the descriptor
    rings of rtl_core.c and rtl8192e.c, the queues in front of them in rtllib_softmac.c, tasklet and
    interrupt, with runs of events.
  \<^item> HT_Data, HT_Proc, HT_Rates, HT_Elements, HT_Props, HT_Assoc: rtl819x_HTProc.c, the negotiation
    of 802.11n settings, and the wireless mode of rtl_core.c.
  \<^item> Net_Data, Net_Parse, Net_Scan, Net_Safe, Net_Props: the information elements and the list of
    networks in rtllib_rx.c and the choice of a network in rtllib_softmac.c; Net_Hw: the registers
    that follow the link in rtl_core.c, rtl8192e.c and rtl_cam.c; Net_Frames, Net_Roundtrip: the
    management frames that rtllib_softmac.c builds, and what a receiver makes of a beacon.
  \<^item> Assoc_Steps, Assoc_Frames, Assoc_Props, Assoc_Safe: scanning, authentication, association,
    disassociation, start and stop in rtllib_softmac.c with the received frames of rtllib_rx.c that
    drive them. Work items and timers are flags, and \<open>mlme_run\<close> is a run of their events.

  \<^bold>\<open>How the code is translated.\<close> A function of the driver is a definition of the same name, from the
  state and its arguments to the new state. A fault (a read or write outside a buffer, a null
  pointer, a kernel list that is not walked to its end) is the value None; an error that the code
  returns is a value of its result. Integers have the width of the code, u8 to u64, and wrap
  around; a comparison that the C language makes after promotion to int is made on int. A spin lock
  makes an operation one step; the order of operations is an explicit list of events. Time is not
  modelled: a timer is the delay it was armed with or a flag, and its expiry is an event.

  \<^bold>\<open>The lemmas.\<close>
  \<^item> Refinements: the reordering buffer along any run of packets and time-outs, lookup and removal of
    traffic streams as operations on a table, the data queues as first in, first out queues, and the
    CCMP loops as the mode of its standard.
  \<^item> Invariants and safety: who owns a received buffer, the packets and pool entries of reordering,
    no fault and no overrun on the rings, no overflow of a network description or of the list of
    networks for a complete beacon, an association only with accepted networks, the state LINKED
    only after a successful response, scans only on allowed channels, negotiated settings within both
    sides, no accepted replay, no weak initial vector.
  \<^item> Round trips: the subframes of an aggregate, the fragments of a frame, each cipher over a
    channel, capability elements, and a beacon that the same code parses.
  \<^item> Progress: an association under way always has something that takes it on, a drained ring sends
    what waits, and the loop that gives a frame its admitted priority ends.
  \<^item> Errors: where the code does not do what it means to, the behaviour is a theorem too: a beacon
    shorter than its fixed part, a buffer that is freed twice, the receive record that the
    initialisation shares, fragments with different numbers, the management queue and the reset
    ring that get stuck, and a station that is stopped during an association.

  \<^bold>\<open>Interfaces.\<close> The locales state what a component relies on, and each is interpreted on the
  driver's own definitions: \<open>forward_sim\<close> (Prelude), simulation along runs, on the reordering
  buffer; \<open>linked_lists\<close> (Kernel_List) on the list operations; \<open>keyed_table\<close> (TS_Spec) on the
  lookup of streams; \<open>cipher_channel\<close> and \<open>replay_counter\<close> (Crypt_Data), the table of operations of
  the encryption modules, on WEP, CCMP and TKIP (WEP has no replay counter); \<open>tx_cipher\<close>
  (Tx_Frag), the space that a module announces to the transmit path, on the three modules.

  \<^bold>\<open>Bounds.\<close> Walks over kernel lists have \<open>LIST_FUEL\<close> = 40 steps: a pool has 32 records, so a
  well-formed list has at most 32 entries and the walks end, which the table lemmas prove; the
  outer None means that a broken list is walked in circles. The loop that wakes the management queue
  takes at most 5 rounds, the size of that queue. The other loops recurse on the data they
  consume, with a measure where that is not structural: bytes left of a frame, channels left of a
  scan until its watchdog ends it.

  \<^bold>\<open>Parameters.\<close> Code that is not under src is an argument: the checksum, stream cipher, block cipher
  and Michael hash of the kernel's crypto library, with the law that decryption inverts
  encryption where a round trip needs it; allocation, which may fail at any call; the mapping of
  buffers for the device and the device's progress on a ring; the content of memory that the code has
  not written (\<open>uninit\<close> and the stack); what a work item does to the device while a scan waits.

  \<^bold>\<open>Not modelled.\<close> Register sequences whose meaning is in the chip: start of the adapter, EEPROM,
  firmware download, radio and baseband (r819xE_phy.c, r8190_rtl8256.c, r8190P_hwimg.c), the
  control loops of rtl_dm.c, and the key table of rtl_cam.c; the hardware of the models is the log of
  the writes that matter for the link. The receive ring and its signal statistics, which no
  modelled decision reads. The watchdog and silent reset, power management and the sleep decisions
  of a station. The ioctl interfaces (rtllib_wx.c, rtl_wx.c, rtllib_softmac_wx.c, wpa_supplicant),
  the registry of ciphers, module and debug code: they set or show fields that are free in the
  models. Debug output, and fields that are written but never read, are left out.
\<close>

end
